(* ===== verification/Prelude.thy ===== *)
theory Prelude
  imports Main "HOL-Library.Word" "HOL-Library.Monad_Syntax"
begin

text \<open>
  Shared vocabulary of the development: the machine types of the C sources, the lemma
  collections the component theories fill, NUL-terminated strings, and the generic facts on
  lists and words that the component proofs use.
\<close>

unbundle bit_operations_syntax

section \<open>Machine types\<close>

type_synonym u8 = "8 word"
type_synonym u16 = "16 word"
type_synonym u32 = "32 word"
type_synonym u64 = "64 word"
type_synonym bytes = "u8 list"

text \<open>
  \<open>coder_simps\<close> holds the rewrite rules of the byte coder, \<open>send_defs\<close> the definitions of
  the message senders, \<open>fsm_defs\<close> the definitions of the location daemon's handlers, and
  \<open>fsm_simps\<close> the projections that those handlers keep.
\<close>

named_theorems coder_simps
named_theorems send_defs
named_theorems fsm_defs
named_theorems fsm_simps

section \<open>C strings\<close>

text \<open>
  \<open>cstr mem\<close> is the C string that starts at the first byte of \<open>mem\<close>; a \<open>char *\<close> argument is
  modelled by the memory it points to. \<open>c_string s\<close> says that \<open>s\<close> is the contents of a C
  string (no embedded NUL).
\<close>

definition cstr :: "bytes \<Rightarrow> bytes" where
  "cstr mem = takeWhile (\<lambda>b. b \<noteq> 0) mem"

definition strlen :: "bytes \<Rightarrow> nat" where
  "strlen mem = length (cstr mem)"

definition c_string :: "bytes \<Rightarrow> bool" where
  "c_string s \<longleftrightarrow> 0 \<notin> set s"

lemma cstr_append_nul [simp]: "c_string s \<Longrightarrow> cstr (s @ 0 # r) = s"
  by (induction s) (auto simp: cstr_def c_string_def)

lemma cstr_id: "c_string s \<Longrightarrow> cstr s = s"
  by (induction s) (auto simp: cstr_def c_string_def)

lemma c_string_cstr [simp]: "c_string (cstr m)"
  by (auto simp: cstr_def c_string_def dest: set_takeWhileD)

lemma c_string_Nil [simp]: "c_string []"
  by (simp add: c_string_def)

lemma strlen_id [simp]: "c_string s \<Longrightarrow> strlen s = length s"
  by (simp add: strlen_def cstr_id)

section \<open>Little-endian splitting of words\<close>

definition le16 :: "u16 \<Rightarrow> bytes" where
  "le16 v = [ucast v, ucast (drop_bit 8 v)]"

definition le32 :: "u32 \<Rightarrow> bytes" where
  "le32 v = le16 (ucast v) @ le16 (ucast (drop_bit 16 v))"

definition le64 :: "u64 \<Rightarrow> bytes" where
  "le64 v = le32 (ucast v) @ le32 (ucast (drop_bit 32 v))"

lemma length_le [simp]:
  "length (le16 a) = 2" "length (le32 b) = 4" "length (le64 c) = 8"
  by (simp_all add: le16_def le32_def le64_def)

lemma le_not_Nil [simp]: "le16 a \<noteq> []" "le32 b \<noteq> []" "le64 c \<noteq> []"
  by (simp_all add: le16_def le32_def le64_def)

lemma byte_masks:
  "(0xff :: u16) = mask 8" "(0xffff :: u32) = mask 16" "(0xffffffff :: u64) = mask 32"
  by (simp_all add: mask_eq_exp_minus_1)

lemma ucast_join16 [simp]:
  "(ucast (ucast v :: u8) AND 0xff) OR push_bit 8 (ucast (ucast (drop_bit 8 v) :: u8)) = (v :: u16)"
  unfolding byte_masks by (rule bit_word_eqI) (auto simp: bit_simps not_le)

lemma ucast_join32 [simp]:
  "(ucast (ucast v :: u16) AND 0xffff) OR push_bit 16 (ucast (ucast (drop_bit 16 v) :: u16)) = (v :: u32)"
  unfolding byte_masks by (rule bit_word_eqI) (auto simp: bit_simps not_le)

lemma ucast_join64 [simp]:
  "(ucast (ucast v :: u32) AND 0xffffffff) OR push_bit 32 (ucast (ucast (drop_bit 32 v) :: u32)) = (v :: u64)"
  unfolding byte_masks by (rule bit_word_eqI) (auto simp: bit_simps not_le)

lemma ucast_mask_drop [simp]:
  "(ucast (v AND 0xff) :: u8) = ucast (v :: u16)"
  "(ucast (w AND 0xffff) :: u16) = ucast (w :: u32)"
  "(ucast (x AND 0xffffffff) :: u32) = ucast (x :: u64)"
  unfolding byte_masks by (rule bit_word_eqI, auto simp: bit_simps)+

text \<open>An \<open>int\<close> read from its object representation.\<close>

definition of_le16 :: "bytes \<Rightarrow> u16" where
  "of_le16 bs = (ucast (bs ! 0) AND 0xff) OR push_bit 8 (ucast (bs ! 1))"

definition of_le32 :: "bytes \<Rightarrow> u32" where
  "of_le32 bs = (ucast (of_le16 bs) AND 0xffff) OR push_bit 16 (ucast (of_le16 (drop 2 bs)))"

definition of_le64 :: "bytes \<Rightarrow> u64" where
  "of_le64 bs = (ucast (of_le32 bs) AND 0xffffffff) OR push_bit 32 (ucast (of_le32 (drop 4 bs)))"

lemma of_le16_le16 [simp]: "of_le16 (le16 v @ r) = v"
  by (simp add: of_le16_def le16_def)

lemma of_le32_le32 [simp]: "of_le32 (le32 v @ r) = v" "of_le32 (le32 v) = v"
  by (simp_all add: of_le32_def le32_def) (metis append_Nil2 of_le16_le16 ucast_join32)

lemma of_le64_le64 [simp]: "of_le64 (le64 v @ r) = v" "of_le64 (le64 v) = v"
  by (simp_all add: of_le64_def le64_def)

end
