(* ===== verification/Data_Coder.thy ===== *)
theory Data_Coder
  imports Prelude
begin

text \<open>
  The byte coder of \<open>gps/mtk_mnld/utility/src/data_coder.c\<close>, which every local-socket
  protocol of the GPS stack uses (the copies under \<open>gps/gps_hal\<close> and \<open>gps/flp_hal\<close> are
  identical). The C functions take \<open>char* buff\<close> and \<open>int* offset\<close>; the model threads the pair
  \<open>(buff, offset)\<close>. \<open>None\<close> is an access outside the array, which C leaves undefined. An \<open>int\<close>
  is a \<open>u32\<close> read through \<open>sint\<close> where its sign matters; floats and doubles are their bit
  patterns, as the code copies them through integers of the same width.
\<close>

type_synonym cbuf = "bytes \<times> int"

section \<open>Reading\<close>

definition get_byte :: "int \<Rightarrow> cbuf \<Rightarrow> (u8 \<times> cbuf) option" where
  "get_byte src_len = (\<lambda>(buff, offset).
     if 0 \<le> offset \<and> offset < src_len then
       (if offset < int (length buff) then Some (buff ! nat offset, (buff, offset + 1)) else None)
     else Some (0, (buff, offset)))"

definition get_short :: "int \<Rightarrow> cbuf \<Rightarrow> (u16 \<times> cbuf) option" where
  "get_short src_len b = do {
     (b0, b) \<leftarrow> get_byte src_len b;
     (b1, b) \<leftarrow> get_byte src_len b;
     Some ((ucast b0 AND 0xff) OR push_bit 8 (ucast b1), b) }"

definition get_int :: "int \<Rightarrow> cbuf \<Rightarrow> (u32 \<times> cbuf) option" where
  "get_int src_len b = do {
     (s0, b) \<leftarrow> get_short src_len b;
     (s1, b) \<leftarrow> get_short src_len b;
     Some ((ucast s0 AND 0xffff) OR push_bit 16 (ucast s1), b) }"

definition get_long :: "int \<Rightarrow> cbuf \<Rightarrow> (u64 \<times> cbuf) option" where
  "get_long src_len b = do {
     (i0, b) \<leftarrow> get_int src_len b;
     (i1, b) \<leftarrow> get_int src_len b;
     Some ((ucast i0 AND 0xffffffff) OR push_bit 32 (ucast i1), b) }"

definition get_float :: "int \<Rightarrow> cbuf \<Rightarrow> (u32 \<times> cbuf) option" where
  "get_float src_len b = do { (tmp, b) \<leftarrow> get_int src_len b; Some (tmp, b) }"

definition get_double :: "int \<Rightarrow> cbuf \<Rightarrow> (u64 \<times> cbuf) option" where
  "get_double src_len b = do { (tmp, b) \<leftarrow> get_long src_len b; Some (tmp, b) }"

text \<open>
  \<open>get_string\<close> returns a pointer into the buffer, as the index of its first byte, or \<open>None\<close> for
  \<open>NULL\<close>; it writes a terminating NUL into the buffer.
\<close>

definition get_string :: "int \<Rightarrow> cbuf \<Rightarrow> (int option \<times> cbuf) option" where
  "get_string src_len b = do {
     (ret, b) \<leftarrow> get_byte src_len b;
     if ret = 0 then Some (None, b)
     else do {
       (n, (buff, offset)) \<leftarrow> get_int src_len b;
       let offset = (if offset < 0 \<or> offset \<ge> src_len then 0 else offset);
       let len = (if sint n > src_len - offset \<or> sint n < 0 then src_len - offset else sint n);
       if len \<le> 0 then Some (None, (buff, offset))
       else if offset + len \<le> int (length buff)
       then Some (Some offset, (buff[nat (offset + len - 1) := 0], offset + len))
       else None } }"

text \<open>The string a returned pointer denotes; \<open>get_string2\<close> maps \<open>NULL\<close> to the empty string.\<close>

definition cstr_at :: "bytes \<Rightarrow> int option \<Rightarrow> bytes option" where
  "cstr_at buff p = map_option (\<lambda>i. cstr (drop (nat i) buff)) p"

definition get_string2 :: "int \<Rightarrow> cbuf \<Rightarrow> (bytes \<times> cbuf) option" where
  "get_string2 src_len b = do {
     (p, (buff, offset)) \<leftarrow> get_string src_len b;
     Some (case cstr_at buff p of None \<Rightarrow> [] | Some s \<Rightarrow> s, (buff, offset)) }"

text \<open>
  \<open>get_binary\<close> copies into \<open>output\<close>, an array of at least \<open>des_len\<close> bytes whose other bytes are
  left as they were, and returns the length it read from the buffer (clipped, possibly negative).
\<close>

definition get_binary :: "int \<Rightarrow> int \<Rightarrow> bytes \<Rightarrow> cbuf \<Rightarrow> (int \<times> bytes \<times> cbuf) option" where
  "get_binary src_len des_len output = (\<lambda>(buff, offset).
     if 0 \<le> offset \<and> offset \<le> src_len then do {
       (n, (buff, offset)) \<leftarrow> get_int src_len (buff, offset);
       let lim = min (src_len - offset) des_len;
       let len = (if sint n > lim then lim else sint n);
       if len > 0 then
         (if offset + len \<le> int (length buff) \<and> len \<le> int (length output)
          then Some (len, take (nat len) (drop (nat offset) buff) @ drop (nat len) output,
                     (buff, offset + len))
          else None)
       else Some (len, output, (buff, offset)) }
     else Some (0, output, (buff, offset)))"

section \<open>Writing\<close>

definition put_byte :: "u8 \<Rightarrow> cbuf \<Rightarrow> cbuf option" where
  "put_byte input = (\<lambda>(buff, offset).
     if 0 \<le> offset \<and> offset < int (length buff)
     then Some (buff[nat offset := input], offset + 1) else None)"

definition put_short :: "u16 \<Rightarrow> cbuf \<Rightarrow> cbuf option" where
  "put_short input b = do {
     b \<leftarrow> put_byte (ucast (input AND 0xff)) b;
     put_byte (ucast (drop_bit 8 input AND 0xff)) b }"

definition put_int :: "u32 \<Rightarrow> cbuf \<Rightarrow> cbuf option" where
  "put_int input b = do {
     b \<leftarrow> put_short (ucast (input AND 0xffff)) b;
     put_short (ucast (drop_bit 16 input AND 0xffff)) b }"

definition put_long :: "u64 \<Rightarrow> cbuf \<Rightarrow> cbuf option" where
  "put_long input b = do {
     b \<leftarrow> put_int (ucast (input AND 0xffffffff)) b;
     put_int (ucast (drop_bit 32 input AND 0xffffffff)) b }"

definition put_float :: "u32 \<Rightarrow> cbuf \<Rightarrow> cbuf option" where
  "put_float data b = put_int data b"

definition put_double :: "u64 \<Rightarrow> cbuf \<Rightarrow> cbuf option" where
  "put_double data b = put_long data b"

text \<open>\<open>memcpy (&buff[offset], src, n); offset += n\<close>, with both ranges checked.\<close>

definition put_mem :: "bytes \<Rightarrow> nat \<Rightarrow> cbuf \<Rightarrow> cbuf option" where
  "put_mem src n = (\<lambda>(buff, offset).
     if n \<le> length src \<and> 0 \<le> offset \<and> nat offset + n \<le> length buff
     then Some (take (nat offset) buff @ take n src @ drop (nat offset + n) buff, offset + int n)
     else None)"

definition put_string :: "bytes option \<Rightarrow> cbuf \<Rightarrow> cbuf option" where
  "put_string input b =
     (case input of
        None \<Rightarrow> put_byte 0 b
      | Some s \<Rightarrow> do {
          let len = strlen s + 1;
          b \<leftarrow> put_byte 1 b;
          b \<leftarrow> put_int (of_nat len) b;
          put_mem (cstr s @ [0]) len b })"

definition put_binary :: "bytes \<Rightarrow> u32 \<Rightarrow> cbuf \<Rightarrow> cbuf option" where
  "put_binary input len b = do {
     b \<leftarrow> put_int len b;
     if sint len > 0 then put_mem input (nat (sint len)) b else Some b }"

section \<open>The cursor view of a buffer\<close>

text \<open>
  A buffer whose offset stands at the end of a prefix \<open>p\<close> is \<open>cursor p r\<close>. Every coder
  operation moves the boundary between \<open>p\<close> and \<open>r\<close>, so a chain of operations rewrites from
  cursor to cursor.
\<close>

definition cursor :: "bytes \<Rightarrow> bytes \<Rightarrow> cbuf" where
  "cursor p r = (p @ r, int (length p))"

definition enc_string :: "bytes option \<Rightarrow> bytes" where
  "enc_string input = (case input of None \<Rightarrow> [0]
     | Some s \<Rightarrow> 1 # le32 (of_nat (length s + 1)) @ s @ [0])"

lemma room_iff [coder_simps]: "0 < c \<Longrightarrow> (a - b < c) = (a < b + (c :: nat))"
  by auto

lemma put_byte_cursor [coder_simps]:
  "put_byte v (cursor p q) = (if q = [] then None else Some (cursor (p @ [v]) (tl q)))"
  by (cases q) (auto simp: put_byte_def cursor_def)

lemma put_short_cursor [coder_simps]:
  "put_short v (cursor p q) =
     (if length q < 2 then None else Some (cursor (p @ le16 v) (drop 2 q)))"
  by (cases q; cases "tl q") (auto simp: put_short_def coder_simps le16_def)

lemma put_int_cursor [coder_simps]:
  "put_int v (cursor p q) =
     (if length q < 4 then None else Some (cursor (p @ le32 v) (drop 4 q)))"
  by (auto simp: put_int_def coder_simps le32_def)

lemma put_long_cursor [coder_simps]:
  "put_long v (cursor p q) =
     (if length q < 8 then None else Some (cursor (p @ le64 v) (drop 8 q)))"
  by (auto simp: put_long_def coder_simps le64_def)

lemma put_mem_cursor [coder_simps]:
  "put_mem src n (cursor p q) =
     (if n \<le> length src \<and> n \<le> length q then Some (cursor (p @ take n src) (drop n q)) else None)"
  by (auto simp: put_mem_def cursor_def)

lemma put_string_cursor [coder_simps]:
  "put_string (Some s) (cursor p q) =
     (if length q < length (enc_string (Some (cstr s))) then None
      else Some (cursor (p @ enc_string (Some (cstr s))) (drop (length (enc_string (Some (cstr s)))) q)))"
  "put_string None (cursor p q) =
     (if q = [] then None else Some (cursor (p @ enc_string None) (tl q)))"
  by (cases q) (auto simp: put_string_def enc_string_def coder_simps strlen_def Let_def drop_Cons')

lemma put_binary_cursor [coder_simps]:
  "put_binary input len (cursor p q) =
     (if length q < 4 then None
      else if sint len \<le> 0 then Some (cursor (p @ le32 len) (drop 4 q))
      else if nat (sint len) \<le> length input \<and> 4 + nat (sint len) \<le> length q
      then Some (cursor (p @ le32 len @ take (nat (sint len)) input) (drop (4 + nat (sint len)) q))
      else None)"
  by (auto simp: put_binary_def coder_simps add.commute)

lemma get_byte_cursor [coder_simps]:
  "int (length p) < n \<Longrightarrow> get_byte n (cursor p (v # r)) = Some (v, cursor (p @ [v]) r)"
  by (auto simp: get_byte_def cursor_def)

lemma get_short_cursor [coder_simps]:
  "int (length p) + 2 \<le> n \<Longrightarrow> get_short n (cursor p (le16 v @ r)) = Some (v, cursor (p @ le16 v) r)"
  by (simp add: get_short_def le16_def coder_simps)

lemma get_int_cursor [coder_simps]:
  "int (length p) + 4 \<le> n \<Longrightarrow> get_int n (cursor p (le32 v @ r)) = Some (v, cursor (p @ le32 v) r)"
  by (simp add: get_int_def le32_def coder_simps)

lemma get_long_cursor [coder_simps]:
  "int (length p) + 8 \<le> n \<Longrightarrow> get_long n (cursor p (le64 v @ r)) = Some (v, cursor (p @ le64 v) r)"
  by (simp add: get_long_def le64_def coder_simps)

lemma get_float_cursor [coder_simps]:
  "int (length p) + 4 \<le> n \<Longrightarrow> get_float n (cursor p (le32 v @ r)) = Some (v, cursor (p @ le32 v) r)"
  by (simp add: get_float_def coder_simps)

lemma get_double_cursor [coder_simps]:
  "int (length p) + 8 \<le> n \<Longrightarrow> get_double n (cursor p (le64 v @ r)) = Some (v, cursor (p @ le64 v) r)"
  by (simp add: get_double_def coder_simps)

lemma sint_of_nat32: "k < 2 ^ 31 \<Longrightarrow> sint (of_nat k :: u32) = int k"
  by (simp add: sint_word_ariths signed_of_nat signed_take_bit_int_eq_self)

lemma get_string_cursor_None [coder_simps]:
  "int (length p) < n \<Longrightarrow>
     get_string n (cursor p (enc_string None @ r)) = Some (None, cursor (p @ enc_string None) r)"
  by (simp add: get_string_def enc_string_def coder_simps)

lemma get_string_cursor_Some [coder_simps]:
  assumes "int (length p) + int (length s) + 6 \<le> n" "n < 2 ^ 31"
  shows "get_string n (cursor p (enc_string (Some s) @ r))
    = Some (Some (int (length p) + 5), cursor (p @ enc_string (Some s)) r)"
proof -
  define L :: u32 where "L = of_nat (length s + 1)"
  have b: "get_byte n (cursor p (1 # le32 L @ s @ 0 # r))
      = Some (1, cursor (p @ [1]) (le32 L @ s @ 0 # r))"
    using assms by (subst get_byte_cursor) auto
  have i: "get_int n (cursor (p @ [1]) (le32 L @ s @ 0 # r))
      = Some (L, cursor (p @ 1 # le32 L) (s @ 0 # r))"
    using assms by (subst get_int_cursor) auto
  have l: "sint L = int (length s) + 1"
    using assms unfolding L_def by (subst sint_of_nat32) auto
  have u: "(q @ s @ 0 # r)[length q + length s := 0] = q @ s @ 0 # r" for q :: bytes
    by (simp add: list_update_append)
  have e: "enc_string (Some s) @ r = 1 # le32 L @ s @ 0 # r"
    by (simp add: enc_string_def L_def)
  have c: "cursor (p @ enc_string (Some s)) r
      = (p @ 1 # le32 L @ s @ 0 # r, int (length p) + int (length s) + 6)"
    by (simp add: cursor_def enc_string_def L_def)
  have n: "nat (int (length p) + 5 + (int (length s) + 1) - 1) = length p + 5 + length s"
    by simp
  show ?thesis
    unfolding get_string_def e b c
    using assms i l u [of "p @ 1 # le32 L"] n
    by (simp add: cursor_def Let_def)
qed

lemma get_binary_cursor [coder_simps]:
  assumes "sint len = int (length bs)" "int (length p) + 4 + int (length bs) \<le> n"
    "0 \<le> des" "nat des \<le> length out"
  shows "get_binary n des out (cursor p (le32 len @ bs @ r))
    = Some (int (min (length bs) (nat des)),
        take (nat des) bs @ drop (min (length bs) (nat des)) out,
        cursor (p @ le32 len @ take (nat des) bs) (drop (nat des) bs @ r))"
proof -
  have "get_int n (p @ le32 len @ bs @ r, int (length p)) = Some (len, cursor (p @ le32 len) (bs @ r))"
    using get_int_cursor [of p n len "bs @ r"] assms by (simp add: cursor_def)
  then show ?thesis
    using assms by (auto simp: get_binary_def cursor_def Let_def nat_add_distrib min_def not_le)
qed

section \<open>Field codecs\<close>

text \<open>
  A field codec is a writer and a reader that agree on an encoding: the writer appends exactly the
  encoding or fails for want of room, the reader consumes exactly the encoding.
\<close>

locale field_codec =
  fixes put :: "'a \<Rightarrow> cbuf \<Rightarrow> cbuf option"
    and get :: "int \<Rightarrow> cbuf \<Rightarrow> ('a \<times> cbuf) option"
    and enc :: "'a \<Rightarrow> bytes"
  assumes put_cursor: "put v (cursor p q) =
      (if length q < length (enc v) then None
       else Some (cursor (p @ enc v) (drop (length (enc v)) q)))"
    and put_range: "put v (buff, offset) = Some b \<Longrightarrow> 0 \<le> offset \<and> offset \<le> int (length buff)"
    and get_cursor: "int (length p) + int (length (enc v)) \<le> n \<Longrightarrow>
      get n (cursor p (enc v @ r)) = Some (v, cursor (p @ enc v) r)"
begin

lemma put_split:
  assumes "put v (buff, offset) = Some b"
  shows "0 \<le> offset" "nat offset + length (enc v) \<le> length buff"
    "b = cursor (take (nat offset) buff @ enc v) (drop (nat offset + length (enc v)) buff)"
proof -
  from put_range [OF assms] have r: "0 \<le> offset" "offset \<le> int (length buff)" by auto
  then have "(buff, offset) = cursor (take (nat offset) buff) (drop (nat offset) buff)"
    by (simp add: cursor_def)
  with assms put_cursor [of v "take (nat offset) buff" "drop (nat offset) buff"] r
  show "0 \<le> offset" "nat offset + length (enc v) \<le> length buff"
    "b = cursor (take (nat offset) buff @ enc v) (drop (nat offset + length (enc v)) buff)"
    by (auto split: if_splits simp: add.commute)
qed

lemma put_advances:
  assumes "put v (buff, offset) = Some (buff', offset')"
  shows "offset' = offset + int (length (enc v))" "length buff' = length buff"
    "offset' \<le> int (length buff)"
  using put_split [OF assms] by (auto simp: cursor_def)

lemma put_frame:
  assumes "put v (buff, offset) = Some (buff', offset')" "i < length buff"
    "int i < offset \<or> offset' \<le> int i"
  shows "buff' ! i = buff ! i"
proof -
  note sp = put_split [OF assms(1)]
  then have b: "buff' = take (nat offset) buff @ enc v @ drop (nat offset + length (enc v)) buff"
    and o: "offset' = offset + int (length (enc v))"
    by (simp_all add: cursor_def)
  show ?thesis
  proof (cases "int i < offset")
    case True
    with sp assms(2) show ?thesis by (simp add: b nth_append zless_nat_eq_int_zless)
  next
    case False
    with assms(3) o sp(1) have "nat offset + length (enc v) \<le> i" by simp
    with sp(2) show ?thesis by (auto simp: b nth_append)
  qed
qed

lemma round_trip:
  assumes "put v (buff, offset) = Some (buff', offset')" "offset' \<le> n"
  shows "get n (buff', offset) = Some (v, (buff', offset'))"
proof -
  note sp = put_split [OF assms(1)]
  have "get n (cursor (take (nat offset) buff) (enc v @ drop (nat offset + length (enc v)) buff))
      = Some (v, (buff', offset'))"
    using sp assms by (subst get_cursor) (auto simp: cursor_def)
  then show ?thesis using sp by (simp add: cursor_def)
qed

end

lemma put_byte_range: "put_byte v (buff, offset) = Some b \<Longrightarrow> 0 \<le> offset \<and> offset \<le> int (length buff)"
  by (auto simp: put_byte_def split: if_splits)

lemma put_short_range: "put_short v (buff, offset) = Some b \<Longrightarrow> 0 \<le> offset \<and> offset \<le> int (length buff)"
  by (auto simp: put_short_def bind_eq_Some_conv dest: put_byte_range)

lemma put_int_range: "put_int v (buff, offset) = Some b \<Longrightarrow> 0 \<le> offset \<and> offset \<le> int (length buff)"
  by (auto simp: put_int_def bind_eq_Some_conv dest: put_short_range)

lemma put_long_range: "put_long v (buff, offset) = Some b \<Longrightarrow> 0 \<le> offset \<and> offset \<le> int (length buff)"
  by (auto simp: put_long_def bind_eq_Some_conv dest: put_int_range)

interpretation byte_codec: field_codec put_byte get_byte "\<lambda>v. [v]"
  by unfold_locales (auto simp: coder_simps drop_Suc dest: put_byte_range)

interpretation short_codec: field_codec put_short get_short le16
  by unfold_locales (auto simp: coder_simps dest: put_short_range)

interpretation int_codec: field_codec put_int get_int le32
  by unfold_locales (auto simp: coder_simps dest: put_int_range)

interpretation long_codec: field_codec put_long get_long le64
  by unfold_locales (auto simp: coder_simps dest: put_long_range)

interpretation float_codec: field_codec put_float get_float le32
  by unfold_locales (auto simp: put_float_def coder_simps dest: put_int_range)

interpretation double_codec: field_codec put_double get_double le64
  by unfold_locales (auto simp: put_double_def coder_simps dest: put_long_range)

lemma put_string_range:
  "put_string v (buff, offset) = Some b \<Longrightarrow> 0 \<le> offset \<and> offset \<le> int (length buff)"
  by (cases v) (auto simp: put_string_def Let_def bind_eq_Some_conv dest: put_byte_range)

lemma put_string_split:
  assumes "put_string input (buff, offset) = Some b"
  shows "\<exists>P R. offset = int (length P) \<and> b = cursor (P @ enc_string (map_option cstr input)) R"
proof -
  from put_string_range [OF assms] have r: "0 \<le> offset" "offset \<le> int (length buff)" by auto
  then have c: "(buff, offset) = cursor (take (nat offset) buff) (drop (nat offset) buff)"
    and l: "offset = int (length (take (nat offset) buff))"
    by (simp_all add: cursor_def)
  have "\<exists>R. b = cursor (take (nat offset) buff @ enc_string (map_option cstr input)) R"
    using assms unfolding c by (cases input) (auto simp: coder_simps simp del: take_append split: if_splits)
  with l show ?thesis by blast
qed

section \<open>Memory safety of the readers\<close>

text \<open>
  With \<open>src_len\<close> at most the size of the array, no reader accesses memory outside it, whatever the
  bytes and whatever the offset, and the size of the array never changes.
\<close>

lemma get_byte_total:
  "n \<le> int (length buff) \<Longrightarrow> \<exists>v offset'. get_byte n (buff, offset) = Some (v, (buff, offset'))
     \<and> (offset' = offset \<or> 0 \<le> offset \<and> offset' = offset + 1 \<and> offset' \<le> n)"
  by (auto simp: get_byte_def)

lemma get_short_total:
  assumes "n \<le> int (length buff)"
  shows "\<exists>v offset'. get_short n (buff, offset) = Some (v, (buff, offset'))
    \<and> (offset' = offset \<or> 0 \<le> offset \<and> offset < offset' \<and> offset' \<le> n)"
proof -
  obtain v o1 where 1: "get_byte n (buff, offset) = Some (v, (buff, o1))"
    "o1 = offset \<or> 0 \<le> offset \<and> o1 = offset + 1 \<and> o1 \<le> n"
    using get_byte_total [OF assms] by blast
  obtain w o2 where 2: "get_byte n (buff, o1) = Some (w, (buff, o2))"
    "o2 = o1 \<or> 0 \<le> o1 \<and> o2 = o1 + 1 \<and> o2 \<le> n"
    using get_byte_total [OF assms] by blast
  from 1 2 show ?thesis by (auto simp: get_short_def)
qed

lemma get_int_total:
  assumes "n \<le> int (length buff)"
  shows "\<exists>v offset'. get_int n (buff, offset) = Some (v, (buff, offset'))
    \<and> (offset' = offset \<or> 0 \<le> offset \<and> offset < offset' \<and> offset' \<le> n)"
proof -
  obtain v o1 where 1: "get_short n (buff, offset) = Some (v, (buff, o1))"
    "o1 = offset \<or> 0 \<le> offset \<and> offset < o1 \<and> o1 \<le> n"
    using get_short_total [OF assms] by blast
  obtain w o2 where 2: "get_short n (buff, o1) = Some (w, (buff, o2))"
    "o2 = o1 \<or> 0 \<le> o1 \<and> o1 < o2 \<and> o2 \<le> n"
    using get_short_total [OF assms] by blast
  from 1 2 show ?thesis by (auto simp: get_int_def)
qed

lemma get_long_total:
  assumes "n \<le> int (length buff)"
  shows "\<exists>v offset'. get_long n (buff, offset) = Some (v, (buff, offset'))
    \<and> (offset' = offset \<or> 0 \<le> offset \<and> offset < offset' \<and> offset' \<le> n)"
proof -
  obtain v o1 where 1: "get_int n (buff, offset) = Some (v, (buff, o1))"
    "o1 = offset \<or> 0 \<le> offset \<and> offset < o1 \<and> o1 \<le> n"
    using get_int_total [OF assms] by blast
  obtain w o2 where 2: "get_int n (buff, o1) = Some (w, (buff, o2))"
    "o2 = o1 \<or> 0 \<le> o1 \<and> o1 < o2 \<and> o2 \<le> n"
    using get_int_total [OF assms] by blast
  from 1 2 show ?thesis by (auto simp: get_long_def)
qed

lemma get_string_total:
  assumes n: "n \<le> int (length buff)"
  shows "\<exists>p buff' offset'. get_string n (buff, offset) = Some (p, (buff', offset'))
    \<and> length buff' = length buff
    \<and> (\<forall>i. p = Some i \<longrightarrow> 0 \<le> i \<and> i < offset' \<and> offset' \<le> n \<and> buff' ! nat (offset' - 1) = 0)"
proof -
  obtain v o1 where 1: "get_byte n (buff, offset) = Some (v, (buff, o1))"
    using get_byte_total [OF n] by blast
  obtain w o2 where 2: "get_int n (buff, o1) = Some (w, (buff, o2))"
    using get_int_total [OF n] by blast
  define o3 where "o3 = (if o2 < 0 \<or> o2 \<ge> n then 0 else o2)"
  define l where "l = (if sint w > n - o3 \<or> sint w < 0 then n - o3 else sint w)"
  have o3: "0 \<le> o3" by (simp add: o3_def)
  have l: "l \<le> n - o3" by (simp add: l_def)
  have e: "get_string n (buff, offset) =
      (if v = 0 then Some (None, (buff, o1))
       else if l \<le> 0 then Some (None, (buff, o3))
       else Some (Some o3, (buff[nat (o3 + l - 1) := 0], o3 + l)))"
    using 1 2 n l by (auto simp: get_string_def Let_def l_def o3_def)
  show ?thesis
    unfolding e using o3 l n by (auto simp: nth_list_update)
qed

lemma get_binary_total:
  assumes n: "n \<le> int (length buff)" and d: "des \<le> int (length out)"
  shows "\<exists>len out' offset'. get_binary n des out (buff, offset) = Some (len, out', (buff, offset'))
    \<and> len \<le> max 0 des \<and> length out' = length out
    \<and> drop (nat len) out' = drop (nat len) out"
proof -
  obtain w o2 where 2: "get_int n (buff, offset) = Some (w, (buff, o2))"
    and r: "o2 = offset \<or> 0 \<le> offset \<and> offset < o2 \<and> o2 \<le> n"
    using get_int_total [OF n] by blast
  from 2 r n d show ?thesis
    by (auto simp: get_binary_def Let_def)
qed

text \<open>
  The same facts in the form the handlers' proofs use: \<open>rd_safe size m\<close> says that the reader
  \<open>m\<close> succeeds on every array of that size and keeps the size.
\<close>

definition sized :: "nat \<Rightarrow> cbuf \<Rightarrow> bool" where
  "sized k b \<longleftrightarrow> length (fst b) = k"

definition rd_safe :: "nat \<Rightarrow> (cbuf \<Rightarrow> ('a \<times> cbuf) option) \<Rightarrow> bool" where
  "rd_safe k m \<longleftrightarrow> (\<forall>b. sized k b \<longrightarrow> (\<exists>x b'. m b = Some (x, b') \<and> sized k b'))"

definition returns :: "'a option \<Rightarrow> bool" where
  "returns x \<longleftrightarrow> x \<noteq> None"

lemma returns_Some [simp]: "returns (Some x)"
  by (simp add: returns_def)

lemma rd_safe_bind:
  assumes "rd_safe k m" "sized k b" "\<And>x b'. sized k b' \<Longrightarrow> returns (f (x, b'))"
  shows "returns (m b \<bind> f)"
proof -
  from assms(1,2) obtain x b' where "m b = Some (x, b')" "sized k b'"
    unfolding rd_safe_def by blast
  with assms(3) show ?thesis by simp
qed

lemma rd_safe_getters:
  "rd_safe k (get_byte (int k))" "rd_safe k (get_short (int k))" "rd_safe k (get_int (int k))"
  "rd_safe k (get_long (int k))" "rd_safe k (get_string (int k))"
  using get_byte_total [of "int k"] get_short_total [of "int k"] get_int_total [of "int k"]
    get_long_total [of "int k"] get_string_total [of "int k"]
  by (fastforce simp: rd_safe_def sized_def)+

lemma rd_safe_float: "rd_safe k (get_float (int k))"
  unfolding get_float_def using rd_safe_getters(3) [of k] by (fastforce simp: rd_safe_def)

lemma rd_safe_double: "rd_safe k (get_double (int k))"
  unfolding get_double_def using rd_safe_getters(4) [of k] by (fastforce simp: rd_safe_def)

lemma rd_safe_binary:
  assumes "sized k b" "des \<le> int (length out)"
    "\<And>len out' b'. sized k b' \<Longrightarrow> length out' = length out \<Longrightarrow> returns (f (len, out', b'))"
  shows "returns (get_binary (int k) des out b \<bind> f)"
proof -
  obtain buff offset where b: "b = (buff, offset)" by fastforce
  with assms(1) have "int k \<le> int (length buff)" by (simp add: sized_def)
  from get_binary_total [OF this assms(2), of offset] assms(1,3) show ?thesis
    by (force simp: b sized_def returns_def)
qed

lemmas rd_safe_intros = rd_safe_binary rd_safe_bind rd_safe_getters rd_safe_float rd_safe_double

section \<open>Properties\<close>

text \<open>Whatever value is written at whatever offset of whatever buffer, reading the same type
  back from the offset where it was written returns the value and leaves the offset where the
  writer left it, for every fixed-width type of the coder.\<close>

theorem coder_round_trip:
  "(put_byte b (buff, offset) = Some (buff', offset') \<and> offset' \<le> n \<longrightarrow>
     get_byte n (buff', offset) = Some (b, (buff', offset'))) \<and>
   (put_short s (buff, offset) = Some (buff', offset') \<and> offset' \<le> n \<longrightarrow>
     get_short n (buff', offset) = Some (s, (buff', offset'))) \<and>
   (put_int i (buff, offset) = Some (buff', offset') \<and> offset' \<le> n \<longrightarrow>
     get_int n (buff', offset) = Some (i, (buff', offset'))) \<and>
   (put_long l (buff, offset) = Some (buff', offset') \<and> offset' \<le> n \<longrightarrow>
     get_long n (buff', offset) = Some (l, (buff', offset'))) \<and>
   (put_float f (buff, offset) = Some (buff', offset') \<and> offset' \<le> n \<longrightarrow>
     get_float n (buff', offset) = Some (f, (buff', offset'))) \<and>
   (put_double d (buff, offset) = Some (buff', offset') \<and> offset' \<le> n \<longrightarrow>
     get_double n (buff', offset) = Some (d, (buff', offset')))"
  by (blast intro: byte_codec.round_trip short_codec.round_trip int_codec.round_trip
        long_codec.round_trip float_codec.round_trip double_codec.round_trip)

theorem coder_round_trip_witness:
  "put_int 0x12345678 ([0, 0, 0, 0, 0, 9], 1) = Some ([0, 0x78, 0x56, 0x34, 0x12, 9], 5) \<and>
   get_int 6 ([0, 0x78, 0x56, 0x34, 0x12, 9], 1) =
     Some (0x12345678, ([0, 0x78, 0x56, 0x34, 0x12, 9], 5))"
proof -
  have p: "put_int 0x12345678 ([0, 0, 0, 0, 0, 9], 1) = Some ([0, 0x78, 0x56, 0x34, 0x12, 9], 5)"
    by code_simp
  show ?thesis using p coder_round_trip by fastforce
qed

text \<open>A string written by \<open>put_string\<close> at any offset of any buffer is read back by
  \<open>get_string\<close> as a pointer to the same C string, a \<open>NULL\<close> pointer as \<open>NULL\<close>, and the reader
  stops where the writer stopped.\<close>

theorem string_round_trip:
  assumes "put_string input (buff, offset) = Some (buff', offset')" "offset' \<le> n" "n < 2 ^ 31"
  shows "\<exists>p. get_string n (buff', offset) = Some (p, (buff', offset'))
    \<and> cstr_at buff' p = map_option cstr input"
proof -
  obtain P R where lp: "offset = int (length P)"
    and b: "(buff', offset') = cursor (P @ enc_string (map_option cstr input)) R"
    using put_string_split [OF assms(1)] by blast
  show ?thesis
  proof (cases input)
    case None
    with assms(2) b lp get_string_cursor_None [of P n R] show ?thesis
      by (simp add: cursor_def enc_string_def cstr_at_def)
  next
    case (Some s)
    let ?e = "enc_string (Some (cstr s))"
    have "get_string n (cursor P (?e @ R)) = Some (Some (offset + 5), cursor (P @ ?e) R)"
      using assms(2,3) b Some unfolding lp
      by (intro get_string_cursor_Some) (simp_all add: cursor_def enc_string_def)
    then have "get_string n (buff', offset) = Some (Some (offset + 5), (buff', offset'))"
      using b Some by (simp add: cursor_def lp)
    moreover have "drop (nat (offset + 5)) buff' = cstr s @ 0 # R"
      using b Some lp by (simp add: cursor_def enc_string_def nat_add_distrib drop_Cons')
    ultimately show ?thesis by (auto simp: cstr_at_def Some)
  qed
qed

text \<open>The readers are memory safe: as long as \<open>src_len\<close> (and \<open>des_len\<close>) do not exceed the
  arrays passed in, none of them reads or writes outside them, for arbitrary bytes and offsets; a
  string pointer that is returned lies inside the buffer and is NUL-terminated there.\<close>

theorem readers_memory_safe:
  assumes "src_len \<le> int (length buff)" "des_len \<le> int (length output)"
  shows "get_byte src_len (buff, offset) \<noteq> None \<and> get_short src_len (buff, offset) \<noteq> None
    \<and> get_int src_len (buff, offset) \<noteq> None \<and> get_long src_len (buff, offset) \<noteq> None
    \<and> get_binary src_len des_len output (buff, offset) \<noteq> None
    \<and> (\<exists>p buff' offset'. get_string src_len (buff, offset) = Some (p, (buff', offset'))
        \<and> length buff' = length buff
        \<and> (\<forall>i. p = Some i \<longrightarrow> 0 \<le> i \<and> i < offset' \<and> offset' \<le> src_len
              \<and> buff' ! nat (offset' - 1) = 0))"
  using get_byte_total [OF assms(1), of offset] get_short_total [OF assms(1), of offset]
    get_int_total [OF assms(1), of offset] get_long_total [OF assms(1), of offset]
    get_binary_total [OF assms, of offset] get_string_total [OF assms(1), of offset]
  by auto

theorem readers_memory_safe_witness:
  "get_int 3 ([1, 2, 3], 1) \<noteq> None \<and> get_binary 3 2 [0, 0] ([1, 2, 3], 7) \<noteq> None"
  using readers_memory_safe [of 3 "[1, 2, 3]" 2 "[0, 0]" 1]
    readers_memory_safe [of 3 "[1, 2, 3]" 2 "[0, 0]" 7] by simp

end
