(* ===== verification/Datagram.thy ===== *)
theory Datagram
  imports Data_Coder
begin

text \<open>
  The local datagram sockets of \<open>gps/mtk_mnld/utility/src/mtk_lbs_utility.c\<close>: \<open>safe_sendto\<close> and
  \<open>safe_recvfrom\<close> with their retry loops, the zero-initialised message buffer that every sender
  fills and every handler reads into, and the interface of a message channel (an encoder and a
  handler that agree), which the protocol theories interpret.
\<close>

section \<open>The retry loops\<close>

text \<open>What a \<open>sendto\<close> or \<open>recvfrom\<close> call can answer: a byte count, or -1 with an \<open>errno\<close>.\<close>

datatype errno = EINTR | EAGAIN | EOTHER
datatype sys_result = Sys_ok nat | Sys_err errno

text \<open>
  The loop over the answers the kernel gives to the successive calls; \<open>None\<close> means that the
  answers so far have not made it return.
\<close>

fun retry_loop :: "nat \<Rightarrow> sys_result list \<Rightarrow> int option" where
  "retry_loop retry [] = None"
| "retry_loop retry (Sys_ok n # rs) = Some (int n)"
| "retry_loop retry (Sys_err EINTR # rs) = retry_loop retry rs"
| "retry_loop retry (Sys_err EAGAIN # rs) =
     (if retry > 0 then retry_loop (retry - 1) rs else Some (- 1))"
| "retry_loop retry (Sys_err EOTHER # rs) = Some (- 1)"

definition safe_sendto :: "int \<Rightarrow> bool \<Rightarrow> sys_result list \<Rightarrow> int option" where
  "safe_sendto fd fcntl_ok rs =
     (if fd < 0 then Some (- 1) else if \<not> fcntl_ok then Some (- 1) else retry_loop 10 rs)"

text \<open>\<open>safe_recvfrom\<close> only logs a failing \<open>fcntl\<close> and goes on.\<close>

definition safe_recvfrom :: "sys_result list \<Rightarrow> int option" where
  "safe_recvfrom rs = retry_loop 10 rs"

text \<open>The number of \<open>EAGAIN\<close> answers before the first answer that ends the loop.\<close>

definition eagains :: "sys_result list \<Rightarrow> nat" where
  "eagains rs = length (filter (\<lambda>r. r = Sys_err EAGAIN)
     (takeWhile (\<lambda>r. r = Sys_err EAGAIN \<or> r = Sys_err EINTR) rs))"

lemma eagains_simps [simp]:
  "eagains [] = 0"
  "eagains (Sys_err EAGAIN # rs) = Suc (eagains rs)"
  "eagains (Sys_err EINTR # rs) = eagains rs"
  "eagains (Sys_ok n # rs) = 0"
  "eagains (Sys_err EOTHER # rs) = 0"
  by (simp_all add: eagains_def)

lemma retry_loop_exhausted: "retry < eagains rs \<Longrightarrow> retry_loop retry rs = Some (- 1)"
  by (induction retry rs rule: retry_loop.induct) auto

lemma retry_loop_delivers:
  "list_all (\<lambda>r. r = Sys_err EAGAIN \<or> r = Sys_err EINTR) rs \<Longrightarrow> eagains rs \<le> retry \<Longrightarrow>
     retry_loop retry (rs @ Sys_ok n # ss) = Some (int n)"
  by (induction retry rs rule: retry_loop.induct) auto

section \<open>Message buffers\<close>

text \<open>
  \<open>new_buff sz\<close> is \<open>char buff[sz] = {0}; int offset = 0\<close>; \<open>sent\<close> is what
  \<open>safe_sendto (path, buff, offset)\<close> hands to the socket; \<open>recv_buff sz d\<close> is the receive
  buffer after a datagram \<open>d\<close> has arrived in it.
\<close>

definition new_buff :: "nat \<Rightarrow> cbuf" where
  "new_buff sz = (replicate sz 0, 0)"

definition sent :: "cbuf \<Rightarrow> bytes" where
  "sent = (\<lambda>(buff, offset). take (nat offset) buff)"

definition recv_buff :: "nat \<Rightarrow> bytes \<Rightarrow> cbuf" where
  "recv_buff sz d = (take sz d @ replicate (sz - length d) 0, 0)"

lemma new_buff_cursor [coder_simps]: "new_buff sz = cursor [] (replicate sz 0)"
  by (simp add: new_buff_def cursor_def)

lemma sent_cursor [coder_simps]: "sent (cursor p q) = p"
  by (simp add: sent_def cursor_def)

lemma recv_buff_cursor [coder_simps]:
  "length d \<le> sz \<Longrightarrow> recv_buff sz d = cursor [] (d @ replicate (sz - length d) 0)"
  by (simp add: recv_buff_def cursor_def)

lemma recv_buff_length [simp]: "length (fst (recv_buff sz d)) = sz"
  by (simp add: recv_buff_def)

section \<open>Message channels\<close>

text \<open>
  A channel has senders that turn a message into a datagram and a handler that turns a datagram
  into the call it makes. The law: a well-formed message is sent, and the handler makes exactly
  the call for it (\<open>norm\<close> is what the receiver sees of a message).
\<close>

locale channel =
  fixes send :: "'m \<Rightarrow> bytes option"
    and recv :: "bytes \<Rightarrow> 'r"
    and deliver :: "'m \<Rightarrow> 'r"
    and wf :: "'m \<Rightarrow> bool"
  assumes transport: "wf m \<Longrightarrow> \<exists>d. send m = Some d \<and> recv d = deliver m"
begin

lemma send_recv: "wf m \<Longrightarrow> map_option recv (send m) = Some (deliver m)"
  using transport by fastforce

lemma no_confusion: "wf m \<Longrightarrow> wf m' \<Longrightarrow> send m = send m' \<Longrightarrow> deliver m = deliver m'"
  by (metis option.inject transport)

lemma in_order:
  "list_all wf ms \<Longrightarrow>
     map_option (map recv) (those (map send ms)) = Some (map deliver ms)"
proof (induction ms)
  case Nil
  then show ?case by simp
next
  case (Cons m ms)
  then obtain ds where ds: "those (map send ms) = Some ds" "map recv ds = map deliver ms"
    by auto
  from Cons.prems obtain d where "send m = Some d" "recv d = deliver m"
    using transport by auto
  with ds show ?case by simp
qed

end

text \<open>\<open>safe_sendto\<close> gives up after the eleventh \<open>EAGAIN\<close>, however the answers are
  interleaved with \<open>EINTR\<close>: it returns -1 at that point, and if the message is accepted
  before it returns the byte count.\<close>

theorem safe_sendto_bounded:
  assumes "0 \<le> fd"
  shows "(10 < eagains rs \<longrightarrow> safe_sendto fd True rs = Some (- 1)) \<and>
    (list_all (\<lambda>r. r = Sys_err EAGAIN \<or> r = Sys_err EINTR) rs \<and> eagains rs \<le> 10 \<longrightarrow>
       safe_sendto fd True (rs @ Sys_ok n # ss) = Some (int n))"
  using assms by (simp add: safe_sendto_def retry_loop_exhausted retry_loop_delivers)

theorem safe_sendto_bounded_witness:
  "safe_sendto 5 True (replicate 11 (Sys_err EAGAIN)) = Some (- 1) \<and>
   safe_sendto 5 True ([Sys_err EINTR, Sys_err EAGAIN] @ Sys_ok 12 # []) = Some (int 12)"
proof -
  have "(10::nat) < eagains (replicate 11 (Sys_err EAGAIN))"
    by (simp add: eagains_def)
  then show ?thesis
    using safe_sendto_bounded [of 5 "replicate 11 (Sys_err EAGAIN)"]
      safe_sendto_bounded [of 5 "[Sys_err EINTR, Sys_err EAGAIN]" 12 "[]"]
    by simp
qed

end
