(* ===== verification/Hal2Mnl.thy ===== *)
theory Hal2Mnl
  imports Datagram
begin

text \<open>
  The GPS HAL to MNLD protocol: the senders of \<open>gps/gps_hal/src/hal2mnl_interface.c\<close> and the
  handler \<open>hal2mnl_hdlr\<close> of \<open>gps/mtk_mnld/mnld_entity/src/mnl2hal_interface.c\<close>. A sender yields
  the datagram it passes to \<open>safe_sendto\<close> (\<open>None\<close>: it wrote past its buffer); the handler yields
  its return value and the callback it invoked, with the arguments. A \<open>char*\<close> argument is
  \<open>None\<close> for \<open>NULL\<close> and otherwise the bytes it points to.
\<close>

section \<open>Commands and calls\<close>

datatype hal2mnl_cmd =
    HAL2MNL_HAL_REBOOT
  | HAL2MNL_GPS_INIT
  | HAL2MNL_GPS_START
  | HAL2MNL_GPS_STOP
  | HAL2MNL_GPS_CLEANUP
  | HAL2MNL_GPS_INJECT_TIME
  | HAL2MNL_GPS_INJECT_LOCATION
  | HAL2MNL_GPS_DELETE_AIDING_DATA
  | HAL2MNL_GPS_SET_POSITION_MODE
  | HAL2MNL_DATA_CONN_OPEN
  | HAL2MNL_DATA_CONN_OPEN_WITH_APN_IP_TYPE
  | HAL2MNL_DATA_CONN_CLOSED
  | HAL2MNL_DATA_CONN_FAILED
  | HAL2MNL_SET_SERVER
  | HAL2MNL_SET_REF_LOCATION
  | HAL2MNL_SET_ID
  | HAL2MNL_NI_MESSAGE
  | HAL2MNL_NI_RESPOND
  | HAL2MNL_UPDATE_NETWORK_STATE
  | HAL2MNL_UPDATE_NETWORK_AVAILABILITY
  | HAL2MNL_GPS_MEASUREMENT
  | HAL2MNL_GPS_NAVIGATION
  | HAL2MNL_VZW_DEBUG

fun hal2mnl_code :: "hal2mnl_cmd \<Rightarrow> u32" where
    "hal2mnl_code HAL2MNL_HAL_REBOOT = 0"
  | "hal2mnl_code HAL2MNL_GPS_INIT = 101"
  | "hal2mnl_code HAL2MNL_GPS_START = 102"
  | "hal2mnl_code HAL2MNL_GPS_STOP = 103"
  | "hal2mnl_code HAL2MNL_GPS_CLEANUP = 104"
  | "hal2mnl_code HAL2MNL_GPS_INJECT_TIME = 105"
  | "hal2mnl_code HAL2MNL_GPS_INJECT_LOCATION = 106"
  | "hal2mnl_code HAL2MNL_GPS_DELETE_AIDING_DATA = 107"
  | "hal2mnl_code HAL2MNL_GPS_SET_POSITION_MODE = 108"
  | "hal2mnl_code HAL2MNL_DATA_CONN_OPEN = 201"
  | "hal2mnl_code HAL2MNL_DATA_CONN_OPEN_WITH_APN_IP_TYPE = 202"
  | "hal2mnl_code HAL2MNL_DATA_CONN_CLOSED = 203"
  | "hal2mnl_code HAL2MNL_DATA_CONN_FAILED = 204"
  | "hal2mnl_code HAL2MNL_SET_SERVER = 301"
  | "hal2mnl_code HAL2MNL_SET_REF_LOCATION = 302"
  | "hal2mnl_code HAL2MNL_SET_ID = 303"
  | "hal2mnl_code HAL2MNL_NI_MESSAGE = 401"
  | "hal2mnl_code HAL2MNL_NI_RESPOND = 402"
  | "hal2mnl_code HAL2MNL_UPDATE_NETWORK_STATE = 501"
  | "hal2mnl_code HAL2MNL_UPDATE_NETWORK_AVAILABILITY = 502"
  | "hal2mnl_code HAL2MNL_GPS_MEASUREMENT = 601"
  | "hal2mnl_code HAL2MNL_GPS_NAVIGATION = 602"
  | "hal2mnl_code HAL2MNL_VZW_DEBUG = 603"

text \<open>The \<open>switch\<close> of the handler: which enumerator, if any, an integer is.\<close>

definition hal2mnl_cmds :: "hal2mnl_cmd list" where
  "hal2mnl_cmds = [HAL2MNL_HAL_REBOOT,
     HAL2MNL_GPS_INIT,
     HAL2MNL_GPS_START,
     HAL2MNL_GPS_STOP,
     HAL2MNL_GPS_CLEANUP,
     HAL2MNL_GPS_INJECT_TIME,
     HAL2MNL_GPS_INJECT_LOCATION,
     HAL2MNL_GPS_DELETE_AIDING_DATA,
     HAL2MNL_GPS_SET_POSITION_MODE,
     HAL2MNL_DATA_CONN_OPEN,
     HAL2MNL_DATA_CONN_OPEN_WITH_APN_IP_TYPE,
     HAL2MNL_DATA_CONN_CLOSED,
     HAL2MNL_DATA_CONN_FAILED,
     HAL2MNL_SET_SERVER,
     HAL2MNL_SET_REF_LOCATION,
     HAL2MNL_SET_ID,
     HAL2MNL_NI_MESSAGE,
     HAL2MNL_NI_RESPOND,
     HAL2MNL_UPDATE_NETWORK_STATE,
     HAL2MNL_UPDATE_NETWORK_AVAILABILITY,
     HAL2MNL_GPS_MEASUREMENT,
     HAL2MNL_GPS_NAVIGATION,
     HAL2MNL_VZW_DEBUG]"

definition hal2mnl_of_code :: "u32 \<Rightarrow> hal2mnl_cmd option" where
  "hal2mnl_of_code v = find (\<lambda>c. hal2mnl_code c = v) hal2mnl_cmds"

text \<open>The entries of \<open>hal2mnl_interface\<close>, with the arguments the handler passes.\<close>

datatype hal2mnl_msg =
    Hal_reboot
  | Gps_init
  | Gps_start
  | Gps_stop
  | Gps_cleanup
  | Gps_inject_time u64 u64 u32
  | Gps_inject_location u64 u64 u32
  | Gps_delete_aiding_data u32
  | Gps_set_position_mode u32 u32 u32 u32 u32
  | Data_conn_open "bytes option"
  | Data_conn_open_with_apn_ip_type "bytes option" u32
  | Data_conn_closed
  | Data_conn_failed
  | Set_server u32 "bytes option" u32
  | Set_ref_location u32 u32 u32 u32 u32
  | Set_id u32 "bytes option"
  | Ni_message bytes int
  | Ni_respond u32 u32
  | Update_network_state u32 u32 u32 "bytes option"
  | Update_network_availability u32 "bytes option"
  | Set_gps_measurement bool
  | Set_gps_navigation bool
  | Set_vzw_debug bool

definition HAL_MNL_BUFF_SIZE :: nat where
  "HAL_MNL_BUFF_SIZE = 16 * 1024"

definition HAL_MNL_INTERFACE_VERSION :: u32 where
  "HAL_MNL_INTERFACE_VERSION = 1"

text \<open>
  The body every sender shares: a zeroed buffer, the interface version, the command, then the
  arguments written by \<open>put\<close>.
\<close>

definition hal_mnl_send :: "u32 \<Rightarrow> (cbuf \<Rightarrow> cbuf option) \<Rightarrow> bytes option" where
  "hal_mnl_send cmd put = do {
     b \<leftarrow> put_int HAL_MNL_INTERFACE_VERSION (new_buff HAL_MNL_BUFF_SIZE);
     b \<leftarrow> put_int cmd b;
     b \<leftarrow> put b;
     Some (sent b) }"

section \<open>Senders\<close>

definition hal2mnl_hal_reboot :: "bytes option" where [send_defs]:
  "hal2mnl_hal_reboot = hal_mnl_send (hal2mnl_code HAL2MNL_HAL_REBOOT) Some"

definition hal2mnl_gps_init :: "bytes option" where [send_defs]:
  "hal2mnl_gps_init = hal_mnl_send (hal2mnl_code HAL2MNL_GPS_INIT) Some"

definition hal2mnl_gps_start :: "bytes option" where [send_defs]:
  "hal2mnl_gps_start = hal_mnl_send (hal2mnl_code HAL2MNL_GPS_START) Some"

definition hal2mnl_gps_stop :: "bytes option" where [send_defs]:
  "hal2mnl_gps_stop = hal_mnl_send (hal2mnl_code HAL2MNL_GPS_STOP) Some"

definition hal2mnl_gps_cleanup :: "bytes option" where [send_defs]:
  "hal2mnl_gps_cleanup = hal_mnl_send (hal2mnl_code HAL2MNL_GPS_CLEANUP) Some"

definition hal2mnl_gps_inject_time :: "u64 \<Rightarrow> u64 \<Rightarrow> u32 \<Rightarrow> bytes option" where [send_defs]:
  "hal2mnl_gps_inject_time time time_reference uncertainty = hal_mnl_send (hal2mnl_code HAL2MNL_GPS_INJECT_TIME) (\<lambda>b. do {
     b \<leftarrow> put_long time b;
     b \<leftarrow> put_long time_reference b;
     put_int uncertainty b })"

definition hal2mnl_gps_inject_location :: "u64 \<Rightarrow> u64 \<Rightarrow> u32 \<Rightarrow> bytes option" where [send_defs]:
  "hal2mnl_gps_inject_location lat lng acc = hal_mnl_send (hal2mnl_code HAL2MNL_GPS_INJECT_LOCATION) (\<lambda>b. do {
     b \<leftarrow> put_double lat b;
     b \<leftarrow> put_double lng b;
     put_float acc b })"

definition hal2mnl_gps_delete_aiding_data :: "u32 \<Rightarrow> bytes option" where [send_defs]:
  "hal2mnl_gps_delete_aiding_data flags = hal_mnl_send (hal2mnl_code HAL2MNL_GPS_DELETE_AIDING_DATA) (put_int flags)"

definition hal2mnl_gps_set_position_mode_msg :: "u32 \<Rightarrow> u32 \<Rightarrow> u32 \<Rightarrow> u32 \<Rightarrow> u32 \<Rightarrow> bytes option" where [send_defs]:
  "hal2mnl_gps_set_position_mode_msg mode recurrence min_interval preferred_acc preferred_time = hal_mnl_send (hal2mnl_code HAL2MNL_GPS_SET_POSITION_MODE) (\<lambda>b. do {
     b \<leftarrow> put_int mode b;
     b \<leftarrow> put_int recurrence b;
     b \<leftarrow> put_int min_interval b;
     b \<leftarrow> put_int preferred_acc b;
     put_int preferred_time b })"

definition hal2mnl_data_conn_open :: "bytes option \<Rightarrow> bytes option" where [send_defs]:
  "hal2mnl_data_conn_open apn = hal_mnl_send (hal2mnl_code HAL2MNL_DATA_CONN_OPEN) (put_string apn)"

definition hal2mnl_data_conn_open_with_apn_ip_type :: "bytes option \<Rightarrow> u32 \<Rightarrow> bytes option" where [send_defs]:
  "hal2mnl_data_conn_open_with_apn_ip_type apn ip_type = hal_mnl_send (hal2mnl_code HAL2MNL_DATA_CONN_OPEN_WITH_APN_IP_TYPE) (\<lambda>b. do {
     b \<leftarrow> put_string apn b;
     put_int ip_type b })"

definition hal2mnl_data_conn_closed :: "bytes option" where [send_defs]:
  "hal2mnl_data_conn_closed = hal_mnl_send (hal2mnl_code HAL2MNL_DATA_CONN_CLOSED) Some"

definition hal2mnl_data_conn_failed :: "bytes option" where [send_defs]:
  "hal2mnl_data_conn_failed = hal_mnl_send (hal2mnl_code HAL2MNL_DATA_CONN_FAILED) Some"

definition hal2mnl_set_server :: "u32 \<Rightarrow> bytes option \<Rightarrow> u32 \<Rightarrow> bytes option" where [send_defs]:
  "hal2mnl_set_server type hostname port = hal_mnl_send (hal2mnl_code HAL2MNL_SET_SERVER) (\<lambda>b. do {
     b \<leftarrow> put_int type b;
     b \<leftarrow> put_string hostname b;
     put_int port b })"

definition hal2mnl_set_ref_location :: "u32 \<Rightarrow> u32 \<Rightarrow> u32 \<Rightarrow> u32 \<Rightarrow> u32 \<Rightarrow> bytes option" where [send_defs]:
  "hal2mnl_set_ref_location type mcc mnc lac cid = hal_mnl_send (hal2mnl_code HAL2MNL_SET_REF_LOCATION) (\<lambda>b. do {
     b \<leftarrow> put_int type b;
     b \<leftarrow> put_int mcc b;
     b \<leftarrow> put_int mnc b;
     b \<leftarrow> put_int lac b;
     put_int cid b })"

definition hal2mnl_set_id :: "u32 \<Rightarrow> bytes option \<Rightarrow> bytes option" where [send_defs]:
  "hal2mnl_set_id type setid = hal_mnl_send (hal2mnl_code HAL2MNL_SET_ID) (\<lambda>b. do {
     b \<leftarrow> put_int type b;
     put_string setid b })"

definition hal2mnl_ni_message :: "bytes \<Rightarrow> u32 \<Rightarrow> bytes option" where [send_defs]:
  "hal2mnl_ni_message msg len = hal_mnl_send (hal2mnl_code HAL2MNL_NI_MESSAGE) (put_binary msg len)"

definition hal2mnl_ni_respond :: "u32 \<Rightarrow> u32 \<Rightarrow> bytes option" where [send_defs]:
  "hal2mnl_ni_respond notif_id user_response = hal_mnl_send (hal2mnl_code HAL2MNL_NI_RESPOND) (\<lambda>b. do {
     b \<leftarrow> put_int notif_id b;
     put_int user_response b })"

definition hal2mnl_update_network_state :: "u32 \<Rightarrow> u32 \<Rightarrow> u32 \<Rightarrow> bytes option \<Rightarrow> bytes option" where [send_defs]:
  "hal2mnl_update_network_state connected type roaming extra_info = hal_mnl_send (hal2mnl_code HAL2MNL_UPDATE_NETWORK_STATE) (\<lambda>b. do {
     b \<leftarrow> put_int connected b;
     b \<leftarrow> put_int type b;
     b \<leftarrow> put_int roaming b;
     put_string extra_info b })"

definition hal2mnl_update_network_availability :: "u32 \<Rightarrow> bytes option \<Rightarrow> bytes option" where [send_defs]:
  "hal2mnl_update_network_availability available apn = hal_mnl_send (hal2mnl_code HAL2MNL_UPDATE_NETWORK_AVAILABILITY) (\<lambda>b. do {
     b \<leftarrow> put_int available b;
     put_string apn b })"

definition hal2mnl_set_gps_measurement :: "bool \<Rightarrow> bytes option" where [send_defs]:
  "hal2mnl_set_gps_measurement enabled = hal_mnl_send (hal2mnl_code HAL2MNL_GPS_MEASUREMENT) (put_int (of_bool enabled))"

definition hal2mnl_set_gps_navigation :: "bool \<Rightarrow> bytes option" where [send_defs]:
  "hal2mnl_set_gps_navigation enabled = hal_mnl_send (hal2mnl_code HAL2MNL_GPS_NAVIGATION) (put_int (of_bool enabled))"

definition hal2mnl_set_vzw_debug :: "bool \<Rightarrow> bytes option" where [send_defs]:
  "hal2mnl_set_vzw_debug enabled = hal_mnl_send (hal2mnl_code HAL2MNL_VZW_DEBUG) (put_int (of_bool enabled))"

text \<open>All senders as one function of the call they stand for.\<close>

fun hal2mnl_send :: "hal2mnl_msg \<Rightarrow> bytes option" where
    "hal2mnl_send Hal_reboot = hal2mnl_hal_reboot"
  | "hal2mnl_send Gps_init = hal2mnl_gps_init"
  | "hal2mnl_send Gps_start = hal2mnl_gps_start"
  | "hal2mnl_send Gps_stop = hal2mnl_gps_stop"
  | "hal2mnl_send Gps_cleanup = hal2mnl_gps_cleanup"
  | "hal2mnl_send (Gps_inject_time time time_reference uncertainty) = hal2mnl_gps_inject_time time time_reference uncertainty"
  | "hal2mnl_send (Gps_inject_location lat lng acc) = hal2mnl_gps_inject_location lat lng acc"
  | "hal2mnl_send (Gps_delete_aiding_data flags) = hal2mnl_gps_delete_aiding_data flags"
  | "hal2mnl_send (Gps_set_position_mode mode recurrence min_interval preferred_acc preferred_time) = hal2mnl_gps_set_position_mode_msg mode recurrence min_interval preferred_acc preferred_time"
  | "hal2mnl_send (Data_conn_open apn) = hal2mnl_data_conn_open apn"
  | "hal2mnl_send (Data_conn_open_with_apn_ip_type apn ip_type) = hal2mnl_data_conn_open_with_apn_ip_type apn ip_type"
  | "hal2mnl_send Data_conn_closed = hal2mnl_data_conn_closed"
  | "hal2mnl_send Data_conn_failed = hal2mnl_data_conn_failed"
  | "hal2mnl_send (Set_server type hostname port) = hal2mnl_set_server type hostname port"
  | "hal2mnl_send (Set_ref_location type mcc mnc lac cid) = hal2mnl_set_ref_location type mcc mnc lac cid"
  | "hal2mnl_send (Set_id type setid) = hal2mnl_set_id type setid"
  | "hal2mnl_send (Ni_message msg len) = hal2mnl_ni_message msg (of_int len)"
  | "hal2mnl_send (Ni_respond notif_id user_response) = hal2mnl_ni_respond notif_id user_response"
  | "hal2mnl_send (Update_network_state connected type roaming extra_info) = hal2mnl_update_network_state connected type roaming extra_info"
  | "hal2mnl_send (Update_network_availability available apn) = hal2mnl_update_network_availability available apn"
  | "hal2mnl_send (Set_gps_measurement enabled) = hal2mnl_set_gps_measurement enabled"
  | "hal2mnl_send (Set_gps_navigation enabled) = hal2mnl_set_gps_navigation enabled"
  | "hal2mnl_send (Set_vzw_debug enabled) = hal2mnl_set_vzw_debug enabled"

section \<open>The handler\<close>

text \<open>The argument decoding of each case of the \<open>switch\<close>, and the callback it then invokes.\<close>

abbreviation hal_mnl_n :: int where
  "hal_mnl_n \<equiv> int HAL_MNL_BUFF_SIZE"

fun hal2mnl_gps_case :: "hal2mnl_cmd \<Rightarrow> cbuf \<Rightarrow> (int \<times> hal2mnl_msg option) option" where
    "hal2mnl_gps_case HAL2MNL_HAL_REBOOT b = Some (0, Some Hal_reboot)"
  | "hal2mnl_gps_case HAL2MNL_GPS_INIT b = Some (0, Some Gps_init)"
  | "hal2mnl_gps_case HAL2MNL_GPS_START b = Some (0, Some Gps_start)"
  | "hal2mnl_gps_case HAL2MNL_GPS_STOP b = Some (0, Some Gps_stop)"
  | "hal2mnl_gps_case HAL2MNL_GPS_CLEANUP b = Some (0, Some Gps_cleanup)"
  | "hal2mnl_gps_case HAL2MNL_GPS_INJECT_TIME b = (do {
       (time, b) \<leftarrow> get_long hal_mnl_n b;
       (time_reference, b) \<leftarrow> get_long hal_mnl_n b;
       (uncertainty, b) \<leftarrow> get_int hal_mnl_n b;
       Some (0, Some (Gps_inject_time time time_reference uncertainty)) })"
  | "hal2mnl_gps_case HAL2MNL_GPS_INJECT_LOCATION b = (do {
       (lat, b) \<leftarrow> get_double hal_mnl_n b;
       (lng, b) \<leftarrow> get_double hal_mnl_n b;
       (acc, b) \<leftarrow> get_float hal_mnl_n b;
       Some (0, Some (Gps_inject_location lat lng acc)) })"
  | "hal2mnl_gps_case HAL2MNL_GPS_DELETE_AIDING_DATA b = (do {
       (flags, b) \<leftarrow> get_int hal_mnl_n b;
       Some (0, Some (Gps_delete_aiding_data flags)) })"
  | "hal2mnl_gps_case HAL2MNL_GPS_SET_POSITION_MODE b = (do {
       (mode, b) \<leftarrow> get_int hal_mnl_n b;
       (recurrence, b) \<leftarrow> get_int hal_mnl_n b;
       (min_interval, b) \<leftarrow> get_int hal_mnl_n b;
       (preferred_acc, b) \<leftarrow> get_int hal_mnl_n b;
       (preferred_time, b) \<leftarrow> get_int hal_mnl_n b;
       Some (0, Some (Gps_set_position_mode mode recurrence min_interval preferred_acc preferred_time)) })"
  | "hal2mnl_gps_case _ b = Some (- 1, None)"

fun hal2mnl_net_case :: "hal2mnl_cmd \<Rightarrow> cbuf \<Rightarrow> (int \<times> hal2mnl_msg option) option" where
    "hal2mnl_net_case HAL2MNL_DATA_CONN_OPEN b = (do {
       (apn, b) \<leftarrow> get_string hal_mnl_n b;
       Some (0, Some (Data_conn_open (cstr_at (fst b) apn))) })"
  | "hal2mnl_net_case HAL2MNL_DATA_CONN_OPEN_WITH_APN_IP_TYPE b = (do {
       (apn, b) \<leftarrow> get_string hal_mnl_n b;
       (ip_type, b) \<leftarrow> get_int hal_mnl_n b;
       Some (0, Some (Data_conn_open_with_apn_ip_type (cstr_at (fst b) apn) ip_type)) })"
  | "hal2mnl_net_case HAL2MNL_DATA_CONN_CLOSED b = Some (0, Some Data_conn_closed)"
  | "hal2mnl_net_case HAL2MNL_DATA_CONN_FAILED b = Some (0, Some Data_conn_failed)"
  | "hal2mnl_net_case HAL2MNL_SET_SERVER b = (do {
       (type, b) \<leftarrow> get_int hal_mnl_n b;
       (hostname, b) \<leftarrow> get_string hal_mnl_n b;
       (port, b) \<leftarrow> get_int hal_mnl_n b;
       Some (0, Some (Set_server type (cstr_at (fst b) hostname) port)) })"
  | "hal2mnl_net_case HAL2MNL_SET_REF_LOCATION b = (do {
       (type, b) \<leftarrow> get_int hal_mnl_n b;
       (mcc, b) \<leftarrow> get_int hal_mnl_n b;
       (mnc, b) \<leftarrow> get_int hal_mnl_n b;
       (lac, b) \<leftarrow> get_int hal_mnl_n b;
       (cid, b) \<leftarrow> get_int hal_mnl_n b;
       Some (0, Some (Set_ref_location type mcc mnc lac cid)) })"
  | "hal2mnl_net_case HAL2MNL_SET_ID b = (do {
       (type, b) \<leftarrow> get_int hal_mnl_n b;
       (setid, b) \<leftarrow> get_string hal_mnl_n b;
       Some (0, Some (Set_id type (cstr_at (fst b) setid))) })"
  | "hal2mnl_net_case HAL2MNL_NI_MESSAGE b = (do {
       (len, msg, b) \<leftarrow> get_binary hal_mnl_n 1024 (replicate 1024 0) b;
       Some (0, Some (Ni_message msg len)) })"
  | "hal2mnl_net_case HAL2MNL_NI_RESPOND b = (do {
       (notif_id, b) \<leftarrow> get_int hal_mnl_n b;
       (user_response, b) \<leftarrow> get_int hal_mnl_n b;
       Some (0, Some (Ni_respond notif_id user_response)) })"
  | "hal2mnl_net_case HAL2MNL_UPDATE_NETWORK_STATE b = (do {
       (connected, b) \<leftarrow> get_int hal_mnl_n b;
       (type, b) \<leftarrow> get_int hal_mnl_n b;
       (roaming, b) \<leftarrow> get_int hal_mnl_n b;
       (extra_info, b) \<leftarrow> get_string hal_mnl_n b;
       Some (0, Some (Update_network_state connected type roaming (cstr_at (fst b) extra_info))) })"
  | "hal2mnl_net_case HAL2MNL_UPDATE_NETWORK_AVAILABILITY b = (do {
       (available, b) \<leftarrow> get_int hal_mnl_n b;
       (apn, b) \<leftarrow> get_string hal_mnl_n b;
       Some (0, Some (Update_network_availability available (cstr_at (fst b) apn))) })"
  | "hal2mnl_net_case HAL2MNL_GPS_MEASUREMENT b = (do {
       (enabled, b) \<leftarrow> get_int hal_mnl_n b;
       Some (0, Some (Set_gps_measurement (enabled \<noteq> 0))) })"
  | "hal2mnl_net_case HAL2MNL_GPS_NAVIGATION b = (do {
       (enabled, b) \<leftarrow> get_int hal_mnl_n b;
       Some (0, Some (Set_gps_navigation (enabled \<noteq> 0))) })"
  | "hal2mnl_net_case HAL2MNL_VZW_DEBUG b = (do {
       (enabled, b) \<leftarrow> get_int hal_mnl_n b;
       Some (0, Some (Set_vzw_debug (enabled \<noteq> 0))) })"
  | "hal2mnl_net_case _ b = Some (- 1, None)"

definition is_gps_cmd :: "hal2mnl_cmd \<Rightarrow> bool" where
  "is_gps_cmd c \<longleftrightarrow> c \<in> {HAL2MNL_HAL_REBOOT, HAL2MNL_GPS_INIT, HAL2MNL_GPS_START, HAL2MNL_GPS_STOP, HAL2MNL_GPS_CLEANUP, HAL2MNL_GPS_INJECT_TIME, HAL2MNL_GPS_INJECT_LOCATION, HAL2MNL_GPS_DELETE_AIDING_DATA, HAL2MNL_GPS_SET_POSITION_MODE}"

text \<open>
  \<open>hdlr c\<close> says whether the function pointer of command \<open>c\<close> is set. \<open>recv\<close> is what
  \<open>safe_recvfrom\<close> delivered: \<open>None\<close> for -1.
\<close>

definition hal2mnl_hdlr ::
  "(hal2mnl_cmd \<Rightarrow> bool) \<Rightarrow> bytes option \<Rightarrow> (int \<times> hal2mnl_msg option) option" where
  "hal2mnl_hdlr hdlr recv =
     (case recv of
        None \<Rightarrow> Some (- 1, None)
      | Some d \<Rightarrow>
          if d = [] then Some (- 1, None)
          else do {
            (ver, b) \<leftarrow> get_int hal_mnl_n (recv_buff HAL_MNL_BUFF_SIZE d);
            (cmd, b) \<leftarrow> get_int hal_mnl_n b;
            (case hal2mnl_of_code cmd of
               None \<Rightarrow> Some (- 1, None)
             | Some c \<Rightarrow>
                 if \<not> hdlr c then Some (- 1, None)
                 else if is_gps_cmd c then hal2mnl_gps_case c b
                 else hal2mnl_net_case c b) })"

section \<open>Transport\<close>

lemma hal2mnl_of_code_code [simp]: "hal2mnl_of_code (hal2mnl_code c) = Some c"
  by (cases c) (simp_all add: hal2mnl_of_code_def hal2mnl_cmds_def)

lemma hal2mnl_of_code_Some: "hal2mnl_of_code v = Some c \<Longrightarrow> v = hal2mnl_code c"
  by (auto simp: hal2mnl_of_code_def find_Some_iff)

declare hal2mnl_code.simps [simp del]

lemma hal_mnl_send_eq:
  "hal_mnl_send cmd put = map_option sent
     (put (cursor (le32 HAL_MNL_INTERFACE_VERSION @ le32 cmd) (replicate (HAL_MNL_BUFF_SIZE - 8) 0)))"
  by (cases "put (cursor (le32 HAL_MNL_INTERFACE_VERSION @ le32 cmd) (replicate (HAL_MNL_BUFF_SIZE - 8) 0))")
    (simp_all add: hal_mnl_send_def coder_simps HAL_MNL_BUFF_SIZE_def)

lemma hal2mnl_hdlr_body:
  assumes "length body + 8 \<le> HAL_MNL_BUFF_SIZE"
  shows "hal2mnl_hdlr hdlr (Some (le32 ver @ le32 (hal2mnl_code c) @ body)) =
    (if \<not> hdlr c then Some (- 1, None)
     else if is_gps_cmd c
     then hal2mnl_gps_case c (cursor (le32 ver @ le32 (hal2mnl_code c))
            (body @ replicate (HAL_MNL_BUFF_SIZE - (length body + 8)) 0))
     else hal2mnl_net_case c (cursor (le32 ver @ le32 (hal2mnl_code c))
            (body @ replicate (HAL_MNL_BUFF_SIZE - (length body + 8)) 0)))"
  using assms by (simp add: hal2mnl_hdlr_def coder_simps HAL_MNL_BUFF_SIZE_def add.commute)

lemma hal2mnl_hdlr_plain:
  "hal2mnl_hdlr hdlr (Some (le32 ver @ le32 (hal2mnl_code c))) =
    (if \<not> hdlr c then Some (- 1, None)
     else if is_gps_cmd c
     then hal2mnl_gps_case c (cursor (le32 ver @ le32 (hal2mnl_code c)) (replicate (HAL_MNL_BUFF_SIZE - 8) 0))
     else hal2mnl_net_case c (cursor (le32 ver @ le32 (hal2mnl_code c)) (replicate (HAL_MNL_BUFF_SIZE - 8) 0)))"
  using hal2mnl_hdlr_body [of "[]"] by (simp add: HAL_MNL_BUFF_SIZE_def)

text \<open>The strings a sender can carry: no embedded NUL, and room for them in the buffer.\<close>

definition wire_string :: "bytes option \<Rightarrow> bool" where
  "wire_string s \<longleftrightarrow> (case s of None \<Rightarrow> True | Some t \<Rightarrow> c_string t \<and> length t \<le> 16350)"

fun wf_hal2mnl :: "hal2mnl_msg \<Rightarrow> bool" where
    "wf_hal2mnl (Data_conn_open apn) = wire_string apn"
  | "wf_hal2mnl (Data_conn_open_with_apn_ip_type apn _) = wire_string apn"
  | "wf_hal2mnl (Set_server _ hostname _) = wire_string hostname"
  | "wf_hal2mnl (Set_id _ setid) = wire_string setid"
  | "wf_hal2mnl (Update_network_state _ _ _ extra_info) = wire_string extra_info"
  | "wf_hal2mnl (Update_network_availability _ apn) = wire_string apn"
  | "wf_hal2mnl (Ni_message msg len) = (0 \<le> len \<and> len \<le> int (length msg) \<and> len \<le> 16372)"
  | "wf_hal2mnl _ = True"

text \<open>
  What the callback sees of a call: everything as sent, but a network-initiated message is clipped
  to the 1024-byte array of the handler and padded with zeros.
\<close>

fun hal2mnl_seen :: "hal2mnl_msg \<Rightarrow> hal2mnl_msg" where
    "hal2mnl_seen (Ni_message msg len) =
       (let k = min (nat len) 1024 in Ni_message (take k msg @ replicate (1024 - k) 0) (int k))"
  | "hal2mnl_seen m = m"

lemmas hal2mnl_wire = send_defs hal_mnl_send_eq hal2mnl_hdlr_body hal2mnl_hdlr_plain is_gps_cmd_def
  HAL_MNL_BUFF_SIZE_def coder_simps

lemma length_enc_string [simp]:
  "length (enc_string None) = 1" "length (enc_string (Some s)) = length s + 6"
  by (simp_all add: enc_string_def)

lemma wire_string_None [simp]: "wire_string None"
  by (simp add: wire_string_def)

lemma wire_string_Some [simp]: "wire_string (Some s) \<longleftrightarrow> c_string s \<and> length s \<le> 16350"
  by (simp add: wire_string_def)

lemma cstr_at_None [simp]: "cstr_at b None = None"
  by (simp add: cstr_at_def)

lemma fst_cursor [simp]: "fst (cursor p r) = p @ r"
  by (simp add: cursor_def)

lemma cstr_at_skip:
  "int (length p) \<le> i \<Longrightarrow> cstr_at (p @ q) (Some i) = cstr_at q (Some (i - int (length p)))"
  by (simp add: cstr_at_def nat_diff_distrib')

lemma cstr_at_enc: "c_string s \<Longrightarrow> cstr_at (enc_string (Some s) @ r) (Some 5) = Some s"
  by (simp add: cstr_at_def enc_string_def)

lemmas cstr_at_simps [simp] = cstr_at_skip cstr_at_enc

fun hal2mnl_string :: "hal2mnl_msg \<Rightarrow> bytes option option" where
    "hal2mnl_string (Data_conn_open apn) = Some apn"
  | "hal2mnl_string (Data_conn_open_with_apn_ip_type apn _) = Some apn"
  | "hal2mnl_string (Set_server _ hostname _) = Some hostname"
  | "hal2mnl_string (Set_id _ setid) = Some setid"
  | "hal2mnl_string (Update_network_state _ _ _ extra_info) = Some extra_info"
  | "hal2mnl_string (Update_network_availability _ apn) = Some apn"
  | "hal2mnl_string _ = None"

lemma hal2mnl_transport_fixed:
  "hal2mnl_string m = None \<Longrightarrow> \<forall>msg len. m \<noteq> Ni_message msg len \<Longrightarrow>
   map_option (\<lambda>d. hal2mnl_hdlr (\<lambda>_. True) (Some d)) (hal2mnl_send m)
     = Some (Some (0, Some (hal2mnl_seen m)))"
  by (cases m) (simp_all add: hal2mnl_wire put_float_def put_double_def)

lemma hal2mnl_transport_string:
  "hal2mnl_string m = Some s \<Longrightarrow> wire_string s \<Longrightarrow>
   map_option (\<lambda>d. hal2mnl_hdlr (\<lambda>_. True) (Some d)) (hal2mnl_send m)
     = Some (Some (0, Some (hal2mnl_seen m)))"
  by (cases s; cases m) (simp_all add: hal2mnl_wire cstr_id)

lemma hal2mnl_transport_ni:
  assumes "0 \<le> len" "len \<le> int (length msg)" "len \<le> 16372"
  shows "map_option (\<lambda>d. hal2mnl_hdlr (\<lambda>_. True) (Some d)) (hal2mnl_send (Ni_message msg len))
     = Some (Some (0, Some (hal2mnl_seen (Ni_message msg len))))"
proof -
  have l: "sint (of_int len :: u32) = len"
    using sint_of_nat32 [of "nat len"] assms by simp
  show ?thesis
  proof (cases "len = 0")
    case True
    then show ?thesis
      using get_binary_cursor [of 0 "[]"] by (simp add: hal2mnl_wire)
  next
    case False
    then show ?thesis
      using assms l by (simp add: hal2mnl_wire nat_le_iff Let_def min.commute)
  qed
qed

lemma hal2mnl_transport:
  assumes "wf_hal2mnl m"
  shows "map_option (\<lambda>d. hal2mnl_hdlr (\<lambda>_. True) (Some d)) (hal2mnl_send m)
     = Some (Some (0, Some (hal2mnl_seen m)))"
proof (cases "hal2mnl_string m")
  case None
  show ?thesis
  proof (cases "\<forall>msg len. m \<noteq> Ni_message msg len")
    case True
    with None show ?thesis by (rule hal2mnl_transport_fixed)
  next
    case False
    then obtain msg len where "m = Ni_message msg len" by blast
    with assms show ?thesis by (simp only: wf_hal2mnl.simps hal2mnl_transport_ni)
  qed
next
  case (Some s)
  moreover from assms Some have "wire_string s" by (cases m) auto
  ultimately show ?thesis by (rule hal2mnl_transport_string)
qed

interpretation hal2mnl: channel hal2mnl_send "\<lambda>d. hal2mnl_hdlr (\<lambda>_. True) (Some d)"
  "\<lambda>m. Some (0, Some (hal2mnl_seen m))" wf_hal2mnl
  by unfold_locales (use hal2mnl_transport in fastforce)

lemma hal2mnl_gps_case_safe: "sized HAL_MNL_BUFF_SIZE b \<Longrightarrow> returns (hal2mnl_gps_case c b)"
  by (cases c) (auto intro!: rd_safe_intros)

lemma hal2mnl_net_case_safe: "sized HAL_MNL_BUFF_SIZE b \<Longrightarrow> returns (hal2mnl_net_case c b)"
  by (cases c) (auto intro!: rd_safe_intros)

section \<open>Properties\<close>



text \<open>The handler is total on hostile input: whatever bytes arrive, of whatever length,
  and whichever callbacks are registered, it neither reads nor writes outside its buffers.\<close>

theorem hal2mnl_hdlr_memory_safe: "hal2mnl_hdlr hdlr recv \<noteq> None"
proof (cases recv)
  case None
  then show ?thesis by (simp add: hal2mnl_hdlr_def)
next
  case (Some d)
  have "sized HAL_MNL_BUFF_SIZE (recv_buff HAL_MNL_BUFF_SIZE d)" by (simp add: sized_def)
  with Some have "returns (hal2mnl_hdlr hdlr recv)"
    by (auto simp: hal2mnl_hdlr_def hal2mnl_gps_case_safe hal2mnl_net_case_safe
        intro!: rd_safe_intros split: option.split)
  then show ?thesis by (simp add: returns_def)
qed

text \<open>A command that is not in the enumeration, or whose callback is not registered, is
  refused with -1 and invokes nothing.\<close>

theorem hal2mnl_hdlr_refuses:
  assumes "length body + 8 \<le> HAL_MNL_BUFF_SIZE"
    and "hal2mnl_of_code cmd = None \<or> (\<exists>c. cmd = hal2mnl_code c \<and> \<not> hdlr c)"
  shows "hal2mnl_hdlr hdlr (Some (le32 ver @ le32 cmd @ body)) = Some (- 1, None)"
  using assms(2)
proof
  assume "hal2mnl_of_code cmd = None"
  with assms(1) show ?thesis
    by (simp add: hal2mnl_hdlr_def coder_simps HAL_MNL_BUFF_SIZE_def)
next
  assume "\<exists>c. cmd = hal2mnl_code c \<and> \<not> hdlr c"
  with assms(1) show ?thesis by (auto simp: hal2mnl_hdlr_body)
qed

text \<open>The senders do not check string lengths: a data-connection request overruns its
  16 KiB buffer exactly when the access point name is longer than 16370 bytes.\<close>

theorem hal2mnl_data_conn_open_overrun:
  "hal2mnl_data_conn_open (Some apn) = None \<longleftrightarrow> 16370 < strlen apn"
  by (auto simp: hal2mnl_wire strlen_def)

end
