(* ===== verification/Rate_Limit.thy ===== *)
theory Rate_Limit
  imports Complex_Main Prelude
begin

text \<open>
  The location rate limiter of the GPS HAL: the file-scope variables \<open>count\<close> and
  \<open>report_time_interval\<close> of \<open>gps/gps_hal/src/hal2mnl_interface.c\<close>, set by
  \<open>hal2mnl_gps_set_position_mode\<close> and consulted by the \<open>MNL2HAL_LOCATION\<close> case of
  \<open>mnl2hal_hdlr\<close>. Both are C \<open>float\<close>s; they are modelled as rationals with every operation
  followed by the rounding to 24 significant bits, ties to even, of IEEE 754 single precision.
\<close>

section \<open>Single-precision rounding\<close>

definition round_half_even :: "rat \<Rightarrow> int" where
  "round_half_even q =
     (let n = \<lfloor>q\<rfloor>; f = q - of_int n in
      if f < 1 / 2 then n
      else if f > 1 / 2 then n + 1
      else if even n then n else n + 1)"

text \<open>The weight of the last of the 24 bits, for values from 1 up to the largest exponent.\<close>

definition f32_ulp :: "rat \<Rightarrow> rat" where
  "f32_ulp x = (case find (\<lambda>k. x < 2 ^ (k + 1)) [0..<128] of None \<Rightarrow> 1 | Some k \<Rightarrow> 2 ^ k / 2 ^ 23)"

definition f32_round :: "rat \<Rightarrow> rat" where
  "f32_round x = of_int (round_half_even (x / f32_ulp x)) * f32_ulp x"

lemma round_half_even_of_int [simp]: "round_half_even (of_int n) = n"
  by (simp add: round_half_even_def)

lemma find_upt_le:
  assumes "P m" "m < n"
  shows "\<exists>j \<le> m. find P [0..<n] = Some j"
proof (cases "find P [0..<n]")
  case None
  with assms show ?thesis by (auto simp: find_None_iff)
next
  case (Some j)
  then have "j < n" "\<forall>i < j. \<not> P i" by (auto simp: find_Some_iff)
  with assms Some show ?thesis by (metis not_le)
qed

lemma f32_ulp_divides:
  assumes "1 \<le> k" "k < 2 ^ 24"
  shows "\<exists>n. 0 < f32_ulp (of_nat k) \<and> of_nat k / f32_ulp (of_nat k) = (of_int n :: rat)"
proof -
  let ?P = "\<lambda>j. (of_nat k :: rat) < 2 ^ (j + 1)"
  have "of_nat k < (of_nat (2 ^ 24) :: rat)" using assms(2) by (simp only: of_nat_less_iff)
  then have "?P 23" by simp
  then obtain j where j: "find ?P [0..<128] = Some j" "j \<le> 23"
    using find_upt_le [of ?P 23 128] by auto
  then have u: "f32_ulp (of_nat k) = 2 ^ j / 2 ^ 23" unfolding f32_ulp_def by simp
  have "(2 :: rat) ^ 23 = 2 ^ j * 2 ^ (23 - j)" using j(2) by (simp flip: power_add)
  then have "of_nat k / f32_ulp (of_nat k) = (of_int (int k * 2 ^ (23 - j)) :: rat)"
    unfolding u by (simp add: field_simps)
  moreover have "0 < f32_ulp (of_nat k)" unfolding u by simp
  ultimately show ?thesis by blast
qed

lemma f32_round_of_nat:
  assumes "1 \<le> k" "k < 2 ^ 24"
  shows "f32_round (of_nat k) = of_nat k"
proof -
  obtain n where n: "0 < f32_ulp (of_nat k)" "of_nat k / f32_ulp (of_nat k) = (of_int n :: rat)"
    using f32_ulp_divides [OF assms] by blast
  then have "f32_round (of_nat k) = of_int n * f32_ulp (of_nat k)"
    by (simp add: f32_round_def)
  also have "\<dots> = of_nat k" using n by (metis divide_cancel_right less_irrefl nonzero_divide_eq_eq)
  finally show ?thesis .
qed

section \<open>The limiter\<close>

record rate =
  count :: rat
  report_time_interval :: rat

definition rate_init :: rate where
  "rate_init = \<lparr>count = 0, report_time_interval = 0\<rparr>"

definition set_report_interval :: "int \<Rightarrow> rate \<Rightarrow> rate" where
  "set_report_interval min_interval r =
     (if min_interval \<le> 1000 then r\<lparr>report_time_interval := 1\<rparr>
      else r\<lparr>report_time_interval := f32_round (f32_round (of_int min_interval) / 1000)\<rparr>)"

definition rate_tick :: "rate \<Rightarrow> bool \<times> rate" where
  "rate_tick r =
     (let r = r\<lparr>count := f32_round (count r + 1)\<rparr> in
      if report_time_interval r > count r then (False, r) else (True, r\<lparr>count := 0\<rparr>))"

text \<open>The verdicts on the next \<open>n\<close> locations.\<close>

fun rate_run :: "nat \<Rightarrow> rate \<Rightarrow> bool list \<times> rate" where
    "rate_run 0 r = ([], r)"
  | "rate_run (Suc n) r =
       (let (p, r) = rate_tick r; (ps, r) = rate_run n r in (p # ps, r))"

lemma rate_tick_of_nat:
  assumes "count r = of_nat c" "report_time_interval r = of_nat k" "c < k" "k < 2 ^ 24"
  shows "rate_tick r = (if Suc c < k then (False, r\<lparr>count := of_nat (Suc c)\<rparr>) else (True, r\<lparr>count := 0\<rparr>))"
proof -
  have "f32_round (count r + 1) = of_nat (Suc c)"
    using f32_round_of_nat [of "Suc c"] assms by (simp add: add.commute)
  moreover have "(of_nat (Suc c) :: rat) < of_nat k \<longleftrightarrow> Suc c < k"
    by (simp only: of_nat_less_iff)
  ultimately show ?thesis using assms by (simp add: rate_tick_def Let_def)
qed

lemma rate_run_period:
  assumes "report_time_interval r = of_nat k" "k < 2 ^ 24" "count r = of_nat c" "c < k"
  shows "rate_run (k - c) r = (replicate (k - c - 1) False @ [True], r\<lparr>count := 0\<rparr>)"
  using assms(3,4,1)
proof (induction "k - c" arbitrary: c r)
  case 0
  then show ?case by simp
next
  case (Suc n)
  note tick = rate_tick_of_nat [OF Suc.prems(1,3,2) assms(2)]
  show ?case
  proof (cases "Suc c < k")
    case True
    let ?r = "r\<lparr>count := of_nat (Suc c)\<rparr>"
    have "rate_run (k - Suc c) ?r = (replicate (k - Suc c - 1) False @ [True], ?r\<lparr>count := 0\<rparr>)"
      using Suc True by (intro Suc.hyps(1)) auto
    moreover have "k - c = Suc (k - Suc c)" "k - c - 1 = Suc (k - Suc c - 1)" using True by auto
    ultimately show ?thesis using tick True by simp
  next
    case False
    with Suc.prems have "k - c = Suc 0" by simp
    then show ?thesis using tick False by simp
  qed
qed

lemma set_report_interval_exact:
  assumes "1 \<le> k" "k \<le> 16777"
  shows "report_time_interval (set_report_interval (1000 * int k) r) = of_nat k"
proof (cases "k = 1")
  case True
  then show ?thesis by (simp add: set_report_interval_def)
next
  case False
  have "f32_round (of_nat (1000 * k)) = of_nat (1000 * k)"
    using assms by (intro f32_round_of_nat) auto
  moreover have "f32_round (of_nat k) = of_nat k"
    using assms by (intro f32_round_of_nat) auto
  ultimately show ?thesis using False assms by (simp add: set_report_interval_def)
qed

lemma rate_run_whole:
  assumes "1 \<le> k" "k \<le> 16777" "count r = 0"
  shows "rate_run k (set_report_interval (1000 * int k) r) =
    (replicate (k - 1) False @ [True], set_report_interval (1000 * int k) r)"
proof -
  let ?r = "set_report_interval (1000 * int k) r"
  have c: "count ?r = of_nat 0" using assms(3) by (simp add: set_report_interval_def)
  then have "?r\<lparr>count := 0\<rparr> = ?r" by (cases ?r) simp
  then show ?thesis
    using rate_run_period [OF set_report_interval_exact [OF assms(1,2)] _ c] assms by simp
qed

end
