(* ===== verification/Mnl2Hal.thy ===== *)
theory Mnl2Hal
  imports Hal2Mnl Rate_Limit
begin

text \<open>
  The MNLD to GPS HAL protocol: the senders of \<open>gps/mtk_mnld/mnld_entity/src/mnl2hal_interface.c\<close>
  and the handler \<open>mnl2hal_hdlr\<close> of \<open>gps/gps_hal/src/hal2mnl_interface.c\<close>, which also thins out
  the location reports (\<open>Rate_Limit\<close>). Structs travel as their object representation; their sizes
  are those of the ABI (\<open>abi\<close>). A local that the handler leaves uninitialised holds arbitrary
  bytes (\<open>junk\<close>). Pointer arithmetic on \<open>NULL\<close> is undefined, hence \<open>None\<close>.
\<close>

section \<open>Commands, structs and calls\<close>

datatype mnl2hal_cmd =
    MNL2HAL_MNLD_REBOOT
  | MNL2HAL_LOCATION
  | MNL2HAL_GPS_STATUS
  | MNL2HAL_GPS_SV
  | MNL2HAL_NMEA
  | MNL2HAL_GPS_CAPABILITIES
  | MNL2HAL_GPS_MEASUREMENTS
  | MNL2HAL_GPS_NAVIGATION
  | MNL2HAL_GNSS_MEASUREMENTS
  | MNL2HAL_GNSS_NAVIGATION
  | MNL2HAL_REQUEST_WAKELOCK
  | MNL2HAL_RELEASE_WAKELOCK
  | MNL2HAL_REQUEST_UTC_TIME
  | MNL2HAL_REQUEST_DATA_CONN
  | MNL2HAL_RELEASE_DATA_CONN
  | MNL2HAL_REQUEST_NI_NOTIFY
  | MNL2HAL_REQUEST_SET_ID
  | MNL2HAL_REQUEST_REF_LOC
  | MNL2HAL_VZW_DEBUG_OUTPUT

fun mnl2hal_code :: "mnl2hal_cmd \<Rightarrow> u32" where
    "mnl2hal_code MNL2HAL_MNLD_REBOOT = 1"
  | "mnl2hal_code MNL2HAL_LOCATION = 101"
  | "mnl2hal_code MNL2HAL_GPS_STATUS = 102"
  | "mnl2hal_code MNL2HAL_GPS_SV = 103"
  | "mnl2hal_code MNL2HAL_NMEA = 104"
  | "mnl2hal_code MNL2HAL_GPS_CAPABILITIES = 105"
  | "mnl2hal_code MNL2HAL_GPS_MEASUREMENTS = 106"
  | "mnl2hal_code MNL2HAL_GPS_NAVIGATION = 107"
  | "mnl2hal_code MNL2HAL_GNSS_MEASUREMENTS = 108"
  | "mnl2hal_code MNL2HAL_GNSS_NAVIGATION = 109"
  | "mnl2hal_code MNL2HAL_REQUEST_WAKELOCK = 201"
  | "mnl2hal_code MNL2HAL_RELEASE_WAKELOCK = 202"
  | "mnl2hal_code MNL2HAL_REQUEST_UTC_TIME = 301"
  | "mnl2hal_code MNL2HAL_REQUEST_DATA_CONN = 302"
  | "mnl2hal_code MNL2HAL_RELEASE_DATA_CONN = 303"
  | "mnl2hal_code MNL2HAL_REQUEST_NI_NOTIFY = 304"
  | "mnl2hal_code MNL2HAL_REQUEST_SET_ID = 305"
  | "mnl2hal_code MNL2HAL_REQUEST_REF_LOC = 306"
  | "mnl2hal_code MNL2HAL_VZW_DEBUG_OUTPUT = 307"

definition mnl2hal_cmds :: "mnl2hal_cmd list" where
  "mnl2hal_cmds = [MNL2HAL_MNLD_REBOOT,
     MNL2HAL_LOCATION,
     MNL2HAL_GPS_STATUS,
     MNL2HAL_GPS_SV,
     MNL2HAL_NMEA,
     MNL2HAL_GPS_CAPABILITIES,
     MNL2HAL_GPS_MEASUREMENTS,
     MNL2HAL_GPS_NAVIGATION,
     MNL2HAL_GNSS_MEASUREMENTS,
     MNL2HAL_GNSS_NAVIGATION,
     MNL2HAL_REQUEST_WAKELOCK,
     MNL2HAL_RELEASE_WAKELOCK,
     MNL2HAL_REQUEST_UTC_TIME,
     MNL2HAL_REQUEST_DATA_CONN,
     MNL2HAL_RELEASE_DATA_CONN,
     MNL2HAL_REQUEST_NI_NOTIFY,
     MNL2HAL_REQUEST_SET_ID,
     MNL2HAL_REQUEST_REF_LOC,
     MNL2HAL_VZW_DEBUG_OUTPUT]"

definition mnl2hal_of_code :: "u32 \<Rightarrow> mnl2hal_cmd option" where
  "mnl2hal_of_code v = find (\<lambda>c. mnl2hal_code c = v) mnl2hal_cmds"

record abi =
  sizeof_gps_location :: nat
  sizeof_gnss_sv_info :: nat
  sizeof_gps_data :: nat
  sizeof_gps_nav_msg :: nat
  sizeof_gnss_data :: nat
  sizeof_gnss_nav_msg :: nat
  sizeof_sockaddr_storage :: nat

text \<open>Every struct fits the message buffer after the version, the command and its length.\<close>

definition abi_ok :: "abi \<Rightarrow> bool" where
  "abi_ok a \<longleftrightarrow> list_all (\<lambda>k. 0 < k \<and> k + 12 \<le> HAL_MNL_BUFF_SIZE)
     [sizeof_gps_location a,
      sizeof_gnss_sv_info a,
      sizeof_gps_data a,
      sizeof_gps_nav_msg a,
      sizeof_gnss_data a,
      sizeof_gnss_nav_msg a,
      sizeof_sockaddr_storage a]"

text \<open>The sizes under the LP64 ABI.\<close>

definition lp64 :: abi where
  "lp64 = \<lparr>sizeof_gps_location = 56, sizeof_gnss_sv_info = 1284, sizeof_gps_data = 7752,
     sizeof_gps_nav_msg = 56, sizeof_gnss_data = 8784, sizeof_gnss_nav_msg = 40,
     sizeof_sockaddr_storage = 128\<rparr>"

lemma abi_ok_lp64: "abi_ok lp64"
  by (simp add: abi_ok_def lp64_def HAL_MNL_BUFF_SIZE_def)

text \<open>The entries of \<open>mnl2hal_interface\<close>, with the arguments the handler passes.\<close>

datatype mnl2hal_msg =
    Mnld_reboot
  | Location bytes
  | Gps_status u32
  | Gps_sv bytes
  | Nmea u64 "bytes option" int
  | Gps_capabilities u32
  | Gps_measurements bytes
  | Gps_navigation bytes
  | Gnss_measurements bytes
  | Gnss_navigation bytes
  | Request_wakelock
  | Release_wakelock
  | Request_utc_time
  | Request_data_conn bytes
  | Release_data_conn
  | Request_ni_notify u32 u32 u32 "bytes option" "bytes option" u32 u32
  | Request_set_id u32
  | Request_ref_loc u32
  | Output_vzw_debug "bytes option"

section \<open>Senders\<close>

definition mnl2hal_mnld_reboot :: "bytes option" where [send_defs]:
  "mnl2hal_mnld_reboot = hal_mnl_send (mnl2hal_code MNL2HAL_MNLD_REBOOT) Some"

definition mnl2hal_location :: "abi \<Rightarrow> bytes \<Rightarrow> bytes option" where [send_defs]:
  "mnl2hal_location a location = hal_mnl_send (mnl2hal_code MNL2HAL_LOCATION)
     (put_binary location (of_nat (sizeof_gps_location a)))"

definition mnl2hal_gps_status :: "u32 \<Rightarrow> bytes option" where [send_defs]:
  "mnl2hal_gps_status status = hal_mnl_send (mnl2hal_code MNL2HAL_GPS_STATUS) (put_binary (le32 status) 4)"

definition mnl2hal_gps_sv :: "abi \<Rightarrow> bytes \<Rightarrow> bytes option" where [send_defs]:
  "mnl2hal_gps_sv a sv = hal_mnl_send (mnl2hal_code MNL2HAL_GPS_SV)
     (put_binary sv (of_nat (sizeof_gnss_sv_info a)))"

definition mnl2hal_nmea :: "u64 \<Rightarrow> bytes option \<Rightarrow> u32 \<Rightarrow> bytes option" where [send_defs]:
  "mnl2hal_nmea timestamp nmea len = hal_mnl_send (mnl2hal_code MNL2HAL_NMEA) (\<lambda>b. do {
     b \<leftarrow> put_long timestamp b;
     b \<leftarrow> put_string nmea b;
     put_int len b })"

definition mnl2hal_gps_capabilities :: "u32 \<Rightarrow> bytes option" where [send_defs]:
  "mnl2hal_gps_capabilities capabilities = hal_mnl_send (mnl2hal_code MNL2HAL_GPS_CAPABILITIES) (put_binary (le32 capabilities) 4)"

definition mnl2hal_gps_measurements :: "abi \<Rightarrow> bytes \<Rightarrow> bytes option" where [send_defs]:
  "mnl2hal_gps_measurements a data = hal_mnl_send (mnl2hal_code MNL2HAL_GPS_MEASUREMENTS)
     (put_binary data (of_nat (sizeof_gps_data a)))"

definition mnl2hal_gps_navigation :: "abi \<Rightarrow> bytes \<Rightarrow> bytes option" where [send_defs]:
  "mnl2hal_gps_navigation a msg = hal_mnl_send (mnl2hal_code MNL2HAL_GPS_NAVIGATION)
     (put_binary msg (of_nat (sizeof_gps_nav_msg a)))"

definition mnl2hal_gnss_measurements :: "abi \<Rightarrow> bytes \<Rightarrow> bytes option" where [send_defs]:
  "mnl2hal_gnss_measurements a data = hal_mnl_send (mnl2hal_code MNL2HAL_GNSS_MEASUREMENTS)
     (put_binary data (of_nat (sizeof_gnss_data a)))"

definition mnl2hal_gnss_navigation :: "abi \<Rightarrow> bytes \<Rightarrow> bytes option" where [send_defs]:
  "mnl2hal_gnss_navigation a msg = hal_mnl_send (mnl2hal_code MNL2HAL_GNSS_NAVIGATION)
     (put_binary msg (of_nat (sizeof_gnss_nav_msg a)))"

definition mnl2hal_request_wakelock :: "bytes option" where [send_defs]:
  "mnl2hal_request_wakelock = hal_mnl_send (mnl2hal_code MNL2HAL_REQUEST_WAKELOCK) Some"

definition mnl2hal_release_wakelock :: "bytes option" where [send_defs]:
  "mnl2hal_release_wakelock = hal_mnl_send (mnl2hal_code MNL2HAL_RELEASE_WAKELOCK) Some"

definition mnl2hal_request_utc_time :: "bytes option" where [send_defs]:
  "mnl2hal_request_utc_time = hal_mnl_send (mnl2hal_code MNL2HAL_REQUEST_UTC_TIME) Some"

definition mnl2hal_request_data_conn :: "abi \<Rightarrow> bytes \<Rightarrow> bytes option" where [send_defs]:
  "mnl2hal_request_data_conn a addr = hal_mnl_send (mnl2hal_code MNL2HAL_REQUEST_DATA_CONN)
     (put_binary addr (of_nat (sizeof_sockaddr_storage a)))"

definition mnl2hal_release_data_conn :: "bytes option" where [send_defs]:
  "mnl2hal_release_data_conn = hal_mnl_send (mnl2hal_code MNL2HAL_RELEASE_DATA_CONN) Some"

definition mnl2hal_request_ni_notify ::
  "u32 \<Rightarrow> u32 \<Rightarrow> u32 \<Rightarrow> bytes option \<Rightarrow> bytes option \<Rightarrow> u32 \<Rightarrow> u32 \<Rightarrow> bytes option" where [send_defs]:
  "mnl2hal_request_ni_notify session_id ni_type type requestor_id client_name
     requestor_id_encoding client_name_encoding =
   hal_mnl_send (mnl2hal_code MNL2HAL_REQUEST_NI_NOTIFY) (\<lambda>b. do {
     b \<leftarrow> put_int session_id b;
     b \<leftarrow> put_int type b;
     b \<leftarrow> put_string requestor_id b;
     b \<leftarrow> put_string client_name b;
     b \<leftarrow> put_int requestor_id_encoding b;
     b \<leftarrow> put_int client_name_encoding b;
     put_int ni_type b })"

definition mnl2hal_request_set_id :: "u32 \<Rightarrow> bytes option" where [send_defs]:
  "mnl2hal_request_set_id flags = hal_mnl_send (mnl2hal_code MNL2HAL_REQUEST_SET_ID) (put_int flags)"

definition mnl2hal_request_ref_loc :: "u32 \<Rightarrow> bytes option" where [send_defs]:
  "mnl2hal_request_ref_loc flags = hal_mnl_send (mnl2hal_code MNL2HAL_REQUEST_REF_LOC) (put_int flags)"

definition mnl2hal_vzw_debug_screen_output :: "bytes option \<Rightarrow> bytes option" where [send_defs]:
  "mnl2hal_vzw_debug_screen_output str = hal_mnl_send (mnl2hal_code MNL2HAL_VZW_DEBUG_OUTPUT) (put_string str)"

fun mnl2hal_send :: "abi \<Rightarrow> mnl2hal_msg \<Rightarrow> bytes option" where
    "mnl2hal_send a Mnld_reboot = mnl2hal_mnld_reboot"
  | "mnl2hal_send a (Location location) = mnl2hal_location a location"
  | "mnl2hal_send a (Gps_status status) = mnl2hal_gps_status status"
  | "mnl2hal_send a (Gps_sv sv) = mnl2hal_gps_sv a sv"
  | "mnl2hal_send a (Nmea timestamp nmea len) = mnl2hal_nmea timestamp nmea (of_int len)"
  | "mnl2hal_send a (Gps_capabilities capabilities) = mnl2hal_gps_capabilities capabilities"
  | "mnl2hal_send a (Gps_measurements data) = mnl2hal_gps_measurements a data"
  | "mnl2hal_send a (Gps_navigation msg) = mnl2hal_gps_navigation a msg"
  | "mnl2hal_send a (Gnss_measurements data) = mnl2hal_gnss_measurements a data"
  | "mnl2hal_send a (Gnss_navigation msg) = mnl2hal_gnss_navigation a msg"
  | "mnl2hal_send a Request_wakelock = mnl2hal_request_wakelock"
  | "mnl2hal_send a Release_wakelock = mnl2hal_release_wakelock"
  | "mnl2hal_send a Request_utc_time = mnl2hal_request_utc_time"
  | "mnl2hal_send a (Request_data_conn addr) = mnl2hal_request_data_conn a addr"
  | "mnl2hal_send a Release_data_conn = mnl2hal_release_data_conn"
  | "mnl2hal_send a (Request_ni_notify sid nt ty rid cn re ce) =
       mnl2hal_request_ni_notify sid nt ty rid cn re ce"
  | "mnl2hal_send a (Request_set_id flags) = mnl2hal_request_set_id flags"
  | "mnl2hal_send a (Request_ref_loc flags) = mnl2hal_request_ref_loc flags"
  | "mnl2hal_send a (Output_vzw_debug str) = mnl2hal_vzw_debug_screen_output str"

section \<open>The handler\<close>

definition uninit :: "(nat \<Rightarrow> u8) \<Rightarrow> nat \<Rightarrow> bytes" where
  "uninit junk k = map junk [0..<k]"

lemma length_uninit [simp]: "length (uninit junk k) = k"
  by (simp add: uninit_def)

text \<open>\<open>get_binary (buff, &offset, (char*)&local, sizeof (buff), sizeof (local))\<close> for an uninitialised local.\<close>

definition get_local :: "(nat \<Rightarrow> u8) \<Rightarrow> nat \<Rightarrow> cbuf \<Rightarrow> (bytes \<times> cbuf) option" where
  "get_local junk k b = do {
     (len, out, b) \<leftarrow> get_binary hal_mnl_n (int k) (uninit junk k) b;
     Some (out, b) }"

fun mnl2hal_report_case :: "abi \<Rightarrow> (nat \<Rightarrow> u8) \<Rightarrow> mnl2hal_cmd \<Rightarrow> cbuf \<Rightarrow> (int \<times> mnl2hal_msg option) option" where
    "mnl2hal_report_case a junk MNL2HAL_MNLD_REBOOT b = Some (0, Some Mnld_reboot)"
  | "mnl2hal_report_case a junk MNL2HAL_LOCATION b = (do {
       (location, b) \<leftarrow> get_local junk (sizeof_gps_location a) b;
       Some (0, Some (Location location)) })"
  | "mnl2hal_report_case a junk MNL2HAL_GPS_STATUS b = (do {
       (status, b) \<leftarrow> get_local junk 4 b;
       Some (0, Some (Gps_status (of_le32 status))) })"
  | "mnl2hal_report_case a junk MNL2HAL_GPS_SV b = (do {
       (sv, b) \<leftarrow> get_local junk (sizeof_gnss_sv_info a) b;
       Some (0, Some (Gps_sv sv)) })"
  | "mnl2hal_report_case a junk MNL2HAL_NMEA b = (do {
       (timestamp, b) \<leftarrow> get_long hal_mnl_n b;
       (nmea, b) \<leftarrow> get_string hal_mnl_n b;
       used_length \<leftarrow> nmea;
       (len, b) \<leftarrow> get_int hal_mnl_n b;
       Some (0, Some (Nmea timestamp (cstr_at (fst b) nmea)
         (min (sint len) (hal_mnl_n - used_length)))) })"
  | "mnl2hal_report_case a junk MNL2HAL_GPS_CAPABILITIES b = (do {
       (capabilities, b) \<leftarrow> get_local junk 4 b;
       Some (0, Some (Gps_capabilities (of_le32 capabilities))) })"
  | "mnl2hal_report_case a junk MNL2HAL_GPS_MEASUREMENTS b = (do {
       (data, b) \<leftarrow> get_local junk (sizeof_gps_data a) b;
       Some (0, Some (Gps_measurements data)) })"
  | "mnl2hal_report_case a junk MNL2HAL_GPS_NAVIGATION b = (do {
       (msg, b) \<leftarrow> get_local junk (sizeof_gps_nav_msg a) b;
       Some (0, Some (Gps_navigation msg)) })"
  | "mnl2hal_report_case a junk MNL2HAL_GNSS_MEASUREMENTS b = (do {
       (data, b) \<leftarrow> get_local junk (sizeof_gnss_data a) b;
       Some (0, Some (Gnss_measurements data)) })"
  | "mnl2hal_report_case a junk MNL2HAL_GNSS_NAVIGATION b = (do {
       (msg, b) \<leftarrow> get_local junk (sizeof_gnss_nav_msg a) b;
       Some (0, Some (Gnss_navigation msg)) })"
  | "mnl2hal_report_case a junk _ b = Some (- 1, None)"

fun mnl2hal_request_case :: "abi \<Rightarrow> (nat \<Rightarrow> u8) \<Rightarrow> mnl2hal_cmd \<Rightarrow> cbuf \<Rightarrow> (int \<times> mnl2hal_msg option) option" where
    "mnl2hal_request_case a junk MNL2HAL_REQUEST_WAKELOCK b = Some (0, Some Request_wakelock)"
  | "mnl2hal_request_case a junk MNL2HAL_RELEASE_WAKELOCK b = Some (0, Some Release_wakelock)"
  | "mnl2hal_request_case a junk MNL2HAL_REQUEST_UTC_TIME b = Some (0, Some Request_utc_time)"
  | "mnl2hal_request_case a junk MNL2HAL_REQUEST_DATA_CONN b = (do {
       (addr, b) \<leftarrow> get_local junk (sizeof_sockaddr_storage a) b;
       Some (0, Some (Request_data_conn addr)) })"
  | "mnl2hal_request_case a junk MNL2HAL_RELEASE_DATA_CONN b = Some (0, Some Release_data_conn)"
  | "mnl2hal_request_case a junk MNL2HAL_REQUEST_NI_NOTIFY b = (do {
       (session_id, b) \<leftarrow> get_int hal_mnl_n b;
       (type, b) \<leftarrow> get_int hal_mnl_n b;
       (requestor_id, b) \<leftarrow> get_string hal_mnl_n b;
       (client_name, b) \<leftarrow> get_string hal_mnl_n b;
       (requestor_id_encoding, b) \<leftarrow> get_int hal_mnl_n b;
       (client_name_encoding, b) \<leftarrow> get_int hal_mnl_n b;
       (ni_type, b) \<leftarrow> get_int hal_mnl_n b;
       Some (0, Some (Request_ni_notify session_id ni_type type
         (cstr_at (fst b) requestor_id) (cstr_at (fst b) client_name)
         requestor_id_encoding client_name_encoding)) })"
  | "mnl2hal_request_case a junk MNL2HAL_REQUEST_SET_ID b = (do {
       (flags, b) \<leftarrow> get_int hal_mnl_n b;
       Some (0, Some (Request_set_id flags)) })"
  | "mnl2hal_request_case a junk MNL2HAL_REQUEST_REF_LOC b = (do {
       (flags, b) \<leftarrow> get_int hal_mnl_n b;
       Some (0, Some (Request_ref_loc flags)) })"
  | "mnl2hal_request_case a junk MNL2HAL_VZW_DEBUG_OUTPUT b = (do {
       (str, b) \<leftarrow> get_string hal_mnl_n b;
       Some (0, Some (Output_vzw_debug (cstr_at (fst b) str))) })"
  | "mnl2hal_request_case a junk _ b = Some (- 1, None)"

definition is_report_cmd :: "mnl2hal_cmd \<Rightarrow> bool" where
  "is_report_cmd c \<longleftrightarrow> c \<in> {MNL2HAL_MNLD_REBOOT, MNL2HAL_LOCATION, MNL2HAL_GPS_STATUS, MNL2HAL_GPS_SV, MNL2HAL_NMEA, MNL2HAL_GPS_CAPABILITIES, MNL2HAL_GPS_MEASUREMENTS, MNL2HAL_GPS_NAVIGATION, MNL2HAL_GNSS_MEASUREMENTS, MNL2HAL_GNSS_NAVIGATION}"

definition mnl2hal_case ::
  "abi \<Rightarrow> (nat \<Rightarrow> u8) \<Rightarrow> mnl2hal_cmd \<Rightarrow> cbuf \<Rightarrow> (int \<times> mnl2hal_msg option) option" where
  "mnl2hal_case a junk c b = (if is_report_cmd c then mnl2hal_report_case a junk c b
     else mnl2hal_request_case a junk c b)"

definition location_gate :: "mnl2hal_cmd \<Rightarrow> rate \<Rightarrow> bool \<times> rate" where
  "location_gate c r = (if c = MNL2HAL_LOCATION then rate_tick r else (True, r))"

definition mnl2hal_gated ::
  "(mnl2hal_cmd \<Rightarrow> bool) \<Rightarrow> mnl2hal_cmd \<Rightarrow> (int \<times> mnl2hal_msg option) option \<Rightarrow> bool \<times> rate \<Rightarrow>
     (int \<times> mnl2hal_msg option \<times> rate) option" where
  "mnl2hal_gated hdlr c body = (\<lambda>(pass, r).
     if \<not> pass then Some (0, None, r)
     else if \<not> hdlr c then Some (- 1, None, r)
     else map_option (\<lambda>(ret, call). (ret, call, r)) body)"

text \<open>
  The handler threads the rate limiter; a suppressed location leaves the \<open>switch\<close> with
  \<open>ret = 0\<close> and no callback.
\<close>

definition mnl2hal_hdlr ::
  "abi \<Rightarrow> (nat \<Rightarrow> u8) \<Rightarrow> (mnl2hal_cmd \<Rightarrow> bool) \<Rightarrow> bytes option \<Rightarrow> rate \<Rightarrow>
     (int \<times> mnl2hal_msg option \<times> rate) option" where
  "mnl2hal_hdlr a junk hdlr recv r =
     (case recv of
        None \<Rightarrow> Some (- 1, None, r)
      | Some d \<Rightarrow>
          if d = [] then Some (- 1, None, r)
          else do {
            (ver, b) \<leftarrow> get_int hal_mnl_n (recv_buff HAL_MNL_BUFF_SIZE d);
            (cmd, b) \<leftarrow> get_int hal_mnl_n b;
            (case mnl2hal_of_code cmd of
               None \<Rightarrow> Some (- 1, None, r)
             | Some c \<Rightarrow>
                 mnl2hal_gated hdlr c (mnl2hal_case a junk c b) (location_gate c r)) })"

text \<open>\<open>hal2mnl_gps_set_position_mode\<close> as a whole: the datagram and the limiter's new interval.\<close>

definition hal2mnl_gps_set_position_mode ::
  "u32 \<Rightarrow> u32 \<Rightarrow> u32 \<Rightarrow> u32 \<Rightarrow> u32 \<Rightarrow> rate \<Rightarrow> bytes option \<times> rate" where
  "hal2mnl_gps_set_position_mode mode recurrence min_interval preferred_acc preferred_time r =
     (hal2mnl_gps_set_position_mode_msg mode recurrence min_interval preferred_acc preferred_time,
      set_report_interval (sint min_interval) r)"

text \<open>The HAL's receive loop on a sequence of datagrams: the callbacks made, in order.\<close>

fun mnl2hal_session ::
  "abi \<Rightarrow> (nat \<Rightarrow> u8) \<Rightarrow> bytes list \<Rightarrow> rate \<Rightarrow> (mnl2hal_msg list \<times> rate) option" where
    "mnl2hal_session a junk [] r = Some ([], r)"
  | "mnl2hal_session a junk (d # ds) r = do {
       (ret, call, r) \<leftarrow> mnl2hal_hdlr a junk (\<lambda>_. True) (Some d) r;
       (calls, r) \<leftarrow> mnl2hal_session a junk ds r;
       Some (case call of None \<Rightarrow> calls | Some c \<Rightarrow> c # calls, r) }"

section \<open>Transport\<close>

lemma mnl2hal_of_code_code [simp]: "mnl2hal_of_code (mnl2hal_code c) = Some c"
  by (cases c) (simp_all add: mnl2hal_of_code_def mnl2hal_cmds_def)

declare mnl2hal_code.simps [simp del]

lemma mnl2hal_hdlr_body:
  assumes "length body + 8 \<le> HAL_MNL_BUFF_SIZE"
  shows "mnl2hal_hdlr a junk hdlr (Some (le32 ver @ le32 (mnl2hal_code c) @ body)) r =
    mnl2hal_gated hdlr c
      (mnl2hal_case a junk c (cursor (le32 ver @ le32 (mnl2hal_code c))
            (body @ replicate (HAL_MNL_BUFF_SIZE - (length body + 8)) 0)))
      (location_gate c r)"
  using assms
  by (simp add: mnl2hal_hdlr_def coder_simps HAL_MNL_BUFF_SIZE_def add.commute)

lemma mnl2hal_hdlr_plain:
  "mnl2hal_hdlr a junk hdlr (Some (le32 ver @ le32 (mnl2hal_code c))) r =
    mnl2hal_gated hdlr c
      (mnl2hal_case a junk c (cursor (le32 ver @ le32 (mnl2hal_code c)) (replicate (HAL_MNL_BUFF_SIZE - 8) 0)))
      (location_gate c r)"
  using mnl2hal_hdlr_body [of "[]"] by (simp add: HAL_MNL_BUFF_SIZE_def)

text \<open>A struct sent with \<open>put_binary\<close> comes back unchanged, whatever the local held before.\<close>

lemma get_local_cursor:
  assumes "0 < k" "k + 12 \<le> HAL_MNL_BUFF_SIZE" "length bs = k" "length p + k + 4 + length r = HAL_MNL_BUFF_SIZE"
  shows "get_local junk k (cursor p (le32 (of_nat k) @ bs @ r)) =
    Some (bs, cursor (p @ le32 (of_nat k) @ bs) r)"
  using assms by (simp add: get_local_def get_binary_cursor sint_of_nat32 HAL_MNL_BUFF_SIZE_def)

text \<open>A message fits: structs have their size, strings no embedded NUL and room in the buffer.\<close>

fun wf_mnl2hal :: "abi \<Rightarrow> mnl2hal_msg \<Rightarrow> bool" where
    "wf_mnl2hal a (Location l) \<longleftrightarrow> length l = sizeof_gps_location a"
  | "wf_mnl2hal a (Gps_sv l) \<longleftrightarrow> length l = sizeof_gnss_sv_info a"
  | "wf_mnl2hal a (Gps_measurements l) \<longleftrightarrow> length l = sizeof_gps_data a"
  | "wf_mnl2hal a (Gps_navigation l) \<longleftrightarrow> length l = sizeof_gps_nav_msg a"
  | "wf_mnl2hal a (Gnss_measurements l) \<longleftrightarrow> length l = sizeof_gnss_data a"
  | "wf_mnl2hal a (Gnss_navigation l) \<longleftrightarrow> length l = sizeof_gnss_nav_msg a"
  | "wf_mnl2hal a (Request_data_conn l) \<longleftrightarrow> length l = sizeof_sockaddr_storage a"
  | "wf_mnl2hal a (Nmea _ s len) \<longleftrightarrow>
       s \<noteq> None \<and> wire_string s \<and> 0 \<le> len \<and> len \<le> int (length (the s))"
  | "wf_mnl2hal a (Request_ni_notify _ _ _ rid cn _ _) \<longleftrightarrow>
       wire_string rid \<and> wire_string cn \<and>
       length (enc_string rid) + length (enc_string cn) \<le> 16356"
  | "wf_mnl2hal a (Output_vzw_debug s) \<longleftrightarrow> wire_string s"
  | "wf_mnl2hal a _ \<longleftrightarrow> True"

fun mnl2hal_struct :: "mnl2hal_msg \<Rightarrow> (bytes \<times> (abi \<Rightarrow> nat)) option" where
    "mnl2hal_struct (Location l) = Some (l, sizeof_gps_location)"
  | "mnl2hal_struct (Gps_sv l) = Some (l, sizeof_gnss_sv_info)"
  | "mnl2hal_struct (Gps_measurements l) = Some (l, sizeof_gps_data)"
  | "mnl2hal_struct (Gps_navigation l) = Some (l, sizeof_gps_nav_msg)"
  | "mnl2hal_struct (Gnss_measurements l) = Some (l, sizeof_gnss_data)"
  | "mnl2hal_struct (Gnss_navigation l) = Some (l, sizeof_gnss_nav_msg)"
  | "mnl2hal_struct (Request_data_conn l) = Some (l, sizeof_sockaddr_storage)"
  | "mnl2hal_struct _ = None"

fun mnl2hal_cmd_of :: "mnl2hal_msg \<Rightarrow> mnl2hal_cmd" where
    "mnl2hal_cmd_of Mnld_reboot = MNL2HAL_MNLD_REBOOT"
  | "mnl2hal_cmd_of (Location _) = MNL2HAL_LOCATION"
  | "mnl2hal_cmd_of (Gps_status _) = MNL2HAL_GPS_STATUS"
  | "mnl2hal_cmd_of (Gps_sv _) = MNL2HAL_GPS_SV"
  | "mnl2hal_cmd_of (Nmea _ _ _) = MNL2HAL_NMEA"
  | "mnl2hal_cmd_of (Gps_capabilities _) = MNL2HAL_GPS_CAPABILITIES"
  | "mnl2hal_cmd_of (Gps_measurements _) = MNL2HAL_GPS_MEASUREMENTS"
  | "mnl2hal_cmd_of (Gps_navigation _) = MNL2HAL_GPS_NAVIGATION"
  | "mnl2hal_cmd_of (Gnss_measurements _) = MNL2HAL_GNSS_MEASUREMENTS"
  | "mnl2hal_cmd_of (Gnss_navigation _) = MNL2HAL_GNSS_NAVIGATION"
  | "mnl2hal_cmd_of Request_wakelock = MNL2HAL_REQUEST_WAKELOCK"
  | "mnl2hal_cmd_of Release_wakelock = MNL2HAL_RELEASE_WAKELOCK"
  | "mnl2hal_cmd_of Request_utc_time = MNL2HAL_REQUEST_UTC_TIME"
  | "mnl2hal_cmd_of (Request_data_conn _) = MNL2HAL_REQUEST_DATA_CONN"
  | "mnl2hal_cmd_of Release_data_conn = MNL2HAL_RELEASE_DATA_CONN"
  | "mnl2hal_cmd_of (Request_ni_notify _ _ _ _ _ _ _) = MNL2HAL_REQUEST_NI_NOTIFY"
  | "mnl2hal_cmd_of (Request_set_id _) = MNL2HAL_REQUEST_SET_ID"
  | "mnl2hal_cmd_of (Request_ref_loc _) = MNL2HAL_REQUEST_REF_LOC"
  | "mnl2hal_cmd_of (Output_vzw_debug _) = MNL2HAL_VZW_DEBUG_OUTPUT"

lemmas mnl2hal_wire = send_defs hal_mnl_send_eq mnl2hal_hdlr_body mnl2hal_hdlr_plain mnl2hal_case_def
  is_report_cmd_def HAL_MNL_BUFF_SIZE_def coder_simps

text \<open>What the HAL does with the datagram of a message: the limiter decides on locations.\<close>

definition mnl2hal_outcome :: "rate \<Rightarrow> mnl2hal_msg \<Rightarrow> (int \<times> mnl2hal_msg option \<times> rate) option" where
  "mnl2hal_outcome r m = mnl2hal_gated (\<lambda>_. True) (mnl2hal_cmd_of m) (Some (0, Some m))
     (location_gate (mnl2hal_cmd_of m) r)"

lemma mnl2hal_transport_struct:
  assumes "abi_ok a" "mnl2hal_struct m = Some (l, sz)" "length l = sz a"
  shows "map_option (\<lambda>d. mnl2hal_hdlr a junk (\<lambda>_. True) (Some d) r) (mnl2hal_send a m)
    = Some (mnl2hal_outcome r m)"
proof -
  have k: "0 < sz a" "sz a + 12 \<le> 16384"
    using assms(1,2) by (cases m; auto simp: abi_ok_def HAL_MNL_BUFF_SIZE_def)+
  have t: "sint (of_nat (sz a) :: u32) = int (sz a)" using k by (simp add: sint_of_nat32)
  have g: "get_local junk (sz a) (cursor p (le32 (of_nat (sz a)) @ l @ r)) =
      Some (l, cursor (p @ le32 (of_nat (sz a)) @ l) r)"
    if "length p = 8" "length r = 16384 - (sz a + 12)" for p r
    using that k assms(3) by (intro get_local_cursor) (auto simp: HAL_MNL_BUFF_SIZE_def)
  show ?thesis
    using assms(2,3) k t g by (cases m) (auto simp: mnl2hal_wire mnl2hal_outcome_def)
qed

lemma get_local_int:
  assumes "length p + 8 + length q = HAL_MNL_BUFF_SIZE"
  shows "get_local junk 4 (cursor p (le32 4 @ le32 v @ q)) = Some (le32 v, cursor (p @ le32 4 @ le32 v) q)"
  using get_local_cursor [of 4 "le32 v" p q junk] assms by (simp add: HAL_MNL_BUFF_SIZE_def)

lemma mnl2hal_transport_word:
  assumes "m \<in> {Gps_status v, Gps_capabilities v}"
  shows "map_option (\<lambda>d. mnl2hal_hdlr a junk (\<lambda>_. True) (Some d) r) (mnl2hal_send a m)
    = Some (mnl2hal_outcome r m)"
  using assms by (auto simp: mnl2hal_wire mnl2hal_outcome_def get_local_int)

lemma mnl2hal_transport_plain:
  assumes "m \<in> {Mnld_reboot, Request_wakelock, Release_wakelock, Request_utc_time,
    Release_data_conn, Request_set_id v, Request_ref_loc v}"
  shows "map_option (\<lambda>d. mnl2hal_hdlr a junk (\<lambda>_. True) (Some d) r) (mnl2hal_send a m)
    = Some (mnl2hal_outcome r m)"
  using assms by (auto simp: mnl2hal_wire mnl2hal_outcome_def)

lemma mnl2hal_transport_vzw:
  assumes "wire_string s"
  shows "map_option (\<lambda>d. mnl2hal_hdlr a junk (\<lambda>_. True) (Some d) r) (mnl2hal_send a (Output_vzw_debug s))
    = Some (mnl2hal_outcome r (Output_vzw_debug s))"
  using assms by (cases s) (simp_all add: mnl2hal_wire mnl2hal_outcome_def cstr_id)

lemma mnl2hal_transport_nmea:
  assumes "c_string s" "length s \<le> 16350" "0 \<le> len" "len \<le> int (length s)"
  shows "map_option (\<lambda>d. mnl2hal_hdlr a junk (\<lambda>_. True) (Some d) r) (mnl2hal_send a (Nmea t (Some s) len))
    = Some (mnl2hal_outcome r (Nmea t (Some s) len))"
proof -
  have l: "sint (of_int len :: u32) = len"
    using sint_of_nat32 [of "nat len"] assms by simp
  show ?thesis using assms l by (simp add: mnl2hal_wire mnl2hal_outcome_def cstr_id)
qed

lemma mnl2hal_transport_ni_notify:
  assumes "wire_string rid" "wire_string cn" "length (enc_string rid) + length (enc_string cn) \<le> 16356"
  shows "map_option (\<lambda>d. mnl2hal_hdlr a junk (\<lambda>_. True) (Some d) r)
      (mnl2hal_send a (Request_ni_notify sid nt ty rid cn re ce))
    = Some (mnl2hal_outcome r (Request_ni_notify sid nt ty rid cn re ce))"
  using assms
  by (cases rid; cases cn) (simp_all add: mnl2hal_wire mnl2hal_outcome_def cstr_id)

lemma mnl2hal_transport:
  assumes "abi_ok a" "wf_mnl2hal a m"
  shows "map_option (\<lambda>d. mnl2hal_hdlr a junk (\<lambda>_. True) (Some d) r) (mnl2hal_send a m)
    = Some (mnl2hal_outcome r m)"
proof (cases "mnl2hal_struct m")
  case (Some st)
  then obtain l sz where st: "mnl2hal_struct m = Some (l, sz)" by (cases st) auto
  moreover from st assms(2) have "length l = sz a" by (cases m) auto
  ultimately show ?thesis by (intro mnl2hal_transport_struct assms(1))
next
  case None
  then consider v where "m \<in> {Gps_status v, Gps_capabilities v}"
    | v where "m \<in> {Mnld_reboot, Request_wakelock, Release_wakelock, Request_utc_time,
        Release_data_conn, Request_set_id v, Request_ref_loc v}"
    | t s len where "m = Nmea t s len"
    | sid nt ty rid cn re ce where "m = Request_ni_notify sid nt ty rid cn re ce"
    | s where "m = Output_vzw_debug s"
    by (cases m) auto
  then show ?thesis
  proof cases
    case 1
    then show ?thesis by (rule mnl2hal_transport_word)
  next
    case 2
    then show ?thesis by (rule mnl2hal_transport_plain)
  next
    case 3
    with assms(2) obtain u where "s = Some u" "c_string u" "length u \<le> 16350" "0 \<le> len"
        "len \<le> int (length u)" by auto
    with 3 show ?thesis by (simp only: mnl2hal_transport_nmea)
  next
    case 4
    with assms(2) show ?thesis by (simp only: wf_mnl2hal.simps mnl2hal_transport_ni_notify)
  next
    case 5
    with assms(2) show ?thesis by (simp only: wf_mnl2hal.simps mnl2hal_transport_vzw)
  qed
qed

interpretation mnl2hal: channel "mnl2hal_send a" "\<lambda>d. mnl2hal_hdlr a junk (\<lambda>_. True) (Some d) r"
  "mnl2hal_outcome r" "\<lambda>m. abi_ok a \<and> wf_mnl2hal a m" for a junk r
  by unfold_locales (use mnl2hal_transport in fastforce)

section \<open>Memory safety\<close>

text \<open>The datagrams that make the handler subtract the buffer from a \<open>NULL\<close> pointer.\<close>

definition null_nmea :: "bytes \<Rightarrow> bool" where
  "null_nmea d \<longleftrightarrow> (do {
     (ver, b) \<leftarrow> get_int hal_mnl_n (recv_buff HAL_MNL_BUFF_SIZE d);
     (cmd, b) \<leftarrow> get_int hal_mnl_n b;
     (timestamp, b) \<leftarrow> get_long hal_mnl_n b;
     (nmea, b) \<leftarrow> get_string hal_mnl_n b;
     Some (mnl2hal_of_code cmd, nmea) }) = Some (Some MNL2HAL_NMEA, None)"

lemma rd_safe_local: "rd_safe HAL_MNL_BUFF_SIZE (get_local junk k)"
  unfolding rd_safe_def
proof (intro allI impI)
  fix b :: cbuf
  assume "sized HAL_MNL_BUFF_SIZE b"
  moreover obtain buff offset where "b = (buff, offset)" by fastforce
  ultimately show "\<exists>x b'. get_local junk k b = Some (x, b') \<and> sized HAL_MNL_BUFF_SIZE b'"
    using get_binary_total [of hal_mnl_n buff "int k" "uninit junk k" offset]
    by (force simp: get_local_def sized_def)
qed

lemma mnl2hal_case_safe:
  assumes "sized HAL_MNL_BUFF_SIZE b" "c \<noteq> MNL2HAL_NMEA"
  shows "returns (mnl2hal_case a junk c b)"
  using assms by (cases c) (auto simp: mnl2hal_case_def is_report_cmd_def intro!: rd_safe_intros rd_safe_local)

lemma mnl2hal_nmea_safe:
  assumes "sized HAL_MNL_BUFF_SIZE b"
  shows "mnl2hal_case a junk MNL2HAL_NMEA b = None \<longleftrightarrow>
    (do { (t, b) \<leftarrow> get_long hal_mnl_n b; (s, b) \<leftarrow> get_string hal_mnl_n b; Some s }) = Some None"
proof -
  obtain t b1 where 1: "get_long hal_mnl_n b = Some (t, b1)" "sized HAL_MNL_BUFF_SIZE b1"
    using assms rd_safe_getters(4) unfolding rd_safe_def by blast
  obtain s b2 where 2: "get_string hal_mnl_n b1 = Some (s, b2)" "sized HAL_MNL_BUFF_SIZE b2"
    using 1 rd_safe_getters(5) unfolding rd_safe_def by blast
  obtain l b3 where 3: "get_int hal_mnl_n b2 = Some (l, b3)" "sized HAL_MNL_BUFF_SIZE b3"
    using 2 rd_safe_getters(3) unfolding rd_safe_def by blast
  show ?thesis by (cases s) (simp_all add: mnl2hal_case_def is_report_cmd_def 1 2 3)
qed

lemma mnl2hal_gated_None:
  "mnl2hal_gated hdlr c body (location_gate c r) = None \<longleftrightarrow>
    body = None \<and> hdlr c \<and> (c = MNL2HAL_LOCATION \<longrightarrow> fst (rate_tick r))"
  by (auto simp: mnl2hal_gated_def location_gate_def split: prod.splits)

section \<open>Properties\<close>

lemma mnl2hal_hdlr_location:
  assumes "abi_ok a" "length l = sizeof_gps_location a" "mnl2hal_location a l = Some d"
  shows "mnl2hal_hdlr a junk (\<lambda>_. True) (Some d) r =
    (case rate_tick r of (pass, r') \<Rightarrow> Some (0, if pass then Some (Location l) else None, r'))"
  using mnl2hal.send_recv [of a "Location l" junk r] assms
  by (auto simp: mnl2hal_outcome_def mnl2hal_gated_def location_gate_def split: prod.splits)

text \<open>The callbacks for a sequence of locations are those the limiter passes.\<close>

lemma mnl2hal_session_locations:
  assumes "abi_ok a" "list_all2 (\<lambda>l d. length l = sizeof_gps_location a \<and> mnl2hal_location a l = Some d) ls ds"
  shows "mnl2hal_session a junk ds r = (case rate_run (length ls) r of (ps, r') \<Rightarrow>
    Some (map (Location \<circ> snd) (filter fst (zip ps ls)), r'))"
  using assms(2)
proof (induction arbitrary: r rule: list_all2_induct)
  case Nil
  then show ?case by simp
next
  case (Cons l ls d ds)
  then show ?case
    using mnl2hal_hdlr_location [OF assms(1), of l d junk r] by (auto split: prod.splits)
qed

text \<open>C17: every MNLD report or request arrives at the HAL: for each of the 19 messages whose
  structs have their ABI size and whose strings fit, the HAL's handler invokes exactly the callback
  of that message with the arguments that were sent, whatever its uninitialised locals held; a
  location is first put to the rate limiter, which either lets it through or drops it.\<close>

theorem mnl2hal_round_trip:
  assumes "abi_ok a" "wf_mnl2hal a m"
  shows "\<exists>d. mnl2hal_send a m = Some d \<and>
    mnl2hal_hdlr a junk (\<lambda>_. True) (Some d) r =
      (case (if mnl2hal_cmd_of m = MNL2HAL_LOCATION then rate_tick r else (True, r)) of
         (pass, r') \<Rightarrow> Some (0, if pass then Some m else None, r'))"
  using mnl2hal.transport [of a m junk r] assms
  by (auto simp: mnl2hal_outcome_def mnl2hal_gated_def location_gate_def split: prod.splits)

theorem mnl2hal_round_trip_witness:
  "\<exists>d. mnl2hal_send lp64 (Location (replicate 56 7)) = Some d \<and>
    mnl2hal_hdlr lp64 (\<lambda>_. 0xAA) (\<lambda>_. True) (Some d) rate_init =
      Some (0, Some (Location (replicate 56 7)), rate_init)"
proof -
  have f: "f32_round 1 = 1" using f32_round_of_nat [of 1] by simp
  have "rate_tick rate_init = (True, rate_init)"
    by (simp add: rate_tick_def rate_init_def f)
  then show ?thesis
    using mnl2hal_round_trip [of lp64 "Location (replicate 56 7)" "\<lambda>_. 0xAA" rate_init] abi_ok_lp64
    by (simp add: lp64_def del: mnl2hal_send.simps)
qed

text \<open>The HAL's handler is safe on hostile input except in one case: the only datagrams
  on which it leaves defined behaviour are NMEA reports whose string field is absent, and on every
  one of those it does so as soon as an NMEA callback is registered.\<close>

theorem mnl2hal_hdlr_undefined_iff:
  "mnl2hal_hdlr a junk hdlr (Some d) r = None \<longleftrightarrow> d \<noteq> [] \<and> hdlr MNL2HAL_NMEA \<and> null_nmea d"
proof -
  have "sized HAL_MNL_BUFF_SIZE (recv_buff HAL_MNL_BUFF_SIZE d)" by (simp add: sized_def)
  then obtain ver b where 1: "get_int hal_mnl_n (recv_buff HAL_MNL_BUFF_SIZE d) = Some (ver, b)"
      "sized HAL_MNL_BUFF_SIZE b"
    using rd_safe_getters(3) unfolding rd_safe_def by blast
  then obtain cmd b' where 2: "get_int hal_mnl_n b = Some (cmd, b')" "sized HAL_MNL_BUFF_SIZE b'"
    using rd_safe_getters(3) unfolding rd_safe_def by blast
  note nmea = mnl2hal_nmea_safe [OF 2(2), of a junk]
  show ?thesis
  proof (cases "mnl2hal_of_code cmd = Some MNL2HAL_NMEA")
    case True
    with 1 2 nmea show ?thesis
      by (auto simp: mnl2hal_hdlr_def null_nmea_def mnl2hal_gated_None split: bind_splits)
  next
    case False
    then have "\<not> null_nmea d" using 1 2 by (auto simp: null_nmea_def split: bind_splits)
    moreover have "mnl2hal_case a junk c b' \<noteq> None" if "mnl2hal_of_code cmd = Some c" for c
      using False that mnl2hal_case_safe [OF 2(2), of c a junk] by (auto simp: returns_def)
    then have "mnl2hal_gated hdlr c (mnl2hal_case a junk c b') (location_gate c r) \<noteq> None"
      if "mnl2hal_of_code cmd = Some c" for c
      using that unfolding mnl2hal_gated_None by blast
    ultimately show ?thesis using 1 2
      by (auto simp: mnl2hal_hdlr_def split: option.split)
  qed
qed

text \<open>The HAL honours the interval the framework asked for, end to end. After
  \<open>hal2mnl_gps_set_position_mode\<close> with \<open>min_interval\<close> of \<open>1000 k\<close> milliseconds, of the next
  \<open>k\<close> locations the daemon sends, the HAL delivers exactly the last to the framework, and the
  limiter is back where it was.\<close>

theorem location_interval_honoured:
  assumes "1 \<le> k" "k \<le> 16777" "count r = 0" "abi_ok a"
    and "set_mode = hal2mnl_gps_set_position_mode mode recurrence (of_nat (1000 * k)) acc tm r"
    and "length ls = k"
    and "list_all2 (\<lambda>l d. length l = sizeof_gps_location a \<and> mnl2hal_location a l = Some d) ls ds"
  shows "mnl2hal_session a junk ds (snd set_mode) = Some ([Location (last ls)], snd set_mode)"
proof -
  have "sint (of_nat (1000 * k) :: u32) = 1000 * int k"
    using assms(2) sint_of_nat32 [of "1000 * k"] by simp
  then have r: "snd set_mode = set_report_interval (1000 * int k) r"
    by (simp add: assms(5) hal2mnl_gps_set_position_mode_def)
  have run: "rate_run k (snd set_mode) = (replicate (k - 1) False @ [True], snd set_mode)"
    unfolding r using assms(1-3) by (rule rate_run_whole)
  have ls: "ls = butlast ls @ [last ls]" using assms(1,6) by (metis append_butlast_last_id list.size(3) not_one_le_zero)
  have z: "zip (replicate (k - 1) False @ [True]) ls = zip (replicate (k - 1) False) (butlast ls) @ [(True, last ls)]"
    using assms(6) by (subst ls) simp
  have "filter fst (zip (replicate (k - 1) False) (butlast ls)) = []"
    by (auto simp: filter_empty_conv dest: set_zip_leftD)
  then show ?thesis
    using mnl2hal_session_locations [OF assms(4,7), of junk "snd set_mode"] run z assms(6) by simp
qed

theorem location_interval_honoured_witness:
  "\<exists>d. mnl2hal_location lp64 (replicate 56 7) = Some d \<and>
     mnl2hal_session lp64 (\<lambda>_. 0) [d, d] (snd (hal2mnl_gps_set_position_mode 0 0 (of_nat (1000 * 2)) 0 0 rate_init))
       = Some ([Location (replicate 56 7)], snd (hal2mnl_gps_set_position_mode 0 0 (of_nat (1000 * 2)) 0 0 rate_init))"
proof -
  obtain d where d: "mnl2hal_location lp64 (replicate 56 7) = Some d"
    using mnl2hal.transport [of lp64 "Location (replicate 56 7)"] abi_ok_lp64
    by (auto simp: lp64_def simp del: replicate.simps)
  with location_interval_honoured [of 2 rate_init lp64 _ 0 0 0 0 "[replicate 56 7, replicate 56 7]" "[d, d]" "\<lambda>_. 0", OF _ _ _ _ refl]
  show ?thesis using abi_ok_lp64 by (simp add: rate_init_def lp64_def)
qed

end
