(* ===== verification/Mnld_State.thy ===== *)
theory Mnld_State
  imports Mnl2Hal
begin

text \<open>
  The state of the GPS daemon \<open>mnld\<close> and the effects it has on its surroundings:
  \<open>g_mnld_ctx\<close> and the other file-scope variables of \<open>gps/mtk_mnld/mnld_entity/src/mnld.c\<close>, the
  offload configuration and the kernel wakelock of \<open>gps_controller.c\<close>, and the session variables
  of the two in-process peers of the daemon, the fused location provider
  (\<open>mnl_flp_interface/src\<close>) and the geofence service (\<open>mnl_geofence_interface/src\<close>).
  Calls that leave the daemon (datagrams to the HAL, to AGPS and to the GPS control thread, calls
  of the positioning library, files, logs) are appended in order to the log \<open>out\<close>.
  Arguments of such calls are recorded before the conversions C makes for the parameter types;
  \<open>float\<close> and \<open>double\<close> values are their bit patterns.
\<close>

section \<open>Enumerations and structs\<close>

datatype mnld_gps_state =
    IDLE
  | STARTING
  | STARTED
  | STOPPING
  | OFL_STARTING
  | OFL_STARTED
  | OFL_STOPPING

datatype mnld_gps_event =
    EVENT_START
  | EVENT_STOP
  | EVENT_RESET
  | EVENT_START_DONE
  | EVENT_STOP_DONE
  | EVENT_OFFLOAD_START

text \<open>
  \<open>mnld_gps_clients\<close> is a struct of seven members of one type; it is modelled as a function from
  the member names.
\<close>

datatype client = Hal | Agps | Flp | Flp_test | Geofence | At_cmd_test | Factory

record mnld_gps_client =
  gps_used :: bool
  need_open_ack :: bool
  need_close_ack :: bool
  need_reset_ack :: bool

datatype timer = Timer_start | Timer_stop | Timer_reset | Timer_nmea_monitor | Timer_switch_ofl_mode

text \<open>A timer is armed with a period in milliseconds, or disarmed.\<close>

record mnld_gps_status =
  clients :: "client \<Rightarrow> mnld_gps_client"
  gps_state :: mnld_gps_state
  is_gps_init :: bool
  is_gps_meas_enabled :: bool
  is_gps_navi_enabled :: bool
  delete_aiding_flag :: u32
  armed :: "timer \<Rightarrow> int option"
  gps_start_time :: int
  gps_stop_time :: int
  gps_ttff :: int
  wait_first_location :: bool

record mnl_epo_status =
  is_network_connected :: bool
  is_wifi_connected :: bool
  is_epo_downloading :: bool

text \<open>\<open>MTK_FLP_Session_T\<close> and \<open>MTK_GFC_Session_T\<close>.\<close>

record session =
  stype :: u32
  pre_type :: u32
  sid :: u32

abbreviation (input) AP_MODE :: u32 where
  "AP_MODE \<equiv> 1"

abbreviation (input) OFL_MODE :: u32 where
  "OFL_MODE \<equiv> 2"

abbreviation (input) AP_OFL_MODE :: u32 where
  "AP_OFL_MODE \<equiv> 3"

text \<open>The status a peer keeps of its link to the daemon (\<open>MNL_STATUS_*\<close>).\<close>

datatype mnl_status =
    STATUS_NONE
  | STATUS_ATTACH
  | STATUS_ATTACH_DONE
  | STATUS_HBD_GPS_OPEN
  | STATUS_HBD_GPS_OPEN_DONE
  | STATUS_HBD_GPS_CLOSE
  | STATUS_HBD_GPS_CLOSE_DONE
  | STATUS_OFL_LINK_OPEN
  | STATUS_OFL_LINK_OPEN_DONE
  | STATUS_OFL_LINK_CLOSE
  | STATUS_OFL_LINK_CLOSE_DONE

text \<open>\<open>MTK_FLP_MNL_MSG_T\<close> and \<open>MTK_GFC_MNL_MSG_T\<close>.\<close>

record peer_msg =
  mtype :: u32
  msession :: u32
  mlength :: u32
  mdata :: bytes

text \<open>
  The file-scope variables of a peer: link status, session and capability last announced by the
  daemon, the messages kept until the link is open, and the mode flag; then those of its
  controller (sources in use, enabled flag, batching mode, reporting period, fences in use, the
  availability last reported and the time of the location last reported).
  \<open>hdlr_cb\<close> says whether the peer has been given the daemon's callbacks yet.
\<close>

record peer =
  fgMnldStatus :: mnl_status
  gCurrentSession :: u32
  gCurrentSupport :: u32
  kept :: "peer_msg list"
  gModeFlag :: u32
  penabled :: bool
  source_to_use :: u32
  running_source :: u32
  hdlr_cb :: bool
  batch_mode :: int
  period_ns :: int
  in_use :: int
  loc_available :: int
  update_last_time :: int

record download =
  mtknav_update_flag :: bool
  qepo_update_flag :: bool
  qepo_BD_update_flag :: bool
  qepo_GA_update_flag :: bool
  mtknav_res :: u32
  qepo_dl_res :: u32
  qepo_bd_dl_res :: u32
  qepo_ga_dl_res :: u32

record mnld_cfg =
  OFFLOAD_enabled :: bool
  OFFLOAD_switchMode :: u32

text \<open>The AGPS satellite settings, \<open>sv_type_agps_set\<close> and its companions.\<close>

record agps_cfg =
  sv_type_agps_set :: u8
  sib8_16_enable :: u8
  lppe_enable :: bool

text \<open>The dispatcher state of the AGPS agent in \<open>gps_controller.c\<close>.\<close>

datatype dispatch_state = ST_SI | ST_NI | ST_IDLE | ST_UNKNOWN

record agent =
  agent_set_alarm :: bool
  state_mode :: dispatch_state
  last_state_mode :: dispatch_state

text \<open>The kinds of LPPe assistance data.\<close>

datatype lppe =
    Common_iono
  | Common_trop
  | Common_alt
  | Common_solar
  | Common_ccp
  | Generic_ccp
  | Generic_dm

section \<open>Effects\<close>

datatype gps_cmd = Gps_start u32 | Gps_stop | Gps_reset u32

datatype mnl2agps =
    Agps_mnl_reboot
  | Agps_gps_init
  | Agps_gps_cleanup
  | Agps_gps_open u32
  | Agps_gps_close
  | Agps_open_gps_done
  | Agps_close_gps_done
  | Agps_reset_gps_done
  | Agps_reaiding_req
  | Agps_delete_aiding_data u32
  | Agps_set_position_mode u32
  | Agps_data_conn_open "bytes option"
  | Agps_data_conn_open_ip_type "bytes option" u32
  | Agps_data_conn_closed
  | Agps_data_conn_failed
  | Agps_set_server u32 "bytes option" u32
  | Agps_set_ref_loc u32 u32 u32 u32 u32
  | Agps_set_set_id u32 "bytes option"
  | Agps_ni_message bytes int
  | Agps_ni_respond u32 u32
  | Agps_update_network_state u32 u32 u32 "bytes option"
  | Agps_update_network_availability u32 "bytes option"
  | Agps_vzw_debug_screen_enable bool
  | Agps_location_sync u64 u64 u32 bool u64 bool bool bool bool
  | Agps_settings_ack u8 u8 u8 u8
  | Agps_pmtk bytes
  | Agps_lppe_assist_data_provide_ack lppe

text \<open>A location of the fused location provider, \<open>MTK_FLP_LOCATION_T\<close>; floating-point numbers as bit patterns.\<close>

record flp_location =
  floc_size :: u32
  floc_flags :: u16
  floc_latitude :: u64
  floc_longitude :: u64
  floc_altitude :: u64
  floc_speed :: u32
  floc_bearing :: u32
  floc_accuracy :: u32
  floc_timestamp :: u64
  floc_sources :: u32

text \<open>
  \<open>To_flp_hal\<close> and \<open>To_gfc_hal\<close> carry a datagram to the HAL of the fused location provider and of the
  geofence service; the \<open>Gfc_\<close> effects are calls into the geofence kernel of the vendor.
\<close>

datatype effect =
    To_hal mnl2hal_msg
  | To_agps mnl2agps
  | To_gps gps_cmd
  | To_flp_hal bytes
  | To_gfc_hal bytes
  | Gfc_clear_geofences
  | Gfc_kernel bytes
  | Gfc_expire
  | Gfc_set_location flp_location
  | Lib_ofl_set_user u32
  | Lib_inject_ntp_time u64 u64 u32
  | Lib_inject_nlp_location u64 u64 u32 u32 u32 bool
  | Lib_switch_constellation u8
  | Lib_sib8_16_enable u8
  | Lib_lppe_enable bool
  | Lib_debug2app u32
  | Lib_send_flp_data bytes u32
  | Lib_agps_pmtk "bytes option"
  | Lib_agps_lppe lppe bytes int
  | Alarm int
  | Wakelock_ioctl bool
  | Nlp_request u32
  | Nlp_cancel u32
  | Dbg_gps_status bool
  | Dbg_ack
  | Dbg_message bytes
  | Op01_gps_start
  | Op01_gps_stop
  | Op01_gps_location u64 u64 int
  | Epo_read_cust_config
  | Epo_downloader_start
  | Epo_update_file
  | Epo_unlink
  | Mtknav_update_file u32
  | Qepo_update_file u32
  | Qepo_bd_update_file u32
  | Qepo_ga_update_file u32
  | Log_exit_flush
  | Block_exit

section \<open>The daemon\<close>

record mnld =
  gps :: mnld_gps_status
  epo :: mnl_epo_status
  cfg :: mnld_cfg
  flp_session :: session
  gfc_session :: session
  flp_peer :: peer
  gfc_peer :: peer
  dl :: download
  agps_settings :: agps_cfg
  agps_agent :: agent
  offload_old_user :: u32
  offload_lp_mode :: bool
  offload_fwk_wakelock :: bool
  kernel_wakelock_fd :: int
  kernel_wakelock_to_take :: bool
  enable_debug2app :: bool
  in_meta_factory :: bool
  mnld_exiting :: bool
  out :: "effect list"

text \<open>
  What an operation reads from outside: the tick counter (one reading per operation), the
  monotonic clock (\<open>None\<close> when \<open>clock_gettime\<close> fails), properties and configured timeouts, the
  state of the EPO file, what the chip supports, what the positioning library returns, and two
  operations on \<open>float\<close> values: the scaling of an accuracy by 1.7 and the test \<open>accuracy < 0.001\<close>.
\<close>

record env =
  tick :: int
  clock :: "(u32 \<times> u32) option"
  cmcc_log :: bool
  ne_property :: bool
  start_time_out :: int
  nmea_data_time_out :: int
  nmea_timer_id :: int
  epo_file_invalid :: bool
  epo_download_enabled :: bool
  epo_wifi_trigger :: bool
  chip_sv_type :: u8
  support_lppe :: bool
  agps_set_param_ret :: int
  acc_95 :: "u32 \<Rightarrow> u32"
  acc_no_fix :: "u32 \<Rightarrow> bool"

text \<open>
  \<open>CRASH_TO_DEBUG\<close> writes through a null pointer; the run ends there. A write outside an array is
  undefined behaviour.
\<close>

datatype crash = Crash_event mnld_gps_state mnld_gps_event | Crash_timeout | Undefined

type_synonym outcome = "crash + mnld"

definition res_bind :: "outcome \<Rightarrow> (mnld \<Rightarrow> outcome) \<Rightarrow> outcome" where
  "res_bind r f = (case r of Inl c \<Rightarrow> Inl c | Inr s \<Rightarrow> f s)"

lemma res_bind_simps [simp]: "res_bind (Inl c) f = Inl c" "res_bind (Inr s) f = f s"
  by (simp_all add: res_bind_def)

section \<open>Elementary updates\<close>

definition emit :: "effect \<Rightarrow> mnld \<Rightarrow> mnld" where
  "emit e s = s\<lparr>out := out s @ [e]\<rparr>"

definition set_gps :: "(mnld_gps_status \<Rightarrow> mnld_gps_status) \<Rightarrow> mnld \<Rightarrow> mnld" where
  "set_gps f s = s\<lparr>gps := f (gps s)\<rparr>"

abbreviation client_of :: "client \<Rightarrow> mnld \<Rightarrow> mnld_gps_client" where
  "client_of c s \<equiv> clients (gps s) c"

definition set_client :: "client \<Rightarrow> (mnld_gps_client \<Rightarrow> mnld_gps_client) \<Rightarrow> mnld \<Rightarrow> mnld" where
  "set_client c f = set_gps (\<lambda>g. g\<lparr>clients := (clients g)(c := f (clients g c))\<rparr>)"

definition set_state :: "mnld_gps_state \<Rightarrow> mnld \<Rightarrow> mnld" where
  "set_state st = set_gps (\<lambda>g. g\<lparr>gps_state := st\<rparr>)"

text \<open>\<open>start_timer\<close> and \<open>stop_timer\<close> of \<open>mtk_lbs_utility.c\<close>: a period of zero disarms.\<close>

definition start_timer :: "timer \<Rightarrow> int \<Rightarrow> mnld \<Rightarrow> mnld" where
  "start_timer t ms = set_gps (\<lambda>g. g\<lparr>armed := (armed g)(t := (if ms = 0 then None else Some ms))\<rparr>)"

definition stop_timer :: "timer \<Rightarrow> mnld \<Rightarrow> mnld" where
  "stop_timer t = start_timer t 0"

abbreviation state_of :: "mnld \<Rightarrow> mnld_gps_state" where
  "state_of s \<equiv> gps_state (gps s)"

lemmas mnld_updates = emit_def set_gps_def set_client_def set_state_def start_timer_def stop_timer_def

end
