(* ===== verification/Mnld_Clients.thy ===== *)
theory Mnld_Clients
  imports Mnld_State
begin

text \<open>
  The GPS clients of the daemon: who uses the receiver (\<open>is_all_gps_client_exit\<close> and its
  relatives and the user bitmap \<open>mtk_gps_get_gps_user\<close> of \<open>mnld.c\<close>), the status queries other
  threads use (\<open>mnld_is_gps_started\<close> ...), and the offload configuration of
  \<open>gps_controller.c\<close>.
\<close>

section \<open>Users\<close>

abbreviation used :: "client \<Rightarrow> mnld \<Rightarrow> bool" where
  "used c s \<equiv> gps_used (clients (gps s) c)"

definition is_all_gps_client_exit :: "mnld \<Rightarrow> bool" where
  "is_all_gps_client_exit s \<longleftrightarrow>
     \<not> used Hal s \<and> \<not> used Agps s \<and> \<not> used Flp s \<and> \<not> used Flp_test s \<and> \<not> used At_cmd_test s \<and>
     \<not> used Factory s \<and> \<not> used Geofence s"

definition is_a_gps_client_exist :: "mnld \<Rightarrow> bool" where
  "is_a_gps_client_exist s \<longleftrightarrow>
     used Hal s \<or> used Agps s \<or> used Flp s \<or> used Flp_test s \<or> used At_cmd_test s \<or>
     used Factory s \<or> used Geofence s"

definition clear_used :: "client \<Rightarrow> mnld \<Rightarrow> mnld" where
  "clear_used c s = (if used c s then set_client c (gps_used_update (\<lambda>_. False)) s else s)"

definition mtk_gps_clear_gps_user :: "mnld \<Rightarrow> mnld" where
  "mtk_gps_clear_gps_user s =
     fold clear_used [Hal, Agps, Flp, Flp_test, Geofence, At_cmd_test, Factory] s"

definition GPS_USER_APP :: u32 where
  "GPS_USER_APP = 0x1"

definition GPS_USER_AGPS :: u32 where
  "GPS_USER_AGPS = 0x2"

definition GPS_USER_META :: u32 where
  "GPS_USER_META = 0x4"

definition GPS_USER_FLP :: u32 where
  "GPS_USER_FLP = 0x10"

definition GPS_USER_OFL_TEST :: u32 where
  "GPS_USER_OFL_TEST = 0x20"

definition GPS_USER_AT_CMD :: u32 where
  "GPS_USER_AT_CMD = 0x40"

definition GPS_USER_GEOFENCE :: u32 where
  "GPS_USER_GEOFENCE = 0x100"

lemmas gps_user_defs = GPS_USER_APP_def GPS_USER_AGPS_def GPS_USER_META_def GPS_USER_FLP_def
  GPS_USER_OFL_TEST_def GPS_USER_AT_CMD_def GPS_USER_GEOFENCE_def

definition mtk_gps_get_gps_user :: "mnld \<Rightarrow> u32" where
  "mtk_gps_get_gps_user s =
     (let u = 0;
          u = (if used Hal s then u OR GPS_USER_APP else u);
          u = (if used Agps s then u OR GPS_USER_AGPS else u);
          u = (if used Flp s then u OR GPS_USER_FLP else u);
          u = (if used Flp_test s then u OR GPS_USER_OFL_TEST else u);
          u = (if used Geofence s then u OR GPS_USER_GEOFENCE else u);
          u = (if used At_cmd_test s then u OR GPS_USER_AT_CMD else u);
          u = (if used Factory s then u OR GPS_USER_META else u)
      in u)"

definition is_flp_user_exist :: "mnld \<Rightarrow> bool" where
  "is_flp_user_exist s \<longleftrightarrow> used Flp s"

definition is_geofence_user_exist :: "mnld \<Rightarrow> bool" where
  "is_geofence_user_exist s \<longleftrightarrow> used Geofence s"

definition is_all_hbd_gps_client_exit :: "mnld \<Rightarrow> bool" where
  "is_all_hbd_gps_client_exit s \<longleftrightarrow>
     \<not> used Hal s \<and> \<not> used Agps s \<and> \<not> used At_cmd_test s \<and> \<not> used Factory s"

definition is_a_hbd_gps_client_exist :: "mnld \<Rightarrow> bool" where
  "is_a_hbd_gps_client_exist s \<longleftrightarrow>
     used Hal s \<or> used Agps s \<or> used At_cmd_test s \<or> used Factory s"

text \<open>
  \<open>(user & (GPS_USER_FLP | GPS_USER_OFL_TEST | GPS_USER_GEOFENCE)) == user\<close>, the test of five
  functions of the daemon for "no user but offload users".
\<close>

definition only_offload_users :: "u32 \<Rightarrow> bool" where
  "only_offload_users u \<longleftrightarrow> u AND (GPS_USER_FLP OR GPS_USER_OFL_TEST OR GPS_USER_GEOFENCE) = u"

section \<open>Offload configuration\<close>

definition mnl_offload_is_enabled :: "mnld \<Rightarrow> bool" where
  "mnl_offload_is_enabled s \<longleftrightarrow> OFFLOAD_enabled (cfg s)"

definition mnl_offload_set_enabled :: "mnld \<Rightarrow> mnld" where
  "mnl_offload_set_enabled s = s\<lparr>cfg := (cfg s)\<lparr>OFFLOAD_enabled := True\<rparr>\<rparr>"

definition mnl_offload_clear_enabled :: "mnld \<Rightarrow> mnld" where
  "mnl_offload_clear_enabled s = s\<lparr>cfg := (cfg s)\<lparr>OFFLOAD_enabled := False\<rparr>\<rparr>"

definition mnld_support_auto_switch_mode :: "mnld \<Rightarrow> bool" where
  "mnld_support_auto_switch_mode s \<longleftrightarrow> OFFLOAD_enabled (cfg s) \<and> OFFLOAD_switchMode (cfg s) = 1"

definition mnld_offload_is_auto_mode :: "mnld \<Rightarrow> bool" where
  "mnld_offload_is_auto_mode s \<longleftrightarrow>
     OFFLOAD_enabled (cfg s) \<and> OFFLOAD_switchMode (cfg s) = 1 \<and>
     (stype (flp_session s) = OFL_MODE \<or> stype (gfc_session s) = OFL_MODE)"

definition mnld_offload_is_always_on_mode :: "mnld \<Rightarrow> bool" where
  "mnld_offload_is_always_on_mode s \<longleftrightarrow> OFFLOAD_enabled (cfg s) \<and> OFFLOAD_switchMode (cfg s) = 0"

text \<open>The guard most offload branches share.\<close>

definition offload_active :: "mnld \<Rightarrow> bool" where
  "offload_active s \<longleftrightarrow> mnl_offload_is_enabled s \<and>
     (mnld_offload_is_auto_mode s \<or> mnld_offload_is_always_on_mode s)"

definition offload_chips :: "string list" where
  "offload_chips = [''0x6758'', ''0x6771'', ''0x6775'']"

definition mnld_offload_check_capability :: "string \<Rightarrow> mnld \<Rightarrow> mnld" where
  "mnld_offload_check_capability chip_id s =
     (if chip_id \<in> set offload_chips
      then s\<lparr>cfg := \<lparr>OFFLOAD_enabled = True, OFFLOAD_switchMode = 1\<rparr>,
             flp_session := (flp_session s)\<lparr>stype := AP_OFL_MODE, pre_type := AP_OFL_MODE\<rparr>,
             gfc_session := (gfc_session s)\<lparr>stype := AP_OFL_MODE, pre_type := AP_OFL_MODE\<rparr>\<rparr>
      else s)"

definition mnld_timeout_ne_enabled :: "env \<Rightarrow> mnld \<Rightarrow> bool" where
  "mnld_timeout_ne_enabled e s \<longleftrightarrow> in_meta_factory s \<or> ne_property e"

section \<open>Status queries\<close>

definition mnld_is_gps_started :: "mnld \<Rightarrow> bool" where
  "mnld_is_gps_started s \<longleftrightarrow> state_of s = STARTING \<or> state_of s = STARTED"

definition mnld_is_gps_or_ofl_started :: "mnld \<Rightarrow> bool" where
  "mnld_is_gps_or_ofl_started s \<longleftrightarrow>
     mnld_is_gps_started s \<or> state_of s = OFL_STARTING \<or> state_of s = OFL_STARTED"

definition mnld_is_gps_started_done :: "mnld \<Rightarrow> bool" where
  "mnld_is_gps_started_done s \<longleftrightarrow> state_of s = STARTED"

definition mnld_is_gps_or_ofl_started_done :: "mnld \<Rightarrow> bool" where
  "mnld_is_gps_or_ofl_started_done s \<longleftrightarrow> mnld_is_gps_started_done s \<or> state_of s = OFL_STARTED"

definition mnld_is_gps_stopped :: "mnld \<Rightarrow> bool" where
  "mnld_is_gps_stopped s \<longleftrightarrow> state_of s = IDLE \<or> state_of s = STOPPING"

definition mnld_is_gps_and_ofl_stopped :: "mnld \<Rightarrow> bool" where
  "mnld_is_gps_and_ofl_stopped s \<longleftrightarrow>
     state_of s = IDLE \<or> state_of s = STOPPING \<or> state_of s = OFL_STOPPING"

definition mnld_is_epo_download_finished :: "mnld \<Rightarrow> bool" where
  "mnld_is_epo_download_finished s \<longleftrightarrow> \<not> is_epo_downloading (epo s)"

section \<open>Boot\<close>

text \<open>The state \<open>main\<close> starts from: \<open>g_mnld_ctx\<close> cleared and every variable at its initialiser.\<close>

definition peer_boot :: peer where
  "peer_boot = \<lparr>fgMnldStatus = STATUS_NONE, gCurrentSession = 0, gCurrentSupport = 0, kept = [],
     gModeFlag = AP_MODE, penabled = False, source_to_use = 0, running_source = 0, hdlr_cb = False,
     batch_mode = - 1, period_ns = 0, in_use = 0, loc_available = - 1, update_last_time = 0\<rparr>"

definition session_boot :: session where
  "session_boot = \<lparr>stype = AP_MODE, pre_type = AP_MODE, sid = 1\<rparr>"

definition gps_status_boot :: mnld_gps_status where
  "gps_status_boot = \<lparr>
     clients = (\<lambda>_. \<lparr>gps_used = False, need_open_ack = False, need_close_ack = False, need_reset_ack = False\<rparr>),
     gps_state = IDLE, is_gps_init = False, is_gps_meas_enabled = False, is_gps_navi_enabled = False,
     delete_aiding_flag = 0, armed = (\<lambda>_. None), gps_start_time = 0, gps_stop_time = 0, gps_ttff = 0,
     wait_first_location = False\<rparr>"

definition mnld_boot :: mnld where
  "mnld_boot = \<lparr>gps = gps_status_boot,
     epo = \<lparr>is_network_connected = False, is_wifi_connected = False, is_epo_downloading = False\<rparr>,
     cfg = \<lparr>OFFLOAD_enabled = False, OFFLOAD_switchMode = 0\<rparr>,
     flp_session = session_boot, gfc_session = session_boot,
     flp_peer = peer_boot, gfc_peer = peer_boot,
     dl = \<lparr>mtknav_update_flag = False, qepo_update_flag = False, qepo_BD_update_flag = False,
       qepo_GA_update_flag = False, mtknav_res = - 1, qepo_dl_res = - 1, qepo_bd_dl_res = - 1,
       qepo_ga_dl_res = - 1\<rparr>,
     agps_settings = \<lparr>sv_type_agps_set = 0, sib8_16_enable = 0, lppe_enable = False\<rparr>,
     agps_agent = \<lparr>agent_set_alarm = False, state_mode = ST_IDLE, last_state_mode = ST_UNKNOWN\<rparr>,
     offload_old_user = 0, offload_lp_mode = False, offload_fwk_wakelock = False,
     kernel_wakelock_fd = - 1, kernel_wakelock_to_take = True, enable_debug2app = False,
     in_meta_factory = False, mnld_exiting = False, out = []\<rparr>"

text \<open>An environment with the default timeouts, for concrete runs.\<close>

definition env_default :: env where
  "env_default = \<lparr>tick = 0, clock = Some (0, 0), cmcc_log = False, ne_property = False,
     start_time_out = 35000, nmea_data_time_out = 10000, nmea_timer_id = 1, epo_file_invalid = True,
     epo_download_enabled = True, epo_wifi_trigger = True, chip_sv_type = 3, support_lppe = False,
     agps_set_param_ret = 0, acc_95 = (\<lambda>a. a), acc_no_fix = (\<lambda>a. a = 0)\<rparr>"

lemma mnld_boot_gps [simp]:
  "state_of mnld_boot = IDLE" "\<not> used c mnld_boot" "\<not> need_open_ack (client_of c mnld_boot)"
  "\<not> need_close_ack (client_of c mnld_boot)" "armed (gps mnld_boot) t = None"
  "pre_type (flp_session mnld_boot) = AP_MODE" "pre_type (gfc_session mnld_boot) = AP_MODE"
  "out mnld_boot = []" "\<not> OFFLOAD_enabled (cfg mnld_boot)"
  by (simp_all add: mnld_boot_def gps_status_boot_def session_boot_def)

section \<open>Facts about users\<close>

lemma exit_exist [simp]: "is_a_gps_client_exist s \<longleftrightarrow> \<not> is_all_gps_client_exit s"
  by (auto simp: is_a_gps_client_exist_def is_all_gps_client_exit_def)

lemma hbd_exit_exist [simp]: "is_all_hbd_gps_client_exit s \<longleftrightarrow> \<not> is_a_hbd_gps_client_exist s"
  by (auto simp: is_a_hbd_gps_client_exist_def is_all_hbd_gps_client_exit_def)

lemma ex_client:
  "(\<exists>c. P c) \<longleftrightarrow> P Hal \<or> P Agps \<or> P Flp \<or> P Flp_test \<or> P Geofence \<or> P At_cmd_test \<or> P Factory"
  by (metis client.exhaust)

lemma all_client:
  "(\<forall>c. P c) \<longleftrightarrow> P Hal \<and> P Agps \<and> P Flp \<and> P Flp_test \<and> P Geofence \<and> P At_cmd_test \<and> P Factory"
  by (metis client.exhaust)

lemma all_exit_iff: "is_all_gps_client_exit s \<longleftrightarrow> (\<forall>c. \<not> used c s)"
  unfolding is_all_gps_client_exit_def all_client by blast

lemma clear_gps_user_used [simp]: "used c (mtk_gps_clear_gps_user s) \<longleftrightarrow> False"
  by (cases c) (simp_all add: mtk_gps_clear_gps_user_def clear_used_def mnld_updates)

fun gps_user_bit :: "client \<Rightarrow> nat" where
    "gps_user_bit Hal = 0"
  | "gps_user_bit Agps = 1"
  | "gps_user_bit Factory = 2"
  | "gps_user_bit Flp = 4"
  | "gps_user_bit Flp_test = 5"
  | "gps_user_bit At_cmd_test = 6"
  | "gps_user_bit Geofence = 8"

lemma bit_push_1: "k < 32 \<Longrightarrow> bit (push_bit k 1 :: u32) n \<longleftrightarrow> n = k"
  by (auto simp: bit_exp_iff possible_bit_word)

lemma bit_users:
  "bit GPS_USER_APP n \<longleftrightarrow> n = 0" "bit GPS_USER_AGPS n \<longleftrightarrow> n = 1" "bit GPS_USER_META n \<longleftrightarrow> n = 2"
  "bit GPS_USER_FLP n \<longleftrightarrow> n = 4" "bit GPS_USER_OFL_TEST n \<longleftrightarrow> n = 5" "bit GPS_USER_AT_CMD n \<longleftrightarrow> n = 6"
  "bit GPS_USER_GEOFENCE n \<longleftrightarrow> n = 8"
  using bit_push_1 [of 0 n] bit_push_1 [of 1 n] bit_push_1 [of 2 n] bit_push_1 [of 4 n]
    bit_push_1 [of 5 n] bit_push_1 [of 6 n] bit_push_1 [of 8 n]
  by (simp_all add: gps_user_defs push_bit_eq_mult)

lemma bit_if_or: "bit (if b then u OR v else u) n \<longleftrightarrow> bit (u :: u32) n \<or> b \<and> bit v n"
  by (simp add: bit_or_iff)

lemma bit_gps_user:
  "bit (mtk_gps_get_gps_user s) n \<longleftrightarrow> (\<exists>c. used c s \<and> n = gps_user_bit c)"
proof -
  have "bit (mtk_gps_get_gps_user s) n \<longleftrightarrow>
    used Hal s \<and> n = 0 \<or> used Agps s \<and> n = 1 \<or> used Flp s \<and> n = 4 \<or> used Flp_test s \<and> n = 5 \<or>
    used Geofence s \<and> n = 8 \<or> used At_cmd_test s \<and> n = 6 \<or> used Factory s \<and> n = 2"
    by (simp only: mtk_gps_get_gps_user_def Let_def bit_if_or bit_users bit_0_eq bot_fun_def
        bot_bool_def simp_thms disj_assoc)
  also have "\<dots> \<longleftrightarrow> (\<exists>c. used c s \<and> n = gps_user_bit c)"
    by (simp only: ex_client gps_user_bit.simps)
  finally show ?thesis .
qed

lemma gps_user_bit_inj: "gps_user_bit c = gps_user_bit d \<longleftrightarrow> c = d"
  by (cases c; cases d) simp_all

lemma gps_user_bit_lt: "gps_user_bit c < 32"
  by (cases c) simp_all

lemma bit_offload_mask:
  "bit (GPS_USER_FLP OR GPS_USER_OFL_TEST OR GPS_USER_GEOFENCE) n \<longleftrightarrow> n \<in> {4, 5, 8}"
  by (simp only: bit_or_iff bit_users) blast

text \<open>The mask test says what its comment says: no host-based client uses the receiver.\<close>

lemma only_offload_users_iff:
  "only_offload_users (mtk_gps_get_gps_user s) \<longleftrightarrow> \<not> is_a_hbd_gps_client_exist s"
proof -
  have "only_offload_users (mtk_gps_get_gps_user s) \<longleftrightarrow>
    (\<forall>n. bit (mtk_gps_get_gps_user s) n \<longrightarrow> n \<in> {4, 5, 8})"
    unfolding only_offload_users_def bit_eq_iff bit_and_iff bit_offload_mask
    by (metis bit_imp_le_length impossible_bit)
  also have "\<dots> \<longleftrightarrow> (\<forall>c. used c s \<longrightarrow> gps_user_bit c \<in> {4, 5, 8})"
    unfolding bit_gps_user by blast
  also have "\<dots> \<longleftrightarrow> \<not> is_a_hbd_gps_client_exist s"
    by (simp add: is_a_hbd_gps_client_exist_def all_client)
  finally show ?thesis .
qed

text \<open>The user bitmap the daemon hands to the positioning library is exact: bit by bit it
  says which clients use the receiver, no two clients share a bit, and the mask test guarding the
  low-power branches holds exactly when no host-based client (HAL, AGPS, AT command, factory) uses
  the receiver.\<close>

theorem gps_user_bitmap_exact:
  "bit (mtk_gps_get_gps_user s) (gps_user_bit c) = used c s \<and>
   (mtk_gps_get_gps_user s = 0 \<longleftrightarrow> is_all_gps_client_exit s) \<and>
   (only_offload_users (mtk_gps_get_gps_user s) \<longleftrightarrow> is_all_hbd_gps_client_exit s)"
proof -
  have "bit (mtk_gps_get_gps_user s) (gps_user_bit c) = used c s"
    by (auto simp: bit_gps_user gps_user_bit_inj)
  moreover have "mtk_gps_get_gps_user s = 0 \<longleftrightarrow> is_all_gps_client_exit s"
    (is "?l \<longleftrightarrow> ?r")
  proof
    assume ?l
    then have "\<not> bit (mtk_gps_get_gps_user s) n" for n by simp
    then show ?r unfolding all_exit_iff bit_gps_user by blast
  next
    assume ?r
    then have "\<not> bit (mtk_gps_get_gps_user s) n" for n unfolding all_exit_iff bit_gps_user by blast
    then show ?l by (intro bit_eqI) simp
  qed
  ultimately show ?thesis by (simp add: only_offload_users_iff)
qed

end
