(* ===== verification/Peers.thy ===== *)
theory Peers
  imports Mnld_Clients
begin

text \<open>
  The daemon's two in-process peers, the fused location provider and the geofence service, as far
  as the GPS state machine talks to them: the session variables \<open>mnld_flp_session\<close> and
  \<open>mnld_gfc_session\<close>, the replies the daemon sends (\<open>mtk_flp_main.c\<close>, \<open>mtk_geofence_main.c\<close>) and how
  the peers take them (\<open>mnl2flp_hdlr\<close> of \<open>mtk_flp_mnl_interface.c\<close>, \<open>mnl2gfc_hdlr\<close> of
  \<open>mtk_geofence_controller.c\<close>). Replies are direct calls, so a reply changes the peer's state at
  once and may flush the messages the peer kept while the offload link was opening. The two
  peers' code is the same line by line but for what \<open>reset_status\<close> clears and for
  \<open>MNLD_FLP_TYPE_FLP_ATTACH_DONE\<close>; the model is written once, over \<open>peer_id\<close>. Allocation is taken
  to succeed.
\<close>

section \<open>Peers of the daemon\<close>

datatype peer_id = FLP | GFC

fun session_of :: "peer_id \<Rightarrow> mnld \<Rightarrow> session" where
    "session_of FLP s = flp_session s"
  | "session_of GFC s = gfc_session s"

fun set_session :: "peer_id \<Rightarrow> (session \<Rightarrow> session) \<Rightarrow> mnld \<Rightarrow> mnld" where
    "set_session FLP f s = s\<lparr>flp_session := f (flp_session s)\<rparr>"
  | "set_session GFC f s = s\<lparr>gfc_session := f (gfc_session s)\<rparr>"

fun peer_of :: "peer_id \<Rightarrow> mnld \<Rightarrow> peer" where
    "peer_of FLP s = flp_peer s"
  | "peer_of GFC s = gfc_peer s"

fun set_peer :: "peer_id \<Rightarrow> (peer \<Rightarrow> peer) \<Rightarrow> mnld \<Rightarrow> mnld" where
    "set_peer FLP f s = s\<lparr>flp_peer := f (flp_peer s)\<rparr>"
  | "set_peer GFC f s = s\<lparr>gfc_peer := f (gfc_peer s)\<rparr>"

fun client_of_peer :: "peer_id \<Rightarrow> client" where
    "client_of_peer FLP = Flp"
  | "client_of_peer GFC = Geofence"

text \<open>\<open>mnl_send2flp\<close> and \<open>mnl_send2gfc\<close>: a datagram to the peer's HAL; the result is only logged.\<close>

fun send2peer :: "peer_id \<Rightarrow> bytes \<Rightarrow> mnld \<Rightarrow> mnld" where
    "send2peer FLP d s = emit (To_flp_hal d) s"
  | "send2peer GFC d s = emit (To_gfc_hal d) s"

text \<open>The datagram of the message \<open>MTK_FLP_MSG_SYS_FLPD_RESET_NTF\<close>: its size, its type, no payload.\<close>

definition FLPD_RESET_NTF :: u32 where
  "FLPD_RESET_NTF = 100"

definition reset_ntf :: bytes where
  "reset_ntf = le32 8 @ le32 FLPD_RESET_NTF @ le32 0"

definition MNLD_OFL_LINK_SEND :: u32 where
  "MNLD_OFL_LINK_SEND = 230"

definition OFFLOAD_PAYLOAD_LEN :: u32 where
  "OFFLOAD_PAYLOAD_LEN = 600"

section \<open>The offload link\<close>

text \<open>\<open>mnld_flp_ofl_link_send\<close> and \<open>mnld_gfc_ofl_link_send\<close> of \<open>mnld.c\<close>.\<close>

definition mnld_ofl_link_send :: "peer_id \<Rightarrow> peer_msg \<Rightarrow> mnld \<Rightarrow> mnld" where
  "mnld_ofl_link_send pid m s =
     (if msession m = sid (session_of pid s) then
        if 0 < mlength m \<and> mlength m \<le> OFFLOAD_PAYLOAD_LEN
        then emit (Lib_send_flp_data (mdata m) (mlength m)) s
        else s
      else s)"

text \<open>The case \<open>MNLD_FLP_TYPE_OFL_LINK_SEND\<close> of \<open>flp2mnl_hdlr\<close> and \<open>gfc2mnl_hdlr\<close>.\<close>

definition link_send_case :: "peer_id \<Rightarrow> peer_msg \<Rightarrow> mnld \<Rightarrow> mnld" where
  "link_send_case pid m s =
     (if \<not> hdlr_cb (peer_of pid s) \<or> mtype m \<noteq> MNLD_OFL_LINK_SEND then s
      else if msession m \<noteq> sid (session_of pid s) then s
      else mnld_ofl_link_send pid m s)"

section \<open>How a peer takes a reply\<close>

definition set_sys_mode :: "u32 \<Rightarrow> peer \<Rightarrow> peer" where
  "set_sys_mode sysMode p =
     (if sysMode = AP_MODE \<or> sysMode = OFL_MODE then p\<lparr>gModeFlag := sysMode\<rparr> else p)"

fun controller_reset_status :: "peer_id \<Rightarrow> mnld \<Rightarrow> mnld" where
    "controller_reset_status FLP s = set_peer FLP (\<lambda>p. p\<lparr>penabled := False, source_to_use := 0,
       running_source := 0, batch_mode := - 1, period_ns := 0\<rparr>) s"
  | "controller_reset_status GFC s = emit Gfc_clear_geofences (set_peer GFC (\<lambda>p. p\<lparr>penabled := False,
       source_to_use := 0, running_source := 0, batch_mode := - 1, in_use := 0\<rparr>) s)"

definition on_bootup :: "peer_id \<Rightarrow> mnld \<Rightarrow> mnld" where
  "on_bootup pid s =
     send2peer pid reset_ntf (set_peer pid (\<lambda>p. p\<lparr>fgMnldStatus := STATUS_ATTACH_DONE\<rparr>) s)"

definition on_session_update :: "peer_id \<Rightarrow> u32 \<Rightarrow> u32 \<Rightarrow> mnld \<Rightarrow> mnld" where
  "on_session_update pid session support s =
     (let s = set_peer pid (\<lambda>p. p\<lparr>gCurrentSession := session, gCurrentSupport := support\<rparr>) s;
          st = fgMnldStatus (peer_of pid s);
          ofl = (support AND OFL_MODE \<noteq> 0)
      in if st = STATUS_HBD_GPS_OPEN_DONE \<and> support = AP_MODE then s
         else if st = STATUS_OFL_LINK_OPEN_DONE \<and> ofl then s
         else if st = STATUS_HBD_GPS_OPEN_DONE \<and> ofl then
           send2peer pid reset_ntf
             (set_peer pid (set_sys_mode OFL_MODE) (controller_reset_status pid s))
         else if st = STATUS_OFL_LINK_OPEN_DONE \<and> support = AP_MODE then
           send2peer pid reset_ntf (set_peer pid (set_sys_mode AP_MODE) s)
         else if ofl then set_peer pid (set_sys_mode OFL_MODE) s
         else if support = AP_MODE then set_peer pid (set_sys_mode AP_MODE) s
         else s)"

definition on_ofl_link_open_done :: "peer_id \<Rightarrow> mnld \<Rightarrow> mnld" where
  "on_ofl_link_open_done pid s =
     (if fgMnldStatus (peer_of pid s) = STATUS_OFL_LINK_OPEN then
        let s = set_peer pid (\<lambda>p. p\<lparr>fgMnldStatus := STATUS_OFL_LINK_OPEN_DONE\<rparr>) s;
            s = fold (link_send_case pid) (kept (peer_of pid s)) s
        in set_peer pid (\<lambda>p. p\<lparr>kept := []\<rparr>) s
      else s)"

definition on_status :: "peer_id \<Rightarrow> mnl_status \<Rightarrow> mnld \<Rightarrow> mnld" where
  "on_status pid st s = set_peer pid (\<lambda>p. p\<lparr>fgMnldStatus := st\<rparr>) s"

section \<open>The daemon's replies\<close>

definition mnld_session_update :: "peer_id \<Rightarrow> mnld \<Rightarrow> mnld" where
  "mnld_session_update pid s =
     on_session_update pid (sid (session_of pid s)) (stype (session_of pid s)) s"

definition mnl2peer_mnld_reboot :: "peer_id \<Rightarrow> mnld \<Rightarrow> mnld" where
  "mnl2peer_mnld_reboot pid s = on_bootup pid (mnld_session_update pid s)"

fun mnld_attach_done :: "peer_id \<Rightarrow> mnld \<Rightarrow> mnld" where
    "mnld_attach_done FLP s = s"
  | "mnld_attach_done GFC s = on_status GFC STATUS_ATTACH_DONE s"

definition mnld_hbd_gps_open_done :: "peer_id \<Rightarrow> mnld \<Rightarrow> mnld" where
  "mnld_hbd_gps_open_done pid s = on_status pid STATUS_HBD_GPS_OPEN_DONE s"

definition mnld_hbd_gps_close_done :: "peer_id \<Rightarrow> mnld \<Rightarrow> mnld" where
  "mnld_hbd_gps_close_done pid s = on_status pid STATUS_HBD_GPS_CLOSE_DONE s"

definition mnld_ofl_gps_open_done :: "peer_id \<Rightarrow> mnld \<Rightarrow> mnld" where
  "mnld_ofl_gps_open_done pid s = on_ofl_link_open_done pid s"

definition mnld_ofl_gps_close_done :: "peer_id \<Rightarrow> mnld \<Rightarrow> mnld" where
  "mnld_ofl_gps_close_done pid s = on_status pid STATUS_OFL_LINK_CLOSE_DONE s"

text \<open>\<open>mnld_flp_gen_new_session\<close>: the identifier after \<open>0xFFFFFFFE\<close> is 0.\<close>

definition next_session_id :: "u32 \<Rightarrow> u32" where
  "next_session_id i = (let i = i + 1 in if i \<ge> 0xFFFFFFFF then 0 else i)"

definition mnld_gen_new_session :: "peer_id \<Rightarrow> mnld \<Rightarrow> mnld" where
  "mnld_gen_new_session pid = set_session pid (\<lambda>x. x\<lparr>sid := next_session_id (sid x)\<rparr>)"

text \<open>
  The block the state machine repeats whenever the capability it offers a peer may have changed:
  a changed capability gets a new session, the peer loses the receiver and is told.
\<close>

definition session_switch :: "peer_id \<Rightarrow> mnld \<Rightarrow> mnld" where
  "session_switch pid s =
     (if stype (session_of pid s) \<noteq> pre_type (session_of pid s) then
        let s = mnld_gen_new_session pid s;
            s = set_session pid (\<lambda>x. x\<lparr>pre_type := stype x\<rparr>) s;
            s = set_client (client_of_peer pid) (gps_used_update (\<lambda>_. False)) s
        in mnld_session_update pid s
      else s)"

definition set_stype :: "peer_id \<Rightarrow> u32 \<Rightarrow> mnld \<Rightarrow> mnld" where
  "set_stype pid t = set_session pid (\<lambda>x. x\<lparr>stype := t\<rparr>)"

section \<open>Frame facts\<close>

text \<open>
  Replies leave the GPS status, the configuration and the sessions alone, and none of them
  addresses the GPS control thread or the framework's wakelock.
\<close>

named_theorems frame_simps

fun is_peer_effect :: "effect \<Rightarrow> bool" where
    "is_peer_effect (To_flp_hal _) = True"
  | "is_peer_effect (To_gfc_hal _) = True"
  | "is_peer_effect Gfc_clear_geofences = True"
  | "is_peer_effect (Gfc_kernel _) = True"
  | "is_peer_effect Gfc_expire = True"
  | "is_peer_effect (Gfc_set_location _) = True"
  | "is_peer_effect (Lib_send_flp_data _ _) = True"
  | "is_peer_effect _ = False"

definition quiet :: "(mnld \<Rightarrow> mnld) \<Rightarrow> bool" where
  "quiet f \<longleftrightarrow> (\<forall>s. gps (f s) = gps s \<and> epo (f s) = epo s \<and> cfg (f s) = cfg s \<and>
     flp_session (f s) = flp_session s \<and> gfc_session (f s) = gfc_session s \<and>
     (\<exists>es. out (f s) = out s @ es \<and> list_all is_peer_effect es))"

lemma quiet_id: "quiet (\<lambda>s. s)"
  by (auto simp: quiet_def)

lemma quiet_comp: "quiet f \<Longrightarrow> quiet g \<Longrightarrow> quiet (\<lambda>s. f (g s))"
  unfolding quiet_def by (smt (verit) append_assoc list_all_append)

lemma quiet_fold: "(\<And>x. quiet (f x)) \<Longrightarrow> quiet (fold f xs)"
proof (induction xs)
  case Nil
  then show ?case using quiet_id by simp
next
  case (Cons x xs)
  then show ?case using quiet_comp [of "fold f xs" "f x"] by (simp add: comp_def)
qed

lemma quiet_set_peer: "quiet (set_peer pid f)"
  by (cases pid) (auto simp: quiet_def)

lemma quiet_send2peer: "quiet (send2peer pid t)"
  by (cases pid) (auto simp: quiet_def emit_def)

lemma quiet_if: "quiet f \<Longrightarrow> quiet g \<Longrightarrow> quiet (\<lambda>s. if P s then f s else g s)"
  by (simp add: quiet_def)

lemma quiet_link_send: "quiet (link_send_case pid m)"
  by (auto simp: quiet_def link_send_case_def mnld_ofl_link_send_def emit_def)

lemma quiet_reset: "quiet (controller_reset_status pid)"
  by (cases pid) (auto simp: quiet_def emit_def)

lemma quiet_apply:
  assumes "quiet f"
  shows "gps (f s) = gps s" "epo (f s) = epo s" "cfg (f s) = cfg s"
    "flp_session (f s) = flp_session s" "gfc_session (f s) = gfc_session s"
    "session_of pid (f s) = session_of pid s"
  using assms by (cases pid; simp add: quiet_def)+

lemma quiet_out: "quiet f \<Longrightarrow> \<exists>es. out (f s) = out s @ es \<and> list_all is_peer_effect es"
  by (simp add: quiet_def)

lemma quiet_on_session_update: "quiet (on_session_update pid session support)"
  by (cases pid) (auto simp: quiet_def on_session_update_def Let_def emit_def)

lemma quiet_flush: "quiet (\<lambda>s. fold (link_send_case pid) (kept (peer_of pid s)) s)"
  using quiet_fold [of "link_send_case pid", OF quiet_link_send] by (simp add: quiet_def)

lemma quiet_on_ofl_link_open_done: "quiet (on_ofl_link_open_done pid)"
  using quiet_if [OF quiet_comp [OF quiet_set_peer quiet_comp [OF quiet_flush quiet_set_peer]] quiet_id,
      of "\<lambda>s. fgMnldStatus (peer_of pid s) = STATUS_OFL_LINK_OPEN" pid "\<lambda>p. p\<lparr>kept := []\<rparr>" pid pid
      "\<lambda>p. p\<lparr>fgMnldStatus := STATUS_OFL_LINK_OPEN_DONE\<rparr>"]
  unfolding on_ofl_link_open_done_def Let_def by simp

lemma quiet_on_status: "quiet (on_status pid st)"
  unfolding on_status_def by (rule quiet_set_peer)

lemma quiet_mnld_session_update: "quiet (mnld_session_update pid)"
  using quiet_on_session_update unfolding mnld_session_update_def quiet_def by blast

lemma quiet_done:
  "quiet (mnld_hbd_gps_open_done pid)" "quiet (mnld_hbd_gps_close_done pid)"
  "quiet (mnld_ofl_gps_open_done pid)" "quiet (mnld_ofl_gps_close_done pid)"
  unfolding mnld_hbd_gps_open_done_def mnld_hbd_gps_close_done_def mnld_ofl_gps_open_done_def
    mnld_ofl_gps_close_done_def
  by (rule quiet_on_status quiet_on_ofl_link_open_done)+

lemma quiet_reboot: "quiet (mnl2peer_mnld_reboot pid)"
  unfolding mnl2peer_mnld_reboot_def on_bootup_def
  using quiet_comp [OF quiet_comp [OF quiet_send2peer quiet_set_peer] quiet_mnld_session_update] by simp

lemma quiet_attach_done: "quiet (mnld_attach_done pid)"
  by (cases pid) (simp_all add: quiet_def on_status_def)

lemmas quiet_replies = quiet_done quiet_reboot quiet_mnld_session_update quiet_attach_done

lemmas [frame_simps] = quiet_replies [THEN quiet_apply(1)] quiet_replies [THEN quiet_apply(2)]
  quiet_replies [THEN quiet_apply(3)] quiet_replies [THEN quiet_apply(4)]
  quiet_replies [THEN quiet_apply(5)] quiet_replies [THEN quiet_apply(6)]

end
