(* ===== verification/Mnld_Fsm.thy ===== *)
theory Mnld_Fsm
  imports Peers
begin

text \<open>
  The GPS state machine of the daemon: \<open>mnld_fsm\<close> of \<open>gps/mtk_mnld/mnld_entity/src/mnld.c\<close> with the
  seven state functions \<open>fsm_gps_state_*\<close> and the acknowledgements \<open>do_gps_started_hdlr\<close>,
  \<open>do_gps_stopped_hdlr\<close> and \<open>do_gps_reset_hdlr\<close>. A state function returns the new daemon state or
  the crash that \<open>CRASH_TO_DEBUG\<close> provokes.
\<close>

section \<open>Acknowledgements\<close>

definition MNLD_GPS_STOP_TIMEOUT :: int where
  "MNLD_GPS_STOP_TIMEOUT = 30 * 1000"

definition MNLD_GPS_RESET_TIMEOUT :: int where
  "MNLD_GPS_RESET_TIMEOUT = 30 * 1000"

definition MNLD_GPS_SWITCH_OFL_MODE_TIMEOUT :: int where
  "MNLD_GPS_SWITCH_OFL_MODE_TIMEOUT = 30 * 1000"

definition SESSION_BEGIN :: u32 where
  "SESSION_BEGIN = 1"

definition SESSION_END :: u32 where
  "SESSION_END = 2"

definition SESSION_ENGINE_ON :: u32 where
  "SESSION_ENGINE_ON = 3"

definition SESSION_ENGINE_OFF :: u32 where
  "SESSION_ENGINE_OFF = 4"

definition NLP_REQUEST_SRC_MNL :: u32 where
  "NLP_REQUEST_SRC_MNL = 1"

definition do_gps_reset_hdlr :: "mnld \<Rightarrow> mnld" where
  "do_gps_reset_hdlr s =
     (if need_reset_ack (client_of Agps s)
      then emit (To_agps Agps_reset_gps_done) (set_client Agps (need_reset_ack_update (\<lambda>_. False)) s)
      else s)"

text \<open>\<open>if (c->need_open_ack) { c->need_open_ack = false; ... }\<close>\<close>

definition ack_open :: "client \<Rightarrow> (mnld \<Rightarrow> mnld) \<Rightarrow> mnld \<Rightarrow> mnld" where
  "ack_open c reply s =
     (if need_open_ack (client_of c s)
      then reply (set_client c (need_open_ack_update (\<lambda>_. False)) s) else s)"

definition ack_close :: "client \<Rightarrow> (mnld \<Rightarrow> mnld) \<Rightarrow> mnld \<Rightarrow> mnld" where
  "ack_close c reply s =
     (if need_close_ack (client_of c s)
      then reply (set_client c (need_close_ack_update (\<lambda>_. False)) s) else s)"

definition peer_open_reply :: "peer_id \<Rightarrow> u32 \<Rightarrow> mnld \<Rightarrow> mnld" where
  "peer_open_reply pid si_assist_req s =
     emit (To_agps (Agps_gps_open si_assist_req))
       (if mnld_support_auto_switch_mode s then
          if mnld_offload_is_auto_mode s then mnld_ofl_gps_open_done pid s
          else mnld_hbd_gps_open_done pid s
        else mnld_hbd_gps_open_done pid s)"

definition peer_close_reply :: "peer_id \<Rightarrow> mnld \<Rightarrow> mnld" where
  "peer_close_reply pid s =
     (if mnld_support_auto_switch_mode s then
        if mnld_offload_is_auto_mode s then mnld_ofl_gps_close_done pid s
        else mnld_hbd_gps_close_done pid s
      else mnld_hbd_gps_close_done pid s)"

text \<open>\<open>if (delete_aiding_flag) { start_timer (timer_reset, ...); gps_control_gps_reset (...); ... }\<close>\<close>

definition reset_if_flagged :: "mnld \<Rightarrow> mnld" where
  "reset_if_flagged s =
     (if delete_aiding_flag (gps s) \<noteq> 0 then
        let s = start_timer Timer_reset MNLD_GPS_RESET_TIMEOUT s;
            s = emit (To_gps (Gps_reset (delete_aiding_flag (gps s)))) s
        in set_gps (\<lambda>g. g\<lparr>delete_aiding_flag := 0\<rparr>) s
      else s)"

definition do_gps_started_hdlr :: "u32 \<Rightarrow> mnld \<Rightarrow> mnld" where
  "do_gps_started_hdlr si_assist_req s =
     (let s = ack_open Hal (\<lambda>s. emit (To_agps (Agps_gps_open si_assist_req))
                (emit (To_hal (Gps_status SESSION_BEGIN))
                  (emit (To_hal (Gps_status SESSION_ENGINE_ON)) s))) s;
          s = ack_open Agps (emit (To_agps Agps_open_gps_done)) s;
          s = ack_open Flp (peer_open_reply FLP si_assist_req) s;
          s = ack_open Geofence (peer_open_reply GFC si_assist_req) s;
          s = ack_open Flp_test (\<lambda>s. s) s;
          s = ack_open At_cmd_test (\<lambda>s. s) s;
          s = ack_open Factory (\<lambda>s. s) s;
          s = (if enable_debug2app s then emit (Dbg_gps_status True) s else s);
          s = do_gps_reset_hdlr s
      in reset_if_flagged s)"

definition do_gps_stopped_hdlr :: "mnld \<Rightarrow> mnld" where
  "do_gps_stopped_hdlr s =
     (let s = ack_close Hal (\<lambda>s. emit (To_agps Agps_gps_close)
                (emit (To_hal (Gps_status SESSION_ENGINE_OFF))
                  (emit (To_hal (Gps_status SESSION_END)) s))) s;
          s = ack_close Agps (emit (To_agps Agps_close_gps_done)) s;
          s = ack_close Flp (peer_close_reply FLP) s;
          s = ack_close Geofence (peer_close_reply GFC) s;
          s = ack_close Flp_test (\<lambda>s. s) s;
          s = ack_close At_cmd_test (\<lambda>s. s) s;
          s = ack_close Factory (\<lambda>s. s) s;
          s = (if enable_debug2app s then emit (Dbg_gps_status False) s else s);
          s = emit (Nlp_cancel NLP_REQUEST_SRC_MNL) s
      in do_gps_reset_hdlr s)"

section \<open>Power transitions\<close>

text \<open>\<open>gps_control_gps_start (delete_aiding_flag); delete_aiding_flag = 0;\<close>\<close>

definition control_start :: "mnld \<Rightarrow> mnld" where
  "control_start s =
     set_gps (\<lambda>g. g\<lparr>delete_aiding_flag := 0\<rparr>) (emit (To_gps (Gps_start (delete_aiding_flag (gps s)))) s)"

definition op01_log :: "env \<Rightarrow> effect \<Rightarrow> mnld \<Rightarrow> mnld" where
  "op01_log e x s = (if cmcc_log e then emit x s else s)"

text \<open>The body that \<open>GPS_EVENT_START\<close> and \<open>GPS_EVENT_OFFLOAD_START\<close> share in the idle state.\<close>

definition leave_idle :: "env \<Rightarrow> mnld_gps_state \<Rightarrow> mnld \<Rightarrow> mnld" where
  "leave_idle e target s =
     (let s = (if offload_active s then s else emit (To_hal Request_wakelock) s);
          s = op01_log e Op01_gps_start s;
          s = set_gps (\<lambda>g. g\<lparr>gps_start_time := tick e, wait_first_location := True\<rparr>) s;
          s = set_state target s;
          s = (if only_offload_users (mtk_gps_get_gps_user s) \<and> offload_active s
               then start_timer Timer_start (start_time_out e) s
               else start_timer Timer_start (start_time_out e) s)
      in control_start s)"

definition enter_stopping :: "mnld_gps_state \<Rightarrow> mnld \<Rightarrow> mnld" where
  "enter_stopping target s =
     emit (To_gps Gps_stop) (start_timer Timer_stop MNLD_GPS_STOP_TIMEOUT (set_state target s))"

definition restart :: "env \<Rightarrow> mnld_gps_state \<Rightarrow> mnld \<Rightarrow> mnld" where
  "restart e target s =
     (let s = set_state target s;
          s = (if only_offload_users (mtk_gps_get_gps_user s) \<and> offload_active s then s
               else start_timer Timer_start (start_time_out e) s)
      in control_start s)"

definition enter_idle :: "env \<Rightarrow> mnld \<Rightarrow> mnld" where
  "enter_idle e s =
     (let s = (if offload_active s then s else emit (To_hal Release_wakelock) s);
          s = op01_log e Op01_gps_stop s;
          s = set_gps (\<lambda>g. g\<lparr>gps_stop_time := tick e, wait_first_location := False\<rparr>) s
      in set_state IDLE s)"

definition switch_both :: "u32 \<Rightarrow> mnld \<Rightarrow> mnld" where
  "switch_both t s =
     session_switch GFC (set_stype GFC t (session_switch FLP (set_stype FLP t s)))"

text \<open>Downloads that finished before the start was confirmed are handed over now.\<close>

definition update_downloads :: "mnld \<Rightarrow> mnld" where
  "update_downloads s =
     (let s = (if mtknav_update_flag (dl s)
               then (emit (Mtknav_update_file (mtknav_res (dl s))) s)\<lparr>dl := (dl s)\<lparr>mtknav_update_flag := False\<rparr>\<rparr>
               else s);
          s = (if qepo_update_flag (dl s)
               then (emit (Qepo_update_file (qepo_dl_res (dl s))) s)\<lparr>dl := (dl s)\<lparr>qepo_update_flag := False\<rparr>\<rparr>
               else s);
          s = (if qepo_BD_update_flag (dl s)
               then (emit (Qepo_bd_update_file (qepo_bd_dl_res (dl s))) s)\<lparr>dl := (dl s)\<lparr>qepo_BD_update_flag := False\<rparr>\<rparr>
               else s)
      in if qepo_GA_update_flag (dl s)
         then (emit (Qepo_ga_update_file (qepo_ga_dl_res (dl s))) s)\<lparr>dl := (dl s)\<lparr>qepo_GA_update_flag := False\<rparr>\<rparr>
         else s)"

text \<open>The branch of \<open>fsm_gps_state_starting\<close> that reaches \<open>STARTED\<close>.\<close>

definition enter_started :: "mnld \<Rightarrow> mnld" where
  "enter_started s =
     (let s = update_downloads (set_state STARTED s)
      in if is_a_hbd_gps_client_exist s \<or> \<not> mnld_support_auto_switch_mode s
         then session_switch GFC (session_switch FLP (set_stype GFC AP_MODE (set_stype FLP AP_MODE s)))
         else start_timer Timer_switch_ofl_mode MNLD_GPS_SWITCH_OFL_MODE_TIMEOUT
           (set_session GFC (\<lambda>x. x\<lparr>stype := AP_MODE, pre_type := AP_MODE\<rparr>)
             (set_session FLP (\<lambda>x. x\<lparr>stype := AP_MODE, pre_type := AP_MODE\<rparr>) s)))"

definition release_peer :: "client \<Rightarrow> mnld \<Rightarrow> mnld" where
  "release_peer c = set_client c
     (\<lambda>k. k\<lparr>gps_used := False, need_open_ack := False, need_close_ack := False\<rparr>)"

section \<open>State functions\<close>

fun fsm_gps_state_idle :: "env \<Rightarrow> mnld_gps_event \<Rightarrow> u32 \<Rightarrow> mnld \<Rightarrow> outcome" where
    "fsm_gps_state_idle e EVENT_START d s = Inr (leave_idle e STARTING s)"
  | "fsm_gps_state_idle e EVENT_STOP d s = Inr (do_gps_stopped_hdlr s)"
  | "fsm_gps_state_idle e EVENT_RESET d s = Inr (do_gps_reset_hdlr s)"
  | "fsm_gps_state_idle e EVENT_OFFLOAD_START d s = Inr (leave_idle e OFL_STARTING s)"
  | "fsm_gps_state_idle e EVENT_START_DONE d s = Inl (Crash_event IDLE EVENT_START_DONE)"
  | "fsm_gps_state_idle e EVENT_STOP_DONE d s = Inl (Crash_event IDLE EVENT_STOP_DONE)"

fun fsm_gps_state_starting :: "env \<Rightarrow> mnld_gps_event \<Rightarrow> u32 \<Rightarrow> mnld \<Rightarrow> outcome" where
    "fsm_gps_state_starting e EVENT_STOP d s = Inr s"
  | "fsm_gps_state_starting e EVENT_START d s = Inr s"
  | "fsm_gps_state_starting e EVENT_OFFLOAD_START d s = Inr s"
  | "fsm_gps_state_starting e EVENT_RESET d s = Inr s"
  | "fsm_gps_state_starting e EVENT_START_DONE d s =
       (let s = do_gps_started_hdlr d (stop_timer Timer_start s)
        in Inr (if is_all_gps_client_exit s then enter_stopping STOPPING s else enter_started s))"
  | "fsm_gps_state_starting e EVENT_STOP_DONE d s = Inl (Crash_event STARTING EVENT_STOP_DONE)"

fun fsm_gps_state_started :: "env \<Rightarrow> mnld_gps_event \<Rightarrow> u32 \<Rightarrow> mnld \<Rightarrow> outcome" where
    "fsm_gps_state_started e EVENT_START d s = Inr (do_gps_started_hdlr 0 s)"
  | "fsm_gps_state_started e EVENT_STOP d s =
       (if is_all_gps_client_exit s
        then Inr (emit (To_gps Gps_stop) (stop_timer Timer_switch_ofl_mode
               (start_timer Timer_stop MNLD_GPS_STOP_TIMEOUT (set_state STOPPING s))))
        else let s = do_gps_stopped_hdlr s
             in Inr (if is_all_hbd_gps_client_exit s \<and> mnld_support_auto_switch_mode s
                     then start_timer Timer_switch_ofl_mode MNLD_GPS_SWITCH_OFL_MODE_TIMEOUT s
                     else s))"
  | "fsm_gps_state_started e EVENT_RESET d s = Inr (reset_if_flagged s)"
  | "fsm_gps_state_started e EVENT_START_DONE d s =
       Inr (if GPS_USER_APP AND mtk_gps_get_gps_user s \<noteq> 0 then emit (To_agps Agps_reaiding_req) s else s)"
  | "fsm_gps_state_started e EVENT_OFFLOAD_START d s = Inr s"
  | "fsm_gps_state_started e EVENT_STOP_DONE d s = Inl (Crash_event STARTED EVENT_STOP_DONE)"

fun fsm_gps_state_stopping :: "env \<Rightarrow> mnld_gps_event \<Rightarrow> u32 \<Rightarrow> mnld \<Rightarrow> outcome" where
    "fsm_gps_state_stopping e EVENT_START d s = Inr s"
  | "fsm_gps_state_stopping e EVENT_STOP d s = Inr s"
  | "fsm_gps_state_stopping e EVENT_RESET d s = Inr (do_gps_reset_hdlr s)"
  | "fsm_gps_state_stopping e EVENT_STOP_DONE d s =
       (let s = do_gps_stopped_hdlr (stop_timer Timer_stop s)
        in Inr (if is_a_gps_client_exist s then restart e STARTING s
                else let s = enter_idle e s
                     in if mnld_support_auto_switch_mode s then switch_both AP_OFL_MODE s else s))"
  | "fsm_gps_state_stopping e EVENT_OFFLOAD_START d s = Inr s"
  | "fsm_gps_state_stopping e EVENT_START_DONE d s = Inr s"

fun fsm_gps_state_ofl_starting :: "env \<Rightarrow> mnld_gps_event \<Rightarrow> u32 \<Rightarrow> mnld \<Rightarrow> outcome" where
    "fsm_gps_state_ofl_starting e EVENT_STOP d s = Inr s"
  | "fsm_gps_state_ofl_starting e EVENT_START d s = Inr s"
  | "fsm_gps_state_ofl_starting e EVENT_OFFLOAD_START d s = Inr s"
  | "fsm_gps_state_ofl_starting e EVENT_RESET d s = Inr s"
  | "fsm_gps_state_ofl_starting e EVENT_START_DONE d s =
       (let s = do_gps_started_hdlr d (stop_timer Timer_start s)
        in Inr (if is_all_gps_client_exit s \<or> is_a_hbd_gps_client_exist s
                then enter_stopping OFL_STOPPING s
                else set_stype GFC OFL_MODE (set_stype FLP OFL_MODE (set_state OFL_STARTED s))))"
  | "fsm_gps_state_ofl_starting e EVENT_STOP_DONE d s = Inl (Crash_event OFL_STARTING EVENT_STOP_DONE)"

fun fsm_gps_state_ofl_started :: "env \<Rightarrow> mnld_gps_event \<Rightarrow> u32 \<Rightarrow> mnld \<Rightarrow> outcome" where
    "fsm_gps_state_ofl_started e EVENT_START d s =
       (let s = do_gps_started_hdlr 0 s
        in Inr (if is_a_hbd_gps_client_exist s
                then enter_stopping OFL_STOPPING (release_peer Geofence (release_peer Flp s))
                else s))"
  | "fsm_gps_state_ofl_started e EVENT_STOP d s =
       Inr (if is_flp_user_exist s \<or> is_geofence_user_exist s then do_gps_stopped_hdlr s
            else enter_stopping OFL_STOPPING s)"
  | "fsm_gps_state_ofl_started e EVENT_RESET d s = Inr s"
  | "fsm_gps_state_ofl_started e EVENT_START_DONE d s =
       Inr (if GPS_USER_APP AND mtk_gps_get_gps_user s \<noteq> 0 then emit (To_agps Agps_reaiding_req) s else s)"
  | "fsm_gps_state_ofl_started e EVENT_OFFLOAD_START d s = Inr s"
  | "fsm_gps_state_ofl_started e EVENT_STOP_DONE d s = Inl (Crash_event OFL_STARTED EVENT_STOP_DONE)"

section \<open>Low power with offload users\<close>

definition mnld_gps_start_nmea_monitor :: "env \<Rightarrow> mnld \<Rightarrow> mnld" where
  "mnld_gps_start_nmea_monitor e s =
     (if nmea_timer_id e \<noteq> 0 then start_timer Timer_nmea_monitor (nmea_data_time_out e) s else s)"

definition mnld_gps_stop_nmea_monitor :: "env \<Rightarrow> mnld \<Rightarrow> mnld" where
  "mnld_gps_stop_nmea_monitor e s =
     (if nmea_timer_id e \<noteq> 0 then stop_timer Timer_nmea_monitor s else s)"

definition mnld_gps_controller_mnl_nmea_timeout :: "env \<Rightarrow> mnld \<Rightarrow> mnld" where
  "mnld_gps_controller_mnl_nmea_timeout e s =
     (if nmea_timer_id e \<noteq> 0 then start_timer Timer_nmea_monitor (nmea_data_time_out e) s else s)"

definition gps_control_kernel_wakelock_take :: "mnld \<Rightarrow> mnld" where
  "gps_control_kernel_wakelock_take s =
     (let s = s\<lparr>kernel_wakelock_to_take := True\<rparr>
      in if 0 \<le> kernel_wakelock_fd s then emit (Wakelock_ioctl True) s else s)"

definition gps_control_kernel_wakelock_give :: "mnld \<Rightarrow> mnld" where
  "gps_control_kernel_wakelock_give s =
     (let s = s\<lparr>kernel_wakelock_to_take := False\<rparr>
      in if 0 \<le> kernel_wakelock_fd s then emit (Wakelock_ioctl False) s else s)"

text \<open>The \<open>else\<close> branch at the top of \<open>mnld_fsm\<close>.\<close>

definition offload_users_changed :: "env \<Rightarrow> mnld \<Rightarrow> mnld" where
  "offload_users_changed e s =
     (let user_bitmap = mtk_gps_get_gps_user s;
          s = emit (Lib_ofl_set_user user_bitmap) s;
          s = (if only_offload_users user_bitmap then
                 if \<not> offload_lp_mode s then
                   let s = mnld_gps_stop_nmea_monitor e s;
                       s = gps_control_kernel_wakelock_give s;
                       s = (if offload_fwk_wakelock s
                            then (emit (To_hal Release_wakelock) s)\<lparr>offload_fwk_wakelock := False\<rparr> else s)
                   in s\<lparr>offload_lp_mode := True\<rparr>
                 else s
               else
                 if offload_lp_mode s then
                   let s = emit (To_hal Request_wakelock) s;
                       s = gps_control_kernel_wakelock_take s;
                       s = mnld_gps_start_nmea_monitor e s
                   in s\<lparr>offload_lp_mode := False, offload_fwk_wakelock := True\<rparr>
                 else s)
      in s\<lparr>offload_old_user := user_bitmap\<rparr>)"

definition fsm_enter :: "env \<Rightarrow> mnld \<Rightarrow> mnld" where
  "fsm_enter e s = (if offload_active s then offload_users_changed e s else s)"

section \<open>The machine\<close>

text \<open>
  \<open>fsm_gps_state_ofl_stopping\<close> calls \<open>mnld_fsm\<close> again, with \<open>GPS_EVENT_START\<close>, when a host-based
  client is waiting; only \<open>GPS_EVENT_STOP_DONE\<close> takes that branch, so the recursion ends.
\<close>

function (sequential) mnld_fsm :: "env \<Rightarrow> mnld_gps_event \<Rightarrow> u32 \<Rightarrow> mnld \<Rightarrow> outcome"
  and fsm_gps_state_ofl_stopping :: "env \<Rightarrow> mnld_gps_event \<Rightarrow> u32 \<Rightarrow> mnld \<Rightarrow> outcome" where
    "mnld_fsm e ev d s =
       (case state_of s of
          IDLE \<Rightarrow> fsm_gps_state_idle e ev d (fsm_enter e s)
        | STARTING \<Rightarrow> fsm_gps_state_starting e ev d (fsm_enter e s)
        | STARTED \<Rightarrow> fsm_gps_state_started e ev d (fsm_enter e s)
        | STOPPING \<Rightarrow> fsm_gps_state_stopping e ev d (fsm_enter e s)
        | OFL_STARTING \<Rightarrow> fsm_gps_state_ofl_starting e ev d (fsm_enter e s)
        | OFL_STARTED \<Rightarrow> fsm_gps_state_ofl_started e ev d (fsm_enter e s)
        | OFL_STOPPING \<Rightarrow> fsm_gps_state_ofl_stopping e ev d (fsm_enter e s))"
  | "fsm_gps_state_ofl_stopping e EVENT_START d s = Inr s"
  | "fsm_gps_state_ofl_stopping e EVENT_STOP d s = Inr s"
  | "fsm_gps_state_ofl_stopping e EVENT_RESET d s = Inr (do_gps_reset_hdlr s)"
  | "fsm_gps_state_ofl_stopping e EVENT_STOP_DONE d s =
       (let s = do_gps_stopped_hdlr (stop_timer Timer_stop s)
        in if (is_flp_user_exist s \<or> is_geofence_user_exist s) \<and> is_all_hbd_gps_client_exit s
           then Inr (restart e OFL_STARTING s)
           else let s = enter_idle e s
                in if is_a_hbd_gps_client_exist s then mnld_fsm e EVENT_START 0 (switch_both AP_MODE s)
                   else if mnld_support_auto_switch_mode s then Inr (switch_both AP_OFL_MODE s)
                   else Inr s)"
  | "fsm_gps_state_ofl_stopping e EVENT_OFFLOAD_START d s = Inr s"
  | "fsm_gps_state_ofl_stopping e EVENT_START_DONE d s = Inr s"
  by pat_completeness auto
termination
proof (relation "measure (\<lambda>x. case x of
      Inl (e, ev, d, s) \<Rightarrow> if ev = EVENT_STOP_DONE then 3 else 1
    | Inr (e, ev, d, s) \<Rightarrow> if ev = EVENT_STOP_DONE then 2 else 0)", goal_cases)
qed auto

declare mnld_fsm.simps [simp del]

end
