(* ===== verification/Fsm_Facts.thy ===== *)
theory Fsm_Facts
  imports Mnld_Fsm
begin

text \<open>
  What the building blocks of the state machine do to the parts of the daemon its properties are
  about: the machine state, the users, the pending acknowledgements, the timers, the commands to
  the GPS control thread and the framework wakelock.
\<close>

section \<open>Views of the effect log\<close>

fun power_cmd :: "effect \<Rightarrow> gps_cmd list" where
    "power_cmd (To_gps (Gps_start f)) = [Gps_start f]"
  | "power_cmd (To_gps Gps_stop) = [Gps_stop]"
  | "power_cmd _ = []"

text \<open>The start and stop commands sent to the GPS control thread, in order.\<close>

definition power_cmds :: "mnld \<Rightarrow> gps_cmd list" where
  "power_cmds s = concat (map power_cmd (out s))"

fun wake_of :: "effect \<Rightarrow> bool list" where
    "wake_of (To_hal Request_wakelock) = [True]"
  | "wake_of (To_hal Release_wakelock) = [False]"
  | "wake_of _ = []"

text \<open>The requests (\<open>True\<close>) and releases (\<open>False\<close>) of the framework wakelock, in order.\<close>

definition wakes :: "mnld \<Rightarrow> bool list" where
  "wakes s = concat (map wake_of (out s))"

lemma peer_effect_view: "is_peer_effect x \<Longrightarrow> power_cmd x = [] \<and> wake_of x = []"
  by (cases x) simp_all

lemma peer_effect_views:
  "list_all is_peer_effect es \<Longrightarrow> concat (map power_cmd es) = []"
  "list_all is_peer_effect es \<Longrightarrow> concat (map wake_of es) = []"
  by (induction es) (simp_all add: peer_effect_view)

lemma quiet_views:
  assumes "quiet f"
  shows "power_cmds (f s) = power_cmds s" "wakes (f s) = wakes s"
  using quiet_out [OF assms, of s] by (auto simp: power_cmds_def wakes_def peer_effect_views)

section \<open>Operations that leave the machine alone\<close>

text \<open>
  A \<open>calm\<close> operation keeps the machine state, the users, the configuration, the sessions, every
  timer but the reset timer, and says nothing to the control thread's power switch or about the
  wakelock.
\<close>

definition calm :: "(mnld \<Rightarrow> mnld) \<Rightarrow> bool" where
  "calm f \<longleftrightarrow> (\<forall>s. state_of (f s) = state_of s \<and> (\<forall>c. used c (f s) = used c s) \<and> cfg (f s) = cfg s \<and>
     flp_session (f s) = flp_session s \<and> gfc_session (f s) = gfc_session s \<and>
     (\<forall>t. t \<noteq> Timer_reset \<longrightarrow> armed (gps (f s)) t = armed (gps s) t) \<and>
     power_cmds (f s) = power_cmds s \<and> wakes (f s) = wakes s)"

lemma calm_id: "calm (\<lambda>s. s)"
  by (simp add: calm_def)

lemma calm_comp: "calm f \<Longrightarrow> calm g \<Longrightarrow> calm (\<lambda>s. f (g s))"
  by (simp add: calm_def)

lemma calm_if: "calm f \<Longrightarrow> calm g \<Longrightarrow> calm (\<lambda>s. if P s then f s else g s)"
  by (simp add: calm_def)

lemma calm_quiet: "quiet f \<Longrightarrow> calm f"
  by (simp add: calm_def quiet_apply quiet_views)

lemma calm_emit: "power_cmd x = [] \<Longrightarrow> wake_of x = [] \<Longrightarrow> calm (emit x)"
  by (simp add: calm_def emit_def power_cmds_def wakes_def)

lemma calm_set_client: "(\<And>k. gps_used (f k) = gps_used k) \<Longrightarrow> calm (set_client c f)"
  by (simp add: calm_def set_client_def set_gps_def power_cmds_def wakes_def)

lemma calm_ack_open: "calm reply \<Longrightarrow> calm (ack_open c reply)"
  unfolding ack_open_def
  using calm_if [OF calm_comp [of reply, OF _ calm_set_client [of "need_open_ack_update (\<lambda>_. False)"]] calm_id]
  by simp

lemma calm_ack_close: "calm reply \<Longrightarrow> calm (ack_close c reply)"
  unfolding ack_close_def
  using calm_if [OF calm_comp [of reply, OF _ calm_set_client [of "need_close_ack_update (\<lambda>_. False)"]] calm_id]
  by simp

lemma calm_reset_hdlr: "calm do_gps_reset_hdlr"
  unfolding do_gps_reset_hdlr_def
  using calm_if [OF calm_comp [OF calm_emit [of "To_agps Agps_reset_gps_done"]
      calm_set_client [of "need_reset_ack_update (\<lambda>_. False)"]] calm_id]
  by simp

lemma calm_reset_if_flagged: "calm reset_if_flagged"
  by (auto simp: calm_def reset_if_flagged_def mnld_updates power_cmds_def wakes_def Let_def)

lemma calm_peer_open_reply: "calm (peer_open_reply pid si)"
  unfolding peer_open_reply_def
  by (rule calm_comp [OF calm_emit]) (simp_all add: calm_if calm_quiet quiet_done)

lemma calm_peer_close_reply: "calm (peer_close_reply pid)"
  unfolding peer_close_reply_def by (simp add: calm_if calm_quiet quiet_done)

lemma calm_debug: "calm (\<lambda>s. if enable_debug2app s then emit (Dbg_gps_status b) s else s)"
  by (rule calm_if [OF calm_emit calm_id]) simp_all

text \<open>The stages of the two acknowledgement functions, one after the other.\<close>

lemma do_gps_started_hdlr_stages:
  "do_gps_started_hdlr si = (\<lambda>s. reset_if_flagged (do_gps_reset_hdlr
     ((\<lambda>s. if enable_debug2app s then emit (Dbg_gps_status True) s else s)
      (ack_open Factory (\<lambda>s. s) (ack_open At_cmd_test (\<lambda>s. s) (ack_open Flp_test (\<lambda>s. s)
       (ack_open Geofence (peer_open_reply GFC si) (ack_open Flp (peer_open_reply FLP si)
        (ack_open Agps (emit (To_agps Agps_open_gps_done))
         (ack_open Hal (\<lambda>s. emit (To_agps (Agps_gps_open si)) (emit (To_hal (Gps_status SESSION_BEGIN))
           (emit (To_hal (Gps_status SESSION_ENGINE_ON)) s))) s))))))))))"
  by (simp add: do_gps_started_hdlr_def Let_def fun_eq_iff)

lemma do_gps_stopped_hdlr_stages:
  "do_gps_stopped_hdlr = (\<lambda>s. do_gps_reset_hdlr (emit (Nlp_cancel NLP_REQUEST_SRC_MNL)
     ((\<lambda>s. if enable_debug2app s then emit (Dbg_gps_status False) s else s)
      (ack_close Factory (\<lambda>s. s) (ack_close At_cmd_test (\<lambda>s. s) (ack_close Flp_test (\<lambda>s. s)
       (ack_close Geofence (peer_close_reply GFC) (ack_close Flp (peer_close_reply FLP)
        (ack_close Agps (emit (To_agps Agps_close_gps_done))
         (ack_close Hal (\<lambda>s. emit (To_agps Agps_gps_close) (emit (To_hal (Gps_status SESSION_ENGINE_OFF))
           (emit (To_hal (Gps_status SESSION_END)) s))) s))))))))))"
  by (simp add: do_gps_stopped_hdlr_def Let_def fun_eq_iff)

lemma calm_started: "calm (do_gps_started_hdlr si)"
proof -
  have "calm (\<lambda>s. emit (To_agps (Agps_gps_open si)) (emit (To_hal (Gps_status SESSION_BEGIN))
      (emit (To_hal (Gps_status SESSION_ENGINE_ON)) s)))"
    by (rule calm_comp [OF calm_emit calm_comp [OF calm_emit calm_emit]]) simp_all
  note parts = calm_ack_open [OF this] calm_ack_open [OF calm_emit [of "To_agps Agps_open_gps_done"]]
    calm_ack_open [OF calm_peer_open_reply] calm_ack_open [OF calm_id] calm_debug
    calm_reset_hdlr calm_reset_if_flagged
  show ?thesis unfolding do_gps_started_hdlr_stages using parts unfolding calm_def by simp
qed

lemma calm_stopped: "calm do_gps_stopped_hdlr"
proof -
  have "calm (\<lambda>s. emit (To_agps Agps_gps_close) (emit (To_hal (Gps_status SESSION_ENGINE_OFF))
      (emit (To_hal (Gps_status SESSION_END)) s)))"
    by (rule calm_comp [OF calm_emit calm_comp [OF calm_emit calm_emit]]) simp_all
  note parts = calm_ack_close [OF this] calm_ack_close [OF calm_emit [of "To_agps Agps_close_gps_done"]]
    calm_ack_close [OF calm_peer_close_reply] calm_ack_close [OF calm_id] calm_debug
    calm_reset_hdlr calm_emit [of "Nlp_cancel NLP_REQUEST_SRC_MNL"]
  show ?thesis unfolding do_gps_stopped_hdlr_stages using parts unfolding calm_def by simp
qed

lemma calm_update_downloads: "calm update_downloads"
  by (auto simp: calm_def update_downloads_def emit_def power_cmds_def wakes_def Let_def)

lemma calm_apply:
  assumes "calm f"
  shows "state_of (f s) = state_of s" "used c (f s) = used c s" "cfg (f s) = cfg s"
    "flp_session (f s) = flp_session s" "gfc_session (f s) = gfc_session s"
    "t \<noteq> Timer_reset \<Longrightarrow> armed (gps (f s)) t = armed (gps s) t"
    "power_cmds (f s) = power_cmds s" "wakes (f s) = wakes s"
  using assms by (simp_all add: calm_def)

lemmas calm_ops = calm_reset_hdlr calm_reset_if_flagged calm_started calm_stopped calm_update_downloads

lemmas [frame_simps] = calm_ops [THEN calm_apply(1)] calm_ops [THEN calm_apply(2)]
  calm_ops [THEN calm_apply(3)] calm_ops [THEN calm_apply(4)] calm_ops [THEN calm_apply(5)]
  calm_ops [THEN calm_apply(6)] calm_ops [THEN calm_apply(7)] calm_ops [THEN calm_apply(8)]

section \<open>The remaining blocks\<close>

lemma emit_frame [frame_simps]:
  "gps (emit x s) = gps s" "cfg (emit x s) = cfg s" "flp_session (emit x s) = flp_session s"
  "gfc_session (emit x s) = gfc_session s" "session_of pid (emit x s) = session_of pid s"
  "power_cmds (emit x s) = power_cmds s @ power_cmd x" "wakes (emit x s) = wakes s @ wake_of x"
  by (cases pid; simp add: emit_def power_cmds_def wakes_def)+

lemma set_gps_frame [frame_simps]:
  "gps (set_gps f s) = f (gps s)" "cfg (set_gps f s) = cfg s" "flp_session (set_gps f s) = flp_session s"
  "gfc_session (set_gps f s) = gfc_session s" "session_of pid (set_gps f s) = session_of pid s"
  "power_cmds (set_gps f s) = power_cmds s" "wakes (set_gps f s) = wakes s"
  by (cases pid; simp add: set_gps_def power_cmds_def wakes_def)+

lemma set_session_frame [frame_simps]:
  "gps (set_session pid f s) = gps s" "cfg (set_session pid f s) = cfg s"
  "power_cmds (set_session pid f s) = power_cmds s" "wakes (set_session pid f s) = wakes s"
  by (cases pid; simp add: power_cmds_def wakes_def)+

lemma session_update_views [frame_simps]:
  "power_cmds (s\<lparr>flp_session := x\<rparr>) = power_cmds s" "power_cmds (s\<lparr>gfc_session := x\<rparr>) = power_cmds s"
  "wakes (s\<lparr>flp_session := x\<rparr>) = wakes s" "wakes (s\<lparr>gfc_session := x\<rparr>) = wakes s"
  by (simp_all add: power_cmds_def wakes_def)

lemma session_of_set_session [frame_simps]:
  "session_of q (set_session p f s) = (if p = q then f (session_of p s) else session_of q s)"
  by (cases p; cases q) simp_all

lemma set_client_frame [frame_simps]:
  "client_of d (set_client c f s) = (if d = c then f (client_of c s) else client_of d s)"
  "state_of (set_client c f s) = state_of s" "armed (gps (set_client c f s)) = armed (gps s)"
  "delete_aiding_flag (gps (set_client c f s)) = delete_aiding_flag (gps s)"
  "cfg (set_client c f s) = cfg s" "flp_session (set_client c f s) = flp_session s"
  "gfc_session (set_client c f s) = gfc_session s" "session_of pid (set_client c f s) = session_of pid s"
  "power_cmds (set_client c f s) = power_cmds s" "wakes (set_client c f s) = wakes s"
  by (simp_all add: set_client_def frame_simps)

lemma set_state_frame [frame_simps]:
  "state_of (set_state st s) = st" "clients (gps (set_state st s)) = clients (gps s)"
  "armed (gps (set_state st s)) = armed (gps s)"
  "delete_aiding_flag (gps (set_state st s)) = delete_aiding_flag (gps s)"
  "cfg (set_state st s) = cfg s" "flp_session (set_state st s) = flp_session s"
  "gfc_session (set_state st s) = gfc_session s" "session_of pid (set_state st s) = session_of pid s"
  "power_cmds (set_state st s) = power_cmds s" "wakes (set_state st s) = wakes s"
  by (simp_all add: set_state_def frame_simps)

lemma start_timer_frame [frame_simps]:
  "state_of (start_timer t ms s) = state_of s" "clients (gps (start_timer t ms s)) = clients (gps s)"
  "armed (gps (start_timer t ms s)) = (armed (gps s))(t := (if ms = 0 then None else Some ms))"
  "delete_aiding_flag (gps (start_timer t ms s)) = delete_aiding_flag (gps s)"
  "cfg (start_timer t ms s) = cfg s" "flp_session (start_timer t ms s) = flp_session s"
  "gfc_session (start_timer t ms s) = gfc_session s"
  "session_of pid (start_timer t ms s) = session_of pid s"
  "power_cmds (start_timer t ms s) = power_cmds s" "wakes (start_timer t ms s) = wakes s"
  by (simp_all add: start_timer_def frame_simps)

lemma stop_timer_frame [frame_simps]:
  "state_of (stop_timer t s) = state_of s" "clients (gps (stop_timer t s)) = clients (gps s)"
  "armed (gps (stop_timer t s)) = (armed (gps s))(t := None)"
  "delete_aiding_flag (gps (stop_timer t s)) = delete_aiding_flag (gps s)"
  "cfg (stop_timer t s) = cfg s" "flp_session (stop_timer t s) = flp_session s"
  "gfc_session (stop_timer t s) = gfc_session s" "session_of pid (stop_timer t s) = session_of pid s"
  "power_cmds (stop_timer t s) = power_cmds s" "wakes (stop_timer t s) = wakes s"
  by (simp_all add: stop_timer_def frame_simps)

lemmas session_frames = quiet_mnld_session_update [THEN quiet_views(1)]
  quiet_mnld_session_update [THEN quiet_views(2)]

declare session_frames [frame_simps]

lemma session_switch_frame [frame_simps]:
  "state_of (session_switch pid s) = state_of s" "armed (gps (session_switch pid s)) = armed (gps s)"
  "delete_aiding_flag (gps (session_switch pid s)) = delete_aiding_flag (gps s)"
  "cfg (session_switch pid s) = cfg s" "power_cmds (session_switch pid s) = power_cmds s"
  "wakes (session_switch pid s) = wakes s"
  "c \<noteq> client_of_peer pid \<Longrightarrow> client_of c (session_switch pid s) = client_of c s"
  "stype (session_of p (session_switch pid s)) = stype (session_of p s)"
  by (simp_all add: session_switch_def mnld_gen_new_session_def frame_simps Let_def)

lemma session_of_projs: "flp_session s = session_of FLP s" "gfc_session s = session_of GFC s"
  by simp_all

lemma set_stype_frame [frame_simps]:
  "gps (set_stype pid t s) = gps s" "cfg (set_stype pid t s) = cfg s"
  "power_cmds (set_stype pid t s) = power_cmds s" "wakes (set_stype pid t s) = wakes s"
  "stype (session_of p (set_stype pid t s)) = (if p = pid then t else stype (session_of p s))"
  by (simp_all add: set_stype_def frame_simps)

section \<open>Predicates on users and configuration\<close>

lemmas user_preds = is_all_gps_client_exit_def is_a_hbd_gps_client_exist_def
  is_flp_user_exist_def is_geofence_user_exist_def mtk_gps_get_gps_user_def

lemmas cfg_preds = mnld_support_auto_switch_mode_def mnld_offload_is_auto_mode_def
  offload_active_def mnl_offload_is_enabled_def mnld_offload_is_always_on_mode_def

lemma users_cong:
  assumes "\<And>c. used c s' = used c s"
  shows "is_all_gps_client_exit s' = is_all_gps_client_exit s"
    "is_a_hbd_gps_client_exist s' = is_a_hbd_gps_client_exist s"
    "is_flp_user_exist s' = is_flp_user_exist s" "is_geofence_user_exist s' = is_geofence_user_exist s"
    "mtk_gps_get_gps_user s' = mtk_gps_get_gps_user s"
  using assms by (simp_all add: user_preds)

lemma cfg_cong:
  assumes "cfg s' = cfg s" "stype (flp_session s') = stype (flp_session s)"
    "stype (gfc_session s') = stype (gfc_session s)"
  shows "mnld_support_auto_switch_mode s' = mnld_support_auto_switch_mode s"
    "mnld_offload_is_auto_mode s' = mnld_offload_is_auto_mode s" "offload_active s' = offload_active s"
  using assms by (simp_all add: cfg_preds)

lemma calm_users:
  assumes "calm f"
  shows "is_all_gps_client_exit (f s) = is_all_gps_client_exit s"
    "is_a_hbd_gps_client_exist (f s) = is_a_hbd_gps_client_exist s"
    "is_flp_user_exist (f s) = is_flp_user_exist s" "is_geofence_user_exist (f s) = is_geofence_user_exist s"
    "mtk_gps_get_gps_user (f s) = mtk_gps_get_gps_user s"
    "mnld_support_auto_switch_mode (f s) = mnld_support_auto_switch_mode s"
    "offload_active (f s) = offload_active s"
  by (simp_all only: users_cong [of "f s" s, OF calm_apply(2) [OF assms]]
      cfg_cong [of "f s" s, OF calm_apply(3) [OF assms]] calm_apply(4,5) [OF assms])

lemmas [frame_simps] = calm_ops [THEN calm_users(1)] calm_ops [THEN calm_users(2)]
  calm_ops [THEN calm_users(3)] calm_ops [THEN calm_users(4)] calm_ops [THEN calm_users(5)]
  calm_ops [THEN calm_users(6)] calm_ops [THEN calm_users(7)]

lemma update_users [frame_simps]:
  "is_all_gps_client_exit (start_timer t ms s) = is_all_gps_client_exit s"
  "is_all_gps_client_exit (stop_timer t s) = is_all_gps_client_exit s"
  "is_all_gps_client_exit (set_state st s) = is_all_gps_client_exit s"
  "is_a_hbd_gps_client_exist (start_timer t ms s) = is_a_hbd_gps_client_exist s"
  "is_a_hbd_gps_client_exist (stop_timer t s) = is_a_hbd_gps_client_exist s"
  "is_a_hbd_gps_client_exist (set_state st s) = is_a_hbd_gps_client_exist s"
  "is_flp_user_exist (stop_timer t s) = is_flp_user_exist s"
  "is_geofence_user_exist (stop_timer t s) = is_geofence_user_exist s"
  "mtk_gps_get_gps_user (set_state st s) = mtk_gps_get_gps_user s"
  "mtk_gps_get_gps_user (emit x s) = mtk_gps_get_gps_user s"
  by (simp_all add: user_preds frame_simps)

lemma update_cfg [frame_simps]:
  "mnld_support_auto_switch_mode (start_timer t ms s) = mnld_support_auto_switch_mode s"
  "mnld_support_auto_switch_mode (stop_timer t s) = mnld_support_auto_switch_mode s"
  "mnld_support_auto_switch_mode (set_state st s) = mnld_support_auto_switch_mode s"
  "mnld_support_auto_switch_mode (emit x s) = mnld_support_auto_switch_mode s"
  "mnld_support_auto_switch_mode (set_gps f s) = mnld_support_auto_switch_mode s"
  "offload_active (start_timer t ms s) = offload_active s"
  "offload_active (stop_timer t s) = offload_active s"
  "offload_active (set_state st s) = offload_active s"
  "offload_active (emit x s) = offload_active s"
  "offload_active (set_gps f s) = offload_active s"
  by (simp_all add: cfg_preds frame_simps)

section \<open>Power transitions\<close>

lemma control_start_frame [frame_simps]:
  "state_of (control_start s) = state_of s" "clients (gps (control_start s)) = clients (gps s)"
  "armed (gps (control_start s)) = armed (gps s)" "cfg (control_start s) = cfg s"
  "session_of pid (control_start s) = session_of pid s"
  "power_cmds (control_start s) = power_cmds s @ [Gps_start (delete_aiding_flag (gps s))]"
  "wakes (control_start s) = wakes s"
  by (simp_all add: control_start_def frame_simps)

lemma op01_log_frame [frame_simps]:
  "x \<in> {Op01_gps_start, Op01_gps_stop} \<Longrightarrow> gps (op01_log e x s) = gps s"
  "x \<in> {Op01_gps_start, Op01_gps_stop} \<Longrightarrow> cfg (op01_log e x s) = cfg s"
  "x \<in> {Op01_gps_start, Op01_gps_stop} \<Longrightarrow> session_of pid (op01_log e x s) = session_of pid s"
  "x \<in> {Op01_gps_start, Op01_gps_stop} \<Longrightarrow> power_cmds (op01_log e x s) = power_cmds s"
  "x \<in> {Op01_gps_start, Op01_gps_stop} \<Longrightarrow> wakes (op01_log e x s) = wakes s"
  "offload_active (op01_log e x s) = offload_active s"
  "mnld_support_auto_switch_mode (op01_log e x s) = mnld_support_auto_switch_mode s"
  by (auto simp: op01_log_def frame_simps)

lemma leave_idle_frame [frame_simps]:
  "state_of (leave_idle e st s) = st" "clients (gps (leave_idle e st s)) = clients (gps s)"
  "cfg (leave_idle e st s) = cfg s" "session_of pid (leave_idle e st s) = session_of pid s"
  "armed (gps (leave_idle e st s)) =
     (armed (gps s))(Timer_start := (if start_time_out e = 0 then None else Some (start_time_out e)))"
  "power_cmds (leave_idle e st s) = power_cmds s @ [Gps_start (delete_aiding_flag (gps s))]"
  "wakes (leave_idle e st s) = wakes s @ (if offload_active s then [] else [True])"
  by (simp_all add: leave_idle_def Let_def frame_simps)

lemma enter_stopping_frame [frame_simps]:
  "state_of (enter_stopping st s) = st" "clients (gps (enter_stopping st s)) = clients (gps s)"
  "cfg (enter_stopping st s) = cfg s" "session_of pid (enter_stopping st s) = session_of pid s"
  "armed (gps (enter_stopping st s)) = (armed (gps s))(Timer_stop := Some MNLD_GPS_STOP_TIMEOUT)"
  "power_cmds (enter_stopping st s) = power_cmds s @ [Gps_stop]"
  "wakes (enter_stopping st s) = wakes s"
  by (simp_all add: enter_stopping_def frame_simps MNLD_GPS_STOP_TIMEOUT_def)

lemma restart_frame [frame_simps]:
  "state_of (restart e st s) = st" "clients (gps (restart e st s)) = clients (gps s)"
  "cfg (restart e st s) = cfg s" "session_of pid (restart e st s) = session_of pid s"
  "t \<noteq> Timer_start \<Longrightarrow> armed (gps (restart e st s)) t = armed (gps s) t"
  "power_cmds (restart e st s) = power_cmds s @ [Gps_start (delete_aiding_flag (gps s))]"
  "wakes (restart e st s) = wakes s"
  by (simp_all add: restart_def Let_def frame_simps)

lemma restart_timer:
  "\<not> offload_active s \<Longrightarrow> start_time_out e \<noteq> 0 \<Longrightarrow>
     armed (gps (restart e st s)) Timer_start = Some (start_time_out e)"
  by (simp add: restart_def Let_def frame_simps)

lemma enter_idle_frame [frame_simps]:
  "state_of (enter_idle e s) = IDLE" "clients (gps (enter_idle e s)) = clients (gps s)"
  "armed (gps (enter_idle e s)) = armed (gps s)"
  "delete_aiding_flag (gps (enter_idle e s)) = delete_aiding_flag (gps s)"
  "cfg (enter_idle e s) = cfg s" "session_of pid (enter_idle e s) = session_of pid s"
  "power_cmds (enter_idle e s) = power_cmds s"
  "wakes (enter_idle e s) = wakes s @ (if offload_active s then [] else [False])"
  "mnld_support_auto_switch_mode (enter_idle e s) = mnld_support_auto_switch_mode s"
  "is_a_hbd_gps_client_exist (enter_idle e s) = is_a_hbd_gps_client_exist s"
  by (simp_all add: enter_idle_def Let_def frame_simps user_preds)

lemma switch_both_frame [frame_simps]:
  "state_of (switch_both t s) = state_of s" "armed (gps (switch_both t s)) = armed (gps s)"
  "delete_aiding_flag (gps (switch_both t s)) = delete_aiding_flag (gps s)"
  "cfg (switch_both t s) = cfg s" "power_cmds (switch_both t s) = power_cmds s"
  "wakes (switch_both t s) = wakes s"
  "c \<noteq> Flp \<Longrightarrow> c \<noteq> Geofence \<Longrightarrow> client_of c (switch_both t s) = client_of c s"
  "stype (session_of p (switch_both t s)) = t"
  by (simp_all add: switch_both_def frame_simps) (cases p, simp_all)

lemma session_switch_used: "used c (session_switch pid s) \<Longrightarrow> used c s"
  by (cases "c = client_of_peer pid")
    (auto simp: session_switch_def mnld_gen_new_session_def frame_simps Let_def split: if_splits)

lemma switch_both_used: "used c (switch_both t s) \<Longrightarrow> used c s"
  unfolding switch_both_def by (auto dest!: session_switch_used simp: frame_simps)

lemma enter_started_frame [frame_simps]:
  "state_of (enter_started s) = STARTED" "cfg (enter_started s) = cfg s"
  "t \<notin> {Timer_switch_ofl_mode, Timer_reset} \<Longrightarrow> armed (gps (enter_started s)) t = armed (gps s) t"
  "power_cmds (enter_started s) = power_cmds s" "wakes (enter_started s) = wakes s"
  "c \<noteq> Flp \<Longrightarrow> c \<noteq> Geofence \<Longrightarrow> used c (enter_started s) = used c s"
  by (simp_all add: enter_started_def Let_def frame_simps)

lemma release_peer_frame [frame_simps]:
  "state_of (release_peer c s) = state_of s" "armed (gps (release_peer c s)) = armed (gps s)"
  "client_of d (release_peer c s) = (if d = c then (client_of c s)\<lparr>gps_used := False,
     need_open_ack := False, need_close_ack := False\<rparr> else client_of d s)"
  "cfg (release_peer c s) = cfg s" "session_of pid (release_peer c s) = session_of pid s"
  "power_cmds (release_peer c s) = power_cmds s" "wakes (release_peer c s) = wakes s"
  by (simp_all add: release_peer_def frame_simps)

section \<open>Entering the machine\<close>

lemma offload_users_changed_frame:
  "state_of (offload_users_changed e s) = state_of s"
  "clients (gps (offload_users_changed e s)) = clients (gps s)"
  "delete_aiding_flag (gps (offload_users_changed e s)) = delete_aiding_flag (gps s)"
  "t \<noteq> Timer_nmea_monitor \<Longrightarrow> armed (gps (offload_users_changed e s)) t = armed (gps s) t"
  "cfg (offload_users_changed e s) = cfg s" "flp_session (offload_users_changed e s) = flp_session s"
  "gfc_session (offload_users_changed e s) = gfc_session s"
  "power_cmds (offload_users_changed e s) = power_cmds s"
  by (simp_all add: offload_users_changed_def Let_def mnld_gps_stop_nmea_monitor_def
      mnld_gps_start_nmea_monitor_def gps_control_kernel_wakelock_give_def
      gps_control_kernel_wakelock_take_def emit_def set_gps_def stop_timer_def start_timer_def power_cmds_def)

lemma fsm_enter_frame [frame_simps]:
  "state_of (fsm_enter e s) = state_of s" "clients (gps (fsm_enter e s)) = clients (gps s)"
  "delete_aiding_flag (gps (fsm_enter e s)) = delete_aiding_flag (gps s)"
  "t \<noteq> Timer_nmea_monitor \<Longrightarrow> armed (gps (fsm_enter e s)) t = armed (gps s) t"
  "cfg (fsm_enter e s) = cfg s" "flp_session (fsm_enter e s) = flp_session s"
  "gfc_session (fsm_enter e s) = gfc_session s" "session_of pid (fsm_enter e s) = session_of pid s"
  "power_cmds (fsm_enter e s) = power_cmds s"
  "\<not> offload_active s \<Longrightarrow> wakes (fsm_enter e s) = wakes s"
  by (cases pid; simp add: fsm_enter_def offload_users_changed_frame)+

lemma fsm_enter_preds [frame_simps]:
  "is_all_gps_client_exit (fsm_enter e s) = is_all_gps_client_exit s"
  "is_a_hbd_gps_client_exist (fsm_enter e s) = is_a_hbd_gps_client_exist s"
  "is_flp_user_exist (fsm_enter e s) = is_flp_user_exist s"
  "is_geofence_user_exist (fsm_enter e s) = is_geofence_user_exist s"
  "mnld_support_auto_switch_mode (fsm_enter e s) = mnld_support_auto_switch_mode s"
  "offload_active (fsm_enter e s) = offload_active s"
  by (simp_all add: user_preds cfg_preds frame_simps)

end
