(* ===== verification/Fsm_Props.thy ===== *)
theory Fsm_Props
  imports Fsm_Facts
begin

text \<open>
  Properties of single steps of the GPS state machine: which events crash it, which state follows,
  what it tells the GPS control thread, whom it acknowledges.
\<close>

section \<open>Unfolding one step\<close>

lemma mnld_fsm_at:
  "state_of s = IDLE \<Longrightarrow> mnld_fsm e ev d s = fsm_gps_state_idle e ev d (fsm_enter e s)"
  "state_of s = STARTING \<Longrightarrow> mnld_fsm e ev d s = fsm_gps_state_starting e ev d (fsm_enter e s)"
  "state_of s = STARTED \<Longrightarrow> mnld_fsm e ev d s = fsm_gps_state_started e ev d (fsm_enter e s)"
  "state_of s = STOPPING \<Longrightarrow> mnld_fsm e ev d s = fsm_gps_state_stopping e ev d (fsm_enter e s)"
  "state_of s = OFL_STARTING \<Longrightarrow> mnld_fsm e ev d s = fsm_gps_state_ofl_starting e ev d (fsm_enter e s)"
  "state_of s = OFL_STARTED \<Longrightarrow> mnld_fsm e ev d s = fsm_gps_state_ofl_started e ev d (fsm_enter e s)"
  "state_of s = OFL_STOPPING \<Longrightarrow> mnld_fsm e ev d s = fsm_gps_state_ofl_stopping e ev d (fsm_enter e s)"
  by (simp_all add: mnld_fsm.simps)

declare fsm_gps_state_ofl_stopping.simps [simp]

text \<open>The nested call of the offload stopping state.\<close>

lemma mnld_fsm_nested:
  "state_of s = IDLE \<Longrightarrow> mnld_fsm e EVENT_START d s = Inr (leave_idle e STARTING (fsm_enter e s))"
  by (simp add: mnld_fsm_at)

lemma mnld_fsm_nested_switch [simp]:
  "mnld_fsm e EVENT_START d (switch_both t (enter_idle e s)) =
     Inr (leave_idle e STARTING (fsm_enter e (switch_both t (enter_idle e s))))"
  by (rule mnld_fsm_nested) (simp add: frame_simps)

lemmas fsm_step = mnld_fsm_at Let_def

section \<open>The abstract machine\<close>

text \<open>
  The machine as a designer would draw it: the next state from the current state, the event, and
  three facts about the users (any client, any host-based client, a peer); \<open>None\<close> is a crash.
\<close>

fun next_state :: "mnld_gps_state \<Rightarrow> mnld_gps_event \<Rightarrow> bool \<Rightarrow> bool \<Rightarrow> bool \<Rightarrow> mnld_gps_state option" where
    "next_state IDLE EVENT_START _ _ _ = Some STARTING"
  | "next_state IDLE EVENT_OFFLOAD_START _ _ _ = Some OFL_STARTING"
  | "next_state IDLE EVENT_START_DONE _ _ _ = None"
  | "next_state STARTING EVENT_START_DONE any _ _ = Some (if any then STARTED else STOPPING)"
  | "next_state STARTED EVENT_STOP any _ _ = Some (if any then STARTED else STOPPING)"
  | "next_state STOPPING EVENT_STOP_DONE any _ _ = Some (if any then STARTING else IDLE)"
  | "next_state OFL_STARTING EVENT_START_DONE any hbd _ =
       Some (if any \<and> \<not> hbd then OFL_STARTED else OFL_STOPPING)"
  | "next_state OFL_STARTED EVENT_START _ hbd _ = Some (if hbd then OFL_STOPPING else OFL_STARTED)"
  | "next_state OFL_STARTED EVENT_STOP _ _ peer = Some (if peer then OFL_STARTED else OFL_STOPPING)"
  | "next_state OFL_STOPPING EVENT_STOP_DONE _ hbd peer =
       Some (if hbd then STARTING else if peer then OFL_STARTING else IDLE)"
  | "next_state _ EVENT_STOP_DONE _ _ _ = None"
  | "next_state st _ _ _ _ = Some st"

abbreviation any_user :: "mnld \<Rightarrow> bool" where
  "any_user s \<equiv> is_a_gps_client_exist s"

abbreviation hbd_user :: "mnld \<Rightarrow> bool" where
  "hbd_user s \<equiv> is_a_hbd_gps_client_exist s"

abbreviation peer_user :: "mnld \<Rightarrow> bool" where
  "peer_user s \<equiv> is_flp_user_exist s \<or> is_geofence_user_exist s"

definition result_state :: "outcome \<Rightarrow> mnld_gps_state option" where
  "result_state r = (case r of Inl _ \<Rightarrow> None | Inr s \<Rightarrow> Some (state_of s))"

lemma result_state_simps [simp]: "result_state (Inl c) = None" "result_state (Inr s) = Some (state_of s)"
  by (simp_all add: result_state_def)

lemma hbd_any: "hbd_user s \<Longrightarrow> \<not> is_all_gps_client_exit s"
  by (auto simp: user_preds)

lemma mnld_fsm_next_state:
  "result_state (mnld_fsm e ev d s) = next_state (state_of s) ev (any_user s) (hbd_user s) (peer_user s)"
  by (cases "state_of s"; cases ev) (auto simp: fsm_step frame_simps)

section \<open>Acknowledgements\<close>

text \<open>
  The reports clients get: the GPS status for the HAL, the open and close confirmations for AGPS.
  A log that shows some of them sees nothing of the other effects of the machine.
\<close>

fun is_client_report :: "effect \<Rightarrow> bool" where
    "is_client_report (To_hal (Gps_status _)) = True"
  | "is_client_report (To_agps Agps_open_gps_done) = True"
  | "is_client_report (To_agps Agps_close_gps_done) = True"
  | "is_client_report _ = False"

lemma ack_open_client:
  assumes "\<And>s. clients (gps (reply s)) = clients (gps s)"
  shows "client_of d (ack_open c reply s) =
    (if d = c then (client_of c s)\<lparr>need_open_ack := False\<rparr> else client_of d s)"
  by (simp add: ack_open_def assms frame_simps)

lemma ack_close_client:
  assumes "\<And>s. clients (gps (reply s)) = clients (gps s)"
  shows "client_of d (ack_close c reply s) =
    (if d = c then (client_of c s)\<lparr>need_close_ack := False\<rparr> else client_of d s)"
  by (simp add: ack_close_def assms frame_simps)

lemma reset_hdlr_client [frame_simps]:
  "client_of d (do_gps_reset_hdlr s) =
    (if d = Agps then (client_of d s)\<lparr>need_reset_ack := False\<rparr> else client_of d s)"
  "client_of d (reset_if_flagged s) = client_of d s"
  by (simp_all add: do_gps_reset_hdlr_def reset_if_flagged_def Let_def frame_simps)

lemma reply_clients:
  "clients (gps (peer_open_reply pid si s)) = clients (gps s)"
  "clients (gps (peer_close_reply pid s)) = clients (gps s)"
  by (simp_all add: peer_open_reply_def peer_close_reply_def frame_simps)

lemma started_client [frame_simps]:
  "client_of c (do_gps_started_hdlr si s) =
    (client_of c s)\<lparr>need_open_ack := False, need_reset_ack := c \<noteq> Agps \<and> need_reset_ack (client_of c s)\<rparr>"
  by (cases c) (simp_all add: do_gps_started_hdlr_stages ack_open_client reply_clients frame_simps)

lemma stopped_client [frame_simps]:
  "client_of c (do_gps_stopped_hdlr s) =
    (client_of c s)\<lparr>need_close_ack := False, need_reset_ack := c \<noteq> Agps \<and> need_reset_ack (client_of c s)\<rparr>"
  by (cases c) (simp_all add: do_gps_stopped_hdlr_stages ack_close_client reply_clients frame_simps)

lemma session_switch_acks:
  "need_open_ack (client_of c (session_switch pid s)) = need_open_ack (client_of c s)"
  "need_close_ack (client_of c (session_switch pid s)) = need_close_ack (client_of c s)"
  by (simp_all add: session_switch_def mnld_gen_new_session_def Let_def frame_simps)

lemma switch_both_acks [frame_simps]:
  "need_open_ack (client_of c (switch_both t s)) = need_open_ack (client_of c s)"
  "need_close_ack (client_of c (switch_both t s)) = need_close_ack (client_of c s)"
  by (simp_all add: switch_both_def session_switch_acks frame_simps)

lemma update_downloads_gps [frame_simps]: "gps (update_downloads s) = gps s"
  by (simp add: update_downloads_def Let_def emit_def)

lemma enter_started_acks [frame_simps]:
  "need_open_ack (client_of c (enter_started s)) = need_open_ack (client_of c s)"
  "need_close_ack (client_of c (enter_started s)) = need_close_ack (client_of c s)"
  by (simp_all add: enter_started_def Let_def session_switch_acks frame_simps)

locale report_log =
  fixes f :: "effect \<Rightarrow> 'a list"
    and log :: "mnld \<Rightarrow> 'a list"
  assumes log_eq: "log s = concat (map f (out s))"
    and silent: "\<not> is_client_report x \<Longrightarrow> f x = []"
begin

lemma peer_effect_silent: "list_all is_peer_effect es \<Longrightarrow> concat (map f es) = []"
proof (induction es)
  case (Cons x es)
  then have "f x = []" by (intro silent) (cases x; simp)
  with Cons show ?case by simp
qed simp

lemma log_updates [frame_simps]:
  "log (emit x s) = log s @ f x" "log (set_gps h s) = log s"
  "log (set_client c g s) = log s" "log (start_timer t ms s) = log s"
  "log (stop_timer t s) = log s" "log (set_state st s) = log s"
  "log (set_session pid k s) = log s" "log (set_stype pid ty s) = log s"
  "log (s\<lparr>flp_session := x1\<rparr>) = log s" "log (s\<lparr>gfc_session := x2\<rparr>) = log s"
  by (cases pid; simp add: log_eq mnld_updates set_stype_def)+

lemma quiet_log: "quiet h \<Longrightarrow> log (h s) = log s"
  using quiet_out [of h s] by (auto simp: log_eq peer_effect_silent)

lemmas quiet_reply_log [frame_simps] = quiet_replies [THEN quiet_log]

lemma ack_log:
  "log (ack_open c reply s) = (if need_open_ack (client_of c s)
     then log (reply (set_client c (need_open_ack_update (\<lambda>_. False)) s)) else log s)"
  "log (ack_close c reply s) = (if need_close_ack (client_of c s)
     then log (reply (set_client c (need_close_ack_update (\<lambda>_. False)) s)) else log s)"
  by (simp_all add: ack_open_def ack_close_def)

lemma reply_log:
  "log (peer_open_reply pid si s) = log s" "log (peer_close_reply pid s) = log s"
  "log (do_gps_reset_hdlr s) = log s" "log (reset_if_flagged s) = log s"
  by (simp_all add: peer_open_reply_def peer_close_reply_def do_gps_reset_hdlr_def reset_if_flagged_def
      Let_def silent frame_simps)

lemma started_log [frame_simps]:
  "log (do_gps_started_hdlr si s) = log s @
     (if need_open_ack (client_of Hal s)
      then f (To_hal (Gps_status SESSION_ENGINE_ON)) @ f (To_hal (Gps_status SESSION_BEGIN)) else []) @
     (if need_open_ack (client_of Agps s) then f (To_agps Agps_open_gps_done) else [])"
  by (simp add: do_gps_started_hdlr_stages ack_log reply_log ack_open_client silent frame_simps)

lemma stopped_log [frame_simps]:
  "log (do_gps_stopped_hdlr s) = log s @
     (if need_close_ack (client_of Hal s)
      then f (To_hal (Gps_status SESSION_END)) @ f (To_hal (Gps_status SESSION_ENGINE_OFF)) else []) @
     (if need_close_ack (client_of Agps s) then f (To_agps Agps_close_gps_done) else [])"
  by (simp add: do_gps_stopped_hdlr_stages ack_log reply_log ack_close_client silent frame_simps)

lemma downloads_log [frame_simps]: "log (update_downloads s) = log s"
  by (simp add: update_downloads_def Let_def emit_def log_eq silent)

lemma session_switch_log: "log (session_switch pid s) = log s"
  by (simp add: session_switch_def mnld_gen_new_session_def Let_def frame_simps)

lemma block_log [frame_simps]:
  "log (enter_started s) = log s" "log (enter_stopping st s) = log s"
  "log (restart e st s) = log s" "log (enter_idle e s) = log s"
  "log (switch_both t s) = log s" "log (leave_idle e st s) = log s"
  by (simp_all add: enter_started_def enter_stopping_def restart_def enter_idle_def switch_both_def
      leave_idle_def control_start_def op01_log_def Let_def session_switch_log silent frame_simps)

lemma fsm_enter_log [frame_simps]: "log (fsm_enter e s) = log s"
  by (simp add: fsm_enter_def offload_users_changed_def Let_def mnld_gps_stop_nmea_monitor_def
      mnld_gps_start_nmea_monitor_def gps_control_kernel_wakelock_give_def
      gps_control_kernel_wakelock_take_def mnld_updates log_eq silent)

end

text \<open>The GPS status reports sent to the HAL, and the confirmations sent to AGPS, in order.\<close>

fun hal_status_of :: "effect \<Rightarrow> u32 list" where
    "hal_status_of (To_hal (Gps_status v)) = [v]"
  | "hal_status_of _ = []"

definition hal_status :: "mnld \<Rightarrow> u32 list" where
  "hal_status s = concat (map hal_status_of (out s))"

fun agps_reply_of :: "effect \<Rightarrow> mnl2agps list" where
    "agps_reply_of (To_agps Agps_open_gps_done) = [Agps_open_gps_done]"
  | "agps_reply_of (To_agps Agps_close_gps_done) = [Agps_close_gps_done]"
  | "agps_reply_of _ = []"

definition agps_replies :: "mnld \<Rightarrow> mnl2agps list" where
  "agps_replies s = concat (map agps_reply_of (out s))"

lemma hal_status_silent: "\<not> is_client_report x \<Longrightarrow> hal_status_of x = []"
  by (induction x rule: hal_status_of.induct) auto

lemma agps_reply_silent: "\<not> is_client_report x \<Longrightarrow> agps_reply_of x = []"
  by (induction x rule: agps_reply_of.induct) auto

interpretation hal_log: report_log hal_status_of hal_status
  by unfold_locales (simp_all add: hal_status_def hal_status_silent)

interpretation agps_log: report_log agps_reply_of agps_replies
  by unfold_locales (simp_all add: agps_replies_def agps_reply_silent)

section \<open>Power phases\<close>

datatype phase = Off | Turning_on | On | Turning_off

fun phase_of :: "mnld_gps_state \<Rightarrow> phase" where
    "phase_of IDLE = Off"
  | "phase_of STARTING = Turning_on"
  | "phase_of OFL_STARTING = Turning_on"
  | "phase_of STARTED = On"
  | "phase_of OFL_STARTED = On"
  | "phase_of STOPPING = Turning_off"
  | "phase_of OFL_STOPPING = Turning_off"

text \<open>What has to be said to the GPS control thread when the phase changes.\<close>

fun power_edge :: "phase \<Rightarrow> phase \<Rightarrow> u32 \<Rightarrow> gps_cmd list" where
    "power_edge Off Turning_on f = [Gps_start f]"
  | "power_edge Turning_off Turning_on f = [Gps_start f]"
  | "power_edge Turning_on Turning_off f = [Gps_stop]"
  | "power_edge On Turning_off f = [Gps_stop]"
  | "power_edge _ _ f = []"

lemma ack_close_flag:
  "(\<And>s. delete_aiding_flag (gps (reply s)) = delete_aiding_flag (gps s)) \<Longrightarrow>
   delete_aiding_flag (gps (ack_close c reply s)) = delete_aiding_flag (gps s)"
  by (simp add: ack_close_def frame_simps)

lemma reply_flag:
  "delete_aiding_flag (gps (peer_close_reply pid s)) = delete_aiding_flag (gps s)"
  "delete_aiding_flag (gps (do_gps_reset_hdlr s)) = delete_aiding_flag (gps s)"
  by (simp_all add: peer_close_reply_def do_gps_reset_hdlr_def frame_simps)

lemma stopped_flag [frame_simps]:
  "delete_aiding_flag (gps (do_gps_stopped_hdlr s)) = delete_aiding_flag (gps s)"
  by (simp add: do_gps_stopped_hdlr_stages ack_close_flag reply_flag frame_simps)

lemma mnld_fsm_power:
  "case mnld_fsm e ev d s of Inl _ \<Rightarrow> True | Inr s' \<Rightarrow> power_cmds s' = power_cmds s @
     power_edge (phase_of (state_of s)) (phase_of (state_of s')) (delete_aiding_flag (gps s))"
  by (cases "state_of s"; cases ev) (simp_all add: fsm_step frame_simps)

lemma hal_status_boot: "hal_status mnld_boot = []"
  by (simp add: hal_status_def)

section \<open>Properties of a step\<close>

lemma mnld_fsm_crash: "mnld_fsm e ev d s = Inl c \<Longrightarrow> c = Crash_event (state_of s) ev"
  by (cases "state_of s"; cases ev) (auto simp: fsm_step frame_simps split: if_splits)

text \<open>C1: the state machine implements the abstract machine. For every daemon state, event and
  environment, \<open>mnld_fsm\<close> crashes exactly where the abstract machine has no successor, with the
  state and event at hand, and otherwise ends in the abstract successor state.\<close>

theorem mnld_fsm_refines:
  "(case mnld_fsm e ev d s of Inl c \<Rightarrow> Inl c | Inr s' \<Rightarrow> Inr (state_of s')) =
   (case next_state (state_of s) ev (is_a_gps_client_exist s) (is_a_hbd_gps_client_exist s)
           (is_flp_user_exist s \<or> is_geofence_user_exist s) of
      None \<Rightarrow> Inl (Crash_event (state_of s) ev) | Some st \<Rightarrow> Inr st)"
  unfolding mnld_fsm_next_state [of e ev d s, symmetric]
  using mnld_fsm_crash [of e ev d s] by (cases "mnld_fsm e ev d s") simp_all


text \<open>A confirmed start settles all open requests. When \<open>GPS_EVENT_START_DONE\<close> arrives in
  the starting state, afterwards no client waits for an open acknowledgement, close requests stay
  as they were, and the HAL is told that the engine is on and a session has begun, in this order
  and once, exactly when it had asked.\<close>

theorem start_done_acknowledges:
  assumes "state_of s = STARTING \<or> state_of s = OFL_STARTING"
  shows "\<exists>s'. mnld_fsm e EVENT_START_DONE d s = Inr s' \<and>
    (\<forall>c. \<not> need_open_ack (client_of c s') \<and>
         need_close_ack (client_of c s') = need_close_ack (client_of c s)) \<and>
    hal_status s' = hal_status s @
      (if need_open_ack (client_of Hal s) then [SESSION_ENGINE_ON, SESSION_BEGIN] else [])"
  using assms by (auto simp: fsm_step frame_simps)

text \<open>A confirmed stop settles all close requests: afterwards no client waits for a close
  acknowledgement, open requests stay pending, and the HAL is told that its session has ended and
  the engine is off exactly when it had asked.\<close>

theorem stop_done_acknowledges:
  assumes "state_of s = STOPPING \<or> state_of s = OFL_STOPPING"
  shows "\<exists>s'. mnld_fsm e EVENT_STOP_DONE d s = Inr s' \<and>
    (\<forall>c. \<not> need_close_ack (client_of c s') \<and>
         need_open_ack (client_of c s') = need_open_ack (client_of c s)) \<and>
    hal_status s' = hal_status s @
      (if need_close_ack (client_of Hal s) then [SESSION_END, SESSION_ENGINE_OFF] else [])"
  using assms by (auto simp: fsm_step frame_simps)

end
