(* ===== verification/Text_Util.thy ===== *)
theory Text_Util
  imports Prelude
begin

text \<open>
  The text helpers of the daemon, on arrays: \<open>asc_str_to_usc2_str\<close> and \<open>raw_data_to_hex_string\<close> of
  \<open>utility/src/mtk_lbs_utility.c\<close> and the sentence checksum \<open>add_chksum\<close> of
  \<open>mnld_entity/src/mnld_uti.c\<close>. A write outside the output array is \<open>None\<close>.
\<close>

section \<open>UCS-2 and hexadecimal strings\<close>

fun usc2_loop :: "bytes \<Rightarrow> nat \<Rightarrow> bytes \<Rightarrow> (bytes \<times> nat) option" where
    "usc2_loop output len [] = None"
  | "usc2_loop output len (c # input) =
       (if c = 0 then Some (output, len)
        else if len + 1 < length output then usc2_loop (output[len := 0, len + 1 := c]) (len + 2) input
        else None)"

text \<open>\<open>input\<close> is the array from the pointer on; reading past its end is \<open>None\<close> too.\<close>

definition asc_str_to_usc2_str :: "bytes \<Rightarrow> bytes \<Rightarrow> (bytes \<times> nat) option" where
  "asc_str_to_usc2_str output input =
     (if 2 \<le> length output then do {
        (output, len) \<leftarrow> usc2_loop (output[0 := 0xfe, 1 := 0xff]) 2 input;
        if len + 1 < length output then Some (output[len := 0, len + 1 := 0], len) else None }
      else None)"

definition hex_digit :: "u8 \<Rightarrow> u8" where
  "hex_digit tmp = (if tmp \<le> 9 then tmp + 48 else (tmp - 10) + 65)"

fun hex_loop :: "bytes \<Rightarrow> nat \<Rightarrow> bytes \<Rightarrow> bytes option" where
    "hex_loop output i [] = (if i * 2 < length output then Some (output[i * 2 := 0]) else None)"
  | "hex_loop output i (b # input) =
       (if i * 2 + 1 < length output
        then hex_loop (output[i * 2 := hex_digit (drop_bit 4 b AND 0xf), i * 2 + 1 := hex_digit (b AND 0xf)])
               (Suc i) input
        else None)"

definition raw_data_to_hex_string :: "bytes \<Rightarrow> bytes \<Rightarrow> nat \<Rightarrow> bytes option" where
  "raw_data_to_hex_string output input input_len =
     (if input_len \<le> length input then hex_loop output 0 (take input_len input) else None)"

text \<open>What the two functions compute.\<close>

definition ucs2 :: "bytes \<Rightarrow> bytes" where
  "ucs2 s = [0xfe, 0xff] @ concat (map (\<lambda>c. [0, c]) s)"

definition hex_of :: "bytes \<Rightarrow> bytes" where
  "hex_of bs = concat (map (\<lambda>b. [hex_digit (drop_bit 4 b AND 0xf), hex_digit (b AND 0xf)]) bs)"

lemma length_ucs2: "length (ucs2 s) = 2 + 2 * length s"
  by (induction s) (simp_all add: ucs2_def)

lemma length_hex_of: "length (hex_of bs) = 2 * length bs"
  by (induction bs) (simp_all add: hex_of_def)

lemma list_update2_append:
  "length p = n \<Longrightarrow> (p @ x # y # r)[n := a, Suc n := b] = p @ a # b # r"
  by (auto simp: list_update_append)

lemma usc2_loop_eq:
  assumes "c_string s" "length p = n"
  shows "usc2_loop (p @ r) n (s @ [0]) =
    (if 2 * length s \<le> length r
     then Some (p @ concat (map (\<lambda>c. [0, c]) s) @ drop (2 * length s) r, n + 2 * length s) else None)"
  using assms
proof (induction s arbitrary: p n r)
  case Nil
  then show ?case by simp
next
  case (Cons c s)
  have c: "c \<noteq> 0" "c_string s" using Cons.prems(1) by (auto simp: c_string_def)
  show ?case
  proof (cases "2 \<le> length r")
    case True
    then obtain x y r' where r: "r = x # y # r'" by (metis Suc_le_length_iff numeral_2_eq_2)
    have "usc2_loop ((p @ [0, c]) @ r') (n + 2) (s @ [0]) =
      (if 2 * length s \<le> length r'
       then Some ((p @ [0, c]) @ concat (map (\<lambda>c. [0, c]) s) @ drop (2 * length s) r', n + 2 + 2 * length s)
       else None)"
      using Cons.prems(2) by (intro Cons.IH c) simp
    then show ?thesis using c Cons.prems(2) by (simp add: r list_update2_append)
  next
    case False
    then show ?thesis using c Cons.prems(2) by auto
  qed
qed

lemma hex_loop_eq:
  assumes "length p = 2 * i"
  shows "hex_loop (p @ r) i bs =
    (if 2 * length bs < length r
     then Some (p @ hex_of bs @ 0 # drop (2 * length bs + 1) r) else None)"
  using assms
proof (induction bs arbitrary: p i r)
  case Nil
  then show ?case by (cases r) (auto simp: hex_of_def list_update_append mult.commute)
next
  case (Cons b bs)
  show ?case
  proof (cases "2 \<le> length r")
    case True
    then obtain x y r' where r: "r = x # y # r'" by (metis Suc_le_length_iff numeral_2_eq_2)
    let ?h = "[hex_digit (drop_bit 4 b AND 0xf), hex_digit (b AND 0xf)]"
    have "hex_loop ((p @ ?h) @ r') (Suc i) bs =
      (if 2 * length bs < length r' then Some ((p @ ?h) @ hex_of bs @ 0 # drop (2 * length bs + 1) r') else None)"
      using Cons.prems by (intro Cons.IH) simp
    then show ?thesis using Cons.prems by (simp add: r list_update2_append hex_of_def mult.commute)
  next
    case False
    then show ?thesis using Cons.prems by auto
  qed
qed

lemma asc_str_to_usc2_str_eq:
  assumes "c_string s"
  shows "asc_str_to_usc2_str out (s @ [0]) =
    (if length (ucs2 s) + 2 \<le> length out
     then Some (ucs2 s @ [0, 0] @ drop (length (ucs2 s) + 2) out, length (ucs2 s)) else None)"
proof (cases "2 \<le> length out")
  case True
  then obtain x y r where r: "out = x # y # r" by (metis Suc_le_length_iff numeral_2_eq_2)
  have u: "usc2_loop (0xfe # 0xff # r) 2 (s @ [0]) =
    (if 2 * length s \<le> length r then Some (ucs2 s @ drop (2 * length s) r, 2 + 2 * length s) else None)"
    using usc2_loop_eq [OF assms, of "[0xfe, 0xff]" 2 r] by (simp add: ucs2_def)
  show ?thesis
  proof (cases "2 * length s + 2 \<le> length r")
    case True
    then obtain a b t where t: "drop (2 * length s) r = a # b # t"
      by (metis Suc_le_length_iff add_le_imp_le_diff add.commute length_drop numeral_2_eq_2)
    then have "t = drop (2 * length s + 2) r"
      by (metis drop_drop drop_Suc_Cons drop0 add.commute numeral_2_eq_2)
    then show ?thesis
      using True u by (simp add: asc_str_to_usc2_str_def r t length_ucs2 list_update2_append)
  next
    case False
    then show ?thesis using u by (simp add: asc_str_to_usc2_str_def r length_ucs2)
  qed
next
  case False
  then show ?thesis by (simp add: asc_str_to_usc2_str_def length_ucs2)
qed

lemma raw_data_to_hex_string_eq:
  assumes "n \<le> length input"
  shows "raw_data_to_hex_string out input n =
    (if 2 * n < length out then Some (hex_of (take n input) @ 0 # drop (2 * n + 1) out) else None)"
  using hex_loop_eq [of "[]" 0 out "take n input"] assms by (simp add: raw_data_to_hex_string_def)

text \<open>Reading a hexadecimal string back.\<close>

definition unhex_digit :: "u8 \<Rightarrow> u8" where
  "unhex_digit c = (if c < 65 then c - 48 else c - 55)"

fun unhex :: "bytes \<Rightarrow> bytes" where
    "unhex (a # b # r) = (push_bit 4 (unhex_digit a) OR unhex_digit b) # unhex r"
  | "unhex _ = []"

lemma unhex_hex_digit: "v \<le> 15 \<Longrightarrow> unhex_digit (hex_digit v) = v"
  unfolding unhex_digit_def hex_digit_def by unat_arith auto

lemma nibble_mask: "(0xf :: u8) = mask 4"
  by (simp add: mask_eq_exp_minus_1)

lemma nibble_le: "b AND 0xf \<le> (15 :: u8)"
  by (rule word_and_le1)

lemma nibbles: "push_bit 4 (drop_bit 4 b AND 0xf) OR (b AND 0xf) = (b :: u8)"
  unfolding nibble_mask by (rule bit_word_eqI) (auto simp: bit_simps not_le)

lemma unhex_hex_of: "unhex (hex_of bs) = bs"
proof (induction bs)
  case Nil
  then show ?case by (simp add: hex_of_def)
next
  case (Cons b bs)
  then show ?case using nibbles [of b] by (simp add: hex_of_def unhex_hex_digit nibble_le)
qed

section \<open>Sentence checksums\<close>

definition PMTK_MAX_PKT_LENGTH :: nat where
  "PMTK_MAX_PKT_LENGTH = 256"

text \<open>The loop \<open>for (i = 1; i < Size; i++)\<close>: the checksum up to a star or the end, and where it is.\<close>

function chksum_loop :: "bytes \<Rightarrow> nat \<Rightarrow> nat \<Rightarrow> u8 \<Rightarrow> nat \<times> u8" where
  "chksum_loop pBuf i sz chksum =
     (if i < sz then
        if pBuf ! i \<noteq> 42 then chksum_loop pBuf (i + 1) sz (chksum XOR pBuf ! i) else (i, chksum)
      else (sz, chksum))"
  by pat_completeness auto
termination by (relation "measure (\<lambda>(b, i, sz, c). sz - i)") auto

declare chksum_loop.simps [simp del]

definition add_chksum :: "bytes \<Rightarrow> (int \<times> bytes) option" where
  "add_chksum pBuf =
     (let sz = strlen pBuf in
      if sz = 0 then Some (0, pBuf)
      else let sz = (if sz > PMTK_MAX_PKT_LENGTH - 6 then PMTK_MAX_PKT_LENGTH - 6 else sz);
               (sz, chksum) = chksum_loop pBuf 1 sz 0
           in if sz + 5 < length pBuf
              then Some (1, pBuf[sz := 42, sz + 1 := hex_digit (drop_bit 4 chksum AND 0xf),
                       sz + 2 := hex_digit (chksum AND 0xf), sz + 3 := 13, sz + 4 := 10, sz + 5 := 0])
              else None)"

lemma chksum_loop_eq:
  assumes "i \<le> sz" "sz \<le> length buf" "42 \<notin> set (drop i (take sz buf))"
  shows "chksum_loop buf i sz c = (sz, fold (\<lambda>x c. c XOR x) (drop i (take sz buf)) c)"
  using assms
proof (induction "sz - i" arbitrary: i c)
  case 0
  then show ?case by (simp add: chksum_loop.simps)
next
  case (Suc k)
  then have d: "drop i (take sz buf) = buf ! i # drop (Suc i) (take sz buf)"
    by (metis Cons_nth_drop_Suc diff_is_0_eq length_take linorder_not_less min.absorb2 nat.simps(3) nth_take)
  then have "buf ! i \<noteq> 42" "42 \<notin> set (drop (Suc i) (take sz buf))"
    using Suc.prems(3) by auto
  moreover have "i < sz" using Suc by simp
  ultimately show ?case using Suc d by (subst chksum_loop.simps) simp
qed

text \<open>The sentence with its checksum: the body, a star, two hexadecimal digits, CR and LF.\<close>

definition xor_sum :: "bytes \<Rightarrow> u8" where
  "xor_sum bs = fold (\<lambda>x c. c XOR x) bs 0"

definition with_chksum :: "bytes \<Rightarrow> bytes" where
  "with_chksum s = s @ 42 # hex_of [xor_sum (tl s)] @ [13, 10]"

lemma list_update6:
  "length p = n \<Longrightarrow> 6 \<le> length r \<Longrightarrow>
   (p @ r)[n := a, Suc n := b, n + 2 := c, n + 3 := d, n + 4 := e, n + 5 := f]
     = p @ [a, b, c, d, e, f] @ drop 6 r"
proof -
  assume p: "length p = n" and "6 \<le> length r"
  then obtain r1 r2 r3 r4 r5 r6 t where "r = r1 # r2 # r3 # r4 # r5 # r6 # t"
    by (auto simp: numeral_eq_Suc Suc_le_length_iff)
  with p show ?thesis by (auto simp: list_update_append)
qed

lemma add_chksum_eq:
  assumes "c_string s" "42 \<notin> set s" "s \<noteq> []" "length s \<le> 250" "length s + 5 < length (s @ 0 # r)"
  shows "add_chksum (s @ 0 # r) = Some (1, with_chksum s @ 0 # drop 5 r)"
proof -
  have l: "strlen (s @ 0 # r) = length s"
    using assms(1) by (simp add: strlen_def c_string_def cstr_def takeWhile_append)
  have "chksum_loop (s @ 0 # r) 1 (length s) 0 = (length s, fold (\<lambda>x c. c XOR x) (drop 1 s) 0)"
    using assms by (subst chksum_loop_eq) (auto simp: Suc_leI dest: in_set_dropD)
  then have "chksum_loop (s @ 0 # r) 1 (length s) 0 = (length s, xor_sum (tl s))"
    by (simp add: xor_sum_def drop_Suc)
  then show ?thesis
    using assms list_update6 [of s "length s" "0 # r"]
    by (simp add: add_chksum_def l PMTK_MAX_PKT_LENGTH_def with_chksum_def hex_of_def)
qed

end
