(* ===== verification/Mnld_Handlers.thy ===== *)
theory Mnld_Handlers
  imports Fsm_Props Text_Util
begin

text \<open>
  The request handlers of the daemon: the callback tables \<open>g_hal2mnl_interface\<close>,
  \<open>g_agps2mnl_interface\<close>, \<open>g_meta2mnl_callbacks\<close>, \<open>g_debug2mnl_callbacks\<close>, \<open>g_flp2mnl_interface\<close> and
  \<open>g_gfc2mnl_interface\<close> of \<open>mnld.c\<close>, the entry points of the test clients, the timer expiries,
  and the AGPS agent entries of \<open>gps_controller.c\<close> they call. Logging is left out.
\<close>

section \<open>Requests to open and close the receiver\<close>

text \<open>The three assignments every handler makes before it raises an event.\<close>

definition mark_open :: "client \<Rightarrow> bool \<Rightarrow> mnld \<Rightarrow> mnld" where
  "mark_open c ack = set_client c
     (\<lambda>k. k\<lparr>gps_used := True, need_open_ack := ack, need_close_ack := False\<rparr>)"

definition mark_close :: "client \<Rightarrow> bool \<Rightarrow> mnld \<Rightarrow> mnld" where
  "mark_close c ack = set_client c
     (\<lambda>k. k\<lparr>gps_used := False, need_open_ack := False, need_close_ack := ack\<rparr>)"

definition mark_reboot :: "client \<Rightarrow> mnld \<Rightarrow> mnld" where
  "mark_reboot c = set_client c
     (\<lambda>k. k\<lparr>gps_used := False, need_open_ack := False, need_close_ack := False, need_reset_ack := False\<rparr>)"

section \<open>HAL\<close>

definition hal_reboot :: "env \<Rightarrow> mnld \<Rightarrow> outcome" where
  "hal_reboot e s = mnld_fsm e EVENT_STOP 0 (mark_reboot Hal s)"

definition hal_gps_init :: "mnld \<Rightarrow> outcome" where
  "hal_gps_init s = Inr (emit (To_agps Agps_gps_init) (set_gps (\<lambda>g. g\<lparr>is_gps_init := True\<rparr>) s))"

definition set_epo :: "(mnl_epo_status \<Rightarrow> mnl_epo_status) \<Rightarrow> mnld \<Rightarrow> mnld" where
  "set_epo f s = s\<lparr>epo := f (epo s)\<rparr>"

definition epo_start :: "mnld \<Rightarrow> mnld" where
  "epo_start s = emit Epo_downloader_start (set_epo (\<lambda>x. x\<lparr>is_epo_downloading := True\<rparr>) s)"

definition hal_start_gps_trigger_epo_download :: "env \<Rightarrow> mnld \<Rightarrow> mnld" where
  "hal_start_gps_trigger_epo_download e s =
     (let s = emit Epo_read_cust_config s
      in if \<not> is_epo_downloading (epo s) \<and> epo_file_invalid e \<and> epo_download_enabled e
         then epo_start s else s)"

definition hal_gps_start :: "env \<Rightarrow> mnld \<Rightarrow> outcome" where
  "hal_gps_start e s =
     mnld_fsm e EVENT_START 0 (hal_start_gps_trigger_epo_download e (mark_open Hal True s))"

definition hal_gps_stop :: "env \<Rightarrow> mnld \<Rightarrow> outcome" where
  "hal_gps_stop e s = mnld_fsm e EVENT_STOP 0 (mark_close Hal True s)"

definition hal_gps_cleanup :: "mnld \<Rightarrow> outcome" where
  "hal_gps_cleanup s = Inr (emit (To_agps Agps_gps_cleanup) (set_gps (\<lambda>g. g\<lparr>is_gps_init := False\<rparr>) s))"

definition hal_gps_inject_time :: "u64 \<Rightarrow> u64 \<Rightarrow> u32 \<Rightarrow> mnld \<Rightarrow> outcome" where
  "hal_gps_inject_time time time_reference uncertainty s =
     Inr (if mnld_is_gps_started_done s
          then emit (Lib_inject_ntp_time time time_reference uncertainty) s else s)"

definition hal_gps_inject_location :: "env \<Rightarrow> u64 \<Rightarrow> u64 \<Rightarrow> u32 \<Rightarrow> mnld \<Rightarrow> outcome" where
  "hal_gps_inject_location e lat lng acc s =
     (case clock e of
        None \<Rightarrow> Inr s
      | Some (sec, nsec) \<Rightarrow>
          let s = (if mnld_is_gps_started_done s
                   then emit (Lib_inject_nlp_location lat lng acc sec nsec True) s else s)
          in Inr (emit (To_agps (Agps_location_sync lat lng acc False 0 True False True False)) s))"

definition hal_gps_delete_aiding_data :: "env \<Rightarrow> u32 \<Rightarrow> mnld \<Rightarrow> outcome" where
  "hal_gps_delete_aiding_data e flags s =
     (let s = emit (To_agps (Agps_delete_aiding_data flags)) s;
          s = set_client Hal (need_reset_ack_update (\<lambda>_. False)) s;
          s = set_gps (\<lambda>g. g\<lparr>delete_aiding_flag := delete_aiding_flag g OR flags\<rparr>) s
      in mnld_fsm e EVENT_RESET 0 s)"

definition NETWORK_TYPE_WIFI :: u32 where
  "NETWORK_TYPE_WIFI = 1"

definition hal_update_network_state ::
  "env \<Rightarrow> u32 \<Rightarrow> u32 \<Rightarrow> u32 \<Rightarrow> bytes option \<Rightarrow> mnld \<Rightarrow> outcome" where
  "hal_update_network_state e conn type roaming extra_info s =
     (let s = emit (To_agps (Agps_update_network_state conn type roaming extra_info)) s;
          s = set_epo (\<lambda>x. x\<lparr>is_network_connected := conn \<noteq> 0\<rparr>) s;
          s = set_epo (\<lambda>x. x\<lparr>is_wifi_connected := (if type = NETWORK_TYPE_WIFI then conn \<noteq> 0 else False)\<rparr>) s
      in Inr (if mnld_is_gps_or_ofl_started s then
                let s = emit Epo_read_cust_config s
                in if conn \<noteq> 0 \<and> \<not> is_epo_downloading (epo s) \<and> epo_file_invalid e \<and>
                      epo_download_enabled e
                   then epo_start s else s
              else if type = NETWORK_TYPE_WIFI then
                let s = emit Epo_read_cust_config s
                in if conn \<noteq> 0 \<and> \<not> is_epo_downloading (epo s) \<and> epo_wifi_trigger e \<and>
                      epo_file_invalid e \<and> epo_download_enabled e
                   then epo_start s else s
              else s))"

definition hal_set_gps_measurement :: "bool \<Rightarrow> mnld \<Rightarrow> outcome" where
  "hal_set_gps_measurement enabled s = Inr (set_gps (\<lambda>g. g\<lparr>is_gps_meas_enabled := enabled\<rparr>) s)"

definition hal_set_gps_navigation :: "bool \<Rightarrow> mnld \<Rightarrow> outcome" where
  "hal_set_gps_navigation enabled s = Inr (set_gps (\<lambda>g. g\<lparr>is_gps_navi_enabled := enabled\<rparr>) s)"

definition hal_gps_set_position_mode :: "u32 \<Rightarrow> u32 \<Rightarrow> u32 \<Rightarrow> u32 \<Rightarrow> u32 \<Rightarrow> mnld \<Rightarrow> outcome" where
  "hal_gps_set_position_mode mode recurrence min_interval preferred_acc preferred_time s = Inr (emit (To_agps (Agps_set_position_mode mode)) s)"

definition hal_data_conn_open :: "bytes option \<Rightarrow> mnld \<Rightarrow> outcome" where
  "hal_data_conn_open apn s = Inr (emit (To_agps (Agps_data_conn_open apn)) s)"

definition hal_data_conn_open_with_apn_ip_type :: "bytes option \<Rightarrow> u32 \<Rightarrow> mnld \<Rightarrow> outcome" where
  "hal_data_conn_open_with_apn_ip_type apn ip_type s = Inr (emit (To_agps (Agps_data_conn_open_ip_type apn ip_type)) s)"

definition hal_data_conn_closed :: "mnld \<Rightarrow> outcome" where
  "hal_data_conn_closed s = Inr (emit (To_agps Agps_data_conn_closed) s)"

definition hal_data_conn_failed :: "mnld \<Rightarrow> outcome" where
  "hal_data_conn_failed s = Inr (emit (To_agps Agps_data_conn_failed) s)"

definition hal_set_server :: "u32 \<Rightarrow> bytes option \<Rightarrow> u32 \<Rightarrow> mnld \<Rightarrow> outcome" where
  "hal_set_server type hostname port s = Inr (emit (To_agps (Agps_set_server type hostname port)) s)"

definition hal_set_ref_location :: "u32 \<Rightarrow> u32 \<Rightarrow> u32 \<Rightarrow> u32 \<Rightarrow> u32 \<Rightarrow> mnld \<Rightarrow> outcome" where
  "hal_set_ref_location type mcc mnc lac cid s = Inr (emit (To_agps (Agps_set_ref_loc type mcc mnc lac cid)) s)"

definition hal_set_id :: "u32 \<Rightarrow> bytes option \<Rightarrow> mnld \<Rightarrow> outcome" where
  "hal_set_id type setid s = Inr (emit (To_agps (Agps_set_set_id type setid)) s)"

definition hal_ni_message :: "bytes \<Rightarrow> int \<Rightarrow> mnld \<Rightarrow> outcome" where
  "hal_ni_message msg len s = Inr (emit (To_agps (Agps_ni_message msg len)) s)"

definition hal_ni_respond :: "u32 \<Rightarrow> u32 \<Rightarrow> mnld \<Rightarrow> outcome" where
  "hal_ni_respond notif_id user_response s = Inr (emit (To_agps (Agps_ni_respond notif_id user_response)) s)"

definition hal_update_network_availability :: "u32 \<Rightarrow> bytes option \<Rightarrow> mnld \<Rightarrow> outcome" where
  "hal_update_network_availability available apn s = Inr (emit (To_agps (Agps_update_network_availability available apn)) s)"

definition hal_set_vzw_debug :: "bool \<Rightarrow> mnld \<Rightarrow> outcome" where
  "hal_set_vzw_debug enabled s = Inr (emit (To_agps (Agps_vzw_debug_screen_enable enabled)) s)"

text \<open>The table \<open>g_hal2mnl_interface\<close>.\<close>

fun hal2mnl_interface :: "env \<Rightarrow> hal2mnl_msg \<Rightarrow> mnld \<Rightarrow> outcome" where
    "hal2mnl_interface e Hal_reboot s = hal_reboot e s"
  | "hal2mnl_interface e Gps_init s = hal_gps_init s"
  | "hal2mnl_interface e hal2mnl_msg.Gps_start s = hal_gps_start e s"
  | "hal2mnl_interface e hal2mnl_msg.Gps_stop s = hal_gps_stop e s"
  | "hal2mnl_interface e Gps_cleanup s = hal_gps_cleanup s"
  | "hal2mnl_interface e (Gps_inject_time time time_reference uncertainty) s =
       hal_gps_inject_time time time_reference uncertainty s"
  | "hal2mnl_interface e (Gps_inject_location lat lng acc) s = hal_gps_inject_location e lat lng acc s"
  | "hal2mnl_interface e (Gps_delete_aiding_data flags) s = hal_gps_delete_aiding_data e flags s"
  | "hal2mnl_interface e (Gps_set_position_mode mode recurrence min_interval preferred_acc preferred_time) s = hal_gps_set_position_mode mode recurrence min_interval preferred_acc preferred_time s"
  | "hal2mnl_interface e (Data_conn_open apn) s = hal_data_conn_open apn s"
  | "hal2mnl_interface e (Data_conn_open_with_apn_ip_type apn ip_type) s = hal_data_conn_open_with_apn_ip_type apn ip_type s"
  | "hal2mnl_interface e Data_conn_closed s = hal_data_conn_closed s"
  | "hal2mnl_interface e Data_conn_failed s = hal_data_conn_failed s"
  | "hal2mnl_interface e (Set_server type hostname port) s = hal_set_server type hostname port s"
  | "hal2mnl_interface e (Set_ref_location type mcc mnc lac cid) s = hal_set_ref_location type mcc mnc lac cid s"
  | "hal2mnl_interface e (Set_id type setid) s = hal_set_id type setid s"
  | "hal2mnl_interface e (Ni_message msg len) s = hal_ni_message msg len s"
  | "hal2mnl_interface e (Ni_respond notif_id user_response) s = hal_ni_respond notif_id user_response s"
  | "hal2mnl_interface e (Update_network_state conn type roaming extra_info) s =
       hal_update_network_state e conn type roaming extra_info s"
  | "hal2mnl_interface e (Update_network_availability available apn) s = hal_update_network_availability available apn s"
  | "hal2mnl_interface e (Set_gps_measurement enabled) s = hal_set_gps_measurement enabled s"
  | "hal2mnl_interface e (Set_gps_navigation enabled) s = hal_set_gps_navigation enabled s"
  | "hal2mnl_interface e (Set_vzw_debug enabled) s = hal_set_vzw_debug enabled s"

section \<open>AGPS\<close>

definition agps_reboot :: "env \<Rightarrow> mnld \<Rightarrow> outcome" where
  "agps_reboot e s = mnld_fsm e EVENT_STOP 0 (mark_reboot Agps s)"

definition agps_open_gps_req :: "env \<Rightarrow> u32 \<Rightarrow> mnld \<Rightarrow> outcome" where
  "agps_open_gps_req e show_gps_icon s = mnld_fsm e EVENT_START 0 (mark_open Agps True s)"

definition agps_close_gps_req :: "env \<Rightarrow> mnld \<Rightarrow> outcome" where
  "agps_close_gps_req e s = mnld_fsm e EVENT_STOP 0 (mark_close Agps True s)"

definition agps_reset_gps_req :: "env \<Rightarrow> u32 \<Rightarrow> mnld \<Rightarrow> outcome" where
  "agps_reset_gps_req e flags s =
     (if flags = 0 then Inr (emit (To_agps Agps_reset_gps_done) s)
      else let s = set_gps (\<lambda>g. g\<lparr>delete_aiding_flag := delete_aiding_flag g OR flags\<rparr>) s;
               s = set_client Agps (need_reset_ack_update (\<lambda>_. True)) s
           in mnld_fsm e EVENT_RESET 0 s)"

definition agent_idle :: "mnld \<Rightarrow> mnld" where
  "agent_idle s = s\<lparr>agps_agent := (agps_agent s)\<lparr>agent_set_alarm := False,
     last_state_mode := state_mode (agps_agent s), state_mode := ST_IDLE\<rparr>\<rparr>"

definition gps_controller_agps_session_done :: "mnld \<Rightarrow> mnld" where
  "gps_controller_agps_session_done s =
     (if mnld_is_gps_and_ofl_stopped s then agent_idle s
      else if \<not> agent_set_alarm (agps_agent s)
      then (emit (Alarm 30) s)\<lparr>agps_agent := (agps_agent s)\<lparr>agent_set_alarm := True\<rparr>\<rparr>
      else s)"

definition agps_session_done :: "mnld \<Rightarrow> outcome" where
  "agps_session_done s = Inr (gps_controller_agps_session_done s)"

text \<open>The \<open>SIGALRM\<close> handler that \<open>gps_controller_agps_session_done\<close> installs.\<close>

definition alarm_handler :: "mnld \<Rightarrow> mnld" where
  "alarm_handler s =
     (if agent_set_alarm (agps_agent s) then
        if mtk_gps_get_gps_user s AND GPS_USER_AGPS \<noteq> 0 then s
        else if mnld_is_gps_and_ofl_stopped s then agent_idle s
        else agent_idle s
      else s\<lparr>agps_agent := (agps_agent s)\<lparr>agent_set_alarm := False\<rparr>\<rparr>)"

definition NI_ENCODING_TYPE_UCS2 :: u32 where
  "NI_ENCODING_TYPE_UCS2 = 3"

text \<open>
  The conversion of one string in \<open>agps_ni_notify\<close>: ASCII to UCS-2 to hexadecimal digits, through
  two arrays of 1024 bytes; the argument is the text up to its terminator.
\<close>

definition ni_hex_string :: "bytes \<Rightarrow> bytes option" where
  "ni_hex_string str = do {
     (ucs2_buff, usc2_len) \<leftarrow> asc_str_to_usc2_str (replicate 1024 0) (str @ [0]);
     hex \<leftarrow> raw_data_to_hex_string (replicate 1024 0) ucs2_buff usc2_len;
     Some (cstr hex) }"

definition agps_ni_notify ::
  "u32 \<Rightarrow> u32 \<Rightarrow> u32 \<Rightarrow> bytes option \<Rightarrow> bytes option \<Rightarrow> mnld \<Rightarrow> outcome" where
  "agps_ni_notify session_id ni_type type requestor_id client_name s =
     (case (do {
        requestor_id \<leftarrow> requestor_id;
        client_name \<leftarrow> client_name;
        requestorId \<leftarrow> ni_hex_string requestor_id;
        clientName \<leftarrow> ni_hex_string client_name;
        Some (requestorId, clientName) }) of
        None \<Rightarrow> Inl Undefined
      | Some (requestorId, clientName) \<Rightarrow>
          Inr (emit (To_hal (Request_ni_notify session_id ni_type type (Some requestorId) (Some clientName)
            NI_ENCODING_TYPE_UCS2 NI_ENCODING_TYPE_UCS2)) s))"

text \<open>A \<open>struct sockaddr_storage\<close> of 128 bytes holding an IPv4 address.\<close>

definition sockaddr_in :: "u32 \<Rightarrow> bytes" where
  "sockaddr_in ipaddr = le16 2 @ [0, 0] @ le32 ipaddr @ replicate 120 0"

definition agps_data_conn_req :: "u32 \<Rightarrow> u32 \<Rightarrow> mnld \<Rightarrow> outcome" where
  "agps_data_conn_req ipaddr is_emergency s = Inr (emit (To_hal (Request_data_conn (sockaddr_in ipaddr))) s)"

definition agps_data_conn_release :: "mnld \<Rightarrow> outcome" where
  "agps_data_conn_release s = Inr (emit (To_hal Release_data_conn) s)"

definition agps_set_id_req :: "u32 \<Rightarrow> mnld \<Rightarrow> outcome" where
  "agps_set_id_req flags s = Inr (emit (To_hal (Request_set_id flags)) s)"

definition agps_ref_loc_req :: "u32 \<Rightarrow> mnld \<Rightarrow> outcome" where
  "agps_ref_loc_req flags s = Inr (emit (To_hal (Request_ref_loc flags)) s)"

definition gps_controller_rcv_pmtk :: "bytes option \<Rightarrow> mnld \<Rightarrow> mnld" where
  "gps_controller_rcv_pmtk pmtk s =
     (if mnld_is_gps_and_ofl_stopped s then s else emit (Lib_agps_pmtk pmtk) s)"

definition agps_rcv_pmtk :: "bytes option \<Rightarrow> mnld \<Rightarrow> outcome" where
  "agps_rcv_pmtk pmtk s = Inr (gps_controller_rcv_pmtk pmtk s)"

definition agps_gpevt :: "u32 \<Rightarrow> mnld \<Rightarrow> outcome" where
  "agps_gpevt type s = Inr s"

text \<open>The seven handlers \<open>agps_rcv_lppe_*\<close> differ only in two constants, named by \<open>lppe\<close> here.\<close>

definition agps_rcv_lppe :: "lppe \<Rightarrow> env \<Rightarrow> bytes \<Rightarrow> int \<Rightarrow> mnld \<Rightarrow> outcome" where
  "agps_rcv_lppe k e data len s =
     (if mnld_is_gps_and_ofl_stopped s then Inr s
      else let s = emit (Lib_agps_lppe k data len) s
           in Inr (if agps_set_param_ret e \<noteq> 0 then s
                   else emit (To_agps (Agps_lppe_assist_data_provide_ack k)) s))"

definition agps_rcv_lppe_common_iono :: "env \<Rightarrow> bytes \<Rightarrow> int \<Rightarrow> mnld \<Rightarrow> outcome" where
  "agps_rcv_lppe_common_iono = agps_rcv_lppe Common_iono"

definition agps_rcv_lppe_common_trop :: "env \<Rightarrow> bytes \<Rightarrow> int \<Rightarrow> mnld \<Rightarrow> outcome" where
  "agps_rcv_lppe_common_trop = agps_rcv_lppe Common_trop"

definition agps_rcv_lppe_common_alt :: "env \<Rightarrow> bytes \<Rightarrow> int \<Rightarrow> mnld \<Rightarrow> outcome" where
  "agps_rcv_lppe_common_alt = agps_rcv_lppe Common_alt"

definition agps_rcv_lppe_common_solar :: "env \<Rightarrow> bytes \<Rightarrow> int \<Rightarrow> mnld \<Rightarrow> outcome" where
  "agps_rcv_lppe_common_solar = agps_rcv_lppe Common_solar"

definition agps_rcv_lppe_common_ccp :: "env \<Rightarrow> bytes \<Rightarrow> int \<Rightarrow> mnld \<Rightarrow> outcome" where
  "agps_rcv_lppe_common_ccp = agps_rcv_lppe Common_ccp"

definition agps_rcv_lppe_generic_ccp :: "env \<Rightarrow> bytes \<Rightarrow> int \<Rightarrow> mnld \<Rightarrow> outcome" where
  "agps_rcv_lppe_generic_ccp = agps_rcv_lppe Generic_ccp"

definition agps_rcv_lppe_generic_dm :: "env \<Rightarrow> bytes \<Rightarrow> int \<Rightarrow> mnld \<Rightarrow> outcome" where
  "agps_rcv_lppe_generic_dm = agps_rcv_lppe Generic_dm"

text \<open>\<open>mnl_agps_agps_location\<close>, and \<open>gps_location\<close> with its LP64 layout.\<close>

record agps_loc =
  al_latitude :: u64
  al_longitude :: u64
  altitude_used :: bool
  al_altitude :: u64
  speed_used :: bool
  al_speed :: u32
  bearing_used :: bool
  al_bearing :: u32
  accuracy_used :: bool
  al_accuracy :: u32
  timestamp_used :: bool
  al_timestamp :: u64

record gps_loc =
  flags :: u32
  lat :: u64
  lng :: u64
  alt :: u64
  speed :: u32
  bearing :: u32
  accuracy :: u32
  timestamp :: u64

definition gps_loc_bytes :: "gps_loc \<Rightarrow> bytes" where
  "gps_loc_bytes l = le32 (flags l) @ replicate 4 0 @ le64 (lat l) @ le64 (lng l) @ le64 (alt l) @
     le32 (speed l) @ le32 (bearing l) @ le32 (accuracy l) @ replicate 4 0 @ le64 (timestamp l)"

definition HAS_LAT_LONG :: u32 where
  "HAS_LAT_LONG = 0x1"

definition HAS_ALT :: u32 where
  "HAS_ALT = 0x2"

definition HAS_SPEED :: u32 where
  "HAS_SPEED = 0x4"

definition HAS_BEARING :: u32 where
  "HAS_BEARING = 0x8"

definition HAS_ACCURACY :: u32 where
  "HAS_ACCURACY = 0x10"

definition loc_of_agps :: "agps_loc \<Rightarrow> gps_loc" where
  "loc_of_agps a =
     (let l = \<lparr>flags = 0, lat = 0, lng = 0, alt = 0, speed = 0, bearing = 0, accuracy = 0, timestamp = 0\<rparr>;
          l = l\<lparr>flags := flags l OR HAS_LAT_LONG, lat := al_latitude a, lng := al_longitude a\<rparr>;
          l = (if altitude_used a then l\<lparr>flags := flags l OR HAS_ALT, alt := al_altitude a\<rparr> else l);
          l = (if speed_used a then l\<lparr>flags := flags l OR HAS_SPEED, speed := al_speed a\<rparr> else l);
          l = (if bearing_used a then l\<lparr>flags := flags l OR HAS_BEARING, bearing := al_bearing a\<rparr> else l);
          l = (if accuracy_used a then l\<lparr>flags := flags l OR HAS_ACCURACY, accuracy := al_accuracy a\<rparr> else l)
      in if timestamp_used a then l\<lparr>timestamp := al_timestamp a\<rparr> else l)"

definition agps_location :: "env \<Rightarrow> agps_loc \<Rightarrow> mnld \<Rightarrow> outcome" where
  "agps_location e location s =
     (let s = emit (To_hal (Location (gps_loc_bytes (loc_of_agps location)))) s
      in case clock e of
           None \<Rightarrow> Inr s
         | Some (sec, nsec) \<Rightarrow>
             Inr (if mnld_is_gps_started_done s
                  then emit (Lib_inject_nlp_location (al_latitude location) (al_longitude location)
                         (al_accuracy location) sec nsec True) s
                  else s))"

definition agps_ni_notify2 ::
  "u32 \<Rightarrow> u32 \<Rightarrow> u32 \<Rightarrow> bytes option \<Rightarrow> bytes option \<Rightarrow> u32 \<Rightarrow> u32 \<Rightarrow> mnld \<Rightarrow> outcome" where
  "agps_ni_notify2 session_id ni_type type requestor_id client_name requestor_id_encoding client_name_encoding s =
     Inr (emit (To_hal (Request_ni_notify session_id ni_type type requestor_id client_name
       requestor_id_encoding client_name_encoding)) s)"

definition agps_data_conn_req2 :: "bytes \<Rightarrow> u32 \<Rightarrow> mnld \<Rightarrow> outcome" where
  "agps_data_conn_req2 addr is_emergency s = Inr (emit (To_hal (Request_data_conn addr)) s)"

definition vzw_debug_screen_output :: "bytes option \<Rightarrow> mnld \<Rightarrow> outcome" where
  "vzw_debug_screen_output str s = Inr (emit (To_hal (Output_vzw_debug str)) s)"

end
