(* ===== verification/Peer_Requests.thy ===== *)
theory Peer_Requests
  imports Mnld_Handlers
begin

text \<open>
  What the fused location provider and the geofence service ask of the daemon: the callbacks
  \<open>mnld_flp_*\<close> and \<open>mnld_gfc_*\<close> of \<open>mnld.c\<close>, the dispatchers \<open>flp2mnl_hdlr\<close> (\<open>mtk_flp_main.c\<close>) and
  \<open>gfc2mnl_hdlr\<close> (\<open>mtk_geofence_main.c\<close>), and the relays that turn commands of the two HALs into
  such requests (\<open>mtk_flp2mnl_process\<close> of \<open>mtk_flp_mnl_interface.c\<close>, \<open>mtk_gfc2mnl_process\<close> and
  \<open>mtk_gfc_ofl2mnl_process\<close> of \<open>mtk_geofence_controller.c\<close>). As in \<open>Peers\<close>, what the two sides have
  in common is written once, over \<open>peer_id\<close>.
\<close>

section \<open>Callbacks of the daemon\<close>

definition mnld_attach :: "peer_id \<Rightarrow> mnld \<Rightarrow> mnld" where
  "mnld_attach pid s = mnld_attach_done pid s"

definition mnld_hbd_gps_open :: "peer_id \<Rightarrow> env \<Rightarrow> mnld \<Rightarrow> outcome" where
  "mnld_hbd_gps_open pid e s = mnld_fsm e EVENT_START 0 (mark_open (client_of_peer pid) True s)"

definition mnld_hbd_gps_close :: "peer_id \<Rightarrow> env \<Rightarrow> mnld \<Rightarrow> outcome" where
  "mnld_hbd_gps_close pid e s = mnld_fsm e EVENT_STOP 0 (mark_close (client_of_peer pid) True s)"

definition mnld_ofl_link_open :: "peer_id \<Rightarrow> env \<Rightarrow> mnld \<Rightarrow> outcome" where
  "mnld_ofl_link_open pid e s =
     mnld_fsm e EVENT_OFFLOAD_START 0 (set_stype pid OFL_MODE (mark_open (client_of_peer pid) True s))"

definition mnld_ofl_link_close :: "peer_id \<Rightarrow> env \<Rightarrow> mnld \<Rightarrow> outcome" where
  "mnld_ofl_link_close pid e s = mnld_fsm e EVENT_STOP 0 (mark_close (client_of_peer pid) True s)"

section \<open>Dispatching a request\<close>

definition MNLD_FLP_ATTACH :: u32 where
  "MNLD_FLP_ATTACH = 200"

definition MNLD_HBD_GPS_OPEN :: u32 where
  "MNLD_HBD_GPS_OPEN = 210"

definition MNLD_HBD_GPS_CLOSE :: u32 where
  "MNLD_HBD_GPS_CLOSE = 211"

definition MNLD_OFL_LINK_OPEN :: u32 where
  "MNLD_OFL_LINK_OPEN = 220"

definition MNLD_OFL_LINK_CLOSE :: u32 where
  "MNLD_OFL_LINK_CLOSE = 221"

lemmas peer_msg_types = MNLD_FLP_ATTACH_def MNLD_HBD_GPS_OPEN_def MNLD_HBD_GPS_CLOSE_def
  MNLD_OFL_LINK_OPEN_def MNLD_OFL_LINK_CLOSE_def MNLD_OFL_LINK_SEND_def

text \<open>The value a dispatcher returns, with the state it leaves.\<close>

type_synonym reply = "crash + int \<times> mnld"

definition ret :: "int \<Rightarrow> outcome \<Rightarrow> reply" where
  "ret r x = (case x of Inl c \<Rightarrow> Inl c | Inr s \<Rightarrow> Inr (r, s))"

definition ignore_ret :: "reply \<Rightarrow> outcome" where
  "ignore_ret x = (case x of Inl c \<Rightarrow> Inl c | Inr (r, s) \<Rightarrow> Inr s)"

lemma ret_simps [simp]:
  "ret r (Inr s) = Inr (r, s)" "ret r (Inl c) = Inl c"
  "ignore_ret (Inr (r, s)) = Inr s" "ignore_ret (Inl c) = Inl c" "ignore_ret (ret r x) = x"
  by (simp_all add: ret_def ignore_ret_def split: sum.splits)

definition peer2mnl_hdlr :: "peer_id \<Rightarrow> env \<Rightarrow> peer_msg \<Rightarrow> mnld \<Rightarrow> reply" where
  "peer2mnl_hdlr pid e m s =
     (if \<not> hdlr_cb (peer_of pid s) then Inr (- 1, s)
      else if mtype m = MNLD_FLP_ATTACH then Inr (0, mnld_session_update pid (mnld_attach pid s))
      else if mtype m = MNLD_HBD_GPS_OPEN then
        if msession m \<noteq> sid (session_of pid s) then Inr (- 1, s) else ret 0 (mnld_hbd_gps_open pid e s)
      else if mtype m = MNLD_HBD_GPS_CLOSE then
        if msession m \<noteq> sid (session_of pid s) then Inr (- 1, s) else ret 0 (mnld_hbd_gps_close pid e s)
      else if mtype m = MNLD_OFL_LINK_OPEN then
        if msession m \<noteq> sid (session_of pid s) then Inr (- 1, s) else ret 0 (mnld_ofl_link_open pid e s)
      else if mtype m = MNLD_OFL_LINK_CLOSE then
        if msession m \<noteq> sid (session_of pid s) then Inr (- 1, s) else ret 0 (mnld_ofl_link_close pid e s)
      else if mtype m = MNLD_OFL_LINK_SEND then
        if msession m \<noteq> sid (session_of pid s) then Inr (- 1, s) else Inr (0, mnld_ofl_link_send pid m s)
      else Inr (- 1, s))"

text \<open>\<open>link_send_case\<close> is what the dispatcher does with a message of that type.\<close>

lemma peer2mnl_hdlr_send:
  "mtype m = MNLD_OFL_LINK_SEND \<Longrightarrow> ignore_ret (peer2mnl_hdlr pid e m s) = Inr (link_send_case pid m s)"
  by (simp add: peer2mnl_hdlr_def link_send_case_def peer_msg_types)

section \<open>Relaying the commands of a HAL\<close>

text \<open>
  A command is the array it was received in: its type, the length of its payload (a signed number)
  and the payload.
\<close>

definition MSG_HAL_START_CMD :: u32 where
  "MSG_HAL_START_CMD = 201"

definition MSG_HAL_STOP_CMD :: u32 where
  "MSG_HAL_STOP_CMD = 202"

definition MSG_HAL_STOP_RSP :: u32 where
  "MSG_HAL_STOP_RSP = 203"

definition MSG_HAL_DIAG_INJECT_DATA_NTF :: u32 where
  "MSG_HAL_DIAG_INJECT_DATA_NTF = 206"

definition MSG_DC_START_CMD :: u32 where
  "MSG_DC_START_CMD = 500"

definition MSG_DC_STOP_CMD :: u32 where
  "MSG_DC_STOP_CMD = 501"

definition MSG_CONN_SCREEN_STATUS :: u32 where
  "MSG_CONN_SCREEN_STATUS = 502"

definition cmd_type :: "bytes \<Rightarrow> u32" where
  "cmd_type prmsg = of_le32 prmsg"

definition cmd_length :: "bytes \<Rightarrow> int" where
  "cmd_length prmsg = sint (of_le32 (drop 4 prmsg))"

text \<open>\<open>sizeof(MTK_FLP_MSG_T) + length\<close> bytes from the start of the command.\<close>

definition cmd_bytes :: "bytes \<Rightarrow> bytes option" where
  "cmd_bytes prmsg =
     (let n = 8 + cmd_length prmsg
      in if 0 \<le> n \<and> nat n \<le> length prmsg then Some (take (nat n) prmsg) else None)"

definition link_msg :: "peer_id \<Rightarrow> bytes \<Rightarrow> mnld \<Rightarrow> peer_msg" where
  "link_msg pid b s = \<lparr>mtype = MNLD_OFL_LINK_SEND, msession = gCurrentSession (peer_of pid s),
     mlength = of_nat (length b), mdata = b\<rparr>"

definition request :: "peer_id \<Rightarrow> u32 \<Rightarrow> env \<Rightarrow> mnld \<Rightarrow> outcome" where
  "request pid t e s = ignore_ret (peer2mnl_hdlr pid e
     \<lparr>mtype = t, msession = gCurrentSession (peer_of pid s), mlength = 0, mdata = []\<rparr> s)"

definition send_link :: "peer_id \<Rightarrow> bytes \<Rightarrow> env \<Rightarrow> mnld \<Rightarrow> outcome" where
  "send_link pid prmsg e s =
     (case cmd_bytes prmsg of
        None \<Rightarrow> Inl Undefined
      | Some b \<Rightarrow> ignore_ret (peer2mnl_hdlr pid e (link_msg pid b s) s))"

text \<open>The queues \<open>gFlp2mnl_msg\<close> and \<open>gGfc2mnl_msg\<close>: how many messages, and how long each.\<close>

fun max_kept :: "peer_id \<Rightarrow> nat" where
    "max_kept FLP = 10"
  | "max_kept GFC = 100"

fun payload_len :: "peer_id \<Rightarrow> nat" where
    "payload_len FLP = 128"
  | "payload_len GFC = 256"

definition keep_msg :: "peer_id \<Rightarrow> bytes \<Rightarrow> mnld \<Rightarrow> outcome" where
  "keep_msg pid prmsg s =
     (if length (kept (peer_of pid s)) < max_kept pid then
        case cmd_bytes prmsg of
          None \<Rightarrow> Inl Undefined
        | Some b \<Rightarrow>
            if length b \<le> payload_len pid
            then Inr (set_peer pid (\<lambda>p. p\<lparr>kept := kept p @ [link_msg pid b s]\<rparr>) s)
            else Inl Undefined
      else Inr s)"

definition open_link_and_keep :: "peer_id \<Rightarrow> bytes \<Rightarrow> env \<Rightarrow> mnld \<Rightarrow> outcome" where
  "open_link_and_keep pid prmsg e s =
     res_bind
       (if kept (peer_of pid s) = [] then request pid MNLD_OFL_LINK_OPEN e (on_status pid STATUS_OFL_LINK_OPEN s)
        else Inr s)
       (keep_msg pid prmsg)"

definition mtk_flp2mnl_process :: "bytes \<Rightarrow> env \<Rightarrow> mnld \<Rightarrow> outcome" where
  "mtk_flp2mnl_process prmsg e s =
     (let t = cmd_type prmsg; st = fgMnldStatus (peer_of FLP s) in
      if t = MSG_HAL_START_CMD \<or> t = MSG_HAL_DIAG_INJECT_DATA_NTF then
        if st \<noteq> STATUS_OFL_LINK_OPEN_DONE then open_link_and_keep FLP prmsg e s else Inr s
      else if t = MSG_HAL_STOP_CMD then
        ignore_ret (peer2mnl_hdlr FLP e (link_msg FLP (le32 MSG_HAL_STOP_CMD @ le32 0) s) s)
      else if t = MSG_DC_START_CMD then
        request FLP MNLD_HBD_GPS_OPEN e (on_status FLP STATUS_HBD_GPS_OPEN s)
      else if t = MSG_DC_STOP_CMD then
        request FLP MNLD_HBD_GPS_CLOSE e (on_status FLP STATUS_HBD_GPS_CLOSE s)
      else if t = MSG_CONN_SCREEN_STATUS then
        if st = STATUS_OFL_LINK_OPEN_DONE then send_link FLP prmsg e s else Inr s
      else if gModeFlag (peer_of FLP s) = OFL_MODE then
        if st = STATUS_OFL_LINK_OPEN_DONE then send_link FLP prmsg e s else Inr s
      else Inr s)"

definition mtk_gfc_ofl2mnl_process :: "bytes \<Rightarrow> env \<Rightarrow> mnld \<Rightarrow> outcome" where
  "mtk_gfc_ofl2mnl_process prmsg e s =
     (let st = fgMnldStatus (peer_of GFC s) in
      if cmd_type prmsg = MSG_CONN_SCREEN_STATUS then
        if st = STATUS_OFL_LINK_OPEN_DONE then send_link GFC prmsg e s else Inr s
      else if st \<noteq> STATUS_OFL_LINK_OPEN_DONE then open_link_and_keep GFC prmsg e s
      else send_link GFC prmsg e s)"

definition mtk_gfc2mnl_process :: "bytes \<Rightarrow> env \<Rightarrow> mnld \<Rightarrow> outcome" where
  "mtk_gfc2mnl_process prmsg e s =
     (if cmd_type prmsg = MSG_DC_START_CMD then
        request GFC MNLD_HBD_GPS_OPEN e (on_status GFC STATUS_HBD_GPS_OPEN s)
      else if cmd_type prmsg = MSG_DC_STOP_CMD then
        request GFC MNLD_HBD_GPS_CLOSE e (on_status GFC STATUS_HBD_GPS_CLOSE s)
      else Inr s)"

text \<open>The answer of the offload engine to a stop command (\<open>MTK_FLP_MSG_HAL_STOP_RSP\<close>).\<close>

definition on_stop_rsp :: "peer_id \<Rightarrow> env \<Rightarrow> mnld \<Rightarrow> outcome" where
  "on_stop_rsp pid e s =
     res_bind (request pid MNLD_OFL_LINK_CLOSE e s) (\<lambda>s. Inr (on_status pid STATUS_OFL_LINK_CLOSE s))"

end
