(* ===== verification/Agps_Settings.thy ===== *)
theory Agps_Settings
  imports Mnld_Handlers
begin

text \<open>
  The satellite settings the AGPS daemon sends (\<open>agps_settings_sync\<close> of \<open>mnld.c\<close>), the PMTK764
  sentence that answers them while the receiver is off (\<open>get_agnss_capability\<close>), and the callback
  table \<open>g_agps2mnl_interface\<close>.
\<close>

section \<open>The PMTK764 sentence\<close>

definition ascii :: "string \<Rightarrow> bytes" where
  "ascii = map of_char"

text \<open>
  \<open>sprintf\<close> and \<open>strncat\<close> on an array: \<open>None\<close> when the text and its terminator do not fit. The
  count passed to \<open>strncat\<close> bounds the characters copied, not the terminator.
\<close>

definition str_put :: "bytes \<Rightarrow> nat \<Rightarrow> bytes \<Rightarrow> bytes option" where
  "str_put b k t =
     (if k + length t < length b then Some (take k b @ t @ 0 # drop (k + length t + 1) b) else None)"

definition strncat :: "bytes \<Rightarrow> bytes \<Rightarrow> nat \<Rightarrow> bytes option" where
  "strncat b t n = str_put b (strlen b) (take n (cstr t))"

text \<open>The decimal digits of \<open>printf\<close>'s \<open>%d\<close> for a number that is not negative.\<close>

fun decimal :: "nat \<Rightarrow> bytes" where
  "decimal n = (if n < 10 then [48 + of_nat n] else decimal (n div 10) @ [48 + of_nat (n mod 10)])"

declare decimal.simps [simp del]

definition pmtk_cat :: "bool \<Rightarrow> bytes \<Rightarrow> bytes \<Rightarrow> bytes option" where
  "pmtk_cat c t pmtk_str =
     (if c then strncat pmtk_str t (PMTK_MAX_PKT_LENGTH - strlen pmtk_str) else Some pmtk_str)"

definition agnss_cap :: "u8 \<Rightarrow> u8 \<Rightarrow> u8 \<Rightarrow> u8 \<Rightarrow> bool" where
  "agnss_cap set_mask hw_mask sv_set sv_type \<longleftrightarrow> sv_set AND set_mask = set_mask \<and> sv_type AND hw_mask = hw_mask"

definition get_agnss_capability :: "bool \<Rightarrow> u8 \<Rightarrow> u8 \<Rightarrow> bytes \<Rightarrow> bytes option" where
  "get_agnss_capability lppe sv_set sv_type pmtk_str =
     (let agps_cap = agnss_cap 0x21 0x01 sv_set sv_type;
          aglonass_cap = agnss_cap 0x12 0x02 sv_set sv_type;
          abeidou_cap = agnss_cap 0x44 0x04 sv_set sv_type;
          agalileo_cap = agnss_cap 0x88 0x08 sv_set sv_type;
          gnss_num = of_bool agps_cap + of_bool aglonass_cap + of_bool abeidou_cap + of_bool agalileo_cap
      in do {
        b \<leftarrow> str_put pmtk_str 0 (ascii ''$PMTK764,0,0,0'');
        b \<leftarrow> pmtk_cat True (ascii '','' @ decimal gnss_num) b;
        b \<leftarrow> pmtk_cat agps_cap (ascii '',0,128'') b;
        b \<leftarrow> pmtk_cat agalileo_cap (ascii '',3,128'') b;
        b \<leftarrow> pmtk_cat aglonass_cap (ascii '',4,128'') b;
        b \<leftarrow> pmtk_cat abeidou_cap (ascii '',5,128'') b;
        b \<leftarrow> pmtk_cat True (if lppe then ascii '',1'' else ascii '',0'') b;
        (r, b) \<leftarrow> add_chksum b;
        Some b })"

section \<open>Settings and their answer\<close>

record mnl_agps_agps_settings =
  sib8_16_enable_set :: u8
  gps_satellite_enable :: u8
  glonass_satellite_enable :: u8
  beidou_satellite_enable :: u8
  galileo_satellite_enable :: u8
  a_glonass_satellite_enable :: u8
  a_gps_satellite_enable :: u8
  a_beidou_satellite_enable :: u8
  a_galileo_satellite_enable :: u8
  lppe_enable_set :: u8

definition sv_type_of_settings :: "mnl_agps_agps_settings \<Rightarrow> u8" where
  "sv_type_of_settings a =
     push_bit 7 (a_galileo_satellite_enable a AND 1) OR push_bit 6 (a_beidou_satellite_enable a AND 1) OR
     push_bit 5 (a_gps_satellite_enable a AND 1) OR push_bit 4 (a_glonass_satellite_enable a AND 1) OR
     push_bit 3 (galileo_satellite_enable a AND 1) OR push_bit 2 (beidou_satellite_enable a AND 1) OR
     push_bit 1 (glonass_satellite_enable a AND 1) OR (gps_satellite_enable a AND 1)"

text \<open>\<open>chip_sv_type e\<close> is what \<open>get_chip_sv_support_capability\<close> reports.\<close>

definition agps_settings_sync :: "env \<Rightarrow> mnl_agps_agps_settings \<Rightarrow> mnld \<Rightarrow> outcome" where
  "agps_settings_sync e a s =
     (let lppe = (lppe_enable_set a \<noteq> 0 \<and> support_lppe e);
          s = s\<lparr>agps_settings := \<lparr>sv_type_agps_set = sv_type_of_settings a,
                 sib8_16_enable = sib8_16_enable_set a, lppe_enable = lppe\<rparr>\<rparr>;
          sv_type = chip_sv_type e;
          s = emit (To_agps (Agps_settings_ack (sv_type AND 0x01) (drop_bit 1 (sv_type AND 0x02))
                (drop_bit 2 (sv_type AND 0x04)) (drop_bit 3 (sv_type AND 0x08)))) s
      in if mnld_is_gps_started_done s then
           let s = emit (Lib_switch_constellation (sv_type_agps_set (agps_settings s))) s;
               s = emit (Lib_sib8_16_enable (sib8_16_enable (agps_settings s))) s
           in Inr (if support_lppe e then emit (Lib_lppe_enable lppe) s else s)
         else case get_agnss_capability lppe (sv_type_agps_set (agps_settings s)) sv_type
                (replicate PMTK_MAX_PKT_LENGTH 0) of
                None \<Rightarrow> Inl Undefined
              | Some pmtk_str \<Rightarrow> Inr (emit (To_agps (Agps_pmtk (cstr pmtk_str))) s))"

section \<open>The callback table\<close>

datatype agps2mnl_msg =
    Agps2_reboot
  | Agps2_open_gps_req u32
  | Agps2_close_gps_req
  | Agps2_reset_gps_req u32
  | Agps2_session_done
  | Agps2_ni_notify u32 u32 u32 "bytes option" "bytes option"
  | Agps2_data_conn_req u32 u32
  | Agps2_data_conn_release
  | Agps2_set_id_req u32
  | Agps2_ref_loc_req u32
  | Agps2_rcv_pmtk "bytes option"
  | Agps2_gpevt u32
  | Agps2_location agps_loc
  | Agps2_ni_notify2 u32 u32 u32 "bytes option" "bytes option" u32 u32
  | Agps2_data_conn_req2 bytes u32
  | Agps2_settings_sync mnl_agps_agps_settings
  | Agps2_vzw_debug_screen_output "bytes option"
  | Agps2_rcv_lppe lppe bytes int

fun agps2mnl_interface :: "env \<Rightarrow> agps2mnl_msg \<Rightarrow> mnld \<Rightarrow> outcome" where
    "agps2mnl_interface e Agps2_reboot s = agps_reboot e s"
  | "agps2mnl_interface e (Agps2_open_gps_req show_gps_icon) s = agps_open_gps_req e show_gps_icon s"
  | "agps2mnl_interface e Agps2_close_gps_req s = agps_close_gps_req e s"
  | "agps2mnl_interface e (Agps2_reset_gps_req fl) s = agps_reset_gps_req e fl s"
  | "agps2mnl_interface e Agps2_session_done s = agps_session_done s"
  | "agps2mnl_interface e (Agps2_ni_notify session_id ni_type type requestor_id client_name) s =
       agps_ni_notify session_id ni_type type requestor_id client_name s"
  | "agps2mnl_interface e (Agps2_data_conn_req ipaddr is_emergency) s = agps_data_conn_req ipaddr is_emergency s"
  | "agps2mnl_interface e Agps2_data_conn_release s = agps_data_conn_release s"
  | "agps2mnl_interface e (Agps2_set_id_req fl) s = agps_set_id_req fl s"
  | "agps2mnl_interface e (Agps2_ref_loc_req fl) s = agps_ref_loc_req fl s"
  | "agps2mnl_interface e (Agps2_rcv_pmtk pmtk) s = agps_rcv_pmtk pmtk s"
  | "agps2mnl_interface e (Agps2_gpevt type) s = agps_gpevt type s"
  | "agps2mnl_interface e (Agps2_location location) s = agps_location e location s"
  | "agps2mnl_interface e (Agps2_ni_notify2 session_id ni_type type requestor_id client_name re ce) s =
       agps_ni_notify2 session_id ni_type type requestor_id client_name re ce s"
  | "agps2mnl_interface e (Agps2_data_conn_req2 addr is_emergency) s = agps_data_conn_req2 addr is_emergency s"
  | "agps2mnl_interface e (Agps2_settings_sync a) s = agps_settings_sync e a s"
  | "agps2mnl_interface e (Agps2_vzw_debug_screen_output str) s = vzw_debug_screen_output str s"
  | "agps2mnl_interface e (Agps2_rcv_lppe k data len) s =
       (case k of
          Common_iono \<Rightarrow> agps_rcv_lppe_common_iono e data len s
        | Common_trop \<Rightarrow> agps_rcv_lppe_common_trop e data len s
        | Common_alt \<Rightarrow> agps_rcv_lppe_common_alt e data len s
        | Common_solar \<Rightarrow> agps_rcv_lppe_common_solar e data len s
        | Common_ccp \<Rightarrow> agps_rcv_lppe_common_ccp e data len s
        | Generic_ccp \<Rightarrow> agps_rcv_lppe_generic_ccp e data len s
        | Generic_dm \<Rightarrow> agps_rcv_lppe_generic_dm e data len s)"

section \<open>The sentence announces exactly the usable constellations\<close>

text \<open>An array that holds the string \<open>s\<close>.\<close>

definition holds :: "bytes \<Rightarrow> bytes \<Rightarrow> bool" where
  "holds b s \<longleftrightarrow> c_string s \<and> length b = PMTK_MAX_PKT_LENGTH \<and> (\<exists>r. b = s @ 0 # r)"

lemma str_put_holds:
  assumes "length b = PMTK_MAX_PKT_LENGTH" "c_string t" "length t < 256"
  shows "\<exists>b'. str_put b 0 t = Some b' \<and> holds b' t"
  using assms by (auto simp: str_put_def holds_def PMTK_MAX_PKT_LENGTH_def)

lemma pmtk_cat_holds:
  assumes "holds b s" "c_string t" "length s + length t < 256"
  shows "\<exists>b'. pmtk_cat c t b = Some b' \<and> holds b' (s @ (if c then t else []))"
proof -
  obtain r where b: "b = s @ 0 # r" "c_string s" "length s + Suc (length r) = 256"
    using assms(1) by (auto simp: holds_def PMTK_MAX_PKT_LENGTH_def)
  then have l: "strlen b = length s" "cstr t = t" using assms(2) by (simp_all add: strlen_def cstr_id)
  have "str_put b (length s) t = Some (s @ t @ 0 # drop (length t) r)"
    using b assms(3) by (simp add: str_put_def)
  moreover have "c_string (s @ t)" using b(2) assms(2) by (simp add: c_string_def)
  ultimately show ?thesis
    using assms b(3) by (auto simp: pmtk_cat_def strncat_def l holds_def PMTK_MAX_PKT_LENGTH_def)
qed

fun pmtk_cats :: "(bool \<times> bytes) list \<Rightarrow> bytes \<Rightarrow> bytes option" where
    "pmtk_cats [] b = Some b"
  | "pmtk_cats ((c, t) # cts) b = do { b \<leftarrow> pmtk_cat c t b; pmtk_cats cts b }"

fun texts :: "(bool \<times> bytes) list \<Rightarrow> bytes" where
    "texts [] = []"
  | "texts ((c, t) # cts) = (if c then t else []) @ texts cts"

lemma texts_bounds:
  "length (texts cts) \<le> sum_list (map (length \<circ> snd) cts)"
  "\<forall>ct \<in> set cts. x \<notin> set (snd ct) \<Longrightarrow> x \<notin> set (texts cts)"
  by (induction cts rule: texts.induct) auto

lemma pmtk_cats_holds:
  assumes "holds b s" "\<forall>ct \<in> set cts. c_string (snd ct)" "length s + sum_list (map (length \<circ> snd) cts) < 256"
  shows "\<exists>b'. pmtk_cats cts b = Some b' \<and> holds b' (s @ texts cts)"
  using assms
proof (induction cts arbitrary: b s)
  case (Cons ct cts)
  obtain c t where ct: "ct = (c, t)" by fastforce
  obtain b1 where b1: "pmtk_cat c t b = Some b1" "holds b1 (s @ (if c then t else []))"
    using pmtk_cat_holds [OF Cons.prems(1), of t c] Cons.prems by (auto simp: ct)
  moreover have "length (s @ (if c then t else [])) + sum_list (map (length \<circ> snd) cts) < 256"
    using Cons.prems(3) by (simp add: ct o_def)
  ultimately show ?case using Cons.IH [OF b1(2)] Cons.prems(2) by (auto simp: ct o_def)
qed simp

lemma hex_digit_nz: "n \<le> 15 \<Longrightarrow> hex_digit n \<noteq> 0"
  by (auto simp: hex_digit_def word_le_nat_alt unat_arith_simps)

lemma add_chksum_holds:
  assumes "holds b s" "42 \<notin> set s" "s \<noteq> []" "length s \<le> 250"
  shows "\<exists>b'. add_chksum b = Some (1, b') \<and> cstr b' = with_chksum s"
proof -
  obtain r where b: "b = s @ 0 # r" "c_string s" "length s + Suc (length r) = 256"
    using assms(1) by (auto simp: holds_def PMTK_MAX_PKT_LENGTH_def)
  then have a: "add_chksum b = Some (1, with_chksum s @ 0 # drop 5 r)"
    using assms by (simp add: add_chksum_eq)
  have "c_string (with_chksum s)"
    using b(2) by (auto simp: with_chksum_def hex_of_def c_string_def hex_digit_nz nibble_le)
  then show ?thesis using a by simp
qed

text \<open>
  The constellations in the order of the sentence: the PMTK identifier, the switch, the switch for
  assistance, and the chip's capability bit.
\<close>

definition constellations ::
  "(nat \<times> (mnl_agps_agps_settings \<Rightarrow> u8) \<times> (mnl_agps_agps_settings \<Rightarrow> u8) \<times> nat) list" where
  "constellations =
     [(0, gps_satellite_enable, a_gps_satellite_enable, 0),
      (3, galileo_satellite_enable, a_galileo_satellite_enable, 3),
      (4, glonass_satellite_enable, a_glonass_satellite_enable, 1),
      (5, beidou_satellite_enable, a_beidou_satellite_enable, 2)]"

definition usable :: "mnl_agps_agps_settings \<Rightarrow> u8 \<Rightarrow> nat list" where
  "usable a sv_type =
     [i. (i, en, a_en, k) \<leftarrow> constellations, odd (en a) \<and> odd (a_en a) \<and> bit sv_type k]"

definition pmtk764 :: "nat list \<Rightarrow> bool \<Rightarrow> bytes" where
  "pmtk764 us lppe = ascii ''$PMTK764,0,0,0,'' @ decimal (length us) @
     concat (map (\<lambda>i. ascii '','' @ decimal i @ ascii '',128'') us) @ ascii '','' @ decimal (of_bool lppe)"

lemma and_eq_mask_iff: "x AND m = m \<longleftrightarrow> (\<forall>n. bit m n \<longrightarrow> bit (x :: 'a::len word) n)"
  by (auto simp: bit_eq_iff bit_simps dest: bit_imp_le_length)

lemma chip_bit: "drop_bit k (y AND push_bit k 1) = (of_bool (bit y k) :: u8)"
  by (rule bit_word_eqI) (auto simp: bit_simps dest: bit_imp_le_length)

lemma agnss_cap_bits:
  "agnss_cap (push_bit i 1 OR push_bit j 1) (push_bit k 1) x y \<longleftrightarrow> bit x i \<and> bit x j \<and> bit y k"
  if "i < 8" "j < 8" "k < 8"
  using that by (auto simp: agnss_cap_def and_eq_mask_iff bit_simps)

lemma bit_switch:
  "n < 8 \<Longrightarrow> bit (push_bit k (x AND 1) :: u8) n \<longleftrightarrow> n = k \<and> odd x"
  "bit (x AND 1 :: u8) n \<longleftrightarrow> n = 0 \<and> odd x"
  by (auto simp: bit_simps bit_1_iff bit_0)

lemma sv_type_bits:
  "bit (sv_type_of_settings a) 0 = odd (gps_satellite_enable a)"
  "bit (sv_type_of_settings a) 1 = odd (glonass_satellite_enable a)"
  "bit (sv_type_of_settings a) 2 = odd (beidou_satellite_enable a)"
  "bit (sv_type_of_settings a) 3 = odd (galileo_satellite_enable a)"
  "bit (sv_type_of_settings a) 4 = odd (a_glonass_satellite_enable a)"
  "bit (sv_type_of_settings a) 5 = odd (a_gps_satellite_enable a)"
  "bit (sv_type_of_settings a) 6 = odd (a_beidou_satellite_enable a)"
  "bit (sv_type_of_settings a) 7 = odd (a_galileo_satellite_enable a)"
  unfolding sv_type_of_settings_def by (simp_all only: bit_or_iff bit_switch) simp_all

lemma agnss_cap_settings:
  "agnss_cap 0x21 0x01 (sv_type_of_settings a) y \<longleftrightarrow>
     odd (gps_satellite_enable a) \<and> odd (a_gps_satellite_enable a) \<and> bit y 0"
  "agnss_cap 0x12 0x02 (sv_type_of_settings a) y \<longleftrightarrow>
     odd (glonass_satellite_enable a) \<and> odd (a_glonass_satellite_enable a) \<and> bit y 1"
  "agnss_cap 0x44 0x04 (sv_type_of_settings a) y \<longleftrightarrow>
     odd (beidou_satellite_enable a) \<and> odd (a_beidou_satellite_enable a) \<and> bit y 2"
  "agnss_cap 0x88 0x08 (sv_type_of_settings a) y \<longleftrightarrow>
     odd (galileo_satellite_enable a) \<and> odd (a_galileo_satellite_enable a) \<and> bit y 3"
  using agnss_cap_bits [of 5 0 0 "sv_type_of_settings a" y] agnss_cap_bits [of 4 1 1 "sv_type_of_settings a" y]
    agnss_cap_bits [of 6 2 2 "sv_type_of_settings a" y] agnss_cap_bits [of 7 3 3 "sv_type_of_settings a" y]
  unfolding sv_type_bits by auto

lemma decimal_digit: "n < 10 \<Longrightarrow> decimal n = [48 + of_nat n]"
  by (simp add: decimal.simps)

lemma usable_eq:
  "usable a y =
     (if agnss_cap 0x21 0x01 (sv_type_of_settings a) y then [0] else []) @
     (if agnss_cap 0x88 0x08 (sv_type_of_settings a) y then [3] else []) @
     (if agnss_cap 0x12 0x02 (sv_type_of_settings a) y then [4] else []) @
     (if agnss_cap 0x44 0x04 (sv_type_of_settings a) y then [5] else [])"
  unfolding agnss_cap_settings by (simp add: usable_def constellations_def)

lemma pmtk764_eq:
  "pmtk764 ((if g then [0] else []) @ (if v then [3] else []) @ (if l then [4] else []) @ (if c then [5] else [])) lppe =
     ascii ''$PMTK764,0,0,0'' @ texts
       [(True, ascii '','' @ decimal (of_bool g + of_bool v + of_bool l + of_bool c)), (g, ascii '',0,128''),
        (v, ascii '',3,128''), (l, ascii '',4,128''), (c, ascii '',5,128''),
        (True, if lppe then ascii '',1'' else ascii '',0'')]"
proof -
  let ?us = "(if g then [0] else []) @ (if v then [3] else []) @ (if l then [4] else []) @ (if c then [5] else [])"
  have "length ?us = of_bool g + of_bool v + of_bool l + of_bool c" by simp
  moreover have "concat (map (\<lambda>i. ascii '','' @ decimal i @ ascii '',128'') (if b then [i] else [])) =
      (if b then ascii '','' @ decimal i @ ascii '',128'' else [])" for b i
    by simp
  ultimately show ?thesis
    by (simp only: pmtk764_def map_append concat_append) (simp add: ascii_def decimal_digit)
qed

lemma get_agnss_capability_eq:
  assumes "length buf = PMTK_MAX_PKT_LENGTH"
  shows "\<exists>b. get_agnss_capability lppe (sv_type_of_settings a) y buf = Some b \<and>
             cstr b = with_chksum (pmtk764 (usable a y) lppe)"
proof -
  define g l c v where caps: "g = agnss_cap 0x21 0x01 (sv_type_of_settings a) y"
    "l = agnss_cap 0x12 0x02 (sv_type_of_settings a) y" "c = agnss_cap 0x44 0x04 (sv_type_of_settings a) y"
    "v = agnss_cap 0x88 0x08 (sv_type_of_settings a) y"
  define n :: nat where n: "n = of_bool g + of_bool l + of_bool c + of_bool v"
  then have n10: "n < 10" by simp
  have nz: "48 + of_nat n \<noteq> (0 :: u8)" "48 + of_nat n \<noteq> (42 :: u8)"
    by (cases g; cases l; cases c; cases v; simp add: n)+
  let ?h = "ascii ''$PMTK764,0,0,0''"
  let ?cts = "[(True, ascii '','' @ decimal n), (g, ascii '',0,128''), (v, ascii '',3,128''),
     (l, ascii '',4,128''), (c, ascii '',5,128''), (True, if lppe then ascii '',1'' else ascii '',0'')]"
  let ?s = "?h @ texts ?cts"
  obtain b0 where b0: "str_put buf 0 ?h = Some b0" "holds b0 ?h"
    using str_put_holds [OF assms, of ?h] by (auto simp: ascii_def c_string_def)
  have "\<forall>ct \<in> set ?cts. c_string (snd ct)"
    using nz by (simp add: c_string_def ascii_def decimal_digit n10)
  moreover have "length ?h + sum_list (map (length \<circ> snd) ?cts) < 256"
    by (simp add: ascii_def decimal_digit n10)
  ultimately obtain b1 where b1: "pmtk_cats ?cts b0 = Some b1" "holds b1 ?s"
    using pmtk_cats_holds [OF b0(2)] by blast
  have "42 \<notin> set (texts ?cts)"
    using nz by (intro texts_bounds) (simp add: ascii_def decimal_digit n10)
  moreover have "length (texts ?cts) \<le> 28"
    using texts_bounds(1) [of ?cts] by (simp add: ascii_def decimal_digit n10)
  ultimately have "42 \<notin> set ?s" "?s \<noteq> []" "length ?s \<le> 250"
    by (auto simp: ascii_def)
  then obtain b2 where b2: "add_chksum b1 = Some (1, b2)" "cstr b2 = with_chksum ?s"
    using add_chksum_holds [OF b1(2)] by blast
  have "get_agnss_capability lppe (sv_type_of_settings a) y buf =
      do { b \<leftarrow> str_put buf 0 ?h; b \<leftarrow> pmtk_cats ?cts b; (r, b) \<leftarrow> add_chksum b; Some b }"
    by (simp only: get_agnss_capability_def Let_def caps [symmetric] n [symmetric] pmtk_cats.simps
      Option.bind_assoc Option.bind.bind_lunit)
  then have "get_agnss_capability lppe (sv_type_of_settings a) y buf = Some b2"
    by (simp only: b0(1) b1(1) b2(1) Option.bind.bind_lunit prod.case)
  moreover have "?s = pmtk764 (usable a y) lppe"
    using pmtk764_eq [of g v l c lppe] usable_eq [of a y] by (simp add: n ac_simps flip: caps)
  ultimately show ?thesis using b2(2) by simp
qed

text \<open>Settings received while the receiver is off are answered twice: with the chip's
  capabilities, and with a PMTK764 sentence whose checksum is right and that lists, with their
  number, exactly the constellations that are switched on, switched on for assistance and supported
  by the chip, followed by the LPPe flag. The 256-byte sentence buffer is never overrun.\<close>

theorem agps_settings_announced:
  assumes "\<not> mnld_is_gps_started_done s"
  shows "\<exists>s'. agps_settings_sync e a s = Inr s' \<and>
    (\<exists>ack. out s' = out s @ [To_agps ack, To_agps (Agps_pmtk (with_chksum
       (pmtk764 (usable a (chip_sv_type e)) (lppe_enable_set a \<noteq> 0 \<and> support_lppe e))))] \<and>
     ack = Agps_settings_ack (of_bool (bit (chip_sv_type e) 0)) (of_bool (bit (chip_sv_type e) 1))
             (of_bool (bit (chip_sv_type e) 2)) (of_bool (bit (chip_sv_type e) 3)))"
proof -
  let ?y = "chip_sv_type e" and ?l = "lppe_enable_set a \<noteq> 0 \<and> support_lppe e"
  obtain b where b: "get_agnss_capability ?l (sv_type_of_settings a) ?y (replicate PMTK_MAX_PKT_LENGTH 0) = Some b"
      "cstr b = with_chksum (pmtk764 (usable a ?y) ?l)"
    using get_agnss_capability_eq [OF length_replicate] by blast
  have "?y AND 0x01 = of_bool (bit ?y 0)" "drop_bit 1 (?y AND 0x02) = of_bool (bit ?y 1)"
    "drop_bit 2 (?y AND 0x04) = of_bool (bit ?y 2)" "drop_bit 3 (?y AND 0x08) = of_bool (bit ?y 3)"
    using chip_bit [of 0 ?y] chip_bit [of 1 ?y] chip_bit [of 2 ?y] chip_bit [of 3 ?y] by simp_all
  moreover have "mnld_is_gps_started_done (emit ef (s\<lparr>agps_settings := as\<rparr>)) = mnld_is_gps_started_done s" for ef as
    by (simp add: mnld_is_gps_started_done_def emit_def)
  ultimately show ?thesis
    using assms b by (simp add: agps_settings_sync_def Let_def) (simp add: emit_def)
qed

theorem agps_settings_announced_witness:
  "\<exists>s' ack. agps_settings_sync env_default
      \<lparr>sib8_16_enable_set = 0, gps_satellite_enable = 1, glonass_satellite_enable = 1, beidou_satellite_enable = 1,
       galileo_satellite_enable = 0, a_glonass_satellite_enable = 1, a_gps_satellite_enable = 1,
       a_beidou_satellite_enable = 1, a_galileo_satellite_enable = 1, lppe_enable_set = 1\<rparr> mnld_boot = Inr s' \<and>
    out s' = [To_agps ack, To_agps (Agps_pmtk (with_chksum (ascii ''$PMTK764,0,0,0,2,0,128,4,128,0'')))]"
proof -
  let ?a = "\<lparr>sib8_16_enable_set = 0, gps_satellite_enable = 1, glonass_satellite_enable = 1, beidou_satellite_enable = 1,
       galileo_satellite_enable = 0, a_glonass_satellite_enable = 1, a_gps_satellite_enable = 1,
       a_beidou_satellite_enable = 1, a_galileo_satellite_enable = 1, lppe_enable_set = 1\<rparr> :: mnl_agps_agps_settings"
  have "usable ?a (chip_sv_type env_default) = [0, 4]"
    by (simp add: usable_def constellations_def env_default_def bit_simps)
  then have "pmtk764 (usable ?a (chip_sv_type env_default)) (lppe_enable_set ?a \<noteq> 0 \<and> support_lppe env_default) =
      ascii ''$PMTK764,0,0,0,2,0,128,4,128,0''"
    by (simp add: pmtk764_def env_default_def ascii_def decimal_digit)
  then show ?thesis
    using agps_settings_announced [of mnld_boot env_default ?a]
    by (auto simp: mnld_boot_def gps_status_boot_def mnld_is_gps_started_done_def)
qed

section \<open>Network-initiated notifications\<close>

lemma ni_hex_string_eq:
  assumes "c_string str"
  shows "ni_hex_string str = (if length str \<le> 254 then Some (hex_of (ucs2 str)) else None)"
proof -
  have "c_string (hex_of bs)" for bs
    by (induction bs) (auto simp: c_string_def hex_of_def hex_digit_nz nibble_le)
  then show ?thesis
    using assms by (auto simp: ni_hex_string_def asc_str_to_usc2_str_eq raw_data_to_hex_string_eq length_ucs2)
qed

text \<open>A network-initiated notification reaches the HAL with both texts as the hexadecimal
  digits of their UCS-2 form, from which the texts can be read back, when neither is longer than
  254 characters; a longer one overruns the 1024-byte digit array.\<close>

theorem agps_ni_notify_text:
  assumes "c_string requestor" "c_string client"
  shows "agps_ni_notify session_id ni_type type (Some requestor) (Some client) s =
      (if length requestor \<le> 254 \<and> length client \<le> 254
       then Inr (emit (To_hal (Request_ni_notify session_id ni_type type (Some (hex_of (ucs2 requestor)))
              (Some (hex_of (ucs2 client))) NI_ENCODING_TYPE_UCS2 NI_ENCODING_TYPE_UCS2)) s)
       else Inl Undefined) \<and>
    unhex (hex_of (ucs2 requestor)) = [0xfe, 0xff] @ concat (map (\<lambda>c. [0, c]) requestor)"
  using assms by (simp add: agps_ni_notify_def ni_hex_string_eq unhex_hex_of ucs2_def)

theorem agps_ni_notify_text_witness:
  "agps_ni_notify 1 2 3 (Some [65]) (Some (replicate 255 66)) mnld_boot = Inl Undefined \<and>
   agps_ni_notify 1 2 3 (Some [65]) (Some []) mnld_boot = Inr (emit (To_hal (Request_ni_notify 1 2 3
     (Some [70, 69, 70, 70, 48, 48, 52, 49]) (Some [70, 69, 70, 70]) 3 3)) mnld_boot)"
  using agps_ni_notify_text [of "[65]" "replicate 255 66" 1 2 3 mnld_boot]
    agps_ni_notify_text [of "[65]" "[]" 1 2 3 mnld_boot]
  by (simp add: c_string_def ucs2_def hex_of_def hex_digit_def NI_ENCODING_TYPE_UCS2_def)

end
