(* ===== verification/Main_Event.thy ===== *)
theory Main_Event
  imports Peer_Requests Agps_Settings
begin

text \<open>
  The internal socket of the daemon: the senders \<open>mnld_gps_*_done\<close>, \<open>mnld_*_download_done\<close> and
  \<open>sys_gps_mnl_data2mnld_callback\<close> of \<open>mnld.c\<close>, through which the GPS control thread, the download
  threads and the positioning library report to the main thread, the handler \<open>main_event_hdlr\<close>,
  the timer callbacks, and the remaining entry points of the main thread (test, factory, AT and
  debug clients).
\<close>

section \<open>Events on the wire\<close>

definition MNLD_INTERNAL_BUFF_SIZE :: nat where
  "MNLD_INTERNAL_BUFF_SIZE = 8 * 1024"

definition MNLD_TO_APP_BUFF_SIZE :: nat where
  "MNLD_TO_APP_BUFF_SIZE = 1023"

datatype main_internal_event =
    GPS2MAIN_EVENT_START_DONE
  | GPS2MAIN_EVENT_STOP_DONE
  | GPS2MAIN_EVENT_RESET_DONE
  | GPS2MAIN_EVENT_NMEA_TIMEOUT
  | GPS2MAIN_EVENT_UPDATE_LOCATION
  | EPO2MAIN_EVENT_EPO_DONE
  | QEPO2MAIN_EVENT_QEPO_DONE
  | QEPO2MAIN_EVENT_QEPO_BD_DONE
  | MTKNAV2MAIN_EVENT_MTKNAV_DONE
  | QEPO2MAIN_EVENT_QEPO_GA_DONE
  | GPS2MAIN_EVENT_OUTPUT_DATA

definition main_events :: "main_internal_event list" where
  "main_events = [GPS2MAIN_EVENT_START_DONE, GPS2MAIN_EVENT_STOP_DONE, GPS2MAIN_EVENT_RESET_DONE,
     GPS2MAIN_EVENT_NMEA_TIMEOUT, GPS2MAIN_EVENT_UPDATE_LOCATION, EPO2MAIN_EVENT_EPO_DONE,
     QEPO2MAIN_EVENT_QEPO_DONE, QEPO2MAIN_EVENT_QEPO_BD_DONE, MTKNAV2MAIN_EVENT_MTKNAV_DONE,
     QEPO2MAIN_EVENT_QEPO_GA_DONE, GPS2MAIN_EVENT_OUTPUT_DATA]"

fun main_event_code :: "main_internal_event \<Rightarrow> u32" where
    "main_event_code GPS2MAIN_EVENT_START_DONE = 0"
  | "main_event_code GPS2MAIN_EVENT_STOP_DONE = 1"
  | "main_event_code GPS2MAIN_EVENT_RESET_DONE = 2"
  | "main_event_code GPS2MAIN_EVENT_NMEA_TIMEOUT = 3"
  | "main_event_code GPS2MAIN_EVENT_UPDATE_LOCATION = 4"
  | "main_event_code EPO2MAIN_EVENT_EPO_DONE = 5"
  | "main_event_code QEPO2MAIN_EVENT_QEPO_DONE = 6"
  | "main_event_code QEPO2MAIN_EVENT_QEPO_BD_DONE = 7"
  | "main_event_code MTKNAV2MAIN_EVENT_MTKNAV_DONE = 8"
  | "main_event_code QEPO2MAIN_EVENT_QEPO_GA_DONE = 9"
  | "main_event_code GPS2MAIN_EVENT_OUTPUT_DATA = 10"

definition main_event_of_code :: "u32 \<Rightarrow> main_internal_event option" where
  "main_event_of_code v = find (\<lambda>c. main_event_code c = v) main_events"

text \<open>The object representation of a \<open>gps_location\<close>, read back (padding is ignored).\<close>

definition gps_loc_of :: "bytes \<Rightarrow> gps_loc" where
  "gps_loc_of b = \<lparr>flags = of_le32 b, lat = of_le64 (drop 8 b), lng = of_le64 (drop 16 b),
     alt = of_le64 (drop 24 b), speed = of_le32 (drop 32 b), bearing = of_le32 (drop 36 b),
     accuracy = of_le32 (drop 40 b), timestamp = of_le64 (drop 48 b)\<rparr>"

text \<open>What the handler makes of a datagram.\<close>

datatype main_msg =
    Start_done u32
  | Stop_done
  | Reset_done
  | Nmea_timeout
  | Update_location gps_loc
  | Epo_done u32
  | Qepo_done u32
  | Qepo_bd_done u32
  | Mtknav_done u32
  | Qepo_ga_done u32
  | Debug2app bytes
  | Unknown_output u32

section \<open>Senders\<close>

definition main_send :: "main_internal_event \<Rightarrow> (cbuf \<Rightarrow> cbuf option) \<Rightarrow> bytes option" where
  "main_send c put = do {
     b \<leftarrow> put_int (main_event_code c) (new_buff MNLD_INTERNAL_BUFF_SIZE);
     b \<leftarrow> put b;
     Some (sent b) }"

definition mnld_gps_start_done :: "bool \<Rightarrow> bytes option" where [send_defs]:
  "mnld_gps_start_done is_assist_req = main_send GPS2MAIN_EVENT_START_DONE (put_int (of_bool is_assist_req))"

definition mnld_gps_start_nmea_timeout :: "bytes option" where [send_defs]:
  "mnld_gps_start_nmea_timeout = main_send GPS2MAIN_EVENT_NMEA_TIMEOUT Some"

definition mnld_gps_stop_done :: "bytes option" where [send_defs]:
  "mnld_gps_stop_done = main_send GPS2MAIN_EVENT_STOP_DONE Some"

definition mnld_gps_reset_done :: "bytes option" where [send_defs]:
  "mnld_gps_reset_done = main_send GPS2MAIN_EVENT_RESET_DONE Some"

definition mnld_gps_update_location :: "gps_loc \<Rightarrow> bytes option" where [send_defs]:
  "mnld_gps_update_location location =
     main_send GPS2MAIN_EVENT_UPDATE_LOCATION (put_binary (gps_loc_bytes location) 56)"

definition mnld_epo_download_done :: "u32 \<Rightarrow> bytes option" where [send_defs]:
  "mnld_epo_download_done result = main_send EPO2MAIN_EVENT_EPO_DONE (put_int result)"

definition mnld_qepo_download_done :: "u32 \<Rightarrow> bytes option" where [send_defs]:
  "mnld_qepo_download_done result = main_send QEPO2MAIN_EVENT_QEPO_DONE (put_int result)"

definition mnld_qepo_bd_download_done :: "u32 \<Rightarrow> bytes option" where [send_defs]:
  "mnld_qepo_bd_download_done result = main_send QEPO2MAIN_EVENT_QEPO_BD_DONE (put_int result)"

definition mnld_qepo_ga_download_done :: "u32 \<Rightarrow> bytes option" where [send_defs]:
  "mnld_qepo_ga_download_done result = main_send QEPO2MAIN_EVENT_QEPO_GA_DONE (put_int result)"

definition mnld_mtknav_download_done :: "u32 \<Rightarrow> bytes option" where [send_defs]:
  "mnld_mtknav_download_done result = main_send MTKNAV2MAIN_EVENT_MTKNAV_DONE (put_int result)"

definition DATA_DEBUG2APP :: u32 where
  "DATA_DEBUG2APP = 0"

text \<open>The library's data go through a buffer of 1023 bytes, whatever their length.\<close>

definition sys_gps_mnl_data2mnld_callback :: "bytes \<Rightarrow> u32 \<Rightarrow> bytes option" where
  "sys_gps_mnl_data2mnld_callback data len = do {
     b \<leftarrow> put_int (main_event_code GPS2MAIN_EVENT_OUTPUT_DATA) (new_buff MNLD_TO_APP_BUFF_SIZE);
     b \<leftarrow> put_int DATA_DEBUG2APP b;
     b \<leftarrow> put_binary data len b;
     Some (sent b) }"

fun main_msg_send :: "main_msg \<Rightarrow> bytes option" where
    "main_msg_send (Start_done v) = mnld_gps_start_done (v \<noteq> 0)"
  | "main_msg_send Stop_done = mnld_gps_stop_done"
  | "main_msg_send Reset_done = mnld_gps_reset_done"
  | "main_msg_send Nmea_timeout = mnld_gps_start_nmea_timeout"
  | "main_msg_send (Update_location l) = mnld_gps_update_location l"
  | "main_msg_send (Epo_done r) = mnld_epo_download_done r"
  | "main_msg_send (Qepo_done r) = mnld_qepo_download_done r"
  | "main_msg_send (Qepo_bd_done r) = mnld_qepo_bd_download_done r"
  | "main_msg_send (Mtknav_done r) = mnld_mtknav_download_done r"
  | "main_msg_send (Qepo_ga_done r) = mnld_qepo_ga_download_done r"
  | "main_msg_send (Debug2app data) = sys_gps_mnl_data2mnld_callback data (of_nat (length data))"
  | "main_msg_send (Unknown_output _) = None"

section \<open>The handler\<close>

abbreviation internal_n :: int where
  "internal_n \<equiv> int MNLD_INTERNAL_BUFF_SIZE"

text \<open>The first half of \<open>mnld_gps_output_data_handle\<close>: the array \<open>data\<close> it fills.\<close>

definition get_output_data :: "cbuf \<Rightarrow> main_msg option" where
  "get_output_data b = do {
     (cmd, b) \<leftarrow> get_int internal_n b;
     if cmd = DATA_DEBUG2APP then do {
       (len, data, b) \<leftarrow> get_binary internal_n (int MNLD_TO_APP_BUFF_SIZE) (replicate MNLD_TO_APP_BUFF_SIZE 0) b;
       Some (Debug2app data) }
     else Some (Unknown_output cmd) }"

text \<open>
  The arguments each case of the \<open>switch\<close> reads. The variable \<open>location\<close> is not initialised, so
  reading less than its size is undefined behaviour.
\<close>

fun main_event_args :: "main_internal_event \<Rightarrow> cbuf \<Rightarrow> main_msg option" where
    "main_event_args GPS2MAIN_EVENT_START_DONE b =
       do { (is_assist_req, b) \<leftarrow> get_int internal_n b; Some (Start_done is_assist_req) }"
  | "main_event_args GPS2MAIN_EVENT_STOP_DONE b = Some Stop_done"
  | "main_event_args GPS2MAIN_EVENT_RESET_DONE b = Some Reset_done"
  | "main_event_args GPS2MAIN_EVENT_NMEA_TIMEOUT b = Some Nmea_timeout"
  | "main_event_args GPS2MAIN_EVENT_UPDATE_LOCATION b =
       do { (len, location, b) \<leftarrow> get_binary internal_n 56 (replicate 56 0) b;
            if len = 56 then Some (Update_location (gps_loc_of location)) else None }"
  | "main_event_args EPO2MAIN_EVENT_EPO_DONE b =
       do { (result, b) \<leftarrow> get_int internal_n b; Some (Epo_done result) }"
  | "main_event_args QEPO2MAIN_EVENT_QEPO_DONE b =
       do { (result, b) \<leftarrow> get_int internal_n b; Some (Qepo_done result) }"
  | "main_event_args QEPO2MAIN_EVENT_QEPO_BD_DONE b =
       do { (result, b) \<leftarrow> get_int internal_n b; Some (Qepo_bd_done result) }"
  | "main_event_args MTKNAV2MAIN_EVENT_MTKNAV_DONE b =
       do { (result, b) \<leftarrow> get_int internal_n b; Some (Mtknav_done result) }"
  | "main_event_args QEPO2MAIN_EVENT_QEPO_GA_DONE b =
       do { (result, b) \<leftarrow> get_int internal_n b; Some (Qepo_ga_done result) }"
  | "main_event_args GPS2MAIN_EVENT_OUTPUT_DATA b = get_output_data b"

definition EPO_DOWNLOAD_RESULT_SUCCESS :: u32 where
  "EPO_DOWNLOAD_RESULT_SUCCESS = 0"

text \<open>The reboot message to every module.\<close>

definition notify_reboot :: "mnld \<Rightarrow> mnld" where
  "notify_reboot s = mnl2peer_mnld_reboot GFC (mnl2peer_mnld_reboot FLP
     (emit (To_agps Agps_mnl_reboot) (emit (To_hal Mnld_reboot) s)))"

definition nmea_timeout_case :: "env \<Rightarrow> mnld \<Rightarrow> outcome" where
  "nmea_timeout_case e s =
     (if mnld_is_gps_started_done s
      then res_bind (mnld_fsm e EVENT_STOP 0 (mtk_gps_clear_gps_user s)) (\<lambda>s. Inr (notify_reboot s))
      else Inr s)"

text \<open>The accuracy of a location without one is \<open>2000.0f\<close>; effects carry floating-point bits.\<close>

definition update_location_case :: "env \<Rightarrow> gps_loc \<Rightarrow> mnld \<Rightarrow> mnld" where
  "update_location_case e l s =
     (let alt_valid = (flags l AND HAS_ALT \<noteq> 0);
          valid_acc = (if flags l AND HAS_ACCURACY \<noteq> 0 then accuracy l else 0x44FA0000);
          s = emit (To_agps (Agps_location_sync (lat l) (lng l) valid_acc alt_valid (alt l) True True False False)) s
      in if wait_first_location (gps s) then
           let s = set_gps (\<lambda>g. g\<lparr>wait_first_location := False\<rparr>) s;
               s = set_gps (\<lambda>g. g\<lparr>gps_ttff := tick e - gps_start_time g\<rparr>) s
           in op01_log e (Op01_gps_location (lat l) (lng l) (gps_ttff (gps s))) s
         else s)"

definition epo_done_case :: "u32 \<Rightarrow> mnld \<Rightarrow> mnld" where
  "epo_done_case result s =
     (let s = set_epo (\<lambda>x. x\<lparr>is_epo_downloading := False\<rparr>) s
      in if result = EPO_DOWNLOAD_RESULT_SUCCESS then
           if mnld_is_gps_or_ofl_started_done s then emit Epo_update_file s else s
         else emit Epo_unlink s)"

definition set_dl :: "(download \<Rightarrow> download) \<Rightarrow> mnld \<Rightarrow> mnld" where
  "set_dl f s = s\<lparr>dl := f (dl s)\<rparr>"

text \<open>A download that ends before the receiver has started is only remembered by a flag.\<close>

definition dl_done_case :: "effect \<Rightarrow> (download \<Rightarrow> download) \<Rightarrow> mnld \<Rightarrow> mnld" where
  "dl_done_case update remember s =
     (if mnld_is_gps_or_ofl_started_done s then emit update s else set_dl remember s)"

text \<open>\<open>data\<close> is printed as a string, so it has to be terminated.\<close>

definition output_data_case :: "bytes \<Rightarrow> mnld \<Rightarrow> outcome" where
  "output_data_case data s = (if 0 \<in> set data then Inr (emit (Dbg_message (cstr data)) s) else Inl Undefined)"

fun main_event :: "env \<Rightarrow> main_msg \<Rightarrow> mnld \<Rightarrow> outcome" where
    "main_event e (Start_done is_assist_req) s = mnld_fsm e EVENT_START_DONE is_assist_req s"
  | "main_event e Stop_done s = mnld_fsm e EVENT_STOP_DONE 0 s"
  | "main_event e Reset_done s = Inr (do_gps_reset_hdlr (stop_timer Timer_reset s))"
  | "main_event e Nmea_timeout s = nmea_timeout_case e s"
  | "main_event e (Update_location l) s = Inr (update_location_case e l s)"
  | "main_event e (Epo_done r) s = Inr (epo_done_case r s)"
  | "main_event e (Qepo_done r) s = Inr (dl_done_case (Qepo_update_file r) (qepo_update_flag_update (\<lambda>_. True)) s)"
  | "main_event e (Qepo_bd_done r) s =
       Inr (dl_done_case (Qepo_bd_update_file r) (qepo_BD_update_flag_update (\<lambda>_. True)) s)"
  | "main_event e (Qepo_ga_done r) s =
       Inr (dl_done_case (Qepo_ga_update_file r) (qepo_GA_update_flag_update (\<lambda>_. True)) s)"
  | "main_event e (Mtknav_done r) s =
       Inr (dl_done_case (Mtknav_update_file r) (mtknav_update_flag_update (\<lambda>_. True)) s)"
  | "main_event e (Debug2app data) s = output_data_case data s"
  | "main_event e (Unknown_output cmd) s = Inr s"

definition main_event_decode :: "bytes \<Rightarrow> main_msg option option" where
  "main_event_decode d = do {
     (cmd, b) \<leftarrow> get_int internal_n (recv_buff MNLD_INTERNAL_BUFF_SIZE d);
     (case main_event_of_code cmd of
        None \<Rightarrow> Some None
      | Some c \<Rightarrow> map_option Some (main_event_args c b)) }"

definition main_event_hdlr :: "env \<Rightarrow> bytes option \<Rightarrow> mnld \<Rightarrow> reply" where
  "main_event_hdlr e recv s =
     (case recv of
        None \<Rightarrow> Inr (- 1, s)
      | Some d \<Rightarrow>
          if d = [] then Inr (- 1, s)
          else case main_event_decode d of
            None \<Rightarrow> Inl Undefined
          | Some None \<Rightarrow> Inr (0, s)
          | Some (Some m) \<Rightarrow> ret 0 (main_event e m s))"

section \<open>Timer callbacks\<close>

text \<open>
  The body that \<open>mnld_main_thread_timeout\<close>, \<open>mnld_gps_start_timeout\<close>, \<open>mnld_gps_stop_timeout\<close> and
  \<open>mnld_gps_reset_timeout\<close> share.
\<close>

definition timeout_exit :: "env \<Rightarrow> mnld \<Rightarrow> outcome" where
  "timeout_exit e s =
     (if \<not> mnld_timeout_ne_enabled e s
      then Inr (emit Block_exit (emit Log_exit_flush (s\<lparr>mnld_exiting := True\<rparr>)))
      else Inl Crash_timeout)"

definition mnld_main_thread_timeout :: "env \<Rightarrow> mnld \<Rightarrow> outcome" where
  "mnld_main_thread_timeout = timeout_exit"

definition mnld_gps_start_timeout :: "env \<Rightarrow> mnld \<Rightarrow> outcome" where
  "mnld_gps_start_timeout = timeout_exit"

definition mnld_gps_stop_timeout :: "env \<Rightarrow> mnld \<Rightarrow> outcome" where
  "mnld_gps_stop_timeout = timeout_exit"

definition mnld_gps_reset_timeout :: "env \<Rightarrow> mnld \<Rightarrow> outcome" where
  "mnld_gps_reset_timeout = timeout_exit"

definition mnld_gps_switch_ofl_mode_timeout :: "env \<Rightarrow> mnld \<Rightarrow> outcome" where
  "mnld_gps_switch_ofl_mode_timeout e s =
     (if is_all_hbd_gps_client_exit s
      then mnld_fsm e EVENT_STOP 0 (release_peer Geofence (release_peer Flp s))
      else Inr s)"

text \<open>The NMEA monitor only sends a message to the main thread.\<close>

definition gps_mnld_restart_mnl_process :: "bytes option" where
  "gps_mnld_restart_mnl_process = mnld_gps_start_nmea_timeout"

definition mnld_gps_request_nlp :: "u32 \<Rightarrow> mnld \<Rightarrow> mnld" where
  "mnld_gps_request_nlp src = emit (Nlp_request src)"

section \<open>Test, factory, AT and debug clients\<close>

definition flp_test2mnl_gps_start :: "env \<Rightarrow> mnld \<Rightarrow> outcome" where
  "flp_test2mnl_gps_start e s = mnld_fsm e EVENT_START 0 (mark_open Flp_test False s)"

definition flp_test2mnl_gps_stop :: "env \<Rightarrow> mnld \<Rightarrow> outcome" where
  "flp_test2mnl_gps_stop e s = mnld_fsm e EVENT_STOP 0 (mark_close Flp_test False s)"

definition factory_mnld_gps_start :: "env \<Rightarrow> mnld \<Rightarrow> outcome" where
  "factory_mnld_gps_start e s =
     mnld_fsm e EVENT_START 0 ((mark_open Factory False s)\<lparr>in_meta_factory := True\<rparr>)"

definition factory_mnld_gps_stop :: "env \<Rightarrow> mnld \<Rightarrow> outcome" where
  "factory_mnld_gps_stop e s =
     mnld_fsm e EVENT_STOP 0 ((mark_close Factory False s)\<lparr>in_meta_factory := False\<rparr>)"

definition at_test2mnl_gps_start :: "env \<Rightarrow> mnld \<Rightarrow> outcome" where
  "at_test2mnl_gps_start e s = mnld_fsm e EVENT_START 0 (mark_open At_cmd_test False s)"

definition at_test2mnl_gps_stop :: "env \<Rightarrow> mnld \<Rightarrow> outcome" where
  "at_test2mnl_gps_stop e s = mnld_fsm e EVENT_STOP 0 (mark_close At_cmd_test False s)"

definition meta_req_gnss_location :: "env \<Rightarrow> u32 \<Rightarrow> mnld \<Rightarrow> outcome" where
  "meta_req_gnss_location e source s = factory_mnld_gps_start e s"

definition meta_cancel_gnss_location :: "env \<Rightarrow> u32 \<Rightarrow> mnld \<Rightarrow> outcome" where
  "meta_cancel_gnss_location e source s = factory_mnld_gps_stop e s"

text \<open>\<open>status\<close> is 0 to stop and 1 to start debugging.\<close>

definition debug_req_mnld_message :: "u32 \<Rightarrow> mnld \<Rightarrow> mnld" where
  "debug_req_mnld_message status s =
     (let gps_status = mnld_is_gps_started s;
          s = (if status = 0 \<or> status = 1 then
                 let s = s\<lparr>enable_debug2app := (status = 1)\<rparr>
                 in if gps_status then emit (Lib_debug2app status) s else s
               else s)
      in emit (Dbg_gps_status gps_status) (emit Dbg_ack s))"

text \<open>The messages at the end of \<open>mnld_init\<close> (those to the log daemon are not modelled).\<close>

definition mnld_init :: "mnld \<Rightarrow> mnld" where
  "mnld_init s = notify_reboot s"

section \<open>Transport\<close>

lemma main_event_of_code_code [simp]: "main_event_of_code (main_event_code c) = Some c"
  by (cases c) (simp_all add: main_event_of_code_def main_events_def)

declare main_event_code.simps [simp del]

lemma length_gps_loc_bytes [simp]: "length (gps_loc_bytes l) = 56"
  by (simp add: gps_loc_bytes_def)

lemma gps_loc_of_bytes [simp]: "gps_loc_of (gps_loc_bytes l) = l"
  by (simp add: gps_loc_of_def gps_loc_bytes_def)

lemma main_send_eq:
  "main_send c put = map_option sent
     (put (cursor (le32 (main_event_code c)) (replicate (MNLD_INTERNAL_BUFF_SIZE - 4) 0)))"
  by (cases "put (cursor (le32 (main_event_code c)) (replicate (MNLD_INTERNAL_BUFF_SIZE - 4) 0))")
    (simp_all add: main_send_def coder_simps MNLD_INTERNAL_BUFF_SIZE_def)

lemma main_event_decode_body:
  assumes "length body + 4 \<le> MNLD_INTERNAL_BUFF_SIZE"
  shows "main_event_decode (le32 (main_event_code c) @ body) =
    map_option Some (main_event_args c (cursor (le32 (main_event_code c))
      (body @ replicate (MNLD_INTERNAL_BUFF_SIZE - (length body + 4)) 0)))"
  using assms by (simp add: main_event_decode_def coder_simps MNLD_INTERNAL_BUFF_SIZE_def add.commute)

lemma main_event_decode_plain:
  "main_event_decode (le32 (main_event_code c)) =
    map_option Some (main_event_args c (cursor (le32 (main_event_code c)) (replicate (MNLD_INTERNAL_BUFF_SIZE - 4) 0)))"
  using main_event_decode_body [of "[]"] by (simp add: MNLD_INTERNAL_BUFF_SIZE_def)

text \<open>What the senders are called with, and what the handler sees of it.\<close>

fun wf_main_msg :: "main_msg \<Rightarrow> bool" where
    "wf_main_msg (Start_done v) = (v = 0 \<or> v = 1)"
  | "wf_main_msg (Debug2app data) = (length data \<le> 1011)"
  | "wf_main_msg (Unknown_output _) = False"
  | "wf_main_msg _ = True"

fun main_msg_seen :: "main_msg \<Rightarrow> main_msg" where
    "main_msg_seen (Debug2app data) = Debug2app (data @ replicate (1023 - length data) 0)"
  | "main_msg_seen m = m"

lemmas main_wire = send_defs main_send_eq main_event_decode_body main_event_decode_plain
  MNLD_INTERNAL_BUFF_SIZE_def MNLD_TO_APP_BUFF_SIZE_def coder_simps

lemma callback_eq:
  "sys_gps_mnl_data2mnld_callback data len =
     map_option (\<lambda>x. le32 (main_event_code GPS2MAIN_EVENT_OUTPUT_DATA) @ le32 DATA_DEBUG2APP @ x)
       (if sint len \<le> 0 then Some (le32 len)
        else if nat (sint len) \<le> length data \<and> sint len \<le> 1011 then Some (le32 len @ take (nat (sint len)) data)
        else None)"
  by (auto simp: sys_gps_mnl_data2mnld_callback_def coder_simps MNLD_TO_APP_BUFF_SIZE_def)

lemma main_transport_data:
  assumes "length data \<le> 1011"
  shows "map_option main_event_decode (main_msg_send (Debug2app data)) = Some (Some (Some (main_msg_seen (Debug2app data))))"
proof -
  let ?n = "length data" and ?c = "le32 (main_event_code GPS2MAIN_EVENT_OUTPUT_DATA)"
  have l: "sint (of_nat ?n :: u32) = int ?n" using assms by (simp add: sint_of_nat32)
  have "main_msg_send (Debug2app data) = Some (?c @ le32 DATA_DEBUG2APP @ le32 (of_nat ?n) @ data)"
    using l assms by (cases data) (simp_all add: callback_eq)
  moreover have "get_binary 8192 1023 (replicate 1023 0) (cursor (?c @ le32 DATA_DEBUG2APP)
      (le32 (of_nat ?n) @ data @ replicate (8192 - (?n + 12)) 0)) =
      Some (int ?n, data @ replicate (1023 - ?n) 0,
        cursor ((?c @ le32 DATA_DEBUG2APP) @ le32 (of_nat ?n) @ data) (replicate (8192 - (?n + 12)) 0))"
    using get_binary_cursor [OF l, of "?c @ le32 DATA_DEBUG2APP" 8192 1023 "replicate 1023 0"] assms
    by (simp add: min_absorb1)
  ultimately show ?thesis
    using assms by (simp add: main_wire get_output_data_def add.commute add.left_commute)
qed

lemma main_transport:
  assumes "wf_main_msg m"
  shows "map_option main_event_decode (main_msg_send m) = Some (Some (Some (main_msg_seen m)))"
proof (cases "\<exists>data. m = Debug2app data")
  case True
  then show ?thesis using assms main_transport_data by auto
next
  case False
  then show ?thesis using assms by (cases m) (auto simp: main_wire)
qed

interpretation main_socket: channel main_msg_send main_event_decode "\<lambda>m. Some (Some (main_msg_seen m))" wf_main_msg
  by unfold_locales (use main_transport in fastforce)

section \<open>Properties\<close>

lemma clear_gps_user_frame [frame_simps]:
  "used c (mtk_gps_clear_gps_user s) = False" "state_of (mtk_gps_clear_gps_user s) = state_of s"
  "need_open_ack (client_of c (mtk_gps_clear_gps_user s)) = need_open_ack (client_of c s)"
  "need_close_ack (client_of c (mtk_gps_clear_gps_user s)) = need_close_ack (client_of c s)"
  "power_cmds (mtk_gps_clear_gps_user s) = power_cmds s" "hal_status (mtk_gps_clear_gps_user s) = hal_status s"
  "armed (gps (mtk_gps_clear_gps_user s)) = armed (gps s)" "cfg (mtk_gps_clear_gps_user s) = cfg s"
  "session_of pid (mtk_gps_clear_gps_user s) = session_of pid s"
  by (cases c; simp add: mtk_gps_clear_gps_user_def clear_used_def frame_simps)+

lemma quiet_power: "quiet f \<Longrightarrow> power_cmds (f s) = power_cmds s"
  by (rule quiet_views)

lemma notify_reboot_frame [frame_simps]:
  "gps (notify_reboot s) = gps s" "power_cmds (notify_reboot s) = power_cmds s"
  "cfg (notify_reboot s) = cfg s" "session_of pid (notify_reboot s) = session_of pid s"
  "hal_status (notify_reboot s) = hal_status s" "wakes (notify_reboot s) = wakes s"
  by (simp_all add: notify_reboot_def frame_simps quiet_power [OF quiet_reboot] quiet_views(2) [OF quiet_reboot])

text \<open>Every report to the main thread arrives: the datagram of each sender makes
  \<open>main_event_hdlr\<close> return 0 after exactly the action of that report on the daemon, with the
  arguments that were sent (a debug text of at most 1011 bytes included).\<close>

theorem main_event_round_trip:
  assumes "wf_main_msg m"
  shows "\<exists>d. main_msg_send m = Some d \<and> main_event_hdlr e (Some d) s = ret 0 (main_event e (main_msg_seen m) s)"
proof -
  obtain d where d: "main_msg_send m = Some d" "main_event_decode d = Some (Some (main_msg_seen m))"
    using main_socket.transport [OF assms] by blast
  from d(1) have "4 \<le> length d"
    by (cases m) (auto simp: main_wire callback_eq split: if_splits)
  then have "d \<noteq> []" by auto
  with d show ?thesis by (simp add: main_event_hdlr_def)
qed

theorem main_event_round_trip_witness:
  "\<exists>d. main_msg_send (Debug2app [104, 105]) = Some d \<and>
     main_event_hdlr env_default (Some d) mnld_boot = Inr (0, emit (Dbg_message [104, 105]) mnld_boot)"
  using main_event_round_trip [of "Debug2app [104, 105]" env_default mnld_boot]
  by (simp add: output_data_case_def cstr_def)

text \<open>When the chip stops sending NMEA while the receiver is on, the daemon drops every
  user, sends the control thread one stop command, waits in the stopping state and tells every
  module that it restarts; once the stop is confirmed it is idle, with no command pending.\<close>

theorem nmea_timeout_recovers:
  assumes "state_of s = STARTED"
  shows "\<exists>s'. main_event e Nmea_timeout s = Inr s' \<and> state_of s' = STOPPING \<and> (\<forall>c. \<not> used c s') \<and>
    power_cmds s' = power_cmds s @ [Gps_stop] \<and> armed (gps s') Timer_stop = Some MNLD_GPS_STOP_TIMEOUT \<and>
    (\<exists>s''. main_event e' Stop_done s' = Inr s'' \<and> state_of s'' = IDLE \<and> power_cmds s'' = power_cmds s')"
proof -
  let ?c = "mtk_gps_clear_gps_user s"
  have "is_all_gps_client_exit (fsm_enter e ?c)" by (simp add: user_preds frame_simps)
  then obtain s1 where s1: "mnld_fsm e EVENT_STOP 0 ?c = Inr s1" "state_of s1 = STOPPING" "\<And>c. \<not> used c s1"
      "power_cmds s1 = power_cmds s @ [Gps_stop]" "armed (gps s1) Timer_stop = Some MNLD_GPS_STOP_TIMEOUT"
    using assms by (simp add: fsm_step frame_simps MNLD_GPS_STOP_TIMEOUT_def)
  let ?r = "notify_reboot s1"
  have m: "main_event e Nmea_timeout s = Inr ?r"
    using assms s1(1) by (simp add: nmea_timeout_case_def mnld_is_gps_started_done_def)
  have f: "state_of ?r = STOPPING" "\<And>c. \<not> used c ?r" "power_cmds ?r = power_cmds s1"
    using s1 by (simp_all add: frame_simps)
  then have "\<not> any_user ?r" "is_all_gps_client_exit ?r"
    by (simp_all add: is_a_gps_client_exist_def user_preds)
  then have "\<exists>s''. mnld_fsm e' EVENT_STOP_DONE 0 ?r = Inr s'' \<and> state_of s'' = IDLE \<and> power_cmds s'' = power_cmds ?r"
    using f by (simp add: fsm_step frame_simps)
  then show ?thesis using m f s1 by (simp add: frame_simps)
qed

theorem nmea_timeout_recovers_witness:
  "\<exists>s'. main_event env_default Nmea_timeout (mark_open Hal True (set_state STARTED mnld_boot)) = Inr s' \<and>
     state_of s' = STOPPING \<and> (\<forall>c. \<not> used c s')"
  using nmea_timeout_recovers [of "mark_open Hal True (set_state STARTED mnld_boot)" env_default]
  by (auto simp: mark_open_def frame_simps)

text \<open>The library's callback copies its data into a 1023-byte buffer without a check: it
  overruns the buffer exactly for data longer than 1011 bytes.\<close>

theorem data_callback_overrun:
  assumes "sint len \<le> int (length data)"
  shows "sys_gps_mnl_data2mnld_callback data len = None \<longleftrightarrow> 1011 < sint len"
  using assms by (auto simp: callback_eq)

theorem data_callback_overrun_witness:
  "sys_gps_mnl_data2mnld_callback (replicate 1012 65) 1012 = None \<and>
   sys_gps_mnl_data2mnld_callback (replicate 1012 65) 1011 \<noteq> None"
  using data_callback_overrun [of 1012 "replicate 1012 65"] data_callback_overrun [of 1011 "replicate 1012 65"]
  by simp

end
