(* ===== verification/Gps_Control.thy ===== *)
theory Gps_Control
  imports Main_Event
begin

text \<open>
  The GPS control thread of \<open>gps_controller.c\<close>: the commands the main thread sends it
  (\<open>gps_control_gps_start\<close>, \<open>gps_control_gps_stop\<close>, \<open>gps_control_gps_reset\<close>), the sign of life the
  positioning library sends (\<open>send_active_notify\<close>), its handler \<open>gps_control_event_hdlr\<close>, and the
  choice of the restart type in \<open>mnld_gps_delete_aiding_data\<close>. Starting and stopping the chip
  themselves are calls into the positioning library.
\<close>

section \<open>Commands on the wire\<close>

datatype main2gps_event =
    MAIN2GPS_EVENT_START
  | MAIN2GPS_EVENT_STOP
  | MAIN2GPS_DELETE_AIDING_DATA
  | GPS2GPS_NMEA_DATA_TIMEOUT

fun main2gps_code :: "main2gps_event \<Rightarrow> u32" where
    "main2gps_code MAIN2GPS_EVENT_START = 0"
  | "main2gps_code MAIN2GPS_EVENT_STOP = 1"
  | "main2gps_code MAIN2GPS_DELETE_AIDING_DATA = 2"
  | "main2gps_code GPS2GPS_NMEA_DATA_TIMEOUT = 3"

definition main2gps_of_code :: "u32 \<Rightarrow> main2gps_event option" where
  "main2gps_of_code v = find (\<lambda>c. main2gps_code c = v)
     [MAIN2GPS_EVENT_START, MAIN2GPS_EVENT_STOP, MAIN2GPS_DELETE_AIDING_DATA, GPS2GPS_NMEA_DATA_TIMEOUT]"

definition gps_control_gps_start :: "u32 \<Rightarrow> bytes option" where
  "gps_control_gps_start fl = do {
     b \<leftarrow> put_int (main2gps_code MAIN2GPS_EVENT_START) (new_buff MNLD_INTERNAL_BUFF_SIZE);
     b \<leftarrow> put_int fl b;
     Some (sent b) }"

definition gps_control_gps_stop :: "bytes option" where
  "gps_control_gps_stop = do {
     b \<leftarrow> put_int (main2gps_code MAIN2GPS_EVENT_STOP) (new_buff MNLD_INTERNAL_BUFF_SIZE);
     Some (sent b) }"

definition gps_control_gps_reset :: "u32 \<Rightarrow> bytes option" where
  "gps_control_gps_reset fl = do {
     b \<leftarrow> put_int (main2gps_code MAIN2GPS_DELETE_AIDING_DATA) (new_buff MNLD_INTERNAL_BUFF_SIZE);
     b \<leftarrow> put_int fl b;
     Some (sent b) }"

text \<open>The datagram an effect of the main thread stands for.\<close>

fun gps_cmd_send :: "gps_cmd \<Rightarrow> bytes option" where
    "gps_cmd_send (gps_cmd.Gps_start fl) = gps_control_gps_start fl"
  | "gps_cmd_send gps_cmd.Gps_stop = gps_control_gps_stop"
  | "gps_cmd_send (gps_cmd.Gps_reset fl) = gps_control_gps_reset fl"

text \<open>
  \<open>None\<close> when nothing is sent (the function returns -1), else the datagram. \<open>notify\<close> is whether
  \<open>MNL_NMEA_DISABLE_NOTIFY\<close> is clear in the configuration.
\<close>

definition send_active_notify :: "bool \<Rightarrow> mnld \<Rightarrow> bytes option option" where
  "send_active_notify notify s =
     (if only_offload_users (mtk_gps_get_gps_user s) \<and> offload_active s then None
      else if notify then Some (do {
        b \<leftarrow> put_int (main2gps_code GPS2GPS_NMEA_DATA_TIMEOUT) (new_buff 1024);
        Some (sent b) })
      else None)"

section \<open>The handler\<close>

definition nmea_data_timeout_case :: "env \<Rightarrow> mnld \<Rightarrow> mnld" where
  "nmea_data_timeout_case e s =
     (if only_offload_users (mtk_gps_get_gps_user s) \<and> offload_active s then s
      else mnld_gps_controller_mnl_nmea_timeout e s)"

text \<open>
  What one datagram makes the thread do: the return value, the command it then carries out on
  the chip, and the daemon's state, which it shares.
\<close>

definition gps_control_event_hdlr :: "env \<Rightarrow> bytes option \<Rightarrow> mnld \<Rightarrow> (int \<times> gps_cmd option \<times> mnld) option" where
  "gps_control_event_hdlr e recv s =
     (case recv of
        None \<Rightarrow> Some (- 1, None, s)
      | Some d \<Rightarrow>
          if d = [] then Some (- 1, None, s)
          else do {
            (cmd, b) \<leftarrow> get_int internal_n (recv_buff MNLD_INTERNAL_BUFF_SIZE d);
            (case main2gps_of_code cmd of
               Some MAIN2GPS_EVENT_START \<Rightarrow>
                 do { (fl, b) \<leftarrow> get_int internal_n b; Some (0, Some (gps_cmd.Gps_start fl), s) }
             | Some MAIN2GPS_EVENT_STOP \<Rightarrow> Some (0, Some gps_cmd.Gps_stop, s)
             | Some MAIN2GPS_DELETE_AIDING_DATA \<Rightarrow>
                 do { (fl, b) \<leftarrow> get_int internal_n b; Some (0, Some (gps_cmd.Gps_reset fl), s) }
             | Some GPS2GPS_NMEA_DATA_TIMEOUT \<Rightarrow> Some (0, None, nmea_data_timeout_case e s)
             | None \<Rightarrow> Some (- 1, None, s)) })"

section \<open>Resetting the receiver\<close>

datatype restart_type =
    MTK_GPS_START_HOT
  | MTK_GPS_START_WARM
  | MTK_GPS_START_COLD
  | MTK_GPS_START_FULL
  | MTK_GPS_START_AGPS
  | MTK_GPS_START_D_EPH_ALM
  | MTK_GPS_START_D_TIME

text \<open>
  The chain of comparisons in \<open>mnld_gps_delete_aiding_data\<close>: the restart type, and the flags for
  \<open>mtk_gps_delete_nv_data\<close> when no named combination fits.
\<close>

definition mnld_gps_delete_aiding_data :: "u32 \<Rightarrow> restart_type \<times> u32 option" where
  "mnld_gps_delete_aiding_data fl =
     (if fl = 0 then (MTK_GPS_START_HOT, None)
      else if fl = 0x1 then (MTK_GPS_START_WARM, None)
      else if fl = 0x1 OR 0x4 then (MTK_GPS_START_COLD, None)
      else if fl = 0xFFFF then (MTK_GPS_START_FULL, None)
      else if fl = 0xFFFF AND NOT 0x800 then (MTK_GPS_START_AGPS, None)
      else if fl = 0x1 OR 0x2 then (MTK_GPS_START_D_EPH_ALM, None)
      else if fl = 0x8 then (MTK_GPS_START_D_TIME, None)
      else if fl = 0x400 then (MTK_GPS_START_HOT, None)
      else if fl = 0x1 then (MTK_GPS_START_WARM, None)
      else if fl = 0x1 OR 0x4 OR 0x8 OR 0x10 OR 0x20 OR 0x40 then (MTK_GPS_START_COLD, None)
      else if fl = 0xFFFF then (MTK_GPS_START_FULL, None)
      else if fl = 0x1 OR 0x2 OR 0x4 OR 0x8 OR 0x10 OR 0x20 then (MTK_GPS_START_AGPS, None)
      else (MTK_GPS_START_HOT, Some fl))"

section \<open>Transport\<close>

lemma main2gps_of_code_code [simp]: "main2gps_of_code (main2gps_code c) = Some c"
  by (cases c) (simp_all add: main2gps_of_code_def)

declare main2gps_code.simps [simp del]

lemmas control_wire = gps_control_gps_start_def gps_control_gps_stop_def gps_control_gps_reset_def
  MNLD_INTERNAL_BUFF_SIZE_def coder_simps

lemma gps_cmd_send_eq:
  "gps_cmd_send c = Some (case c of
     gps_cmd.Gps_start fl \<Rightarrow> le32 (main2gps_code MAIN2GPS_EVENT_START) @ le32 fl
   | gps_cmd.Gps_stop \<Rightarrow> le32 (main2gps_code MAIN2GPS_EVENT_STOP)
   | gps_cmd.Gps_reset fl \<Rightarrow> le32 (main2gps_code MAIN2GPS_DELETE_AIDING_DATA) @ le32 fl)"
  by (cases c) (simp_all add: control_wire)

lemma control_hdlr_cmd:
  "map_option (\<lambda>d. gps_control_event_hdlr e (Some d) s) (gps_cmd_send c) = Some (Some (0, Some c, s))"
  by (cases c) (simp_all add: gps_cmd_send_eq gps_control_event_hdlr_def MNLD_INTERNAL_BUFF_SIZE_def coder_simps)

interpretation gps_control: channel gps_cmd_send "\<lambda>d. gps_control_event_hdlr e (Some d) s"
  "\<lambda>c. Some (0, Some c, s)" "\<lambda>_. True" for e s
  by unfold_locales (use control_hdlr_cmd in fastforce)

lemma control_hdlr_alive:
  "gps_control_event_hdlr e (Some (le32 (main2gps_code GPS2GPS_NMEA_DATA_TIMEOUT))) s =
     Some (0, None, nmea_data_timeout_case e s)"
  by (simp add: gps_control_event_hdlr_def MNLD_INTERNAL_BUFF_SIZE_def coder_simps)

lemma send_active_notify_eq:
  "send_active_notify notify s =
     (if only_offload_users (mtk_gps_get_gps_user s) \<and> offload_active s \<or> \<not> notify then None
      else Some (Some (le32 (main2gps_code GPS2GPS_NMEA_DATA_TIMEOUT))))"
  by (simp add: send_active_notify_def coder_simps)

text \<open>C19: the commands the state machine sends to the control thread arrive in order and
  unchanged: the datagrams of any list of start, stop and reset commands make the control thread's
  handler carry out exactly these commands, each with its deletion flags, and leave the daemon's
  state alone.\<close>

theorem gps_control_in_order:
  "\<exists>ds. those (map gps_cmd_send cs) = Some ds \<and>
     map (\<lambda>d. gps_control_event_hdlr e (Some d) s) ds = map (\<lambda>c. Some (0, Some c, s)) cs"
  using gps_control.in_order [of cs e s] by (auto simp: list_all_iff)

text \<open>The NMEA monitor is not restarted behind the offload users' back. When the library
  reports life, either only offload users are left in offload mode and nothing is sent, or a
  datagram is sent that restarts the monitor with its configured period; and if in the meantime the
  users have become offload users only, the datagram that is still in flight changes nothing.\<close>

theorem nmea_monitor_not_restarted:
  "case send_active_notify True s of
     None \<Rightarrow> only_offload_users (mtk_gps_get_gps_user s) \<and> offload_active s
   | Some x \<Rightarrow> \<not> (only_offload_users (mtk_gps_get_gps_user s) \<and> offload_active s) \<and>
       (\<exists>d s'. x = Some d \<and> gps_control_event_hdlr e (Some d) s = Some (0, None, s') \<and>
         (nmea_timer_id e \<noteq> 0 \<longrightarrow> armed (gps s') Timer_nmea_monitor =
            (if nmea_data_time_out e = 0 then None else Some (nmea_data_time_out e))) \<and>
         (\<forall>s2. only_offload_users (mtk_gps_get_gps_user s2) \<and> offload_active s2 \<longrightarrow>
            gps_control_event_hdlr e (Some d) s2 = Some (0, None, s2)))"
  by (simp add: send_active_notify_eq control_hdlr_alive nmea_data_timeout_case_def
      mnld_gps_controller_mnl_nmea_timeout_def frame_simps)

theorem nmea_monitor_not_restarted_witness:
  "case send_active_notify True mnld_boot of None \<Rightarrow> False
   | Some x \<Rightarrow> (\<exists>d s'. x = Some d \<and> gps_control_event_hdlr env_default (Some d) mnld_boot = Some (0, None, s') \<and>
       armed (gps s') Timer_nmea_monitor = Some 10000)"
  using nmea_monitor_not_restarted [of mnld_boot env_default]
  by (auto simp: env_default_def mnld_boot_def cfg_preds split: option.splits)

end
