(* ===== verification/Peer_Hal.thy ===== *)
theory Peer_Hal
  imports Datagram
begin

text \<open>
  What the geofence HAL (\<open>gps/gps_hal/src/gfchal_mnl_interface.c\<close>) and the fused location HAL
  (\<open>gps/flp_hal\<close>) have in common: messages with a type, a length and a payload, sent as one binary
  field of a 1024-byte datagram; a thread that receives such datagrams in one array; and the kernel,
  whose answers to allocations and sends are an argument of every call.
\<close>

section \<open>Batching options\<close>

text \<open>\<open>FlpBatchOptions\<close>, the struct of the platform's header that travels in the commands.\<close>

record batch_options =
  max_power_allocation_mW :: u64
  sources_to_use :: u32
  batch_flags :: u32
  batch_period_ns :: u64

definition no_options :: batch_options where
  "no_options = \<lparr>max_power_allocation_mW = 0, sources_to_use = 0, batch_flags = 0, batch_period_ns = 0\<rparr>"

definition options_bytes :: "batch_options \<Rightarrow> bytes" where
  "options_bytes x = le64 (max_power_allocation_mW x) @ le32 (sources_to_use x) @ le32 (batch_flags x) @ le64 (batch_period_ns x)"

definition bytes_options :: "bytes \<Rightarrow> batch_options" where
  "bytes_options b = \<lparr>max_power_allocation_mW = of_le64 b, sources_to_use = of_le32 (drop 8 b),
     batch_flags = of_le32 (drop 12 b), batch_period_ns = of_le64 (drop 16 b)\<rparr>"

lemma bytes_options_bytes [simp]: "bytes_options (options_bytes x @ r) = x"
  by (simp add: bytes_options_def options_bytes_def)

lemma length_options_bytes [simp]: "length (options_bytes x) = 24"
  by (simp add: options_bytes_def)

section \<open>The kernel\<close>

text \<open>The answers to the allocations and the sends of one call, by their number.\<close>

record hal_os =
  malloc_ok :: "nat \<Rightarrow> bool"
  send_ok :: "nat \<Rightarrow> bool"

definition os_fine :: hal_os where
  "os_fine = \<lparr>malloc_ok = \<lambda>_. True, send_ok = \<lambda>_. True\<rparr>"

lemma kernel_fine [simp]: "malloc_ok os_fine k" "send_ok os_fine k"
  by (simp_all add: os_fine_def)

section \<open>Messages\<close>

definition SYS_FLPD_RESET_NTF :: u32 where "SYS_FLPD_RESET_NTF = 100"
definition HAL_INIT_CMD :: u32 where "HAL_INIT_CMD = 200"
definition GEOFENCE_INJECT_LOC_ENUM :: u32 where "GEOFENCE_INJECT_LOC_ENUM = 600"

lemmas peer_hal_types = SYS_FLPD_RESET_NTF_def HAL_INIT_CMD_def GEOFENCE_INJECT_LOC_ENUM_def

definition HAL_BUFF_SIZE :: nat where
  "HAL_BUFF_SIZE = 1024"

text \<open>\<open>put_binary (buff, &offset, m, length of m)\<close> and what is sent of the buffer.\<close>

definition hal_datagram :: "bytes \<Rightarrow> bytes option" where
  "hal_datagram m = map_option sent (put_binary m (of_nat (length m)) (new_buff HAL_BUFF_SIZE))"

lemma hal_datagram_some [simp]:
  "length m \<le> 1020 \<Longrightarrow> hal_datagram m = Some (le32 (of_nat (length m)) @ m)"
  by (cases "m = []") (simp_all add: hal_datagram_def coder_simps HAL_BUFF_SIZE_def sint_of_nat32)

text \<open>\<open>n\<close> bytes of an array from index \<open>i\<close>.\<close>

definition mem_read :: "bytes \<Rightarrow> nat \<Rightarrow> nat \<Rightarrow> bytes option" where
  "mem_read m i n = (if i + n \<le> length m then Some (take n (drop i m)) else None)"

text \<open>
  A location in the daemon's 32-bit layout (4 bytes size, 2 bytes flags, 2 bytes padding, the rest) as
  a struct of \<open>n\<close> bytes in the 64-bit layout (8 bytes size, 2 bytes flags, 6 bytes padding, the rest).
\<close>

definition rearrange_location :: "nat \<Rightarrow> bytes \<Rightarrow> bytes option" where
  "rearrange_location n loc_in = do {
     flags \<leftarrow> mem_read loc_in 4 2;
     rest \<leftarrow> mem_read loc_in 8 (n - 4 - 4 - 8);
     Some (le64 (of_nat n) @ flags @ replicate 6 0 @ rest) }"

text \<open>The array after a datagram has arrived in it, or after a failed receive.\<close>

definition received :: "bytes option \<Rightarrow> bytes \<Rightarrow> bytes" where
  "received d buff = (case d of None \<Rightarrow> buff
     | Some d \<Rightarrow> take (length buff) d @ drop (length d) buff)"

text \<open>What a handler finds in its array \<open>data[1024]\<close> after \<open>get_binary\<close>.\<close>

lemma hdlr_data:
  assumes "length m \<le> 1020"
  shows "\<exists>b. get_binary (int HAL_BUFF_SIZE) 1024 (replicate 1024 0) (le32 (of_nat (length m)) @ m @ r, 0) =
    Some (int (length m), m @ replicate (1024 - length m) 0, b)"
proof -
  have n: "sint (of_nat (length m) :: u32) = int (length m)" using assms by (intro sint_of_nat32) simp
  have t: "take (nat 1024) m = m" "min (length m) (nat 1024) = length m" using assms by auto
  have "get_binary (int HAL_BUFF_SIZE) 1024 (replicate 1024 0) (cursor [] (le32 (of_nat (length m)) @ m @ r)) =
      Some (int (min (length m) (nat 1024)), take (nat 1024) m @ drop (min (length m) (nat 1024)) (replicate 1024 0),
        cursor ([] @ le32 (of_nat (length m)) @ take (nat 1024) m) (drop (nat 1024) m @ r))"
    by (rule get_binary_cursor [OF n]) (use assms in \<open>auto simp: HAL_BUFF_SIZE_def\<close>)
  then show ?thesis unfolding t drop_replicate by (auto simp: cursor_def)
qed

end
