(* ===== verification/Peer_Control.thy ===== *)
theory Peer_Control
  imports Peer_Requests Peer_Hal "HOL-Library.Signed_Division"
begin

text \<open>
  The daemon's side of the fused location provider and of the geofence service, between their HALs and
  the requests of \<open>Peer_Requests\<close>: the handlers of the HALs' datagrams (\<open>mtk_hal2flp_main_hdlr\<close> of
  \<open>mtk_flp_main.c\<close>, \<open>mtk_hal2gfc_main_hdlr\<close> of \<open>mtk_geofence_main.c\<close>), the controllers of the two when
  they run on the host (\<open>mtk_flp_controller.c\<close>, \<open>mtk_geofence_controller.c\<close>), and what reaches them from
  the positioning library: fixes (\<open>mtk_gps_sys_gps_mnl_callback\<close> of \<open>gps_controller.c\<close>) and the data of
  the offload engine (\<open>mtk_gps_ofl_sys_submit_flp_data\<close>). An access outside an array is \<open>Undefined\<close>. The
  geofence kernel is a library of the vendor: calls into it are effects and its answer
  \<open>update_fence_source ()\<close> is an argument. Allocation is taken to succeed unless the size is negative.
\<close>

section \<open>Messages\<close>

definition MSG_HAL_INIT_CMD :: u32 where "MSG_HAL_INIT_CMD = 200"
definition MSG_HAL_SET_OPTION_CMD :: u32 where "MSG_HAL_SET_OPTION_CMD = 204"
definition MSG_HSB_REPORT_LOC_NTF :: u32 where "MSG_HSB_REPORT_LOC_NTF = 300"
definition MSG_OFL_REPORT_LOC_NTF :: u32 where "MSG_OFL_REPORT_LOC_NTF = 301"
definition MSG_HAL_GEOFENCE_CALLBACK_NTF :: u32 where "MSG_HAL_GEOFENCE_CALLBACK_NTF = 400"
definition MSG_HAL_REQUEST_LOC_NTF :: u32 where "MSG_HAL_REQUEST_LOC_NTF = 401"
definition MSG_HAL_FLUSH_LOC_NTF :: u32 where "MSG_HAL_FLUSH_LOC_NTF = 402"
definition MSG_HAL_REPORT_STATUS_NTF :: u32 where "MSG_HAL_REPORT_STATUS_NTF = 403"
definition MSG_OFL_GEOFENCE_CALLBACK_NTF :: u32 where "MSG_OFL_GEOFENCE_CALLBACK_NTF = 404"
definition MSG_OFL_GEOFENCE_CMD :: u32 where "MSG_OFL_GEOFENCE_CMD = 405"
definition MSG_END :: u32 where "MSG_END = 503"

lemmas hal_msg_types = MSG_HAL_INIT_CMD_def MSG_HAL_START_CMD_def MSG_HAL_STOP_CMD_def MSG_HAL_STOP_RSP_def
  MSG_HAL_SET_OPTION_CMD_def MSG_HAL_DIAG_INJECT_DATA_NTF_def MSG_HSB_REPORT_LOC_NTF_def
  MSG_OFL_REPORT_LOC_NTF_def MSG_HAL_GEOFENCE_CALLBACK_NTF_def MSG_HAL_REQUEST_LOC_NTF_def
  MSG_HAL_FLUSH_LOC_NTF_def MSG_HAL_REPORT_STATUS_NTF_def MSG_OFL_GEOFENCE_CALLBACK_NTF_def
  MSG_OFL_GEOFENCE_CMD_def MSG_DC_START_CMD_def MSG_DC_STOP_CMD_def MSG_CONN_SCREEN_STATUS_def MSG_END_def

definition peer_message :: "u32 \<Rightarrow> bytes \<Rightarrow> bytes" where
  "peer_message t payload = le32 t @ le32 (of_nat (length payload)) @ payload"

lemma peer_message_fields [simp]:
  "cmd_type (peer_message t b @ r) = t" "drop 8 (peer_message t b @ r) = b @ r"
  "length (peer_message t b) = 8 + length b"
  "length b < 2 ^ 31 \<Longrightarrow> cmd_length (peer_message t b @ r) = int (length b)"
  by (simp_all add: cmd_type_def cmd_length_def peer_message_def sint_of_nat32)

lemma reset_ntf_datagram: "hal_datagram (peer_message FLPD_RESET_NTF []) = Some reset_ntf"
  by (simp add: peer_message_def reset_ntf_def)

text \<open>\<open>put_binary (buff, &offset, m, n)\<close> into \<open>buff[1024]\<close>, and \<open>mnl_send2flp\<close> or \<open>mnl_send2gfc\<close>.\<close>

definition put_and_send :: "peer_id \<Rightarrow> bytes \<Rightarrow> u32 \<Rightarrow> cbuf \<Rightarrow> mnld \<Rightarrow> outcome" where
  "put_and_send pid m n b s =
     (case put_binary m n b of None \<Rightarrow> Inl Undefined | Some b \<Rightarrow> Inr (send2peer pid (sent b) s))"

definition send_message :: "peer_id \<Rightarrow> bytes \<Rightarrow> mnld \<Rightarrow> outcome" where
  "send_message pid m s = put_and_send pid m (of_nat (length m)) (new_buff 1024) s"

lemma send_message_eq:
  "length m \<le> 1020 \<Longrightarrow> send_message pid m s = Inr (send2peer pid (le32 (of_nat (length m)) @ m) s)"
  using hal_datagram_some [of m]
  by (auto simp: send_message_def put_and_send_def hal_datagram_def HAL_BUFF_SIZE_def split: option.splits)

section \<open>Locations\<close>

definition sizeof_FLP_LOCATION :: nat where
  "sizeof_FLP_LOCATION = 64"

text \<open>
  The layout of \<open>MTK_FLP_LOCATION_T\<close> in the 32-bit daemon: two bytes of padding after the flags, four
  after the accuracy and at the end. \<open>GpsLocation\<close> is the same without the sources.
\<close>

definition location_bytes :: "flp_location \<Rightarrow> bytes" where
  "location_bytes l = le32 (floc_size l) @ le16 (floc_flags l) @ replicate 2 0 @ le64 (floc_latitude l) @
     le64 (floc_longitude l) @ le64 (floc_altitude l) @ le32 (floc_speed l) @ le32 (floc_bearing l) @
     le32 (floc_accuracy l) @ replicate 4 0 @ le64 (floc_timestamp l) @ le32 (floc_sources l) @ replicate 4 0"

definition bytes_location :: "bytes \<Rightarrow> flp_location" where
  "bytes_location b = \<lparr>floc_size = of_le32 b, floc_flags = of_le16 (drop 4 b), floc_latitude = of_le64 (drop 8 b),
     floc_longitude = of_le64 (drop 16 b), floc_altitude = of_le64 (drop 24 b), floc_speed = of_le32 (drop 32 b),
     floc_bearing = of_le32 (drop 36 b), floc_accuracy = of_le32 (drop 40 b), floc_timestamp = of_le64 (drop 48 b),
     floc_sources = of_le32 (drop 56 b)\<rparr>"

lemma length_location_bytes [simp]: "length (location_bytes l) = 64"
  by (simp add: location_bytes_def)

lemma bytes_location_bytes [simp]: "bytes_location (location_bytes l @ r) = l"
  by (simp add: bytes_location_def location_bytes_def)

definition mtk_flp_gpsloc2flploc :: "env \<Rightarrow> bytes \<Rightarrow> flp_location" where
  "mtk_flp_gpsloc2flploc e gpsloc =
     (let l = bytes_location gpsloc
      in l\<lparr>floc_size := of_nat sizeof_FLP_LOCATION, floc_sources := 1, floc_accuracy := acc_95 e (floc_accuracy l)\<rparr>)"

definition mtk_loc_check :: "env \<Rightarrow> bytes \<Rightarrow> flp_location" where
  "mtk_loc_check e gpsloc =
     (let l = bytes_location gpsloc
      in l\<lparr>floc_size := of_nat sizeof_FLP_LOCATION, floc_sources := 1, floc_accuracy := acc_95 e (floc_accuracy l)\<rparr>)"

definition mtk_flp_dc_loc_rearrange :: "flp_location \<Rightarrow> flp_location" where
  "mtk_flp_dc_loc_rearrange loc_in = \<lparr>floc_size = floc_size loc_in, floc_flags = floc_flags loc_in,
     floc_latitude = floc_latitude loc_in, floc_longitude = floc_longitude loc_in, floc_altitude = floc_altitude loc_in,
     floc_speed = floc_speed loc_in, floc_bearing = floc_bearing loc_in, floc_accuracy = floc_accuracy loc_in,
     floc_timestamp = floc_timestamp loc_in, floc_sources = floc_sources loc_in\<rparr>"

section \<open>The controller of the fused location provider\<close>

definition ONE_SEC_NS :: int where
  "ONE_SEC_NS = 1000000000"

text \<open>\<open>now\<close> is what \<open>mtk_flp_sys_get_time_tick\<close> answers, in seconds.\<close>

definition mtk_flp_controller_check_loc_available_expired :: "u32 \<Rightarrow> mnld \<Rightarrow> outcome" where
  "mtk_flp_controller_check_loc_available_expired now s =
     (let p = peer_of FLP s in
      if batch_mode p = - 1 then Inr s
      else
        let current_available = (if uint now - update_last_time p > period_ns p sdiv ONE_SEC_NS + 1 then 1 else 0)
        in if loc_available p \<noteq> current_available then
             send_message FLP (peer_message MSG_HAL_REPORT_STATUS_NTF (le32 (word_of_int current_available)))
               (set_peer FLP (\<lambda>p. p\<lparr>loc_available := current_available\<rparr>) s)
           else Inr s)"

text \<open>
  The result with the state; the two readings of the clock are in \<open>now\<close> and \<open>later\<close>. What is left out is
  \<open>current_gnss_acc\<close>, which nothing reads.
\<close>

definition mtk_flp_controller_report_loc :: "env \<Rightarrow> flp_location \<Rightarrow> u32 \<Rightarrow> u32 \<Rightarrow> mnld \<Rightarrow> reply" where
  "mtk_flp_controller_report_loc e outloc now later s =
     (if \<not> penabled (peer_of FLP s) then Inr (- 1, s)
      else case mtk_flp_controller_check_loc_available_expired now s of
        Inl c \<Rightarrow> Inl c
      | Inr s \<Rightarrow>
          if acc_no_fix e (floc_accuracy outloc) then Inr (- 1, s)
          else
            let p = peer_of FLP s in
            if update_last_time p = 0 then Inr (0, set_peer FLP (\<lambda>p. p\<lparr>update_last_time := uint later\<rparr>) s)
            else
              let s = (if update_last_time p > uint later then set_peer FLP (\<lambda>p. p\<lparr>update_last_time := 0\<rparr>) s else s)
              in if uint later - update_last_time (peer_of FLP s) \<ge> period_ns p sdiv ONE_SEC_NS
                 then Inr (0, set_peer FLP (\<lambda>p. p\<lparr>update_last_time := uint later\<rparr>) s)
                 else Inr (- 1, s))"

text \<open>The commands \<open>MTK_FLP_MSG_DC_START_CMD\<close> and \<open>MTK_FLP_MSG_DC_STOP_CMD\<close> of a controller.\<close>

definition dc_start_cmd :: "u64 \<Rightarrow> int \<Rightarrow> int \<Rightarrow> bytes" where
  "dc_start_cmd max_power mode period = peer_message MSG_DC_START_CMD (options_bytes
     \<lparr>max_power_allocation_mW = max_power, sources_to_use = 1, batch_flags = word_of_int mode, batch_period_ns = word_of_int period\<rparr>)"

definition dc_stop_cmd :: bytes where
  "dc_stop_cmd = peer_message MSG_DC_STOP_CMD []"

definition mtk_flp_controller_update_option :: "batch_options \<Rightarrow> env \<Rightarrow> mnld \<Rightarrow> outcome" where
  "mtk_flp_controller_update_option option e s =
     (let local_source = running_source (peer_of FLP s); new_source = source_to_use (peer_of FLP s) in
      res_bind
        (if local_source \<noteq> new_source then
           if local_source = 0 \<and> new_source \<ge> 1 then
             let s = set_peer FLP (\<lambda>p. p\<lparr>update_last_time := 0\<rparr>) s; p = peer_of FLP s
             in mtk_flp2mnl_process (dc_start_cmd (max_power_allocation_mW option) (batch_mode p) (period_ns p)) e s
           else if local_source \<ge> 1 \<and> new_source = 0 then mtk_flp2mnl_process dc_stop_cmd e s
           else Inr s
         else Inr s)
        (\<lambda>s. Inr (set_peer FLP (\<lambda>p. p\<lparr>running_source := source_to_use p\<rparr>) s)))"

definition mtk_flp_controller_process :: "bytes \<Rightarrow> env \<Rightarrow> mnld \<Rightarrow> outcome" where
  "mtk_flp_controller_process prmsg e s =
     (let t = cmd_type prmsg; option = bytes_options (drop 8 prmsg) in
      if t = MSG_HAL_START_CMD then
        if cmd_length prmsg \<ge> 24 then
          mtk_flp_controller_update_option option e (set_peer FLP (\<lambda>p. p\<lparr>penabled := True,
            batch_mode := sint (batch_flags option), period_ns := sint (batch_period_ns option),
            source_to_use := sources_to_use option\<rparr>) s)
        else Inr s
      else if t = MSG_HAL_STOP_CMD then
        mtk_flp_controller_update_option no_options e (set_peer FLP (\<lambda>p. p\<lparr>penabled := False, source_to_use := 0\<rparr>) s)
      else if t = MSG_HAL_SET_OPTION_CMD then
        let s = set_peer FLP (\<lambda>p. p\<lparr>penabled := True\<rparr>) s in
        if cmd_length prmsg \<ge> 24 then
          mtk_flp_controller_update_option option e (set_peer FLP (\<lambda>p. p\<lparr>
            period_ns := (if sint (batch_period_ns option) > 0 then sint (batch_period_ns option) else period_ns p),
            batch_mode := sint (batch_flags option), source_to_use := sources_to_use option\<rparr>) s)
        else Inr s
      else Inr s)"

section \<open>Datagrams of the HAL of the fused location provider\<close>

text \<open>\<open>None\<close> is a failed receive. The main loop always hands in the daemon's callbacks.\<close>

definition mtk_hal2flp_main_hdlr :: "bytes option \<Rightarrow> env \<Rightarrow> mnld \<Rightarrow> reply" where
  "mtk_hal2flp_main_hdlr recv e s =
     (if recv = None \<or> recv = Some [] then Inr (- 1, s)
      else
        let s = set_peer FLP (\<lambda>p. p\<lparr>hdlr_cb := True\<rparr>) s
        in case get_binary 1024 1024 (replicate 1024 0) (recv_buff 1024 (the recv)) of
             None \<Rightarrow> Inl Undefined
           | Some (len, prmsg, b) \<Rightarrow>
               if \<not> (0 < len \<and> len \<le> 1024) then Inr (0, s)
               else
                 let t = cmd_type prmsg; ofl = (gModeFlag (peer_of FLP s) = OFL_MODE) in
                 if t = MSG_HAL_INIT_CMD then Inr (0, s)
                 else if t = MSG_HAL_START_CMD \<or> t = MSG_HAL_STOP_CMD \<or> t = MSG_HAL_SET_OPTION_CMD then
                   ret 0 (if ofl then mtk_flp2mnl_process prmsg e s else mtk_flp_controller_process prmsg e s)
                 else if t = MSG_HAL_DIAG_INJECT_DATA_NTF \<or> t = MSG_CONN_SCREEN_STATUS then
                   ret 0 (if ofl then mtk_flp2mnl_process prmsg e s else Inr s)
                 else if t = MSG_HAL_REQUEST_LOC_NTF \<or> t = MSG_HAL_FLUSH_LOC_NTF then
                   ret 0 (if ofl then mtk_flp2mnl_process prmsg e s else put_and_send FLP prmsg 12 b s)
                 else Inr (0, s))"

section \<open>The controller of the geofence service\<close>

definition mtk_gfc_controller_update_option :: "env \<Rightarrow> mnld \<Rightarrow> outcome" where
  "mtk_gfc_controller_update_option e s =
     (let local_source = running_source (peer_of GFC s); new_source = source_to_use (peer_of GFC s) in
      res_bind
        (if local_source \<noteq> new_source then
           if local_source = 0 \<and> new_source = 1 then
             mtk_gfc2mnl_process (dc_start_cmd 0 (batch_mode (peer_of GFC s)) ONE_SEC_NS) e s
           else if local_source = 1 \<and> new_source = 0 then mtk_gfc2mnl_process dc_stop_cmd e s
           else Inr s
         else Inr s)
        (\<lambda>s. Inr (set_peer GFC (\<lambda>p. p\<lparr>running_source := source_to_use p\<rparr>) s)))"

definition GFC_BATCH_ONLY :: int where "GFC_BATCH_ONLY = 3"
definition GFC_ADD :: u32 where "GFC_ADD = 1"
definition GFC_REMOVE :: u32 where "GFC_REMOVE = 4"
definition GFC_RECOVER :: u32 where "GFC_RECOVER = 5"
definition GFC_CLEAR :: u32 where "GFC_CLEAR = 6"

text \<open>\<open>sizeof(MTK_GEOFENCE_PROPERTY_T)\<close>.\<close>

definition sizeof_fence :: nat where
  "sizeof_fence = 72"

text \<open>\<open>source\<close> is the answer of \<open>update_fence_source\<close>.\<close>

definition mtk_gfc_controller_process :: "bytes \<Rightarrow> u32 \<Rightarrow> env \<Rightarrow> mnld \<Rightarrow> outcome" where
  "mtk_gfc_controller_process prmsg source e s =
     (if cmd_type prmsg \<noteq> MSG_OFL_GEOFENCE_CMD then Inr s
      else
        let n = cmd_length prmsg - 8 in
        if n < 0 then Inr s
        else if n < 4 \<or> 8 + n > int (length prmsg) then Inl Undefined
        else
          let m = take (nat n) (drop 8 prmsg); t = cmd_type m;
              s = (if penabled (peer_of GFC s) \<and> batch_mode (peer_of GFC s) > GFC_BATCH_ONLY
                   then set_peer GFC (\<lambda>p. p\<lparr>batch_mode := GFC_BATCH_ONLY\<rparr>) s else s);
              s = emit (Gfc_kernel m) s
          in if t = GFC_ADD \<or> t = GFC_RECOVER then
               if length m < 12 + sizeof_fence then Inl Undefined
               else
                 let s = set_peer GFC (\<lambda>p. p\<lparr>source_to_use := (if in_use p > 0 then source else 1),
                   batch_mode := (if in_use p = 0 then GFC_BATCH_ONLY else batch_mode p)\<rparr>) s
                 in res_bind (mtk_gfc_controller_update_option e s)
                      (\<lambda>s. Inr (set_peer GFC (\<lambda>p. p\<lparr>penabled := True, in_use := in_use p + 1\<rparr>) s))
             else if t = GFC_REMOVE then
               if length m < 12 then Inl Undefined
               else
                 let s = set_peer GFC (\<lambda>p. p\<lparr>in_use := (if in_use p > 0 then in_use p - 1 else in_use p),
                   source_to_use := source\<rparr>) s
                 in res_bind (mtk_gfc_controller_update_option e s)
                      (\<lambda>s. Inr (if in_use (peer_of GFC s) = 0
                         then set_peer GFC (\<lambda>p. p\<lparr>penabled := False, batch_mode := - 1\<rparr>) s else s))
             else if t = GFC_CLEAR then
               res_bind (mtk_gfc_controller_update_option e
                   (set_peer GFC (\<lambda>p. p\<lparr>in_use := 0, penabled := False, source_to_use := 0\<rparr>) s))
                 (\<lambda>s. Inr (set_peer GFC (\<lambda>p. p\<lparr>batch_mode := - 1\<rparr>) s))
             else Inr s)"

definition mtk_hal2gfc_main_hdlr :: "bytes option \<Rightarrow> u32 \<Rightarrow> env \<Rightarrow> mnld \<Rightarrow> reply" where
  "mtk_hal2gfc_main_hdlr recv source e s =
     (if recv = None \<or> recv = Some [] then Inr (- 1, s)
      else
        let s = set_peer GFC (\<lambda>p. p\<lparr>hdlr_cb := True\<rparr>) s; read_len = min 1024 (length (the recv))
        in case get_binary 1024 1024 (replicate 1024 0) (recv_buff 1024 (the recv)) of
             None \<Rightarrow> Inl Undefined
           | Some (len, prmsg, b) \<Rightarrow>
               if \<not> (0 < len \<and> len \<le> 1024) then Inr (- 1, s)
               else
                 let t = cmd_type prmsg; ofl = (gModeFlag (peer_of GFC s) = OFL_MODE) in
                 if t = GEOFENCE_INJECT_LOC_ENUM then
                   ret 0 (put_and_send GFC prmsg (of_nat read_len) (new_buff 1024) s)
                 else if t = MSG_HAL_INIT_CMD then Inr (0, s)
                 else if t = MSG_CONN_SCREEN_STATUS then
                   ret 0 (if ofl then mtk_gfc_ofl2mnl_process prmsg e s else Inr s)
                 else ret 0 (if ofl then mtk_gfc_ofl2mnl_process prmsg e s
                   else mtk_gfc_controller_process prmsg source e s))"

text \<open>A message of the geofence kernel for the HAL.\<close>

definition gfc_kernel_2gfc_hdlr :: "bytes \<Rightarrow> mnld \<Rightarrow> outcome" where
  "gfc_kernel_2gfc_hdlr prmsg s = put_and_send GFC prmsg (8 + of_le32 (drop 4 prmsg)) (new_buff 1024) s"

section \<open>Fixes of the positioning library\<close>

text \<open>The cases \<open>MNLD_FLP_TYPE_HBD_GPS_LOCATION\<close> of \<open>mnl2flp_hdlr\<close> and \<open>mnl2gfc_hdlr\<close>.\<close>

definition on_hbd_gps_location_flp :: "env \<Rightarrow> bytes \<Rightarrow> u32 \<Rightarrow> u32 \<Rightarrow> mnld \<Rightarrow> outcome" where
  "on_hbd_gps_location_flp e gps_loc now later s =
     (let flp_loc = mtk_flp_gpsloc2flploc e gps_loc in
      case mtk_flp_controller_report_loc e flp_loc now later s of
        Inl c \<Rightarrow> Inl c
      | Inr (r, s) \<Rightarrow>
          if r = - 1 then Inr s
          else if batch_mode (peer_of FLP s) > - 1
          then send_message FLP (peer_message MSG_HSB_REPORT_LOC_NTF (location_bytes flp_loc)) s
          else Inr s)"

definition on_hbd_gps_location_gfc :: "env \<Rightarrow> bytes \<Rightarrow> mnld \<Rightarrow> mnld" where
  "on_hbd_gps_location_gfc e gps_loc s =
     (if running_source (peer_of GFC s) = 0 then s
      else
        let flp_loc = mtk_loc_check e gps_loc in
        if penabled (peer_of GFC s) then
          let s = emit Gfc_expire s
          in if acc_no_fix e (floc_accuracy flp_loc) then s else emit (Gfc_set_location flp_loc) s
        else s)"

text \<open>
  The part of \<open>mtk_gps_sys_gps_mnl_callback\<close> that hands a fix to the two: each gets what
  \<open>mtk_gps_flp_get_location\<close> (a function of the library) has put into \<open>playload[600]\<close>, copied into a
  message of 1024 zero bytes.
\<close>

definition hand_out_fix :: "env \<Rightarrow> bytes \<Rightarrow> bytes \<Rightarrow> u32 \<Rightarrow> u32 \<Rightarrow> mnld \<Rightarrow> outcome" where
  "hand_out_fix e flp_playload gfc_playload now later s =
     (let ofl = (mnld_offload_is_auto_mode s \<or> mnld_offload_is_always_on_mode s) in
      res_bind
        (if is_flp_user_exist s \<and> \<not> ofl then
           if length flp_playload > 600 then Inl Undefined
           else on_hbd_gps_location_flp e (flp_playload @ replicate (1012 - length flp_playload) 0) now later s
         else Inr s)
        (\<lambda>s. if is_geofence_user_exist s \<and> \<not> ofl then
           if length gfc_playload > 600 then Inl Undefined
           else Inr (on_hbd_gps_location_gfc e (gfc_playload @ replicate (1012 - length gfc_playload) 0) s)
         else Inr s))"

section \<open>Data of the offload engine\<close>

text \<open>
  The cases \<open>MNLD_FLP_TYPE_OFL_LINK_RECV\<close>: \<open>cnn\<close> is the copy of the \<open>length\<close> bytes after the header of
  the message. The log message of the first reads the length of the message inside.
\<close>

definition on_ofl_link_recv_flp :: "env \<Rightarrow> bytes \<Rightarrow> mnld \<Rightarrow> outcome" where
  "on_ofl_link_recv_flp e cnn s =
     (if length cnn < 8 then Inl Undefined
      else if cmd_type cnn = MSG_HAL_STOP_RSP then on_stop_rsp FLP e s
      else if cmd_type cnn = MSG_OFL_REPORT_LOC_NTF then
        if cmd_length cnn \<ge> int sizeof_FLP_LOCATION then
          if length cnn < 8 + sizeof_FLP_LOCATION then Inl Undefined
          else send_message FLP (peer_message MSG_OFL_REPORT_LOC_NTF
            (location_bytes (mtk_flp_dc_loc_rearrange (bytes_location (drop 8 cnn))))) s
        else Inr s
      else if sint (cmd_type cnn) < sint MSG_END then
        put_and_send FLP cnn (8 + of_le32 (drop 4 cnn)) (new_buff 1024) s
      else Inr s)"

definition on_ofl_link_recv_gfc :: "env \<Rightarrow> bytes \<Rightarrow> mnld \<Rightarrow> outcome" where
  "on_ofl_link_recv_gfc e cnn s =
     (if length cnn < 4 then Inl Undefined
      else if cmd_type cnn = MSG_HAL_STOP_RSP then on_stop_rsp GFC e s
      else if cmd_type cnn = MSG_HAL_GEOFENCE_CALLBACK_NTF \<or> cmd_type cnn = MSG_OFL_GEOFENCE_CALLBACK_NTF then
        if length cnn < 8 then Inl Undefined
        else put_and_send GFC cnn (8 + of_le32 (drop 4 cnn)) (new_buff 1024) s
      else Inr s)"

text \<open>
  The message is built in \<open>buff[1024]\<close>: the header of 12 bytes, then the data if they fit into the
  128 bytes of \<open>MTK_FLP_MNL_MSG_T\<close>; its \<open>length\<close> is the length of the data in any case. The loopback test
  is compiled out, so its branch is never taken.
\<close>

definition mtk_gps_ofl_sys_submit_flp_data :: "env \<Rightarrow> bytes \<Rightarrow> mnld \<Rightarrow> outcome" where
  "mtk_gps_ofl_sys_submit_flp_data e buf s =
     (if buf \<noteq> [] \<and> length buf < 1023 then
        let data = (if length buf < 128 then buf else []) @ replicate (1012 - (if length buf < 128 then length buf else 0)) 0
        in if length buf > length data then Inl Undefined
           else res_bind (on_ofl_link_recv_flp e (take (length buf) data) s)
             (on_ofl_link_recv_gfc e (take (length buf) data))
      else Inr s)"

section \<open>How a datagram is taken\<close>

text \<open>The array of a handler after a HAL's message, and where \<open>get_binary\<close> has left the buffer.\<close>

lemma received_message:
  assumes "length m \<le> 1020"
  shows "get_binary 1024 1024 (replicate 1024 0) (recv_buff 1024 (le32 (of_nat (length m)) @ m)) =
    Some (int (length m), m @ replicate (1024 - length m) 0,
      cursor (le32 (of_nat (length m)) @ m) (replicate (1020 - length m) 0))"
proof -
  have n: "sint (of_nat (length m) :: u32) = int (length m)" using assms by (intro sint_of_nat32) simp
  have b: "recv_buff 1024 (le32 (of_nat (length m)) @ m) =
      cursor [] (le32 (of_nat (length m)) @ m @ replicate (1020 - length m) 0)"
    using assms by (simp add: recv_buff_def cursor_def)
  have "get_binary 1024 1024 (replicate 1024 0) (cursor [] (le32 (of_nat (length m)) @ m @ replicate (1020 - length m) 0)) =
      Some (int (min (length m) (nat 1024)), take (nat 1024) m @ drop (min (length m) (nat 1024)) (replicate 1024 0),
        cursor ([] @ le32 (of_nat (length m)) @ take (nat 1024) m) (drop (nat 1024) m @ replicate (1020 - length m) 0))"
    by (rule get_binary_cursor [OF n]) (use assms in auto)
  then show ?thesis using assms by (simp add: b min_def)
qed

lemma hal2flp_init:
  "mtk_hal2flp_main_hdlr (Some (le32 8 @ peer_message MSG_HAL_INIT_CMD [])) e s =
     Inr (0, set_peer FLP (\<lambda>p. p\<lparr>hdlr_cb := True\<rparr>) s)"
  using received_message [of "peer_message MSG_HAL_INIT_CMD []"]
  by (simp add: mtk_hal2flp_main_hdlr_def Let_def del: set_peer.simps)

end
