(* ===== verification/Daemon.thy ===== *)
theory Daemon
  imports Gps_Control Peer_Control
begin

text \<open>
  The whole daemon: everything that can reach the state machine in \<open>mnld_main_thread\<close> (datagrams
  of the HAL, the AGPS daemon and the internal socket, the HALs of the two peers, what the
  positioning library, the offload engine and the geofence kernel hand to them, timers, test
  clients) as one \<open>stimulus\<close>, the daemon's response to it, and runs from boot. The locale
  \<open>daemon_invariant\<close> says what a predicate has to satisfy to hold throughout every run; the
  invariants of the daemon interpret it.
\<close>

section \<open>Stimuli\<close>

datatype stimulus =
    From_hal hal2mnl_msg
  | From_agps agps2mnl_msg
  | From_main main_msg
  | From_peer peer_id peer_msg
  | From_flp_hal "bytes option"
  | From_gfc_hal "bytes option" u32
  | From_gfc_kernel bytes
  | Fix_ready bytes bytes u32 u32
  | Offload_data bytes
  | Timer_fires timer
  | Main_thread_stuck
  | Library_alive
  | Agent_alarm
  | Flp_test_start
  | Flp_test_stop
  | At_test_start
  | At_test_stop
  | Meta_request u32
  | Meta_cancel u32
  | Debug_request u32
  | Nlp_needed u32

text \<open>
  The callback each timer was created with. The NMEA monitor only posts a message, which comes
  back as \<open>From_main Nmea_timeout\<close>.
\<close>

fun timer_callback :: "env \<Rightarrow> timer \<Rightarrow> mnld \<Rightarrow> outcome" where
    "timer_callback e Timer_start s = mnld_gps_start_timeout e s"
  | "timer_callback e Timer_stop s = mnld_gps_stop_timeout e s"
  | "timer_callback e Timer_reset s = mnld_gps_reset_timeout e s"
  | "timer_callback e Timer_nmea_monitor s = Inr s"
  | "timer_callback e Timer_switch_ofl_mode s = mnld_gps_switch_ofl_mode_timeout e s"

fun daemon :: "env \<Rightarrow> stimulus \<Rightarrow> mnld \<Rightarrow> outcome" where
    "daemon e (From_hal m) s = hal2mnl_interface e m s"
  | "daemon e (From_agps m) s = agps2mnl_interface e m s"
  | "daemon e (From_main m) s = main_event e m s"
  | "daemon e (From_peer pid m) s = ignore_ret (peer2mnl_hdlr pid e m s)"
  | "daemon e (From_flp_hal recv) s = ignore_ret (mtk_hal2flp_main_hdlr recv e s)"
  | "daemon e (From_gfc_hal recv source) s = ignore_ret (mtk_hal2gfc_main_hdlr recv source e s)"
  | "daemon e (From_gfc_kernel prmsg) s = gfc_kernel_2gfc_hdlr prmsg s"
  | "daemon e (Fix_ready flp_loc gfc_loc now later) s = hand_out_fix e flp_loc gfc_loc now later s"
  | "daemon e (Offload_data buf) s = mtk_gps_ofl_sys_submit_flp_data e buf s"
  | "daemon e (Timer_fires t) s = timer_callback e t s"
  | "daemon e Main_thread_stuck s = mnld_main_thread_timeout e s"
  | "daemon e Library_alive s = Inr (nmea_data_timeout_case e s)"
  | "daemon e Agent_alarm s = Inr (alarm_handler s)"
  | "daemon e Flp_test_start s = flp_test2mnl_gps_start e s"
  | "daemon e Flp_test_stop s = flp_test2mnl_gps_stop e s"
  | "daemon e At_test_start s = at_test2mnl_gps_start e s"
  | "daemon e At_test_stop s = at_test2mnl_gps_stop e s"
  | "daemon e (Meta_request source) s = meta_req_gnss_location e source s"
  | "daemon e (Meta_cancel source) s = meta_cancel_gnss_location e source s"
  | "daemon e (Debug_request status) s = Inr (debug_req_mnld_message status s)"
  | "daemon e (Nlp_needed src) s = Inr (mnld_gps_request_nlp src s)"

fun daemon_run :: "(env \<times> stimulus) list \<Rightarrow> mnld \<Rightarrow> outcome" where
    "daemon_run [] s = Inr s"
  | "daemon_run ((e, x) # xs) s = res_bind (daemon e x s) (daemon_run xs)"

text \<open>The daemon on a chip, after \<open>main\<close> has initialised it.\<close>

definition boot :: "string \<Rightarrow> mnld" where
  "boot chip_id = mnld_init (mnld_offload_check_capability chip_id mnld_boot)"

text \<open>The states the daemon can be in.\<close>

inductive reachable :: "string \<Rightarrow> mnld \<Rightarrow> bool" for chip_id where
  booted: "reachable chip_id (boot chip_id)"
| stimulated: "reachable chip_id s \<Longrightarrow> daemon e x s = Inr s' \<Longrightarrow> reachable chip_id s'"

lemma daemon_run_reachable:
  "reachable chip_id s \<Longrightarrow> daemon_run xs s = Inr s' \<Longrightarrow> reachable chip_id s'"
proof (induction xs arbitrary: s)
  case (Cons ex xs)
  obtain e x where ex: "ex = (e, x)" by fastforce
  with Cons.prems(2) obtain s1 where "daemon e x s = Inr s1" "daemon_run xs s1 = Inr s'"
    by (cases "daemon e x s") auto
  then show ?case using Cons.IH [of s1] Cons.prems(1) by (blast intro: stimulated)
qed simp

section \<open>What an invariant may depend on\<close>

text \<open>
  Two states agree on their core when they have the same machine state, users, configuration,
  sessions, session identifiers known to the peers, timers (but for the reset timer and the NMEA
  monitor) and histories of power commands and wakelock requests; \<open>agree_upto_users\<close> leaves out the
  users and the session types.
\<close>

definition agree_upto_users :: "mnld \<Rightarrow> mnld \<Rightarrow> bool" where
  "agree_upto_users s s' \<longleftrightarrow> state_of s' = state_of s \<and> cfg s' = cfg s \<and>
     (\<forall>pid. pre_type (session_of pid s') = pre_type (session_of pid s) \<and>
       sid (session_of pid s') = sid (session_of pid s) \<and>
       gCurrentSession (peer_of pid s') = gCurrentSession (peer_of pid s)) \<and>
     (\<forall>t. t \<noteq> Timer_reset \<and> t \<noteq> Timer_nmea_monitor \<longrightarrow> armed (gps s') t = armed (gps s) t) \<and>
     power_cmds s' = power_cmds s \<and> wakes s' = wakes s"

definition same_core :: "mnld \<Rightarrow> mnld \<Rightarrow> bool" where
  "same_core s s' \<longleftrightarrow> agree_upto_users s s' \<and> (\<forall>c. used c s' = used c s) \<and>
     (\<forall>pid. stype (session_of pid s') = stype (session_of pid s))"

lemma same_core_refl: "same_core s s"
  by (simp add: same_core_def agree_upto_users_def)

lemma same_core_trans: "same_core a b \<Longrightarrow> same_core b c \<Longrightarrow> same_core a c"
  by (simp add: same_core_def agree_upto_users_def)

text \<open>Operations that keep the core, as functions.\<close>

definition core_keeping :: "(mnld \<Rightarrow> mnld) \<Rightarrow> bool" where
  "core_keeping f \<longleftrightarrow> (\<forall>s. same_core s (f s))"

lemma core_keeping_apply: "core_keeping f \<Longrightarrow> same_core a s \<Longrightarrow> same_core a (f s)"
  unfolding core_keeping_def by (blast intro: same_core_trans)

lemma peer_of_updates [frame_simps]:
  "peer_of pid (emit x s) = peer_of pid s" "peer_of pid (set_gps f s) = peer_of pid s"
  "peer_of pid (set_client c g s) = peer_of pid s" "peer_of pid (start_timer t ms s) = peer_of pid s"
  "peer_of pid (stop_timer t s) = peer_of pid s" "peer_of pid (set_state st s) = peer_of pid s"
  "peer_of pid (set_epo h s) = peer_of pid s" "peer_of pid (set_dl k s) = peer_of pid s"
  "peer_of pid (set_session q l s) = peer_of pid s" "peer_of pid (set_stype q v s) = peer_of pid s"
  by (cases pid; cases q; simp add: mnld_updates set_epo_def set_dl_def set_stype_def)+

lemma peer_of_set_peer [frame_simps]:
  "peer_of q (set_peer p f s) = (if p = q then f (peer_of p s) else peer_of q s)"
  by (cases p; cases q) simp_all

lemma core_emit: "power_cmd x = [] \<Longrightarrow> wake_of x = [] \<Longrightarrow> core_keeping (emit x)"
  by (simp add: core_keeping_def same_core_def agree_upto_users_def frame_simps)

lemma core_set_gps:
  "(\<And>g. gps_state (f g) = gps_state g \<and> armed (f g) = armed g \<and> (\<forall>c. gps_used (clients (f g) c) = gps_used (clients g c)))
     \<Longrightarrow> core_keeping (set_gps f)"
  by (simp add: core_keeping_def same_core_def agree_upto_users_def frame_simps)

lemma core_set_client: "(\<And>k. gps_used (f k) = gps_used k) \<Longrightarrow> core_keeping (set_client c f)"
  by (simp add: core_keeping_def same_core_def agree_upto_users_def frame_simps)

lemma core_fields:
  "core_keeping (set_epo f)" "core_keeping (set_dl g)"
  "core_keeping (\<lambda>s. s\<lparr>agps_settings := a s\<rparr>)" "core_keeping (\<lambda>s. s\<lparr>agps_agent := b s\<rparr>)"
  "core_keeping (\<lambda>s. s\<lparr>enable_debug2app := d s\<rparr>)" "core_keeping (\<lambda>s. s\<lparr>in_meta_factory := i s\<rparr>)"
  "core_keeping (\<lambda>s. s\<lparr>mnld_exiting := x s\<rparr>)"
proof -
  note defs = core_keeping_def same_core_def agree_upto_users_def set_epo_def set_dl_def power_cmds_def wakes_def
  have p: "peer_of pid (s\<lparr>agps_settings := a s\<rparr>) = peer_of pid s" "peer_of pid (s\<lparr>agps_agent := b s\<rparr>) = peer_of pid s"
    "peer_of pid (s\<lparr>enable_debug2app := d s\<rparr>) = peer_of pid s" "peer_of pid (s\<lparr>in_meta_factory := i s\<rparr>) = peer_of pid s"
    "peer_of pid (s\<lparr>mnld_exiting := x s\<rparr>) = peer_of pid s" "peer_of pid (s\<lparr>epo := f (epo s)\<rparr>) = peer_of pid s"
    "peer_of pid (s\<lparr>dl := g (dl s)\<rparr>) = peer_of pid s"
    "session_of pid (s\<lparr>agps_settings := a s\<rparr>) = session_of pid s" "session_of pid (s\<lparr>agps_agent := b s\<rparr>) = session_of pid s"
    "session_of pid (s\<lparr>enable_debug2app := d s\<rparr>) = session_of pid s" "session_of pid (s\<lparr>in_meta_factory := i s\<rparr>) = session_of pid s"
    "session_of pid (s\<lparr>mnld_exiting := x s\<rparr>) = session_of pid s" "session_of pid (s\<lparr>epo := f (epo s)\<rparr>) = session_of pid s"
    "session_of pid (s\<lparr>dl := g (dl s)\<rparr>) = session_of pid s" for pid s
    by (cases pid; simp)+
  show "core_keeping (set_epo f)" "core_keeping (set_dl g)"
    "core_keeping (\<lambda>s. s\<lparr>agps_settings := a s\<rparr>)" "core_keeping (\<lambda>s. s\<lparr>agps_agent := b s\<rparr>)"
    "core_keeping (\<lambda>s. s\<lparr>enable_debug2app := d s\<rparr>)" "core_keeping (\<lambda>s. s\<lparr>in_meta_factory := i s\<rparr>)"
    "core_keeping (\<lambda>s. s\<lparr>mnld_exiting := x s\<rparr>)"
    by (simp_all add: defs p)
qed

lemma core_timer: "t = Timer_reset \<or> t = Timer_nmea_monitor \<Longrightarrow> core_keeping (start_timer t ms)"
  "t = Timer_reset \<or> t = Timer_nmea_monitor \<Longrightarrow> core_keeping (stop_timer t)"
  by (auto simp: core_keeping_def same_core_def agree_upto_users_def frame_simps)

lemma core_set_peer: "(\<And>p. gCurrentSession (f p) = gCurrentSession p) \<Longrightarrow> core_keeping (set_peer pid f)"
  using quiet_set_peer [of pid f]
  by (simp add: core_keeping_def same_core_def agree_upto_users_def frame_simps quiet_apply quiet_views)

lemma core_quiet:
  assumes "quiet f" "\<And>s q. gCurrentSession (peer_of q (f s)) = gCurrentSession (peer_of q s)"
  shows "core_keeping f"
  using assms by (simp add: core_keeping_def same_core_def agree_upto_users_def quiet_apply quiet_views)

lemma core_link_send: "core_keeping (link_send_case pid m)"
  by (rule core_quiet [OF quiet_link_send])
    (simp add: link_send_case_def mnld_ofl_link_send_def frame_simps)

lemma core_comp: "core_keeping f \<Longrightarrow> core_keeping g \<Longrightarrow> core_keeping (\<lambda>s. f (g s))"
  unfolding core_keeping_def by (blast intro: same_core_trans)

lemma core_if: "core_keeping f \<Longrightarrow> core_keeping g \<Longrightarrow> core_keeping (\<lambda>s. if P s then f s else g s)"
  by (simp add: core_keeping_def)

lemma core_id: "core_keeping (\<lambda>s. s)"
  by (simp add: core_keeping_def same_core_refl)

lemma core_reset_hdlr: "core_keeping do_gps_reset_hdlr"
  by (simp add: core_keeping_def same_core_def agree_upto_users_def do_gps_reset_hdlr_def frame_simps)

lemma core_peer_ops: "core_keeping (send2peer pid t)" "core_keeping (on_status pid st)"
  "core_keeping (mnld_attach pid)"
proof -
  show st: "core_keeping (on_status pid st)" for pid st
    unfolding on_status_def by (rule core_set_peer) simp
  show "core_keeping (send2peer pid t)"
    using core_emit [of "To_flp_hal t"] core_emit [of "To_gfc_hal t"] by (cases pid) (simp_all add: core_keeping_def)
  show "core_keeping (mnld_attach pid)"
    using st [of GFC STATUS_ATTACH_DONE] by (cases pid) (simp_all add: core_keeping_def mnld_attach_def same_core_refl)
qed

text \<open>The steps of \<open>same_core\<close> towards the state before, as rules for a goal \<open>same_core a (f s)\<close>.\<close>

lemmas core_steps = core_emit [THEN core_keeping_apply] core_set_gps [THEN core_keeping_apply]
  core_set_client [THEN core_keeping_apply] core_fields [THEN core_keeping_apply]
  core_timer [THEN core_keeping_apply] core_set_peer [THEN core_keeping_apply]
  core_link_send [THEN core_keeping_apply] core_reset_hdlr [THEN core_keeping_apply] core_peer_ops [THEN core_keeping_apply] same_core_refl

section \<open>How requests change the users\<close>

definition gains :: "client \<Rightarrow> mnld \<Rightarrow> mnld \<Rightarrow> bool" where
  "gains c s s1 \<longleftrightarrow> agree_upto_users s s1 \<and> used c s1 \<and> (\<forall>d. d \<noteq> c \<longrightarrow> used d s1 = used d s) \<and>
     (\<forall>pid. stype (session_of pid s1) = stype (session_of pid s))"

definition gains_link :: "peer_id \<Rightarrow> mnld \<Rightarrow> mnld \<Rightarrow> bool" where
  "gains_link pid s s1 \<longleftrightarrow> agree_upto_users s s1 \<and> used (client_of_peer pid) s1 \<and>
     (\<forall>d. d \<noteq> client_of_peer pid \<longrightarrow> used d s1 = used d s) \<and>
     (\<forall>q. stype (session_of q s1) = (if q = pid then OFL_MODE else stype (session_of q s)))"

definition loses :: "mnld \<Rightarrow> mnld \<Rightarrow> bool" where
  "loses s s1 \<longleftrightarrow> agree_upto_users s s1 \<and> (\<forall>c. used c s1 \<longrightarrow> used c s) \<and>
     (\<forall>pid. stype (session_of pid s1) = stype (session_of pid s))"

lemmas user_changes = gains_def gains_link_def loses_def same_core_def agree_upto_users_def

lemma gains_core: "gains c s s1 \<Longrightarrow> same_core s1 s2 \<Longrightarrow> gains c s s2"
  by (simp add: user_changes)

lemma loses_core: "loses s s1 \<Longrightarrow> same_core s1 s2 \<Longrightarrow> loses s s2"
  by (simp add: user_changes)

lemma mark_changes:
  "gains c s (mark_open c b s)" "loses s (mark_close c b s)" "loses s (mark_reboot c s)"
  "gains_link pid s (set_stype pid OFL_MODE (mark_open (client_of_peer pid) b s))"
  by (auto simp: user_changes mark_open_def mark_close_def mark_reboot_def set_stype_def frame_simps)

lemma loses_release: "loses s (release_peer c (release_peer d s))"
  by (auto simp: user_changes release_peer_def frame_simps)

lemma loses_clear: "loses s (mtk_gps_clear_gps_user s)"
proof -
  have "peer_of pid (mtk_gps_clear_gps_user s) = peer_of pid s" for pid
    by (simp add: mtk_gps_clear_gps_user_def clear_used_def frame_simps)
  moreover have "wakes (mtk_gps_clear_gps_user s) = wakes s"
    by (simp add: mtk_gps_clear_gps_user_def clear_used_def frame_simps)
  ultimately show ?thesis by (simp add: user_changes frame_simps)
qed

lemma gains_factory: "gains Factory s ((mark_open Factory b s)\<lparr>in_meta_factory := m\<rparr>)"
  "loses s ((mark_close Factory b s)\<lparr>in_meta_factory := m\<rparr>)"
  by (rule gains_core [OF mark_changes(1)] loses_core [OF mark_changes(2)], rule core_steps, rule same_core_refl)+

lemma core_trigger: "same_core s (hal_start_gps_trigger_epo_download e s)"
  by (auto simp: hal_start_gps_trigger_epo_download_def epo_start_def Let_def intro!: core_steps)

lemma res_bindE: "res_bind r f = Inr s' \<Longrightarrow> (\<And>t. r = Inr t \<Longrightarrow> f t = Inr s' \<Longrightarrow> P) \<Longrightarrow> P"
  by (cases r) simp_all

section \<open>Invariants of the daemon\<close>

text \<open>
  A predicate is an invariant of the daemon when it depends on the core only, survives the
  announcement of a session to a peer, and is re-established by each event of the state machine
  from the users that the request with that event leaves.
\<close>

locale daemon_invariant =
  fixes inv :: "mnld \<Rightarrow> bool"
  assumes core: "same_core s s' \<Longrightarrow> inv s \<Longrightarrow> inv s'"
    and announced: "inv s \<Longrightarrow> inv (mnld_session_update pid s)"
    and opened: "inv s \<Longrightarrow> gains c s s1 \<Longrightarrow> mnld_fsm e EVENT_START 0 s1 = Inr s' \<Longrightarrow> inv s'"
    and link_opened: "inv s \<Longrightarrow> gains_link pid s s1 \<Longrightarrow> mnld_fsm e EVENT_OFFLOAD_START 0 s1 = Inr s' \<Longrightarrow> inv s'"
    and closed: "inv s \<Longrightarrow> loses s s1 \<Longrightarrow> mnld_fsm e EVENT_STOP 0 s1 = Inr s' \<Longrightarrow> inv s'"
    and reset: "inv s \<Longrightarrow> mnld_fsm e EVENT_RESET 0 s = Inr s' \<Longrightarrow> inv s'"
    and start_done: "inv s \<Longrightarrow> mnld_fsm e EVENT_START_DONE d s = Inr s' \<Longrightarrow> inv s'"
    and stop_done: "inv s \<Longrightarrow> mnld_fsm e EVENT_STOP_DONE d s = Inr s' \<Longrightarrow> inv s'"
begin

lemma hal_preserves:
  assumes "inv s" "hal2mnl_interface e m s = Inr s'"
  shows "inv s'"
proof (cases m)
  case Gps_start
  have "gains Hal s (hal_start_gps_trigger_epo_download e (mark_open Hal True s))"
    using gains_core [OF mark_changes(1) core_trigger] .
  then show ?thesis using assms Gps_start opened by (simp add: hal_gps_start_def)
next
  case (Gps_delete_aiding_data fl)
  let ?s = "set_gps (\<lambda>g. g\<lparr>delete_aiding_flag := delete_aiding_flag g OR fl\<rparr>)
    (set_client Hal (need_reset_ack_update (\<lambda>_. False)) (emit (To_agps (Agps_delete_aiding_data fl)) s))"
  have "inv ?s" by (rule core [OF _ assms(1)]) (auto intro!: core_steps)
  then show ?thesis using assms(2) reset Gps_delete_aiding_data by (auto simp: hal_gps_delete_aiding_data_def)
next
  case (Gps_inject_location a b c)
  then show ?thesis
    using assms(2) by (auto simp: hal_gps_inject_location_def Let_def split: option.splits if_splits
        intro!: core [OF _ assms(1)] core_steps)
next
  case (Update_network_state a b c d)
  then show ?thesis
    using assms(2) by (auto simp: hal_update_network_state_def epo_start_def Let_def split: if_splits
        intro!: core [OF _ assms(1)] core_steps)
qed (use assms closed [OF assms(1) mark_changes(2)] closed [OF assms(1) mark_changes(3)] in
    \<open>auto simp: hal_reboot_def hal_gps_stop_def hal_gps_init_def hal_gps_cleanup_def hal_gps_inject_time_def
      hal_gps_set_position_mode_def hal_data_conn_open_def hal_data_conn_open_with_apn_ip_type_def
      hal_data_conn_closed_def hal_data_conn_failed_def hal_set_server_def hal_set_ref_location_def
      hal_set_id_def hal_ni_message_def hal_ni_respond_def hal_update_network_availability_def
      hal_set_gps_measurement_def hal_set_gps_navigation_def hal_set_vzw_debug_def
      intro!: core [OF _ assms(1)] core_steps\<close>)

lemma agps_reset_preserves: "inv s \<Longrightarrow> agps_reset_gps_req e fl s = Inr s' \<Longrightarrow> inv s'"
proof -
  assume i: "inv s" and r: "agps_reset_gps_req e fl s = Inr s'"
  let ?s = "set_client Agps (need_reset_ack_update (\<lambda>_. True))
    (set_gps (\<lambda>g. g\<lparr>delete_aiding_flag := delete_aiding_flag g OR fl\<rparr>) s)"
  have "inv ?s" "inv (emit (To_agps Agps_reset_gps_done) s)" by (rule core [OF _ i], auto intro!: core_steps)+
  then show ?thesis using r reset by (auto simp: agps_reset_gps_req_def split: if_splits)
qed

lemma agps_settings_preserves: "inv s \<Longrightarrow> agps_settings_sync e a s = Inr s' \<Longrightarrow> inv s'"
  by (auto simp: agps_settings_sync_def Let_def split: if_splits option.splits elim!: core [rotated] intro!: core_steps)

lemma agps_preserves:
  assumes "inv s" "agps2mnl_interface e m s = Inr s'"
  shows "inv s'"
proof (cases m)
  case (Agps2_open_gps_req i)
  then show ?thesis using assms opened [OF assms(1) mark_changes(1)] by (simp add: agps_open_gps_req_def)
next
  case (Agps2_reset_gps_req fl)
  then show ?thesis using assms agps_reset_preserves by simp
next
  case (Agps2_settings_sync a)
  then show ?thesis using assms agps_settings_preserves by simp
next
  case (Agps2_rcv_lppe k d l)
  then show ?thesis
    using assms(2) by (cases k) (auto simp: agps_rcv_lppe_common_iono_def agps_rcv_lppe_common_trop_def
        agps_rcv_lppe_common_alt_def agps_rcv_lppe_common_solar_def agps_rcv_lppe_common_ccp_def
        agps_rcv_lppe_generic_ccp_def agps_rcv_lppe_generic_dm_def agps_rcv_lppe_def Let_def split: if_splits
        intro!: core [OF _ assms(1)] core_steps)
qed (use assms closed [OF assms(1) mark_changes(2)] closed [OF assms(1) mark_changes(3)] in
    \<open>auto simp: agps_reboot_def agps_close_gps_req_def agps_session_done_def gps_controller_agps_session_done_def
      agent_idle_def agps_ni_notify_def agps_data_conn_req_def agps_data_conn_release_def agps_set_id_req_def
      agps_ref_loc_req_def agps_rcv_pmtk_def gps_controller_rcv_pmtk_def agps_gpevt_def agps_location_def
      agps_ni_notify2_def agps_data_conn_req2_def vzw_debug_screen_output_def Let_def
      split: option.splits prod.splits if_splits intro!: core [OF _ assms(1)] core_steps\<close>)

lemma reboot_preserves: "inv s \<Longrightarrow> inv (notify_reboot s)"
proof -
  have p: "inv (mnl2peer_mnld_reboot pid s)" if "inv s" for pid s
    unfolding mnl2peer_mnld_reboot_def on_bootup_def
    by (rule core [OF _ announced [OF that, of pid]]) (auto intro!: core_steps)
  assume "inv s"
  then have "inv (emit (To_agps Agps_mnl_reboot) (emit (To_hal Mnld_reboot) s))"
    by (auto elim!: core [rotated] intro!: core_steps)
  then show ?thesis unfolding notify_reboot_def by (intro p)
qed

lemma main_preserves:
  assumes "inv s" "main_event e m s = Inr s'"
  shows "inv s'"
proof (cases m)
  case (Start_done v)
  then show ?thesis using assms start_done by simp
next
  case Stop_done
  then show ?thesis using assms stop_done by simp
next
  case Nmea_timeout
  then show ?thesis
    using assms closed [OF assms(1) loses_clear] reboot_preserves
    by (cases "mnld_fsm e EVENT_STOP 0 (mtk_gps_clear_gps_user s)")
       (auto simp: nmea_timeout_case_def split: if_splits)
next
  case (Update_location l)
  then show ?thesis
    using assms(2) by (auto simp: update_location_case_def op01_log_def Let_def split: if_splits
        intro!: core [OF _ assms(1)] core_steps)
qed (use assms(2) in \<open>auto simp: epo_done_case_def dl_done_case_def output_data_case_def Let_def split: if_splits
      intro!: core [OF _ assms(1)] core_steps\<close>)

lemma peer_preserves:
  assumes "inv s" "peer2mnl_hdlr pid e m s = Inr (r, s')"
  shows "inv s'"
proof -
  have attach: "inv (mnld_session_update pid (mnld_attach pid s))"
    by (intro announced core [OF _ assms(1)] core_steps)
  have send: "inv (mnld_ofl_link_send pid m s)"
    by (rule core [OF _ assms(1)]) (auto simp: mnld_ofl_link_send_def intro!: core_steps)
  have ret: "ret 0 x = Inr (r, s') \<Longrightarrow> x = Inr s'" for x by (cases x) simp_all
  show ?thesis
    using assms attach send
      opened [OF assms(1) mark_changes(1)] closed [OF assms(1) mark_changes(2)] link_opened [OF assms(1) mark_changes(4)]
    by (auto simp: peer2mnl_hdlr_def mnld_hbd_gps_open_def mnld_hbd_gps_close_def mnld_ofl_link_open_def
        mnld_ofl_link_close_def split: if_splits dest!: ret)
qed

lemma ignore_ret_preserves: "inv s \<Longrightarrow> ignore_ret (peer2mnl_hdlr pid e m s) = Inr s' \<Longrightarrow> inv s'"
  by (cases "peer2mnl_hdlr pid e m s") (auto dest: peer_preserves)

lemma request_preserves: "inv s \<Longrightarrow> request pid t e (on_status pid st s) = Inr s' \<Longrightarrow> inv s'"
  "inv s \<Longrightarrow> request pid t e s = Inr s' \<Longrightarrow> inv s'"
  unfolding request_def
  by (rule ignore_ret_preserves [of "on_status pid st s"] ignore_ret_preserves;
      auto simp: on_status_def elim!: core [rotated] intro!: core_steps)+

lemma send_link_preserves: "inv s \<Longrightarrow> send_link pid b e s = Inr s' \<Longrightarrow> inv s'"
  by (auto simp: send_link_def split: option.splits dest: ignore_ret_preserves)

lemma keep_msg_preserves: "inv s \<Longrightarrow> keep_msg pid b s = Inr s' \<Longrightarrow> inv s'"
  by (auto simp: keep_msg_def split: option.splits if_splits elim!: core [rotated] intro!: core_steps)

lemma open_link_preserves: "inv s \<Longrightarrow> open_link_and_keep pid b e s = Inr s' \<Longrightarrow> inv s'"
  by (cases "request pid MNLD_OFL_LINK_OPEN e (on_status pid STATUS_OFL_LINK_OPEN s)")
    (auto simp: open_link_and_keep_def split: if_splits dest: request_preserves intro: keep_msg_preserves)

lemma stop_rsp_preserves: "inv s \<Longrightarrow> on_stop_rsp pid e s = Inr s' \<Longrightarrow> inv s'"
  by (cases "request pid MNLD_OFL_LINK_CLOSE e s")
    (auto simp: on_stop_rsp_def intro!: core [OF core_peer_ops(2) [THEN core_keeping_apply, OF same_core_refl]]
      dest: request_preserves(2))

lemma timeout_preserves: "inv s \<Longrightarrow> timeout_exit e s = Inr s' \<Longrightarrow> inv s'"
  by (auto simp: timeout_exit_def split: if_splits elim!: core [rotated] intro!: core_steps)

lemma timer_preserves: "inv s \<Longrightarrow> timer_callback e t s = Inr s' \<Longrightarrow> inv s'"
  by (cases t) (auto simp: mnld_gps_start_timeout_def mnld_gps_stop_timeout_def mnld_gps_reset_timeout_def
      mnld_gps_switch_ofl_mode_timeout_def split: if_splits dest: timeout_preserves closed [OF _ loses_release])

lemma misc_preserves:
  "inv s \<Longrightarrow> inv (nmea_data_timeout_case e s)" "inv s \<Longrightarrow> inv (alarm_handler s)"
  "inv s \<Longrightarrow> inv (debug_req_mnld_message v s)" "inv s \<Longrightarrow> inv (mnld_gps_request_nlp v s)"
  by (auto simp: nmea_data_timeout_case_def mnld_gps_controller_mnl_nmea_timeout_def alarm_handler_def
      agent_idle_def debug_req_mnld_message_def mnld_gps_request_nlp_def Let_def
      elim!: core [rotated] intro!: core_steps)

lemma client_preserves:
  "inv s \<Longrightarrow> flp_test2mnl_gps_start e s = Inr s' \<Longrightarrow> inv s'" "inv s \<Longrightarrow> flp_test2mnl_gps_stop e s = Inr s' \<Longrightarrow> inv s'"
  "inv s \<Longrightarrow> at_test2mnl_gps_start e s = Inr s' \<Longrightarrow> inv s'" "inv s \<Longrightarrow> at_test2mnl_gps_stop e s = Inr s' \<Longrightarrow> inv s'"
  "inv s \<Longrightarrow> factory_mnld_gps_start e s = Inr s' \<Longrightarrow> inv s'" "inv s \<Longrightarrow> factory_mnld_gps_stop e s = Inr s' \<Longrightarrow> inv s'"
  by (auto simp: flp_test2mnl_gps_start_def flp_test2mnl_gps_stop_def at_test2mnl_gps_start_def
      at_test2mnl_gps_stop_def factory_mnld_gps_start_def factory_mnld_gps_stop_def
      dest: opened [OF _ mark_changes(1)] closed [OF _ mark_changes(2)] opened [OF _ gains_factory(1)]
        closed [OF _ gains_factory(2)])

lemma flp_command_preserves: "inv s \<Longrightarrow> mtk_flp2mnl_process b e s = Inr s' \<Longrightarrow> inv s'"
  by (auto simp: mtk_flp2mnl_process_def Let_def split: if_splits
      dest: open_link_preserves ignore_ret_preserves request_preserves send_link_preserves)

lemma gfc_command_preserves:
  "inv s \<Longrightarrow> mtk_gfc2mnl_process b e s = Inr s' \<Longrightarrow> inv s'"
  "inv s \<Longrightarrow> mtk_gfc_ofl2mnl_process b e s = Inr s' \<Longrightarrow> inv s'"
  by (auto simp: mtk_gfc2mnl_process_def mtk_gfc_ofl2mnl_process_def Let_def split: if_splits
      dest: open_link_preserves request_preserves send_link_preserves)

lemma update_peer_preserves: "inv s \<Longrightarrow> (\<And>p. gCurrentSession (f p) = gCurrentSession p) \<Longrightarrow> inv (set_peer pid f s)"
  by (erule core [rotated]) (intro core_steps)

lemma peer_field_preserves:
  "inv s \<Longrightarrow> gCurrentSession q = gCurrentSession (flp_peer s) \<Longrightarrow> inv (s\<lparr>flp_peer := q\<rparr>)"
  "inv s \<Longrightarrow> gCurrentSession q = gCurrentSession (gfc_peer s) \<Longrightarrow> inv (s\<lparr>gfc_peer := q\<rparr>)"
  using update_peer_preserves [of s "\<lambda>p. q\<lparr>gCurrentSession := gCurrentSession p\<rparr>" FLP]
    update_peer_preserves [of s "\<lambda>p. q\<lparr>gCurrentSession := gCurrentSession p\<rparr>" GFC]
  by (cases q; simp)+

lemma put_and_send_preserves: "inv s \<Longrightarrow> put_and_send pid m n b s = Inr s' \<Longrightarrow> inv s'"
  by (auto simp: put_and_send_def split: option.splits elim!: core [rotated] intro!: core_steps)

lemma send_message_preserves: "inv s \<Longrightarrow> send_message pid m s = Inr s' \<Longrightarrow> inv s'"
  unfolding send_message_def by (rule put_and_send_preserves)

lemma expired_preserves: "inv s \<Longrightarrow> mtk_flp_controller_check_loc_available_expired now s = Inr s' \<Longrightarrow> inv s'"
  by (auto simp: mtk_flp_controller_check_loc_available_expired_def Let_def split: if_splits
      elim!: send_message_preserves [rotated] intro!: peer_field_preserves)

lemma report_loc_preserves: "inv s \<Longrightarrow> mtk_flp_controller_report_loc e l now later s = Inr (r, s') \<Longrightarrow> inv s'"
  using expired_preserves [of s now]
  by (cases "mtk_flp_controller_check_loc_available_expired now s")
    (auto simp: mtk_flp_controller_report_loc_def Let_def split: if_splits intro!: peer_field_preserves)

lemma then_update_preserves:
  "res_bind r (\<lambda>s. Inr (set_peer pid f s)) = Inr s' \<Longrightarrow> (\<And>s. r = Inr s \<Longrightarrow> inv s) \<Longrightarrow>
     (\<And>p. gCurrentSession (f p) = gCurrentSession p) \<Longrightarrow> inv s'"
  by (cases r) (auto intro: update_peer_preserves)

lemma flp_update_preserves: "inv s \<Longrightarrow> mtk_flp_controller_update_option x e s = Inr s' \<Longrightarrow> inv s'"
  unfolding mtk_flp_controller_update_option_def Let_def
  by (erule then_update_preserves)
    (auto split: if_splits elim!: flp_command_preserves [rotated] intro!: peer_field_preserves(1))

lemma flp_process_preserves: "inv s \<Longrightarrow> mtk_flp_controller_process m e s = Inr s' \<Longrightarrow> inv s'"
  by (auto simp: mtk_flp_controller_process_def Let_def split: if_splits
      elim!: flp_update_preserves [rotated] intro!: peer_field_preserves)

lemma gfc_update_preserves: "inv s \<Longrightarrow> mtk_gfc_controller_update_option e s = Inr s' \<Longrightarrow> inv s'"
  unfolding mtk_gfc_controller_update_option_def Let_def
  by (erule then_update_preserves) (auto split: if_splits dest: gfc_command_preserves(1) [rotated] intro: peer_field_preserves)

lemma emit_preserves: "is_peer_effect x \<Longrightarrow> inv s \<Longrightarrow> inv (emit x s)"
  by (erule core [rotated]) (auto dest: peer_effect_view intro!: core_steps)

lemma gfc_process_preserves:
  assumes "inv s" "mtk_gfc_controller_process m source e s = Inr s'"
  shows "inv s'"
proof -
  define s1 where "s1 = (if penabled (peer_of GFC s) \<and> batch_mode (peer_of GFC s) > GFC_BATCH_ONLY
    then set_peer GFC (\<lambda>p. p\<lparr>batch_mode := GFC_BATCH_ONLY\<rparr>) s else s)"
  have "inv s1" unfolding s1_def using assms(1) by (auto intro: peer_field_preserves)
  then have "inv (emit (Gfc_kernel k) s1)" for k by (rule emit_preserves [rotated]) simp
  then have u: "mtk_gfc_controller_update_option e (set_peer GFC f (emit (Gfc_kernel k) s1)) = Inr s2 \<Longrightarrow>
      (\<And>p. gCurrentSession (f p) = gCurrentSession p) \<Longrightarrow> inv s2" for f k s2
    by (rule gfc_update_preserves [OF update_peer_preserves])
  have "res_bind r (\<lambda>s. Inr (g s)) = Inr s' \<Longrightarrow> (\<And>s2. r = Inr s2 \<Longrightarrow> inv s2) \<Longrightarrow> (\<And>s. inv s \<Longrightarrow> inv (g s)) \<Longrightarrow> inv s'" for r g
    by (cases r) auto
  note then_keep = this
  show ?thesis
    using assms u \<open>\<And>k. inv (emit (Gfc_kernel k) s1)\<close>
    unfolding mtk_gfc_controller_process_def Let_def s1_def [symmetric]
    by (auto simp del: set_peer.simps split: if_splits intro!: update_peer_preserves elim!: then_keep)
qed

lemma ret_preserves: "ret r x = Inr (r', s') \<Longrightarrow> (\<And>s. x = Inr s \<Longrightarrow> inv s) \<Longrightarrow> inv s'"
  by (cases x) auto

lemma flp_hal_preserves: "inv s \<Longrightarrow> mtk_hal2flp_main_hdlr recv e s = Inr (r, s') \<Longrightarrow> inv s'"
proof -
  assume "inv s" and h: "mtk_hal2flp_main_hdlr recv e s = Inr (r, s')"
  define s1 where "s1 = set_peer FLP (\<lambda>p. p\<lparr>hdlr_cb := True\<rparr>) s"
  have "inv s1" unfolding s1_def by (rule update_peer_preserves [OF \<open>inv s\<close>]) simp
  then show ?thesis
    using \<open>inv s\<close> h unfolding mtk_hal2flp_main_hdlr_def Let_def s1_def [symmetric]
    by (auto split: if_splits option.splits prod.splits elim!: ret_preserves
        dest: flp_command_preserves flp_process_preserves put_and_send_preserves)
qed

lemma gfc_hal_preserves: "inv s \<Longrightarrow> mtk_hal2gfc_main_hdlr recv source e s = Inr (r, s') \<Longrightarrow> inv s'"
proof -
  assume "inv s" and h: "mtk_hal2gfc_main_hdlr recv source e s = Inr (r, s')"
  define s1 where "s1 = set_peer GFC (\<lambda>p. p\<lparr>hdlr_cb := True\<rparr>) s"
  have "inv s1" unfolding s1_def by (rule update_peer_preserves [OF \<open>inv s\<close>]) simp
  then show ?thesis
    using \<open>inv s\<close> h unfolding mtk_hal2gfc_main_hdlr_def Let_def s1_def [symmetric]
    by (auto split: if_splits option.splits prod.splits elim!: ret_preserves
        dest: gfc_command_preserves(2) gfc_process_preserves put_and_send_preserves)
qed

lemma location_preserves:
  assumes "inv s" "on_hbd_gps_location_flp e l now later s = Inr s'"
  shows "inv s'"
proof -
  obtain r t where t: "mtk_flp_controller_report_loc e (mtk_flp_gpsloc2flploc e l) now later s = Inr (r, t)"
    using assms(2) by (auto simp: on_hbd_gps_location_flp_def Let_def split: sum.splits)
  then have "inv t" by (rule report_loc_preserves [OF assms(1)])
  then show ?thesis
    using assms(2) t by (auto simp: on_hbd_gps_location_flp_def Let_def split: if_splits elim: send_message_preserves)
qed

lemma location_gfc_preserves: "inv s \<Longrightarrow> inv (on_hbd_gps_location_gfc e l s)"
  by (simp add: on_hbd_gps_location_gfc_def Let_def emit_preserves)

lemma fix_preserves: "inv s \<Longrightarrow> hand_out_fix e a b now later s = Inr s' \<Longrightarrow> inv s'"
  unfolding hand_out_fix_def Let_def
  by (erule res_bindE) (auto split: if_splits intro!: location_gfc_preserves elim: location_preserves [rotated])

lemma link_recv_preserves:
  "on_ofl_link_recv_flp e m s = Inr s' \<Longrightarrow> inv s \<Longrightarrow> inv s'"
  "on_ofl_link_recv_gfc e m s = Inr s' \<Longrightarrow> inv s \<Longrightarrow> inv s'"
  unfolding on_ofl_link_recv_flp_def on_ofl_link_recv_gfc_def
  by (auto split: if_splits elim: stop_rsp_preserves [rotated] send_message_preserves [rotated] put_and_send_preserves [rotated])

lemma offload_preserves: "inv s \<Longrightarrow> mtk_gps_ofl_sys_submit_flp_data e b s = Inr s' \<Longrightarrow> inv s'"
  unfolding mtk_gps_ofl_sys_submit_flp_data_def Let_def
  by (auto split: if_splits elim!: res_bindE elim: link_recv_preserves)

lemma peer_hal_preserves:
  "inv s \<Longrightarrow> ignore_ret (mtk_hal2flp_main_hdlr recv e s) = Inr s' \<Longrightarrow> inv s'"
  "inv s \<Longrightarrow> ignore_ret (mtk_hal2gfc_main_hdlr recv source e s) = Inr s' \<Longrightarrow> inv s'"
  "inv s \<Longrightarrow> gfc_kernel_2gfc_hdlr m s = Inr s' \<Longrightarrow> inv s'"
  by (cases "mtk_hal2flp_main_hdlr recv e s"; cases "mtk_hal2gfc_main_hdlr recv source e s";
      auto dest: flp_hal_preserves gfc_hal_preserves put_and_send_preserves simp: gfc_kernel_2gfc_hdlr_def)+

lemma daemon_preserves:
  assumes "inv s" "daemon e x s = Inr s'"
  shows "inv s'"
  using assms
  by (cases x) (auto simp: mnld_main_thread_timeout_def meta_req_gnss_location_def meta_cancel_gnss_location_def
      dest: hal_preserves agps_preserves main_preserves ignore_ret_preserves peer_hal_preserves fix_preserves
        offload_preserves timer_preserves timeout_preserves client_preserves
      intro: misc_preserves)

lemma boot_inv: "inv (mnld_offload_check_capability chip_id mnld_boot) \<Longrightarrow> inv (boot chip_id)"
  unfolding boot_def mnld_init_def by (rule reboot_preserves)

lemma reachable_inv: "reachable chip_id s \<Longrightarrow> inv (boot chip_id) \<Longrightarrow> inv s"
  by (induction rule: reachable.induct) (auto intro: daemon_preserves)

end

end
