(* ===== verification/Invariants.thy ===== *)
theory Invariants
  imports Daemon
begin

text \<open>
  The invariants of the daemon, each an interpretation of \<open>daemon_invariant\<close>: the start and stop
  timers run only while the control thread owes an answer, every peer knows the identifier of its
  current session, the framework wakelock is held exactly while the receiver is not idle, and the
  receiver is on exactly for somebody.
\<close>

section \<open>Invariants that do not look at the users\<close>

locale user_blind_invariant =
  fixes inv :: "mnld \<Rightarrow> bool"
  assumes agree: "agree_upto_users s s' \<Longrightarrow> inv s \<Longrightarrow> inv s'"
    and announce: "inv s \<Longrightarrow> inv (mnld_session_update pid s)"
    and fsm: "inv s \<Longrightarrow> mnld_fsm e ev d s = Inr s' \<Longrightarrow> inv s'"

sublocale user_blind_invariant \<subseteq> daemon_invariant inv
proof
  fix s s' :: mnld
  show "same_core s s' \<Longrightarrow> inv s \<Longrightarrow> inv s'" using agree unfolding same_core_def by blast
next
  fix s s1 s' :: mnld and c e
  show "inv s \<Longrightarrow> gains c s s1 \<Longrightarrow> mnld_fsm e EVENT_START 0 s1 = Inr s' \<Longrightarrow> inv s'"
    using agree fsm unfolding gains_def by blast
next
  fix s s1 s' :: mnld and pid e
  show "inv s \<Longrightarrow> gains_link pid s s1 \<Longrightarrow> mnld_fsm e EVENT_OFFLOAD_START 0 s1 = Inr s' \<Longrightarrow> inv s'"
    using agree fsm unfolding gains_link_def by blast
next
  fix s s1 s' :: mnld and e
  show "inv s \<Longrightarrow> loses s s1 \<Longrightarrow> mnld_fsm e EVENT_STOP 0 s1 = Inr s' \<Longrightarrow> inv s'"
    using agree fsm unfolding loses_def by blast
qed (use announce fsm in blast)+

section \<open>Timers\<close>

definition timers_inv :: "mnld \<Rightarrow> bool" where
  "timers_inv s \<longleftrightarrow>
     (armed (gps s) Timer_stop \<noteq> None \<longleftrightarrow> state_of s = STOPPING \<or> state_of s = OFL_STOPPING) \<and>
     (armed (gps s) Timer_start \<noteq> None \<longrightarrow> state_of s = STARTING \<or> state_of s = OFL_STARTING)"

lemma timers_fsm: "timers_inv s \<Longrightarrow> mnld_fsm e ev d s = Inr s' \<Longrightarrow> timers_inv s'"
  by (cases "state_of s"; cases ev)
    (auto simp: fsm_step timers_inv_def frame_simps MNLD_GPS_STOP_TIMEOUT_def split: if_splits)

interpretation timers: user_blind_invariant timers_inv
proof
  fix s s' :: mnld
  show "agree_upto_users s s' \<Longrightarrow> timers_inv s \<Longrightarrow> timers_inv s'"
    by (simp add: agree_upto_users_def timers_inv_def)
next
  fix s :: mnld and pid
  show "timers_inv s \<Longrightarrow> timers_inv (mnld_session_update pid s)" by (simp add: timers_inv_def frame_simps)
qed (rule timers_fsm)

section \<open>Sessions\<close>

definition in_sync :: "mnld \<Rightarrow> bool" where
  "in_sync s \<longleftrightarrow> (\<forall>pid. gCurrentSession (peer_of pid s) = sid (session_of pid s))"

lemma core_in_sync: "core_keeping f \<Longrightarrow> in_sync s \<Longrightarrow> in_sync (f s)"
  by (simp add: core_keeping_def same_core_def agree_upto_users_def in_sync_def)

lemma on_session_update_peer:
  "gCurrentSession (peer_of q (on_session_update pid i t s)) = (if q = pid then i else gCurrentSession (peer_of q s))"
proof -
  have r: "gCurrentSession (peer_of q (controller_reset_status p s)) = gCurrentSession (peer_of q s)" for p q s
    by (cases p; cases q; simp add: emit_def)
  have m: "gCurrentSession (set_sys_mode v x) = gCurrentSession x" for v x by (simp add: set_sys_mode_def)
  have p: "peer_of q (send2peer p v s) = peer_of q s" for p q v s by (cases p) (simp_all add: frame_simps)
  show ?thesis by (auto simp: on_session_update_def Let_def frame_simps r m p)
qed

lemma in_sync_announce: "in_sync s \<Longrightarrow> in_sync (mnld_session_update pid s)"
  by (simp add: in_sync_def mnld_session_update_def on_session_update_peer
      quiet_on_session_update [THEN quiet_apply(6)])

lemma in_sync_switch: "in_sync s \<Longrightarrow> in_sync (session_switch pid s)"
  by (auto simp: session_switch_def Let_def in_sync_def mnld_session_update_def on_session_update_peer
      quiet_on_session_update [THEN quiet_apply(6)] mnld_gen_new_session_def frame_simps)

text \<open>What the blocks of the machine do to the session identifiers the peers know.\<close>

definition known :: "mnld \<Rightarrow> peer_id \<Rightarrow> u32" where
  "known s q = gCurrentSession (peer_of q s)"

lemma known_updates [frame_simps]:
  "known (emit x s) = known s" "known (set_gps f s) = known s" "known (set_client c g s) = known s"
  "known (start_timer t ms s) = known s" "known (stop_timer t s) = known s" "known (set_state st s) = known s"
  "known (set_session q l s) = known s" "known (set_stype q v s) = known s" "known (on_status q w s) = known s"
  by (auto simp: known_def fun_eq_iff frame_simps on_status_def)

lemma known_fold: "known (fold (link_send_case pid) ms s) = known s"
  by (induction ms arbitrary: s) (simp_all add: link_send_case_def mnld_ofl_link_send_def frame_simps)

lemma known_link_open: "known (on_ofl_link_open_done pid s) = known s"
proof -
  have "known (set_peer pid f x) = known x" if "\<And>p. gCurrentSession (f p) = gCurrentSession p" for f x
    by (simp add: known_def fun_eq_iff frame_simps that)
  then show ?thesis by (simp add: on_ofl_link_open_done_def Let_def known_fold)
qed

lemma known_replies [frame_simps]:
  "known (peer_open_reply pid si s) = known s" "known (peer_close_reply pid s) = known s"
  "known (do_gps_reset_hdlr s) = known s" "known (reset_if_flagged s) = known s"
  by (simp_all add: peer_open_reply_def peer_close_reply_def mnld_ofl_gps_open_done_def mnld_hbd_gps_open_done_def
      mnld_ofl_gps_close_done_def mnld_hbd_gps_close_done_def do_gps_reset_hdlr_def reset_if_flagged_def
      known_link_open Let_def frame_simps)

lemma known_ack:
  "(\<And>s. known (reply s) = known s) \<Longrightarrow> known (ack_open c reply s) = known s"
  "(\<And>s. known (reply s) = known s) \<Longrightarrow> known (ack_close c reply s) = known s"
  by (simp_all add: ack_open_def ack_close_def frame_simps)

lemma known_hdlrs [frame_simps]:
  "known (do_gps_started_hdlr si s) = known s" "known (do_gps_stopped_hdlr s) = known s"
  by (simp_all add: do_gps_started_hdlr_stages do_gps_stopped_hdlr_stages known_ack frame_simps)

lemma known_blocks [frame_simps]:
  "known (control_start s) = known s" "known (leave_idle e st s) = known s" "known (enter_stopping st s) = known s"
  "known (restart e st s) = known s" "known (enter_idle e s) = known s" "known (release_peer c s) = known s"
  by (simp_all add: control_start_def leave_idle_def enter_stopping_def restart_def enter_idle_def
      release_peer_def op01_log_def Let_def frame_simps)

lemma known_update_downloads [frame_simps]: "known (update_downloads s) = known s"
proof -
  have "peer_of q (s\<lparr>dl := x\<rparr>) = peer_of q s" for q x s by (cases q) simp_all
  then have "known (s\<lparr>dl := x\<rparr>) = known s" for x s by (simp add: known_def fun_eq_iff)
  then show ?thesis by (simp add: update_downloads_def Let_def frame_simps)
qed

lemma known_fsm_enter [frame_simps]: "known (fsm_enter e s) = known s"
proof -
  have p: "flp_peer (fsm_enter e s) = flp_peer s" "gfc_peer (fsm_enter e s) = gfc_peer s"
    by (simp_all add: fsm_enter_def offload_users_changed_def Let_def mnld_gps_stop_nmea_monitor_def
      mnld_gps_start_nmea_monitor_def gps_control_kernel_wakelock_give_def gps_control_kernel_wakelock_take_def mnld_updates)
  then have "peer_of q (fsm_enter e s) = peer_of q s" for q by (cases q) simp_all
  then show ?thesis by (simp add: known_def fun_eq_iff)
qed

lemma in_sync_known: "in_sync s \<longleftrightarrow> (\<forall>pid. known s pid = sid (session_of pid s))"
  by (simp add: in_sync_def known_def)

lemma in_sync_cong:
  "known s' = known s \<Longrightarrow> (\<And>pid. sid (session_of pid s') = sid (session_of pid s)) \<Longrightarrow> in_sync s \<Longrightarrow> in_sync s'"
  by (simp add: in_sync_known)

lemma in_sync_stype: "in_sync s \<Longrightarrow> in_sync (set_stype pid t s)"
  by (rule in_sync_cong [of _ s]) (simp_all add: set_stype_def frame_simps)

lemma in_sync_switch_both: "in_sync s \<Longrightarrow> in_sync (switch_both t s)"
  unfolding switch_both_def by (intro in_sync_switch in_sync_stype)

lemma sid_of_calm: "calm f \<Longrightarrow> session_of pid (f s) = session_of pid s"
  by (cases pid) (simp_all add: calm_apply)

lemma in_sync_started: "in_sync s \<Longrightarrow> in_sync (enter_started s)"
proof -
  assume i: "in_sync s"
  let ?s = "update_downloads (set_state STARTED s)"
  have "in_sync ?s"
    by (rule in_sync_cong [OF _ _ i]) (simp_all add: sid_of_calm [OF calm_update_downloads] frame_simps)
  moreover from this have "in_sync (start_timer Timer_switch_ofl_mode k
      (set_session GFC (\<lambda>x. x\<lparr>stype := AP_MODE, pre_type := AP_MODE\<rparr>)
        (set_session FLP (\<lambda>x. x\<lparr>stype := AP_MODE, pre_type := AP_MODE\<rparr>) ?s)))" for k
    by (rule in_sync_cong [rotated 2]) (simp_all del: set_session.simps add: frame_simps)
  ultimately show ?thesis
    unfolding enter_started_def Let_def by (auto intro!: in_sync_switch in_sync_stype)
qed

lemma in_sync_leave: "in_sync s \<Longrightarrow> in_sync (leave_idle e st (fsm_enter e s))"
  by (erule in_sync_cong [rotated 2]) (simp_all add: frame_simps)

lemma in_sync_fsm: "in_sync s \<Longrightarrow> mnld_fsm e ev d s = Inr s' \<Longrightarrow> in_sync s'"
  by (cases "state_of s"; cases ev)
    (auto simp: fsm_step frame_simps sid_of_calm calm_ops split: if_splits
      intro!: in_sync_leave in_sync_switch_both in_sync_started in_sync_stype elim!: in_sync_cong [rotated 2])

interpretation sessions: user_blind_invariant in_sync
proof
  fix s s' :: mnld
  show "agree_upto_users s s' \<Longrightarrow> in_sync s \<Longrightarrow> in_sync s'" by (simp add: agree_upto_users_def in_sync_def)
qed (rule in_sync_announce in_sync_fsm; assumption)+

section \<open>The framework wakelock\<close>

definition wake_inv :: "mnld \<Rightarrow> bool" where
  "wake_inv s \<longleftrightarrow> OFFLOAD_enabled (cfg s) \<or>
     (\<exists>n. wakes s = concat (replicate n [True, False]) @ (if state_of s = IDLE then [] else [True]))"

lemma wake_pairs:
  "concat (replicate n [True, False]) @ [True, False] = concat (replicate (Suc n) [True, False])"
  "concat (replicate n [True, False]) @ True # False # xs = concat (replicate (Suc n) [True, False]) @ xs"
  by (induction n) simp_all

lemma wake_fsm:
  assumes "wake_inv s" "mnld_fsm e ev d s = Inr s'"
  shows "wake_inv s'"
proof (cases "OFFLOAD_enabled (cfg s)")
  case True
  moreover have "cfg s' = cfg s"
    using assms(2) by (cases "state_of s"; cases ev) (auto simp: fsm_step frame_simps split: if_splits)
  ultimately show ?thesis by (simp add: wake_inv_def)
next
  case False
  then have off: "\<not> offload_active x" if "cfg x = cfg s" for x using that by (simp add: cfg_preds)
  from False assms(1) obtain n where
    n: "wakes s = concat (replicate n [True, False]) @ (if state_of s = IDLE then [] else [True])"
    by (auto simp: wake_inv_def)
  have "\<exists>m. wakes s' = concat (replicate m [True, False]) @ (if state_of s' = IDLE then [] else [True])"
    using assms(2) n
    by (cases "state_of s"; cases ev)
      (auto simp: fsm_step frame_simps off wake_pairs simp del: replicate.simps split: if_splits)
  then show ?thesis by (simp add: wake_inv_def)
qed

interpretation wakelock: user_blind_invariant wake_inv
proof
  fix s s' :: mnld
  show "agree_upto_users s s' \<Longrightarrow> wake_inv s \<Longrightarrow> wake_inv s'" by (simp add: agree_upto_users_def wake_inv_def)
next
  fix s :: mnld and pid
  show "wake_inv s \<Longrightarrow> wake_inv (mnld_session_update pid s)" by (simp add: wake_inv_def frame_simps)
qed (rule wake_fsm)

section \<open>Users\<close>

definition pre_inv :: "mnld \<Rightarrow> bool" where
  "pre_inv s \<longleftrightarrow> mnld_support_auto_switch_mode s \<or> (\<forall>pid. pre_type (session_of pid s) = AP_MODE)"

definition users_inv :: "mnld \<Rightarrow> bool" where
  "users_inv s \<longleftrightarrow> pre_inv s \<and>
     (state_of s = IDLE \<longrightarrow> (\<forall>c. c \<noteq> Flp_test \<longrightarrow> \<not> used c s)) \<and>
     (state_of s = STARTED \<longrightarrow> any_user s) \<and>
     (state_of s = OFL_STARTED \<longrightarrow> any_user s \<and> \<not> hbd_user s)"

lemma pre_inv_cong:
  "cfg s' = cfg s \<Longrightarrow> (\<And>pid. pre_type (session_of pid s') = pre_type (session_of pid s)) \<Longrightarrow> pre_inv s \<Longrightarrow> pre_inv s'"
  by (simp add: pre_inv_def mnld_support_auto_switch_mode_def)

lemma session_switch_pre:
  "pre_type (session_of q (session_switch pid s)) =
     (if q = pid then stype (session_of pid s) else pre_type (session_of q s))"
  by (simp add: session_switch_def mnld_gen_new_session_def Let_def frame_simps)

lemma set_stype_pre: "pre_type (session_of q (set_stype pid t s)) = pre_type (session_of q s)"
  by (simp add: set_stype_def frame_simps)

lemma switch_both_pre: "pre_type (session_of q (switch_both t s)) = t"
  by (cases q) (simp_all del: session_of.simps add: switch_both_def session_switch_pre set_stype_pre frame_simps)

lemma pre_inv_switch_both: "t = AP_MODE \<or> mnld_support_auto_switch_mode s \<Longrightarrow> pre_inv (switch_both t s)"
  by (auto simp: pre_inv_def switch_both_pre frame_simps mnld_support_auto_switch_mode_def)

lemma session_switch_noop: "stype (session_of pid s) = pre_type (session_of pid s) \<Longrightarrow> session_switch pid s = s"
  by (simp add: session_switch_def)

lemma hbd_switch: "hbd_user (session_switch pid s) = hbd_user s"
  by (cases pid) (simp_all add: is_a_hbd_gps_client_exist_def frame_simps)

lemma hbd_stype: "hbd_user (set_stype pid t s) = hbd_user s"
  by (simp add: is_a_hbd_gps_client_exist_def frame_simps)

lemma enter_started_users:
  assumes "pre_inv s" "\<not> is_all_gps_client_exit s"
  shows "\<not> is_all_gps_client_exit (enter_started s) \<and> pre_inv (enter_started s)"
proof -
  let ?s = "update_downloads (set_state STARTED s)"
  let ?ap = "set_stype GFC AP_MODE (set_stype FLP AP_MODE ?s)"
  have u: "\<And>c. used c ?s = used c s" "cfg ?s = cfg s" by (simp_all add: frame_simps)
  have p: "session_of pid ?s = session_of pid s" for pid
    by (simp add: sid_of_calm [OF calm_update_downloads] frame_simps)
  have pre: "stype (session_of pid ?ap) = AP_MODE" "pre_type (session_of pid ?ap) = pre_type (session_of pid s)" for pid
    by (cases pid; simp only: set_stype_pre set_stype_frame p if_True if_False peer_id.distinct refl)+
  have "pre_type (session_of q (session_switch GFC (session_switch FLP ?ap))) = AP_MODE" for q
    by (cases q) (simp_all del: session_of.simps add: session_switch_pre session_switch_frame(8) pre(1))
  then have sw: "pre_inv (session_switch GFC (session_switch FLP ?ap))" by (simp add: pre_inv_def)
  show ?thesis
  proof (cases "hbd_user ?s")
    case True
    then have "hbd_user (session_switch GFC (session_switch FLP ?ap))" by (simp add: hbd_switch hbd_stype)
    then show ?thesis using True sw hbd_any by (simp add: enter_started_def Let_def)
  next
    case hbd: False
    show ?thesis
    proof (cases "mnld_support_auto_switch_mode ?s")
      case True
      then show ?thesis
        using hbd assms u by (simp add: enter_started_def Let_def pre_inv_def mnld_support_auto_switch_mode_def
            is_all_gps_client_exit_def frame_simps)
    next
      case False
      then have "pre_type (session_of pid s) = AP_MODE" for pid
        using assms(1) u(2) by (auto simp: pre_inv_def mnld_support_auto_switch_mode_def)
      then have "session_switch GFC (session_switch FLP ?ap) = ?ap" by (simp only: session_switch_noop pre)
      moreover have "is_all_gps_client_exit ?ap = is_all_gps_client_exit s"
        by (rule users_cong) (simp add: frame_simps)
      ultimately show ?thesis using False assms(2) sw by (simp add: enter_started_def Let_def)
    qed
  qed
qed

lemma start_done_users:
  assumes "pre_inv s" "\<not> is_all_gps_client_exit s"
  shows "\<not> is_all_gps_client_exit (enter_started (do_gps_started_hdlr d (stop_timer Timer_start (fsm_enter e s))))"
    "pre_inv (enter_started (do_gps_started_hdlr d (stop_timer Timer_start (fsm_enter e s))))"
proof -
  let ?s = "do_gps_started_hdlr d (stop_timer Timer_start (fsm_enter e s))"
  have "pre_inv ?s"
    by (rule pre_inv_cong [OF _ _ assms(1)]) (simp_all add: sid_of_calm calm_ops frame_simps)
  moreover have "\<not> is_all_gps_client_exit ?s" using assms(2) by (simp add: frame_simps)
  ultimately show "\<not> is_all_gps_client_exit (enter_started ?s)" "pre_inv (enter_started ?s)"
    using enter_started_users by blast+
qed

lemma pre_inv_fsm: "pre_inv s \<Longrightarrow> mnld_fsm e ev d s = Inr s' \<Longrightarrow> pre_inv s'"
proof -
  assume a: "pre_inv s" "mnld_fsm e ev d s = Inr s'"
  have st: "pre_inv (set_stype pid t x)" if "pre_inv x" for pid t x
    by (rule pre_inv_cong [OF _ _ that]) (simp_all add: set_stype_pre frame_simps)
  have lv: "pre_inv (leave_idle e st (fsm_enter e x))" if "pre_inv x" for st x
    by (rule pre_inv_cong [OF _ _ that]) (simp_all add: frame_simps)
  show ?thesis
  proof (cases "state_of s = STARTING \<and> ev = EVENT_START_DONE \<and> \<not> is_all_gps_client_exit s")
    case True
    then have "s' = enter_started (do_gps_started_hdlr d (stop_timer Timer_start (fsm_enter e s)))"
      using a(2) by (auto simp: fsm_step frame_simps)
    then show ?thesis using a(1) True start_done_users(2) by blast
  next
    case False
    then show ?thesis
      using a
      by (cases "state_of s"; cases ev)
        (auto simp: fsm_step frame_simps sid_of_calm calm_ops split: if_splits
          intro!: lv pre_inv_switch_both st elim!: pre_inv_cong [rotated 2])
  qed
qed

text \<open>From the users that remain after a request, each event re-establishes the invariant.\<close>

definition users_ready :: "mnld_gps_event \<Rightarrow> mnld \<Rightarrow> bool" where
  "users_ready ev s \<longleftrightarrow> pre_inv s \<and>
     (state_of s = IDLE \<longrightarrow> ev = EVENT_START \<or> ev = EVENT_OFFLOAD_START \<or> (\<forall>c. c \<noteq> Flp_test \<longrightarrow> \<not> used c s)) \<and>
     (state_of s = STARTED \<longrightarrow> ev = EVENT_STOP \<or> any_user s) \<and>
     (state_of s = OFL_STARTED \<longrightarrow> (ev = EVENT_START \<longrightarrow> any_user s) \<and> (ev \<noteq> EVENT_START \<longrightarrow> \<not> hbd_user s) \<and>
        (ev = EVENT_STOP \<or> any_user s))"

lemma emit_users [frame_simps]:
  "is_all_gps_client_exit (emit x s) = is_all_gps_client_exit s" "hbd_user (emit x s) = hbd_user s"
  by (simp_all add: user_preds frame_simps)

lemma no_users:
  "is_all_gps_client_exit s \<Longrightarrow> \<not> used c s"
  "\<not> hbd_user s \<Longrightarrow> \<not> is_flp_user_exist s \<Longrightarrow> \<not> is_geofence_user_exist s \<Longrightarrow> c \<noteq> Flp_test \<Longrightarrow> \<not> used c s"
  by (cases c; simp add: user_preds)+

lemma users_fsm_idle:
  assumes "users_ready ev s" "mnld_fsm e ev d s = Inr s'" "state_of s' = IDLE" "c \<noteq> Flp_test"
  shows "\<not> used c s'"
proof -
  have n: "next_state (state_of s) ev (any_user s) (hbd_user s) (peer_user s) = Some IDLE"
    using assms(2,3) mnld_fsm_next_state [of e ev d s] by simp
  then consider "state_of s = IDLE" | "state_of s = STOPPING" "ev = EVENT_STOP_DONE" "is_all_gps_client_exit s"
    | "state_of s = OFL_STOPPING" "ev = EVENT_STOP_DONE" "\<not> hbd_user s" "\<not> peer_user s"
    by (cases "state_of s"; cases ev) (auto split: if_splits)
  then show ?thesis
  proof cases
    case 1
    then show ?thesis using assms n by (cases ev) (auto simp: fsm_step users_ready_def frame_simps split: if_splits)
  next
    case 2
    then show ?thesis using assms(2) no_users(1) [of s c] by (auto simp: fsm_step frame_simps split: if_splits dest!: switch_both_used)
  next
    case 3
    then show ?thesis
      using assms(2) no_users(2) [of s c] assms(4) by (auto simp: fsm_step frame_simps split: if_splits dest!: switch_both_used)
  qed
qed

lemma users_fsm_started:
  assumes "users_ready ev s" "mnld_fsm e ev d s = Inr s'" "state_of s' = STARTED"
  shows "any_user s'"
proof -
  have n: "next_state (state_of s) ev (any_user s) (hbd_user s) (peer_user s) = Some STARTED"
    using assms(2,3) mnld_fsm_next_state [of e ev d s] by simp
  then consider "state_of s = STARTED" | "state_of s = STARTING" "ev = EVENT_START_DONE" "\<not> is_all_gps_client_exit s"
    by (cases "state_of s"; cases ev) (auto split: if_splits)
  then show ?thesis
  proof cases
    case 1
    then show ?thesis using assms n by (cases ev) (auto simp: fsm_step users_ready_def frame_simps split: if_splits)
  next
    case 2
    then have "s' = enter_started (do_gps_started_hdlr d (stop_timer Timer_start (fsm_enter e s)))"
      using assms(2) by (auto simp: fsm_step frame_simps)
    then show ?thesis using 2 assms(1) start_done_users(1) [of s d e] by (simp add: users_ready_def)
  qed
qed

lemma users_fsm_ofl_started:
  assumes "users_ready ev s" "mnld_fsm e ev d s = Inr s'" "state_of s' = OFL_STARTED"
  shows "any_user s' \<and> \<not> hbd_user s'"
proof -
  have p: "peer_user x \<Longrightarrow> \<not> is_all_gps_client_exit x" for x by (auto simp: user_preds)
  have n: "next_state (state_of s) ev (any_user s) (hbd_user s) (peer_user s) = Some OFL_STARTED"
    using assms(2,3) mnld_fsm_next_state [of e ev d s] by simp
  then consider "state_of s = OFL_STARTED" | "state_of s = OFL_STARTING" "ev = EVENT_START_DONE"
    by (cases "state_of s"; cases ev) (auto split: if_splits)
  then show ?thesis
  proof cases
    case 1
    then show ?thesis
      using assms(1,2) n p [of s] by (cases ev) (auto simp: fsm_step users_ready_def frame_simps split: if_splits)
  next
    case 2
    then show ?thesis
      using assms n by (auto simp: fsm_step frame_simps is_all_gps_client_exit_def is_a_hbd_gps_client_exist_def split: if_splits)
  qed
qed

lemma users_fsm: "users_ready ev s \<Longrightarrow> mnld_fsm e ev d s = Inr s' \<Longrightarrow> users_inv s'"
proof -
  assume r: "users_ready ev s" and f: "mnld_fsm e ev d s = Inr s'"
  have "pre_inv s'" using r pre_inv_fsm [OF _ f] by (simp add: users_ready_def)
  then show "users_inv s'"
    using users_fsm_idle [OF r f] users_fsm_started [OF r f] users_fsm_ofl_started [OF r f]
    by (simp add: users_inv_def)
qed

lemma hbd_clients: "hbd_user s \<longleftrightarrow> used Hal s \<or> used Agps s \<or> used At_cmd_test s \<or> used Factory s"
  by (auto simp: is_a_hbd_gps_client_exist_def)

lemma pre_inv_agree: "agree_upto_users s s1 \<Longrightarrow> pre_inv s \<Longrightarrow> pre_inv s1"
  by (rule pre_inv_cong) (simp_all add: agree_upto_users_def)

interpretation users: daemon_invariant users_inv
proof
  fix s s' :: mnld
  assume "same_core s s'"
  then have "agree_upto_users s s'" "\<And>c. used c s' = used c s" by (simp_all add: same_core_def)
  then show "users_inv s \<Longrightarrow> users_inv s'"
    using pre_inv_agree [of s s'] users_cong [of s' s] by (simp add: users_inv_def agree_upto_users_def)
next
  fix s :: mnld and pid
  have "pre_inv s \<Longrightarrow> pre_inv (mnld_session_update pid s)"
    by (erule pre_inv_cong [rotated 2]) (simp_all add: frame_simps)
  then show "users_inv s \<Longrightarrow> users_inv (mnld_session_update pid s)"
    by (auto simp: users_inv_def frame_simps user_preds)
next
  fix s s1 s' :: mnld and c e
  assume i: "users_inv s" and g: "gains c s s1" and f: "mnld_fsm e EVENT_START 0 s1 = Inr s'"
  have "\<not> is_all_gps_client_exit s1" using g by (cases c) (auto simp: gains_def is_all_gps_client_exit_def)
  then have "users_ready EVENT_START s1"
    using i g pre_inv_agree [of s s1] by (simp add: users_ready_def users_inv_def gains_def)
  then show "users_inv s'" using f by (rule users_fsm)
next
  fix s s1 s' :: mnld and pid e
  assume i: "users_inv s" and g: "gains_link pid s s1" and f: "mnld_fsm e EVENT_OFFLOAD_START 0 s1 = Inr s'"
  have "\<not> is_all_gps_client_exit s1" using g by (cases pid) (auto simp: gains_link_def is_all_gps_client_exit_def)
  moreover have "hbd_user s1 = hbd_user s" using g by (cases pid) (simp_all add: gains_link_def hbd_clients)
  moreover have "state_of s1 = state_of s" using g by (simp add: gains_link_def agree_upto_users_def)
  ultimately have "users_ready EVENT_OFFLOAD_START s1"
    using i g pre_inv_agree [of s s1] by (simp add: users_ready_def users_inv_def gains_link_def)
  then show "users_inv s'" using f by (rule users_fsm)
next
  fix s s1 s' :: mnld and e
  assume i: "users_inv s" and g: "loses s s1" and f: "mnld_fsm e EVENT_STOP 0 s1 = Inr s'"
  have "hbd_user s1 \<Longrightarrow> hbd_user s" using g by (auto simp: loses_def hbd_clients)
  moreover have "state_of s1 = state_of s" using g by (simp add: loses_def agree_upto_users_def)
  ultimately have "users_ready EVENT_STOP s1"
    using i g pre_inv_agree [of s s1] by (auto simp: users_ready_def users_inv_def loses_def)
  then show "users_inv s'" using f by (rule users_fsm)
qed (erule users_fsm [rotated], simp add: users_ready_def users_inv_def)+

section \<open>Properties of every reachable state\<close>

lemma boot_facts:
  "timers_inv (mnld_offload_check_capability chip_id mnld_boot)"
  "wake_inv (mnld_offload_check_capability chip_id mnld_boot)"
  "users_inv (mnld_offload_check_capability chip_id mnld_boot)"
proof -
  have "pre_type (session_of pid mnld_boot) = AP_MODE" for pid
    by (cases pid) (simp_all add: mnld_boot_def session_boot_def)
  then show "timers_inv (mnld_offload_check_capability chip_id mnld_boot)"
    "wake_inv (mnld_offload_check_capability chip_id mnld_boot)"
    "users_inv (mnld_offload_check_capability chip_id mnld_boot)"
    by (auto simp: timers_inv_def wake_inv_def users_inv_def pre_inv_def mnld_offload_check_capability_def
        mnld_support_auto_switch_mode_def mnld_boot_def gps_status_boot_def wakes_def user_preds)
qed

lemma reboot_known:
  "gCurrentSession (peer_of q (mnl2peer_mnld_reboot pid s)) =
     (if q = pid then sid (session_of pid s) else gCurrentSession (peer_of q s))"
proof -
  have "peer_of q (send2peer pid v x) = peer_of q x" for v x by (cases pid) (simp_all add: frame_simps)
  then show ?thesis
    by (simp add: mnl2peer_mnld_reboot_def on_bootup_def mnld_session_update_def on_session_update_peer frame_simps)
qed

lemma boot_sync: "in_sync (boot chip_id)"
proof -
  have "gCurrentSession (peer_of pid (notify_reboot s)) = sid (session_of pid s)" for pid s
    by (cases pid) (simp_all del: peer_of.simps session_of.simps add: notify_reboot_def reboot_known frame_simps)
  then show ?thesis by (simp add: in_sync_def boot_def mnld_init_def frame_simps)
qed

text \<open>Concrete runs: one on a chip without offload, one with the fused provider attached.\<close>

lemma run_reaches:
  "(case daemon_run xs (boot chip_id) of Inl c \<Rightarrow> False | Inr s \<Rightarrow> P s) \<Longrightarrow> \<exists>s. reachable chip_id s \<and> P s"
  using daemon_run_reachable [OF booted] by (auto split: sum.splits)

lemma run_started:
  "\<exists>s. reachable ''0x6739'' s \<and> state_of s = STARTED \<and> \<not> OFFLOAD_enabled (cfg s) \<and> used Hal s \<and> wakes s = [True]"
  by (rule run_reaches [where xs = "[(env_default, From_hal hal2mnl_msg.Gps_start), (env_default, From_main (Start_done 0))]"])
    code_simp

lemma run_stopping: "\<exists>s. reachable ''0x6739'' s \<and> state_of s = STOPPING"
  by (rule run_reaches [where xs = "[(env_default, From_hal hal2mnl_msg.Gps_start), (env_default, From_main (Start_done 0)),
      (env_default, From_hal hal2mnl_msg.Gps_stop)]"]) code_simp

lemma run_registered:
  "\<exists>s. reachable ''0x6758'' s \<and> hdlr_cb (peer_of FLP s) \<and> gCurrentSession (peer_of FLP s) = 1"
proof (rule run_reaches)
  have "gCurrentSession (peer_of FLP (boot ''0x6758'')) = 1" by code_simp
  then show "case daemon_run [(env_default, From_flp_hal (Some (le32 8 @ peer_message MSG_HAL_INIT_CMD [])))] (boot ''0x6758'') of
      Inl c \<Rightarrow> False | Inr s \<Rightarrow> hdlr_cb (peer_of FLP s) \<and> gCurrentSession (peer_of FLP s) = 1"
    by (simp add: hal2flp_init)
qed

text \<open>C5: the two timers that end the process when they expire run only while an answer of the
  control thread is due: in every reachable state the stop timer is armed exactly while the
  receiver is stopping, and the start timer only while it is starting.\<close>

theorem reachable_timers:
  assumes "reachable chip_id s"
  shows "(armed (gps s) Timer_stop \<noteq> None \<longleftrightarrow> state_of s = STOPPING \<or> state_of s = OFL_STOPPING) \<and>
    (armed (gps s) Timer_start \<noteq> None \<longrightarrow> state_of s = STARTING \<or> state_of s = OFL_STARTING)"
  using timers.reachable_inv [OF assms timers.boot_inv [OF boot_facts(1)]] by (simp add: timers_inv_def)

theorem reachable_timers_witness:
  "\<exists>s. reachable ''0x6739'' s \<and> state_of s = STOPPING \<and> armed (gps s) Timer_stop \<noteq> None \<and> armed (gps s) Timer_start = None"
proof -
  obtain s where s: "reachable ''0x6739'' s" "state_of s = STOPPING" using run_stopping by blast
  show ?thesis using s reachable_timers [OF s(1)] by auto
qed

text \<open>C4: on chips without offload the framework wakelock is balanced: in every reachable state
  the requests and releases sent so far alternate, beginning with a request, and the lock is held
  exactly while the receiver is not idle.\<close>

theorem reachable_wakelock:
  assumes "reachable chip_id s" "\<not> OFFLOAD_enabled (cfg s)"
  shows "\<exists>n. wakes s = concat (replicate n [True, False]) @ (if state_of s = IDLE then [] else [True])"
  using wakelock.reachable_inv [OF assms(1) wakelock.boot_inv [OF boot_facts(2)]] assms(2) by (simp add: wake_inv_def)

theorem reachable_wakelock_witness:
  "\<exists>s n. reachable ''0x6739'' s \<and> state_of s = STARTED \<and> wakes s = concat (replicate n [True, False]) @ [True]"
proof -
  obtain s where s: "reachable ''0x6739'' s" "\<not> OFFLOAD_enabled (cfg s)" "state_of s = STARTED" using run_started by blast
  show ?thesis using s(1,3) reachable_wakelock [OF s(1,2)] by auto
qed

text \<open>C3: the receiver runs for somebody: in every reachable state it is idle only if nobody but
  the offload test client uses it, host-based operation has a user, and offload operation has a
  user but no host-based one.\<close>

theorem reachable_users:
  assumes "reachable chip_id s"
  shows "(state_of s = IDLE \<longrightarrow> (\<forall>c. c \<noteq> Flp_test \<longrightarrow> \<not> used c s)) \<and>
    (state_of s = STARTED \<longrightarrow> is_a_gps_client_exist s) \<and>
    (state_of s = OFL_STARTED \<longrightarrow> is_a_gps_client_exist s \<and> \<not> is_a_hbd_gps_client_exist s)"
  using users.reachable_inv [OF assms users.boot_inv [OF boot_facts(3)]] by (simp add: users_inv_def)

theorem reachable_users_witness:
  "\<exists>s. reachable ''0x6739'' s \<and> state_of s = STARTED \<and> is_a_gps_client_exist s"
proof -
  obtain s where s: "reachable ''0x6739'' s" "state_of s = STARTED" using run_started by blast
  show ?thesis using s reachable_users [OF s(1)] by auto
qed

text \<open>C6: a peer's requests are never taken for stale ones: in every reachable state, a request
  of a registered peer is accepted when it carries the session the peer was last told, and any
  other session is refused with -1 and no effect.\<close>

theorem reachable_sessions:
  assumes "reachable chip_id s" "hdlr_cb (peer_of pid s)"
    and "mtype m \<in> {MNLD_HBD_GPS_OPEN, MNLD_HBD_GPS_CLOSE, MNLD_OFL_LINK_OPEN, MNLD_OFL_LINK_CLOSE, MNLD_OFL_LINK_SEND}"
  shows "(if msession m = gCurrentSession (peer_of pid s) then \<not> (\<exists>s'. peer2mnl_hdlr pid e m s = Inr (- 1, s'))
          else peer2mnl_hdlr pid e m s = Inr (- 1, s))"
proof -
  have "gCurrentSession (peer_of pid s) = sid (session_of pid s)"
    using sessions.reachable_inv [OF assms(1) boot_sync] by (simp add: in_sync_def)
  moreover have "ret 0 x \<noteq> Inr (- 1, s')" for x s' by (cases x) simp_all
  ultimately show ?thesis using assms(2,3) by (auto simp: peer2mnl_hdlr_def peer_msg_types)
qed

theorem reachable_sessions_witness:
  "\<exists>s. reachable ''0x6758'' s \<and>
     peer2mnl_hdlr FLP env_default \<lparr>mtype = 210, msession = 7, mlength = 0, mdata = []\<rparr> s = Inr (- 1, s)"
proof -
  obtain s where s: "reachable ''0x6758'' s" "hdlr_cb (peer_of FLP s)" "gCurrentSession (peer_of FLP s) = 1"
    using run_registered by blast
  show ?thesis
    using s(1,3) reachable_sessions [OF s(1,2), of "\<lparr>mtype = 210, msession = 7, mlength = 0, mdata = []\<rparr>" env_default]
    by (auto simp: peer_msg_types)
qed

text \<open>After the daemon has switched a peer's capability, a request that still carries the
  previous session is refused and changes nothing.\<close>

theorem switched_session_refuses_old:
  assumes "stype (session_of pid s) \<noteq> pre_type (session_of pid s)" "msession m = sid (session_of pid s)"
    "mtype m \<noteq> MNLD_FLP_ATTACH"
  shows "peer2mnl_hdlr pid e m (session_switch pid s) = Inr (- 1, session_switch pid s)"
proof -
  have n: "next_session_id i \<noteq> i" for i
    unfolding next_session_id_def Let_def by (cases "i + 1 \<ge> 0xFFFFFFFF") (auto simp: add_eq_self_zero, unat_arith)
  have "sid (session_of pid (session_switch pid s)) = next_session_id (sid (session_of pid s))"
    using assms(1) by (simp add: session_switch_def mnld_gen_new_session_def Let_def frame_simps)
  with n [of "sid (session_of pid s)"] assms(2) have "msession m \<noteq> sid (session_of pid (session_switch pid s))"
    by metis
  then show ?thesis using assms(3) by (simp add: peer2mnl_hdlr_def)
qed

theorem switched_session_refuses_old_witness:
  "peer2mnl_hdlr FLP env_default \<lparr>mtype = 210, msession = 1, mlength = 0, mdata = []\<rparr>
     (session_switch FLP (set_stype FLP AP_OFL_MODE mnld_boot)) =
   Inr (- 1, session_switch FLP (set_stype FLP AP_OFL_MODE mnld_boot))"
  by (rule switched_session_refuses_old)
    (simp_all add: set_stype_def mnld_boot_def session_boot_def peer_msg_types)

end
