(* ===== verification/Service.thy ===== *)
theory Service
  imports Invariants
begin

text \<open>
  What the daemon's clients get: the state machine closed with a GPS control thread that confirms
  whatever was commanded last. From every state, a start request of the HAL is served and
  acknowledged, and so is a stop request of the last user; two situations in which the code does
  not acknowledge are stated as well. The offload link delivers what a peer kept while the link
  was opening, in order and with the current session.
\<close>

section \<open>A responsive control thread\<close>

definition answer :: "mnld \<Rightarrow> main_msg option" where
  "answer s = (case phase_of (state_of s) of
       Turning_on \<Rightarrow> Some (Start_done 0)
     | Turning_off \<Rightarrow> Some Stop_done
     | _ \<Rightarrow> None)"

text \<open>At most \<open>n\<close> confirmations, until nothing is left to confirm.\<close>

fun settle :: "nat \<Rightarrow> env \<Rightarrow> mnld \<Rightarrow> outcome" where
    "settle 0 e s = Inr s"
  | "settle (Suc n) e s =
       (case answer s of None \<Rightarrow> Inr s | Some m \<Rightarrow> res_bind (daemon e (From_main m) s) (settle n e))"

text \<open>
  What one client sees of the daemon: whether it counts as a user, its two pending flags, and the
  reports it got. \<open>begun\<close> and \<open>ended\<close> are the acknowledgements of a start and of a stop.
\<close>

type_synonym 'a view = "bool \<times> bool \<times> bool \<times> 'a list"

definition client_view :: "client \<Rightarrow> (mnld \<Rightarrow> 'a list) \<Rightarrow> mnld \<Rightarrow> 'a view" where
  "client_view c reports s = (used c s, need_open_ack (client_of c s), need_close_ack (client_of c s), reports s)"

definition begun :: "'a list \<Rightarrow> 'a view \<Rightarrow> 'a view" where
  "begun on v = (case v of (u, oa, ca, h) \<Rightarrow> (u, False, ca, h @ (if oa then on else [])))"

definition ended :: "'a list \<Rightarrow> 'a view \<Rightarrow> 'a view" where
  "ended off v = (case v of (u, oa, ca, h) \<Rightarrow> (u, oa, False, h @ (if ca then off else [])))"

lemma begun_idem [simp]: "begun on (begun on v) = begun on v"
  by (simp add: begun_def split: prod.splits)

lemma enter_started_used: "used c (enter_started s) \<Longrightarrow> used c s"
  unfolding enter_started_def Let_def
  by (auto dest!: session_switch_used simp: frame_simps split: if_splits)

lemma users_shrink: "mnld_fsm e ev d s = Inr s' \<Longrightarrow> used c s' \<Longrightarrow> used c s"
  by (cases "state_of s"; cases ev)
    (auto simp: fsm_step frame_simps split: if_splits dest!: switch_both_used enter_started_used)

lemma fsm_state:
  "mnld_fsm e ev d s = Inr s' \<Longrightarrow>
     next_state (state_of s) ev (any_user s) (hbd_user s) (peer_user s) = Some (state_of s')"
  using mnld_fsm_next_state [of e ev d s] by simp

lemma nobody: "is_all_gps_client_exit s \<Longrightarrow> \<not> hbd_user s" "is_all_gps_client_exit s \<Longrightarrow> \<not> peer_user s"
  by (auto simp: user_preds)

lemma nobody_step: "mnld_fsm e ev d s = Inr s' \<Longrightarrow> is_all_gps_client_exit s \<Longrightarrow> is_all_gps_client_exit s'"
  unfolding all_exit_iff using users_shrink by blast

text \<open>How many confirmations a state is away from started, and from idle once nobody uses the receiver.\<close>

fun to_started :: "mnld_gps_state \<Rightarrow> nat" where
    "to_started STARTED = 0"
  | "to_started STARTING = 1"
  | "to_started STOPPING = 2"
  | "to_started OFL_STOPPING = 2"
  | "to_started OFL_STARTING = 3"
  | "to_started _ = 4"

fun to_idle :: "mnld_gps_state \<Rightarrow> nat" where
    "to_idle IDLE = 0"
  | "to_idle STOPPING = 1"
  | "to_idle OFL_STOPPING = 1"
  | "to_idle STARTING = 2"
  | "to_idle OFL_STARTING = 2"
  | "to_idle _ = 3"

section \<open>Clients that are served\<close>

text \<open>
  A client that always wants the host-based receiver, with the reports it gets when its start
  (\<open>on\<close>) and its stop (\<open>off\<close>) are acknowledged. The laws say what single steps of the machine do to
  its view; the lemmas follow a request until nothing is left to confirm.
\<close>

locale served_client =
  fixes c :: client
    and log :: "mnld \<Rightarrow> 'a list"
    and on off :: "'a list"
  assumes host_based: "used c s \<Longrightarrow> hbd_user s" "used c s \<Longrightarrow> any_user s"
    and start_done_view: "state_of s = STARTING \<or> state_of s = OFL_STARTING \<Longrightarrow>
      \<exists>s'. mnld_fsm e EVENT_START_DONE d s = Inr s' \<and> client_view c log s' = begun on (client_view c log s)"
    and stop_done_view: "state_of s = STOPPING \<or> state_of s = OFL_STOPPING \<Longrightarrow>
      \<exists>s'. mnld_fsm e EVENT_STOP_DONE d s = Inr s' \<and> client_view c log s' = ended off (client_view c log s)"
    and start_view: "used c s \<Longrightarrow> state_of s \<noteq> OFL_STARTED \<and> state_of s \<noteq> STARTED \<Longrightarrow>
      \<exists>s'. mnld_fsm e EVENT_START 0 s = Inr s' \<and> client_view c log s' = client_view c log s"
    and start_view_on: "state_of s = OFL_STARTED \<or> state_of s = STARTED \<Longrightarrow>
      \<exists>s'. mnld_fsm e EVENT_START 0 s = Inr s' \<and> client_view c log s' = begun on (client_view c log s)"
    and stop_view: "is_all_gps_client_exit s \<Longrightarrow> \<exists>s'. mnld_fsm e EVENT_STOP 0 s = Inr s' \<and>
      client_view c log s' = (if state_of s = IDLE then ended off (client_view c log s) else client_view c log s)"
begin

lemma settle_started:
  assumes "used c s" "\<not> need_close_ack (client_of c s)" "to_started (state_of s) \<le> n" "to_started (state_of s) \<noteq> 4"
    "state_of s = STARTED \<Longrightarrow> \<not> need_open_ack (client_of c s)"
  shows "\<exists>s'. settle n e s = Inr s' \<and> state_of s' = STARTED \<and> client_view c log s' = begun on (client_view c log s)"
  using assms
proof (induction n arbitrary: s)
  case 0
  then show ?case by (cases "state_of s") (auto simp: client_view_def begun_def)
next
  case (Suc n)
  note u = host_based [OF Suc.prems(1)]
  have on: ?case if st: "state_of s = STARTING \<or> state_of s = OFL_STARTING"
  proof -
    obtain s1 where s1: "mnld_fsm e EVENT_START_DONE 0 s = Inr s1" "client_view c log s1 = begun on (client_view c log s)"
      using start_done_view [OF st] by blast
    have "state_of s1 = (if state_of s = STARTING then STARTED else OFL_STOPPING)"
      using fsm_state [OF s1(1)] st u by auto
    moreover have "begun on (client_view c log s1) = client_view c log s1" by (simp add: s1(2))
    ultimately show ?thesis using Suc.IH [of s1] Suc.prems s1 st
      by (auto simp: answer_def client_view_def begun_def split: if_splits)
  qed
  have off: ?case if st: "state_of s = STOPPING \<or> state_of s = OFL_STOPPING"
  proof -
    obtain s1 where s1: "mnld_fsm e EVENT_STOP_DONE 0 s = Inr s1" "client_view c log s1 = ended off (client_view c log s)"
      using stop_done_view [OF st] by blast
    have "state_of s1 = STARTING" using fsm_state [OF s1(1)] st u by auto
    moreover have "client_view c log s1 = client_view c log s"
      using s1(2) Suc.prems(2) by (simp add: client_view_def ended_def)
    ultimately show ?thesis using Suc.IH [of s1] Suc.prems s1 st by (auto simp: answer_def client_view_def)
  qed
  show ?case using on off Suc.prems by (cases "state_of s") (auto simp: answer_def client_view_def begun_def)
qed

lemma settle_idle:
  assumes "is_all_gps_client_exit s" "\<not> need_open_ack (client_of c s)" "to_idle (state_of s) \<le> n" "n \<le> 2"
    "state_of s = IDLE \<Longrightarrow> \<not> need_close_ack (client_of c s)"
  shows "\<exists>s'. settle n e s = Inr s' \<and> state_of s' = IDLE \<and> client_view c log s' = ended off (client_view c log s)"
  using assms
proof (induction n arbitrary: s)
  case 0
  then show ?case by (cases "state_of s") (auto simp: client_view_def ended_def)
next
  case (Suc n)
  note u = Suc.prems(1) nobody [OF Suc.prems(1)]
  have on: ?case if st: "state_of s = STARTING \<or> state_of s = OFL_STARTING"
  proof -
    obtain s1 where s1: "mnld_fsm e EVENT_START_DONE 0 s = Inr s1" "client_view c log s1 = begun on (client_view c log s)"
      using start_done_view [OF st] by blast
    have "to_idle (state_of s1) = 1" "state_of s1 \<noteq> IDLE" using fsm_state [OF s1(1)] st u by auto
    moreover have "client_view c log s1 = client_view c log s"
      using s1(2) Suc.prems(2) by (simp add: client_view_def begun_def)
    ultimately show ?thesis using Suc.IH [of s1] Suc.prems s1 st nobody_step [OF s1(1)]
      by (auto simp: answer_def client_view_def)
  qed
  have off: ?case if st: "state_of s = STOPPING \<or> state_of s = OFL_STOPPING"
  proof -
    obtain s1 where s1: "mnld_fsm e EVENT_STOP_DONE 0 s = Inr s1" "client_view c log s1 = ended off (client_view c log s)"
      using stop_done_view [OF st] by blast
    have "state_of s1 = IDLE" using fsm_state [OF s1(1)] st u by auto
    then show ?thesis using s1 st by (cases n) (auto simp: answer_def)
  qed
  show ?case using on off Suc.prems by (cases "state_of s") (auto simp: answer_def client_view_def ended_def)
qed

lemma open_settles:
  assumes v: "client_view c log s = (True, oa, False, h)"
  shows "\<exists>s'. res_bind (mnld_fsm e EVENT_START 0 s) (settle 3 e) = Inr s' \<and> state_of s' = STARTED \<and>
    used c s' \<and> log s' = h @ (if oa then on else [])"
proof -
  have u: "used c s" using v by (simp add: client_view_def)
  obtain s1 where s1: "mnld_fsm e EVENT_START 0 s = Inr s1"
    "begun on (client_view c log s1) = begun on (client_view c log s)"
    "state_of s1 = STARTED \<Longrightarrow> client_view c log s1 = begun on (client_view c log s)"
    using start_view [OF u] start_view_on [of s] fsm_state [of e EVENT_START 0 s] host_based [OF u]
    by (cases "state_of s") fastforce+
  have "to_started (state_of s1) \<le> 3" using fsm_state [OF s1(1)] host_based [OF u] by (cases "state_of s") auto
  then have "\<exists>s'. settle 3 e s1 = Inr s' \<and> state_of s' = STARTED \<and> client_view c log s' = begun on (client_view c log s1)"
    using s1(2,3) v by (intro settle_started) (auto simp: client_view_def begun_def)
  then show ?thesis using s1(1,2) v by (auto simp: begun_def client_view_def)
qed

lemma close_settles:
  assumes v: "client_view c log s = (False, False, ca, h)" and n: "is_all_gps_client_exit s"
  shows "\<exists>s'. res_bind (mnld_fsm e EVENT_STOP 0 s) (settle 2 e) = Inr s' \<and> state_of s' = IDLE \<and>
    \<not> used c s' \<and> log s' = h @ (if ca then off else [])"
proof -
  obtain s1 where s1: "mnld_fsm e EVENT_STOP 0 s = Inr s1"
    "client_view c log s1 = (if state_of s = IDLE then ended off (client_view c log s) else client_view c log s)"
    using stop_view [OF n] by blast
  have "to_idle (state_of s1) \<le> 2 \<and> (state_of s1 = IDLE \<longrightarrow> state_of s = IDLE)"
    using fsm_state [OF s1(1)] nobody [OF n] n by (cases "state_of s") auto
  then have "\<exists>s'. settle 2 e s1 = Inr s' \<and> state_of s' = IDLE \<and> client_view c log s' = ended off (client_view c log s1)"
    using s1(2) v nobody_step [OF s1(1) n]
    by (intro settle_idle) (auto simp: client_view_def ended_def split: if_splits)
  then show ?thesis using s1 v by (auto simp: ended_def client_view_def split: if_splits)
qed

end

lemmas client_view_simps = fsm_step frame_simps client_view_def begun_def ended_def

interpretation hal: served_client Hal hal_status "[SESSION_ENGINE_ON, SESSION_BEGIN]" "[SESSION_END, SESSION_ENGINE_OFF]"
proof unfold_locales
  fix s e
  show "used Hal s \<Longrightarrow> hbd_user s" "used Hal s \<Longrightarrow> any_user s" by (auto simp: user_preds)
  show "is_all_gps_client_exit s \<Longrightarrow> \<exists>s'. mnld_fsm e EVENT_STOP 0 s = Inr s' \<and> client_view Hal hal_status s' =
      (if state_of s = IDLE then ended [SESSION_END, SESSION_ENGINE_OFF] (client_view Hal hal_status s)
       else client_view Hal hal_status s)"
    using nobody [of s] by (cases "state_of s") (auto simp: client_view_simps)
  show "used Hal s \<Longrightarrow> state_of s \<noteq> OFL_STARTED \<and> state_of s \<noteq> STARTED \<Longrightarrow>
      \<exists>s'. mnld_fsm e EVENT_START 0 s = Inr s' \<and> client_view Hal hal_status s' = client_view Hal hal_status s"
    by (cases "state_of s") (auto simp: client_view_simps)
qed (auto simp: client_view_simps release_peer_def)

interpretation agps: served_client Agps agps_replies "[Agps_open_gps_done]" "[Agps_close_gps_done]"
proof unfold_locales
  fix s e
  show "used Agps s \<Longrightarrow> hbd_user s" "used Agps s \<Longrightarrow> any_user s" by (auto simp: user_preds)
  show "is_all_gps_client_exit s \<Longrightarrow> \<exists>s'. mnld_fsm e EVENT_STOP 0 s = Inr s' \<and> client_view Agps agps_replies s' =
      (if state_of s = IDLE then ended [Agps_close_gps_done] (client_view Agps agps_replies s)
       else client_view Agps agps_replies s)"
    using nobody [of s] by (cases "state_of s") (auto simp: client_view_simps)
  show "used Agps s \<Longrightarrow> state_of s \<noteq> OFL_STARTED \<and> state_of s \<noteq> STARTED \<Longrightarrow>
      \<exists>s'. mnld_fsm e EVENT_START 0 s = Inr s' \<and> client_view Agps agps_replies s' = client_view Agps agps_replies s"
    by (cases "state_of s") (auto simp: client_view_simps)
qed (auto simp: client_view_simps release_peer_def)

text \<open>The AT test wants no acknowledgement.\<close>

interpretation at_client: served_client At_cmd_test "\<lambda>_. [] :: unit list" "[]" "[]"
proof unfold_locales
  fix s e
  show "used At_cmd_test s \<Longrightarrow> hbd_user s" "used At_cmd_test s \<Longrightarrow> any_user s" by (auto simp: user_preds)
  show "is_all_gps_client_exit s \<Longrightarrow> \<exists>s'. mnld_fsm e EVENT_STOP 0 s = Inr s' \<and> client_view At_cmd_test (\<lambda>_. [] :: unit list) s' =
      (if state_of s = IDLE then ended [] (client_view At_cmd_test (\<lambda>_. []) s) else client_view At_cmd_test (\<lambda>_. []) s)"
    using nobody [of s] by (cases "state_of s") (auto simp: client_view_simps)
  show "used At_cmd_test s \<Longrightarrow> state_of s \<noteq> OFL_STARTED \<and> state_of s \<noteq> STARTED \<Longrightarrow>
      \<exists>s'. mnld_fsm e EVENT_START 0 s = Inr s' \<and>
        client_view At_cmd_test (\<lambda>_. [] :: unit list) s' = client_view At_cmd_test (\<lambda>_. []) s"
    by (cases "state_of s") (auto simp: client_view_simps)
qed (auto simp: client_view_simps release_peer_def)

section \<open>Requests of the HAL, of AGPS and of the AT test\<close>

lemma marked_view:
  "client_view c hal_status (mark_open c True s) = (True, True, False, hal_status s)"
  "client_view c hal_status (mark_close c True s) = (False, False, True, hal_status s)"
  "client_view c agps_replies (mark_open c True s) = (True, True, False, agps_replies s)"
  "client_view c agps_replies (mark_close c True s) = (False, False, True, agps_replies s)"
  by (simp_all add: mark_open_def mark_close_def client_view_def hal_status_def agps_replies_def mnld_updates)

lemma last_user_exit: "(\<And>d. d \<noteq> c \<Longrightarrow> \<not> used d s) \<Longrightarrow> is_all_gps_client_exit (mark_close c True s)"
  by (auto simp: all_exit_iff mark_close_def mnld_updates)

lemma epo_trigger_view:
  "client_view c hal_status (hal_start_gps_trigger_epo_download e s) = client_view c hal_status s"
  by (auto simp: hal_start_gps_trigger_epo_download_def epo_start_def set_epo_def client_view_def hal_status_def
      mnld_updates Let_def)

lemma hal_start_settles:
  "\<exists>s'. res_bind (daemon e (From_hal hal2mnl_msg.Gps_start) s) (settle 3 e) = Inr s' \<and> state_of s' = STARTED \<and>
     used Hal s' \<and> hal_status s' = hal_status s @ [SESSION_ENGINE_ON, SESSION_BEGIN]"
  using hal.open_settles [of "hal_start_gps_trigger_epo_download e (mark_open Hal True s)" True "hal_status s" e]
  by (simp add: epo_trigger_view marked_view hal_gps_start_def)

lemma agps_open_settles:
  "\<exists>s'. res_bind (daemon e (From_agps (Agps2_open_gps_req icon)) s) (settle 3 e) = Inr s' \<and> state_of s' = STARTED \<and>
     used Agps s' \<and> agps_replies s' = agps_replies s @ [Agps_open_gps_done]"
  using agps.open_settles [of "mark_open Agps True s" True "agps_replies s" e] by (simp add: marked_view agps_open_gps_req_def)

lemma at_test_settles:
  "\<exists>s'. res_bind (daemon e At_test_start s) (settle 3 e) = Inr s' \<and> state_of s' = STARTED \<and> used At_cmd_test s'"
  "(\<And>c. c \<noteq> At_cmd_test \<Longrightarrow> \<not> used c s) \<Longrightarrow>
   \<exists>s'. res_bind (daemon e At_test_stop s) (settle 2 e) = Inr s' \<and> state_of s' = IDLE \<and> \<not> used At_cmd_test s'"
proof -
  have v: "client_view At_cmd_test (\<lambda>_. [] :: unit list) (mark_open At_cmd_test False s) = (True, False, False, [])"
    "client_view At_cmd_test (\<lambda>_. [] :: unit list) (mark_close At_cmd_test False s) = (False, False, False, [])"
    by (simp_all add: mark_open_def mark_close_def client_view_def mnld_updates)
  have x: "(\<And>c. c \<noteq> At_cmd_test \<Longrightarrow> \<not> used c s) \<Longrightarrow> is_all_gps_client_exit (mark_close At_cmd_test False s)"
    by (auto simp: all_exit_iff mark_close_def mnld_updates)
  show "\<exists>s'. res_bind (daemon e At_test_start s) (settle 3 e) = Inr s' \<and> state_of s' = STARTED \<and> used At_cmd_test s'"
    using at_client.open_settles [OF v(1), of e] by (auto simp: at_test2mnl_gps_start_def)
  show "(\<And>c. c \<noteq> At_cmd_test \<Longrightarrow> \<not> used c s) \<Longrightarrow>
     \<exists>s'. res_bind (daemon e At_test_stop s) (settle 2 e) = Inr s' \<and> state_of s' = IDLE \<and> \<not> used At_cmd_test s'"
    using at_client.close_settles [OF v(2) x, of e] by (auto simp: at_test2mnl_gps_stop_def)
qed

lemma stop_view_starting:
  "state_of s = STARTING \<Longrightarrow> \<exists>s'. mnld_fsm e EVENT_STOP 0 s = Inr s' \<and>
     client_view Hal hal_status s' = client_view Hal hal_status s \<and>
     state_of s' = STARTING \<and> (\<forall>c. used c s' = used c s)"
  by (auto simp: client_view_simps)

text \<open>C2: a start request of the HAL is served from every state of the daemon: once the control
  thread has confirmed what it was commanded, which takes at most three confirmations, the
  receiver is started, the HAL is among its users, and the HAL has been told, once and in this
  order, that the engine is on and its session has begun.\<close>

theorem hal_start_served:
  "\<exists>s'. res_bind (daemon e (From_hal hal2mnl_msg.Gps_start) s) (settle 3 e) = Inr s' \<and> state_of s' = STARTED \<and>
     used Hal s' \<and> hal_status s' = hal_status s @ [SESSION_ENGINE_ON, SESSION_BEGIN]"
  by (rule hal_start_settles)

text \<open>C10: a stop request of the last user is served from every state: after at most two
  confirmations the receiver is idle and the HAL has been told, once and in this order, that its
  session has ended and the engine is off.\<close>

theorem hal_stop_served:
  assumes "\<And>c. c \<noteq> Hal \<Longrightarrow> \<not> used c s"
  shows "\<exists>s'. res_bind (daemon e (From_hal hal2mnl_msg.Gps_stop) s) (settle 2 e) = Inr s' \<and> state_of s' = IDLE \<and>
     \<not> used Hal s' \<and> hal_status s' = hal_status s @ [SESSION_END, SESSION_ENGINE_OFF]"
  using hal.close_settles [OF marked_view(2) last_user_exit [OF assms]] by (simp add: hal_gps_stop_def)

theorem hal_stop_served_witness:
  "\<exists>s'. res_bind (daemon env_default (From_hal hal2mnl_msg.Gps_stop) (set_state STARTED (mark_open Hal False mnld_boot)))
       (settle 2 env_default) = Inr s' \<and> state_of s' = IDLE \<and> \<not> used Hal s' \<and>
     hal_status s' = [SESSION_END, SESSION_ENGINE_OFF]"
proof -
  have "hal_status (set_state STARTED (mark_open Hal False mnld_boot)) = []"
    by (simp add: frame_simps mark_open_def hal_status_boot)
  moreover have "\<not> used c (set_state STARTED (mark_open Hal False mnld_boot))" if "c \<noteq> Hal" for c
    using that by (simp add: frame_simps mark_open_def)
  ultimately show ?thesis using hal_stop_served [of "set_state STARTED (mark_open Hal False mnld_boot)" env_default] by simp
qed

text \<open>C11: AGPS is served like the HAL: from every state of the daemon its open request ends with the
  receiver started, AGPS among its users and exactly one confirmation sent to it, after at most
  three confirmations of the control thread; and the close request of the last user ends with the
  receiver idle and exactly one confirmation, after at most two.\<close>

theorem agps_served:
  "(\<exists>s'. res_bind (daemon e (From_agps (Agps2_open_gps_req icon)) s) (settle 3 e) = Inr s' \<and> state_of s' = STARTED \<and>
      used Agps s' \<and> agps_replies s' = agps_replies s @ [Agps_open_gps_done]) \<and>
   ((\<forall>c. c \<noteq> Agps \<longrightarrow> \<not> used c s) \<longrightarrow>
    (\<exists>s'. res_bind (daemon e (From_agps Agps2_close_gps_req) s) (settle 2 e) = Inr s' \<and> state_of s' = IDLE \<and>
      \<not> used Agps s' \<and> agps_replies s' = agps_replies s @ [Agps_close_gps_done]))"
  using agps_open_settles agps.close_settles [OF marked_view(4) last_user_exit]
  by (simp add: agps_close_gps_req_def)

theorem agps_served_witness:
  "\<exists>s'. res_bind (daemon env_default (From_agps Agps2_close_gps_req) (set_state STARTED (mark_open Agps False mnld_boot)))
       (settle 2 env_default) = Inr s' \<and> state_of s' = IDLE \<and> agps_replies s' = [Agps_close_gps_done]"
proof -
  have "agps_replies (set_state STARTED (mark_open Agps False mnld_boot)) = []"
    by (simp add: frame_simps mark_open_def) (simp add: agps_replies_def)
  moreover have "\<not> used c (set_state STARTED (mark_open Agps False mnld_boot))" if "c \<noteq> Agps" for c
    using that by (simp add: frame_simps mark_open_def)
  ultimately show ?thesis
    using agps_served [of env_default 0 "set_state STARTED (mark_open Agps False mnld_boot)"] by auto
qed

text \<open>A stop request that the HAL makes while the receiver is starting is not acknowledged when
  another client stays: the machine ignores it, and after the start is confirmed nothing more is
  due from the control thread, the receiver is started without the HAL, its close acknowledgement
  is still pending and no status has been reported to it.\<close>

theorem hal_stop_unanswered:
  assumes "state_of s = STARTING" "used c s" "c \<noteq> Hal"
  shows "\<exists>s'. res_bind (daemon e (From_hal hal2mnl_msg.Gps_stop) s) (settle (Suc n) e) = Inr s' \<and>
     state_of s' = STARTED \<and> answer s' = None \<and> \<not> used Hal s' \<and>
     need_close_ack (client_of Hal s') \<and> hal_status s' = hal_status s"
proof -
  define s0 where "s0 = mark_close Hal True s"
  have v: "client_view Hal hal_status s0 = (False, False, True, hal_status s)" "state_of s0 = STARTING" "used c s0"
    using assms by (auto simp: s0_def mark_close_def client_view_def hal_status_def mnld_updates)
  obtain s1 where s1: "mnld_fsm e EVENT_STOP 0 s0 = Inr s1" "client_view Hal hal_status s1 = client_view Hal hal_status s0" "state_of s1 = STARTING" "used c s1"
    using stop_view_starting [OF v(2)] v(3) by metis
  obtain s2 where s2: "mnld_fsm e EVENT_START_DONE 0 s1 = Inr s2" "client_view Hal hal_status s2 = begun [SESSION_ENGINE_ON, SESSION_BEGIN] (client_view Hal hal_status s1)"
    using hal.start_done_view s1(3) by blast
  have "any_user s1" using s1(4) by (auto simp: all_exit_iff)
  then have "state_of s2 = STARTED" using fsm_state [OF s2(1)] s1(3) by simp
  then have a: "answer s2 = None" "state_of s2 = STARTED" by (simp_all add: answer_def)
  have "settle n e s2 = Inr s2" using a by (cases n) simp_all
  then have "res_bind (daemon e (From_hal hal2mnl_msg.Gps_stop) s) (settle (Suc n) e) = Inr s2"
    using s1 s2 by (simp add: hal_gps_stop_def s0_def [symmetric] answer_def)
  then show ?thesis using a s2(2) s1(2) v(1) by (auto simp: client_view_def begun_def)
qed

theorem hal_stop_unanswered_witness:
  "\<exists>s'. res_bind (daemon env_default (From_hal hal2mnl_msg.Gps_stop) (set_state STARTING (mark_open Agps True mnld_boot)))
       (settle 5 env_default) = Inr s' \<and> state_of s' = STARTED \<and> need_close_ack (client_of Hal s')"
  using hal_stop_unanswered [of "set_state STARTING (mark_open Agps True mnld_boot)" Agps env_default 4]
  by (auto simp: frame_simps mark_open_def)

section \<open>The offload link\<close>

text \<open>What was sent to the offload engine, in order.\<close>

fun link_data_of :: "effect \<Rightarrow> bytes list" where
    "link_data_of (Lib_send_flp_data b n) = [b]"
  | "link_data_of _ = []"

definition link_data :: "mnld \<Rightarrow> bytes list" where
  "link_data s = concat (map link_data_of (out s))"

definition deliverable :: "peer_id \<Rightarrow> mnld \<Rightarrow> peer_msg \<Rightarrow> bool" where
  "deliverable pid s m \<longleftrightarrow> mtype m = MNLD_OFL_LINK_SEND \<and> msession m = sid (session_of pid s) \<and>
     0 < mlength m \<and> mlength m \<le> OFFLOAD_PAYLOAD_LEN"

lemma link_send_facts:
  "hdlr_cb (peer_of q (link_send_case pid m s)) = hdlr_cb (peer_of q s)"
  "session_of q (link_send_case pid m s) = session_of q s"
  "peer_of q (link_send_case pid m s) = peer_of q s"
  by (cases q; simp add: link_send_case_def mnld_ofl_link_send_def emit_def)+

lemma link_send_data:
  "hdlr_cb (peer_of pid s) \<Longrightarrow> link_data (link_send_case pid m s) =
     link_data s @ (if deliverable pid s m then [mdata m] else [])"
  by (auto simp: link_send_case_def mnld_ofl_link_send_def deliverable_def link_data_def emit_def)

lemma link_send_all:
  "hdlr_cb (peer_of pid s) \<Longrightarrow> link_data (fold (link_send_case pid) ms s) =
     link_data s @ map mdata (filter (deliverable pid s) ms)"
proof (induction ms arbitrary: s)
  case (Cons m ms)
  have "deliverable pid (link_send_case pid m s) = deliverable pid s"
    by (rule ext) (simp add: deliverable_def link_send_facts)
  then show ?case using Cons.IH [of "link_send_case pid m s"] Cons.prems
    by (simp add: link_send_facts link_send_data)
qed simp

lemma link_send_all_facts:
  "session_of q (fold (link_send_case pid) ms s) = session_of q s"
  "peer_of q (fold (link_send_case pid) ms s) = peer_of q s"
  by (induction ms arbitrary: s) (simp_all add: link_send_facts)

text \<open>When the offload link is reported open to a peer that was waiting for it, the peer hands
  over the messages it kept meanwhile, in the order in which it kept them: exactly those of the
  current session with an admissible length reach the offload engine, the queue is empty
  afterwards, and the peer knows the link as open. A peer that was not waiting does nothing.\<close>

theorem link_open_flushes:
  assumes "hdlr_cb (peer_of pid s)"
  shows "let s' = mnld_ofl_gps_open_done pid s in
    if fgMnldStatus (peer_of pid s) = STATUS_OFL_LINK_OPEN
    then link_data s' = link_data s @ map mdata (filter (deliverable pid s) (kept (peer_of pid s))) \<and>
         kept (peer_of pid s') = [] \<and> fgMnldStatus (peer_of pid s') = STATUS_OFL_LINK_OPEN_DONE
    else s' = s"
proof -
  define s1 where "s1 = set_peer pid (\<lambda>p. p\<lparr>fgMnldStatus := STATUS_OFL_LINK_OPEN_DONE\<rparr>) s"
  have f: "hdlr_cb (peer_of pid s1)" "kept (peer_of pid s1) = kept (peer_of pid s)" "link_data s1 = link_data s"
    "deliverable pid s1 = deliverable pid s" "fgMnldStatus (peer_of pid s1) = STATUS_OFL_LINK_OPEN_DONE"
    using assms by (cases pid; auto simp: s1_def link_data_def deliverable_def fun_eq_iff)+
  have out: "link_data (set_peer pid g x) = link_data x" for g x by (cases pid) (simp_all add: link_data_def)
  show ?thesis
    using f link_send_all [OF f(1), of "kept (peer_of pid s)"]
    by (simp add: mnld_ofl_gps_open_done_def on_ofl_link_open_done_def Let_def s1_def [symmetric] out
        link_send_all_facts frame_simps)
qed

theorem link_open_flushes_witness:
  "link_data (mnld_ofl_gps_open_done FLP (set_peer FLP (\<lambda>p. p\<lparr>hdlr_cb := True, fgMnldStatus := STATUS_OFL_LINK_OPEN,
     kept := [\<lparr>mtype = 230, msession = 1, mlength = 1, mdata = [7]\<rparr>, \<lparr>mtype = 230, msession = 9, mlength = 1, mdata = [8]\<rparr>]\<rparr>)
     mnld_boot)) = [[7]]"
  using link_open_flushes [of FLP "set_peer FLP (\<lambda>p. p\<lparr>hdlr_cb := True, fgMnldStatus := STATUS_OFL_LINK_OPEN,
     kept := [\<lparr>mtype = 230, msession = 1, mlength = 1, mdata = [7]\<rparr>, \<lparr>mtype = 230, msession = 9, mlength = 1, mdata = [8]\<rparr>]\<rparr>)
     mnld_boot"]
  by (simp add: deliverable_def link_data_def MNLD_OFL_LINK_SEND_def OFFLOAD_PAYLOAD_LEN_def session_boot_def mnld_boot_def Let_def)

lemma offload_start_ignored:
  assumes "state_of s = OFL_STARTED"
  shows "\<exists>s'. mnld_fsm e EVENT_OFFLOAD_START 0 s = Inr s' \<and> state_of s' = OFL_STARTED \<and>
    clients (gps s') = clients (gps s) \<and> (\<forall>q. peer_of q s' = peer_of q s)"
proof -
  have "peer_of q (fsm_enter e s) = peer_of q s" for q
    by (cases q) (simp_all add: fsm_enter_def offload_users_changed_def Let_def emit_def
      gps_control_kernel_wakelock_give_def gps_control_kernel_wakelock_take_def
      mnld_gps_start_nmea_monitor_def mnld_gps_stop_nmea_monitor_def mnld_updates)
  then show ?thesis using assms by (auto simp: fsm_step frame_simps)
qed

text \<open>While the receiver runs in offload mode for one peer, a second peer's request to open the
  link is accepted but never answered: the machine ignores the event, nothing is due from the
  control thread, the peer's open acknowledgement stays pending, it goes on waiting for the link,
  and its command stays in the queue.\<close>

theorem second_link_unanswered:
  assumes "state_of s = OFL_STARTED" "hdlr_cb (peer_of GFC s)" "gCurrentSession (peer_of GFC s) = sid (session_of GFC s)"
    and "fgMnldStatus (peer_of GFC s) \<noteq> STATUS_OFL_LINK_OPEN_DONE" "kept (peer_of GFC s) = []"
    and "cmd_type prmsg \<noteq> MSG_CONN_SCREEN_STATUS" "cmd_bytes prmsg = Some b" "length b \<le> 256"
  shows "\<exists>s' m. res_bind (mtk_gfc_ofl2mnl_process prmsg e s) (settle n e) = Inr s' \<and>
    state_of s' = OFL_STARTED \<and> used Geofence s' \<and> need_open_ack (client_of Geofence s') \<and>
    fgMnldStatus (peer_of GFC s') = STATUS_OFL_LINK_OPEN \<and> kept (peer_of GFC s') = [m] \<and> mdata m = b"
proof -
  define s0 where "s0 = on_status GFC STATUS_OFL_LINK_OPEN s"
  define s1 where "s1 = set_stype GFC OFL_MODE (mark_open Geofence True s0)"
  have f: "state_of s1 = OFL_STARTED" "need_open_ack (client_of Geofence s1)" "used Geofence s1"
    "fgMnldStatus (peer_of GFC s1) = STATUS_OFL_LINK_OPEN" "kept (peer_of GFC s1) = []"
    using assms by (simp_all add: s1_def s0_def on_status_def mark_open_def set_stype_def mnld_updates)
  obtain s2 where s2: "mnld_fsm e EVENT_OFFLOAD_START 0 s1 = Inr s2" "state_of s2 = OFL_STARTED"
    "clients (gps s2) = clients (gps s1)" "\<And>q. peer_of q s2 = peer_of q s1"
    using offload_start_ignored [OF f(1)] by metis
  have "request GFC MNLD_OFL_LINK_OPEN e s0 = Inr s2"
    using assms(2,3) s2(1) by (simp add: request_def peer2mnl_hdlr_def mnld_ofl_link_open_def peer_msg_types
        s1_def s0_def on_status_def)
  moreover have "keep_msg GFC prmsg s2 = Inr (set_peer GFC (\<lambda>p. p\<lparr>kept := kept p @ [link_msg GFC b s2]\<rparr>) s2)"
    using f s2(4) [of GFC] assms(7,8) by (simp add: keep_msg_def)
  ultimately have "mtk_gfc_ofl2mnl_process prmsg e s =
      Inr (set_peer GFC (\<lambda>p. p\<lparr>kept := kept p @ [link_msg GFC b s2]\<rparr>) s2)"
    using assms(4-6) by (simp add: mtk_gfc_ofl2mnl_process_def open_link_and_keep_def s0_def)
  moreover have "settle n e x = Inr x" if "state_of x = OFL_STARTED" for x
    using that by (cases n) (simp_all add: answer_def)
  ultimately have "res_bind (mtk_gfc_ofl2mnl_process prmsg e s) (settle n e) =
      Inr (set_peer GFC (\<lambda>p. p\<lparr>kept := kept p @ [link_msg GFC b s2]\<rparr>) s2)"
    using s2(2) by simp
  then show ?thesis using s2(2,3) f s2(4) [of GFC] by (auto simp: link_msg_def)
qed

theorem second_link_unanswered_witness:
  "\<exists>s' m. res_bind (mtk_gfc_ofl2mnl_process [1, 0, 0, 0, 0, 0, 0, 0] env_default
       (set_state OFL_STARTED (set_peer GFC (\<lambda>p. p\<lparr>hdlr_cb := True, gCurrentSession := 1\<rparr>) mnld_boot)))
       (settle 3 env_default) = Inr s' \<and>
     need_open_ack (client_of Geofence s') \<and> kept (peer_of GFC s') = [m] \<and> mdata m = [1, 0, 0, 0, 0, 0, 0, 0]"
proof -
  let ?s = "set_state OFL_STARTED (set_peer GFC (\<lambda>p. p\<lparr>hdlr_cb := True, gCurrentSession := 1\<rparr>) mnld_boot)"
  have c: "cmd_bytes [1, 0, 0, 0, 0, 0, 0, 0] = Some [1, 0, 0, 0, 0, 0, 0, 0]" by code_simp
  have t: "cmd_type [1, 0, 0, 0, 0, 0, 0, 0] \<noteq> MSG_CONN_SCREEN_STATUS" by code_simp
  have "peer_of GFC ?s = peer_boot\<lparr>hdlr_cb := True, gCurrentSession := 1\<rparr>" "state_of ?s = OFL_STARTED"
    "sid (session_of GFC ?s) = 1"
    by (simp_all add: mnld_updates mnld_boot_def session_boot_def)
  then show ?thesis using second_link_unanswered [OF _ _ _ _ _ t c, of ?s env_default 3]
    by (auto simp: peer_boot_def)
qed

end
