(* ===== verification/Gps_Hal.thy ===== *)
theory Gps_Hal
  imports Service
begin

text \<open>
  The GPS HAL, the process at the other end of the HAL protocol: the context \<open>g_gpshal_ctx\<close> and
  its state changes (\<open>gps/gps_hal/src/gpshal.c\<close>), the interfaces the framework calls
  (\<open>gpsinf.c\<close>, \<open>agpsinf.c\<close>) and the callbacks for messages of the daemon (\<open>gpshal_worker.c\<close>).
  Requests to the daemon and calls of the framework's callbacks are appended to one log. A call
  through a callback table that was never registered, or of a string function on \<open>NULL\<close>, is
  \<open>None\<close>. Types and constants of the platform's \<open>gps.h\<close> are not part of the repository: the ones
  the code depends on are the fields of the parameter \<open>platform\<close>, and a struct handed to a callback
  is the values of the fields the code sets. The measurement and navigation structs are handed on
  as the bytes that arrived; the field by field copies in between are left out.
\<close>

section \<open>States\<close>

datatype gpshal_state =
    GPSHAL_STATE_UNKNOWN
  | GPSHAL_STATE_RESOURCE
  | GPSHAL_STATE_CLEANUP
  | GPSHAL_STATE_INIT
  | GPSHAL_STATE_STOP
  | GPSHAL_STATE_START

text \<open>The enumeration values; the code compares states by them.\<close>

fun gpshal_rank :: "gpshal_state \<Rightarrow> nat" where
    "gpshal_rank GPSHAL_STATE_UNKNOWN = 0"
  | "gpshal_rank GPSHAL_STATE_RESOURCE = 1"
  | "gpshal_rank GPSHAL_STATE_CLEANUP = 2"
  | "gpshal_rank GPSHAL_STATE_INIT = 3"
  | "gpshal_rank GPSHAL_STATE_STOP = 4"
  | "gpshal_rank GPSHAL_STATE_START = 5"

lemma gpshal_rank_inj: "gpshal_rank a = gpshal_rank b \<Longrightarrow> a = b"
  by (cases a; cases b) simp_all

instantiation gpshal_state :: linorder
begin

definition less_eq_gpshal_state :: "gpshal_state \<Rightarrow> gpshal_state \<Rightarrow> bool" where
  "a \<le> b \<longleftrightarrow> gpshal_rank a \<le> gpshal_rank b"

definition less_gpshal_state :: "gpshal_state \<Rightarrow> gpshal_state \<Rightarrow> bool" where
  "a < b \<longleftrightarrow> gpshal_rank a < gpshal_rank b"

instance
  by standard (auto simp: less_eq_gpshal_state_def less_gpshal_state_def gpshal_rank_inj)

end

lemma resource_le: "GPSHAL_STATE_RESOURCE \<le> st \<longleftrightarrow> st \<noteq> GPSHAL_STATE_UNKNOWN"
  by (cases st) (simp_all add: less_eq_gpshal_state_def)

section \<open>The context\<close>

record gnss_sv =
  svid :: u16
  constellation :: u8
  c_n0_dbhz :: u32
  elevation :: u32
  azimuth :: u32
  sv_flags :: u8

record ni_notification =
  notification_id :: u32
  ni_type :: u32
  need_notify :: bool
  need_verify :: bool
  privacy_override :: bool
  ni_timeout :: int
  requestor_id :: bytes
  ni_text :: bytes
  requestor_id_encoding :: u32
  text_encoding :: u32

text \<open>Calls of the framework's callbacks.\<close>

datatype fwk_call =
    Set_capabilities_cb u32
  | Set_system_info_cb u32
  | Location_cb gps_loc
  | Status_cb u32
  | Gnss_sv_status_cb "gnss_sv list"
  | Nmea_cb u64 "bytes option" int
  | Measurement_cb bytes
  | Navigation_cb bytes
  | Gnss_measurement_cb bytes
  | Gnss_navigation_cb bytes
  | Acquire_wakelock_cb
  | Release_wakelock_cb
  | Request_utc_time_cb
  | Agps_request_data_conn_cb bytes
  | Agps_release_data_conn_cb
  | Ni_notify_cb ni_notification
  | Request_setid_cb u32
  | Request_refloc_cb u32
  | Vzw_debug_cb bytes

datatype hal_effect = To_mnld hal2mnl_msg | To_fwk fwk_call

record gpshal =
  gps_state_intent :: gpshal_state
  hal_state :: gpshal_state
  gps_cbs :: bool
  agps_cbs :: bool
  gpsni_cbs :: bool
  agpsril_cbs :: bool
  meas_cbs :: bool
  navimsg_cbs :: bool
  vzw_debug_cbs :: bool
  limiter :: rate
  hal_log :: "hal_effect list"

definition g_gpshal_ctx :: gpshal where
  "g_gpshal_ctx = \<lparr>gps_state_intent = GPSHAL_STATE_UNKNOWN, hal_state = GPSHAL_STATE_UNKNOWN,
     gps_cbs = False, agps_cbs = False, gpsni_cbs = False, agpsril_cbs = False, meas_cbs = False,
     navimsg_cbs = False, vzw_debug_cbs = False, limiter = rate_init, hal_log = []\<rparr>"

text \<open>What the code takes from the platform's headers.\<close>

record platform =
  GNSS_MAX_SVS :: int
  NI_SHORT_STRING_MAXLEN :: nat
  NI_LONG_STRING_MAXLEN :: nat
  REF_LOCATION_TYPE_GSM_CELLID :: u32
  REF_LOCATION_TYPE_UMTS_CELLID :: u32

definition hal_emit :: "hal_effect \<Rightarrow> gpshal \<Rightarrow> gpshal" where
  "hal_emit x h = h\<lparr>hal_log := hal_log h @ [x]\<rparr>"

text \<open>
  A sender of \<open>hal2mnl_interface.c\<close> returns the number of bytes sent, or -1; \<open>ok m\<close> says which
  happens for the message \<open>m\<close>.
\<close>

definition hal_tell :: "(hal2mnl_msg \<Rightarrow> bool) \<Rightarrow> hal2mnl_msg \<Rightarrow> gpshal \<Rightarrow> gpshal" where
  "hal_tell ok m h = (if ok m then hal_emit (To_mnld m) h else h)"

section \<open>\<open>gpshal.c\<close>\<close>

definition gpshal_set_gps_state :: "gpshal_state \<Rightarrow> gpshal \<Rightarrow> gpshal" where
  "gpshal_set_gps_state st h = h\<lparr>hal_state := st\<rparr>"

definition gpshal_set_gps_state_intent :: "gpshal_state \<Rightarrow> gpshal \<Rightarrow> gpshal" where
  "gpshal_set_gps_state_intent st h = h\<lparr>gps_state_intent := st\<rparr>"

definition GPS_CAPABILITIES :: u32 where
  "GPS_CAPABILITIES = 0x40 OR 0x2 OR 0x4"

text \<open>Both branches of \<open>gpshal_check_capability\<close> give the same.\<close>

definition gpshal_check_capability :: "string \<Rightarrow> u32 \<times> u32" where
  "gpshal_check_capability chip_id =
     (if chip_id \<in> {''0x6739'', ''0x6765'', ''0x6761''} then (GPS_CAPABILITIES, 2016)
      else (GPS_CAPABILITIES, 2016))"

text \<open>The four system calls of the initialisation: socket, epoll, registration, thread.\<close>

record resources =
  socket_ok :: bool
  epoll_ok :: bool
  epoll_add_ok :: bool
  thread_ok :: bool

definition gpshal_resource_init :: "string \<Rightarrow> resources \<Rightarrow> gpshal \<Rightarrow> gpshal" where
  "gpshal_resource_init chip_id r h =
     (let h = h\<lparr>gps_cbs := True\<rparr> in
      if gps_state_intent h \<noteq> GPSHAL_STATE_UNKNOWN then h
      else let (capabilities, year) = gpshal_check_capability chip_id;
               h = hal_emit (To_fwk (Set_capabilities_cb capabilities)) h;
               h = hal_emit (To_fwk (Set_system_info_cb year)) h
           in if \<not> socket_ok r then h
              else if \<not> epoll_ok r then h
              else if \<not> epoll_add_ok r then h
              else if \<not> thread_ok r then h
              else gpshal_set_gps_state GPSHAL_STATE_RESOURCE h)"

definition gpshal_gpscbs_save :: "string \<Rightarrow> resources \<Rightarrow> bool \<Rightarrow> gpshal \<Rightarrow> int \<times> gpshal" where
  "gpshal_gpscbs_save chip_id r size_ok h =
     (if size_ok then (0, gpshal_resource_init chip_id r h) else (- 1, h))"

definition gpshal2mnl ::
  "(hal2mnl_msg \<Rightarrow> bool) \<Rightarrow> hal2mnl_msg \<Rightarrow> gpshal_state \<Rightarrow> gpshal \<Rightarrow> gpshal" where
  "gpshal2mnl ok m st h =
     (if GPSHAL_STATE_RESOURCE \<le> hal_state h \<and> ok m then gpshal_set_gps_state st (hal_tell ok m h) else h)"

definition gpshal2mnl_gps_init :: "(hal2mnl_msg \<Rightarrow> bool) \<Rightarrow> gpshal \<Rightarrow> gpshal" where
  "gpshal2mnl_gps_init ok = gpshal2mnl ok Gps_init GPSHAL_STATE_INIT"

definition gpshal2mnl_gps_start :: "(hal2mnl_msg \<Rightarrow> bool) \<Rightarrow> gpshal \<Rightarrow> gpshal" where
  "gpshal2mnl_gps_start ok = gpshal2mnl ok hal2mnl_msg.Gps_start GPSHAL_STATE_START"

definition gpshal2mnl_gps_stop :: "(hal2mnl_msg \<Rightarrow> bool) \<Rightarrow> gpshal \<Rightarrow> gpshal" where
  "gpshal2mnl_gps_stop ok = gpshal2mnl ok hal2mnl_msg.Gps_stop GPSHAL_STATE_STOP"

definition gpshal2mnl_gps_cleanup :: "(hal2mnl_msg \<Rightarrow> bool) \<Rightarrow> gpshal \<Rightarrow> gpshal" where
  "gpshal2mnl_gps_cleanup ok = gpshal2mnl ok Gps_cleanup GPSHAL_STATE_CLEANUP"

section \<open>\<open>gpsinf.c\<close> and \<open>agpsinf.c\<close>\<close>

definition gpsinf_init :: "string \<Rightarrow> resources \<Rightarrow> bool \<Rightarrow> (hal2mnl_msg \<Rightarrow> bool) \<Rightarrow> gpshal \<Rightarrow> int \<times> gpshal" where
  "gpsinf_init chip_id r size_ok ok h =
     (case gpshal_gpscbs_save chip_id r size_ok h of (rc, h) \<Rightarrow>
        if rc \<noteq> 0 then (- 1, h)
        else (0, gpshal2mnl_gps_init ok (gpshal_set_gps_state_intent GPSHAL_STATE_INIT h)))"

definition gpsinf_start :: "(hal2mnl_msg \<Rightarrow> bool) \<Rightarrow> gpshal \<Rightarrow> gpshal" where
  "gpsinf_start ok h = gpshal2mnl_gps_start ok (gpshal_set_gps_state_intent GPSHAL_STATE_START h)"

definition gpsinf_stop :: "(hal2mnl_msg \<Rightarrow> bool) \<Rightarrow> gpshal \<Rightarrow> gpshal" where
  "gpsinf_stop ok h = gpshal2mnl_gps_stop ok (gpshal_set_gps_state_intent GPSHAL_STATE_STOP h)"

definition gpsinf_cleanup :: "(hal2mnl_msg \<Rightarrow> bool) \<Rightarrow> gpshal \<Rightarrow> gpshal" where
  "gpsinf_cleanup ok h = gpshal2mnl_gps_cleanup ok (gpshal_set_gps_state_intent GPSHAL_STATE_CLEANUP h)"

definition gpsinf_set_position_mode ::
  "(hal2mnl_msg \<Rightarrow> bool) \<Rightarrow> u32 \<Rightarrow> u32 \<Rightarrow> u32 \<Rightarrow> u32 \<Rightarrow> u32 \<Rightarrow> gpshal \<Rightarrow> gpshal" where
  "gpsinf_set_position_mode ok mode recurrence min_interval preferred_acc preferred_time h =
     hal_tell ok (Gps_set_position_mode mode recurrence min_interval preferred_acc preferred_time)
       (h\<lparr>limiter := snd (hal2mnl_gps_set_position_mode mode recurrence min_interval preferred_acc preferred_time (limiter h))\<rparr>)"

definition measinf_init :: "(hal2mnl_msg \<Rightarrow> bool) \<Rightarrow> gpshal \<Rightarrow> bool \<times> gpshal" where
  "measinf_init ok h = (ok (Set_gps_measurement True), hal_tell ok (Set_gps_measurement True) (h\<lparr>meas_cbs := True\<rparr>))"

definition navimsginf_init :: "(hal2mnl_msg \<Rightarrow> bool) \<Rightarrow> gpshal \<Rightarrow> bool \<times> gpshal" where
  "navimsginf_init ok h = (ok (Set_gps_navigation True), hal_tell ok (Set_gps_navigation True) (h\<lparr>navimsg_cbs := True\<rparr>))"

definition agps_ril_set_ref_location ::
  "platform \<Rightarrow> (hal2mnl_msg \<Rightarrow> bool) \<Rightarrow> u32 \<Rightarrow> u32 \<Rightarrow> u32 \<Rightarrow> u32 \<Rightarrow> u32 \<Rightarrow> gpshal \<Rightarrow> gpshal" where
  "agps_ril_set_ref_location p ok type mcc mnc lac cid h =
     (if type = REF_LOCATION_TYPE_GSM_CELLID p \<or> type = REF_LOCATION_TYPE_UMTS_CELLID p
      then hal_tell ok (Set_ref_location type mcc mnc lac cid) h else h)"

text \<open>The calls of the framework. Those that only pass their arguments on are one case each.\<close>

datatype fwk_req =
    Get_gps_interface
  | Init string resources bool
  | Start
  | Stop
  | Cleanup
  | Inject_time u64 u64 u32
  | Inject_location u64 u64 u32
  | Delete_aiding_data u32
  | Set_position_mode u32 u32 u32 u32 u32
  | Measurement_init
  | Measurement_close
  | Navigation_init
  | Navigation_close
  | Vzw_init
  | Vzw_set bool
  | Agps_init
  | Agps_data_conn_open "bytes option"
  | Agps_data_conn_open_with_apn_ip_type "bytes option" u32
  | Agps_data_conn_closed
  | Agps_data_conn_failed
  | Agps_set_server u32 "bytes option" u32
  | Ni_init
  | Ni_user_respond u32 u32
  | Ril_init
  | Ril_set_ref_location u32 u32 u32 u32 u32
  | Ril_set_set_id u32 "bytes option"
  | Ril_ni_message bytes int
  | Ril_update_network_state u32 u32 u32 "bytes option"
  | Ril_update_network_availability u32 "bytes option"

primrec gps_interface :: "platform \<Rightarrow> (hal2mnl_msg \<Rightarrow> bool) \<Rightarrow> fwk_req \<Rightarrow> gpshal \<Rightarrow> gpshal" where
    "gps_interface p ok Get_gps_interface h = hal_tell ok Hal_reboot h"
  | "gps_interface p ok (Init chip_id r size_ok) h = snd (gpsinf_init chip_id r size_ok ok h)"
  | "gps_interface p ok Start h = gpsinf_start ok h"
  | "gps_interface p ok Stop h = gpsinf_stop ok h"
  | "gps_interface p ok Cleanup h = gpsinf_cleanup ok h"
  | "gps_interface p ok (Inject_time time time_reference uncertainty) h =
       hal_tell ok (Gps_inject_time time time_reference uncertainty) h"
  | "gps_interface p ok (Inject_location latitude longitude acc) h =
       hal_tell ok (Gps_inject_location latitude longitude acc) h"
  | "gps_interface p ok (Delete_aiding_data fl) h = hal_tell ok (Gps_delete_aiding_data fl) h"
  | "gps_interface p ok (Set_position_mode mode recurrence min_interval preferred_acc preferred_time) h =
       gpsinf_set_position_mode ok mode recurrence min_interval preferred_acc preferred_time h"
  | "gps_interface p ok Measurement_init h = snd (measinf_init ok h)"
  | "gps_interface p ok Measurement_close h = hal_tell ok (Set_gps_measurement False) h"
  | "gps_interface p ok Navigation_init h = snd (navimsginf_init ok h)"
  | "gps_interface p ok Navigation_close h = hal_tell ok (Set_gps_navigation False) h"
  | "gps_interface p ok Vzw_init h = h\<lparr>vzw_debug_cbs := True\<rparr>"
  | "gps_interface p ok (Vzw_set enabled) h = hal_tell ok (Set_vzw_debug enabled) h"
  | "gps_interface p ok Agps_init h = h\<lparr>agps_cbs := True\<rparr>"
  | "gps_interface p ok (Agps_data_conn_open apn) h = hal_tell ok (Data_conn_open apn) h"
  | "gps_interface p ok (Agps_data_conn_open_with_apn_ip_type apn ip_type) h =
       hal_tell ok (Data_conn_open_with_apn_ip_type apn ip_type) h"
  | "gps_interface p ok Agps_data_conn_closed h = hal_tell ok Data_conn_closed h"
  | "gps_interface p ok Agps_data_conn_failed h = hal_tell ok Data_conn_failed h"
  | "gps_interface p ok (Agps_set_server type hostname port) h = hal_tell ok (Set_server type hostname port) h"
  | "gps_interface p ok Ni_init h = h\<lparr>gpsni_cbs := True\<rparr>"
  | "gps_interface p ok (Ni_user_respond notif_id user_response) h = hal_tell ok (Ni_respond notif_id user_response) h"
  | "gps_interface p ok Ril_init h = h\<lparr>agpsril_cbs := True\<rparr>"
  | "gps_interface p ok (Ril_set_ref_location type mcc mnc lac cid) h =
       agps_ril_set_ref_location p ok type mcc mnc lac cid h"
  | "gps_interface p ok (Ril_set_set_id type setid) h = hal_tell ok (Set_id type setid) h"
  | "gps_interface p ok (Ril_ni_message msg len) h = hal_tell ok (Ni_message msg len) h"
  | "gps_interface p ok (Ril_update_network_state conn type roaming extra_info) h =
       hal_tell ok (Update_network_state conn type roaming extra_info) h"
  | "gps_interface p ok (Ril_update_network_availability available apn) h =
       hal_tell ok (Update_network_availability available apn) h"

section \<open>\<open>gpshal_worker.c\<close>\<close>

text \<open>A call of a callback through a table that has to be registered.\<close>

definition call_if :: "bool \<Rightarrow> fwk_call \<Rightarrow> gpshal \<Rightarrow> gpshal option" where
  "call_if registered c h = (if registered then Some (hal_emit (To_fwk c) h) else None)"

definition update_mnld_reboot :: "(hal2mnl_msg \<Rightarrow> bool) \<Rightarrow> gpshal \<Rightarrow> gpshal" where
  "update_mnld_reboot ok h =
     (case gps_state_intent h of
        GPSHAL_STATE_INIT \<Rightarrow> gpshal2mnl_gps_init ok h
      | GPSHAL_STATE_STOP \<Rightarrow> gpshal2mnl_gps_init ok h
      | GPSHAL_STATE_START \<Rightarrow> gpshal2mnl_gps_start ok (gpshal2mnl_gps_init ok h)
      | _ \<Rightarrow> h)"

definition update_location :: "gps_loc \<Rightarrow> gpshal \<Rightarrow> gpshal option" where
  "update_location location h =
     (if hal_state h = GPSHAL_STATE_START then call_if (gps_cbs h) (Location_cb location) h else Some h)"

text \<open>\<open>gnss_sv_info\<close>: the number of satellites, then 64 structs of 20 bytes.\<close>

definition MTK_HAL_GNSS_MAX_SVS :: nat where
  "MTK_HAL_GNSS_MAX_SVS = 64"

definition num_svs_of :: "bytes \<Rightarrow> int" where
  "num_svs_of b = sint (of_le32 b)"

definition gnss_sv_of :: "bytes \<Rightarrow> nat \<Rightarrow> gnss_sv" where
  "gnss_sv_of b i =
     (let x = drop (4 + 20 * i) b
      in \<lparr>svid = of_le16 x, constellation = x ! 2, c_n0_dbhz = of_le32 (drop 4 x),
          elevation = of_le32 (drop 8 x), azimuth = of_le32 (drop 12 x), sv_flags = x ! 16\<rparr>)"

text \<open>Reading past the 64 entries of the source list is undefined.\<close>

definition update_gps_sv :: "platform \<Rightarrow> bytes \<Rightarrow> gpshal \<Rightarrow> gpshal option" where
  "update_gps_sv p sv h =
     (let num_svs = (if num_svs_of sv > GNSS_MAX_SVS p then GNSS_MAX_SVS p else num_svs_of sv)
      in if num_svs > int MTK_HAL_GNSS_MAX_SVS then None
         else call_if (gps_cbs h) (Gnss_sv_status_cb (map (gnss_sv_of sv) [0..<nat num_svs])) h)"

text \<open>\<open>MNLD_STRNCPY\<close>, as the string that is in the destination afterwards.\<close>

definition MNLD_STRNCPY :: "bytes \<Rightarrow> nat \<Rightarrow> bytes" where
  "MNLD_STRNCPY src sz = take (sz - 1) (cstr src)"

definition AGPS_NOTIFY_TYPE_NOTIFY_ONLY :: u32 where
  "AGPS_NOTIFY_TYPE_NOTIFY_ONLY = 1"

definition AGPS_NOTIFY_TYPE_NOTIFY_ALLOW_NO_ANSWER :: u32 where
  "AGPS_NOTIFY_TYPE_NOTIFY_ALLOW_NO_ANSWER = 2"

definition AGPS_NOTIFY_TYPE_NOTIFY_DENY_NO_ANSWER :: u32 where
  "AGPS_NOTIFY_TYPE_NOTIFY_DENY_NO_ANSWER = 3"

definition AGPS_NOTIFY_TYPE_PRIVACY :: u32 where
  "AGPS_NOTIFY_TYPE_PRIVACY = 4"

definition request_ni_notify ::
  "platform \<Rightarrow> u32 \<Rightarrow> u32 \<Rightarrow> u32 \<Rightarrow> bytes option \<Rightarrow> bytes option \<Rightarrow> u32 \<Rightarrow> u32 \<Rightarrow> gpshal \<Rightarrow> gpshal option" where
  "request_ni_notify p session_id nitype type requestor client re ce h =
     (case (requestor, client) of
        (Some r, Some c) \<Rightarrow>
          let verify = (type = AGPS_NOTIFY_TYPE_NOTIFY_ALLOW_NO_ANSWER \<or> type = AGPS_NOTIFY_TYPE_NOTIFY_DENY_NO_ANSWER)
          in call_if (gpsni_cbs h) (Ni_notify_cb
               \<lparr>notification_id = session_id, ni_type = nitype,
                need_notify = (type = AGPS_NOTIFY_TYPE_NOTIFY_ONLY \<or> verify), need_verify = verify,
                privacy_override = (type = AGPS_NOTIFY_TYPE_PRIVACY), ni_timeout = 8,
                requestor_id = MNLD_STRNCPY r (NI_SHORT_STRING_MAXLEN p),
                ni_text = MNLD_STRNCPY c (NI_LONG_STRING_MAXLEN p),
                requestor_id_encoding = re, text_encoding = ce\<rparr>) h
      | _ \<Rightarrow> None)"

definition VZW_DEBUG_STRING_MAXLEN :: nat where
  "VZW_DEBUG_STRING_MAXLEN = 200"

text \<open>
  The string and its terminator are copied, clipped to the array, and the last byte of the array
  is cleared; what is recorded is the resulting string.
\<close>

definition output_vzw_debug :: "bytes option \<Rightarrow> gpshal \<Rightarrow> gpshal option" where
  "output_vzw_debug str h =
     (case str of
        None \<Rightarrow> None
      | Some s \<Rightarrow>
          let len = strlen s + 1;
              len = (if len > VZW_DEBUG_STRING_MAXLEN then VZW_DEBUG_STRING_MAXLEN else len);
              data = (take len (cstr s @ [0]))
          in if vzw_debug_cbs h
             then Some (hal_emit (To_fwk (Vzw_debug_cb (cstr (take (VZW_DEBUG_STRING_MAXLEN - 1) data)))) h)
             else Some h)"

text \<open>The table \<open>gpshal_mnl2hal_interface\<close>.\<close>

primrec gpshal_mnl2hal_interface ::
  "platform \<Rightarrow> (hal2mnl_msg \<Rightarrow> bool) \<Rightarrow> mnl2hal_msg \<Rightarrow> gpshal \<Rightarrow> gpshal option" where
    "gpshal_mnl2hal_interface p ok Mnld_reboot h = Some (update_mnld_reboot ok h)"
  | "gpshal_mnl2hal_interface p ok (Location b) h = update_location (gps_loc_of b) h"
  | "gpshal_mnl2hal_interface p ok (Gps_status status) h = call_if (gps_cbs h) (Status_cb status) h"
  | "gpshal_mnl2hal_interface p ok (Gps_sv sv) h = update_gps_sv p sv h"
  | "gpshal_mnl2hal_interface p ok (Nmea ts nmea len) h = call_if (gps_cbs h) (Nmea_cb ts nmea len) h"
  | "gpshal_mnl2hal_interface p ok (Gps_capabilities c) h = call_if (gps_cbs h) (Set_capabilities_cb c) h"
  | "gpshal_mnl2hal_interface p ok (Gps_measurements b) h = call_if (meas_cbs h) (Measurement_cb b) h"
  | "gpshal_mnl2hal_interface p ok (Gps_navigation b) h = call_if (navimsg_cbs h) (Navigation_cb b) h"
  | "gpshal_mnl2hal_interface p ok (Gnss_measurements b) h = call_if (meas_cbs h) (Gnss_measurement_cb b) h"
  | "gpshal_mnl2hal_interface p ok (Gnss_navigation b) h = call_if (navimsg_cbs h) (Gnss_navigation_cb b) h"
  | "gpshal_mnl2hal_interface p ok Request_wakelock h = call_if (gps_cbs h) Acquire_wakelock_cb h"
  | "gpshal_mnl2hal_interface p ok Release_wakelock h = call_if (gps_cbs h) Release_wakelock_cb h"
  | "gpshal_mnl2hal_interface p ok Request_utc_time h = call_if (gps_cbs h) Request_utc_time_cb h"
  | "gpshal_mnl2hal_interface p ok (Request_data_conn addr) h = call_if (agps_cbs h) (Agps_request_data_conn_cb addr) h"
  | "gpshal_mnl2hal_interface p ok Release_data_conn h = call_if (agps_cbs h) Agps_release_data_conn_cb h"
  | "gpshal_mnl2hal_interface p ok (Request_ni_notify session_id nitype type requestor client re ce) h =
       request_ni_notify p session_id nitype type requestor client re ce h"
  | "gpshal_mnl2hal_interface p ok (Request_set_id fl) h =
       (if agpsril_cbs h then Some (hal_emit (To_fwk (Request_setid_cb fl)) h) else Some h)"
  | "gpshal_mnl2hal_interface p ok (Request_ref_loc fl) h =
       (if agpsril_cbs h then Some (hal_emit (To_fwk (Request_refloc_cb fl)) h) else Some h)"
  | "gpshal_mnl2hal_interface p ok (Output_vzw_debug str) h = output_vzw_debug str h"

section \<open>Runs\<close>

datatype hal_event = From_fwk fwk_req | From_mnld mnl2hal_msg

primrec hal_step :: "platform \<Rightarrow> (hal2mnl_msg \<Rightarrow> bool) \<Rightarrow> hal_event \<Rightarrow> gpshal \<Rightarrow> gpshal option" where
    "hal_step p ok (From_fwk q) h = Some (gps_interface p ok q h)"
  | "hal_step p ok (From_mnld m) h = gpshal_mnl2hal_interface p ok m h"

fun hal_run :: "platform \<Rightarrow> ((hal2mnl_msg \<Rightarrow> bool) \<times> hal_event) list \<Rightarrow> gpshal \<Rightarrow> gpshal option" where
    "hal_run p [] h = Some h"
  | "hal_run p ((ok, ev) # evs) h = Option.bind (hal_step p ok ev h) (hal_run p evs)"

definition requests :: "gpshal \<Rightarrow> hal2mnl_msg list" where
  "requests h = concat (map (\<lambda>x. case x of To_mnld m \<Rightarrow> [m] | _ \<Rightarrow> []) (hal_log h))"

definition locations :: "gpshal \<Rightarrow> gps_loc list" where
  "locations h = concat (map (\<lambda>x. case x of To_fwk (Location_cb l) \<Rightarrow> [l] | _ \<Rightarrow> []) (hal_log h))"

end
