(* ===== verification/Hal_Props.thy ===== *)
theory Hal_Props
  imports Gps_Hal
begin

text \<open>
  What the GPS HAL guarantees the framework: its state follows the intent, no location is
  reported after a stop, restarts of the daemon are repaired, and which messages of the daemon it
  cannot take.
\<close>

section \<open>State and intent\<close>

lemmas hal_sets = gpshal_set_gps_state_def gpshal_set_gps_state_intent_def hal_emit_def hal_tell_def

lemmas gpshal2mnl_defs = gpshal2mnl_gps_init_def gpshal2mnl_gps_start_def gpshal2mnl_gps_stop_def
  gpshal2mnl_gps_cleanup_def gpshal2mnl_def resource_le

lemmas gpsinf_defs = gpsinf_init_def gpsinf_start_def gpsinf_stop_def gpsinf_cleanup_def
  gpsinf_set_position_mode_def measinf_init_def navimsginf_init_def agps_ril_set_ref_location_def
  gpshal_gpscbs_save_def gpshal_resource_init_def gpshal_check_capability_def

lemmas worker_defs = update_mnld_reboot_def update_location_def update_gps_sv_def call_if_def
  request_ni_notify_def output_vzw_debug_def

text \<open>
  The HAL agrees with the framework: nothing happened yet, or the resources are missing, or the
  state is the intended one.
\<close>

definition hal_agrees :: "gpshal \<Rightarrow> bool" where
  "hal_agrees h \<longleftrightarrow> hal_state h = GPSHAL_STATE_UNKNOWN \<or>
     (hal_state h = gps_state_intent h \<or>
      hal_state h = GPSHAL_STATE_INIT \<and> gps_state_intent h = GPSHAL_STATE_STOP) \<and>
     gps_state_intent h \<noteq> GPSHAL_STATE_UNKNOWN"

lemma hal_log_state [simp]:
  "hal_state (hal_emit x h) = hal_state h" "gps_state_intent (hal_emit x h) = gps_state_intent h"
  "hal_state (hal_tell ok m h) = hal_state h" "gps_state_intent (hal_tell ok m h) = gps_state_intent h"
  by (simp_all add: hal_sets)

lemma fwk_agrees: "hal_agrees h \<Longrightarrow> (\<And>m. ok m) \<Longrightarrow> hal_agrees (gps_interface p ok q h)"
  by (cases q) (auto simp: hal_agrees_def gpsinf_defs gpshal2mnl_defs gpshal_set_gps_state_def
      gpshal_set_gps_state_intent_def Let_def split: prod.splits)

lemma mnld_agrees:
  "hal_agrees h \<Longrightarrow> (\<And>m. ok m) \<Longrightarrow> gpshal_mnl2hal_interface p ok m h = Some h' \<Longrightarrow> hal_agrees h'"
  by (cases m) (auto simp: hal_agrees_def worker_defs gpshal2mnl_defs gpshal_set_gps_state_def Let_def
      split: if_splits option.splits gpshal_state.splits)

lemma step_agrees: "hal_agrees h \<Longrightarrow> (\<And>m. ok m) \<Longrightarrow> hal_step p ok ev h = Some h' \<Longrightarrow> hal_agrees h'"
  by (cases ev) (auto intro: fwk_agrees mnld_agrees)

lemma run_agrees:
  "hal_agrees h \<Longrightarrow> list_all (\<lambda>(ok, ev). \<forall>m. ok m) evs \<Longrightarrow> hal_run p evs h = Some h' \<Longrightarrow> hal_agrees h'"
proof (induction evs arbitrary: h)
  case (Cons x evs)
  obtain ok ev where x: "x = (ok, ev)" by fastforce
  with Cons.prems obtain h1 where h1: "hal_step p ok ev h = Some h1" "hal_run p evs h1 = Some h'"
    by (auto simp: bind_eq_Some_conv)
  have "hal_agrees h1" using Cons.prems x by (auto intro: step_agrees [OF _ _ h1(1)])
  then show ?case using Cons.IH [OF _ _ h1(2)] Cons.prems(2) by simp
qed simp

text \<open>The HAL is quiet: no location is wanted and none would be reported.\<close>

definition hal_quiet :: "gpshal \<Rightarrow> bool" where
  "hal_quiet h \<longleftrightarrow> hal_state h \<noteq> GPSHAL_STATE_START \<and> gps_state_intent h \<noteq> GPSHAL_STATE_START"

lemma locations_emit [simp]:
  "locations (hal_emit (To_mnld m) h) = locations h" "locations (hal_tell ok m h) = locations h"
  "locations (h\<lparr>hal_state := st\<rparr>) = locations h" "locations (h\<lparr>gps_state_intent := st\<rparr>) = locations h"
  "locations (h\<lparr>limiter := r\<rparr>) = locations h" "locations (h\<lparr>gps_cbs := b\<rparr>) = locations h"
  "locations (h\<lparr>agps_cbs := b\<rparr>) = locations h" "locations (h\<lparr>gpsni_cbs := b\<rparr>) = locations h"
  "locations (h\<lparr>agpsril_cbs := b\<rparr>) = locations h" "locations (h\<lparr>meas_cbs := b\<rparr>) = locations h"
  "locations (h\<lparr>navimsg_cbs := b\<rparr>) = locations h" "locations (h\<lparr>vzw_debug_cbs := b\<rparr>) = locations h"
  by (simp_all add: locations_def hal_sets)

lemma locations_call:
  "locations (hal_emit (To_fwk c) h) = locations h @ (case c of Location_cb l \<Rightarrow> [l] | _ \<Rightarrow> [])"
  by (simp add: locations_def hal_emit_def)

lemma fwk_quiet:
  "hal_quiet h \<Longrightarrow> q \<noteq> Start \<Longrightarrow> hal_quiet (gps_interface p ok q h) \<and> locations (gps_interface p ok q h) = locations h"
  by (cases q) (auto simp: hal_quiet_def gpsinf_defs gpshal2mnl_defs gpshal_set_gps_state_def
      gpshal_set_gps_state_intent_def Let_def locations_call split: prod.splits)

lemma mnld_quiet:
  "hal_quiet h \<Longrightarrow> gpshal_mnl2hal_interface p ok m h = Some h' \<Longrightarrow> hal_quiet h' \<and> locations h' = locations h"
  by (cases m) (auto simp: hal_quiet_def worker_defs gpshal2mnl_defs gpshal_set_gps_state_def Let_def
      locations_call split: if_splits option.splits gpshal_state.splits)

lemma run_quiet:
  "hal_quiet h \<Longrightarrow> list_all (\<lambda>(ok, ev). ev \<noteq> From_fwk Start) evs \<Longrightarrow> hal_run p evs h = Some h' \<Longrightarrow>
     hal_quiet h' \<and> locations h' = locations h"
proof (induction evs arbitrary: h)
  case (Cons x evs)
  obtain ok ev where x: "x = (ok, ev)" by fastforce
  with Cons.prems obtain h1 where h1: "hal_step p ok ev h = Some h1" "hal_run p evs h1 = Some h'"
    by (auto simp: bind_eq_Some_conv)
  have "hal_quiet h1 \<and> locations h1 = locations h"
    using Cons.prems x h1(1) fwk_quiet mnld_quiet by (cases ev) auto
  then show ?case using Cons.IH [OF _ _ h1(2)] Cons.prems(2) by simp
qed simp

section \<open>Properties\<close>

text \<open>C13: while its requests get through, the HAL is in the state the framework asked for last: in
  every run from the start of the process in which no send fails, either the HAL has no resources
  yet, or its state is the intended one, a stopped receiver that was initialised anew after a
  restart of the daemon counting as stopped.\<close>

theorem hal_state_as_intended:
  assumes "hal_run p evs g_gpshal_ctx = Some h" "list_all (\<lambda>(ok, ev). \<forall>m. ok m) evs"
    "hal_state h \<noteq> GPSHAL_STATE_UNKNOWN"
  shows "hal_state h = gps_state_intent h \<or>
    hal_state h = GPSHAL_STATE_INIT \<and> gps_state_intent h = GPSHAL_STATE_STOP"
proof -
  have "hal_agrees g_gpshal_ctx" by (simp add: hal_agrees_def g_gpshal_ctx_def)
  from run_agrees [OF this assms(2,1)] assms(3) show ?thesis by (auto simp: hal_agrees_def)
qed

definition platform_default :: platform where
  "platform_default = \<lparr>GNSS_MAX_SVS = 64, NI_SHORT_STRING_MAXLEN = 256, NI_LONG_STRING_MAXLEN = 2048,
     REF_LOCATION_TYPE_GSM_CELLID = 1, REF_LOCATION_TYPE_UMTS_CELLID = 2\<rparr>"

definition resources_ok :: resources where
  "resources_ok = \<lparr>socket_ok = True, epoll_ok = True, epoll_add_ok = True, thread_ok = True\<rparr>"

theorem hal_state_as_intended_witness:
  "\<exists>h. hal_run platform_default [(\<lambda>_. True, From_fwk (Init ''0x6739'' resources_ok True)), (\<lambda>_. True, From_fwk Stop),
       (\<lambda>_. True, From_mnld Mnld_reboot)] g_gpshal_ctx = Some h \<and>
     hal_state h = GPSHAL_STATE_INIT \<and> gps_state_intent h = GPSHAL_STATE_STOP"
proof -
  let ?evs = "[(\<lambda>_. True, From_fwk (Init ''0x6739'' resources_ok True)), (\<lambda>_. True, From_fwk Stop),
    (\<lambda>_. True, From_mnld Mnld_reboot)]"
  obtain h where h: "hal_run platform_default ?evs g_gpshal_ctx = Some h" "hal_state h = GPSHAL_STATE_INIT"
      "gps_state_intent h = GPSHAL_STATE_STOP"
    by (simp add: gpsinf_defs gpshal2mnl_defs hal_sets worker_defs g_gpshal_ctx_def resources_ok_def)
  from hal_state_as_intended [OF h(1)] h show ?thesis by auto
qed



lemma quiet_grows: "quiet f \<Longrightarrow> x \<in> set (out s) \<Longrightarrow> x \<in> set (out (f s))"
  using quiet_out [of f s] by auto

lemma boot_announces: "To_hal Mnld_reboot \<in> set (out (boot chip_id))"
  unfolding boot_def mnld_init_def notify_reboot_def
  by (intro quiet_grows [OF quiet_reboot]) (simp add: emit_def)

text \<open>C15: a restart of the daemon is repaired by the HAL. The daemon announces itself when it
  boots; a HAL that is meant to be running answers with an initialisation and a start request,
  which the new daemon serves: after the control thread's confirmations the receiver is started,
  the HAL has been told so, and the HAL hands locations to the framework again.\<close>

theorem daemon_restart_repaired:
  assumes "gps_state_intent h = GPSHAL_STATE_START" "hal_state h \<noteq> GPSHAL_STATE_UNKNOWN" "gps_cbs h"
  shows "To_hal Mnld_reboot \<in> set (out (boot chip_id)) \<and>
    (\<exists>h' s'. hal_step p (\<lambda>_. True) (From_mnld Mnld_reboot) h = Some h' \<and>
       res_bind (daemon_run (map (\<lambda>m. (e, From_hal m)) (drop (length (requests h)) (requests h'))) (boot chip_id))
         (settle 3 e) = Inr s' \<and>
       state_of s' = STARTED \<and> used Hal s' \<and>
       hal_status s' = hal_status (boot chip_id) @ [SESSION_ENGINE_ON, SESSION_BEGIN] \<and>
       (\<forall>l. \<exists>h''. update_location l h' = Some h'' \<and> locations h'' = locations h' @ [l]))"
proof -
  define h' where "h' = update_mnld_reboot (\<lambda>_. True) h"
  have h': "requests h' = requests h @ [Gps_init, hal2mnl_msg.Gps_start]" "hal_state h' = GPSHAL_STATE_START" "gps_cbs h'"
    using assms by (simp_all add: h'_def update_mnld_reboot_def gpshal2mnl_defs hal_sets requests_def)
  define s0 where "s0 = emit (To_agps Agps_gps_init) (set_gps (\<lambda>g. g\<lparr>is_gps_init := True\<rparr>) (boot chip_id))"
  obtain s' where s': "res_bind (hal_gps_start e s0) (settle 3 e) = Inr s'" "state_of s' = STARTED" "used Hal s'"
    "hal_status s' = hal_status s0 @ [SESSION_ENGINE_ON, SESSION_BEGIN]"
    using hal_start_settles [of e s0] by auto
  have st: "hal_status s0 = hal_status (boot chip_id)" by (simp add: s0_def frame_simps)
  have "res_bind (daemon_run (map (\<lambda>m. (e, From_hal m)) [Gps_init, hal2mnl_msg.Gps_start]) (boot chip_id)) (settle 3 e) = Inr s'"
    using s'(1) by (cases "hal_gps_start e s0") (simp_all add: hal_gps_init_def s0_def)
  moreover have "To_hal Mnld_reboot \<in> set (out (boot chip_id))" by (rule boot_announces)
  moreover have "\<exists>h''. update_location l h' = Some h'' \<and> locations h'' = locations h' @ [l]" for l
    using h' by (simp add: update_location_def call_if_def locations_call)
  ultimately show ?thesis using s' st h' by (auto simp: h'_def)
qed

theorem daemon_restart_repaired_witness:
  "\<exists>h' s'. hal_step platform_default (\<lambda>_. True) (From_mnld Mnld_reboot)
       (g_gpshal_ctx\<lparr>gps_cbs := True, hal_state := GPSHAL_STATE_START, gps_state_intent := GPSHAL_STATE_START\<rparr>) = Some h' \<and>
     res_bind (daemon_run (map (\<lambda>m. (env_default, From_hal m)) (requests h')) (boot ''0x6739'')) (settle 3 env_default) = Inr s' \<and>
     state_of s' = STARTED"
proof -
  let ?h = "g_gpshal_ctx\<lparr>gps_cbs := True, hal_state := GPSHAL_STATE_START, gps_state_intent := GPSHAL_STATE_START\<rparr>"
  have "requests ?h = []" by (simp add: requests_def g_gpshal_ctx_def)
  then show ?thesis
    using daemon_restart_repaired [of ?h "''0x6739''" platform_default env_default]
    by (auto simp: g_gpshal_ctx_def simp del: daemon_run.simps settle.simps)
qed

text \<open>Once the framework has registered all its callback tables, the HAL can take every message
  of the daemon except two kinds: a debug text that is absent and a network-initiated notification
  one of whose texts is absent, which it dereferences. It takes everything else, satellite reports
  with any claimed number of satellites included, when the platform's satellite limit is not larger
  than the 64 entries of the daemon's list.\<close>

theorem hal_takes_all_but_absent_texts:
  assumes "gps_cbs h" "agps_cbs h" "gpsni_cbs h" "meas_cbs h" "navimsg_cbs h" "GNSS_MAX_SVS p \<le> 64"
  shows "gpshal_mnl2hal_interface p ok m h = None \<longleftrightarrow>
    m = Output_vzw_debug None \<or>
    (\<exists>i n t r c re ce. m = Request_ni_notify i n t r c re ce \<and> (r = None \<or> c = None))"
  using assms by (cases m) (auto simp: worker_defs MTK_HAL_GNSS_MAX_SVS_def Let_def split: option.splits)

theorem hal_takes_all_but_absent_texts_witness:
  "gpshal_mnl2hal_interface platform_default (\<lambda>_. True) (Output_vzw_debug None)
     (g_gpshal_ctx\<lparr>gps_cbs := True, agps_cbs := True, gpsni_cbs := True, meas_cbs := True, navimsg_cbs := True\<rparr>) = None \<and>
   gpshal_mnl2hal_interface platform_default (\<lambda>_. True) (Gps_sv (le32 1000 @ replicate 1280 0))
     (g_gpshal_ctx\<lparr>gps_cbs := True, agps_cbs := True, gpsni_cbs := True, meas_cbs := True, navimsg_cbs := True\<rparr>) \<noteq> None"
  by (subst (1 2) hal_takes_all_but_absent_texts) (simp_all add: platform_default_def)

end
