(* ===== verification/Agps_Wire.thy ===== *)
theory Agps_Wire
  imports Agps_Settings
begin

text \<open>
  The protocol between the daemon and the AGPS daemon: the senders and the handler of
  \<open>gps/mtk_mnld/mnl_agps_interface/src/mnl2agps_interface.c\<close> (the daemon's side) and of
  \<open>agps2mnl_interface.c\<close> (the library the AGPS daemon links). As in \<open>Hal2Mnl\<close>, a sender yields its
  datagram, \<open>None\<close> if it wrote past its buffer; a handler yields the callback it invoked, if any,
  and \<open>None\<close> for an access outside its buffers. A \<open>char\<close> is unsigned, as on ARM. A local struct
  that the handler does not initialise holds arbitrary bytes (\<open>junk\<close>).
\<close>

named_theorems agps_defs

section \<open>Message types\<close>

text \<open>The two halves of the enumeration \<open>mnl_agps_type\<close>, by direction.\<close>

datatype mnl2agps_type =
    MNL_AGPS_TYPE_MNL_REBOOT
  | MNL_AGPS_TYPE_AGPS_OPEN_GPS_DONE
  | MNL_AGPS_TYPE_AGPS_CLOSE_GPS_DONE
  | MNL_AGPS_TYPE_AGPS_RESET_GPS_DONE
  | MNL_AGPS_TYPE_GPS_INIT
  | MNL_AGPS_TYPE_GPS_CLEANUP
  | MNL_AGPS_TYPE_DELETE_AIDING_DATA
  | MNL_AGPS_TYPE_GPS_OPEN
  | MNL_AGPS_TYPE_GPS_CLOSE
  | MNL_AGPS_TYPE_DATA_CONN_OPEN
  | MNL_AGPS_TYPE_DATA_CONN_FAILED
  | MNL_AGPS_TYPE_DATA_CONN_CLOSED
  | MNL_AGPS_TYPE_NI_MESSAGE
  | MNL_AGPS_TYPE_NI_RESPOND
  | MNL_AGPS_TYPE_SET_REF_LOC
  | MNL_AGPS_TYPE_SET_SET_ID
  | MNL_AGPS_TYPE_SET_SERVER
  | MNL_AGPS_TYPE_UPDATE_NETWORK_STATE
  | MNL_AGPS_TYPE_UPDATE_NETWORK_AVAILABILITY
  | MNL_AGPS_TYPE_DATA_CONN_OPEN_IP_TYPE
  | MNL_AGPS_TYPE_INSTALL_CERTIFICATES
  | MNL_AGPS_TYPE_REVOKE_CERTIFICATES
  | MNL_AGPS_TYPE_MNL2AGPS_PMTK
  | MNL_AGPS_TYPE_RAW_DBG
  | MNL_AGPS_TYPE_REAIDING
  | MNL_AGPS_TYPE_LOCATION_SYNC
  | MNL_AGPS_TYPE_SETTINGS_ACK
  | MNL_AGPS_TYPE_VZW_DEBUG_SCREEN_ENABLE
  | MNL_AGPS_TYPE_SET_SERVER_EXTENSION
  | MNL_AGPS_TYPE_UPDATE_CONFIGURATION
  | MNL_AGPS_TYPE_SUPL_HOST_IP
  | MNL_AGPS_TYPE_TC10_LPP_SUPPORT
  | MNL_AGPS_TYPE_LPPE_ASSIST_DATA_REQ
  | MNL_AGPS_TYPE_LPPE_ASSIST_DATA_PROVIDE_ACK
  | MNL_AGPS_TYPE_SET_POSITION_MODE

fun mnl2agps_code :: "mnl2agps_type \<Rightarrow> u32" where
    "mnl2agps_code MNL_AGPS_TYPE_MNL_REBOOT = 100"
  | "mnl2agps_code MNL_AGPS_TYPE_AGPS_OPEN_GPS_DONE = 110"
  | "mnl2agps_code MNL_AGPS_TYPE_AGPS_CLOSE_GPS_DONE = 111"
  | "mnl2agps_code MNL_AGPS_TYPE_AGPS_RESET_GPS_DONE = 112"
  | "mnl2agps_code MNL_AGPS_TYPE_GPS_INIT = 120"
  | "mnl2agps_code MNL_AGPS_TYPE_GPS_CLEANUP = 121"
  | "mnl2agps_code MNL_AGPS_TYPE_DELETE_AIDING_DATA = 122"
  | "mnl2agps_code MNL_AGPS_TYPE_GPS_OPEN = 123"
  | "mnl2agps_code MNL_AGPS_TYPE_GPS_CLOSE = 124"
  | "mnl2agps_code MNL_AGPS_TYPE_DATA_CONN_OPEN = 125"
  | "mnl2agps_code MNL_AGPS_TYPE_DATA_CONN_FAILED = 126"
  | "mnl2agps_code MNL_AGPS_TYPE_DATA_CONN_CLOSED = 127"
  | "mnl2agps_code MNL_AGPS_TYPE_NI_MESSAGE = 128"
  | "mnl2agps_code MNL_AGPS_TYPE_NI_RESPOND = 129"
  | "mnl2agps_code MNL_AGPS_TYPE_SET_REF_LOC = 130"
  | "mnl2agps_code MNL_AGPS_TYPE_SET_SET_ID = 131"
  | "mnl2agps_code MNL_AGPS_TYPE_SET_SERVER = 132"
  | "mnl2agps_code MNL_AGPS_TYPE_UPDATE_NETWORK_STATE = 133"
  | "mnl2agps_code MNL_AGPS_TYPE_UPDATE_NETWORK_AVAILABILITY = 134"
  | "mnl2agps_code MNL_AGPS_TYPE_DATA_CONN_OPEN_IP_TYPE = 135"
  | "mnl2agps_code MNL_AGPS_TYPE_INSTALL_CERTIFICATES = 136"
  | "mnl2agps_code MNL_AGPS_TYPE_REVOKE_CERTIFICATES = 137"
  | "mnl2agps_code MNL_AGPS_TYPE_MNL2AGPS_PMTK = 150"
  | "mnl2agps_code MNL_AGPS_TYPE_RAW_DBG = 151"
  | "mnl2agps_code MNL_AGPS_TYPE_REAIDING = 152"
  | "mnl2agps_code MNL_AGPS_TYPE_LOCATION_SYNC = 153"
  | "mnl2agps_code MNL_AGPS_TYPE_SETTINGS_ACK = 154"
  | "mnl2agps_code MNL_AGPS_TYPE_VZW_DEBUG_SCREEN_ENABLE = 155"
  | "mnl2agps_code MNL_AGPS_TYPE_SET_SERVER_EXTENSION = 156"
  | "mnl2agps_code MNL_AGPS_TYPE_UPDATE_CONFIGURATION = 157"
  | "mnl2agps_code MNL_AGPS_TYPE_SUPL_HOST_IP = 158"
  | "mnl2agps_code MNL_AGPS_TYPE_TC10_LPP_SUPPORT = 159"
  | "mnl2agps_code MNL_AGPS_TYPE_LPPE_ASSIST_DATA_REQ = 160"
  | "mnl2agps_code MNL_AGPS_TYPE_LPPE_ASSIST_DATA_PROVIDE_ACK = 161"
  | "mnl2agps_code MNL_AGPS_TYPE_SET_POSITION_MODE = 162"

definition mnl2agps_types :: "mnl2agps_type list" where
  "mnl2agps_types = [MNL_AGPS_TYPE_MNL_REBOOT,
     MNL_AGPS_TYPE_AGPS_OPEN_GPS_DONE,
     MNL_AGPS_TYPE_AGPS_CLOSE_GPS_DONE,
     MNL_AGPS_TYPE_AGPS_RESET_GPS_DONE,
     MNL_AGPS_TYPE_GPS_INIT,
     MNL_AGPS_TYPE_GPS_CLEANUP,
     MNL_AGPS_TYPE_DELETE_AIDING_DATA,
     MNL_AGPS_TYPE_GPS_OPEN,
     MNL_AGPS_TYPE_GPS_CLOSE,
     MNL_AGPS_TYPE_DATA_CONN_OPEN,
     MNL_AGPS_TYPE_DATA_CONN_FAILED,
     MNL_AGPS_TYPE_DATA_CONN_CLOSED,
     MNL_AGPS_TYPE_NI_MESSAGE,
     MNL_AGPS_TYPE_NI_RESPOND,
     MNL_AGPS_TYPE_SET_REF_LOC,
     MNL_AGPS_TYPE_SET_SET_ID,
     MNL_AGPS_TYPE_SET_SERVER,
     MNL_AGPS_TYPE_UPDATE_NETWORK_STATE,
     MNL_AGPS_TYPE_UPDATE_NETWORK_AVAILABILITY,
     MNL_AGPS_TYPE_DATA_CONN_OPEN_IP_TYPE,
     MNL_AGPS_TYPE_INSTALL_CERTIFICATES,
     MNL_AGPS_TYPE_REVOKE_CERTIFICATES,
     MNL_AGPS_TYPE_MNL2AGPS_PMTK,
     MNL_AGPS_TYPE_RAW_DBG,
     MNL_AGPS_TYPE_REAIDING,
     MNL_AGPS_TYPE_LOCATION_SYNC,
     MNL_AGPS_TYPE_SETTINGS_ACK,
     MNL_AGPS_TYPE_VZW_DEBUG_SCREEN_ENABLE,
     MNL_AGPS_TYPE_SET_SERVER_EXTENSION,
     MNL_AGPS_TYPE_UPDATE_CONFIGURATION,
     MNL_AGPS_TYPE_SUPL_HOST_IP,
     MNL_AGPS_TYPE_TC10_LPP_SUPPORT,
     MNL_AGPS_TYPE_LPPE_ASSIST_DATA_REQ,
     MNL_AGPS_TYPE_LPPE_ASSIST_DATA_PROVIDE_ACK,
     MNL_AGPS_TYPE_SET_POSITION_MODE]"

definition mnl2agps_of_code :: "u32 \<Rightarrow> mnl2agps_type option" where
  "mnl2agps_of_code v = find (\<lambda>c. mnl2agps_code c = v) mnl2agps_types"

datatype agps2mnl_type =
    MNL_AGPS_TYPE_AGPS_REBOOT
  | MNL_AGPS_TYPE_AGPS_OPEN_GPS_REQ
  | MNL_AGPS_TYPE_AGPS_CLOSE_GPS_REQ
  | MNL_AGPS_TYPE_AGPS_RESET_GPS_REQ
  | MNL_AGPS_TYPE_AGPS_SESSION_DONE
  | MNL_AGPS_TYPE_NI_NOTIFY
  | MNL_AGPS_TYPE_DATA_CONN_REQ
  | MNL_AGPS_TYPE_DATA_CONN_RELEASE
  | MNL_AGPS_TYPE_SET_ID_REQ
  | MNL_AGPS_TYPE_REF_LOC_REQ
  | MNL_AGPS_TYPE_AGPS_LOC
  | MNL_AGPS_TYPE_NI_NOTIFY_2
  | MNL_AGPS_TYPE_DATA_CONN_REQ2
  | MNL_AGPS_TYPE_SUPL_DNS_REQ
  | MNL_AGPS_TYPE_AGPS2MNL_PMTK
  | MNL_AGPS_TYPE_GPEVT
  | MNL_AGPS_TYPE_SETTINGS_SYNC
  | MNL_AGPS_TYPE_VZW_DEBUG_SCREEN_OUTPUT
  | MNL_AGPS_TYPE_CELL_LOCATION
  | MNL_AGPS_TYPE_LPPE_ASSIST_COMMON_IONO
  | MNL_AGPS_TYPE_LPPE_ASSIST_COMMON_TROP
  | MNL_AGPS_TYPE_LPPE_ASSIST_COMMON_ALT
  | MNL_AGPS_TYPE_LPPE_ASSIST_COMMON_SOLAR
  | MNL_AGPS_TYPE_LPPE_ASSIST_COMMON_CCP
  | MNL_AGPS_TYPE_LPPE_ASSIST_GENERIC_CCP
  | MNL_AGPS_TYPE_LPPE_ASSIST_GENERIC_DM

fun agps2mnl_code :: "agps2mnl_type \<Rightarrow> u32" where
    "agps2mnl_code MNL_AGPS_TYPE_AGPS_REBOOT = 200"
  | "agps2mnl_code MNL_AGPS_TYPE_AGPS_OPEN_GPS_REQ = 210"
  | "agps2mnl_code MNL_AGPS_TYPE_AGPS_CLOSE_GPS_REQ = 211"
  | "agps2mnl_code MNL_AGPS_TYPE_AGPS_RESET_GPS_REQ = 212"
  | "agps2mnl_code MNL_AGPS_TYPE_AGPS_SESSION_DONE = 220"
  | "agps2mnl_code MNL_AGPS_TYPE_NI_NOTIFY = 230"
  | "agps2mnl_code MNL_AGPS_TYPE_DATA_CONN_REQ = 231"
  | "agps2mnl_code MNL_AGPS_TYPE_DATA_CONN_RELEASE = 232"
  | "agps2mnl_code MNL_AGPS_TYPE_SET_ID_REQ = 233"
  | "agps2mnl_code MNL_AGPS_TYPE_REF_LOC_REQ = 234"
  | "agps2mnl_code MNL_AGPS_TYPE_AGPS_LOC = 235"
  | "agps2mnl_code MNL_AGPS_TYPE_NI_NOTIFY_2 = 236"
  | "agps2mnl_code MNL_AGPS_TYPE_DATA_CONN_REQ2 = 237"
  | "agps2mnl_code MNL_AGPS_TYPE_SUPL_DNS_REQ = 238"
  | "agps2mnl_code MNL_AGPS_TYPE_AGPS2MNL_PMTK = 250"
  | "agps2mnl_code MNL_AGPS_TYPE_GPEVT = 251"
  | "agps2mnl_code MNL_AGPS_TYPE_SETTINGS_SYNC = 252"
  | "agps2mnl_code MNL_AGPS_TYPE_VZW_DEBUG_SCREEN_OUTPUT = 253"
  | "agps2mnl_code MNL_AGPS_TYPE_CELL_LOCATION = 254"
  | "agps2mnl_code MNL_AGPS_TYPE_LPPE_ASSIST_COMMON_IONO = 255"
  | "agps2mnl_code MNL_AGPS_TYPE_LPPE_ASSIST_COMMON_TROP = 256"
  | "agps2mnl_code MNL_AGPS_TYPE_LPPE_ASSIST_COMMON_ALT = 257"
  | "agps2mnl_code MNL_AGPS_TYPE_LPPE_ASSIST_COMMON_SOLAR = 258"
  | "agps2mnl_code MNL_AGPS_TYPE_LPPE_ASSIST_COMMON_CCP = 259"
  | "agps2mnl_code MNL_AGPS_TYPE_LPPE_ASSIST_GENERIC_CCP = 260"
  | "agps2mnl_code MNL_AGPS_TYPE_LPPE_ASSIST_GENERIC_DM = 261"

definition agps2mnl_types :: "agps2mnl_type list" where
  "agps2mnl_types = [MNL_AGPS_TYPE_AGPS_REBOOT,
     MNL_AGPS_TYPE_AGPS_OPEN_GPS_REQ,
     MNL_AGPS_TYPE_AGPS_CLOSE_GPS_REQ,
     MNL_AGPS_TYPE_AGPS_RESET_GPS_REQ,
     MNL_AGPS_TYPE_AGPS_SESSION_DONE,
     MNL_AGPS_TYPE_NI_NOTIFY,
     MNL_AGPS_TYPE_DATA_CONN_REQ,
     MNL_AGPS_TYPE_DATA_CONN_RELEASE,
     MNL_AGPS_TYPE_SET_ID_REQ,
     MNL_AGPS_TYPE_REF_LOC_REQ,
     MNL_AGPS_TYPE_AGPS_LOC,
     MNL_AGPS_TYPE_NI_NOTIFY_2,
     MNL_AGPS_TYPE_DATA_CONN_REQ2,
     MNL_AGPS_TYPE_SUPL_DNS_REQ,
     MNL_AGPS_TYPE_AGPS2MNL_PMTK,
     MNL_AGPS_TYPE_GPEVT,
     MNL_AGPS_TYPE_SETTINGS_SYNC,
     MNL_AGPS_TYPE_VZW_DEBUG_SCREEN_OUTPUT,
     MNL_AGPS_TYPE_CELL_LOCATION,
     MNL_AGPS_TYPE_LPPE_ASSIST_COMMON_IONO,
     MNL_AGPS_TYPE_LPPE_ASSIST_COMMON_TROP,
     MNL_AGPS_TYPE_LPPE_ASSIST_COMMON_ALT,
     MNL_AGPS_TYPE_LPPE_ASSIST_COMMON_SOLAR,
     MNL_AGPS_TYPE_LPPE_ASSIST_COMMON_CCP,
     MNL_AGPS_TYPE_LPPE_ASSIST_GENERIC_CCP,
     MNL_AGPS_TYPE_LPPE_ASSIST_GENERIC_DM]"

definition agps2mnl_of_code :: "u32 \<Rightarrow> agps2mnl_type option" where
  "agps2mnl_of_code v = find (\<lambda>c. agps2mnl_code c = v) agps2mnl_types"

definition MNL_AGPS_MAX_BUFF_SIZE :: nat where
  "MNL_AGPS_MAX_BUFF_SIZE = 64 * 1024"

definition MNL_AGPS_INTERFACE_VERSION :: u32 where
  "MNL_AGPS_INTERFACE_VERSION = 1"

text \<open>The body every sender of either side shares.\<close>

definition agps_send :: "u32 \<Rightarrow> (cbuf \<Rightarrow> cbuf option) \<Rightarrow> bytes option" where
  "agps_send type put = do {
     b \<leftarrow> put_int MNL_AGPS_INTERFACE_VERSION (new_buff MNL_AGPS_MAX_BUFF_SIZE);
     b \<leftarrow> put_int type b;
     b \<leftarrow> put b;
     Some (sent b) }"

section \<open>From the daemon to AGPS\<close>

definition mnl2agps_mnl_reboot :: "bytes option" where [agps_defs]:
  "mnl2agps_mnl_reboot = agps_send (mnl2agps_code MNL_AGPS_TYPE_MNL_REBOOT) Some"

definition mnl2agps_open_gps_done :: "bytes option" where [agps_defs]:
  "mnl2agps_open_gps_done = agps_send (mnl2agps_code MNL_AGPS_TYPE_AGPS_OPEN_GPS_DONE) Some"

definition mnl2agps_close_gps_done :: "bytes option" where [agps_defs]:
  "mnl2agps_close_gps_done = agps_send (mnl2agps_code MNL_AGPS_TYPE_AGPS_CLOSE_GPS_DONE) Some"

definition mnl2agps_reset_gps_done :: "bytes option" where [agps_defs]:
  "mnl2agps_reset_gps_done = agps_send (mnl2agps_code MNL_AGPS_TYPE_AGPS_RESET_GPS_DONE) Some"

definition mnl2agps_gps_init :: "bytes option" where [agps_defs]:
  "mnl2agps_gps_init = agps_send (mnl2agps_code MNL_AGPS_TYPE_GPS_INIT) Some"

definition mnl2agps_gps_cleanup :: "bytes option" where [agps_defs]:
  "mnl2agps_gps_cleanup = agps_send (mnl2agps_code MNL_AGPS_TYPE_GPS_CLEANUP) Some"

definition mnl2agps_set_server :: "u32 \<Rightarrow> bytes option \<Rightarrow> u32 \<Rightarrow> bytes option" where [agps_defs]:
  "mnl2agps_set_server type hostname port = agps_send (mnl2agps_code MNL_AGPS_TYPE_SET_SERVER)
    (\<lambda>b. do {
     b \<leftarrow> put_int type b;
     b \<leftarrow> put_string hostname b;
     put_int port b })"

definition mnl2agps_delete_aiding_data :: "u32 \<Rightarrow> bytes option" where [agps_defs]:
  "mnl2agps_delete_aiding_data fl = agps_send (mnl2agps_code MNL_AGPS_TYPE_DELETE_AIDING_DATA)
    (put_int fl)"

definition mnl2agps_gps_open :: "u32 \<Rightarrow> bytes option" where [agps_defs]:
  "mnl2agps_gps_open assist_req = agps_send (mnl2agps_code MNL_AGPS_TYPE_GPS_OPEN)
    (put_int assist_req)"

definition mnl2agps_gps_close :: "bytes option" where [agps_defs]:
  "mnl2agps_gps_close = agps_send (mnl2agps_code MNL_AGPS_TYPE_GPS_CLOSE) Some"

definition mnl2agps_data_conn_open :: "bytes option \<Rightarrow> bytes option" where [agps_defs]:
  "mnl2agps_data_conn_open apn = agps_send (mnl2agps_code MNL_AGPS_TYPE_DATA_CONN_OPEN)
    (put_string apn)"

definition mnl2agps_data_conn_open_ip_type :: "bytes option \<Rightarrow> u32 \<Rightarrow> bytes option" where [agps_defs]:
  "mnl2agps_data_conn_open_ip_type apn ip_type = agps_send (mnl2agps_code MNL_AGPS_TYPE_DATA_CONN_OPEN_IP_TYPE)
    (\<lambda>b. do {
     b \<leftarrow> put_string apn b;
     put_int ip_type b })"

definition mnl2agps_install_certificates :: "u32 \<Rightarrow> u32 \<Rightarrow> bytes \<Rightarrow> u32 \<Rightarrow> bytes option" where [agps_defs]:
  "mnl2agps_install_certificates index tot data len = agps_send (mnl2agps_code MNL_AGPS_TYPE_INSTALL_CERTIFICATES)
    (\<lambda>b. do {
     b \<leftarrow> put_int index b;
     b \<leftarrow> put_int tot b;
     put_binary data len b })"

definition mnl2agps_revoke_certificates :: "bytes \<Rightarrow> u32 \<Rightarrow> bytes option" where [agps_defs]:
  "mnl2agps_revoke_certificates data len = agps_send (mnl2agps_code MNL_AGPS_TYPE_REVOKE_CERTIFICATES)
    (put_binary data len)"

definition mnl2agps_data_conn_failed :: "bytes option" where [agps_defs]:
  "mnl2agps_data_conn_failed = agps_send (mnl2agps_code MNL_AGPS_TYPE_DATA_CONN_FAILED) Some"

definition mnl2agps_data_conn_closed :: "bytes option" where [agps_defs]:
  "mnl2agps_data_conn_closed = agps_send (mnl2agps_code MNL_AGPS_TYPE_DATA_CONN_CLOSED) Some"

definition mnl2agps_ni_message :: "bytes \<Rightarrow> u32 \<Rightarrow> bytes option" where [agps_defs]:
  "mnl2agps_ni_message msg len = agps_send (mnl2agps_code MNL_AGPS_TYPE_NI_MESSAGE)
    (put_binary msg len)"

definition mnl2agps_ni_respond :: "u32 \<Rightarrow> u32 \<Rightarrow> bytes option" where [agps_defs]:
  "mnl2agps_ni_respond session_id user_response = agps_send (mnl2agps_code MNL_AGPS_TYPE_NI_RESPOND)
    (\<lambda>b. do {
     b \<leftarrow> put_int session_id b;
     put_int user_response b })"

definition mnl2agps_set_ref_loc :: "u32 \<Rightarrow> u32 \<Rightarrow> u32 \<Rightarrow> u32 \<Rightarrow> u32 \<Rightarrow> bytes option" where [agps_defs]:
  "mnl2agps_set_ref_loc type mcc mnc lac cid = agps_send (mnl2agps_code MNL_AGPS_TYPE_SET_REF_LOC)
    (\<lambda>b. do {
     b \<leftarrow> put_int type b;
     b \<leftarrow> put_int mcc b;
     b \<leftarrow> put_int mnc b;
     b \<leftarrow> put_int lac b;
     put_int cid b })"

definition mnl2agps_set_set_id :: "u32 \<Rightarrow> bytes option \<Rightarrow> bytes option" where [agps_defs]:
  "mnl2agps_set_set_id type setid = agps_send (mnl2agps_code MNL_AGPS_TYPE_SET_SET_ID)
    (\<lambda>b. do {
     b \<leftarrow> put_int type b;
     put_string setid b })"

definition mnl2agps_update_network_state :: "u32 \<Rightarrow> u32 \<Rightarrow> u32 \<Rightarrow> bytes option \<Rightarrow> bytes option" where [agps_defs]:
  "mnl2agps_update_network_state conn type roaming extra_info = agps_send (mnl2agps_code MNL_AGPS_TYPE_UPDATE_NETWORK_STATE)
    (\<lambda>b. do {
     b \<leftarrow> put_int conn b;
     b \<leftarrow> put_int type b;
     b \<leftarrow> put_int roaming b;
     put_string extra_info b })"

definition mnl2agps_update_network_availability :: "u32 \<Rightarrow> bytes option \<Rightarrow> bytes option" where [agps_defs]:
  "mnl2agps_update_network_availability avaiable apn = agps_send (mnl2agps_code MNL_AGPS_TYPE_UPDATE_NETWORK_AVAILABILITY)
    (\<lambda>b. do {
     b \<leftarrow> put_int avaiable b;
     put_string apn b })"

definition mnl2agps_pmtk :: "bytes option \<Rightarrow> bytes option" where [agps_defs]:
  "mnl2agps_pmtk pmtk = agps_send (mnl2agps_code MNL_AGPS_TYPE_MNL2AGPS_PMTK)
    (put_string pmtk)"

definition mnl2agps_raw_dbg :: "u32 \<Rightarrow> bytes option" where [agps_defs]:
  "mnl2agps_raw_dbg enabled = agps_send (mnl2agps_code MNL_AGPS_TYPE_RAW_DBG)
    (put_int enabled)"

definition mnl2agps_reaiding_req :: "bytes option" where [agps_defs]:
  "mnl2agps_reaiding_req = agps_send (mnl2agps_code MNL_AGPS_TYPE_REAIDING) Some"

definition mnl2agps_location_sync :: "u64 \<Rightarrow> u64 \<Rightarrow> u32 \<Rightarrow> bool \<Rightarrow> u32 \<Rightarrow> bool \<Rightarrow> bool \<Rightarrow> bool \<Rightarrow> bool \<Rightarrow> bytes option" where [agps_defs]:
  "mnl2agps_location_sync latitude longitude acc alt_valid altitude source_valid source_gnss source_nlp source_sensor = agps_send (mnl2agps_code MNL_AGPS_TYPE_LOCATION_SYNC)
    (\<lambda>b. do {
     b \<leftarrow> put_double latitude b;
     b \<leftarrow> put_double longitude b;
     b \<leftarrow> put_int acc b;
     b \<leftarrow> put_byte (of_bool alt_valid) b;
     b \<leftarrow> put_float altitude b;
     b \<leftarrow> put_byte (of_bool source_valid) b;
     b \<leftarrow> put_byte (of_bool source_gnss) b;
     b \<leftarrow> put_byte (of_bool source_nlp) b;
     put_byte (of_bool source_sensor) b })"

definition mnl2agps_set_position_mode :: "u32 \<Rightarrow> bytes option" where [agps_defs]:
  "mnl2agps_set_position_mode pos_mode = agps_send (mnl2agps_code MNL_AGPS_TYPE_SET_POSITION_MODE)
    (put_int pos_mode)"

definition mnl2agps_agps_settings_ack :: "u8 \<Rightarrow> u8 \<Rightarrow> u8 \<Rightarrow> u8 \<Rightarrow> bytes option" where [agps_defs]:
  "mnl2agps_agps_settings_ack gps_satellite_support glonass_satellite_support beidou_satellite_support galileo_satellite_support = agps_send (mnl2agps_code MNL_AGPS_TYPE_SETTINGS_ACK)
    (\<lambda>b. do {
     b \<leftarrow> put_int (ucast gps_satellite_support) b;
     b \<leftarrow> put_int (ucast glonass_satellite_support) b;
     b \<leftarrow> put_int (ucast beidou_satellite_support) b;
     put_int (ucast galileo_satellite_support) b })"

definition mnl2agps_vzw_debug_screen_enable :: "u32 \<Rightarrow> bytes option" where [agps_defs]:
  "mnl2agps_vzw_debug_screen_enable enabled = agps_send (mnl2agps_code MNL_AGPS_TYPE_VZW_DEBUG_SCREEN_ENABLE)
    (put_int enabled)"

definition mnl2agps_lppe_assist_data_req :: "bytes \<Rightarrow> u32 \<Rightarrow> bytes option" where [agps_defs]:
  "mnl2agps_lppe_assist_data_req data len = agps_send (mnl2agps_code MNL_AGPS_TYPE_LPPE_ASSIST_DATA_REQ)
    (put_binary data len)"

definition mnl2agps_lppe_assist_data_provide_ack :: "bytes \<Rightarrow> u32 \<Rightarrow> bytes option" where [agps_defs]:
  "mnl2agps_lppe_assist_data_provide_ack data len = agps_send (mnl2agps_code MNL_AGPS_TYPE_LPPE_ASSIST_DATA_PROVIDE_ACK)
    (put_binary data len)"

text \<open>The entries of \<open>mnl2agps_interface\<close>, with the arguments the handler passes.\<close>

datatype mnl2agps_msg =
    M2a_mnl_reboot
  | M2a_open_gps_done
  | M2a_close_gps_done
  | M2a_reset_gps_done
  | M2a_gps_init
  | M2a_gps_cleanup
  | M2a_set_server u32 "bytes option" u32
  | M2a_delete_aiding_data u32
  | M2a_gps_open u32
  | M2a_gps_close
  | M2a_data_conn_open "bytes option"
  | M2a_data_conn_open_ip_type "bytes option" u32
  | M2a_install_certificates u32 u32 bytes int
  | M2a_revoke_certificates bytes int
  | M2a_data_conn_failed
  | M2a_data_conn_closed
  | M2a_ni_message bytes int
  | M2a_ni_respond u32 u32
  | M2a_set_ref_loc u32 u32 u32 u32 u32
  | M2a_set_set_id u32 "bytes option"
  | M2a_update_network_state u32 u32 u32 "bytes option"
  | M2a_update_network_availability u32 "bytes option"
  | M2a_pmtk "bytes option"
  | M2a_raw_dbg u32
  | M2a_reaiding_req
  | M2a_location_sync u64 u64 u32 bool u32 bool bool bool bool
  | M2a_set_position_mode u32

fun mnl2agps_send :: "mnl2agps_msg \<Rightarrow> bytes option" where
    "mnl2agps_send M2a_mnl_reboot = mnl2agps_mnl_reboot"
  | "mnl2agps_send M2a_open_gps_done = mnl2agps_open_gps_done"
  | "mnl2agps_send M2a_close_gps_done = mnl2agps_close_gps_done"
  | "mnl2agps_send M2a_reset_gps_done = mnl2agps_reset_gps_done"
  | "mnl2agps_send M2a_gps_init = mnl2agps_gps_init"
  | "mnl2agps_send M2a_gps_cleanup = mnl2agps_gps_cleanup"
  | "mnl2agps_send (M2a_set_server type hostname port) = mnl2agps_set_server type hostname port"
  | "mnl2agps_send (M2a_delete_aiding_data fl) = mnl2agps_delete_aiding_data fl"
  | "mnl2agps_send (M2a_gps_open assist_req) = mnl2agps_gps_open assist_req"
  | "mnl2agps_send M2a_gps_close = mnl2agps_gps_close"
  | "mnl2agps_send (M2a_data_conn_open apn) = mnl2agps_data_conn_open apn"
  | "mnl2agps_send (M2a_data_conn_open_ip_type apn ip_type) = mnl2agps_data_conn_open_ip_type apn ip_type"
  | "mnl2agps_send (M2a_install_certificates index tot data len) = mnl2agps_install_certificates index tot data (of_int len)"
  | "mnl2agps_send (M2a_revoke_certificates data len) = mnl2agps_revoke_certificates data (of_int len)"
  | "mnl2agps_send M2a_data_conn_failed = mnl2agps_data_conn_failed"
  | "mnl2agps_send M2a_data_conn_closed = mnl2agps_data_conn_closed"
  | "mnl2agps_send (M2a_ni_message msg len) = mnl2agps_ni_message msg (of_int len)"
  | "mnl2agps_send (M2a_ni_respond session_id user_response) = mnl2agps_ni_respond session_id user_response"
  | "mnl2agps_send (M2a_set_ref_loc type mcc mnc lac cid) = mnl2agps_set_ref_loc type mcc mnc lac cid"
  | "mnl2agps_send (M2a_set_set_id type setid) = mnl2agps_set_set_id type setid"
  | "mnl2agps_send (M2a_update_network_state conn type roaming extra_info) = mnl2agps_update_network_state conn type roaming extra_info"
  | "mnl2agps_send (M2a_update_network_availability avaiable apn) = mnl2agps_update_network_availability avaiable apn"
  | "mnl2agps_send (M2a_pmtk pmtk) = mnl2agps_pmtk pmtk"
  | "mnl2agps_send (M2a_raw_dbg enabled) = mnl2agps_raw_dbg enabled"
  | "mnl2agps_send M2a_reaiding_req = mnl2agps_reaiding_req"
  | "mnl2agps_send (M2a_location_sync latitude longitude acc alt_valid altitude source_valid source_gnss source_nlp source_sensor) = mnl2agps_location_sync latitude longitude acc alt_valid altitude source_valid source_gnss source_nlp source_sensor"
  | "mnl2agps_send (M2a_set_position_mode pos_mode) = mnl2agps_set_position_mode pos_mode"

text \<open>
  The cases of the \<open>switch\<close> in \<open>mnl2agps_hdlr\<close>; a type without a case is \<open>Some None\<close>, as in its
  \<open>default\<close>.
\<close>

abbreviation agps_n :: int where
  "agps_n \<equiv> int MNL_AGPS_MAX_BUFF_SIZE"

fun mnl2agps_session_case :: "mnl2agps_type \<Rightarrow> cbuf \<Rightarrow> mnl2agps_msg option option" where
    "mnl2agps_session_case MNL_AGPS_TYPE_MNL_REBOOT b = Some (Some M2a_mnl_reboot)"
  | "mnl2agps_session_case MNL_AGPS_TYPE_AGPS_OPEN_GPS_DONE b = Some (Some M2a_open_gps_done)"
  | "mnl2agps_session_case MNL_AGPS_TYPE_AGPS_CLOSE_GPS_DONE b = Some (Some M2a_close_gps_done)"
  | "mnl2agps_session_case MNL_AGPS_TYPE_AGPS_RESET_GPS_DONE b = Some (Some M2a_reset_gps_done)"
  | "mnl2agps_session_case MNL_AGPS_TYPE_GPS_INIT b = Some (Some M2a_gps_init)"
  | "mnl2agps_session_case MNL_AGPS_TYPE_GPS_CLEANUP b = Some (Some M2a_gps_cleanup)"
  | "mnl2agps_session_case MNL_AGPS_TYPE_SET_SERVER b = do {
       (type, b) \<leftarrow> get_int agps_n b;
       (hostname, b) \<leftarrow> get_string agps_n b;
       (port, b) \<leftarrow> get_int agps_n b;
       Some (Some (M2a_set_server type (cstr_at (fst b) hostname) port)) }"
  | "mnl2agps_session_case MNL_AGPS_TYPE_DELETE_AIDING_DATA b = do {
       (fl, b) \<leftarrow> get_int agps_n b;
       Some (Some (M2a_delete_aiding_data fl)) }"
  | "mnl2agps_session_case MNL_AGPS_TYPE_GPS_OPEN b = do {
       (assist_req, b) \<leftarrow> get_int agps_n b;
       Some (Some (M2a_gps_open assist_req)) }"
  | "mnl2agps_session_case MNL_AGPS_TYPE_GPS_CLOSE b = Some (Some M2a_gps_close)"
  | "mnl2agps_session_case MNL_AGPS_TYPE_DATA_CONN_OPEN b = do {
       (apn, b) \<leftarrow> get_string agps_n b;
       Some (Some (M2a_data_conn_open (cstr_at (fst b) apn))) }"
  | "mnl2agps_session_case MNL_AGPS_TYPE_DATA_CONN_OPEN_IP_TYPE b = do {
       (apn, b) \<leftarrow> get_string agps_n b;
       (ip_type, b) \<leftarrow> get_int agps_n b;
       Some (Some (M2a_data_conn_open_ip_type (cstr_at (fst b) apn) ip_type)) }"
  | "mnl2agps_session_case _ b = Some None"

fun mnl2agps_data_case :: "mnl2agps_type \<Rightarrow> cbuf \<Rightarrow> mnl2agps_msg option option" where
    "mnl2agps_data_case MNL_AGPS_TYPE_INSTALL_CERTIFICATES b = do {
       (index, b) \<leftarrow> get_int agps_n b;
       (tot, b) \<leftarrow> get_int agps_n b;
       (len, data, b) \<leftarrow> get_binary agps_n (int MNL_AGPS_MAX_BUFF_SIZE) (replicate MNL_AGPS_MAX_BUFF_SIZE 0) b;
       Some (Some (M2a_install_certificates index tot data len)) }"
  | "mnl2agps_data_case MNL_AGPS_TYPE_REVOKE_CERTIFICATES b = do {
       (len, data, b) \<leftarrow> get_binary agps_n (int MNL_AGPS_MAX_BUFF_SIZE) (replicate MNL_AGPS_MAX_BUFF_SIZE 0) b;
       Some (Some (M2a_revoke_certificates data len)) }"
  | "mnl2agps_data_case MNL_AGPS_TYPE_DATA_CONN_FAILED b = Some (Some M2a_data_conn_failed)"
  | "mnl2agps_data_case MNL_AGPS_TYPE_DATA_CONN_CLOSED b = Some (Some M2a_data_conn_closed)"
  | "mnl2agps_data_case MNL_AGPS_TYPE_NI_MESSAGE b = do {
       (len, msg, b) \<leftarrow> get_binary agps_n 1024 (replicate 1024 0) b;
       Some (Some (M2a_ni_message msg len)) }"
  | "mnl2agps_data_case MNL_AGPS_TYPE_NI_RESPOND b = do {
       (session_id, b) \<leftarrow> get_int agps_n b;
       (user_response, b) \<leftarrow> get_int agps_n b;
       Some (Some (M2a_ni_respond session_id user_response)) }"
  | "mnl2agps_data_case MNL_AGPS_TYPE_SET_REF_LOC b = do {
       (type, b) \<leftarrow> get_int agps_n b;
       (mcc, b) \<leftarrow> get_int agps_n b;
       (mnc, b) \<leftarrow> get_int agps_n b;
       (lac, b) \<leftarrow> get_int agps_n b;
       (cid, b) \<leftarrow> get_int agps_n b;
       Some (Some (M2a_set_ref_loc type mcc mnc lac cid)) }"
  | "mnl2agps_data_case MNL_AGPS_TYPE_SET_SET_ID b = do {
       (type, b) \<leftarrow> get_int agps_n b;
       (setid, b) \<leftarrow> get_string agps_n b;
       Some (Some (M2a_set_set_id type (cstr_at (fst b) setid))) }"
  | "mnl2agps_data_case MNL_AGPS_TYPE_UPDATE_NETWORK_STATE b = do {
       (conn, b) \<leftarrow> get_int agps_n b;
       (type, b) \<leftarrow> get_int agps_n b;
       (roaming, b) \<leftarrow> get_int agps_n b;
       (extra_info, b) \<leftarrow> get_string agps_n b;
       Some (Some (M2a_update_network_state conn type roaming (cstr_at (fst b) extra_info))) }"
  | "mnl2agps_data_case MNL_AGPS_TYPE_UPDATE_NETWORK_AVAILABILITY b = do {
       (avaiable, b) \<leftarrow> get_int agps_n b;
       (apn, b) \<leftarrow> get_string agps_n b;
       Some (Some (M2a_update_network_availability avaiable (cstr_at (fst b) apn))) }"
  | "mnl2agps_data_case MNL_AGPS_TYPE_MNL2AGPS_PMTK b = do {
       (pmtk, b) \<leftarrow> get_string agps_n b;
       Some (Some (M2a_pmtk (cstr_at (fst b) pmtk))) }"
  | "mnl2agps_data_case MNL_AGPS_TYPE_RAW_DBG b = do {
       (enabled, b) \<leftarrow> get_int agps_n b;
       Some (Some (M2a_raw_dbg enabled)) }"
  | "mnl2agps_data_case MNL_AGPS_TYPE_REAIDING b = Some (Some M2a_reaiding_req)"
  | "mnl2agps_data_case MNL_AGPS_TYPE_LOCATION_SYNC b = do {
       (latitude, b) \<leftarrow> get_double agps_n b;
       (longitude, b) \<leftarrow> get_double agps_n b;
       (acc, b) \<leftarrow> get_int agps_n b;
       (alt_valid, b) \<leftarrow> get_byte agps_n b;
       (altitude, b) \<leftarrow> get_float agps_n b;
       (source_valid, b) \<leftarrow> get_byte agps_n b;
       (source_gnss, b) \<leftarrow> get_byte agps_n b;
       (source_nlp, b) \<leftarrow> get_byte agps_n b;
       (source_sensor, b) \<leftarrow> get_byte agps_n b;
       Some (Some (M2a_location_sync latitude longitude acc (alt_valid \<noteq> 0) altitude (source_valid \<noteq> 0) (source_gnss \<noteq> 0) (source_nlp \<noteq> 0) (source_sensor \<noteq> 0))) }"
  | "mnl2agps_data_case MNL_AGPS_TYPE_SET_POSITION_MODE b = do {
       (pos_mode, b) \<leftarrow> get_int agps_n b;
       Some (Some (M2a_set_position_mode pos_mode)) }"
  | "mnl2agps_data_case _ b = Some None"

definition is_session_type :: "mnl2agps_type \<Rightarrow> bool" where
  "is_session_type c \<longleftrightarrow> c \<in> {MNL_AGPS_TYPE_MNL_REBOOT,
     MNL_AGPS_TYPE_AGPS_OPEN_GPS_DONE,
     MNL_AGPS_TYPE_AGPS_CLOSE_GPS_DONE,
     MNL_AGPS_TYPE_AGPS_RESET_GPS_DONE,
     MNL_AGPS_TYPE_GPS_INIT,
     MNL_AGPS_TYPE_GPS_CLEANUP,
     MNL_AGPS_TYPE_SET_SERVER,
     MNL_AGPS_TYPE_DELETE_AIDING_DATA,
     MNL_AGPS_TYPE_GPS_OPEN,
     MNL_AGPS_TYPE_GPS_CLOSE,
     MNL_AGPS_TYPE_DATA_CONN_OPEN,
     MNL_AGPS_TYPE_DATA_CONN_OPEN_IP_TYPE}"

text \<open>\<open>hdlr c\<close> says whether the callback of type \<open>c\<close> is set.\<close>

definition mnl2agps_hdlr :: "(mnl2agps_type \<Rightarrow> bool) \<Rightarrow> bytes option \<Rightarrow> mnl2agps_msg option option" where
  "mnl2agps_hdlr hdlr recv =
     (case recv of
        None \<Rightarrow> Some None
      | Some d \<Rightarrow>
          if d = [] then Some None
          else do {
            (version, b) \<leftarrow> get_int agps_n (recv_buff MNL_AGPS_MAX_BUFF_SIZE d);
            (type, b) \<leftarrow> get_int agps_n b;
            (case mnl2agps_of_code type of
               None \<Rightarrow> Some None
             | Some c \<Rightarrow> do {
                 m \<leftarrow> (if is_session_type c then mnl2agps_session_case c b else mnl2agps_data_case c b);
                 Some (if hdlr c then m else None) }) })"

section \<open>From AGPS to the daemon\<close>

definition agps2mnl_agps_reboot :: "bytes option" where [agps_defs]:
  "agps2mnl_agps_reboot = agps_send (agps2mnl_code MNL_AGPS_TYPE_AGPS_REBOOT) Some"

definition agps2mnl_agps_open_gps_req :: "u32 \<Rightarrow> bytes option" where [agps_defs]:
  "agps2mnl_agps_open_gps_req show_gps_icon = agps_send (agps2mnl_code MNL_AGPS_TYPE_AGPS_OPEN_GPS_REQ)
    (put_int show_gps_icon)"

definition agps2mnl_agps_close_gps_req :: "bytes option" where [agps_defs]:
  "agps2mnl_agps_close_gps_req = agps_send (agps2mnl_code MNL_AGPS_TYPE_AGPS_CLOSE_GPS_REQ) Some"

definition agps2mnl_agps_reset_gps_req :: "u32 \<Rightarrow> bytes option" where [agps_defs]:
  "agps2mnl_agps_reset_gps_req fl = agps_send (agps2mnl_code MNL_AGPS_TYPE_AGPS_RESET_GPS_REQ)
    (put_int fl)"

definition agps2mnl_agps_session_done :: "bytes option" where [agps_defs]:
  "agps2mnl_agps_session_done = agps_send (agps2mnl_code MNL_AGPS_TYPE_AGPS_SESSION_DONE) Some"

definition agps2mnl_ni_notify :: "u32 \<Rightarrow> u32 \<Rightarrow> u32 \<Rightarrow> bytes option \<Rightarrow> bytes option \<Rightarrow> bytes option" where [agps_defs]:
  "agps2mnl_ni_notify session_id ni_type type requestor_id client_name = agps_send (agps2mnl_code MNL_AGPS_TYPE_NI_NOTIFY)
    (\<lambda>b. do {
     b \<leftarrow> put_int session_id b;
     b \<leftarrow> put_int type b;
     b \<leftarrow> put_string requestor_id b;
     b \<leftarrow> put_string client_name b;
     put_int ni_type b })"

definition agps2mnl_ni_notify2 :: "u32 \<Rightarrow> u32 \<Rightarrow> u32 \<Rightarrow> bytes option \<Rightarrow> bytes option \<Rightarrow> u32 \<Rightarrow> u32 \<Rightarrow> bytes option" where [agps_defs]:
  "agps2mnl_ni_notify2 session_id ni_type type requestor_id client_name requestor_id_encoding client_name_encoding = agps_send (agps2mnl_code MNL_AGPS_TYPE_NI_NOTIFY_2)
    (\<lambda>b. do {
     b \<leftarrow> put_int session_id b;
     b \<leftarrow> put_int type b;
     b \<leftarrow> put_string requestor_id b;
     b \<leftarrow> put_string client_name b;
     b \<leftarrow> put_int requestor_id_encoding b;
     b \<leftarrow> put_int client_name_encoding b;
     put_int ni_type b })"

definition agps2mnl_data_conn_req :: "u32 \<Rightarrow> u32 \<Rightarrow> bytes option" where [agps_defs]:
  "agps2mnl_data_conn_req ipaddr is_emergency = agps_send (agps2mnl_code MNL_AGPS_TYPE_DATA_CONN_REQ)
    (\<lambda>b. do {
     b \<leftarrow> put_int ipaddr b;
     put_int is_emergency b })"

definition agps2mnl_data_conn_req2 :: "bytes \<Rightarrow> u32 \<Rightarrow> bytes option" where [agps_defs]:
  "agps2mnl_data_conn_req2 addr is_emergency = agps_send (agps2mnl_code MNL_AGPS_TYPE_DATA_CONN_REQ2)
    (\<lambda>b. do {
     b \<leftarrow> put_binary addr (of_nat (length addr)) b;
     put_int is_emergency b })"

definition agps2mnl_data_conn_release :: "bytes option" where [agps_defs]:
  "agps2mnl_data_conn_release = agps_send (agps2mnl_code MNL_AGPS_TYPE_DATA_CONN_RELEASE) Some"

definition agps2mnl_set_id_req :: "u32 \<Rightarrow> bytes option" where [agps_defs]:
  "agps2mnl_set_id_req fl = agps_send (agps2mnl_code MNL_AGPS_TYPE_SET_ID_REQ)
    (put_int fl)"

definition agps2mnl_ref_loc_req :: "u32 \<Rightarrow> bytes option" where [agps_defs]:
  "agps2mnl_ref_loc_req fl = agps_send (agps2mnl_code MNL_AGPS_TYPE_REF_LOC_REQ)
    (put_int fl)"

definition agps2mnl_pmtk :: "bytes option \<Rightarrow> bytes option" where [agps_defs]:
  "agps2mnl_pmtk pmtk = agps_send (agps2mnl_code MNL_AGPS_TYPE_AGPS2MNL_PMTK)
    (put_string pmtk)"

definition agps2mnl_gpevt :: "u32 \<Rightarrow> bytes option" where [agps_defs]:
  "agps2mnl_gpevt type = agps_send (agps2mnl_code MNL_AGPS_TYPE_GPEVT)
    (put_int type)"

text \<open>
  The object representation of \<open>mnl_agps_agps_location\<close> (72 bytes; padding is written as zeros and
  not read), and the struct read back from it.
\<close>

definition agps_loc_bytes :: "agps_loc \<Rightarrow> bytes" where
  "agps_loc_bytes l =
     le64 (al_latitude l) @ le64 (al_longitude l) @
     le64 (of_bool (altitude_used l)) @ le64 (al_altitude l) @
     le32 (of_bool (speed_used l)) @ le32 (al_speed l) @
     le32 (of_bool (bearing_used l)) @ le32 (al_bearing l) @
     le32 (of_bool (accuracy_used l)) @ le32 (al_accuracy l) @
     le64 (of_bool (timestamp_used l)) @ le64 (al_timestamp l)"

definition agps_loc_of :: "bytes \<Rightarrow> agps_loc" where
  "agps_loc_of bs = \<lparr>al_latitude = of_le64 bs, al_longitude = of_le64 (drop 8 bs),
     altitude_used = (bs ! 16 \<noteq> 0), al_altitude = of_le64 (drop 24 bs),
     speed_used = (bs ! 32 \<noteq> 0), al_speed = of_le32 (drop 36 bs),
     bearing_used = (bs ! 40 \<noteq> 0), al_bearing = of_le32 (drop 44 bs),
     accuracy_used = (bs ! 48 \<noteq> 0), al_accuracy = of_le32 (drop 52 bs),
     timestamp_used = (bs ! 56 \<noteq> 0), al_timestamp = of_le64 (drop 64 bs)\<rparr>"

definition agps2mnl_agps_location :: "agps_loc \<Rightarrow> bytes option" where [agps_defs]:
  "agps2mnl_agps_location location = agps_send (agps2mnl_code MNL_AGPS_TYPE_AGPS_LOC)
    (put_binary (agps_loc_bytes location) 72)"

text \<open>
  All senders as one function. The settings, the debug screen and the LPPe messages have a handler
  case but no sender in the repository.
\<close>

fun agps2mnl_send :: "agps2mnl_msg \<Rightarrow> bytes option" where
    "agps2mnl_send Agps2_reboot = agps2mnl_agps_reboot"
  | "agps2mnl_send (Agps2_open_gps_req show_gps_icon) = agps2mnl_agps_open_gps_req show_gps_icon"
  | "agps2mnl_send Agps2_close_gps_req = agps2mnl_agps_close_gps_req"
  | "agps2mnl_send (Agps2_reset_gps_req fl) = agps2mnl_agps_reset_gps_req fl"
  | "agps2mnl_send Agps2_session_done = agps2mnl_agps_session_done"
  | "agps2mnl_send (Agps2_ni_notify session_id ni_type type requestor_id client_name) = agps2mnl_ni_notify session_id ni_type type requestor_id client_name"
  | "agps2mnl_send (Agps2_ni_notify2 session_id ni_type type requestor_id client_name requestor_id_encoding client_name_encoding) = agps2mnl_ni_notify2 session_id ni_type type requestor_id client_name requestor_id_encoding client_name_encoding"
  | "agps2mnl_send (Agps2_data_conn_req ipaddr is_emergency) = agps2mnl_data_conn_req ipaddr is_emergency"
  | "agps2mnl_send (Agps2_data_conn_req2 addr is_emergency) = agps2mnl_data_conn_req2 addr is_emergency"
  | "agps2mnl_send Agps2_data_conn_release = agps2mnl_data_conn_release"
  | "agps2mnl_send (Agps2_set_id_req fl) = agps2mnl_set_id_req fl"
  | "agps2mnl_send (Agps2_ref_loc_req fl) = agps2mnl_ref_loc_req fl"
  | "agps2mnl_send (Agps2_rcv_pmtk pmtk) = agps2mnl_pmtk pmtk"
  | "agps2mnl_send (Agps2_gpevt type) = agps2mnl_gpevt type"
  | "agps2mnl_send (Agps2_location location) = agps2mnl_agps_location location"
  | "agps2mnl_send _ = None"

text \<open>The cases of the \<open>switch\<close> in \<open>agps2mnl_hdlr\<close>.\<close>

definition agps_local :: "(nat \<Rightarrow> u8) \<Rightarrow> nat \<Rightarrow> cbuf \<Rightarrow> (bytes \<times> cbuf) option" where
  "agps_local junk k b = do {
     (len, out, b) \<leftarrow> get_binary agps_n (int k) (uninit junk k) b;
     Some (out, b) }"

fun agps2mnl_request_case ::
  "abi \<Rightarrow> (nat \<Rightarrow> u8) \<Rightarrow> agps2mnl_type \<Rightarrow> cbuf \<Rightarrow> agps2mnl_msg option option" where
    "agps2mnl_request_case a junk MNL_AGPS_TYPE_AGPS_REBOOT b = Some (Some Agps2_reboot)"
  | "agps2mnl_request_case a junk MNL_AGPS_TYPE_AGPS_OPEN_GPS_REQ b = do {
       (show_gps_icon, b) \<leftarrow> get_int agps_n b;
       Some (Some (Agps2_open_gps_req show_gps_icon)) }"
  | "agps2mnl_request_case a junk MNL_AGPS_TYPE_AGPS_CLOSE_GPS_REQ b = Some (Some Agps2_close_gps_req)"
  | "agps2mnl_request_case a junk MNL_AGPS_TYPE_AGPS_RESET_GPS_REQ b = do {
       (fl, b) \<leftarrow> get_int agps_n b;
       Some (Some (Agps2_reset_gps_req fl)) }"
  | "agps2mnl_request_case a junk MNL_AGPS_TYPE_AGPS_SESSION_DONE b = Some (Some Agps2_session_done)"
  | "agps2mnl_request_case a junk MNL_AGPS_TYPE_NI_NOTIFY b = do {
       (session_id, b) \<leftarrow> get_int agps_n b;
       (type, b) \<leftarrow> get_int agps_n b;
       (requestor_id, b) \<leftarrow> get_string agps_n b;
       (client_name, b) \<leftarrow> get_string agps_n b;
       (ni_type, b) \<leftarrow> get_int agps_n b;
       Some (Some (Agps2_ni_notify session_id ni_type type (cstr_at (fst b) requestor_id) (cstr_at (fst b) client_name))) }"
  | "agps2mnl_request_case a junk MNL_AGPS_TYPE_NI_NOTIFY_2 b = do {
       (session_id, b) \<leftarrow> get_int agps_n b;
       (type, b) \<leftarrow> get_int agps_n b;
       (requestor_id, b) \<leftarrow> get_string agps_n b;
       (client_name, b) \<leftarrow> get_string agps_n b;
       (requestor_id_encoding, b) \<leftarrow> get_int agps_n b;
       (client_name_encoding, b) \<leftarrow> get_int agps_n b;
       (ni_type, b) \<leftarrow> get_int agps_n b;
       Some (Some (Agps2_ni_notify2 session_id ni_type type (cstr_at (fst b) requestor_id) (cstr_at (fst b) client_name) requestor_id_encoding client_name_encoding)) }"
  | "agps2mnl_request_case a junk MNL_AGPS_TYPE_DATA_CONN_REQ b = do {
       (ipaddr, b) \<leftarrow> get_int agps_n b;
       (is_emergency, b) \<leftarrow> get_int agps_n b;
       Some (Some (Agps2_data_conn_req ipaddr is_emergency)) }"
  | "agps2mnl_request_case a junk MNL_AGPS_TYPE_DATA_CONN_REQ2 b = do {
       (addr, b) \<leftarrow> agps_local junk (sizeof_sockaddr_storage a) b;
       (is_emergency, b) \<leftarrow> get_int agps_n b;
       Some (Some (Agps2_data_conn_req2 addr is_emergency)) }"
  | "agps2mnl_request_case a junk MNL_AGPS_TYPE_DATA_CONN_RELEASE b = Some (Some Agps2_data_conn_release)"
  | "agps2mnl_request_case a junk MNL_AGPS_TYPE_SET_ID_REQ b = do {
       (fl, b) \<leftarrow> get_int agps_n b;
       Some (Some (Agps2_set_id_req fl)) }"
  | "agps2mnl_request_case a junk MNL_AGPS_TYPE_REF_LOC_REQ b = do {
       (fl, b) \<leftarrow> get_int agps_n b;
       Some (Some (Agps2_ref_loc_req fl)) }"
  | "agps2mnl_request_case a junk MNL_AGPS_TYPE_AGPS2MNL_PMTK b = do {
       (pmtk, b) \<leftarrow> get_string agps_n b;
       Some (Some (Agps2_rcv_pmtk (cstr_at (fst b) pmtk))) }"
  | "agps2mnl_request_case a junk MNL_AGPS_TYPE_GPEVT b = do {
       (type, b) \<leftarrow> get_int agps_n b;
       Some (Some (Agps2_gpevt type)) }"
  | "agps2mnl_request_case a junk _ b = Some None"

text \<open>
  The ten integers of a settings message are stored into \<open>char\<close>s. An LPPe case passes a pointer to
  what follows in the buffer, together with the length that the datagram claims.
\<close>

definition agps_settings_of :: "cbuf \<Rightarrow> (mnl_agps_agps_settings \<times> cbuf) option" where
  "agps_settings_of b = do {
     (i0, b) \<leftarrow> get_int agps_n b;
     (i1, b) \<leftarrow> get_int agps_n b;
     (i2, b) \<leftarrow> get_int agps_n b;
     (i3, b) \<leftarrow> get_int agps_n b;
     (i4, b) \<leftarrow> get_int agps_n b;
     (i5, b) \<leftarrow> get_int agps_n b;
     (i6, b) \<leftarrow> get_int agps_n b;
     (i7, b) \<leftarrow> get_int agps_n b;
     (i8, b) \<leftarrow> get_int agps_n b;
     (i9, b) \<leftarrow> get_int agps_n b;
     Some (\<lparr>sib8_16_enable_set = ucast i0,
       gps_satellite_enable = ucast i1,
       glonass_satellite_enable = ucast i2,
       beidou_satellite_enable = ucast i3,
       galileo_satellite_enable = ucast i4,
       a_glonass_satellite_enable = ucast i5,
       a_gps_satellite_enable = ucast i6,
       a_beidou_satellite_enable = ucast i7,
       a_galileo_satellite_enable = ucast i8,
       lppe_enable_set = ucast i9\<rparr>, b) }"

definition lppe_case :: "lppe \<Rightarrow> cbuf \<Rightarrow> agps2mnl_msg option option" where
  "lppe_case k b = do {
     (lppe_len, b) \<leftarrow> get_int agps_n b;
     Some (Some (Agps2_rcv_lppe k (drop (nat (snd b)) (fst b)) (sint lppe_len))) }"

fun agps2mnl_assist_case ::
  "(nat \<Rightarrow> u8) \<Rightarrow> agps2mnl_type \<Rightarrow> cbuf \<Rightarrow> agps2mnl_msg option option" where
    "agps2mnl_assist_case junk MNL_AGPS_TYPE_AGPS_LOC b = do {
       (agps_location, b) \<leftarrow> agps_local junk 72 b;
       Some (Some (Agps2_location (agps_loc_of agps_location))) }"
  | "agps2mnl_assist_case junk MNL_AGPS_TYPE_SETTINGS_SYNC b = do {
       (agps_settings, b) \<leftarrow> agps_settings_of b;
       Some (Some (Agps2_settings_sync agps_settings)) }"
  | "agps2mnl_assist_case junk MNL_AGPS_TYPE_VZW_DEBUG_SCREEN_OUTPUT b = do {
       (str, b) \<leftarrow> get_string agps_n b;
       Some (Some (Agps2_vzw_debug_screen_output (cstr_at (fst b) str))) }"
  | "agps2mnl_assist_case junk MNL_AGPS_TYPE_LPPE_ASSIST_COMMON_IONO b = lppe_case Common_iono b"
  | "agps2mnl_assist_case junk MNL_AGPS_TYPE_LPPE_ASSIST_COMMON_TROP b = lppe_case Common_trop b"
  | "agps2mnl_assist_case junk MNL_AGPS_TYPE_LPPE_ASSIST_COMMON_ALT b = lppe_case Common_alt b"
  | "agps2mnl_assist_case junk MNL_AGPS_TYPE_LPPE_ASSIST_COMMON_SOLAR b = lppe_case Common_solar b"
  | "agps2mnl_assist_case junk MNL_AGPS_TYPE_LPPE_ASSIST_COMMON_CCP b = lppe_case Common_ccp b"
  | "agps2mnl_assist_case junk MNL_AGPS_TYPE_LPPE_ASSIST_GENERIC_CCP b = lppe_case Generic_ccp b"
  | "agps2mnl_assist_case junk MNL_AGPS_TYPE_LPPE_ASSIST_GENERIC_DM b = lppe_case Generic_dm b"
  | "agps2mnl_assist_case junk _ b = Some None"

definition is_request_type :: "agps2mnl_type \<Rightarrow> bool" where
  "is_request_type c \<longleftrightarrow> c \<in> {MNL_AGPS_TYPE_AGPS_REBOOT,
     MNL_AGPS_TYPE_AGPS_OPEN_GPS_REQ,
     MNL_AGPS_TYPE_AGPS_CLOSE_GPS_REQ,
     MNL_AGPS_TYPE_AGPS_RESET_GPS_REQ,
     MNL_AGPS_TYPE_AGPS_SESSION_DONE,
     MNL_AGPS_TYPE_NI_NOTIFY,
     MNL_AGPS_TYPE_NI_NOTIFY_2,
     MNL_AGPS_TYPE_DATA_CONN_REQ,
     MNL_AGPS_TYPE_DATA_CONN_REQ2,
     MNL_AGPS_TYPE_DATA_CONN_RELEASE,
     MNL_AGPS_TYPE_SET_ID_REQ,
     MNL_AGPS_TYPE_REF_LOC_REQ,
     MNL_AGPS_TYPE_AGPS2MNL_PMTK,
     MNL_AGPS_TYPE_GPEVT}"

definition agps2mnl_hdlr ::
  "abi \<Rightarrow> (nat \<Rightarrow> u8) \<Rightarrow> (agps2mnl_type \<Rightarrow> bool) \<Rightarrow> bytes option \<Rightarrow> agps2mnl_msg option option" where
  "agps2mnl_hdlr a junk hdlr recv =
     (case recv of
        None \<Rightarrow> Some None
      | Some d \<Rightarrow>
          if d = [] then Some None
          else do {
            (version, b) \<leftarrow> get_int agps_n (recv_buff MNL_AGPS_MAX_BUFF_SIZE d);
            (type, b) \<leftarrow> get_int agps_n b;
            (case agps2mnl_of_code type of
               None \<Rightarrow> Some None
             | Some c \<Rightarrow> do {
                 m \<leftarrow> (if is_request_type c then agps2mnl_request_case a junk c b
                       else agps2mnl_assist_case junk c b);
                 Some (if hdlr c then m else None) }) })"
section \<open>The daemon's calls\<close>

text \<open>
  The sender call behind each AGPS effect of the daemon. The conversions C makes for parameters,
  \<open>float\<close> to \<open>int\<close> (\<open>f2i\<close>) and \<open>double\<close> to \<open>float\<close> (\<open>d2f\<close>), and the object representation of
  \<open>gnss_ha_assist_ack_struct\<close> (\<open>ack\<close>, a type of the positioning library) are parameters.
\<close>

fun to_agps :: "(u32 \<Rightarrow> u32) \<Rightarrow> (u64 \<Rightarrow> u32) \<Rightarrow> (lppe \<Rightarrow> bytes) \<Rightarrow> mnl2agps \<Rightarrow> bytes option" where
    "to_agps f2i d2f ack Agps_mnl_reboot = mnl2agps_mnl_reboot"
  | "to_agps f2i d2f ack Agps_gps_init = mnl2agps_gps_init"
  | "to_agps f2i d2f ack Agps_gps_cleanup = mnl2agps_gps_cleanup"
  | "to_agps f2i d2f ack (Agps_gps_open assist_req) = mnl2agps_gps_open assist_req"
  | "to_agps f2i d2f ack Agps_gps_close = mnl2agps_gps_close"
  | "to_agps f2i d2f ack Agps_open_gps_done = mnl2agps_open_gps_done"
  | "to_agps f2i d2f ack Agps_close_gps_done = mnl2agps_close_gps_done"
  | "to_agps f2i d2f ack Agps_reset_gps_done = mnl2agps_reset_gps_done"
  | "to_agps f2i d2f ack Agps_reaiding_req = mnl2agps_reaiding_req"
  | "to_agps f2i d2f ack (Agps_delete_aiding_data fl) = mnl2agps_delete_aiding_data fl"
  | "to_agps f2i d2f ack (Agps_set_position_mode mode) = mnl2agps_set_position_mode mode"
  | "to_agps f2i d2f ack (Agps_data_conn_open apn) = mnl2agps_data_conn_open apn"
  | "to_agps f2i d2f ack (Agps_data_conn_open_ip_type apn ip_type) = mnl2agps_data_conn_open_ip_type apn ip_type"
  | "to_agps f2i d2f ack Agps_data_conn_closed = mnl2agps_data_conn_closed"
  | "to_agps f2i d2f ack Agps_data_conn_failed = mnl2agps_data_conn_failed"
  | "to_agps f2i d2f ack (Agps_set_server type hostname port) = mnl2agps_set_server type hostname port"
  | "to_agps f2i d2f ack (Agps_set_ref_loc type mcc mnc lac cid) = mnl2agps_set_ref_loc type mcc mnc lac cid"
  | "to_agps f2i d2f ack (Agps_set_set_id type setid) = mnl2agps_set_set_id type setid"
  | "to_agps f2i d2f ack (Agps_ni_message msg len) = mnl2agps_ni_message msg (of_int len)"
  | "to_agps f2i d2f ack (Agps_ni_respond session_id user_response) = mnl2agps_ni_respond session_id user_response"
  | "to_agps f2i d2f ack (Agps_update_network_state conn type roaming extra_info) =
       mnl2agps_update_network_state conn type roaming extra_info"
  | "to_agps f2i d2f ack (Agps_update_network_availability avaiable apn) =
       mnl2agps_update_network_availability avaiable apn"
  | "to_agps f2i d2f ack (Agps_vzw_debug_screen_enable enabled) =
       mnl2agps_vzw_debug_screen_enable (of_bool enabled)"
  | "to_agps f2i d2f ack (Agps_location_sync la lo acc av al sv sg sn ss) =
       mnl2agps_location_sync la lo (f2i acc) av (d2f al) sv sg sn ss"
  | "to_agps f2i d2f ack (Agps_settings_ack g gl b ga) = mnl2agps_agps_settings_ack g gl b ga"
  | "to_agps f2i d2f ack (Agps_pmtk pmtk) = mnl2agps_pmtk (Some pmtk)"
  | "to_agps f2i d2f ack (Agps_lppe_assist_data_provide_ack k) =
       mnl2agps_lppe_assist_data_provide_ack (ack k) (of_nat (length (ack k)))"

section \<open>Transport\<close>

lemma mnl2agps_of_code_code [simp]: "mnl2agps_of_code (mnl2agps_code c) = Some c"
  by (cases c) (simp_all add: mnl2agps_of_code_def mnl2agps_types_def)

lemma agps2mnl_of_code_code [simp]: "agps2mnl_of_code (agps2mnl_code c) = Some c"
  by (cases c) (simp_all add: agps2mnl_of_code_def agps2mnl_types_def)

declare mnl2agps_code.simps [simp del] agps2mnl_code.simps [simp del]

lemma agps_send_eq:
  "agps_send type put = map_option sent
     (put (cursor (le32 MNL_AGPS_INTERFACE_VERSION @ le32 type) (replicate (MNL_AGPS_MAX_BUFF_SIZE - 8) 0)))"
  by (cases "put (cursor (le32 MNL_AGPS_INTERFACE_VERSION @ le32 type) (replicate (MNL_AGPS_MAX_BUFF_SIZE - 8) 0))")
    (simp_all add: agps_send_def coder_simps MNL_AGPS_MAX_BUFF_SIZE_def)

lemma mnl2agps_hdlr_body:
  assumes "length body + 8 \<le> MNL_AGPS_MAX_BUFF_SIZE"
  shows "mnl2agps_hdlr hdlr (Some (le32 ver @ le32 (mnl2agps_code c) @ body)) =
    (let b = cursor (le32 ver @ le32 (mnl2agps_code c))
               (body @ replicate (MNL_AGPS_MAX_BUFF_SIZE - (length body + 8)) 0)
     in map_option (\<lambda>m. if hdlr c then m else None)
          (if is_session_type c then mnl2agps_session_case c b else mnl2agps_data_case c b))"
  using assms
  by (simp add: mnl2agps_hdlr_def coder_simps MNL_AGPS_MAX_BUFF_SIZE_def add.commute Let_def map_conv_bind_option comp_def)

lemma agps2mnl_hdlr_body:
  assumes "length body + 8 \<le> MNL_AGPS_MAX_BUFF_SIZE"
  shows "agps2mnl_hdlr a junk hdlr (Some (le32 ver @ le32 (agps2mnl_code c) @ body)) =
    (let b = cursor (le32 ver @ le32 (agps2mnl_code c))
               (body @ replicate (MNL_AGPS_MAX_BUFF_SIZE - (length body + 8)) 0)
     in map_option (\<lambda>m. if hdlr c then m else None)
          (if is_request_type c then agps2mnl_request_case a junk c b else agps2mnl_assist_case junk c b))"
  using assms
  by (simp add: agps2mnl_hdlr_def coder_simps MNL_AGPS_MAX_BUFF_SIZE_def add.commute Let_def map_conv_bind_option comp_def)

lemma mnl2agps_hdlr_plain:
  "mnl2agps_hdlr hdlr (Some (le32 ver @ le32 (mnl2agps_code c))) =
    (let b = cursor (le32 ver @ le32 (mnl2agps_code c)) (replicate (MNL_AGPS_MAX_BUFF_SIZE - 8) 0)
     in map_option (\<lambda>m. if hdlr c then m else None)
          (if is_session_type c then mnl2agps_session_case c b else mnl2agps_data_case c b))"
  using mnl2agps_hdlr_body [of "[]"] by (simp add: MNL_AGPS_MAX_BUFF_SIZE_def)

lemma agps2mnl_hdlr_plain:
  "agps2mnl_hdlr a junk hdlr (Some (le32 ver @ le32 (agps2mnl_code c))) =
    (let b = cursor (le32 ver @ le32 (agps2mnl_code c)) (replicate (MNL_AGPS_MAX_BUFF_SIZE - 8) 0)
     in map_option (\<lambda>m. if hdlr c then m else None)
          (if is_request_type c then agps2mnl_request_case a junk c b else agps2mnl_assist_case junk c b))"
  using agps2mnl_hdlr_body [of "[]"] by (simp add: MNL_AGPS_MAX_BUFF_SIZE_def)

lemma put_binary_nat [coder_simps]:
  assumes "k \<le> length bs" "k < 2 ^ 31"
  shows "put_binary bs (of_nat k) (cursor p q) =
    (if length q < 4 + k then None
     else Some (cursor (p @ le32 (of_nat k) @ take k bs) (drop (4 + k) q)))"
  using assms by (simp add: put_binary_cursor sint_of_nat32)

lemma get_binary_nat [coder_simps]:
  assumes "k \<le> length bs" "k < 2 ^ 31" "int (length p) + 4 + int k \<le> n" "k \<le> length arr" "des = int (length arr)"
  shows "get_binary n des arr (cursor p (le32 (of_nat k) @ take k bs @ r))
    = Some (int k, take k bs @ drop k arr, cursor (p @ le32 (of_nat k) @ take k bs) r)"
  using get_binary_cursor [of "of_nat k" "take k bs" p n des arr r] assms
  by (cases "k = 0") (auto simp: sint_of_nat32 min_def)

lemmas agps_wire = agps_defs agps_send_eq mnl2agps_hdlr_body mnl2agps_hdlr_plain agps2mnl_hdlr_body
  agps2mnl_hdlr_plain is_session_type_def is_request_type_def MNL_AGPS_MAX_BUFF_SIZE_def Let_def
  put_float_def put_double_def coder_simps

section \<open>What arrives\<close>

text \<open>Strings without NUL bytes that fit the buffer together; blobs no longer than what they point to.\<close>

definition agps_string :: "nat \<Rightarrow> bytes option \<Rightarrow> bool" where
  "agps_string k s \<longleftrightarrow> (case s of None \<Rightarrow> True | Some t \<Rightarrow> c_string t \<and> length t \<le> k)"

lemma agps_string_simps [simp]:
  "agps_string k None" "agps_string k (Some t) \<longleftrightarrow> c_string t \<and> length t \<le> k"
  by (simp_all add: agps_string_def)

definition agps_blob :: "bytes \<Rightarrow> int \<Rightarrow> bool" where
  "agps_blob data len \<longleftrightarrow> 0 \<le> len \<and> len \<le> int (length data) \<and> len \<le> 65516"

fun wf_mnl2agps :: "mnl2agps_msg \<Rightarrow> bool" where
    "wf_mnl2agps (M2a_set_server _ s _) = agps_string 65500 s"
  | "wf_mnl2agps (M2a_data_conn_open s) = agps_string 65500 s"
  | "wf_mnl2agps (M2a_data_conn_open_ip_type s _) = agps_string 65500 s"
  | "wf_mnl2agps (M2a_set_set_id _ s) = agps_string 65500 s"
  | "wf_mnl2agps (M2a_update_network_state _ _ _ s) = agps_string 65500 s"
  | "wf_mnl2agps (M2a_update_network_availability _ s) = agps_string 65500 s"
  | "wf_mnl2agps (M2a_pmtk s) = agps_string 65500 s"
  | "wf_mnl2agps (M2a_install_certificates _ _ data len) = agps_blob data len"
  | "wf_mnl2agps (M2a_revoke_certificates data len) = agps_blob data len"
  | "wf_mnl2agps (M2a_ni_message msg len) = (agps_blob msg len \<and> len \<le> 1024)"
  | "wf_mnl2agps _ = True"

text \<open>A blob arrives at the start of an array of the handler, whose other bytes are zero.\<close>

definition padded :: "nat \<Rightarrow> bytes \<Rightarrow> int \<Rightarrow> bytes" where
  "padded k data len = take (nat len) data @ replicate (k - nat len) 0"

fun mnl2agps_seen :: "mnl2agps_msg \<Rightarrow> mnl2agps_msg" where
    "mnl2agps_seen (M2a_install_certificates i t data len) =
       M2a_install_certificates i t (padded MNL_AGPS_MAX_BUFF_SIZE data len) len"
  | "mnl2agps_seen (M2a_revoke_certificates data len) =
       M2a_revoke_certificates (padded MNL_AGPS_MAX_BUFF_SIZE data len) len"
  | "mnl2agps_seen (M2a_ni_message msg len) = M2a_ni_message (padded 1024 msg len) len"
  | "mnl2agps_seen m = m"

fun m2a_string :: "mnl2agps_msg \<Rightarrow> bytes option option" where
    "m2a_string (M2a_set_server _ s _) = Some s"
  | "m2a_string (M2a_data_conn_open s) = Some s"
  | "m2a_string (M2a_data_conn_open_ip_type s _) = Some s"
  | "m2a_string (M2a_set_set_id _ s) = Some s"
  | "m2a_string (M2a_update_network_state _ _ _ s) = Some s"
  | "m2a_string (M2a_update_network_availability _ s) = Some s"
  | "m2a_string (M2a_pmtk s) = Some s"
  | "m2a_string _ = None"

fun m2a_blob :: "mnl2agps_msg \<Rightarrow> (bytes \<times> int) option" where
    "m2a_blob (M2a_install_certificates _ _ data len) = Some (data, len)"
  | "m2a_blob (M2a_revoke_certificates data len) = Some (data, len)"
  | "m2a_blob (M2a_ni_message data len) = Some (data, len)"
  | "m2a_blob _ = None"

lemma mnl2agps_transport_fixed:
  "m2a_string m = None \<Longrightarrow> m2a_blob m = None \<Longrightarrow>
   map_option (\<lambda>d. mnl2agps_hdlr (\<lambda>_. True) (Some d)) (mnl2agps_send m) = Some (Some (Some m))"
  by (cases m) (simp_all add: agps_wire)

lemma mnl2agps_transport_string:
  "m2a_string m = Some s \<Longrightarrow> agps_string 65500 s \<Longrightarrow>
   map_option (\<lambda>d. mnl2agps_hdlr (\<lambda>_. True) (Some d)) (mnl2agps_send m) = Some (Some (Some m))"
  by (cases s; cases m) (simp_all add: agps_wire cstr_id)

lemma mnl2agps_transport_blob:
  assumes "m2a_blob m = Some (data, len)" "wf_mnl2agps m"
  shows "map_option (\<lambda>d. mnl2agps_hdlr (\<lambda>_. True) (Some d)) (mnl2agps_send m) = Some (Some (Some (mnl2agps_seen m)))"
proof -
  obtain k where k: "len = int k" "k \<le> length data" "k \<le> 65516"
    using assms by (cases m) (auto simp: agps_blob_def zero_le_imp_eq_int intro!: that [of "nat len"])
  with assms show ?thesis
    by (cases m) (simp_all add: agps_wire padded_def sint_of_nat32 del: put_binary_cursor get_binary_cursor)
qed

lemma mnl2agps_transport:
  assumes "wf_mnl2agps m"
  shows "map_option (\<lambda>d. mnl2agps_hdlr (\<lambda>_. True) (Some d)) (mnl2agps_send m) = Some (Some (Some (mnl2agps_seen m)))"
proof (cases "m2a_blob m")
  case None
  then have "mnl2agps_seen m = m" by (cases m) auto
  moreover have "m2a_string m = Some s \<Longrightarrow> agps_string 65500 s" for s
    using assms by (cases m) auto
  ultimately show ?thesis
    using None mnl2agps_transport_fixed mnl2agps_transport_string by (cases "m2a_string m") auto
next
  case (Some x)
  with assms show ?thesis by (cases x) (simp only: mnl2agps_transport_blob)
qed

interpretation mnl2agps: channel mnl2agps_send "\<lambda>d. mnl2agps_hdlr (\<lambda>_. True) (Some d)"
  "\<lambda>m. Some (Some (mnl2agps_seen m))" wf_mnl2agps
  by unfold_locales (use mnl2agps_transport in fastforce)

lemma le_first:
  "(le32 (of_bool x) @ r) ! 0 = of_bool x" "(le64 (of_bool x) @ r) ! 0 = of_bool x"
  by (cases x; simp add: le32_def le64_def le16_def)+

lemma length_agps_loc_bytes [simp]: "length (agps_loc_bytes l) = 72"
  by (simp add: agps_loc_bytes_def)

lemma agps_loc_of_bytes [simp]: "agps_loc_of (agps_loc_bytes l) = l"
  using le_first by (cases l) (simp add: agps_loc_of_def agps_loc_bytes_def nth_append)

fun wf_agps2mnl :: "abi \<Rightarrow> agps2mnl_msg \<Rightarrow> bool" where
    "wf_agps2mnl a (Agps2_ni_notify _ _ _ r c) = (agps_string 32000 r \<and> agps_string 32000 c)"
  | "wf_agps2mnl a (Agps2_ni_notify2 _ _ _ r c _ _) = (agps_string 32000 r \<and> agps_string 32000 c)"
  | "wf_agps2mnl a (Agps2_rcv_pmtk s) = agps_string 65500 s"
  | "wf_agps2mnl a (Agps2_data_conn_req2 addr _) =
       (length addr = sizeof_sockaddr_storage a \<and> length addr \<le> 65500)"
  | "wf_agps2mnl a (Agps2_settings_sync _) = False"
  | "wf_agps2mnl a (Agps2_vzw_debug_screen_output _) = False"
  | "wf_agps2mnl a (Agps2_rcv_lppe _ _ _) = False"
  | "wf_agps2mnl a _ = True"

lemma get_agps_local [coder_simps]:
  assumes "length bs = k" "k < 2 ^ 31" "int (length p) + 4 + int k \<le> agps_n"
  shows "agps_local junk k (cursor p (le32 (of_nat k) @ bs @ r)) = Some (bs, cursor (p @ le32 (of_nat k) @ bs) r)"
proof -
  have "get_binary agps_n (int k) (uninit junk k) (cursor p (le32 (of_nat k) @ take k bs @ r))
    = Some (int k, take k bs @ drop k (uninit junk k), cursor (p @ le32 (of_nat k) @ take k bs) r)"
    by (rule get_binary_nat) (use assms in auto)
  moreover have "take k bs = bs" using assms(1) by simp
  ultimately show ?thesis by (simp only: agps_local_def bind.bind_lunit prod.case) simp
qed

lemma agps2mnl_transport_plain:
  "(case m of Agps2_ni_notify _ _ _ _ _ \<Rightarrow> False | Agps2_ni_notify2 _ _ _ _ _ _ _ \<Rightarrow> False
     | Agps2_rcv_pmtk _ \<Rightarrow> False | Agps2_data_conn_req2 _ _ \<Rightarrow> False | _ \<Rightarrow> True) \<Longrightarrow>
   wf_agps2mnl a m \<Longrightarrow>
   map_option (\<lambda>d. agps2mnl_hdlr a junk (\<lambda>_. True) (Some d)) (agps2mnl_send m) = Some (Some (Some m))"
  using get_agps_local [of "agps_loc_bytes l" 72 for l]
  by (cases m) (simp_all add: agps_wire)

lemma agps2mnl_transport_notify:
  assumes "agps_string 32000 r" "agps_string 32000 c"
  shows "map_option (\<lambda>d. agps2mnl_hdlr a junk (\<lambda>_. True) (Some d))
      (agps2mnl_ni_notify i nt t r c) = Some (Some (Some (Agps2_ni_notify i nt t r c)))"
    "map_option (\<lambda>d. agps2mnl_hdlr a junk (\<lambda>_. True) (Some d))
      (agps2mnl_ni_notify2 i nt t r c re ce) = Some (Some (Some (Agps2_ni_notify2 i nt t r c re ce)))"
  using assms by (cases r; cases c; simp add: agps_wire cstr_id)+

lemma agps2mnl_transport_text:
  "agps_string 65500 s \<Longrightarrow> map_option (\<lambda>d. agps2mnl_hdlr a junk (\<lambda>_. True) (Some d))
     (agps2mnl_pmtk s) = Some (Some (Some (Agps2_rcv_pmtk s)))"
  by (cases s) (simp_all add: agps_wire cstr_id)

lemma agps2mnl_transport_addr:
  assumes "length addr = sizeof_sockaddr_storage a" "length addr \<le> 65500"
  shows "map_option (\<lambda>d. agps2mnl_hdlr a junk (\<lambda>_. True) (Some d))
     (agps2mnl_data_conn_req2 addr em) = Some (Some (Some (Agps2_data_conn_req2 addr em)))"
  using assms by (simp add: agps_wire get_agps_local del: put_binary_cursor get_binary_cursor)

lemma agps2mnl_transport:
  assumes "wf_agps2mnl a m"
  shows "map_option (\<lambda>d. agps2mnl_hdlr a junk (\<lambda>_. True) (Some d)) (agps2mnl_send m) = Some (Some (Some m))"
proof (cases m)
  case (Agps2_data_conn_req2 addr em)
  then show ?thesis using assms by (simp only: agps2mnl_send.simps) (rule agps2mnl_transport_addr, simp_all)
qed (use assms agps2mnl_transport_plain [of m a junk] in \<open>simp_all only: wf_agps2mnl.simps agps2mnl_send.simps
  agps2mnl_transport_notify agps2mnl_transport_text agps2mnl_msg.case simp_thms\<close>)

interpretation agps2mnl: channel agps2mnl_send "\<lambda>d. agps2mnl_hdlr a junk (\<lambda>_. True) (Some d)"
  "\<lambda>m. Some (Some m)" "wf_agps2mnl a" for a junk
  by unfold_locales (use agps2mnl_transport in fastforce)

section \<open>Hostile datagrams\<close>

lemma rd_safe_seq:
  assumes "rd_safe k m" "\<And>x. rd_safe k (f x)"
  shows "rd_safe k (\<lambda>b. m b \<bind> (\<lambda>(x, b). f x b))"
  unfolding rd_safe_def
proof (intro allI impI)
  fix b assume "sized k b"
  with assms(1) obtain x b' where "m b = Some (x, b')" "sized k b'" unfolding rd_safe_def by blast
  moreover from assms(2) this(2) obtain y c where "f x b' = Some (y, c)" "sized k c"
    unfolding rd_safe_def by blast
  ultimately show "\<exists>y c. m b \<bind> (\<lambda>(x, b). f x b) = Some (y, c) \<and> sized k c" by simp
qed

lemma rd_safe_done: "rd_safe k (\<lambda>b. Some (x, b))"
  by (simp add: rd_safe_def)

lemma rd_safe_settings: "rd_safe MNL_AGPS_MAX_BUFF_SIZE agps_settings_of"
  unfolding agps_settings_of_def [abs_def] by (intro rd_safe_seq rd_safe_getters rd_safe_done)

lemma rd_safe_agps_local: "rd_safe MNL_AGPS_MAX_BUFF_SIZE (agps_local junk k)"
  unfolding rd_safe_def
proof (intro allI impI)
  fix b assume "sized MNL_AGPS_MAX_BUFF_SIZE b"
  then show "\<exists>x b'. agps_local junk k b = Some (x, b') \<and> sized MNL_AGPS_MAX_BUFF_SIZE b'"
    using get_binary_total [of agps_n "fst b" "int k" "uninit junk k" "snd b"]
    by (auto simp: agps_local_def sized_def)
qed

lemmas agps_safe = rd_safe_bind [OF rd_safe_settings] rd_safe_bind [OF rd_safe_agps_local]

lemma agps_cases_safe:
  assumes "sized MNL_AGPS_MAX_BUFF_SIZE b"
  shows "returns (mnl2agps_session_case c b)" "returns (mnl2agps_data_case c b)"
    "returns (agps2mnl_request_case a junk c' b)" "returns (agps2mnl_assist_case junk c' b)"
proof -
  show "returns (mnl2agps_session_case c b)"
    using assms by (cases c) (auto intro!: rd_safe_intros)
  show "returns (mnl2agps_data_case c b)"
    using assms by (cases c) (auto intro!: rd_safe_intros)
  show "returns (agps2mnl_request_case a junk c' b)"
    using assms by (cases c') (auto intro!: rd_safe_intros agps_safe)
  show "returns (agps2mnl_assist_case junk c' b)"
    using assms by (cases c') (auto simp: lppe_case_def intro!: rd_safe_intros agps_safe)
qed

section \<open>Properties\<close>



text \<open>C40: both handlers of the AGPS protocol stay inside their buffers whatever arrives, whatever the
  callbacks registered and whatever their uninitialised locals hold.\<close>

theorem agps_handlers_memory_safe:
  "mnl2agps_hdlr hdlr recv \<noteq> None \<and> agps2mnl_hdlr a junk hdlr' recv \<noteq> None"
proof (cases recv)
  case None
  then show ?thesis by (simp add: mnl2agps_hdlr_def agps2mnl_hdlr_def)
next
  case (Some d)
  have b: "sized MNL_AGPS_MAX_BUFF_SIZE (recv_buff MNL_AGPS_MAX_BUFF_SIZE d)" by (simp add: sized_def)
  have m: "returns x \<Longrightarrow> returns (x \<bind> (\<lambda>m. Some (f m)))" for x :: "'x option" and f :: "'x \<Rightarrow> 'y"
    by (auto simp: returns_def)
  have "returns (mnl2agps_hdlr hdlr recv)" "returns (agps2mnl_hdlr a junk hdlr' recv)"
    using Some b by (auto simp: mnl2agps_hdlr_def agps2mnl_hdlr_def agps_cases_safe
        intro!: rd_safe_intros m split: option.split)
  then show ?thesis by (simp add: returns_def)
qed

definition lppe_type :: "lppe \<Rightarrow> agps2mnl_type" where
  "lppe_type k = (case k of Common_iono \<Rightarrow> MNL_AGPS_TYPE_LPPE_ASSIST_COMMON_IONO
     | Common_trop \<Rightarrow> MNL_AGPS_TYPE_LPPE_ASSIST_COMMON_TROP | Common_alt \<Rightarrow> MNL_AGPS_TYPE_LPPE_ASSIST_COMMON_ALT
     | Common_solar \<Rightarrow> MNL_AGPS_TYPE_LPPE_ASSIST_COMMON_SOLAR | Common_ccp \<Rightarrow> MNL_AGPS_TYPE_LPPE_ASSIST_COMMON_CCP
     | Generic_ccp \<Rightarrow> MNL_AGPS_TYPE_LPPE_ASSIST_GENERIC_CCP | Generic_dm \<Rightarrow> MNL_AGPS_TYPE_LPPE_ASSIST_GENERIC_DM)"

lemma lppe_case_cursor:
  "int (length p) + 4 \<le> agps_n \<Longrightarrow> lppe_case k (cursor p (le32 len @ r)) = Some (Some (Agps2_rcv_lppe k r (sint len)))"
  by (simp add: lppe_case_def get_int_cursor) (simp add: cursor_def nat_add_distrib)

lemma lppe_arrives:
  assumes "length body \<le> 65524"
  shows "agps2mnl_hdlr a junk (\<lambda>_. True) (Some (le32 ver @ le32 (agps2mnl_code (lppe_type k)) @ le32 len @ body)) =
      Some (Some (Agps2_rcv_lppe k (body @ replicate (65524 - length body) 0) (sint len)))"
  using assms by (cases k) (simp_all add: lppe_type_def agps_wire lppe_case_cursor)

lemma lppe_reaches_library:
  assumes "\<not> mnld_is_gps_and_ofl_stopped s"
  shows "\<exists>s'. agps2mnl_interface e (Agps2_rcv_lppe k data len) s = Inr s' \<and> Lib_agps_lppe k data len \<in> set (out s')"
  using assms by (cases k) (simp_all add: agps_rcv_lppe_common_iono_def agps_rcv_lppe_common_trop_def
      agps_rcv_lppe_common_alt_def agps_rcv_lppe_common_solar_def agps_rcv_lppe_common_ccp_def
      agps_rcv_lppe_generic_ccp_def agps_rcv_lppe_generic_dm_def agps_rcv_lppe_def emit_def Let_def)

text \<open>The length an LPPe datagram claims is not checked on its way: the handler passes a pointer to
  the 65524 bytes after the length field together with the claimed length, and while the receiver
  runs the daemon passes both to the positioning library, which thus leaves the buffer when the
  claim is larger.\<close>

theorem lppe_length_unchecked:
  assumes "length body \<le> 65524" "\<not> mnld_is_gps_and_ofl_stopped s"
  shows "\<exists>m s' data. agps2mnl_hdlr a junk (\<lambda>_. True)
        (Some (le32 1 @ le32 (agps2mnl_code (lppe_type k)) @ le32 len @ body)) = Some (Some m) \<and>
      agps2mnl_interface e m s = Inr s' \<and> Lib_agps_lppe k data (sint len) \<in> set (out s') \<and> length data = 65524"
proof -
  define data where "data = body @ replicate (65524 - length body) 0"
  have "length data = 65524" using assms(1) by (simp add: data_def)
  then show ?thesis
    using lppe_arrives [OF assms(1), of a junk 1 k len] lppe_reaches_library [OF assms(2), of e k data "sint len"]
    unfolding data_def [symmetric] by blast
qed

theorem lppe_length_unchecked_witness:
  "\<exists>m s' data. agps2mnl_hdlr lp64 (\<lambda>_. 0) (\<lambda>_. True)
        (Some (le32 1 @ le32 (agps2mnl_code (lppe_type Common_trop)) @ le32 70000 @ [7])) = Some (Some m) \<and>
      agps2mnl_interface env_default m (set_state STARTED mnld_boot) = Inr s' \<and>
      Lib_agps_lppe Common_trop data (sint (70000 :: u32)) \<in> set (out s') \<and> length data = 65524"
  by (rule lppe_length_unchecked) (simp_all add: mnld_is_gps_and_ofl_stopped_def frame_simps)

text \<open>Four messages the daemon sends have no case on the AGPS side: the acknowledgement of the
  satellite settings, the switch of the debug screen, the LPPe request and the LPPe
  acknowledgement are taken for unknown and reach no callback.\<close>

theorem agps_unhandled_messages:
  assumes "d \<in> {mnl2agps_agps_settings_ack g gl b ga, mnl2agps_vzw_debug_screen_enable en,
     mnl2agps_lppe_assist_data_req bs (of_nat (length bs)), mnl2agps_lppe_assist_data_provide_ack bs (of_nat (length bs))}"
    "length bs \<le> 65524"
  shows "\<exists>x. d = Some x \<and> mnl2agps_hdlr (\<lambda>_. True) (Some x) = Some None"
  using assms by (auto simp: agps_wire simp del: put_binary_cursor get_binary_cursor)

theorem agps_unhandled_messages_witness:
  "\<exists>x. mnl2agps_agps_settings_ack 1 1 0 0 = Some x \<and> mnl2agps_hdlr (\<lambda>_. True) (Some x) = Some None"
  by (rule agps_unhandled_messages [of _ 1 1 0 0 0 "[]"]) simp_all

end
