(* ===== verification/At_Test.thy ===== *)
theory At_Test
  imports Agps_Settings "HOL-Library.Signed_Division"
begin

text \<open>
  The AT command client of \<open>gps/mtk_mnld/mnl_at_cmd_interface/src/mnl_at_interface.c\<close>: a production
  test that opens the receiver, collects the signal strength of one satellite from the NMEA
  stream and reports statistics. Its file-scope variables are one record; commands come from a
  datagram socket (\<open>at_cmd2mnl_hdlr\<close>), measurements from the NMEA parser (\<open>nmea_parser_at_cmd_pre\<close>,
  \<open>gps_at_command_test_proc\<close>, \<open>at_cw_test_command_test_result\<close>). An access outside an array, or to
  freed memory, is \<open>None\<close>. The flags, which only ever hold 0 and 1, are booleans; other \<open>int\<close>s wrap
  at 32 bits; \<open>unsigned long\<close> has 64 bits; allocation is taken to succeed. Acknowledgements and
  the calls into the daemon are appended to a log; of an acknowledgement it records the text.
\<close>

section \<open>State\<close>

definition i32 :: "int \<Rightarrow> int" where
  "i32 x = signed_take_bit 31 x"

datatype at_test_state = TEST_UNKNOWN | TEST_INPROGRESS | TEST_DONE | TEST_RESULT_DONE

datatype heap_array = Null | Live "int list" | Freed

datatype at_effect =
    At_ack bytes
  | At_ack_cw int u32
  | At_gps_start
  | At_gps_stop
  | At_cw_mode

record at_ctx =
  MNL_AT_TEST_FLAG :: bool
  MNL_AT_SIGNAL_MODE :: bool
  MNL_AT_CW_MODE :: bool
  MNL_AT_SIGNAL_TEST_BEGIN :: bool
  MNL_AT_CANCEL_ALARM :: bool
  MNL_AT_TEST_STATE :: at_test_state
  td_test_num :: int
  td_prn_num :: int
  td_time_delay :: int
  Dev_CNr :: heap_array
  prn :: "int list"
  snr :: "int list"
  cn :: int
  test_result :: "int list"
  at_test_num :: int
  CNo :: int
  Avg_CNo :: int
  Dev_CNo :: int
  Completed_Num :: int
  Success_Num :: int
  Failure_Num :: int
  Wait_Num :: int
  sig_suc_num :: int
  Err_Code :: int
  test_mode_flag :: bool
  start_time :: int
  CNR :: int
  ClkDrift :: u32
  prev_success_num :: int
  at_log :: "at_effect list"

definition at_boot :: at_ctx where
  "at_boot = \<lparr>MNL_AT_TEST_FLAG = False, MNL_AT_SIGNAL_MODE = False, MNL_AT_CW_MODE = False,
     MNL_AT_SIGNAL_TEST_BEGIN = False, MNL_AT_CANCEL_ALARM = False, MNL_AT_TEST_STATE = TEST_UNKNOWN,
     td_test_num = 0, td_prn_num = 0, td_time_delay = 0, Dev_CNr = Null,
     prn = replicate 32 0, snr = replicate 32 0, cn = 0, test_result = [1, 0, 0, 0, 0, 0, 0, 0],
     at_test_num = 0, CNo = 0, Avg_CNo = 0, Dev_CNo = 0, Completed_Num = 0, Success_Num = 0,
     Failure_Num = 0, Wait_Num = 0, sig_suc_num = 0, Err_Code = 1, test_mode_flag = True,
     start_time = 0, CNR = - 1, ClkDrift = 0, prev_success_num = 0, at_log = []\<rparr>"

definition at_emit :: "at_effect \<Rightarrow> at_ctx \<Rightarrow> at_ctx" where
  "at_emit x s = s\<lparr>at_log := at_log s @ [x]\<rparr>"

section \<open>Starting and stopping a test\<close>

text \<open>\<open>at_test2mnl_gps_start\<close> and \<open>at_test2mnl_gps_stop\<close> always return 0.\<close>

definition gpsinf_mtk_gps_test_stop :: "at_ctx \<Rightarrow> at_ctx option" where
  "gpsinf_mtk_gps_test_stop s =
     (let s = at_emit At_gps_stop (s\<lparr>test_mode_flag := True\<rparr>);
          s = s\<lparr>td_test_num := 0, td_prn_num := 0, td_time_delay := 0\<rparr>;
          s = s\<lparr>MNL_AT_TEST_FLAG := False, MNL_AT_SIGNAL_MODE := False, MNL_AT_CW_MODE := False,
                MNL_AT_TEST_STATE := TEST_UNKNOWN, MNL_AT_CANCEL_ALARM := False,
                MNL_AT_SIGNAL_TEST_BEGIN := False\<rparr>;
          s = s\<lparr>Success_Num := 0, Completed_Num := 0, Wait_Num := 0, CNo := 0, Dev_CNo := 0,
                Err_Code := 1, at_test_num := 0\<rparr>
      in case Dev_CNr s of
           Null \<Rightarrow> Some s
         | Live _ \<Rightarrow> Some (s\<lparr>Dev_CNr := Freed\<rparr>)
         | Freed \<Rightarrow> None)"

text \<open>The part of \<open>gpsinf_mtk_gps_test_start\<close> after the optional stop.\<close>

definition test_begin :: "int \<Rightarrow> int \<Rightarrow> int \<Rightarrow> int \<Rightarrow> int \<Rightarrow> at_ctx \<Rightarrow> int \<times> at_ctx" where
  "test_begin now test_num prn_num time_delay test_mode s =
     (let s = s\<lparr>td_test_num := test_num, td_prn_num := prn_num, td_time_delay := time_delay,
                start_time := now, Avg_CNo := 0, Dev_CNr := Live (replicate (nat test_num) 0)\<rparr>
      in if test_num = 0 \<and> test_mode = 0 then (- 1, s)
         else
           let s = (if test_mode = 1 then s\<lparr>MNL_AT_SIGNAL_MODE := True\<rparr>
                    else if test_mode = 2 then s\<lparr>MNL_AT_CW_MODE := True\<rparr>
                    else s\<lparr>MNL_AT_TEST_FLAG := True\<rparr>)
           in (0, at_emit At_gps_start (s\<lparr>MNL_AT_TEST_STATE := TEST_INPROGRESS\<rparr>)))"

definition gpsinf_mtk_gps_test_start :: "int \<Rightarrow> int \<Rightarrow> int \<Rightarrow> int \<Rightarrow> int \<Rightarrow> at_ctx \<Rightarrow> (int \<times> at_ctx) option" where
  "gpsinf_mtk_gps_test_start now test_num prn_num time_delay test_mode s = do {
     s \<leftarrow> (if MNL_AT_TEST_STATE s \<noteq> TEST_UNKNOWN \<and> test_mode_flag s then gpsinf_mtk_gps_test_stop s else Some s);
     Some (test_begin now test_num prn_num time_delay test_mode s) }"

definition gpsinf_mtk_gps_test_inprogress :: "at_ctx \<Rightarrow> at_test_state" where
  "gpsinf_mtk_gps_test_inprogress s =
     (if MNL_AT_TEST_STATE s = TEST_DONE \<or> MNL_AT_TEST_STATE s = TEST_RESULT_DONE then TEST_DONE
      else if MNL_AT_TEST_STATE s = TEST_INPROGRESS then TEST_INPROGRESS
      else TEST_UNKNOWN)"

section \<open>Acknowledgements\<close>

definition at_command_send_ack :: "string \<Rightarrow> at_ctx \<Rightarrow> at_ctx" where
  "at_command_send_ack t s = at_emit (At_ack (ascii t)) s"

definition signed_decimal :: "int \<Rightarrow> bytes" where
  "signed_decimal i = (if i < 0 then ascii ''-'' @ decimal (nat (- i)) else decimal (nat i))"

text \<open>\<open>sprintf\<close> into an array of \<open>n\<close> bytes, and the acknowledgement with it.\<close>

definition ack_sprintf :: "nat \<Rightarrow> bytes \<Rightarrow> at_ctx \<Rightarrow> at_ctx option" where
  "ack_sprintf n t s = (if length t < n then Some (at_emit (At_ack t) s) else None)"

fun join :: "bytes list \<Rightarrow> bytes" where
    "join [] = []"
  | "join [t] = t"
  | "join (t # ts) = t @ ascii '', '' @ join ts"

definition result_text :: "string \<Rightarrow> string \<Rightarrow> at_ctx \<Rightarrow> bytes" where
  "result_text l r s = ascii l @ join (map signed_decimal (test_result s)) @ ascii r"

definition GPS_AT_ACK_SIZE :: nat where
  "GPS_AT_ACK_SIZE = 60"

definition GNSS_OP :: bytes where
  "GNSS_OP = ascii ''AT%GNSS''"

definition GPS_OP :: bytes where
  "GPS_OP = ascii ''AT%GPS''"

definition GPS_CW_TEST :: bytes where
  "GPS_CW_TEST = ascii ''AT%CWGPS''"

text \<open>\<open>!memcmp (command + i, t, n)\<close> on a C string, \<open>n\<close> being the length of \<open>t\<close>.\<close>

definition has_at :: "nat \<Rightarrow> bytes \<Rightarrow> bytes \<Rightarrow> bool" where
  "has_at i t command \<longleftrightarrow> take (length t) (drop i (command @ [0])) = t"

definition at_command_send_cno :: "bytes \<Rightarrow> at_ctx \<Rightarrow> at_ctx option" where
  "at_command_send_cno command s =
     (if gpsinf_mtk_gps_test_inprogress s = TEST_INPROGRESS
      then Some (at_command_send_ack ''GNSS Test In Progress'' s)
      else let v = (if MNL_AT_SIGNAL_MODE s then cn s else Avg_CNo s)
           in if v = 0 then Some (at_command_send_ack ''0, NA'' s)
              else ack_sprintf 32 (signed_decimal (v sdiv 10) @
                     (if has_at 0 GNSS_OP command then ascii '', NA'' else [])) s)"

definition at_command_send_test_result :: "at_ctx \<Rightarrow> at_ctx option" where
  "at_command_send_test_result s =
     (let ret = gpsinf_mtk_gps_test_inprogress s;
          report = ack_sprintf GPS_AT_ACK_SIZE (result_text ''['' '']['' s @ ascii ''0, 0, 0, 0, 0, 0, 0, 0]'') s
      in if ret = TEST_INPROGRESS then Some (at_command_send_ack ''GNSS Test In Progress'' s)
         else if ret = TEST_DONE then report
         else if test_result s ! 0 \<noteq> 0 then report
         else if test_result s ! 5 \<noteq> 0 \<and> \<not> (MNL_AT_SIGNAL_MODE s \<or> MNL_AT_SIGNAL_TEST_BEGIN s) then report
         else Some (at_command_send_ack ''[0, 0, 0, 0, 0, 0, 0, 0][0, 0, 0, 0, 0, 0, 0, 0]'' s))"

text \<open>\<open>strtoul\<close> in base ten: the value and what is left after the digits.\<close>

definition is_space :: "u8 \<Rightarrow> bool" where
  "is_space c \<longleftrightarrow> c = 32 \<or> (9 \<le> c \<and> c \<le> 13)"

definition is_digit :: "u8 \<Rightarrow> bool" where
  "is_digit c \<longleftrightarrow> 48 \<le> c \<and> c \<le> 57"

definition digits_value :: "bytes \<Rightarrow> nat" where
  "digits_value ds = foldl (\<lambda>v d. 10 * v + unat (d - 48)) 0 ds"

definition strtoul :: "bytes \<Rightarrow> u64 \<times> bytes" where
  "strtoul t =
     (let u = dropWhile is_space t;
          neg = (u \<noteq> [] \<and> hd u = 45);
          w = (if u \<noteq> [] \<and> (hd u = 45 \<or> hd u = 43) then tl u else u);
          ds = takeWhile is_digit w;
          v = digits_value ds
      in if ds = [] then (0, t)
         else ((if v \<ge> 2 ^ 64 then - 1 else if neg then - of_nat v else of_nat v), dropWhile is_digit w))"

text \<open>
  The end pointer of \<open>strtoul\<close>, eight bytes, is stored in a block of \<open>strlen (command)\<close> bytes. The
  result is converted to \<open>int\<close>.
\<close>

definition at_command_parse_test_num :: "bytes \<Rightarrow> int option" where
  "at_command_parse_test_num command =
     (if length command < 8 then None
      else let (res, rest) = strtoul (drop (if has_at 0 GNSS_OP command then 8 else 7) command)
           in Some (if res \<noteq> 0 \<and> rest = [] then sint (ucast res :: u32) else - 1))"

definition GPS_TEST_PRN :: int where
  "GPS_TEST_PRN = 1"

definition at_test_start_ack :: "int \<Rightarrow> string \<Rightarrow> string \<Rightarrow> int \<Rightarrow> at_ctx \<Rightarrow> at_ctx option" where
  "at_test_start_ack now ok err test_num s = do {
     (ret, s) \<leftarrow> gpsinf_mtk_gps_test_start now test_num GPS_TEST_PRN 2 0 s;
     Some (at_command_send_ack (if ret = 0 then ok else err) s) }"

section \<open>Commands\<close>

text \<open>A single letter in either case followed by the end of the command.\<close>

definition letter_at :: "nat \<Rightarrow> string \<Rightarrow> string \<Rightarrow> bytes \<Rightarrow> bool" where
  "letter_at i u l command \<longleftrightarrow> (has_at i (ascii u) command \<or> has_at i (ascii l) command) \<and> has_at (i + 1) [0] command"

definition at_gps_command_parser :: "int \<Rightarrow> bytes \<Rightarrow> at_ctx \<Rightarrow> at_ctx option" where
  "at_gps_command_parser now command s =
     (let s = s\<lparr>test_mode_flag := False, Wait_Num := 0\<rparr>
      in if MNL_AT_CW_MODE s then Some (at_command_send_ack ''GPS CW test is ongoing, please wait'' s)
         else if has_at 6 (ascii ''='') command then
           if has_at 7 (ascii ''?'') command \<and> has_at 8 [0] command then at_command_send_cno command s
           else if letter_at 7 ''E'' ''e'' command then Some s
           else if letter_at 7 ''D'' ''d'' command then Some s
           else do {
             test_num \<leftarrow> at_command_parse_test_num command;
             if test_num \<ge> 0 then at_test_start_ack now ''GPS TEST START OK'' ''GPS ERROR'' test_num s
             else Some (at_command_send_ack ''Invalid Test Num =0'' s) }
         else if has_at 6 (ascii ''?'') command \<and> has_at 7 [0] command then
           (case gpsinf_mtk_gps_test_inprogress s of
              TEST_INPROGRESS \<Rightarrow> Some (at_command_send_ack ''GPS Test In Progress'' s)
            | TEST_DONE \<Rightarrow> ack_sprintf GPS_AT_ACK_SIZE (result_text ''<'' ''>'' s) s
            | _ \<Rightarrow> Some (at_command_send_ack ''ERROR'' s))
         else if has_at 6 [0] command then at_command_send_cno command s
         else Some (at_command_send_ack ''GPS ERROR'' s))"

definition at_gnss_number :: "int \<Rightarrow> int \<Rightarrow> at_ctx \<Rightarrow> at_ctx option" where
  "at_gnss_number now test_num s =
     (let s = s\<lparr>test_result := [1, 0, 0, 0, 0, 0, 0, 0], Avg_CNo := 0, Success_Num := 0, Completed_Num := 0,
                CNo := 0, Dev_CNo := 0, cn := 0\<rparr>
      in if MNL_AT_SIGNAL_MODE s then
           if test_num \<le> 0 then
             let s = at_command_send_ack ''Invalid Test Num = 0'' s
             in if MNL_AT_TEST_STATE s \<noteq> TEST_UNKNOWN then gpsinf_mtk_gps_test_stop s else Some s
           else
             let s = s\<lparr>MNL_AT_SIGNAL_TEST_BEGIN := True, MNL_AT_TEST_STATE := TEST_INPROGRESS\<rparr>;
                 s = at_command_send_ack ''GNSS TEST START OK'' s
             in Some (s\<lparr>start_time := now\<rparr>)
         else if test_num \<ge> 0 then at_test_start_ack now ''GNSS TEST START OK'' ''GNSS ERROR'' test_num s
         else Some (at_command_send_ack ''Invalid Test Num =0'' s))"

definition at_gnss_set :: "int \<Rightarrow> bytes \<Rightarrow> at_ctx \<Rightarrow> at_ctx option" where
  "at_gnss_set now command s =
     (if has_at 8 (ascii ''?'') command \<and> has_at 9 [0] command then at_command_send_test_result s
      else if letter_at 8 ''S'' ''s'' command then
        (if \<not> MNL_AT_TEST_FLAG s then do {
           (ret, s) \<leftarrow> gpsinf_mtk_gps_test_start now 0 1 2 1 s;
           Some (at_command_send_ack (if ret = 0 then ''GNSS START START OK'' else ''GNSS START START FAIL'') s) }
         else
           let s = s\<lparr>MNL_AT_SIGNAL_MODE := True, MNL_AT_TEST_FLAG := False\<rparr>;
               s = (if \<not> MNL_AT_CANCEL_ALARM s then s\<lparr>MNL_AT_CANCEL_ALARM := False\<rparr> else s)
           in Some (at_command_send_ack ''GNSS START START OK'' s))
      else if letter_at 8 ''E'' ''e'' command then
        (if MNL_AT_TEST_STATE s = TEST_UNKNOWN
         then Some (at_command_send_ack ''GNSS Test is Not In Progress'' s)
         else do {
           s \<leftarrow> gpsinf_mtk_gps_test_stop s;
           Some (at_command_send_ack ''GNSS TEST END OK'' s) })
      else do {
        test_num \<leftarrow> at_command_parse_test_num command;
        at_gnss_number now test_num s })"

definition at_gnss_command_parser :: "int \<Rightarrow> bytes \<Rightarrow> at_ctx \<Rightarrow> at_ctx option" where
  "at_gnss_command_parser now command s =
     (let s = s\<lparr>test_mode_flag := False\<rparr>
      in if MNL_AT_CW_MODE s then Some (at_command_send_ack ''GPS CW test is ongoing, please wait'' s)
         else if has_at 7 (ascii ''='') command then at_gnss_set now command s
         else if has_at 7 (ascii ''?'') command \<and> has_at 8 [0] command then at_command_send_test_result s
         else if has_at 7 [0] command then at_command_send_cno command s
         else Some (at_command_send_ack ''GNSS ERROR'' s))"

definition at_cw_test_command_send_test_result :: "at_ctx \<Rightarrow> at_ctx" where
  "at_cw_test_command_send_test_result s =
     (if MNL_AT_TEST_STATE s = TEST_INPROGRESS \<or> MNL_AT_TEST_STATE s = TEST_DONE
      then at_command_send_ack ''AT Command test In Progress'' s
      else if CNR s = - 1 then at_command_send_ack ''CW Test no valid result'' s
      else at_emit (At_ack_cw (CNR s) (ClkDrift s)) s)"

definition at_cw_test_command_parser :: "int \<Rightarrow> bytes \<Rightarrow> at_ctx \<Rightarrow> at_ctx option" where
  "at_cw_test_command_parser now command s =
     (let s = s\<lparr>test_mode_flag := False\<rparr>
      in if MNL_AT_TEST_FLAG s \<or> MNL_AT_SIGNAL_MODE s
         then Some (at_command_send_ack ''AT GPS or AT GNSS is ongoing, please wait'' s)
         else if has_at 8 (ascii ''='') command then
           if letter_at 9 ''E'' ''e'' command then
             (if MNL_AT_TEST_STATE s = TEST_UNKNOWN
              then Some (at_command_send_ack ''CWGPS Test is not in progress'' s)
              else do {
                s \<leftarrow> gpsinf_mtk_gps_test_stop s;
                Some (at_command_send_ack ''CWGPS test end success'' s) })
           else if has_at 9 (ascii ''?'') command \<and> has_at 10 [0] command then
             (if MNL_AT_CW_MODE s then Some (at_command_send_ack ''AT CWGPS is ongoing, please wait'' s)
              else do {
                (ret, s) \<leftarrow> gpsinf_mtk_gps_test_start now 0 GPS_TEST_PRN 1 2 s;
                let s = s\<lparr>CNR := - 1, ClkDrift := 0\<rparr>;
                Some (at_command_send_ack (if ret = 0 then ''GPS Open Success'' else ''GPS Open fail'') s) })
           else Some (at_command_send_ack ''Invalid CWGPS Command'' s)
         else if has_at 8 (ascii ''?'') command \<and> has_at 9 [0] command
         then Some (at_cw_test_command_send_test_result s)
         else Some (at_command_send_ack ''Invalid CWGPS Command'' s))"

definition at_command_parser :: "int \<Rightarrow> bytes \<Rightarrow> at_ctx \<Rightarrow> at_ctx option" where
  "at_command_parser now command s =
     (if has_at 0 GPS_OP command then at_gps_command_parser now command s
      else if has_at 0 GNSS_OP command then at_gnss_command_parser now command s
      else if has_at 0 GPS_CW_TEST command then at_cw_test_command_parser now command s
      else Some (at_command_send_ack ''GPS ERROR'' s))"

text \<open>
  One command from the socket: \<open>char cmd[20]\<close>, \<open>recvfrom (fd, cmd, sizeof (cmd), ...)\<close>, then
  \<open>cmd[ret] = 0\<close>.
\<close>

definition at_cmd2mnl_hdlr :: "int \<Rightarrow> bytes \<Rightarrow> at_ctx \<Rightarrow> at_ctx option" where
  "at_cmd2mnl_hdlr now d s =
     (let cmd = take 20 d
      in if length cmd < 20 then at_command_parser now (cstr cmd) s else None)"

section \<open>Measurements\<close>

definition at_cw_test_command_test_result :: "int \<Rightarrow> u32 \<Rightarrow> at_ctx \<Rightarrow> at_ctx option" where
  "at_cw_test_command_test_result v clk_drift s =
     (if gpsinf_mtk_gps_test_inprogress s = TEST_UNKNOWN then Some s
      else let s = s\<lparr>CNR := v, ClkDrift := clk_drift, MNL_AT_TEST_STATE := TEST_RESULT_DONE\<rparr>
           in if MNL_AT_CW_MODE s then gpsinf_mtk_gps_test_stop s else Some s)"

definition MAX_VALID_STATUS_WAIT_COUNT :: int where
  "MAX_VALID_STATUS_WAIT_COUNT = 20"

text \<open>The bookkeeping at the end of a batch; the result says whether the test is over.\<close>

definition at_batch_end :: "at_ctx \<Rightarrow> bool \<times> at_ctx" where
  "at_batch_end s =
     (if Success_Num s > 0 then
        let s = (if prev_success_num s = Success_Num s then s\<lparr>Failure_Num := i32 (Failure_Num s + 1)\<rparr> else s);
            s = s\<lparr>Completed_Num := i32 (Success_Num s + Failure_Num s)\<rparr>
        in (Completed_Num s = td_test_num s, s)
      else
        let s = s\<lparr>Wait_Num := i32 (Wait_Num s + 1)\<rparr>
        in if Wait_Num s = MAX_VALID_STATUS_WAIT_COUNT
           then (True, s\<lparr>Err_Code := 32, Completed_Num := 1\<rparr>)
           else (False, s))"

definition nmea_parser_at_cmd_pre :: "int \<Rightarrow> bool \<Rightarrow> at_ctx \<Rightarrow> at_ctx option" where
  "nmea_parser_at_cmd_pre now end_tag s =
     (let late = (i32 (now - start_time s) \<ge> td_time_delay s)
      in if MNL_AT_TEST_FLAG s \<or> MNL_AT_SIGNAL_TEST_BEGIN s then
           if late \<and> end_tag then
             let (test_stopped, s) = at_batch_end s;
                 s = s\<lparr>prev_success_num := Success_Num s\<rparr>
             in if test_stopped then
                  let s = s\<lparr>test_result := (test_result s)[0 := Err_Code s, 3 := Success_Num s,
                              4 := Completed_Num s, 5 := Avg_CNo s, 6 := Dev_CNo s],
                            Wait_Num := 0, MNL_AT_TEST_STATE := TEST_DONE, Err_Code := 1\<rparr>
                  in if MNL_AT_TEST_FLAG s
                     then map_option (\<lambda>s. s\<lparr>Failure_Num := 0, prev_success_num := 0\<rparr>) (gpsinf_mtk_gps_test_stop s)
                     else Some s
                else Some s
           else Some s
         else if MNL_AT_CW_MODE s \<and> MNL_AT_TEST_STATE s = TEST_INPROGRESS \<and> late
         then Some (at_emit At_cw_mode s\<lparr>MNL_AT_TEST_STATE := TEST_DONE\<rparr>)
         else Some s)"

text \<open>
  The integer part of a square root, as \<open>(int) sqrt (n)\<close> gives it for a non-negative \<open>int\<close>: the
  bits of the root from the highest down.
\<close>

fun isqrt_bits :: "nat \<Rightarrow> nat \<Rightarrow> nat \<Rightarrow> nat" where
    "isqrt_bits n 0 r = r"
  | "isqrt_bits n (Suc b) r = isqrt_bits n b (if (r + 2 ^ b)\<^sup>2 \<le> n then r + 2 ^ b else r)"

definition isqrt :: "int \<Rightarrow> int" where
  "isqrt n = int (isqrt_bits (nat n) 16 0)"

text \<open>
  The statistics over what the array holds: the mean square deviation and its root. A sum that
  has wrapped to a negative number has no root.
\<close>

definition update_deviation :: "at_ctx \<Rightarrow> at_ctx option" where
  "update_deviation s =
     (if Success_Num s = 0 then Some s
      else case Dev_CNr s of
             Live vs \<Rightarrow>
               if Success_Num s \<le> int (length vs) then
                 let sq = (\<lambda>v. let d = i32 (v - Avg_CNo s) in i32 (d * d));
                     sum = foldl (\<lambda>a v. i32 (a + sq v)) 0 (take (nat (Success_Num s)) vs);
                     m = sum sdiv Success_Num s
                 in if m < 0 then None else Some (s\<lparr>Dev_CNo := isqrt m\<rparr>)
               else None
           | _ \<Rightarrow> None)"

definition record_cno :: "int \<Rightarrow> at_ctx \<Rightarrow> at_ctx option" where
  "record_cno v s =
     (let s = s\<lparr>Err_Code := 0, CNo := i32 (CNo s + v)\<rparr>
      in case Dev_CNr s of
           Live vs \<Rightarrow>
             if Success_Num s < int (length vs) then
               let s = s\<lparr>Dev_CNr := Live (vs[nat (Success_Num s) := v]), Success_Num := Success_Num s + 1\<rparr>
               in Some (s\<lparr>Avg_CNo := CNo s sdiv Success_Num s\<rparr>)
             else None
         | _ \<Rightarrow> None)"

definition found_satellite :: "int \<Rightarrow> at_ctx \<Rightarrow> at_ctx option" where
  "found_satellite v s = do {
     s \<leftarrow> (if v \<noteq> 0 then
             let s = (if MNL_AT_SIGNAL_MODE s \<and> \<not> MNL_AT_SIGNAL_TEST_BEGIN s
                      then s\<lparr>MNL_AT_TEST_STATE := TEST_INPROGRESS\<rparr> else s);
                 s = (if MNL_AT_SIGNAL_MODE s \<and> MNL_AT_SIGNAL_TEST_BEGIN s
                      then s\<lparr>MNL_AT_TEST_STATE := TEST_RESULT_DONE, sig_suc_num := 1\<rparr> else s)
             in do {
               s \<leftarrow> (if MNL_AT_TEST_FLAG s then record_cno (i32 (v * 10)) s else Some s);
               Some (s\<lparr>cn := i32 (v * 10)\<rparr>) }
           else
             let s = (if MNL_AT_CANCEL_ALARM s \<and> MNL_AT_TEST_FLAG s
                      then s\<lparr>at_test_num := at_test_num s + 1\<rparr> else s)
             in Some (s\<lparr>sig_suc_num := 0\<rparr>));
     update_deviation s }"

text \<open>The loop over \<open>i < r->sv_count\<close>; the arrays \<open>prn\<close> and \<open>snr\<close> have 32 entries.\<close>

fun search_from :: "nat \<Rightarrow> nat \<Rightarrow> at_ctx \<Rightarrow> at_ctx option" where
    "search_from i 0 s = Some s"
  | "search_from i (Suc n) s =
       (if length (prn s) \<le> i \<or> length (snr s) \<le> i then None
        else if prn s ! i = td_prn_num s then found_satellite (snr s ! i) s
        else search_from (Suc i) n s)"

definition gps_at_command_search_satellite :: "int \<Rightarrow> at_ctx \<Rightarrow> at_ctx option" where
  "gps_at_command_search_satellite sv_count s = search_from 0 (nat sv_count) s"

definition gps_at_command_test_proc :: "int \<Rightarrow> at_ctx \<Rightarrow> at_ctx option" where
  "gps_at_command_test_proc sv_count s =
     (if MNL_AT_TEST_STATE s \<noteq> TEST_DONE then
        if MNL_AT_SIGNAL_MODE s then
          if MNL_AT_SIGNAL_TEST_BEGIN s then do {
            s \<leftarrow> gps_at_command_search_satellite sv_count s;
            Some (s\<lparr>test_result := (test_result s)[0 := 0, 3 := sig_suc_num s, 4 := 1, 5 := cn s, 6 := 0]\<rparr>) }
          else Some s
        else gps_at_command_search_satellite sv_count s
      else Some s)"

end
