(* ===== verification/Nmea_Parser.thy ===== *)
theory Nmea_Parser
  imports At_Test Gps_Hal
begin

text \<open>
  The NMEA parser of \<open>gps/mtk_mnld/mnld_entity/src/nmea_parser.c\<close>, which turns the receiver's text
  into locations and satellite lists. The reader and the file-scope variables are one record; the
  AT command client's state is a component of it. Tokens are positions in the reader's array
  \<open>in[256]\<close>, because the code looks at characters outside a token; the empty token outside it is
  \<open>None\<close>. A write outside an array makes the outcome \<open>None\<close>. Floating-point arithmetic, \<open>strtod\<close>
  and the calendar functions of the C library are parameters; a batch is handled at one instant.
\<close>

section \<open>State\<close>

record fpu =
  strtod :: "bytes \<Rightarrow> u64"
  d_floor :: "u64 \<Rightarrow> u64"
  d_neg :: "u64 \<Rightarrow> u64"
  d_add :: "u64 \<Rightarrow> u64 \<Rightarrow> u64"
  d_sub :: "u64 \<Rightarrow> u64 \<Rightarrow> u64"
  d_mul :: "u64 \<Rightarrow> u64 \<Rightarrow> u64"
  d_div :: "u64 \<Rightarrow> u64 \<Rightarrow> u64"
  d_of_int :: "int \<Rightarrow> u64"
  d_to_int :: "u64 \<Rightarrow> int"
  d_to_float :: "u64 \<Rightarrow> u32"
  f_of_int :: "int \<Rightarrow> u32"

text \<open>
  \<open>ne_now\<close> is \<open>time (NULL)\<close>, \<open>ne_date\<close> year, month and day of \<open>gmtime_r\<close> as a \<open>struct tm\<close> has them,
  \<open>ne_utc_diff\<close> the difference of the two \<open>mktime\<close> calls, and \<open>ne_mktime\<close> takes year, month, day,
  hour, minute and second.
\<close>

record nmea_env =
  fp :: fpu
  ne_now :: int
  ne_date :: "int \<times> int \<times> int"
  ne_utc_diff :: int
  ne_mktime :: "int \<Rightarrow> int \<Rightarrow> int \<Rightarrow> int \<Rightarrow> int \<Rightarrow> int \<Rightarrow> int"
  GPS_MAX_SVS :: nat

record NmeaCash =
  nc_prn :: int
  has_ephemeris_data :: bool
  has_almanac_data :: bool
  used_in_fix :: bool

datatype nmea_out = To_hal mnl2hal_msg | To_main main_msg

record nmea =
  pos :: nat
  overflow :: bool
  utc_year :: int
  utc_mon :: int
  utc_day :: int
  utc_diff :: int
  fix_loc :: gps_loc
  fix_mode :: int
  sv_count :: nat
  num_svs :: nat
  sv_list :: "gnss_sv list"
  in_buf :: bytes
  gps_nmea_end_tag :: bool
  nmea_cash :: "NmeaCash list"
  at_cmd :: at_ctx
  nmea_log :: "nmea_out list"

definition NMEA_MAX_SIZE :: nat where
  "NMEA_MAX_SIZE = 255"

definition MAX_NMEA_TOKENS :: nat where
  "MAX_NMEA_TOKENS = 64"

definition NMEA_MAX_SV_INFO :: int where
  "NMEA_MAX_SV_INFO = 4"

definition MTK_MNLD_GNSS_MAX_SVS :: nat where
  "MTK_MNLD_GNSS_MAX_SVS = 64"

definition no_loc :: gps_loc where
  "no_loc = \<lparr>flags = 0, lat = 0, lng = 0, alt = 0, speed = 0, bearing = 0, accuracy = 0, timestamp = 0\<rparr>"

definition no_sv :: gnss_sv where
  "no_sv = \<lparr>svid = 0, constellation = 0, c_n0_dbhz = 0, elevation = 0, azimuth = 0, sv_flags = 0\<rparr>"

definition no_cash :: NmeaCash where
  "no_cash = \<lparr>nc_prn = 0, has_ephemeris_data = False, has_almanac_data = False, used_in_fix = False\<rparr>"

definition nmea_boot :: "at_ctx \<Rightarrow> nmea" where
  "nmea_boot a = \<lparr>pos = 0, overflow = False, utc_year = - 1, utc_mon = - 1, utc_day = - 1, utc_diff = 0,
     fix_loc = no_loc, fix_mode = 0, sv_count = 0, num_svs = 0, sv_list = replicate 64 no_sv,
     in_buf = replicate 256 0, gps_nmea_end_tag = False, nmea_cash = replicate 450 no_cash, at_cmd = a, nmea_log = []\<rparr>"

definition emit_out :: "nmea_out \<Rightarrow> nmea \<Rightarrow> nmea" where
  "emit_out x s = s\<lparr>nmea_log := nmea_log s @ [x]\<rparr>"

definition nmea_reader_update_utc_diff :: "nmea_env \<Rightarrow> nmea \<Rightarrow> nmea" where
  "nmea_reader_update_utc_diff e s = s\<lparr>utc_diff := i32 (ne_utc_diff e)\<rparr>"

definition nmea_reader_init :: "nmea_env \<Rightarrow> nmea \<Rightarrow> nmea" where
  "nmea_reader_init e s =
     nmea_reader_update_utc_diff e
       (s\<lparr>pos := 0, overflow := False, utc_year := - 1, utc_mon := - 1, utc_day := - 1, utc_diff := 0,
          fix_loc := no_loc, fix_mode := 0, sv_count := 0, num_svs := 0,
          sv_list := replicate MTK_MNLD_GNSS_MAX_SVS no_sv, in_buf := replicate (NMEA_MAX_SIZE + 1) 0\<rparr>)"

section \<open>Tokens\<close>

type_synonym token = "(nat \<times> nat) option"

text \<open>The loop over \<open>p < end\<close>, and the tokenizer with what it strips first.\<close>

function tokens_from :: "bytes \<Rightarrow> nat \<Rightarrow> nat \<Rightarrow> (nat \<times> nat) list" where
  "tokens_from b p e =
     (if p < e then
        let q = p + length (takeWhile (\<lambda>c. c \<noteq> 44) (take (e - p) (drop p b)))
        in (p, q) # tokens_from b (Suc q) e
      else [])"
  by auto

termination by (relation "measure (\<lambda>(b, p, e). e - p)") auto

declare tokens_from.simps [simp del]

definition token_range :: "bytes \<Rightarrow> nat \<Rightarrow> nat \<times> nat" where
  "token_range b n =
     (let p = (if 0 < n \<and> b ! 0 = 36 then 1 else 0);
          e = (if p < n \<and> b ! (n - 1) = 10
               then (if p < n - 1 \<and> b ! (n - 2) = 13 then n - 2 else n - 1) else n);
          e = (if p + 3 \<le> e \<and> b ! (e - 3) = 42 then e - 3 else e)
      in (p, e))"

definition nmea_tokenizer_init :: "bytes \<Rightarrow> nat \<Rightarrow> (nat \<times> nat) list" where
  "nmea_tokenizer_init b n = (let (p, e) = token_range b n in take MAX_NMEA_TOKENS (tokens_from b p e))"

definition nmea_tokenizer_get :: "(nat \<times> nat) list \<Rightarrow> nat \<Rightarrow> token" where
  "nmea_tokenizer_get t i = (if i < length t then Some (t ! i) else None)"

fun tok_text :: "bytes \<Rightarrow> token \<Rightarrow> bytes" where
    "tok_text b None = []"
  | "tok_text b (Some (p, e)) = take (e - p) (drop p b)"

text \<open>\<open>tok.p[0]\<close>, which for an empty token is the character after it.\<close>

fun tok_char :: "bytes \<Rightarrow> token \<Rightarrow> u8" where
    "tok_char b None = 0"
  | "tok_char b (Some (p, e)) = b ! p"

definition has_text :: "bytes \<Rightarrow> nat \<Rightarrow> string \<Rightarrow> bool" where
  "has_text b i t \<longleftrightarrow> take (length t) (drop i b) = ascii t"

fun str2int_loop :: "int \<Rightarrow> bytes \<Rightarrow> int option" where
    "str2int_loop r [] = Some r"
  | "str2int_loop r (c # t) = (if is_digit c then str2int_loop (i32 (r * 10 + int (unat (c - 48)))) t else None)"

definition str2int :: "bytes \<Rightarrow> int" where
  "str2int t =
     (let neg = (t \<noteq> [] \<and> hd t = 45)
      in case str2int_loop 0 (if neg then tl t else t) of
           None \<Rightarrow> - 1
         | Some r \<Rightarrow> i32 (if neg then - r else r))"

definition str2float :: "fpu \<Rightarrow> bytes \<Rightarrow> u64" where
  "str2float f t = (if length t \<ge> 16 then 0 else strtod f (cstr t))"

section \<open>Fields of the fix\<close>

definition nmea_reader_update_altitude :: "nmea_env \<Rightarrow> bytes \<Rightarrow> nmea \<Rightarrow> nmea" where
  "nmea_reader_update_altitude e t s =
     (if t = [] then s
      else let l = fix_loc s
           in s\<lparr>fix_loc := l\<lparr>flags := flags l OR HAS_ALT, alt := str2float (fp e) t\<rparr>\<rparr>)"

definition nmea_reader_update_time :: "nmea_env \<Rightarrow> bytes \<Rightarrow> nmea \<Rightarrow> nmea" where
  "nmea_reader_update_time e t s =
     (if length t < 6 then s
      else
        let (y, m, d) = ne_date e;
            s = (if utc_year s < 0 then s\<lparr>utc_year := y + 1900, utc_mon := m + 1, utc_day := d\<rparr> else s);
            hour = str2int (take 2 t);
            minute = str2int (take 2 (drop 2 t));
            seconds = str2float (fp e) (drop 4 t);
            time = ne_mktime e (utc_year s - 1900) (utc_mon s - 1) (utc_day s) hour minute
                     (d_to_int (fp e) seconds);
            s = nmea_reader_update_utc_diff e s
        in s\<lparr>fix_loc := (fix_loc s)\<lparr>timestamp := of_int ((time - utc_diff s) * 1000)\<rparr>\<rparr>)"

definition nmea_reader_update_date :: "nmea_env \<Rightarrow> bytes \<Rightarrow> bytes \<Rightarrow> nmea \<Rightarrow> nmea" where
  "nmea_reader_update_date e date time s =
     (if length date \<noteq> 6 then s
      else
        let day = str2int (take 2 date);
            mon = str2int (take 2 (drop 2 date));
            year = str2int (drop 4 date) + 2000
        in if day < 0 \<or> mon < 0 \<or> year < 0 then s
           else nmea_reader_update_time e time (s\<lparr>utc_year := year, utc_mon := mon, utc_day := day\<rparr>))"

definition convert_from_hhmm :: "fpu \<Rightarrow> bytes \<Rightarrow> u64" where
  "convert_from_hhmm f t =
     (let val = str2float f t;
          degrees = d_to_int f (d_div f (d_floor f val) (d_of_int f 100));
          minutes = d_sub f val (d_mul f (d_of_int f degrees) (d_of_int f 100))
      in d_add f (d_of_int f degrees) (d_div f minutes (d_of_int f 60)))"

definition nmea_reader_update_latlong :: "nmea_env \<Rightarrow> bytes \<Rightarrow> u8 \<Rightarrow> bytes \<Rightarrow> u8 \<Rightarrow> nmea \<Rightarrow> nmea" where
  "nmea_reader_update_latlong e latitude latitudeHemi longitude longitudeHemi s =
     (if length latitude < 6 then s
      else if length longitude < 6 then s
      else
        let lat = convert_from_hhmm (fp e) latitude;
            lat = (if latitudeHemi = 83 then d_neg (fp e) lat else lat);
            lon = convert_from_hhmm (fp e) longitude;
            lon = (if longitudeHemi = 87 then d_neg (fp e) lon else lon);
            l = fix_loc s
        in s\<lparr>fix_loc := l\<lparr>flags := flags l OR HAS_LAT_LONG, lat := lat, lng := lon\<rparr>\<rparr>)"

definition nmea_reader_update_bearing :: "nmea_env \<Rightarrow> bytes \<Rightarrow> nmea \<Rightarrow> nmea" where
  "nmea_reader_update_bearing e t s =
     (if t = [] then s
      else let l = fix_loc s
           in s\<lparr>fix_loc := l\<lparr>flags := flags l OR HAS_BEARING, bearing := d_to_float (fp e) (str2float (fp e) t)\<rparr>\<rparr>)"

text \<open>The constant of the source is written as the text it has there.\<close>

definition nmea_reader_update_speed :: "nmea_env \<Rightarrow> bytes \<Rightarrow> nmea \<Rightarrow> nmea" where
  "nmea_reader_update_speed e t s =
     (if t = [] then s
      else let l = fix_loc s;
               v = d_div (fp e) (str2float (fp e) t) (strtod (fp e) (ascii ''1.942795467''))
           in s\<lparr>fix_loc := l\<lparr>flags := flags l OR HAS_SPEED, speed := d_to_float (fp e) v\<rparr>\<rparr>)"

definition nmea_reader_update_accuracy :: "nmea_env \<Rightarrow> bytes \<Rightarrow> nmea \<Rightarrow> nmea" where
  "nmea_reader_update_accuracy e t s =
     (if t = [] then s
      else let l = fix_loc s
           in s\<lparr>fix_loc := l\<lparr>flags := flags l OR HAS_ACCURACY, accuracy := d_to_float (fp e) (str2float (fp e) t)\<rparr>\<rparr>)"

section \<open>Satellites\<close>

datatype SV_TYPE = UNKNOWN_SV | GPS_SV | SBAS_SV | GLONASS_SV | QZSS_SV | BDS_SV | GALILEO_SV

fun sv_type_code :: "SV_TYPE \<Rightarrow> u8" where
    "sv_type_code UNKNOWN_SV = 0"
  | "sv_type_code GPS_SV = 1"
  | "sv_type_code SBAS_SV = 2"
  | "sv_type_code GLONASS_SV = 3"
  | "sv_type_code QZSS_SV = 4"
  | "sv_type_code BDS_SV = 5"
  | "sv_type_code GALILEO_SV = 6"

text \<open>The branches on the number of a satellite: its number in the constellation, and which that is.\<close>

definition sv_of_prn :: "int \<Rightarrow> (int \<times> SV_TYPE) option" where
  "sv_of_prn v =
     (if v > 0 \<and> v \<le> 32 then Some (v, GPS_SV)
      else if v \<ge> 65 \<and> v \<le> 96 then Some (v - 64, GLONASS_SV)
      else if v \<ge> 201 \<and> v \<le> 237 then Some (v - 200, BDS_SV)
      else if v \<ge> 401 \<and> v \<le> 436 then Some (v - 400, GALILEO_SV)
      else if v \<ge> 193 \<and> v \<le> 197 then Some (v, QZSS_SV)
      else if v \<ge> 33 \<and> v \<le> 64 then Some (v + 87, SBAS_SV)
      else None)"

definition set_flag :: "bool \<Rightarrow> u8 \<Rightarrow> u8 \<Rightarrow> u8" where
  "set_flag b m v = (if b then v OR m else v AND NOT m)"

definition nmea_reader_update_sv_status :: "nmea_env \<Rightarrow> int \<Rightarrow> bytes \<Rightarrow> bytes \<Rightarrow> bytes \<Rightarrow> nmea \<Rightarrow> nmea" where
  "nmea_reader_update_sv_status e sv_id elevation_t azimuth_t snr_t s =
     (let sv_index = sv_count s + num_svs s
      in if MTK_MNLD_GNSS_MAX_SVS \<le> sv_index then s
         else case sv_of_prn sv_id of
                None \<Rightarrow> s
              | Some (n, ty) \<Rightarrow>
                  let v = sv_list s ! sv_index;
                      c = nmea_cash s ! nat sv_id;
                      f = set_flag (used_in_fix c) 0x04 (sv_flags v);
                      f = set_flag (has_almanac_data c) 0x02 f;
                      f = set_flag (has_ephemeris_data c) 0x01 f;
                      v = \<lparr>svid = of_int n, constellation = sv_type_code ty,
                           c_n0_dbhz = d_to_float (fp e) (str2float (fp e) snr_t),
                           elevation = f_of_int (fp e) (str2int elevation_t),
                           azimuth = f_of_int (fp e) (str2int azimuth_t), sv_flags = f\<rparr>
                  in s\<lparr>sv_list := (sv_list s)[sv_index := v], sv_count := sv_count s + 1\<rparr>)"

text \<open>The number of a satellite with the offset of its constellation.\<close>

definition sv_offset :: "SV_TYPE \<Rightarrow> int \<Rightarrow> int" where
  "sv_offset ty i = (case ty of BDS_SV \<Rightarrow> i32 (i + 200) | GALILEO_SV \<Rightarrow> i32 (i + 400) | _ \<Rightarrow> i)"

fun gsa_loop :: "SV_TYPE \<Rightarrow> bytes list \<Rightarrow> nmea \<Rightarrow> nmea" where
    "gsa_loop ty [] s = s"
  | "gsa_loop ty (t # ts) s =
       (if t = [] then s
        else let sate_id = sv_offset ty (str2int t);
                 s = (if sate_id \<ge> 0 \<and> sate_id < 450
                      then s\<lparr>nmea_cash := (nmea_cash s)[nat sate_id :=
                               (nmea_cash s ! nat sate_id)\<lparr>nc_prn := sate_id, used_in_fix := True\<rparr>]\<rparr> else s)
             in gsa_loop ty ts s)"

text \<open>
  The loops over \<open>idx < GPS_MAX_SVS\<close> for ephemeris and almanac, on the tokens from the second on; a
  write at or after entry 450 is undefined.
\<close>

fun cash_loop :: "(NmeaCash \<Rightarrow> NmeaCash) \<Rightarrow> nat \<Rightarrow> bytes list \<Rightarrow> nmea \<Rightarrow> nmea option" where
    "cash_loop mark i [] s = Some s"
  | "cash_loop mark i (t # ts) s =
       (if str2int t > 0 then
          if Suc i < length (nmea_cash s)
          then cash_loop mark (Suc i) ts (s\<lparr>nmea_cash := (nmea_cash s)[Suc i := mark (nmea_cash s ! Suc i)]\<rparr>)
          else None
        else cash_loop mark (Suc i) ts s)"

text \<open>
  One satellite of a GSV sentence: its number, elevation, azimuth and strength. The AT test keeps
  the number without the offset of the constellation.
\<close>

definition gsv_satellite :: "nmea_env \<Rightarrow> SV_TYPE \<Rightarrow> (nat \<Rightarrow> bytes) \<Rightarrow> nat \<Rightarrow> nmea \<Rightarrow> nmea option" where
  "gsv_satellite e ty tok idx s =
     (let base_idx = 4 * (idx + 1);
          tok_id = tok base_idx;
          sv_id = sv_offset ty (str2int tok_id);
          tok_snr = tok (base_idx + 3);
          i = sv_count s;
          a = at_cmd s
      in if i < length (prn a) \<and> i < length (snr a) then
           let a = a\<lparr>prn := (prn a)[i := str2int tok_id],
                     snr := (snr a)[i := d_to_int (fp e) (str2float (fp e) tok_snr)]\<rparr>
           in Some (nmea_reader_update_sv_status e sv_id (tok (base_idx + 1)) (tok (base_idx + 2)) tok_snr (s\<lparr>at_cmd := a\<rparr>))
         else None)"

fun gsv_loop :: "nmea_env \<Rightarrow> SV_TYPE \<Rightarrow> (nat \<Rightarrow> bytes) \<Rightarrow> nat \<Rightarrow> nat \<Rightarrow> nmea \<Rightarrow> nmea option" where
    "gsv_loop e ty tok idx 0 s = Some s"
  | "gsv_loop e ty tok idx (Suc n) s = gsv_satellite e ty tok idx s \<bind> gsv_loop e ty tok (Suc idx) n"

definition parse_gsv :: "nmea_env \<Rightarrow> SV_TYPE \<Rightarrow> (nat \<Rightarrow> bytes) \<Rightarrow> nmea \<Rightarrow> nmea option" where
  "parse_gsv e ty tok s =
     (let num = str2int (tok 1);
          seq = str2int (tok 2);
          cnt = str2int (tok 3);
          sv_base = i32 (i32 (seq - 1) * NMEA_MAX_SV_INFO);
          sv_num = i32 (cnt - sv_base);
          sv_num = (if sv_num > NMEA_MAX_SV_INFO then NMEA_MAX_SV_INFO else sv_num);
          s = (if seq = 1 then s\<lparr>sv_count := 0\<rparr> else s)
      in do {
        s \<leftarrow> gsv_loop e ty tok 0 (nat sv_num) s;
        if seq = num then
          if int (sv_count s) \<le> cnt then
            let s = s\<lparr>num_svs := num_svs s + sv_count s\<rparr>
            in if MNL_AT_TEST_FLAG (at_cmd s) \<or> MNL_AT_SIGNAL_MODE (at_cmd s)
               then map_option (\<lambda>a. s\<lparr>at_cmd := a\<rparr>) (gps_at_command_test_proc (int (sv_count s)) (at_cmd s))
               else Some s
          else Some (s\<lparr>sv_count := 0, num_svs := 0\<rparr>)
        else Some s })"

section \<open>Sentences\<close>

definition LOC_FIXED :: "nmea \<Rightarrow> bool" where
  "LOC_FIXED s \<longleftrightarrow> fix_mode s = 2 \<or> fix_mode s = 3"

definition talker :: "bytes \<Rightarrow> nat \<Rightarrow> SV_TYPE" where
  "talker b p = (if has_text b p ''BD'' then BDS_SV else if has_text b p ''GP'' then GPS_SV
     else if has_text b p ''GL'' then GLONASS_SV else if has_text b p ''GA'' then GALILEO_SV else GPS_SV)"

definition parse_gga :: "nmea_env \<Rightarrow> (nat \<Rightarrow> bytes) \<Rightarrow> (nat \<Rightarrow> u8) \<Rightarrow> nmea \<Rightarrow> nmea" where
  "parse_gga e tok ch s =
     (let s = nmea_reader_update_time e (tok 1) s;
          s = nmea_reader_update_latlong e (tok 2) (ch 3) (tok 4) (ch 5) s
      in nmea_reader_update_altitude e (tok 9) s)"

definition parse_gsa :: "SV_TYPE \<Rightarrow> (nat \<Rightarrow> bytes) \<Rightarrow> nmea \<Rightarrow> nmea" where
  "parse_gsa ty tok s =
     (let s = s\<lparr>fix_mode := str2int (tok 2)\<rparr>
      in if LOC_FIXED s then gsa_loop ty (map (\<lambda>idx. tok (idx + 3)) [0..<12]) s else s)"

definition parse_rmc :: "nmea_env \<Rightarrow> (nat \<Rightarrow> bytes) \<Rightarrow> (nat \<Rightarrow> u8) \<Rightarrow> nmea \<Rightarrow> nmea" where
  "parse_rmc e tok ch s =
     (if ch 2 = 65 then
        let s = nmea_reader_update_date e (tok 9) (tok 1) s;
            s = nmea_reader_update_latlong e (tok 3) (ch 4) (tok 5) (ch 6) s;
            s = nmea_reader_update_bearing e (tok 8) s
        in nmea_reader_update_speed e (tok 7) s
      else s)"

definition cash_tokens :: "nmea_env \<Rightarrow> (nat \<Rightarrow> bytes) \<Rightarrow> bytes list" where
  "cash_tokens e tok = map (\<lambda>idx. tok (idx + 2)) [0..<GPS_MAX_SVS e]"

text \<open>The branches on the sentence identifier, which begins at \<open>p\<close>.\<close>

definition parse_body :: "nmea_env \<Rightarrow> nat \<Rightarrow> (nat \<Rightarrow> bytes) \<Rightarrow> (nat \<Rightarrow> u8) \<Rightarrow> nmea \<Rightarrow> nmea option" where
  "parse_body e p tok ch s =
     (let b = in_buf s;
          ty = talker b p
      in if has_text b (p + 2) ''GGA'' then Some (parse_gga e tok ch s)
         else if has_text b (p + 2) ''GSA'' then Some (parse_gsa ty tok s)
         else if has_text b (p + 2) ''RMC'' then Some (parse_rmc e tok ch s)
         else if has_text b (p + 5) ''EPH'' then
           cash_loop (has_ephemeris_data_update (\<lambda>_. True)) 0 (cash_tokens e tok) s
         else if has_text b (p + 5) ''ALM'' then
           cash_loop (has_almanac_data_update (\<lambda>_. True)) 0 (cash_tokens e tok) s
         else if has_text b (p + 2) ''GSV'' then parse_gsv e ty tok s
         else if has_text b (p + 2) ''ACCURACY'' then
           Some (if fix_mode s = 3 \<or> fix_mode s = 2 then nmea_reader_update_accuracy e (tok 1) s else s)
         else if has_text b p ''PMTK817'' then
           (if MNL_AT_CW_MODE (at_cmd s)
            then map_option (\<lambda>a. s\<lparr>at_cmd := a\<rparr>)
                   (at_cw_test_command_test_result (str2int (tok 2))
                      (d_to_float (fp e) (str2float (fp e) (tok 3))) (at_cmd s))
            else Some s)
         else Some s)"

text \<open>The object representation of the \<open>gnss_sv_info\<close>, with its padding as zeros.\<close>

definition gnss_sv_bytes :: "gnss_sv \<Rightarrow> bytes" where
  "gnss_sv_bytes v = le16 (svid v) @ [constellation v, 0] @ le32 (c_n0_dbhz v) @ le32 (elevation v) @
     le32 (azimuth v) @ [sv_flags v, 0, 0, 0]"

definition sv_status_bytes :: "nmea \<Rightarrow> bytes" where
  "sv_status_bytes s = le32 (of_nat (num_svs s)) @ concat (map gnss_sv_bytes (sv_list s))"

text \<open>The reports after a sentence.\<close>

definition parse_reports :: "nmea \<Rightarrow> nmea" where
  "parse_reports s =
     (let s = (if LOC_FIXED s \<and> flags (fix_loc s) \<noteq> 0 \<and> gps_nmea_end_tag s then
                 let l = fix_loc s;
                     s = emit_out (To_hal (Location (gps_loc_bytes l))) s;
                     s = emit_out (To_main (Update_location l)) s
                 in s\<lparr>fix_loc := l\<lparr>flags := 0\<rparr>\<rparr>
               else s)
      in if gps_nmea_end_tag s then
           let s = emit_out (To_hal (Gps_sv (sv_status_bytes s))) s
           in s\<lparr>sv_count := 0, num_svs := 0, nmea_cash := replicate 450 no_cash\<rparr>
         else s)"

definition nmea_reader_parse :: "nmea_env \<Rightarrow> nmea \<Rightarrow> nmea option" where
  "nmea_reader_parse e s = do {
     a \<leftarrow> nmea_parser_at_cmd_pre (ne_now e) (gps_nmea_end_tag s) (at_cmd s);
     let s = s\<lparr>at_cmd := a\<rparr>;
     if pos s < 9 then Some s
     else
       let b = in_buf s;
           tzer = nmea_tokenizer_init b (pos s);
           tok = (\<lambda>i. tok_text b (nmea_tokenizer_get tzer i));
           ch = (\<lambda>i. tok_char b (nmea_tokenizer_get tzer i))
       in if length (tok 0) < 5 then Some s
          else map_option parse_reports (parse_body e (fst (hd tzer)) tok ch s) }"

section \<open>Bytes\<close>

definition nmea_reader_addc :: "nmea_env \<Rightarrow> u8 \<Rightarrow> nmea \<Rightarrow> nmea option" where
  "nmea_reader_addc e c s =
     (if overflow s then Some (s\<lparr>overflow := c \<noteq> 10\<rparr>)
      else if pos s \<ge> NMEA_MAX_SIZE then Some (s\<lparr>overflow := True, pos := 0\<rparr>)
      else
        let s = s\<lparr>in_buf := (in_buf s)[pos s := c], pos := pos s + 1\<rparr>
        in if c = 10 then do {
             s \<leftarrow> nmea_reader_parse e s;
             let s = emit_out (To_hal (Nmea (timestamp (fix_loc s)) (Some (cstr (in_buf s))) (int (pos s)))) s;
             Some (s\<lparr>pos := 0, in_buf := replicate (NMEA_MAX_SIZE + 1) 0\<rparr>) }
           else Some s)"

fun process_bytes :: "nmea_env \<Rightarrow> bytes \<Rightarrow> nmea \<Rightarrow> nmea option" where
    "process_bytes e [] s = Some s"
  | "process_bytes e (c # cs) s =
       nmea_reader_addc e c (if cs = [] then s\<lparr>gps_nmea_end_tag := True\<rparr> else s) \<bind> process_bytes e cs"

definition mtk_mnl_nmea_parser_process :: "nmea_env \<Rightarrow> bytes \<Rightarrow> nmea \<Rightarrow> nmea option" where
  "mtk_mnl_nmea_parser_process e buffer s =
     process_bytes e buffer (nmea_reader_init e s\<lparr>gps_nmea_end_tag := False\<rparr>)"

end
