(* ===== verification/At_Props.thy ===== *)
theory At_Props
  imports At_Test
begin

text \<open>
  Facts about the AT command client: the square root, the ownership of the block of samples over
  every sequence of commands and measurements, and the course of a complete test.
\<close>

section \<open>The square root\<close>

lemma isqrt_bits_spec:
  "r\<^sup>2 \<le> n \<Longrightarrow> n < (r + 2 ^ b)\<^sup>2 \<Longrightarrow>
   (isqrt_bits n b r)\<^sup>2 \<le> n \<and> n < (isqrt_bits n b r + 1)\<^sup>2"
proof (induction b arbitrary: r)
  case (Suc b)
  have "r + 2 ^ Suc b = (r + 2 ^ b) + 2 ^ b" by (simp add: mult_2)
  then have "n < ((r + 2 ^ b) + 2 ^ b)\<^sup>2" using Suc.prems(2) by metis
  then show ?case using Suc.prems(1) Suc.IH[of r] Suc.IH[of "r + 2 ^ b"]
    by (cases "(r + 2 ^ b)\<^sup>2 \<le> n") (simp_all add: not_le)
qed simp

lemma isqrt_spec:
  assumes "0 \<le> n" "n < 2 ^ 31"
  shows "0 \<le> isqrt n \<and> (isqrt n)\<^sup>2 \<le> n \<and> n < (isqrt n + 1)\<^sup>2"
proof -
  let ?r = "isqrt_bits (nat n) 16 0"
  have "nat n < (0 + 2 ^ 16)\<^sup>2" using assms by (simp add: nat_less_iff)
  then have r: "?r\<^sup>2 \<le> nat n" "nat n < (?r + 1)\<^sup>2" using isqrt_bits_spec[of 0 "nat n" 16] by simp_all
  have "int (?r\<^sup>2) \<le> n" using r(1) assms by linarith
  moreover have "n < int ((?r + 1)\<^sup>2)" using r(2) assms by linarith
  ultimately show ?thesis by (simp add: isqrt_def algebra_simps)
qed

section \<open>Ownership of the block of samples\<close>

text \<open>
  Between two inputs the block is allocated whenever a test is on or a sample is counted; only
  then is it freed or read.
\<close>

definition at_on :: "at_ctx \<Rightarrow> bool" where
  "at_on s \<longleftrightarrow> MNL_AT_TEST_STATE s \<noteq> TEST_UNKNOWN \<or> MNL_AT_TEST_FLAG s \<or> MNL_AT_SIGNAL_MODE s \<or>
     MNL_AT_CW_MODE s \<or> MNL_AT_SIGNAL_TEST_BEGIN s \<or> Success_Num s \<noteq> 0"

fun is_live :: "heap_array \<Rightarrow> bool" where
    "is_live (Live vs) = True"
  | "is_live _ = False"

definition at_arrays :: "at_ctx \<Rightarrow> bool" where
  "at_arrays s \<longleftrightarrow> length (prn s) = 32 \<and> length (snr s) = 32 \<and> length (test_result s) = 8"

definition at_owned :: "at_ctx \<Rightarrow> bool" where
  "at_owned s \<longleftrightarrow> (at_on s \<longrightarrow> is_live (Dev_CNr s)) \<and> at_arrays s"

lemmas owned_defs = at_owned_def at_arrays_def at_on_def at_command_send_ack_def at_emit_def

lemma is_live_iff: "is_live h \<longleftrightarrow> (\<exists>vs. h = Live vs)"
  by (cases h) auto

lemma at_owned_boot: "at_owned at_boot"
  by (simp add: at_boot_def owned_defs)

text \<open>
  Partial and total correctness of an operation that may be undefined: \<open>pred_option P x\<close> of the
  library says that a defined outcome satisfies \<open>P\<close>; \<open>ensures P x\<close> also that there is one.
\<close>

definition ensures :: "('a \<Rightarrow> bool) \<Rightarrow> 'a option \<Rightarrow> bool" where
  "ensures P x \<longleftrightarrow> (\<exists>y. x = Some y \<and> P y)"

lemma ensures_simps [simp]: "ensures P (Some y) = P y" "\<not> ensures P None"
  by (simp_all add: ensures_def)

lemma pred_option_bindI:
  "pred_option P x \<Longrightarrow> (\<And>y. P y \<Longrightarrow> pred_option Q (f y)) \<Longrightarrow> pred_option Q (x \<bind> f)"
  by (cases x) simp_all

lemma pred_option_bind_all: "(\<And>y. pred_option Q (f y)) \<Longrightarrow> pred_option Q (x \<bind> f)"
  by (cases x) simp_all

lemma ensures_bindI: "ensures (\<lambda>y. ensures Q (f y)) x \<Longrightarrow> ensures Q (x \<bind> f)"
  by (cases x) simp_all

lemma ensures_mono: "ensures P x \<Longrightarrow> (\<And>y. P y \<Longrightarrow> Q y) \<Longrightarrow> ensures Q x"
  by (cases x) simp_all

lemma ensures_pred: "ensures P x \<Longrightarrow> pred_option P x"
  by (cases x) simp_all

text \<open>While a test is on, stopping it is defined: no block is freed twice.\<close>

lemma stop_owned:
  "at_owned s \<Longrightarrow> at_on s \<Longrightarrow> ensures at_owned (gpsinf_mtk_gps_test_stop s)"
  by (cases "Dev_CNr s") (simp_all add: gpsinf_mtk_gps_test_stop_def owned_defs)

lemma at_ownedI: "is_live (Dev_CNr s) \<Longrightarrow> at_arrays s \<Longrightarrow> at_owned s"
  by (simp add: at_owned_def)

lemma test_begin_owned: "at_arrays s \<Longrightarrow> at_owned (snd (test_begin now n p d m s))"
  by (rule at_ownedI) (simp_all add: test_begin_def at_emit_def at_arrays_def Let_def)

lemma start_owned:
  assumes "at_owned s"
  shows "ensures (\<lambda>(r, s'). at_owned s') (gpsinf_mtk_gps_test_start now n p d m s)"
proof -
  let ?x = "if MNL_AT_TEST_STATE s \<noteq> TEST_UNKNOWN \<and> test_mode_flag s then gpsinf_mtk_gps_test_stop s else Some s"
  have "ensures at_owned ?x" using assms stop_owned by (simp add: at_on_def)
  then show ?thesis unfolding gpsinf_mtk_gps_test_start_def
    by (intro ensures_bindI, elim ensures_mono)
      (use test_begin_owned at_owned_def in \<open>force simp: case_prod_unfold\<close>)
qed

section \<open>Commands\<close>

text \<open>An acknowledgement does not touch the test.\<close>

lemma at_owned_emit [simp]: "at_owned (at_emit x s) = at_owned s"
  by (simp add: owned_defs)

lemma at_owned_ack [simp]: "at_owned (at_command_send_ack t s) = at_owned s"
  by (simp add: at_command_send_ack_def)

lemma at_owned_flags [simp]:
  "at_owned (s\<lparr>test_mode_flag := b\<rparr>) = at_owned s"
  "at_owned (s\<lparr>Wait_Num := w\<rparr>) = at_owned s"
  "at_owned (s\<lparr>CNR := c, ClkDrift := k\<rparr>) = at_owned s"
  "at_owned (s\<lparr>cn := c\<rparr>) = at_owned s"
  "at_owned (s\<lparr>at_log := l\<rparr>) = at_owned s"
  "at_on (s\<lparr>at_log := l\<rparr>) = at_on s"
  by (simp_all add: owned_defs)

lemma ack_sprintf_owned: "at_owned s \<Longrightarrow> pred_option at_owned (ack_sprintf n t s)"
  by (simp add: ack_sprintf_def)

lemma send_cno_owned: "at_owned s \<Longrightarrow> pred_option at_owned (at_command_send_cno command s)"
  by (simp add: at_command_send_cno_def ack_sprintf_owned Let_def)

lemma send_test_result_owned: "at_owned s \<Longrightarrow> pred_option at_owned (at_command_send_test_result s)"
  by (simp add: at_command_send_test_result_def ack_sprintf_owned Let_def)

lemma start_ack_owned: "at_owned s \<Longrightarrow> ensures at_owned (at_test_start_ack now ok err n s)"
  unfolding at_test_start_ack_def
  by (rule ensures_bindI, rule ensures_mono[OF start_owned]) auto

text \<open>A start or a stop followed by an acknowledgement.\<close>

lemma start_then_owned:
  "at_owned s \<Longrightarrow> (\<And>r s'. at_owned s' \<Longrightarrow> pred_option at_owned (k (r, s'))) \<Longrightarrow>
   pred_option at_owned (gpsinf_mtk_gps_test_start now n p d m s \<bind> k)"
  using start_owned[of s now n p d m] by (auto simp: ensures_def)

lemma stop_then_owned:
  "at_owned s \<Longrightarrow> MNL_AT_TEST_STATE s \<noteq> TEST_UNKNOWN \<Longrightarrow>
   (\<And>s'. at_owned s' \<Longrightarrow> pred_option at_owned (k s')) \<Longrightarrow>
   pred_option at_owned (gpsinf_mtk_gps_test_stop s \<bind> k)"
  using stop_owned[of s] by (auto simp: ensures_def at_on_def)

lemma signal_mode_owned:
  "at_owned s \<Longrightarrow> MNL_AT_TEST_FLAG s \<Longrightarrow>
   at_owned (s\<lparr>MNL_AT_SIGNAL_MODE := True, MNL_AT_TEST_FLAG := False\<rparr>)"
  "at_owned s \<Longrightarrow> MNL_AT_TEST_FLAG s \<Longrightarrow>
   at_owned (s\<lparr>MNL_AT_SIGNAL_MODE := True, MNL_AT_TEST_FLAG := False, MNL_AT_CANCEL_ALARM := False\<rparr>)"
  by (simp_all add: owned_defs)

lemmas command_owned = send_cno_owned send_test_result_owned ack_sprintf_owned
  start_ack_owned[THEN ensures_pred] stop_owned[THEN ensures_pred]

lemma gps_parser_owned: "at_owned s \<Longrightarrow> pred_option at_owned (at_gps_command_parser now command s)"
  unfolding at_gps_command_parser_def Let_def
  by (simp add: command_owned pred_option_bind_all split: at_test_state.split)

lemma gnss_number_owned:
  assumes "at_owned s"
  shows "pred_option at_owned (at_gnss_number now n s)"
proof -
  define t where "t = s\<lparr>test_result := [1, 0, 0, 0, 0, 0, 0, 0], Avg_CNo := 0, Success_Num := 0,
    Completed_Num := 0, CNo := 0, Dev_CNo := 0, cn := 0\<rparr>"
  have t: "at_owned t" using assms by (auto simp: t_def owned_defs)
  have b: "MNL_AT_SIGNAL_MODE t \<Longrightarrow> at_owned (at_command_send_ack m
    (t\<lparr>MNL_AT_SIGNAL_TEST_BEGIN := True, MNL_AT_TEST_STATE := TEST_INPROGRESS\<rparr>)\<lparr>start_time := now\<rparr>)" for m
    using t by (simp add: owned_defs)
  have "MNL_AT_TEST_STATE t \<noteq> TEST_UNKNOWN \<Longrightarrow> at_on t" by (simp add: at_on_def)
  then show ?thesis unfolding at_gnss_number_def t_def[symmetric] Let_def
    using t b by (simp add: command_owned at_command_send_ack_def at_emit_def)
qed

lemma gnss_set_owned: "at_owned s \<Longrightarrow> pred_option at_owned (at_gnss_set now command s)"
  unfolding at_gnss_set_def Let_def
  by (simp add: command_owned gnss_number_owned pred_option_bind_all start_then_owned stop_then_owned signal_mode_owned)

lemma gnss_parser_owned: "at_owned s \<Longrightarrow> pred_option at_owned (at_gnss_command_parser now command s)"
  unfolding at_gnss_command_parser_def Let_def
  by (simp add: command_owned gnss_set_owned)

lemma cw_parser_owned: "at_owned s \<Longrightarrow> pred_option at_owned (at_cw_test_command_parser now command s)"
  unfolding at_cw_test_command_parser_def at_cw_test_command_send_test_result_def Let_def
  by (simp add: command_owned start_then_owned stop_then_owned)

lemma hdlr_owned: "at_owned s \<Longrightarrow> pred_option at_owned (at_cmd2mnl_hdlr now d s)"
  by (simp add: at_cmd2mnl_hdlr_def at_command_parser_def Let_def gps_parser_owned gnss_parser_owned cw_parser_owned)

section \<open>Measurements\<close>

lemma cw_result_owned: "at_owned s \<Longrightarrow> ensures at_owned (at_cw_test_command_test_result v k s)"
proof -
  assume s: "at_owned s"
  let ?t = "s\<lparr>CNR := v, ClkDrift := k, MNL_AT_TEST_STATE := TEST_RESULT_DONE\<rparr>"
  have "gpsinf_mtk_gps_test_inprogress s \<noteq> TEST_UNKNOWN \<Longrightarrow> at_owned ?t"
    using s by (auto simp: gpsinf_mtk_gps_test_inprogress_def owned_defs)
  moreover have "at_on ?t" by (simp add: at_on_def)
  ultimately show ?thesis using s stop_owned[of ?t]
    by (simp add: at_cw_test_command_test_result_def Let_def)
qed

lemma batch_end_owned:
  "at_batch_end s = (b, s') \<Longrightarrow> at_owned s \<Longrightarrow> at_owned s' \<and> MNL_AT_TEST_FLAG s' = MNL_AT_TEST_FLAG s \<and>
   MNL_AT_SIGNAL_TEST_BEGIN s' = MNL_AT_SIGNAL_TEST_BEGIN s"
  by (auto simp: at_batch_end_def owned_defs Let_def split: if_split_asm)

lemma pre_owned: "at_owned s \<Longrightarrow> ensures at_owned (nmea_parser_at_cmd_pre now e s)"
proof -
  assume s: "at_owned s"
  show ?thesis
  proof (cases "MNL_AT_TEST_FLAG s \<or> MNL_AT_SIGNAL_TEST_BEGIN s")
    case on: True
    obtain b t where b: "at_batch_end s = (b, t)" by fastforce
    define t' where "t' = t\<lparr>prev_success_num := Success_Num t\<rparr>"
    define u where "u = t'\<lparr>test_result := (test_result t')[0 := Err_Code t', 3 := Success_Num t',
                              4 := Completed_Num t', 5 := Avg_CNo t', 6 := Dev_CNo t'],
                            Wait_Num := 0, MNL_AT_TEST_STATE := TEST_DONE, Err_Code := 1\<rparr>"
    have t: "at_owned t" "MNL_AT_TEST_FLAG t \<or> MNL_AT_SIGNAL_TEST_BEGIN t"
      using batch_end_owned[OF b s] on by auto
    have t': "at_owned t'" using t by (simp add: t'_def owned_defs)
    have u: "at_owned u" "at_on u" using t by (auto simp: u_def t'_def owned_defs)
    have "ensures at_owned (map_option (\<lambda>s. s\<lparr>Failure_Num := 0, prev_success_num := 0\<rparr>) (gpsinf_mtk_gps_test_stop u))"
      using stop_owned[OF u] by (auto simp: ensures_def owned_defs)
    then show ?thesis using on s t' u
      by (simp add: nmea_parser_at_cmd_pre_def b t'_def[symmetric] u_def[symmetric] Let_def)
  next
    case False
    have "MNL_AT_CW_MODE s \<Longrightarrow> at_owned (at_emit At_cw_mode s\<lparr>MNL_AT_TEST_STATE := TEST_DONE\<rparr>)"
      using s by (auto simp: owned_defs)
    then show ?thesis using False s by (simp add: nmea_parser_at_cmd_pre_def Let_def)
  qed
qed

lemma update_deviation_owned: "at_owned s \<Longrightarrow> pred_option at_owned (update_deviation s)"
  by (auto simp: update_deviation_def owned_defs Let_def split: heap_array.splits)

lemma record_cno_owned: "at_owned s \<Longrightarrow> pred_option at_owned (record_cno v s)"
  by (cases "Dev_CNr s") (auto simp: record_cno_def owned_defs Let_def)

lemma found_owned:
  assumes s: "at_owned s" "MNL_AT_TEST_FLAG s \<or> MNL_AT_SIGNAL_MODE s"
  shows "pred_option at_owned (found_satellite v s)"
proof -
  have live: "is_live (Dev_CNr s)" "at_arrays s" using s by (auto simp: at_owned_def at_on_def)
  define t where "t = (let s = (if MNL_AT_SIGNAL_MODE s \<and> \<not> MNL_AT_SIGNAL_TEST_BEGIN s
                      then s\<lparr>MNL_AT_TEST_STATE := TEST_INPROGRESS\<rparr> else s)
    in if MNL_AT_SIGNAL_MODE s \<and> MNL_AT_SIGNAL_TEST_BEGIN s
       then s\<lparr>MNL_AT_TEST_STATE := TEST_RESULT_DONE, sig_suc_num := 1\<rparr> else s)"
  have t: "at_owned t" using live by (intro at_ownedI) (simp_all add: t_def at_arrays_def Let_def)
  have "pred_option at_owned ((if MNL_AT_TEST_FLAG t then record_cno w t else Some t) \<bind> (\<lambda>s. Some (s\<lparr>cn := c\<rparr>)))" for w c
    by (rule pred_option_bindI[of at_owned]) (simp_all add: t record_cno_owned)
  moreover have "at_owned ((if MNL_AT_CANCEL_ALARM s \<and> MNL_AT_TEST_FLAG s
                      then s\<lparr>at_test_num := at_test_num s + 1\<rparr> else s)\<lparr>sig_suc_num := 0\<rparr>)"
    using live by (intro at_ownedI) (simp_all add: at_arrays_def)
  ultimately show ?thesis
    unfolding found_satellite_def t_def Let_def
    by (intro pred_option_bindI[of at_owned]) (simp_all add: update_deviation_owned)
qed

lemma search_owned:
  assumes "at_owned s" "MNL_AT_TEST_FLAG s \<or> MNL_AT_SIGNAL_MODE s"
  shows "pred_option at_owned (search_from i n s)"
proof (induction n arbitrary: i)
  case (Suc n)
  have "pred_option at_owned (found_satellite v s)" for v using assms by (rule found_owned)
  then show ?case using Suc.IH by (simp only: search_from.simps split: if_split) simp
qed (use assms in simp)

lemma test_result_owned [simp]:
  "at_owned (s\<lparr>test_result := (test_result s)[0 := a, 3 := b, 4 := c, 5 := d, 6 := e]\<rparr>) = at_owned s"
  by (simp add: owned_defs)

lemma test_proc_owned:
  assumes "at_owned s" "MNL_AT_TEST_FLAG s \<or> MNL_AT_SIGNAL_MODE s"
  shows "pred_option at_owned (gps_at_command_test_proc n s)"
proof -
  have r: "pred_option at_owned (gps_at_command_search_satellite n s)"
    unfolding gps_at_command_search_satellite_def using assms by (rule search_owned)
  then have "pred_option at_owned (gps_at_command_search_satellite n s \<bind> (\<lambda>s. Some (s\<lparr>test_result :=
      (test_result s)[0 := 0, 3 := sig_suc_num s, 4 := 1, 5 := cn s, 6 := 0]\<rparr>)))"
    by (rule pred_option_bindI) simp
  then show ?thesis using r assms(1) by (simp add: gps_at_command_test_proc_def)
qed

section \<open>The course of a test\<close>

text \<open>
  One epoch of the receiver: a set of satellites in view, and the end of the batch of sentences
  that carried it.
\<close>

record epoch =
  ep_time :: int
  ep_count :: int
  ep_prn :: "int list"
  ep_snr :: "int list"

definition at_epoch :: "epoch \<Rightarrow> at_ctx \<Rightarrow> at_ctx option" where
  "at_epoch x s = do {
     let s = s\<lparr>prn := ep_prn x, snr := ep_snr x\<rparr>;
     s \<leftarrow> (if MNL_AT_TEST_FLAG s \<or> MNL_AT_SIGNAL_MODE s then gps_at_command_test_proc (ep_count x) s else Some s);
     nmea_parser_at_cmd_pre (ep_time x) True s }"

fun at_epochs :: "epoch list \<Rightarrow> at_ctx \<Rightarrow> at_ctx option" where
    "at_epochs [] s = Some s"
  | "at_epochs (x # xs) s = at_epoch x s \<bind> at_epochs xs"

text \<open>An epoch at least two seconds after \<open>t\<close>, with signal strengths of at most two digits.\<close>

definition epoch_ok :: "int \<Rightarrow> epoch \<Rightarrow> bool" where
  "epoch_ok t x \<longleftrightarrow> t + 2 \<le> ep_time x \<and> ep_time x < t + 2 ^ 31 \<and> ep_count x \<le> 32 \<and>
     length (ep_prn x) = 32 \<and> length (ep_snr x) = 32 \<and> list_all (\<lambda>v. 0 \<le> v \<and> v \<le> 99) (ep_snr x)"

lemma i32_id: "- 2147483648 \<le> x \<Longrightarrow> x \<le> 2147483647 \<Longrightarrow> i32 x = x"
  by (simp add: i32_def signed_take_bit_int_eq_self)

lemma sdiv_nonneg: "0 \<le> a \<Longrightarrow> 0 < b \<Longrightarrow> a sdiv b = a div (b :: int)"
  by (cases "a = 0") (simp_all add: signed_divide_int_def)

text \<open>A sum of squared deviations that stays within an \<open>int\<close>.\<close>

lemma sum_squares_bound:
  fixes avg :: int
  assumes "list_all (\<lambda>v. 0 \<le> v \<and> v \<le> 990) vs" "0 \<le> avg" "avg \<le> 990" "0 \<le> a"
    "a + 980100 * int (length vs) \<le> 2147483647"
  shows "0 \<le> foldl (\<lambda>a v. i32 (a + (let d = i32 (v - avg) in i32 (d * d)))) a vs \<and>
    foldl (\<lambda>a v. i32 (a + (let d = i32 (v - avg) in i32 (d * d)))) a vs \<le> a + 980100 * int (length vs)"
  using assms(1,4,5)
proof (induction vs arbitrary: a)
  case (Cons v vs)
  have v: "0 \<le> v" "v \<le> 990" using Cons.prems(1) by simp_all
  have d: "i32 (v - avg) = v - avg" using v assms by (intro i32_id) linarith+
  have "\<bar>v - avg\<bar> \<le> 990" using v assms by linarith
  then have "(v - avg) * (v - avg) \<le> 990 * 990" by (metis abs_le_square_iff abs_numeral power2_eq_square)
  then have sq: "0 \<le> (v - avg) * (v - avg)" "(v - avg) * (v - avg) \<le> 980100" by simp_all
  have i: "i32 ((v - avg) * (v - avg)) = (v - avg) * (v - avg)" using sq by (intro i32_id) linarith+
  let ?b = "a + (v - avg) * (v - avg)"
  have "a + 980100 \<le> 2147483647" using Cons.prems(3) by simp
  then have b: "i32 ?b = ?b" using sq Cons.prems(2) by (intro i32_id) linarith+
  have "?b + 980100 * int (length vs) \<le> a + 980100 * int (length (v # vs))" using sq by simp
  then show ?case using Cons.IH[of ?b] Cons.prems sq d i b by (simp add: Let_def)
qed simp

lemma update_deviation_ok:
  assumes "Dev_CNr s = Live vs" "0 \<le> Success_Num s" "Success_Num s \<le> int (length vs)" "length vs \<le> 2000"
    "list_all (\<lambda>v. 0 \<le> v \<and> v \<le> 990) vs" "0 \<le> Avg_CNo s" "Avg_CNo s \<le> 990"
  shows "\<exists>d. update_deviation s = Some (s\<lparr>Dev_CNo := d\<rparr>)"
proof (cases "Success_Num s = 0")
  case True
  then show ?thesis by (auto simp: update_deviation_def intro!: exI[of _ "Dev_CNo s"])
next
  case False
  let ?us = "take (nat (Success_Num s)) vs"
  let ?S = "foldl (\<lambda>a v. i32 (a + (let d = i32 (v - Avg_CNo s) in i32 (d * d)))) 0 ?us"
  have "list_all (\<lambda>v. 0 \<le> v \<and> v \<le> 990) ?us" using assms(5) by (auto simp: list_all_iff dest: in_set_takeD)
  then have "0 \<le> ?S" using assms sum_squares_bound[of ?us "Avg_CNo s" 0] by simp
  then have "0 \<le> ?S sdiv Success_Num s" using False assms(2) by (simp add: sdiv_nonneg pos_imp_zdiv_nonneg_iff)
  then show ?thesis using False assms(1,3) by (simp add: update_deviation_def Let_def) blast
qed

text \<open>
  A test of \<open>n\<close> samples that is under way, started at \<open>t\<close>, with the log \<open>L\<close>. Until the first sample it counts the
  epochs it has waited; then every epoch is a success or a failure.
\<close>

definition at_running :: "int \<Rightarrow> nat \<Rightarrow> at_effect list \<Rightarrow> at_ctx \<Rightarrow> bool" where
  "at_running t n L s \<longleftrightarrow> at_log s = L \<and> MNL_AT_TEST_FLAG s \<and> \<not> MNL_AT_SIGNAL_MODE s \<and> \<not> MNL_AT_SIGNAL_TEST_BEGIN s \<and>
     \<not> MNL_AT_CW_MODE s \<and> MNL_AT_TEST_STATE s = TEST_INPROGRESS \<and> td_test_num s = int n \<and>
     td_time_delay s = 2 \<and> start_time s = t \<and> length (test_result s) = 8 \<and>
     (\<exists>vs. Dev_CNr s = Live vs \<and> length vs = n \<and> list_all (\<lambda>v. 0 \<le> v \<and> v \<le> 990) vs) \<and>
     0 \<le> Success_Num s \<and> 0 \<le> Failure_Num s \<and> Success_Num s + Failure_Num s < int n \<and>
     prev_success_num s = Success_Num s \<and> (Success_Num s = 0 \<longrightarrow> Failure_Num s = 0) \<and>
     (0 < Success_Num s \<longrightarrow> Err_Code s = 0) \<and>
     0 \<le> Wait_Num s \<and> Wait_Num s < 20 \<and>
     0 \<le> CNo s \<and> CNo s \<le> 990 * Success_Num s \<and> 0 \<le> Avg_CNo s \<and> Avg_CNo s \<le> 990"

definition at_remaining :: "nat \<Rightarrow> at_ctx \<Rightarrow> int" where
  "at_remaining n s = (if Success_Num s = 0 then int n + 19 - Wait_Num s
     else int n - (Success_Num s + Failure_Num s))"

text \<open>The test is over: the receiver was stopped and the result of all samples, or a timeout, recorded.\<close>

definition at_over :: "nat \<Rightarrow> at_effect list \<Rightarrow> at_ctx \<Rightarrow> bool" where
  "at_over n L s \<longleftrightarrow> \<not> MNL_AT_TEST_FLAG s \<and> \<not> MNL_AT_SIGNAL_MODE s \<and> \<not> MNL_AT_SIGNAL_TEST_BEGIN s \<and>
     \<not> MNL_AT_CW_MODE s \<and> MNL_AT_TEST_STATE s = TEST_UNKNOWN \<and> Dev_CNr s = Freed \<and>
     at_log s = L @ [At_gps_stop] \<and> Failure_Num s = 0 \<and> prev_success_num s = 0 \<and>
     Success_Num s = 0 \<and> Wait_Num s = 0 \<and> CNo s = 0 \<and>
     (test_result s ! 0 = 0 \<and> test_result s ! 4 = int n \<or>
      test_result s ! 0 = 32 \<and> test_result s ! 3 = 0 \<and> test_result s ! 4 = 1)"

text \<open>
  The state between the satellites and the end of the batch: at most one sample more than before.
\<close>

definition at_measured :: "at_ctx \<Rightarrow> at_ctx \<Rightarrow> bool" where
  "at_measured s s' \<longleftrightarrow> at_log s' = at_log s \<and>
     Success_Num s' \<in> {Success_Num s, Success_Num s + 1} \<and> Failure_Num s' = Failure_Num s \<and>
     Wait_Num s' = Wait_Num s \<and> prev_success_num s' = prev_success_num s \<and>
     MNL_AT_TEST_FLAG s' \<and> \<not> MNL_AT_SIGNAL_MODE s' \<and> \<not> MNL_AT_SIGNAL_TEST_BEGIN s' \<and>
     \<not> MNL_AT_CW_MODE s' \<and> MNL_AT_TEST_STATE s' = TEST_INPROGRESS \<and> td_test_num s' = td_test_num s \<and>
     td_time_delay s' = 2 \<and> start_time s' = start_time s \<and> length (test_result s') = 8 \<and>
     (\<exists>vs. Dev_CNr s' = Live vs \<and> length vs = nat (td_test_num s) \<and> list_all (\<lambda>v. 0 \<le> v \<and> v \<le> 990) vs) \<and>
     (0 < Success_Num s' \<longrightarrow> Err_Code s' = 0) \<and>
     0 \<le> CNo s' \<and> CNo s' \<le> 990 * Success_Num s' \<and> 0 \<le> Avg_CNo s' \<and> Avg_CNo s' \<le> 990"

lemma record_cno_ok:
  assumes "at_running t n L s" "n \<le> 2000" "0 \<le> v" "v \<le> 990"
  shows "ensures (\<lambda>s'. at_measured s s' \<and> Success_Num s' \<le> int n) (record_cno v s)"
proof -
  obtain vs where vs: "Dev_CNr s = Live vs" "length vs = n" "list_all (\<lambda>v. 0 \<le> v \<and> v \<le> 990) vs"
    using assms(1) by (auto simp: at_running_def)
  have b: "0 \<le> CNo s" "CNo s \<le> 990 * Success_Num s" "0 \<le> Success_Num s" "Success_Num s < int n"
    using assms(1) by (auto simp: at_running_def)
  have i: "i32 (CNo s + v) = CNo s + v" using b assms by (intro i32_id) linarith+
  have c: "0 \<le> CNo s + v" "CNo s + v \<le> 990 * (Success_Num s + 1)" using b assms by simp_all
  have "(CNo s + v) sdiv (Success_Num s + 1) = (CNo s + v) div (Success_Num s + 1)"
    using b c by (simp add: sdiv_nonneg)
  moreover have "0 \<le> (CNo s + v) div (Success_Num s + 1)" using b c by (simp add: pos_imp_zdiv_nonneg_iff)
  moreover have "(CNo s + v) div (Success_Num s + 1) \<le> 990"
    using zdiv_mono1[OF c(2), of "Success_Num s + 1"] b(3)
      nonzero_mult_div_cancel_right[of "Success_Num s + 1" "990 :: int"] by linarith
  moreover have "list_all (\<lambda>v. 0 \<le> v \<and> v \<le> 990) (vs[nat (Success_Num s) := v])"
    using vs(3) assms(3,4) by (auto simp: list_all_iff dest!: set_update_subset_insert[THEN subsetD])
  ultimately show ?thesis using assms(1) vs b c
    by (simp add: record_cno_def Let_def i at_measured_def at_running_def)
qed

lemma found_ok:
  assumes "at_running t n L s" "n \<le> 2000" "0 \<le> v" "v \<le> 99"
  shows "ensures (at_measured s) (found_satellite v s)"
proof -
  have off: "\<not> MNL_AT_SIGNAL_MODE s" "MNL_AT_TEST_FLAG s" using assms(1) by (auto simp: at_running_def)
  have v: "i32 (v * 10) = v * 10" using assms by (intro i32_id) linarith+
  have upd: "at_measured s u \<Longrightarrow> at_measured s (u\<lparr>cn := c\<rparr>)" for u c by (simp add: at_measured_def)
  have dev: "ensures (at_measured s) (update_deviation u)" if u: "at_measured s u" "Success_Num u \<le> int n" for u
  proof -
    obtain vs where "Dev_CNr u = Live vs" "length vs = n" "list_all (\<lambda>v. 0 \<le> v \<and> v \<le> 990) vs"
      using u(1) assms(1) by (auto simp: at_measured_def at_running_def)
    then obtain d where "update_deviation u = Some (u\<lparr>Dev_CNo := d\<rparr>)"
      using update_deviation_ok[of u vs] u assms(1,2) by (auto simp: at_measured_def at_running_def)
    then show ?thesis using u(1) by (simp add: at_measured_def)
  qed
  show ?thesis
  proof (cases "v = 0")
    case True
    let ?u = "(if MNL_AT_CANCEL_ALARM s \<and> MNL_AT_TEST_FLAG s
                      then s\<lparr>at_test_num := at_test_num s + 1\<rparr> else s)\<lparr>sig_suc_num := 0\<rparr>"
    have "at_measured s ?u" "Success_Num ?u \<le> int n" using assms(1) by (auto simp: at_measured_def at_running_def)
    then show ?thesis using True dev[of ?u] by (simp add: found_satellite_def)
  next
    case False
    have "ensures (\<lambda>u. at_measured s u \<and> Success_Num u \<le> int n) (record_cno (v * 10) s)"
      using assms by (intro record_cno_ok) simp_all
    then show ?thesis using False off dev upd by (auto simp: found_satellite_def v ensures_def)
  qed
qed

lemma search_ok:
  assumes "at_running t n L s" "n \<le> 2000" "length (prn s) = 32" "length (snr s) = 32"
    "list_all (\<lambda>v. 0 \<le> v \<and> v \<le> 99) (snr s)" "i + k \<le> 32"
  shows "ensures (at_measured s) (search_from i k s)"
  using assms(6)
proof (induction k arbitrary: i)
  case 0
  then show ?case using assms(1) by (auto simp: at_measured_def at_running_def)
next
  case (Suc k)
  have "ensures (at_measured s) (found_satellite (snr s ! i) s)"
    using assms Suc.prems by (intro found_ok[of t n]) (auto simp: list_all_length)
  then show ?case using Suc.IH[of "Suc i"] Suc.prems assms(3,4) by simp
qed

text \<open>The end of the batch: the test is over, or one step closer to its end.\<close>

lemma measured_running:
  assumes "at_running t n L s" "at_measured s u" "w = u\<lparr>Failure_Num := F, Completed_Num := C, Wait_Num := W,
      prev_success_num := Success_Num u\<rparr>" "0 \<le> F" "Success_Num u + F < int n" "Success_Num u = 0 \<longrightarrow> F = 0"
    "0 \<le> W" "W < 20"
  shows "at_running t n L w"
  using assms by (simp add: at_running_def at_measured_def)

lemma measured_count:
  assumes "at_running t n L s" "at_measured s u" 
  shows "0 \<le> Success_Num s" "Success_Num u \<in> {Success_Num s, Success_Num s + 1}" "0 \<le> Failure_Num s"
    "Failure_Num u = Failure_Num s" "prev_success_num u = Success_Num s" "Success_Num s + Failure_Num s < int n"
    "td_test_num u = int n" "Success_Num s = 0 \<Longrightarrow> Failure_Num s = 0" "0 \<le> Wait_Num s" "Wait_Num s < 20"
    "Wait_Num u = Wait_Num s" "0 < Success_Num u \<Longrightarrow> Err_Code u = 0"
  using assms by (simp_all add: at_running_def at_measured_def)

lemma batch_end_ok:
  assumes s: "at_running t n L s" "n \<le> 2000" and m: "at_measured s u" and w: "at_batch_end u = (b, w)"
  defines "w' \<equiv> w\<lparr>prev_success_num := Success_Num w\<rparr>"
  shows "b \<and> Err_Code w = 0 \<and> Completed_Num w = int n \<or>
    b \<and> Err_Code w = 32 \<and> Success_Num w = 0 \<and> Completed_Num w = 1 \<or>
    \<not> b \<and> at_running t n L w' \<and> at_remaining n w' < at_remaining n s"
proof (cases "0 < Success_Num u")
  case True
  note c = measured_count[OF s(1) m]
  define F where "F = (if prev_success_num u = Success_Num u then Failure_Num u + 1 else Failure_Num u)"
  have F: "Success_Num u + F = Success_Num s + Failure_Num s + 1" "0 \<le> F"
    using c by (auto simp: F_def)
  have i: "i32 (Failure_Num u + 1) = Failure_Num u + 1" "i32 (Success_Num u + F) = Success_Num u + F"
    using s(2) c F by (auto intro!: i32_id)
  have w2: "w = u\<lparr>Failure_Num := F, Completed_Num := Success_Num u + F\<rparr>" "b \<longleftrightarrow> Success_Num u + F = int n"
    using w True c(7) i unfolding F_def by (simp_all add: at_batch_end_def Let_def split: if_split_asm)
  show ?thesis
  proof (cases b)
    case b: True
    then show ?thesis using w2 c(12) True by simp
  next
    case False
    have lt: "Success_Num u + F < int n" using False w2(2) F c(6) by linarith
    have "w' = u\<lparr>Failure_Num := F, Completed_Num := Success_Num u + F, Wait_Num := Wait_Num u,
      prev_success_num := Success_Num u\<rparr>" by (simp add: w'_def w2)
    then have "at_running t n L w'"
      by (rule measured_running[OF s(1) m]) (use lt F(2) True c in auto)
    moreover have "at_remaining n w' < at_remaining n s"
      using F True c(9,10) by (simp add: w'_def w2 at_remaining_def)
    ultimately show ?thesis using False by simp
  qed
next
  case False
  note c = measured_count[OF s(1) m]
  have z: "Success_Num u = 0" "Success_Num s = 0" "Failure_Num u = 0" "Failure_Num s = 0" using False c by auto
  have i: "i32 (Wait_Num u + 1) = Wait_Num u + 1" using c(9-11) by (intro i32_id) linarith+
  show ?thesis
  proof (cases "Wait_Num u + 1 = 20")
    case True
    then show ?thesis using w z i by (auto simp: at_batch_end_def Let_def MAX_VALID_STATUS_WAIT_COUNT_def)
  next
    case wait: False
    have w2: "w = u\<lparr>Wait_Num := Wait_Num u + 1\<rparr>" "\<not> b"
      using w z i wait by (auto simp: at_batch_end_def Let_def MAX_VALID_STATUS_WAIT_COUNT_def)
    have "w' = u\<lparr>Failure_Num := 0, Completed_Num := Completed_Num u, Wait_Num := Wait_Num u + 1,
      prev_success_num := Success_Num u\<rparr>" using z by (simp add: w'_def w2)
    then have "at_running t n L w'"
      by (rule measured_running[OF s(1) m]) (use z c wait in auto)
    then show ?thesis using w2 z c(11) by (simp add: w'_def at_remaining_def)
  qed
qed

lemma pre_ok:
  assumes s: "at_running t n L s" "n \<le> 2000" and m: "at_measured s u" and x: "t + 2 \<le> now" "now < t + 2 ^ 31"
  shows "ensures (\<lambda>s'. at_over n L s' \<or> at_running t n L s' \<and> at_remaining n s' < at_remaining n s)
    (nmea_parser_at_cmd_pre now True u)"
proof -
  obtain b w where w: "at_batch_end u = (b, w)" by fastforce
  have late: "td_time_delay u \<le> i32 (now - start_time u)" "MNL_AT_TEST_FLAG u"
    using s m x i32_id[of "now - t"] by (auto simp: at_running_def at_measured_def)
  have k: "MNL_AT_TEST_FLAG w" "Dev_CNr w = Dev_CNr u" "test_result w = test_result u" "at_log w = at_log u"
    using w late(2) by (auto simp: at_batch_end_def Let_def split: if_split_asm)
  have l: "at_log u = L" using s m by (simp add: at_running_def at_measured_def)
  obtain vs where vs: "Dev_CNr u = Live vs" "length (test_result u) = 8" using m by (auto simp: at_measured_def)
  show ?thesis using batch_end_ok[OF s m w] late k vs l
    by (auto simp: nmea_parser_at_cmd_pre_def w Let_def gpsinf_mtk_gps_test_stop_def at_emit_def at_over_def)
qed

lemma epoch_running:
  assumes "at_running t n L s" "n \<le> 2000" "epoch_ok t x"
  shows "ensures (\<lambda>s'. at_over n L s' \<or> at_running t n L s' \<and> at_remaining n s' < at_remaining n s) (at_epoch x s)"
proof -
  let ?s = "s\<lparr>prn := ep_prn x, snr := ep_snr x\<rparr>"
  have r: "at_running t n L ?s" "at_remaining n ?s = at_remaining n s"
    using assms(1) by (simp_all add: at_running_def at_remaining_def)
  have "ensures (at_measured ?s) (gps_at_command_search_satellite (ep_count x) ?s)"
    unfolding gps_at_command_search_satellite_def
    by (rule search_ok[OF r(1) assms(2)]) (use assms(3) in \<open>auto simp: epoch_ok_def\<close>)
  moreover have "gps_at_command_test_proc (ep_count x) ?s = gps_at_command_search_satellite (ep_count x) ?s"
    using assms(1) by (simp add: gps_at_command_test_proc_def at_running_def)
  ultimately have "ensures (at_measured ?s) (gps_at_command_test_proc (ep_count x) ?s)" by simp
  then have "ensures (\<lambda>u. ensures (\<lambda>s'. at_over n L s' \<or> at_running t n L s' \<and> at_remaining n s' < at_remaining n s)
      (nmea_parser_at_cmd_pre (ep_time x) True u)) (gps_at_command_test_proc (ep_count x) ?s)"
    by (rule ensures_mono) (use pre_ok[OF r(1) assms(2)] assms(3) r(2) in \<open>simp add: epoch_ok_def\<close>)
  moreover have "MNL_AT_TEST_FLAG s" using assms(1) by (simp add: at_running_def)
  ultimately show ?thesis by (simp add: at_epoch_def ensures_bindI)
qed

lemma epoch_over: "at_over n L s \<Longrightarrow> ensures (at_over n L) (at_epoch x s)"
  by (simp add: at_epoch_def nmea_parser_at_cmd_pre_def at_over_def)

lemma epochs_over: "at_over n L s \<Longrightarrow> ensures (at_over n L) (at_epochs xs s)"
proof (induction xs arbitrary: s)
  case (Cons x xs)
  show ?case using epoch_over[OF Cons.prems, of x] Cons.IH by (auto simp: ensures_def)
qed simp

lemma epochs_running:
  assumes "at_running t n L s" "n \<le> 2000" "list_all (epoch_ok t) xs" "at_remaining n s \<le> int (length xs)"
  shows "ensures (at_over n L) (at_epochs xs s)"
  using assms(1,3,4)
proof (induction xs arbitrary: s)
  case Nil
  then show ?case by (auto simp: at_running_def at_remaining_def split: if_split_asm)
next
  case (Cons x xs)
  obtain s' where "at_epoch x s = Some s'"
    "at_over n L s' \<or> at_running t n L s' \<and> at_remaining n s' < at_remaining n s"
    using epoch_running[OF Cons.prems(1) assms(2), of x] Cons.prems(2) by (auto simp: ensures_def)
  then show ?case using epochs_over Cons.IH[of s'] Cons.prems(2,3) by auto
qed

text \<open>A client that has no test under way and no count left from an earlier one.\<close>

definition at_fresh :: "at_ctx \<Rightarrow> bool" where
  "at_fresh s \<longleftrightarrow> \<not> MNL_AT_TEST_FLAG s \<and> \<not> MNL_AT_SIGNAL_MODE s \<and> \<not> MNL_AT_SIGNAL_TEST_BEGIN s \<and>
     \<not> MNL_AT_CW_MODE s \<and> MNL_AT_TEST_STATE s = TEST_UNKNOWN \<and> Success_Num s = 0 \<and> Failure_Num s = 0 \<and>
     prev_success_num s = 0 \<and> CNo s = 0 \<and> length (test_result s) = 8"

lemma at_fresh_boot: "at_fresh at_boot"
  by (simp add: at_fresh_def at_boot_def)

text \<open>The command that starts a test of \<open>n\<close> samples.\<close>

definition gps_command :: "nat \<Rightarrow> bytes" where
  "gps_command n = ascii ''AT%GPS='' @ decimal n"

lemma decimal_digits: "list_all is_digit (decimal n) \<and> decimal n \<noteq> []"
proof (induction n rule: decimal.induct)
  case (1 n)
  have d: "is_digit (48 + of_nat k)" if "k < 10" for k
    using that by (auto simp: is_digit_def word_le_nat_alt unat_word_ariths unat_of_nat)
  then show ?case using 1 by (subst decimal.simps, subst decimal.simps) (auto simp: d)
qed

lemma digits_value_decimal: "digits_value (decimal n) = n"
proof (induction n rule: decimal.induct)
  case (1 n)
  have d: "unat ((48 + of_nat k :: u8) - 48) = k" if "k < 10" for k
    using that by (simp add: unat_of_nat)
  have snoc: "digits_value (ds @ [x]) = 10 * digits_value ds + unat (x - 48)" for ds x
    by (simp add: digits_value_def)
  show ?case
  proof (cases "n < 10")
    case True
    then show ?thesis using d[of n] by (subst decimal.simps) (simp add: digits_value_def)
  next
    case False
    then show ?thesis using 1 d[of "n mod 10"] by (subst decimal.simps) (simp add: snoc)
  qed
qed

lemma decimal_length: "n < 10 ^ Suc k \<Longrightarrow> length (decimal n) \<le> Suc k"
proof (induction k arbitrary: n)
  case 0
  then show ?case by (subst decimal.simps) simp
next
  case (Suc k)
  then have "n div 10 < 10 ^ Suc k" by (simp add: less_mult_imp_div_less)
  then show ?case using Suc.IH[of "n div 10"] by (subst decimal.simps) simp
qed

lemma strtoul_decimal: "n < 2 ^ 64 \<Longrightarrow> strtoul (decimal n) = (of_nat n, [])"
proof -
  assume n: "n < 2 ^ 64"
  have ds: "list_all is_digit (decimal n)" "decimal n \<noteq> []" using decimal_digits by auto
  then have h: "is_digit (hd (decimal n))" by (cases "decimal n") auto
  have hd: "\<not> is_space (hd (decimal n))" "hd (decimal n) \<noteq> 45" "hd (decimal n) \<noteq> 43"
    using h by (auto simp: is_space_def is_digit_def word_le_nat_alt)
  then have dw: "dropWhile is_space (decimal n) = decimal n" using ds(2) by (cases "decimal n") auto
  have tw: "takeWhile is_digit (decimal n) = decimal n" "dropWhile is_digit (decimal n) = []"
    using ds(1) by (auto simp: list_all_iff takeWhile_eq_all_conv dropWhile_eq_Nil_conv)
  show ?thesis using n ds(2) hd(2,3) unfolding strtoul_def Let_def dw
    by (simp add: tw digits_value_decimal del: takeWhile_eq_all_conv dropWhile_eq_Nil_conv)
qed

text \<open>The command is recognised and its number read back.\<close>

lemma gps_command_parse:
  assumes "1 \<le> n" "n \<le> 2000"
  shows "at_cmd2mnl_hdlr t (gps_command n) s =
    at_gps_command_parser t (gps_command n) s"
    "at_command_parse_test_num (gps_command n) = Some (int n)"
    "has_at 6 (ascii ''='') (gps_command n)"
    "\<not> has_at 7 (ascii ''?'') (gps_command n)"
    "\<not> letter_at 7 ''E'' ''e'' (gps_command n)" "\<not> letter_at 7 ''D'' ''d'' (gps_command n)"
proof -
  obtain d ds where ds: "decimal n = d # ds" "is_digit d" "list_all is_digit ds"
    using decimal_digits[of n] by (cases "decimal n") auto
  have len: "length ds \<le> 3" using decimal_length[of n 3] assms ds(1) by simp
  have c: "gps_command n = [65, 84, 37, 71, 80, 83, 61, d] @ ds" by (simp add: gps_command_def ascii_def ds)
  have nz: "0 \<notin> set (d # ds)" using ds(2,3) by (auto simp: is_digit_def list_all_iff word_le_nat_alt)
  have cs: "cstr (take 20 (gps_command n)) = gps_command n" "length (take 20 (gps_command n)) < 20"
    using nz len unfolding c by (auto intro!: cstr_id simp: c_string_def)
  show "at_cmd2mnl_hdlr t (gps_command n) s = at_gps_command_parser t (gps_command n) s"
    using cs len by (simp add: at_cmd2mnl_hdlr_def at_command_parser_def has_at_def GPS_OP_def c ascii_def)
  have "drop 7 (gps_command n) = decimal n" by (simp add: c ds)
  moreover have "\<not> has_at 0 GNSS_OP (gps_command n)" by (simp add: has_at_def GNSS_OP_def c ascii_def)
  moreover have "(of_nat n :: u64) \<noteq> 0" "sint (ucast (of_nat n :: u64) :: u32) = int n"
    using assms by (auto simp: word_of_nat_eq_0_iff ucast_eq unsigned_of_nat take_bit_nat_eq_self signed_of_nat
      signed_take_bit_int_eq_self dest!: dvd_imp_le)
  ultimately show "at_command_parse_test_num (gps_command n) = Some (int n)"
    using assms strtoul_decimal[of n] decimal_digits[of n] by (simp add: at_command_parse_test_num_def c)
  show "has_at 6 (ascii ''='') (gps_command n)" by (simp add: has_at_def c ascii_def)
  show "\<not> has_at 7 (ascii ''?'') (gps_command n)" "\<not> letter_at 7 ''E'' ''e'' (gps_command n)"
    "\<not> letter_at 7 ''D'' ''d'' (gps_command n)"
    using ds(2) by (auto simp: has_at_def letter_at_def c ascii_def is_digit_def word_le_nat_alt)
qed

lemma gps_command_starts:
  assumes "at_fresh s" "1 \<le> n" "n \<le> 2000"
  shows "ensures (\<lambda>s'. at_running t n (at_log s @ [At_gps_start, At_ack (ascii ''GPS TEST START OK'')]) s' \<and>
      at_remaining n s' = int n + 19) (at_cmd2mnl_hdlr t (gps_command n) s)"
  using assms
  by (simp add: gps_command_parse at_gps_command_parser_def at_test_start_ack_def gpsinf_mtk_gps_test_start_def
      test_begin_def at_command_send_ack_def at_emit_def at_fresh_def at_running_def at_remaining_def
      list_all_iff)

lemma gps_test_runs:
  assumes "at_fresh s" "1 \<le> n" "n \<le> 2000" "list_all (epoch_ok t) es" "n + 19 \<le> length es"
  shows "\<exists>s1 s2. at_cmd2mnl_hdlr t (gps_command n) s = Some s1 \<and> at_epochs es s1 = Some s2 \<and>
    at_log s1 = at_log s @ [At_gps_start, At_ack (ascii ''GPS TEST START OK'')] \<and> at_over n (at_log s1) s2"
proof -
  let ?L = "at_log s @ [At_gps_start, At_ack (ascii ''GPS TEST START OK'')]"
  obtain s1 where s1: "at_cmd2mnl_hdlr t (gps_command n) s = Some s1" "at_running t n ?L s1"
    "at_remaining n s1 = int n + 19"
    using gps_command_starts[OF assms(1-3), of t] by (auto simp: ensures_def)
  then have "ensures (at_over n ?L) (at_epochs es s1)" using assms by (intro epochs_running) simp_all
  moreover have "at_log s1 = ?L" using s1(2) by (simp add: at_running_def)
  ultimately show ?thesis using s1(1) by (auto simp: ensures_def)
qed



section \<open>Which commands are safe\<close>

text \<open>The figures fit the texts: an \<open>int\<close> each, and no more than 19 characters for the eight results.\<close>

definition at_presentable :: "at_ctx \<Rightarrow> bool" where
  "at_presentable s \<longleftrightarrow> \<bar>cn s\<bar> \<le> 2 ^ 31 \<and> \<bar>Avg_CNo s\<bar> \<le> 2 ^ 31 \<and> length (result_text [] [] s) \<le> 33"

lemma result_text_length: "length (result_text l r s) = length l + length r + length (result_text [] [] s)"
  by (simp add: result_text_def ascii_def)

lemma signed_decimal_length: "\<bar>v\<bar> \<le> 2 ^ 31 \<Longrightarrow> length (signed_decimal (v sdiv 10)) \<le> 11"
proof -
  assume "\<bar>v\<bar> \<le> 2 ^ 31"
  then have "\<bar>v\<bar> div 10 \<le> 2 ^ 31" by linarith
  then have v: "\<bar>v sdiv 10\<bar> \<le> 2 ^ 31" by (auto simp: signed_divide_int_def sgn_if split: if_splits)
  then have "nat (v sdiv 10) < 10 ^ Suc 9" "nat (- (v sdiv 10)) < 10 ^ Suc 9" by simp_all
  then have "length (decimal (nat (v sdiv 10))) \<le> Suc 9" "length (decimal (nat (- (v sdiv 10)))) \<le> Suc 9"
    using decimal_length[of "nat (v sdiv 10)" 9] decimal_length[of "nat (- (v sdiv 10))" 9] by simp_all
  then show ?thesis by (simp add: signed_decimal_def ascii_def)
qed

lemma presentable_flags [simp]:
  "at_presentable (s\<lparr>test_mode_flag := b\<rparr>) = at_presentable s"
  "at_presentable (s\<lparr>Wait_Num := w\<rparr>) = at_presentable s"
  by (simp_all add: at_presentable_def result_text_def)

lemma send_cno_defined: "at_presentable s \<Longrightarrow> at_command_send_cno command s \<noteq> None"
  using signed_decimal_length[of "cn s"] signed_decimal_length[of "Avg_CNo s"]
  by (auto simp: at_command_send_cno_def ack_sprintf_def at_presentable_def ascii_def Let_def)

lemma send_result_defined:
  "at_presentable s \<Longrightarrow> at_command_send_test_result s \<noteq> None"
  "at_presentable s \<Longrightarrow> ack_sprintf GPS_AT_ACK_SIZE (result_text ''<'' ''>'' s) s \<noteq> None"
  using result_text_length[of "''[''" "'']['' " s] result_text_length[of "''<''" "''>''" s]
  by (simp_all add: at_command_send_test_result_def ack_sprintf_def at_presentable_def GPS_AT_ACK_SIZE_def ascii_def Let_def)

lemma start_ack_defined: "at_owned s \<Longrightarrow> at_test_start_ack now ok err n s \<noteq> None"
  using start_ack_owned[of s now ok err n] by (auto simp: ensures_def)

lemma start_defined: "at_owned s \<Longrightarrow> gpsinf_mtk_gps_test_start now n p d m s \<noteq> None"
  using start_owned[of s now n p d m] by (auto simp: ensures_def)

lemma stop_defined: "at_owned s \<Longrightarrow> MNL_AT_TEST_STATE s \<noteq> TEST_UNKNOWN \<Longrightarrow> gpsinf_mtk_gps_test_stop s \<noteq> None"
  using stop_owned[of s] by (auto simp: ensures_def at_on_def)

lemma bind_defined: "x \<noteq> None \<Longrightarrow> (\<And>y. f y \<noteq> None) \<Longrightarrow> x \<bind> f \<noteq> None"
  by (cases x) simp_all

lemma parse_num_defined: "at_command_parse_test_num command = None \<longleftrightarrow> length command < 8"
  by (simp add: at_command_parse_test_num_def split: prod.split)

text \<open>A command that begins with a text is at least as long.\<close>

lemma has_at_prefix:
  "has_at 0 t command \<Longrightarrow> c_string t \<Longrightarrow> take (length t) command = t"
proof -
  assume t: "has_at 0 t command" "c_string t"
  have "length t \<le> length command"
  proof (rule ccontr)
    assume "\<not> length t \<le> length command"
    then have "command @ [0] = t \<or> length (command @ [0]) < length t"
      using t(1) by (auto simp: has_at_def)
    then show False using t by (auto simp: has_at_def c_string_def dest: arg_cong[of _ _ length])
  qed
  then show ?thesis using t(1) by (simp add: has_at_def)
qed

lemma op_strings: "c_string GPS_OP" "length GPS_OP = 6" "c_string GNSS_OP" "length GNSS_OP = 7"
  by (simp_all add: GPS_OP_def GNSS_OP_def ascii_def c_string_def)

lemma gps_set_short:
  assumes "has_at 0 GPS_OP command" "has_at 6 (ascii ''='') command" "length command < 8"
  shows "command = ascii ''AT%GPS=''"
proof -
  have p: "take 6 command = GPS_OP" using has_at_prefix[OF assms(1) op_strings(1)] by (simp add: op_strings)
  have "take 1 (drop 6 (command @ [0])) = [61]" using assms(2) by (simp add: has_at_def ascii_def)
  then have d: "take 1 (drop 6 command) = [61]"
    by (cases "length command \<le> 6") (auto simp: drop_Cons' not_le split: if_splits)
  then have l: "length command = 7" using assms(3) by (cases "drop 6 command") (auto dest: arg_cong[of _ _ length])
  have "command = take 6 command @ drop 6 command" by simp
  also have "drop 6 command = [61]" using d l by simp
  finally show ?thesis using p by (simp add: GPS_OP_def ascii_def)
qed

lemma gps_parser_defined:
  assumes "at_owned s" "at_presentable s" "has_at 0 GPS_OP command"
  shows "at_gps_command_parser now command s = None \<longleftrightarrow> command = ascii ''AT%GPS='' \<and> \<not> MNL_AT_CW_MODE s"
proof (cases "MNL_AT_CW_MODE s")
  case True
  then show ?thesis by (simp add: at_gps_command_parser_def)
next
  case False
  let ?s = "s\<lparr>test_mode_flag := False, Wait_Num := 0\<rparr>"
  have s: "at_owned ?s" "at_presentable ?s" using assms(1,2) by simp_all
  show ?thesis
  proof (cases "command = ascii ''AT%GPS=''")
    case True
    then show ?thesis using False by (simp add: at_gps_command_parser_def has_at_def ascii_def letter_at_def
          at_command_parse_test_num_def)
  next
    case bare: False
    have num: "at_command_parse_test_num command \<noteq> None" if "has_at 6 (ascii ''='') command"
      using gps_set_short[OF assms(3) that] bare by (auto simp: parse_num_defined)
    have "at_gps_command_parser now command s \<noteq> None"
      using False s num send_cno_defined[OF s(2)] send_result_defined[OF s(2)] start_ack_defined[OF s(1)]
      by (auto simp: at_gps_command_parser_def Let_def split: at_test_state.split)
    then show ?thesis using bare by simp
  qed
qed

lemma gnss_number_defined:
  assumes "at_owned s"
  shows "at_gnss_number now n s \<noteq> None"
proof -
  define t where "t = s\<lparr>test_result := [1, 0, 0, 0, 0, 0, 0, 0], Avg_CNo := 0, Success_Num := 0,
    Completed_Num := 0, CNo := 0, Dev_CNo := 0, cn := 0\<rparr>"
  have t: "at_owned t" using assms by (auto simp: t_def owned_defs)
  have "gpsinf_mtk_gps_test_stop (at_command_send_ack m t) \<noteq> None" if "MNL_AT_TEST_STATE t \<noteq> TEST_UNKNOWN" for m
    using t that by (intro stop_defined) (simp_all add: at_command_send_ack_def at_emit_def)
  then show ?thesis unfolding at_gnss_number_def t_def[symmetric] Let_def
    using start_ack_defined[OF t] by (auto simp: at_command_send_ack_def at_emit_def)
qed

lemma gnss_parser_defined:
  assumes "at_owned s" "at_presentable s" "has_at 0 GNSS_OP command"
  shows "at_gnss_command_parser now command s \<noteq> None"
proof -
  let ?s = "s\<lparr>test_mode_flag := False\<rparr>"
  have s: "at_owned ?s" "at_presentable ?s" using assms(1,2) by simp_all
  have "take 7 command = GNSS_OP" using has_at_prefix[OF assms(3) op_strings(3)] by (simp add: op_strings)
  then have l: "7 \<le> length command" by (auto simp: GNSS_OP_def ascii_def dest: arg_cong[of _ _ length])
  have num: "at_command_parse_test_num command \<noteq> None" if "has_at 7 (ascii ''='') command"
  proof -
    have "length command \<noteq> 7" using that by (auto simp: has_at_def ascii_def)
    then show ?thesis using l by (simp add: parse_num_defined)
  qed
  have set: "at_gnss_set now command ?s \<noteq> None" if "has_at 7 (ascii ''='') command"
    using num[OF that] gnss_number_defined[OF s(1)] send_result_defined(1)[OF s(2)] start_defined[OF s(1)]
      stop_defined[OF s(1)]
    by (simp add: at_gnss_set_def Let_def bind_defined del: not_None_eq split: prod.split)
  then show ?thesis using send_cno_defined[OF s(2)] send_result_defined(1)[OF s(2)]
    by (simp add: at_gnss_command_parser_def Let_def)
qed

lemma cw_parser_defined:
  assumes "at_owned s"
  shows "at_cw_test_command_parser now command s \<noteq> None"
proof -
  let ?s = "s\<lparr>test_mode_flag := False\<rparr>"
  have s: "at_owned ?s" using assms by simp
  show ?thesis using start_defined[OF s] stop_defined[OF s]
    by (simp add: at_cw_test_command_parser_def Let_def bind_defined del: not_None_eq split: prod.split)
qed

lemma parser_defined:
  assumes "at_owned s" "at_presentable s"
  shows "at_command_parser now command s = None \<longleftrightarrow> command = ascii ''AT%GPS='' \<and> \<not> MNL_AT_CW_MODE s"
proof -
  have "has_at 0 GPS_OP (ascii ''AT%GPS='')" by (simp add: has_at_def GPS_OP_def ascii_def)
  then have "\<not> has_at 0 GPS_OP command \<Longrightarrow> command \<noteq> ascii ''AT%GPS=''" by metis
  then show ?thesis using gps_parser_defined[OF assms] gnss_parser_defined[OF assms] cw_parser_defined[OF assms(1)]
    by (cases "has_at 0 GPS_OP command") (simp_all add: at_command_parser_def del: not_None_eq)
qed

text \<open>Which commands make the client leave its arrays: when its figures fit the texts it answers
  with, exactly a datagram of twenty bytes or more, whose terminator is written behind the command
  buffer, and the bare \<open>AT%GPS=\<close>, whose seven bytes are too few for the pointer that is stored in a
  block of that size. Every other command, in any state of the client, is answered or obeyed.
\<close>

theorem at_commands_undefined_iff:
  assumes "at_owned s" "at_presentable s"
  shows "at_cmd2mnl_hdlr now d s = None \<longleftrightarrow>
    20 \<le> length d \<or> cstr d = ascii ''AT%GPS='' \<and> \<not> MNL_AT_CW_MODE s"
proof (cases "20 \<le> length d")
  case True
  then show ?thesis by (simp add: at_cmd2mnl_hdlr_def)
next
  case False
  then show ?thesis using parser_defined[OF assms, of now "cstr d"] by (simp add: at_cmd2mnl_hdlr_def)
qed

lemma at_commands_undefined_iff_witness:
  "at_cmd2mnl_hdlr 0 (replicate 20 65) at_boot = None \<and> at_cmd2mnl_hdlr 0 (ascii ''AT%GPS=?'') at_boot \<noteq> None \<and>
   at_cmd2mnl_hdlr 0 (ascii ''AT%GPS='') at_boot = None"
proof -
  have b: "at_presentable at_boot"
    by (simp add: at_presentable_def at_boot_def result_text_def ascii_def signed_decimal_def decimal.simps)
  show ?thesis unfolding at_commands_undefined_iff[OF at_owned_boot b]
    by (simp add: cstr_def ascii_def at_boot_def)
qed

end
