(* ===== verification/Nmea_Props.thy ===== *)
theory Nmea_Props
  imports Nmea_Parser At_Props Hal_Props
begin

text \<open>
  Facts about the NMEA parser: what the handling of a sentence preserves, the split of the byte
  stream into sentences, the reports of a batch, the satellites that reach the framework, the
  bounds of the arrays, and the parser together with the AT command client.
\<close>

section \<open>A concrete environment\<close>

text \<open>
  An instance of the parameters for examples: numbers are read up to a point and kept whole, and
  every date is the same.
\<close>

definition whole_fpu :: fpu where
  "whole_fpu = \<lparr>strtod = (\<lambda>t. of_nat (digits_value (takeWhile is_digit t))), d_floor = (\<lambda>x. x), d_neg = (\<lambda>x. - x),
     d_add = (+), d_sub = (-), d_mul = (*), d_div = (div), d_of_int = of_int, d_to_int = sint,
     d_to_float = ucast, f_of_int = of_int\<rparr>"

definition whole_env :: nmea_env where
  "whole_env = \<lparr>fp = whole_fpu, ne_now = 5, ne_date = (120, 0, 1), ne_utc_diff = 0,
     ne_mktime = (\<lambda>y m d h mi s. 60 * (60 * h + mi) + s), GPS_MAX_SVS = 32\<rparr>"

section \<open>Invariants of a sentence\<close>

lemma pred_option_mapI: "pred_option P x \<Longrightarrow> (\<And>y. P y \<Longrightarrow> Q (f y)) \<Longrightarrow> pred_option Q (map_option f x)"
  by (cases x) simp_all

text \<open>
  A property that every single assignment of the parser preserves is preserved by a sentence up
  to its reports. First, the assignments of the sentences that carry the fix.
\<close>

locale field_invariant =
  fixes I :: "nmea \<Rightarrow> bool"
  assumes loc: "I s \<Longrightarrow> I (s\<lparr>fix_loc := l\<rparr>)"
    and date: "I s \<Longrightarrow> I (s\<lparr>utc_year := y, utc_mon := m, utc_day := d\<rparr>)"
    and zone: "I s \<Longrightarrow> I (s\<lparr>utc_diff := i\<rparr>)"
    and mode: "I s \<Longrightarrow> I (s\<lparr>fix_mode := i\<rparr>)"
    and cash: "I s \<Longrightarrow> I (s\<lparr>nmea_cash := (nmea_cash s)[n := c]\<rparr>)"
begin

lemma time_keeps: "I s \<Longrightarrow> I (nmea_reader_update_time e t s)"
  by (simp add: nmea_reader_update_time_def nmea_reader_update_utc_diff_def Let_def loc date zone
      split: prod.split)

lemma fields_keep:
  "I s \<Longrightarrow> I (nmea_reader_update_altitude e t s)"
  "I s \<Longrightarrow> I (nmea_reader_update_latlong e a x b y s)"
  "I s \<Longrightarrow> I (nmea_reader_update_bearing e t s)"
  "I s \<Longrightarrow> I (nmea_reader_update_speed e t s)"
  "I s \<Longrightarrow> I (nmea_reader_update_accuracy e t s)"
  by (simp_all add: nmea_reader_update_altitude_def nmea_reader_update_latlong_def nmea_reader_update_bearing_def
      nmea_reader_update_speed_def nmea_reader_update_accuracy_def Let_def loc)

lemma date_keeps: "I s \<Longrightarrow> I (nmea_reader_update_date e d t s)"
  by (simp add: nmea_reader_update_date_def Let_def time_keeps date)

lemma gsa_keeps: "I s \<Longrightarrow> I (gsa_loop ty ts s)"
  by (induction ts arbitrary: s) (simp_all add: Let_def cash)

lemma cash_keeps: "I s \<Longrightarrow> pred_option I (cash_loop mark i ts s)"
  by (induction ts arbitrary: i s) (simp_all add: cash)

lemma fix_keeps: "I s \<Longrightarrow> I (parse_gga e tok ch s)" "I s \<Longrightarrow> I (parse_rmc e tok ch s)" "I s \<Longrightarrow> I (parse_gsa ty tok s)"
  by (simp_all add: parse_gga_def parse_rmc_def parse_gsa_def Let_def time_keeps fields_keep date_keeps
      gsa_keeps mode)

end

text \<open>
  With the satellites and the AT client: the client's measurements are the only steps that are not
  assignments.
\<close>

locale sentence_invariant = field_invariant I for I :: "nmea \<Rightarrow> bool" +
  assumes satellite: "I s \<Longrightarrow> I (s\<lparr>sv_list := (sv_list s)[n := v]\<rparr>)"
    and count: "I s \<Longrightarrow> I (s\<lparr>sv_count := n\<rparr>)"
    and total: "I s \<Longrightarrow> I (s\<lparr>num_svs := n\<rparr>)"
    and samples: "I s \<Longrightarrow> I (s\<lparr>at_cmd := (at_cmd s)\<lparr>prn := (prn (at_cmd s))[n := i],
                                                   snr := (snr (at_cmd s))[n := j]\<rparr>\<rparr>)"
    and measure: "I s \<Longrightarrow> MNL_AT_TEST_FLAG (at_cmd s) \<or> MNL_AT_SIGNAL_MODE (at_cmd s) \<Longrightarrow>
                  gps_at_command_test_proc i (at_cmd s) = Some a \<Longrightarrow> I (s\<lparr>at_cmd := a\<rparr>)"
    and carrier: "I s \<Longrightarrow> MNL_AT_CW_MODE (at_cmd s) \<Longrightarrow>
                  at_cw_test_command_test_result i w (at_cmd s) = Some a \<Longrightarrow> I (s\<lparr>at_cmd := a\<rparr>)"
    and tick: "I s \<Longrightarrow> nmea_parser_at_cmd_pre i t (at_cmd s) = Some a \<Longrightarrow> I (s\<lparr>at_cmd := a\<rparr>)"
begin

lemma sv_keeps: "I s \<Longrightarrow> I (nmea_reader_update_sv_status e n a b c s)"
  by (simp add: nmea_reader_update_sv_status_def Let_def satellite count split: option.split prod.split)

lemma satellite_keeps: "I s \<Longrightarrow> pred_option I (gsv_satellite e ty tok i s)"
  by (simp add: gsv_satellite_def Let_def sv_keeps samples)

lemma gsv_loop_keeps: "I s \<Longrightarrow> pred_option I (gsv_loop e ty tok i n s)"
proof (induction n arbitrary: i s)
  case (Suc n)
  show ?case unfolding gsv_loop.simps
    by (rule pred_option_bindI[OF satellite_keeps[OF Suc.prems]]) (rule Suc.IH)
qed simp

lemma gsv_keeps: "I s \<Longrightarrow> pred_option I (parse_gsv e ty tok s)"
proof -
  assume s: "I s"
  have m: "pred_option I (map_option (\<lambda>a. u\<lparr>num_svs := n, at_cmd := a\<rparr>) (gps_at_command_test_proc i (at_cmd u)))"
    if "I u" "MNL_AT_TEST_FLAG (at_cmd u) \<or> MNL_AT_SIGNAL_MODE (at_cmd u)" for u i n
    using measure[of "u\<lparr>num_svs := n\<rparr>" i] that
    by (cases "gps_at_command_test_proc i (at_cmd u)") (simp_all add: total)
  show ?thesis unfolding parse_gsv_def Let_def
    by (rule pred_option_bindI[of I]) (simp_all add: s gsv_loop_keeps count total m)
qed

lemma body_keeps: "I s \<Longrightarrow> pred_option I (parse_body e p tok ch s)"
proof -
  assume s: "I s"
  have "pred_option I (map_option (\<lambda>a. s\<lparr>at_cmd := a\<rparr>) (at_cw_test_command_test_result i w (at_cmd s)))"
    if "MNL_AT_CW_MODE (at_cmd s)" for i w
    using carrier[OF s that] by (cases "at_cw_test_command_test_result i w (at_cmd s)") simp_all
  then show ?thesis using s by (simp add: parse_body_def Let_def cash_keeps gsv_keeps fields_keep fix_keeps)
qed

lemma parse_keeps:
  assumes "\<And>s. I s \<Longrightarrow> I (parse_reports s)" "I s"
  shows "pred_option I (nmea_reader_parse e s)"
proof -
  have "pred_option (\<lambda>a. I (s\<lparr>at_cmd := a\<rparr>)) (nmea_parser_at_cmd_pre (ne_now e) (gps_nmea_end_tag s) (at_cmd s))"
    using tick[OF assms(2)] by (cases "nmea_parser_at_cmd_pre (ne_now e) (gps_nmea_end_tag s) (at_cmd s)") simp_all
  then show ?thesis unfolding nmea_reader_parse_def Let_def
    by (rule pred_option_bindI) (simp add: pred_option_mapI[OF body_keeps] assms(1))
qed

end

text \<open>What a sentence leaves alone, its reports included.\<close>

definition reader_frame :: "nmea \<Rightarrow> nat \<times> bool \<times> bytes \<times> bool" where
  "reader_frame s = (pos s, overflow s, in_buf s, gps_nmea_end_tag s)"

interpretation frame: sentence_invariant "\<lambda>s. reader_frame s = f"
  by unfold_locales (simp_all add: reader_frame_def)

lemma frame_parse:
  "nmea_reader_parse e s = Some s' \<Longrightarrow> reader_frame s' = reader_frame s"
  using frame.parse_keeps[of "reader_frame s" s e]
  by (simp add: parse_reports_def emit_out_def reader_frame_def Let_def)

text \<open>Before the reports, nothing is logged.\<close>

interpretation quiet: sentence_invariant "\<lambda>s. nmea_log s = l"
  by unfold_locales simp_all

text \<open>The sizes of the arrays, and the ownership of the samples.\<close>

definition reader_ok :: "nmea \<Rightarrow> bool" where
  "reader_ok s \<longleftrightarrow> length (sv_list s) = 64 \<and> length (nmea_cash s) = 450 \<and> at_owned (at_cmd s)"

lemma samples_owned: "at_owned (a\<lparr>prn := (prn a)[n := i], snr := (snr a)[n := j]\<rparr>) = at_owned a"
  by (simp add: owned_defs)

interpretation ok: sentence_invariant reader_ok
proof unfold_locales
  fix s i a
  show "reader_ok s \<Longrightarrow> MNL_AT_TEST_FLAG (at_cmd s) \<or> MNL_AT_SIGNAL_MODE (at_cmd s) \<Longrightarrow>
    gps_at_command_test_proc i (at_cmd s) = Some a \<Longrightarrow> reader_ok (s\<lparr>at_cmd := a\<rparr>)"
    using test_proc_owned[of "at_cmd s" i] by (simp add: reader_ok_def)
next
  fix s i w a
  show "reader_ok s \<Longrightarrow> MNL_AT_CW_MODE (at_cmd s) \<Longrightarrow> at_cw_test_command_test_result i w (at_cmd s) = Some a \<Longrightarrow> reader_ok (s\<lparr>at_cmd := a\<rparr>)"
    using cw_result_owned[of "at_cmd s" i w] by (simp add: reader_ok_def)
next
  fix s i t a
  show "reader_ok s \<Longrightarrow> nmea_parser_at_cmd_pre i t (at_cmd s) = Some a \<Longrightarrow> reader_ok (s\<lparr>at_cmd := a\<rparr>)"
    using pre_owned[of "at_cmd s" i t] by (simp add: reader_ok_def)
qed (simp_all add: reader_ok_def samples_owned)

section \<open>From bytes to sentences\<close>

text \<open>
  The specification of the framing: a sentence, given without its newline, is parsed as a whole and
  passed on; the last sentence of a batch carries the end mark.
\<close>

definition line_buf :: "bytes \<Rightarrow> bytes" where
  "line_buf t = t @ 10 # replicate (255 - length t) 0"

definition nmea_sentence :: "nmea_env \<Rightarrow> bytes \<Rightarrow> nmea \<Rightarrow> nmea option" where
  "nmea_sentence e t s = do {
     s \<leftarrow> nmea_reader_parse e (s\<lparr>in_buf := line_buf t, pos := length t + 1\<rparr>);
     Some (emit_out (To_hal (Nmea (timestamp (fix_loc s)) (Some (cstr (line_buf t))) (int (length t) + 1))) s
            \<lparr>pos := 0, in_buf := replicate 256 0\<rparr>) }"

fun nmea_sentences :: "nmea_env \<Rightarrow> bytes list \<Rightarrow> nmea \<Rightarrow> nmea option" where
    "nmea_sentences e [] s = Some s"
  | "nmea_sentences e (t # ts) s =
       nmea_sentence e t (if ts = [] then s\<lparr>gps_nmea_end_tag := True\<rparr> else s) \<bind> nmea_sentences e ts"

definition lines :: "bytes list \<Rightarrow> bytes" where
  "lines ts = concat (map (\<lambda>t. t @ [10]) ts)"

definition is_line :: "bytes \<Rightarrow> bool" where
  "is_line t \<longleftrightarrow> 10 \<notin> set t \<and> length t \<le> 254"

text \<open>The reader at the beginning of a sentence.\<close>

definition at_start :: "nmea \<Rightarrow> bool" where
  "at_start s \<longleftrightarrow> pos s = 0 \<and> \<not> overflow s \<and> in_buf s = replicate 256 0"

lemma update_zeros:
  "length p < 256 \<Longrightarrow> (p @ replicate (256 - length p) 0)[length p := c] =
   (p @ [c]) @ replicate (256 - length (p @ [c])) (0 :: u8)"
proof -
  assume "length p < 256"
  then have "replicate (256 - length p) (0 :: u8) = 0 # replicate (256 - Suc (length p)) 0"
    by (metis Suc_diff_Suc replicate_Suc)
  then show ?thesis by (simp add: list_update_append)
qed

lemma process_plain:
  assumes "\<not> overflow s" "pos s = length p" "in_buf s = p @ replicate (256 - length p) 0"
    "10 \<notin> set t" "length p + length t \<le> 255" "r \<noteq> []"
  shows "process_bytes e (t @ r) s =
    process_bytes e r (s\<lparr>in_buf := (p @ t) @ replicate (256 - length (p @ t)) 0, pos := length (p @ t)\<rparr>)"
  using assms
proof (induction t arbitrary: p s)
  case Nil
  then have "s\<lparr>in_buf := p @ replicate (256 - length p) 0, pos := length p\<rparr> = s" by simp
  then show ?case by simp
next
  case (Cons c t)
  let ?s = "s\<lparr>in_buf := (p @ [c]) @ replicate (256 - length (p @ [c])) 0, pos := length (p @ [c])\<rparr>"
  have "nmea_reader_addc e c s = Some ?s"
    using Cons.prems update_zeros[of p c] by (simp add: nmea_reader_addc_def NMEA_MAX_SIZE_def)
  then have "process_bytes e ((c # t) @ r) s = process_bytes e (t @ r) ?s" using Cons.prems(6) by simp
  also have "\<dots> = process_bytes e r (?s\<lparr>in_buf := ((p @ [c]) @ t) @ replicate (256 - length ((p @ [c]) @ t)) 0,
      pos := length ((p @ [c]) @ t)\<rparr>)"
    by (rule Cons.IH) (use Cons.prems in auto)
  finally show ?case by simp
qed

lemma process_newline:
  assumes "\<not> overflow s" "pos s = length t" "in_buf s = t @ replicate (256 - length t) 0" "length t \<le> 254"
  shows "nmea_reader_addc e 10 s = nmea_sentence e t s"
proof -
  let ?s = "s\<lparr>in_buf := line_buf t, pos := length t + 1\<rparr>"
  have b: "(in_buf s)[pos s := 10] = line_buf t"
    using assms update_zeros[of t 10] by (simp add: line_buf_def)
  have "nmea_reader_addc e 10 s = nmea_reader_parse e ?s \<bind> (\<lambda>s. Some (emit_out (To_hal
      (Nmea (timestamp (fix_loc s)) (Some (cstr (in_buf s))) (int (pos s)))) s\<lparr>pos := 0, in_buf := replicate 256 0\<rparr>))"
    unfolding nmea_reader_addc_def b Let_def using assms(1,2,4) by (simp add: NMEA_MAX_SIZE_def)
  also have "\<dots> = nmea_sentence e t s"
  proof (cases "nmea_reader_parse e ?s")
    case (Some s')
    then have "pos s' = length t + 1" "in_buf s' = line_buf t"
      using frame_parse[OF Some] by (simp_all add: reader_frame_def)
    then show ?thesis unfolding nmea_sentence_def Some by (simp add: add.commute)
  qed (simp add: nmea_sentence_def)
  finally show ?thesis .
qed

lemma sentence_at_start:
  "nmea_sentence e t s = Some s' \<Longrightarrow> at_start s \<Longrightarrow> at_start s'"
  by (auto simp: nmea_sentence_def bind_eq_Some_conv at_start_def emit_out_def reader_frame_def dest!: frame_parse)

lemma sentence_reads: "nmea_sentence e t (s\<lparr>in_buf := b, pos := n\<rparr>) = nmea_sentence e t s"
  by (simp add: nmea_sentence_def)

lemma mark_commutes:
  "s\<lparr>in_buf := b, pos := n, gps_nmea_end_tag := x\<rparr> = s\<lparr>gps_nmea_end_tag := x, in_buf := b, pos := n\<rparr>"
  by (cases s) simp

lemma process_sentence:
  assumes "at_start s" "is_line t"
  shows "process_bytes e (t @ 10 # r) s =
    nmea_sentence e t (if r = [] then s\<lparr>gps_nmea_end_tag := True\<rparr> else s) \<bind> process_bytes e r"
proof -
  let ?s = "\<lambda>s. s\<lparr>in_buf := t @ replicate (256 - length t) 0, pos := length t\<rparr>"
  let ?m = "if r = [] then s\<lparr>gps_nmea_end_tag := True\<rparr> else s"
  have "process_bytes e (t @ 10 # r) s = process_bytes e (10 # r) (?s s)"
    using assms process_plain[of s "[]" t "10 # r" e] by (simp add: at_start_def is_line_def)
  also have "\<dots> = nmea_reader_addc e 10 (?s ?m) \<bind> process_bytes e r"
    by (cases "r = []") (simp_all only: process_bytes.simps mark_commutes if_True if_False refl)
  also have "nmea_reader_addc e 10 (?s ?m) = nmea_sentence e t (?s ?m)"
    using assms by (intro process_newline) (simp_all add: is_line_def at_start_def)
  finally show ?thesis by (simp only: sentence_reads)
qed

lemma process_lines:
  assumes "at_start s" "list_all is_line ts"
  shows "process_bytes e (lines ts) s = nmea_sentences e ts s"
  using assms
proof (induction ts arbitrary: s)
  case Nil
  then show ?case by (simp add: lines_def)
next
  case (Cons t ts)
  have l: "lines (t # ts) = t @ 10 # lines ts" "lines ts = [] \<longleftrightarrow> ts = []" by (auto simp: lines_def)
  let ?s = "if ts = [] then s\<lparr>gps_nmea_end_tag := True\<rparr> else s"
  have "at_start ?s" using Cons.prems(1) by (simp add: at_start_def)
  then have "process_bytes e (lines ts) s' = nmea_sentences e ts s'" if "nmea_sentence e t ?s = Some s'" for s'
    using Cons that sentence_at_start by simp
  then show ?case using process_sentence[of s t e "lines ts"] Cons.prems
    by (cases "nmea_sentence e t ?s") (simp_all add: l)
qed

lemma nmea_line_split:
  assumes "list_all is_line ts"
  shows "mtk_mnl_nmea_parser_process e (lines ts) s =
    nmea_sentences e ts (nmea_reader_init e s\<lparr>gps_nmea_end_tag := False\<rparr>)"
proof -
  have "at_start (nmea_reader_init e s\<lparr>gps_nmea_end_tag := False\<rparr>)"
    by (simp add: at_start_def nmea_reader_init_def nmea_reader_update_utc_diff_def NMEA_MAX_SIZE_def)
  then show ?thesis using assms by (simp add: mtk_mnl_nmea_parser_process_def process_lines)
qed

text \<open>C35: A batch of NMEA text is handled sentence by sentence: when every line has at most 254
  characters before its newline, reading the batch byte by byte does the same as parsing each line
  as a whole and passing it on, in order, with the end-of-batch mark set for the last line only.
\<close>

theorem nmea_framing:
  assumes "list_all is_line ts"
  shows "mtk_mnl_nmea_parser_process e (lines ts) s =
    nmea_sentences e ts (nmea_reader_init e s\<lparr>gps_nmea_end_tag := False\<rparr>)"
  using assms by (rule nmea_line_split)

lemma nmea_framing_witness:
  "mtk_mnl_nmea_parser_process whole_env (lines [ascii ''$GPGSA,A,3'', ascii ''$GPGSV,1,1,00'']) (nmea_boot at_boot) =
   nmea_sentences whole_env [ascii ''$GPGSA,A,3'', ascii ''$GPGSV,1,1,00'']
     (nmea_reader_init whole_env (nmea_boot at_boot)\<lparr>gps_nmea_end_tag := False\<rparr>)"
  by (rule nmea_framing) (simp add: is_line_def ascii_def)

section \<open>Lines that are too long\<close>

lemma process_overflow:
  assumes "overflow s" "10 \<notin> set t" "r \<noteq> []"
  shows "process_bytes e (t @ r) s = process_bytes e r s"
  using assms
proof (induction t)
  case (Cons c t)
  have "nmea_reader_addc e c s = Some s" using Cons.prems by (cases s) (simp add: nmea_reader_addc_def)
  then show ?case using Cons by simp
qed simp

text \<open>The reader that has just lost a character of a line that is too long.\<close>

lemma process_too_long:
  assumes "at_start s" "length t = 255" "10 \<notin> set t" "r \<noteq> []"
  shows "\<exists>b. process_bytes e (t @ c # r) s = process_bytes e r (s\<lparr>in_buf := b, overflow := True\<rparr>)"
proof -
  let ?b = "t @ replicate (256 - length t) 0"
  have "process_bytes e (t @ c # r) s = process_bytes e (c # r) (s\<lparr>in_buf := ?b, pos := 255\<rparr>)"
    using assms process_plain[of s "[]" t "c # r" e] by (simp add: at_start_def)
  moreover have "nmea_reader_addc e c (s\<lparr>in_buf := ?b, pos := 255\<rparr>) = Some (s\<lparr>in_buf := ?b, overflow := True\<rparr>)"
    using assms(1) by (cases s) (simp add: nmea_reader_addc_def NMEA_MAX_SIZE_def at_start_def)
  ultimately show ?thesis using assms(4) by auto
qed

text \<open>A line of exactly 255 characters takes its successor with it: its newline is the character
  that does not fit and is dropped, so the reader skips up to the next newline and neither the line
  nor the one after it is parsed or passed on. A longer line is dropped alone.
\<close>

theorem nmea_overflow_swallows_next:
  assumes "10 \<notin> set t" "255 \<le> length t" "10 \<notin> set u"
  shows "\<exists>b. mtk_mnl_nmea_parser_process e (t @ 10 # u @ [10]) s =
    (let i = nmea_reader_init e s
     in if length t = 255 then Some (i\<lparr>in_buf := b, gps_nmea_end_tag := True\<rparr>)
        else process_bytes e (u @ [10]) (i\<lparr>in_buf := b, gps_nmea_end_tag := False\<rparr>))"
proof -
  let ?i = "nmea_reader_init e s\<lparr>gps_nmea_end_tag := False\<rparr>"
  have st: "at_start ?i"
    by (simp add: at_start_def nmea_reader_init_def nmea_reader_update_utc_diff_def NMEA_MAX_SIZE_def)
  define t' t'' where "t' = take 255 t" and "t'' = drop 255 t"
  have t: "t = t' @ t''" "length t' = 255" "10 \<notin> set t'" "10 \<notin> set t''"
    using assms by (auto simp: t'_def t''_def dest: in_set_takeD in_set_dropD)
  have skip: "nmea_reader_addc e 10 (w\<lparr>overflow := True\<rparr>) = Some (w\<lparr>overflow := False\<rparr>)" for w
    by (simp add: nmea_reader_addc_def)
  show ?thesis
  proof (cases t'')
    case Nil
    obtain b where "process_bytes e (t' @ 10 # u @ [10]) ?i =
        process_bytes e (u @ [10]) (?i\<lparr>in_buf := b, overflow := True\<rparr>)"
      using process_too_long[OF st t(2,3), of "u @ [10]" e 10] by auto
    also have "\<dots> = process_bytes e [10] (?i\<lparr>in_buf := b, overflow := True\<rparr>)"
      using assms(3) by (intro process_overflow) simp_all
    finally show ?thesis using st Nil t
      by (cases s) (auto simp: mtk_mnl_nmea_parser_process_def nmea_reader_addc_def nmea_reader_init_def
          nmea_reader_update_utc_diff_def intro!: exI[of _ b])
  next
    case (Cons c v)
    obtain b where "process_bytes e (t' @ c # v @ 10 # u @ [10]) ?i =
        process_bytes e (v @ 10 # u @ [10]) (?i\<lparr>in_buf := b, overflow := True\<rparr>)"
      using process_too_long[OF st t(2,3), of "v @ 10 # u @ [10]" e c] by auto
    also have "\<dots> = process_bytes e (10 # u @ [10]) (?i\<lparr>in_buf := b, overflow := True\<rparr>)"
      using t(4) Cons by (intro process_overflow) simp_all
    finally show ?thesis using st Cons t
      by (cases s) (auto simp: mtk_mnl_nmea_parser_process_def nmea_reader_addc_def nmea_reader_init_def
          nmea_reader_update_utc_diff_def intro!: exI[of _ b])
  qed
qed

lemma nmea_overflow_swallows_next_witness:
  "\<exists>b. mtk_mnl_nmea_parser_process whole_env (replicate 255 65 @ 10 # ascii ''$GPGSA,A,3'' @ [10]) (nmea_boot at_boot) =
     Some (nmea_reader_init whole_env (nmea_boot at_boot)\<lparr>in_buf := b, gps_nmea_end_tag := True\<rparr>)"
  using nmea_overflow_swallows_next[of "replicate 255 65" "ascii ''$GPGSA,A,3''" whole_env "nmea_boot at_boot"]
  by (simp add: ascii_def)

section \<open>The reports of a batch\<close>

text \<open>
  What a batch reports at its end: nothing when the last line is no sentence; otherwise the
  satellites, after the location when there is a fix with a field set.
\<close>

definition end_reports :: "nmea_out list \<Rightarrow> bool" where
  "end_reports r \<longleftrightarrow> r = [] \<or> (\<exists>sv. r = [To_hal (Gps_sv sv)]) \<or>
     (\<exists>l sv. r = [To_hal (Location (gps_loc_bytes l)), To_main (Update_location l), To_hal (Gps_sv sv)] \<and>
        flags l \<noteq> 0)"

definition passed_on :: "bytes \<Rightarrow> u64 \<Rightarrow> nmea_out" where
  "passed_on t stamp = To_hal (Nmea stamp (Some (cstr (line_buf t))) (int (length t) + 1))"

lemma reports_log:
  "\<exists>r. nmea_log (parse_reports s) = nmea_log s @ r \<and> (if gps_nmea_end_tag s then end_reports r else r = [])"
  by (auto simp: parse_reports_def emit_out_def end_reports_def Let_def)

lemma parse_cases:
  assumes "nmea_reader_parse e s = Some s'"
  obtains a where "nmea_parser_at_cmd_pre (ne_now e) (gps_nmea_end_tag s) (at_cmd s) = Some a" "s' = s\<lparr>at_cmd := a\<rparr>"
  | a p tok ch u where "nmea_parser_at_cmd_pre (ne_now e) (gps_nmea_end_tag s) (at_cmd s) = Some a"
      "parse_body e p tok ch (s\<lparr>at_cmd := a\<rparr>) = Some u" "s' = parse_reports u"
proof -
  obtain a where a: "nmea_parser_at_cmd_pre (ne_now e) (gps_nmea_end_tag s) (at_cmd s) = Some a"
    using assms by (auto simp: nmea_reader_parse_def bind_eq_Some_conv)
  show thesis
  proof (cases "s' = s\<lparr>at_cmd := a\<rparr>")
    case True
    then show thesis using a that(1) by blast
  next
    case False
    then obtain u where "parse_body e (fst (hd (nmea_tokenizer_init (in_buf s) (pos s))))
        (\<lambda>i. tok_text (in_buf s) (nmea_tokenizer_get (nmea_tokenizer_init (in_buf s) (pos s)) i))
        (\<lambda>i. tok_char (in_buf s) (nmea_tokenizer_get (nmea_tokenizer_init (in_buf s) (pos s)) i))
        (s\<lparr>at_cmd := a\<rparr>) = Some u" "s' = parse_reports u"
      using assms by (auto simp: nmea_reader_parse_def a Let_def split: if_split_asm)
    then show thesis using a that(2) by blast
  qed
qed

lemma parse_log:
  assumes "nmea_reader_parse e s = Some s'"
  shows "\<exists>r. nmea_log s' = nmea_log s @ r \<and> (if gps_nmea_end_tag s then end_reports r else r = [])"
  using assms
proof (cases rule: parse_cases)
  case (1 a)
  then show ?thesis by (simp add: end_reports_def)
next
  case (2 a p tok ch u)
  then have "nmea_log u = nmea_log s" "gps_nmea_end_tag u = gps_nmea_end_tag s"
    using quiet.body_keeps[of "s\<lparr>at_cmd := a\<rparr>" "nmea_log s" e p tok ch]
      frame.body_keeps[of "s\<lparr>at_cmd := a\<rparr>" "reader_frame s" e p tok ch]
    by (simp_all add: reader_frame_def)
  then show ?thesis using reports_log[of u] 2(3) by simp
qed

lemma sentence_log:
  assumes "nmea_sentence e t s = Some s'"
  shows "\<exists>r stamp. nmea_log s' = nmea_log s @ r @ [passed_on t stamp] \<and>
    (if gps_nmea_end_tag s then end_reports r else r = [])"
    "gps_nmea_end_tag s' = gps_nmea_end_tag s"
proof -
  obtain u where u: "nmea_reader_parse e (s\<lparr>in_buf := line_buf t, pos := length t + 1\<rparr>) = Some u"
    "s' = emit_out (To_hal (Nmea (timestamp (fix_loc u)) (Some (cstr (line_buf t))) (int (length t) + 1))) u
            \<lparr>pos := 0, in_buf := replicate 256 0\<rparr>"
    using assms by (auto simp: nmea_sentence_def bind_eq_Some_conv)
  show "\<exists>r stamp. nmea_log s' = nmea_log s @ r @ [passed_on t stamp] \<and>
    (if gps_nmea_end_tag s then end_reports r else r = [])"
    using parse_log[OF u(1)] u(2) by (auto simp: emit_out_def passed_on_def)
  show "gps_nmea_end_tag s' = gps_nmea_end_tag s"
    using frame_parse[OF u(1)] u(2) by (simp add: emit_out_def reader_frame_def)
qed

lemma nmea_sentences_Nil: "nmea_sentences e [] = Some"
  by (simp add: fun_eq_iff)

lemma sentences_log:
  assumes "nmea_sentences e ts s = Some s'" "\<not> gps_nmea_end_tag s" "ts \<noteq> []"
  shows "\<exists>r stamps. length stamps = length ts \<and> end_reports r \<and>
    nmea_log s' = nmea_log s @ butlast (map2 passed_on ts stamps) @ r @ [last (map2 passed_on ts stamps)]"
  using assms
proof (induction ts arbitrary: s)
  case (Cons t ts)
  show ?case
  proof (cases "ts = []")
    case True
    then obtain r stamp where "nmea_log s' = nmea_log s @ r @ [passed_on t stamp]" "end_reports r"
      using Cons.prems sentence_log(1)[of e t "s\<lparr>gps_nmea_end_tag := True\<rparr>" s']
      by (auto simp: nmea_sentences_Nil)
    then show ?thesis using True by (intro exI[of _ r] exI[of _ "[stamp]"]) simp
  next
    case False
    then obtain u where u: "nmea_sentence e t s = Some u" "nmea_sentences e ts u = Some s'"
      using Cons.prems(1) by (auto simp: bind_eq_Some_conv)
    obtain stamp where st: "nmea_log u = nmea_log s @ [passed_on t stamp]" "\<not> gps_nmea_end_tag u"
      using sentence_log[OF u(1)] Cons.prems(2) by auto
    obtain r stamps where "length stamps = length ts" "end_reports r"
      "nmea_log s' = nmea_log u @ butlast (map2 passed_on ts stamps) @ r @ [last (map2 passed_on ts stamps)]"
      using Cons.IH[OF u(2) st(2) False] by blast
    moreover have "map2 passed_on ts stamps \<noteq> []" using False calculation(1) by (cases ts; cases stamps) auto
    ultimately show ?thesis using st(1) by (intro exI[of _ r] exI[of _ "stamp # stamps"]) simp
  qed
qed simp

text \<open>Every line of a batch reaches the HAL exactly once, in order and with its length; before the
  last one, and nowhere else, come the reports of the batch: at most one location, sent to the HAL
  and to the daemon's main thread alike and only with a field set, followed by one satellite list.
\<close>

theorem nmea_batch_reports:
  assumes "list_all is_line ts" "ts \<noteq> []" "mtk_mnl_nmea_parser_process e (lines ts) s = Some s'"
  shows "\<exists>r stamps. length stamps = length ts \<and> end_reports r \<and>
    nmea_log s' = nmea_log s @ butlast (map2 passed_on ts stamps) @ r @ [last (map2 passed_on ts stamps)]"
proof -
  let ?i = "nmea_reader_init e s\<lparr>gps_nmea_end_tag := False\<rparr>"
  have "nmea_sentences e ts ?i = Some s'" using assms nmea_line_split[OF assms(1)] by simp
  then show ?thesis using sentences_log[of e ts ?i s'] assms(2)
    by (simp add: nmea_reader_init_def nmea_reader_update_utc_diff_def)
qed

section \<open>The parser and the AT client together\<close>

lemma reports_ok: "reader_ok s \<Longrightarrow> reader_ok (parse_reports s)"
  by (simp add: parse_reports_def emit_out_def reader_ok_def Let_def)

lemma addc_ok: "reader_ok s \<Longrightarrow> pred_option reader_ok (nmea_reader_addc e c s)"
proof -
  assume s: "reader_ok s"
  have io: "reader_ok (s\<lparr>in_buf := b, pos := n\<rparr>) = reader_ok s" "reader_ok (emit_out x s\<lparr>pos := n, in_buf := b\<rparr>) = reader_ok s"
    "reader_ok (s\<lparr>overflow := o'\<rparr>) = reader_ok s" "reader_ok (s\<lparr>overflow := o', pos := n\<rparr>) = reader_ok s"
    for s b n o' x by (simp_all add: reader_ok_def emit_out_def)
  have "pred_option reader_ok (nmea_reader_parse e u)" if "reader_ok u" for u
    by (intro ok.parse_keeps reports_ok that)
  then show ?thesis using s
    by (auto simp: nmea_reader_addc_def Let_def io intro!: pred_option_bindI[of reader_ok])
qed

lemma process_ok: "reader_ok s \<Longrightarrow> pred_option reader_ok (process_bytes e cs s)"
proof (induction cs arbitrary: s)
  case (Cons c cs)
  have "reader_ok (if cs = [] then s\<lparr>gps_nmea_end_tag := True\<rparr> else s)"
    using Cons.prems by (simp add: reader_ok_def)
  then show ?case unfolding process_bytes.simps
    by (intro pred_option_bindI[OF addc_ok] Cons.IH)
qed simp

text \<open>What happens to the client: commands from its socket, and batches of the receiver.\<close>

datatype at_stimulus = At_datagram int bytes | Nmea_batch nmea_env bytes

fun at_step :: "at_stimulus \<Rightarrow> nmea \<Rightarrow> nmea option" where
    "at_step (At_datagram now d) s = map_option (\<lambda>a. s\<lparr>at_cmd := a\<rparr>) (at_cmd2mnl_hdlr now d (at_cmd s))"
  | "at_step (Nmea_batch e b) s = mtk_mnl_nmea_parser_process e b s"

fun at_run :: "at_stimulus list \<Rightarrow> nmea \<Rightarrow> nmea option" where
    "at_run [] s = Some s"
  | "at_run (x # xs) s = at_step x s \<bind> at_run xs"

lemma step_ok: "reader_ok s \<Longrightarrow> pred_option reader_ok (at_step x s)"
proof (cases x)
  case (At_datagram now d)
  assume "reader_ok s"
  then show ?thesis using At_datagram hdlr_owned[of "at_cmd s" now d]
    by (auto simp: reader_ok_def intro!: pred_option_mapI[of at_owned])
next
  case (Nmea_batch e b)
  assume "reader_ok s"
  then have "reader_ok (nmea_reader_init e s\<lparr>gps_nmea_end_tag := False\<rparr>)"
    by (simp add: reader_ok_def nmea_reader_init_def nmea_reader_update_utc_diff_def MTK_MNLD_GNSS_MAX_SVS_def)
  then show ?thesis using Nmea_batch by (simp add: mtk_mnl_nmea_parser_process_def process_ok)
qed

lemma run_ok: "reader_ok s \<Longrightarrow> pred_option reader_ok (at_run xs s)"
proof (induction xs arbitrary: s)
  case (Cons x xs)
  show ?case unfolding at_run.simps by (intro pred_option_bindI[OF step_ok[OF Cons.prems]] Cons.IH)
qed simp

lemma reader_ok_boot: "reader_ok (nmea_boot at_boot)"
  by (simp add: reader_ok_def nmea_boot_def at_owned_boot)



section \<open>The bounds of the arrays\<close>

text \<open>A client with no test on; it takes no part in the parsing but keeps what it is shown.\<close>

definition at_idle :: "at_ctx \<Rightarrow> bool" where
  "at_idle a \<longleftrightarrow> \<not> MNL_AT_TEST_FLAG a \<and> \<not> MNL_AT_SIGNAL_MODE a \<and> \<not> MNL_AT_SIGNAL_TEST_BEGIN a \<and>
     \<not> MNL_AT_CW_MODE a \<and> length (prn a) = 32 \<and> length (snr a) = 32"

lemma idle_tick [simp]: "at_idle a \<Longrightarrow> nmea_parser_at_cmd_pre i t a = Some a"
  by (simp add: at_idle_def nmea_parser_at_cmd_pre_def)

definition bounded :: "nmea \<Rightarrow> bool" where
  "bounded s \<longleftrightarrow> at_idle (at_cmd s) \<and> length (nmea_cash s) = 450"

interpretation bounded: sentence_invariant bounded
  by unfold_locales (auto simp: bounded_def at_idle_def nmea_parser_at_cmd_pre_def split: if_split_asm)

interpretation counted: field_invariant "\<lambda>s. sv_count s = c"
  by unfold_locales simp_all

lemma ensures_iff: "ensures P x \<longleftrightarrow> x \<noteq> None \<and> pred_option P x"
  by (cases x) simp_all

lemma cash_defined:
  "i + length ts < 450 \<Longrightarrow> length (nmea_cash s) = 450 \<Longrightarrow> cash_loop mark i ts s \<noteq> None"
  by (induction ts arbitrary: i s) auto

lemma sv_count_grows: "sv_count (nmea_reader_update_sv_status e n a b c s) \<le> Suc (sv_count s)"
  by (simp add: nmea_reader_update_sv_status_def Let_def split: option.split prod.split)

lemma satellite_defined:
  assumes "bounded s" "sv_count s < 32"
  shows "ensures (\<lambda>u. bounded u \<and> sv_count u \<le> Suc (sv_count s)) (gsv_satellite e ty tok i s)"
proof -
  have "length (prn (at_cmd s)) = 32" "length (snr (at_cmd s)) = 32" using assms(1) by (auto simp: bounded_def at_idle_def)
  then obtain a where a: "gsv_satellite e ty tok i s = Some (nmea_reader_update_sv_status e (sv_offset ty (str2int (tok (4 * (i + 1)))))
      (tok (4 * (i + 1) + 1)) (tok (4 * (i + 1) + 2)) (tok (4 * (i + 1) + 3)) (s\<lparr>at_cmd := a\<rparr>))"
    using assms(2) unfolding gsv_satellite_def Let_def by simp
  have "sv_count (s\<lparr>at_cmd := a\<rparr>) = sv_count s" by simp
  then show ?thesis using a bounded.satellite_keeps[OF assms(1), of e ty tok i] sv_count_grows
    by (simp only: ensures_simps option.pred_inject(2)) metis
qed

lemma gsv_loop_defined:
  "bounded s \<Longrightarrow> sv_count s + n \<le> 32 \<Longrightarrow>
   ensures (\<lambda>s'. bounded s' \<and> sv_count s' \<le> sv_count s + n) (gsv_loop e ty tok i n s)"
proof (induction n arbitrary: i s)
  case (Suc n)
  obtain u where u: "gsv_satellite e ty tok i s = Some u" "bounded u" "sv_count u \<le> Suc (sv_count s)"
    using satellite_defined[OF Suc.prems(1), of e ty tok i] Suc.prems(2) by (auto simp: ensures_def)
  show ?case using Suc.IH[of u "Suc i"] u Suc.prems(2) by (auto simp: ensures_def)
qed simp

lemma gsv_defined:
  assumes "bounded s" "sv_count s + 4 \<le> 32 \<or> str2int (tok 2) = 1"
  shows "ensures (\<lambda>s'. bounded s' \<and> sv_count s' \<le> (if str2int (tok 2) = 1 then 4 else sv_count s + 4))
    (parse_gsv e ty tok s)"
proof -
  define s0 where "s0 = (if str2int (tok 2) = 1 then s\<lparr>sv_count := 0\<rparr> else s)"
  have s0: "bounded s0" "sv_count s0 + 4 \<le> 32" "sv_count s0 \<le> (if str2int (tok 2) = 1 then 0 else sv_count s)"
    using assms by (auto simp: s0_def bounded_def)
  define n where "n = (let v = i32 (str2int (tok 3) - i32 (i32 (str2int (tok 2) - 1) * NMEA_MAX_SV_INFO))
    in nat (if v > NMEA_MAX_SV_INFO then NMEA_MAX_SV_INFO else v))"
  have n: "n \<le> 4" by (auto simp: n_def NMEA_MAX_SV_INFO_def Let_def)
  obtain u where u: "gsv_loop e ty tok 0 n s0 = Some u" "bounded u" "sv_count u \<le> sv_count s0 + n"
    using gsv_loop_defined[OF s0(1), of n e ty tok 0] s0(2) n by (auto simp: ensures_def)
  have off: "\<not> MNL_AT_TEST_FLAG (at_cmd u)" "\<not> MNL_AT_SIGNAL_MODE (at_cmd u)" using u(2) by (auto simp: bounded_def at_idle_def)
  have "parse_gsv e ty tok s = (if str2int (tok 2) = str2int (tok 1)
      then if int (sv_count u) \<le> str2int (tok 3) then Some (u\<lparr>num_svs := num_svs u + sv_count u\<rparr>)
           else Some (u\<lparr>sv_count := 0, num_svs := 0\<rparr>)
      else Some u)"
    using u(1) off unfolding parse_gsv_def n_def s0_def Let_def by simp
  then show ?thesis using u(2,3) s0(3) n by (auto simp: bounded_def split: if_split_asm)
qed

text \<open>
  The first token of a line, and which lines are satellite lists; \<open>gsv_within\<close> says that no group
  of them (a first list with sequence number 1 and what follows it) has more than eight.
\<close>

definition line_tok :: "bytes \<Rightarrow> nat \<Rightarrow> bytes" where
  "line_tok t i = tok_text (line_buf t) (nmea_tokenizer_get (nmea_tokenizer_init (line_buf t) (length t + 1)) i)"

definition line_start :: "bytes \<Rightarrow> nat" where
  "line_start t = fst (hd (nmea_tokenizer_init (line_buf t) (length t + 1)))"

definition is_gsv :: "bytes \<Rightarrow> bool" where
  "is_gsv t \<longleftrightarrow> 8 \<le> length t \<and> 5 \<le> length (line_tok t 0) \<and>
     has_text (line_buf t) (line_start t + 2) ''GSV'' \<and>
     \<not> has_text (line_buf t) (line_start t + 5) ''EPH'' \<and> \<not> has_text (line_buf t) (line_start t + 5) ''ALM''"

fun gsv_within :: "nat \<Rightarrow> bytes list \<Rightarrow> bool" where
    "gsv_within c [] = True"
  | "gsv_within c (t # ts) =
       (let c' = (if is_gsv t then if str2int (line_tok t 2) = 1 then 1 else Suc c else c)
        in c' \<le> 8 \<and> gsv_within c' ts)"

definition gsv_step :: "bytes \<Rightarrow> nat \<Rightarrow> nat" where
  "gsv_step t c = (if is_gsv t then if str2int (line_tok t 2) = 1 then 1 else Suc c else c)"

lemma body_defined:
  assumes "bounded s" "GPS_MAX_SVS e < 450" "in_buf s = line_buf t" "sv_count s \<le> 4 * c" "gsv_step t c \<le> 8"
    "8 \<le> length t" "5 \<le> length (line_tok t 0)"
  shows "ensures (\<lambda>s'. bounded s' \<and> sv_count s' \<le> 4 * gsv_step t c)
    (parse_body e (line_start t) (line_tok t) ch s)"
proof (cases "is_gsv t")
  case True
  then have g: "has_text (line_buf t) (line_start t + 2) ''GSV''"
    "\<not> has_text (line_buf t) (line_start t + 5) ''EPH''" "\<not> has_text (line_buf t) (line_start t + 5) ''ALM''"
    by (simp_all add: is_gsv_def)
  then have "\<not> has_text (line_buf t) (line_start t + 2) ''GGA''" "\<not> has_text (line_buf t) (line_start t + 2) ''GSA''"
    "\<not> has_text (line_buf t) (line_start t + 2) ''RMC''"
    by (auto simp: has_text_def ascii_def)
  then have "parse_body e (line_start t) (line_tok t) ch s = parse_gsv e (talker (line_buf t) (line_start t)) (line_tok t) s"
    using g assms(3) by (simp add: parse_body_def)
  moreover have "ensures (\<lambda>s'. bounded s' \<and> sv_count s' \<le> (if str2int (line_tok t 2) = 1 then 4 else sv_count s + 4))
      (parse_gsv e (talker (line_buf t) (line_start t)) (line_tok t) s)"
    using assms(4,5) True by (intro gsv_defined[OF assms(1)]) (auto simp: gsv_step_def split: if_split_asm)
  ultimately show ?thesis using assms(4) True by (auto simp: gsv_step_def ensures_def)
next
  case False
  have "length (nmea_cash s) = 450" "\<not> MNL_AT_CW_MODE (at_cmd s)" using assms(1) by (auto simp: bounded_def at_idle_def)
  moreover have "ensures (\<lambda>s'. sv_count s' = sv_count s) (cash_loop mark 0 (cash_tokens e (line_tok t)) s)" for mark
    using cash_defined[of 0 "cash_tokens e (line_tok t)" s mark] assms(2) calculation(1)
      counted.cash_keeps[of s "sv_count s" mark 0] by (simp add: ensures_iff cash_tokens_def)
  moreover have "\<not> (has_text (line_buf t) (line_start t + 2) ''GSV'' \<and> \<not> has_text (line_buf t) (line_start t + 5) ''EPH'' \<and>
      \<not> has_text (line_buf t) (line_start t + 5) ''ALM'')"
    using False assms(6,7) by (auto simp: is_gsv_def)
  ultimately have "ensures (\<lambda>s'. sv_count s' = sv_count s) (parse_body e (line_start t) (line_tok t) ch s)"
    by (auto simp: parse_body_def Let_def assms(3) counted.fix_keeps counted.fields_keep)
  then show ?thesis using bounded.body_keeps[OF assms(1), of e "line_start t" "line_tok t" ch] assms(4) False
    by (auto simp: ensures_def gsv_step_def)
qed

lemma sentence_defined:
  assumes "bounded s" "GPS_MAX_SVS e < 450" "sv_count s \<le> 4 * c" "gsv_step t c \<le> 8"
  shows "ensures (\<lambda>s'. bounded s' \<and> sv_count s' \<le> 4 * gsv_step t c) (nmea_sentence e t s)"
proof -
  let ?s = "s\<lparr>in_buf := line_buf t, pos := length t + 1\<rparr>"
  have s: "bounded ?s" "sv_count ?s \<le> 4 * c" using assms(1,3) by (simp_all add: bounded_def)
  have a: "?s\<lparr>at_cmd := at_cmd s\<rparr> = ?s" by simp
  have r: "bounded (parse_reports u)" "sv_count (parse_reports u) \<le> sv_count u" if "bounded u" for u
    using that by (auto simp: parse_reports_def emit_out_def bounded_def Let_def)
  have "ensures (\<lambda>u. bounded u \<and> sv_count u \<le> 4 * gsv_step t c) (nmea_reader_parse e ?s)"
  proof (cases "8 \<le> length t \<and> 5 \<le> length (line_tok t 0)")
    case True
    obtain u where u: "parse_body e (line_start t) (line_tok t)
        (\<lambda>i. tok_char (line_buf t) (nmea_tokenizer_get (nmea_tokenizer_init (line_buf t) (length t + 1)) i)) ?s = Some u"
      "bounded u" "sv_count u \<le> 4 * gsv_step t c"
      using body_defined[OF s(1) assms(2) _ s(2) assms(4)] True by (auto simp: ensures_def)
    then have "nmea_reader_parse e ?s = Some (parse_reports u)"
      using True assms(1) a unfolding line_tok_def line_start_def
      by (simp add: nmea_reader_parse_def bounded_def Let_def)
    then show ?thesis using r[OF u(2)] u(3) by simp
  next
    case False
    then have "nmea_reader_parse e ?s = Some ?s"
      using assms(1) a unfolding line_tok_def by (auto simp: nmea_reader_parse_def bounded_def Let_def)
    moreover have "gsv_step t c = c" using False by (auto simp: gsv_step_def is_gsv_def)
    ultimately show ?thesis using s by simp
  qed
  then show ?thesis unfolding nmea_sentence_def
    by (auto simp: ensures_def bounded_def emit_out_def)
qed

lemma sentences_defined:
  assumes "bounded s" "GPS_MAX_SVS e < 450" "sv_count s \<le> 4 * c" "gsv_within c ts"
  shows "nmea_sentences e ts s \<noteq> None"
  using assms(1,3,4)
proof (induction ts arbitrary: s c)
  case (Cons t ts)
  let ?s = "if ts = [] then s\<lparr>gps_nmea_end_tag := True\<rparr> else s"
  have w: "gsv_step t c \<le> 8" "gsv_within (gsv_step t c) ts" using Cons.prems(3) by (simp_all add: gsv_step_def Let_def)
  have "bounded ?s" "sv_count ?s \<le> 4 * c" using Cons.prems(1,2) by (simp_all add: bounded_def)
  then obtain u where "nmea_sentence e t ?s = Some u" "bounded u" "sv_count u \<le> 4 * gsv_step t c"
    using sentence_defined[OF _ assms(2) _ w(1)] by (auto simp: ensures_def)
  then show ?case using Cons.IH[OF _ _ w(2)] by simp
qed simp

lemma lines_defined:
  assumes "list_all is_line ts" "gsv_within 0 ts" "at_idle (at_cmd s)" "length (nmea_cash s) = 450"
    "GPS_MAX_SVS e < 450"
  shows "mtk_mnl_nmea_parser_process e (lines ts) s \<noteq> None"
proof -
  let ?i = "nmea_reader_init e s\<lparr>gps_nmea_end_tag := False\<rparr>"
  have "bounded ?i" "sv_count ?i \<le> 4 * 0"
    using assms(3,4) by (simp_all add: bounded_def nmea_reader_init_def nmea_reader_update_utc_diff_def)
  then show ?thesis using sentences_defined[of ?i e 0 ts] assms by (simp add: nmea_line_split)
qed

text \<open>C37: With no AT test on, a batch is parsed without leaving any array as long as its satellite
  lists come in groups of at most eight lines (32 satellites), whatever the lines contain
  otherwise: any text of at most 254 characters, any number of fields, any numbers in them.
\<close>

theorem nmea_memory_safe:
  assumes "list_all is_line ts" "gsv_within 0 ts" "at_idle (at_cmd s)" "length (nmea_cash s) = 450"
    "GPS_MAX_SVS e < 450"
  shows "mtk_mnl_nmea_parser_process e (lines ts) s \<noteq> None"
  using assms by (rule lines_defined)

lemma nmea_memory_safe_witness:
  "mtk_mnl_nmea_parser_process whole_env (lines [ascii ''$GPGSA,A,3'', ascii ''$GPRMC,,A'', ascii ''junk''])
     (nmea_boot at_boot) \<noteq> None"
proof (rule nmea_memory_safe)
  show "gsv_within 0 [ascii ''$GPGSA,A,3'', ascii ''$GPRMC,,A'', ascii ''junk'']"
    by code_simp
qed (simp_all add: is_line_def ascii_def at_idle_def nmea_boot_def at_boot_def whole_env_def)

lemma nmea_batch_reports_witness:
  "\<exists>s' r stamps. mtk_mnl_nmea_parser_process whole_env (lines [ascii ''$GPGSA,A,3'', ascii ''junk'']) (nmea_boot at_boot) = Some s' \<and>
     length stamps = 2 \<and> end_reports r \<and>
     nmea_log s' = butlast (map2 passed_on [ascii ''$GPGSA,A,3'', ascii ''junk''] stamps) @ r @
       [last (map2 passed_on [ascii ''$GPGSA,A,3'', ascii ''junk''] stamps)]"
proof -
  let ?ts = "[ascii ''$GPGSA,A,3'', ascii ''junk'']"
  have l: "list_all is_line ?ts" by (simp add: is_line_def ascii_def)
  have g: "gsv_within 0 ?ts" by code_simp
  obtain s' where s': "mtk_mnl_nmea_parser_process whole_env (lines ?ts) (nmea_boot at_boot) = Some s'"
    using lines_defined[OF l g, of "nmea_boot at_boot" whole_env]
    by (auto simp: at_idle_def nmea_boot_def at_boot_def whole_env_def)
  have n: "nmea_log (nmea_boot at_boot) = []" by (simp add: nmea_boot_def)
  have "\<exists>r stamps. length stamps = length ?ts \<and> end_reports r \<and>
      nmea_log s' = nmea_log (nmea_boot at_boot) @ butlast (map2 passed_on ?ts stamps) @ r @ [last (map2 passed_on ?ts stamps)]"
    by (rule nmea_batch_reports[OF l _ s']) simp
  then show ?thesis unfolding n append_Nil length_Cons list.size(3) numeral_2_eq_2 using s' by blast
qed

text \<open>A group of satellite lists: each list is given by its fields.\<close>

fun parse_gsvs :: "nmea_env \<Rightarrow> SV_TYPE \<Rightarrow> (nat \<Rightarrow> bytes) list \<Rightarrow> nmea \<Rightarrow> nmea option" where
    "parse_gsvs e ty [] s = Some s"
  | "parse_gsvs e ty (tok # toks) s = parse_gsv e ty tok s \<bind> parse_gsvs e ty toks"

text \<open>The \<open>k\<close>-th list of a group of \<open>num\<close>, with four satellites the parser knows.\<close>

definition full_gsv :: "SV_TYPE \<Rightarrow> int \<Rightarrow> int \<Rightarrow> (nat \<Rightarrow> bytes) \<Rightarrow> bool" where
  "full_gsv ty num k tok \<longleftrightarrow> str2int (tok 1) = num \<and> str2int (tok 2) = k \<and> str2int (tok 3) = 4 * num \<and>
     list_all (\<lambda>j. sv_of_prn (sv_offset ty (str2int (tok (4 * (j + 1))))) \<noteq> None) [0, 1, 2, 3]"

lemma known_satellite:
  assumes "bounded s" "sv_count s + num_svs s < 64" "sv_of_prn (sv_offset ty (str2int (tok (4 * (i + 1))))) \<noteq> None"
    "gsv_satellite e ty tok i s = Some u"
  shows "sv_count u = Suc (sv_count s) \<and> num_svs u = num_svs s"
  using assms
  by (auto simp: gsv_satellite_def nmea_reader_update_sv_status_def Let_def MTK_MNLD_GNSS_MAX_SVS_def
      split: if_split_asm)

lemma full_loop:
  assumes "bounded s" "sv_count s + 4 \<le> 32" "num_svs s = 0" "full_gsv ty num k tok"
  shows "ensures (\<lambda>u. bounded u \<and> sv_count u = sv_count s + 4 \<and> num_svs u = 0) (gsv_loop e ty tok 0 4 s)"
proof -
  have step: "ensures (\<lambda>u. bounded u \<and> sv_count u = sv_count s + Suc j \<and> num_svs u = 0) (gsv_satellite e ty tok j v)"
    if "bounded v" "sv_count v = sv_count s + j" "num_svs v = 0" "j < 4" for v j
  proof -
    have "sv_of_prn (sv_offset ty (str2int (tok (4 * (j + 1))))) \<noteq> None"
      using assms(4) that(4) by (auto simp: full_gsv_def numeral_eq_Suc less_Suc_eq)
    then show ?thesis using satellite_defined[OF that(1), of e ty tok j] known_satellite[OF that(1), of ty tok j e]
        that assms(2) by (auto simp: ensures_def)
  qed
  have "ensures (\<lambda>u. bounded u \<and> sv_count u = sv_count s + (j + n) \<and> num_svs u = 0) (gsv_loop e ty tok j n v)"
    if "bounded v" "sv_count v = sv_count s + j" "num_svs v = 0" "j + n \<le> 4" for v j n
    using that
  proof (induction n arbitrary: j v)
    case (Suc n)
    obtain w where w: "gsv_satellite e ty tok j v = Some w" "bounded w" "sv_count w = sv_count s + Suc j" "num_svs w = 0"
      using step[OF Suc.prems(1-3)] Suc.prems(4) by (auto simp: ensures_def)
    then show ?case using Suc.IH[of w "Suc j"] Suc.prems(4) by simp
  qed simp
  from this[of s 0 4] show ?thesis using assms by simp
qed

lemma full_gsv_step:
  assumes "bounded s" "sv_count s = (if k = 0 then sv_count s else 4 * k)" "num_svs s = 0" "k < 8"
    "full_gsv ty 9 (int k + 1) tok"
  shows "ensures (\<lambda>u. bounded u \<and> sv_count u = 4 * Suc k \<and> num_svs u = 0) (parse_gsv e ty tok s)"
proof -
  define s0 where "s0 = (if int k + 1 = 1 then s\<lparr>sv_count := 0\<rparr> else s)"
  have s0: "bounded s0" "sv_count s0 = 4 * k" "num_svs s0 = 0" using assms by (auto simp: s0_def bounded_def)
  have t: "str2int (tok 1) = 9" "str2int (tok 2) = int k + 1" "str2int (tok 3) = 36"
    using assms(5) by (simp_all add: full_gsv_def)
  have "i32 (int k) = int k" "i32 (int k * 4) = int k * 4" "i32 (36 - int k * 4) = 36 - int k * 4"
    using assms(4) by (auto intro!: i32_id)
  then have "parse_gsv e ty tok s = gsv_loop e ty tok 0 4 s0"
    using t assms(4) unfolding parse_gsv_def s0_def Let_def NMEA_MAX_SV_INFO_def
    by (cases "gsv_loop e ty tok 0 4 s0") (auto simp: s0_def)
  moreover have "ensures (\<lambda>u. bounded u \<and> sv_count u = sv_count s0 + 4 \<and> num_svs u = 0) (gsv_loop e ty tok 0 4 s0)"
    using s0 assms(4,5) by (intro full_loop) auto
  ultimately show ?thesis using s0(2) by (simp add: add.commute)
qed

lemma full_gsv_ninth:
  assumes "bounded s" "sv_count s = 32" "full_gsv ty 9 9 tok"
  shows "parse_gsv e ty tok s = None"
proof -
  have t: "str2int (tok 2) = 9" "str2int (tok 3) = 36" using assms(3) by (simp_all add: full_gsv_def)
  have "i32 8 = 8" "i32 32 = 32" "i32 4 = 4" by (simp_all add: i32_id)
  moreover have "gsv_satellite e ty tok 0 s = None"
    using assms(1,2) by (simp add: gsv_satellite_def bounded_def at_idle_def)
  then have "gsv_loop e ty tok 0 4 s = None" by (simp add: numeral_eq_Suc)
  ultimately show ?thesis using t by (simp add: parse_gsv_def NMEA_MAX_SV_INFO_def)
qed

text \<open>The bound is sharp, and the code does not check it: a ninth satellite list of a group (36
  satellites the parser knows) makes it write past the 32 entries of the arrays that it fills for
  the AT test, although the satellite list itself has room for 64.
\<close>

theorem nmea_ninth_list_overruns:
  assumes "bounded s" "num_svs s = 0" "length toks = 9"
    "list_all (\<lambda>k. full_gsv ty 9 (int k + 1) (toks ! k)) [0..<9]"
  shows "parse_gsvs e ty toks s = None \<and> (\<exists>u. parse_gsvs e ty (take 8 toks) s = Some u \<and> sv_count u = 32)"
proof -
  have full: "full_gsv ty 9 (int k + 1) (toks ! k)" if "k < 9" for k using assms(4) that by (simp add: list_all_iff)
  have app: "parse_gsvs e ty (as @ bs) s = parse_gsvs e ty as s \<bind> parse_gsvs e ty bs" for as bs s
    by (induction as arbitrary: s) (auto split: bind_splits)
  have pre: "ensures (\<lambda>u. bounded u \<and> sv_count u = (if k = 0 then sv_count s else 4 * k) \<and> num_svs u = 0)
      (parse_gsvs e ty (take k toks) s)" if "k \<le> 8" for k
    using that
  proof (induction k)
    case 0
    then show ?case using assms(1,2) by simp
  next
    case (Suc k)
    then obtain u where u: "parse_gsvs e ty (take k toks) s = Some u" "bounded u"
      "sv_count u = (if k = 0 then sv_count s else 4 * k)" "num_svs u = 0"
      by (auto simp: ensures_def)
    have "ensures (\<lambda>u. bounded u \<and> sv_count u = 4 * Suc k \<and> num_svs u = 0) (parse_gsv e ty (toks ! k) u)"
      using u Suc.prems full[of k] by (intro full_gsv_step) auto
    then show ?case using u(1) Suc.prems assms(3)
      by (auto simp: take_Suc_conv_app_nth app ensures_def)
  qed
  obtain u where u: "parse_gsvs e ty (take 8 toks) s = Some u" "bounded u" "sv_count u = 32"
    using pre[of 8] by (auto simp: ensures_def)
  have "toks = take 8 toks @ [toks ! 8]" using assms(3) take_Suc_conv_app_nth[of 8 toks] by simp
  then have "parse_gsvs e ty toks s = parse_gsvs e ty (take 8 toks @ [toks ! 8]) s" by simp
  also have "\<dots> = None" using u full_gsv_ninth[OF u(2,3)] full[of 8] by (simp add: app)
  finally show ?thesis using u by simp
qed

lemma nmea_ninth_list_overruns_witness:
  "let toks = map (\<lambda>k i. if i = 1 then ascii ''9'' else if i = 2 then [49 + of_nat k] else if i = 3 then ascii ''36''
                        else ascii ''7'') [0..<9]
   in parse_gsvs whole_env GPS_SV toks (nmea_boot at_boot) = None \<and>
     (\<exists>u. parse_gsvs whole_env GPS_SV (take 8 toks) (nmea_boot at_boot) = Some u \<and> sv_count u = 32)"
  unfolding Let_def
  by (rule nmea_ninth_list_overruns)
    (simp_all add: bounded_def at_idle_def nmea_boot_def at_boot_def full_gsv_def upt_rec ascii_def str2int_def
      is_digit_def i32_id sv_offset_def sv_of_prn_def)

section \<open>From the satellite lists to the framework\<close>

lemma length_gnss_sv_bytes [simp]: "length (gnss_sv_bytes v) = 20"
  by (simp add: gnss_sv_bytes_def)

lemma gnss_sv_of_bytes:
  assumes "i < length vs"
  shows "gnss_sv_of (le32 n @ concat (map gnss_sv_bytes vs)) i = vs ! i"
proof -
  have d: "drop (20 * i) (concat (map gnss_sv_bytes vs)) = gnss_sv_bytes (vs ! i) @ concat (map gnss_sv_bytes (drop (Suc i) vs))"
    using assms
  proof (induction vs arbitrary: i)
    case (Cons v vs)
    then show ?case by (cases i) simp_all
  qed simp
  have x: "drop (4 + 20 * i) (le32 n @ concat (map gnss_sv_bytes vs)) =
    gnss_sv_bytes (vs ! i) @ concat (map gnss_sv_bytes (drop (Suc i) vs))"
    using d by simp
  obtain v where v: "vs ! i = v" by simp
  show ?thesis unfolding gnss_sv_of_def Let_def x v
    by (cases v) (simp add: gnss_sv_bytes_def nth_append)
qed

lemma sint_small: "n < 2 ^ 31 \<Longrightarrow> sint (of_nat n :: u32) = int n"
  by (simp add: signed_of_nat signed_take_bit_int_eq_self)

text \<open>C36: The satellites of a batch reach the framework as the parser recorded them: the list is sent
  over the HAL socket, the HAL decodes it and passes on its first entries, as many as were counted
  (and the framework has room for), each with number, constellation, strength, elevation, azimuth
  and flags unchanged. A count beyond the 64 entries of the list is cut off by the framework's limit.
\<close>

theorem satellites_reach_framework:
  assumes "reader_ok s" "num_svs s < 2 ^ 31" "0 \<le> GNSS_MAX_SVS p" "GNSS_MAX_SVS p \<le> 64"
  shows "\<exists>d. mnl2hal_send lp64 (Gps_sv (sv_status_bytes s)) = Some d \<and>
    mnl2hal_hdlr lp64 junk (\<lambda>_. True) (Some d) r = Some (0, Some (Gps_sv (sv_status_bytes s)), r) \<and>
    gpshal_mnl2hal_interface p ok (Gps_sv (sv_status_bytes s)) h =
      call_if (gps_cbs h) (Gnss_sv_status_cb (take (min (num_svs s) (nat (GNSS_MAX_SVS p))) (sv_list s))) h"
proof -
  have len: "length (sv_list s) = 64" using assms(1) by (simp add: reader_ok_def)
  have "length (concat (map gnss_sv_bytes vs)) = 20 * length vs" for vs by (induction vs) simp_all
  then have b: "length (sv_status_bytes s) = sizeof_gnss_sv_info lp64"
    by (simp add: sv_status_bytes_def len lp64_def)
  have t: "map_option (\<lambda>d. mnl2hal_hdlr lp64 junk (\<lambda>_. True) (Some d) r) (mnl2hal_send lp64 (Gps_sv (sv_status_bytes s)))
      = Some (mnl2hal_outcome r (Gps_sv (sv_status_bytes s)))"
    by (rule mnl2hal_transport_struct[OF abi_ok_lp64 mnl2hal_struct.simps(2) b])
  have o: "mnl2hal_outcome r (Gps_sv (sv_status_bytes s)) = Some (0, Some (Gps_sv (sv_status_bytes s)), r)"
    by (simp add: mnl2hal_outcome_def mnl2hal_gated_def location_gate_def)
  define k where "k = min (num_svs s) (nat (GNSS_MAX_SVS p))"
  have n: "num_svs_of (sv_status_bytes s) = int (num_svs s)"
    using assms(2) by (simp add: num_svs_of_def sv_status_bytes_def sint_small)
  have k: "(if int (num_svs s) > GNSS_MAX_SVS p then GNSS_MAX_SVS p else int (num_svs s)) = int k" "k \<le> 64"
    using assms(3,4) by (auto simp: k_def)
  have m: "map (gnss_sv_of (sv_status_bytes s)) [0..<k] = take k (sv_list s)"
    using k(2) len by (intro nth_equalityI) (simp_all add: sv_status_bytes_def gnss_sv_of_bytes)
  have "update_gps_sv p (sv_status_bytes s) h = call_if (gps_cbs h) (Gnss_sv_status_cb (take k (sv_list s))) h"
    using k(2) m unfolding update_gps_sv_def n k(1) Let_def by (simp add: MTK_HAL_GNSS_MAX_SVS_def)
  then show ?thesis using t o unfolding k_def by auto
qed

lemma satellites_reach_framework_witness:
  "\<exists>d. mnl2hal_send lp64 (Gps_sv (sv_status_bytes (nmea_boot at_boot))) = Some d \<and>
    mnl2hal_hdlr lp64 (\<lambda>_. 0) (\<lambda>_. True) (Some d) rate_init =
      Some (0, Some (Gps_sv (sv_status_bytes (nmea_boot at_boot))), rate_init) \<and>
    gpshal_mnl2hal_interface platform_default (\<lambda>_. True) (Gps_sv (sv_status_bytes (nmea_boot at_boot))) g_gpshal_ctx =
      call_if (gps_cbs g_gpshal_ctx) (Gnss_sv_status_cb
        (take (min (num_svs (nmea_boot at_boot)) (nat (GNSS_MAX_SVS platform_default))) (sv_list (nmea_boot at_boot))))
        g_gpshal_ctx"
  by (rule satellites_reach_framework) (rule reader_ok_boot, simp_all add: platform_default_def nmea_boot_def)

section \<open>Tests that leave their samples\<close>

text \<open>A satellite list that holds satellite 1 alone, with strength \<open>v\<close>.\<close>

definition lone_sv :: "nmea_env \<Rightarrow> (nat \<Rightarrow> bytes) \<Rightarrow> int \<Rightarrow> bool" where
  "lone_sv e tok v \<longleftrightarrow> str2int (tok 1) = 1 \<and> str2int (tok 2) = 1 \<and> str2int (tok 3) = 1 \<and> str2int (tok 4) = 1 \<and>
     d_to_int (fp e) (str2float (fp e) (tok 7)) = v"

lemma found_full:
  assumes "Dev_CNr a = Live vs" "int (length vs) \<le> Success_Num a" "MNL_AT_TEST_FLAG a" "\<not> MNL_AT_SIGNAL_MODE a" "v \<noteq> 0"
  shows "found_satellite v a = None"
  using assms by (simp add: found_satellite_def record_cno_def Let_def)

lemma found_counts:
  assumes "found_satellite v a = Some b" "MNL_AT_TEST_FLAG a" "\<not> MNL_AT_SIGNAL_MODE a" "v \<noteq> 0" "Dev_CNr a = Live vs"
  shows "Success_Num b = Success_Num a + 1 \<and> td_prn_num b = td_prn_num a \<and> prn b = prn a \<and> snr b = snr a"
proof -
  have u: "update_deviation c = Some b \<Longrightarrow> Success_Num b = Success_Num c \<and> td_prn_num b = td_prn_num c \<and>
      prn b = prn c \<and> snr b = snr c" for c
    by (auto simp: update_deviation_def Let_def split: if_split_asm heap_array.splits)
  show ?thesis using assms
    by (auto simp: found_satellite_def record_cno_def bind_eq_Some_conv Let_def split: if_split_asm dest!: u)
qed

text \<open>The one satellite of a list is the tested one: what the list makes of it.\<close>

lemma lone_gsv:
  assumes "length (prn (at_cmd s)) = 32" "length (snr (at_cmd s)) = 32" "lone_sv e tok v" "td_prn_num (at_cmd s) = 1"
    "MNL_AT_TEST_FLAG (at_cmd s)" "\<not> MNL_AT_SIGNAL_MODE (at_cmd s)" "MNL_AT_TEST_STATE (at_cmd s) \<noteq> TEST_DONE"
    "num_svs s < 64" "ty = GPS_SV \<or> ty = GALILEO_SV"
  shows "\<exists>u. num_svs u = num_svs s + 1 \<and> parse_gsv e ty tok s = map_option (\<lambda>a. u\<lparr>at_cmd := a\<rparr>)
    (found_satellite v ((at_cmd s)\<lparr>prn := (prn (at_cmd s))[0 := 1], snr := (snr (at_cmd s))[0 := v]\<rparr>))"
proof -
  let ?a = "(at_cmd s)\<lparr>prn := (prn (at_cmd s))[0 := 1], snr := (snr (at_cmd s))[0 := v]\<rparr>"
  let ?u = "nmea_reader_update_sv_status e (sv_offset ty 1) (tok 5) (tok 6) (tok 7) (s\<lparr>sv_count := 0, at_cmd := ?a\<rparr>)"
  have t: "str2int (tok 1) = 1" "str2int (tok 2) = 1" "str2int (tok 3) = 1" using assms(3) by (simp_all add: lone_sv_def)
  have loop: "gsv_loop e ty tok 0 1 (s\<lparr>sv_count := 0\<rparr>) = Some ?u"
    using assms(1-3) by (simp add: gsv_satellite_def lone_sv_def Let_def)
  have "sv_of_prn (sv_offset ty 1) \<noteq> None" using assms(9) by (auto simp: sv_offset_def sv_of_prn_def i32_id)
  then have u: "at_cmd ?u = ?a" "sv_count ?u = 1" "num_svs ?u = num_svs s"
    using assms(8) by (auto simp: nmea_reader_update_sv_status_def Let_def MTK_MNLD_GNSS_MAX_SVS_def)
  have proc: "gps_at_command_test_proc 1 ?a = found_satellite v ?a"
    using assms by (simp add: gps_at_command_test_proc_def gps_at_command_search_satellite_def)
  have "i32 0 = 0" "i32 1 = 1" by (simp_all add: i32_id)
  then have "parse_gsv e ty tok s = gsv_loop e ty tok 0 1 (s\<lparr>sv_count := 0\<rparr>) \<bind> (\<lambda>u. if int (sv_count u) \<le> 1
      then if MNL_AT_TEST_FLAG (at_cmd u) \<or> MNL_AT_SIGNAL_MODE (at_cmd u)
        then map_option (\<lambda>a. u\<lparr>num_svs := num_svs u + sv_count u, at_cmd := a\<rparr>)
               (gps_at_command_test_proc (int (sv_count u)) (at_cmd u))
        else Some (u\<lparr>num_svs := num_svs u + sv_count u\<rparr>)
      else Some (u\<lparr>sv_count := 0, num_svs := 0\<rparr>))"
    unfolding parse_gsv_def t Let_def by (simp add: NMEA_MAX_SV_INFO_def cong: if_cong)
  also have "\<dots> = map_option (\<lambda>a. ?u\<lparr>num_svs := num_svs s + 1, at_cmd := a\<rparr>) (found_satellite v ?a)"
    unfolding loop using u proc assms(5) by simp
  finally show ?thesis by (intro exI[of _ "?u\<lparr>num_svs := num_svs s + 1\<rparr>"]) simp
qed

text \<open>The AT test writes past its block of samples when two constellations are in view: the parser
  shows it the number a satellite has within its constellation, so satellite 1 of GPS and satellite
  1 of Galileo both count as the tested one, and a batch that brings both while a single sample is
  missing stores one more than there is room for. The test ends only when the count is equal.
\<close>

theorem two_constellations_overrun:
  assumes "at_running t n L (at_cmd s)" "n \<le> 2000" "Success_Num (at_cmd s) = int n - 1" "td_prn_num (at_cmd s) = 1"
    "length (prn (at_cmd s)) = 32" "length (snr (at_cmd s)) = 32" "num_svs s < 63"
    "lone_sv e tok v" "1 \<le> v" "v \<le> 99" "lone_sv e tok' v'" "v' \<noteq> 0"
  shows "\<exists>u. parse_gsv e GPS_SV tok s = Some u \<and> Success_Num (at_cmd u) = int n \<and>
    parse_gsv e GALILEO_SV tok' u = None"
proof -
  let ?a = "(at_cmd s)\<lparr>prn := (prn (at_cmd s))[0 := 1], snr := (snr (at_cmd s))[0 := v]\<rparr>"
  have on: "MNL_AT_TEST_FLAG (at_cmd s)" "\<not> MNL_AT_SIGNAL_MODE (at_cmd s)" "MNL_AT_TEST_STATE (at_cmd s) \<noteq> TEST_DONE"
    using assms(1) by (simp_all add: at_running_def)
  have a: "at_running t n L ?a" using assms(1) by (simp add: at_running_def)
  obtain vs where vs: "Dev_CNr ?a = Live vs" using a by (auto simp: at_running_def)
  obtain b where b: "found_satellite v ?a = Some b" "at_measured ?a b"
    using found_ok[OF a assms(2), of v] assms(9,10) by (auto simp: ensures_def)
  have c: "Success_Num b = int n" "td_prn_num b = 1" "length (prn b) = 32" "length (snr b) = 32"
    using found_counts[OF b(1) _ _ _ vs] on assms by simp_all
  have m: "MNL_AT_TEST_FLAG b" "\<not> MNL_AT_SIGNAL_MODE b" "MNL_AT_TEST_STATE b \<noteq> TEST_DONE"
    using b(2) by (simp_all add: at_measured_def)
  obtain ws where ws: "Dev_CNr b = Live ws" "length ws = n"
    using b(2) a by (auto simp: at_measured_def at_running_def)
  obtain u where u: "num_svs u = num_svs s + 1" "parse_gsv e GPS_SV tok s = Some (u\<lparr>at_cmd := b\<rparr>)"
    using lone_gsv[OF assms(5,6,8,4) on _ disjI1[OF refl]] assms(7) b(1) by auto
  let ?b = "b\<lparr>prn := (prn b)[0 := 1], snr := (snr b)[0 := v']\<rparr>"
  have "found_satellite v' ?b = None" using ws c(1) m assms(12) by (intro found_full[of _ ws]) simp_all
  then have "parse_gsv e GALILEO_SV tok' (u\<lparr>at_cmd := b\<rparr>) = None"
    using lone_gsv[of "u\<lparr>at_cmd := b\<rparr>" e tok' v' GALILEO_SV] c m assms(7,11) u(1) by auto
  then show ?thesis using u(2) c(1) by auto
qed

text \<open>The state of a client that has been asked for one sample.\<close>

definition one_sample :: nmea where
  "one_sample = (nmea_boot at_boot)\<lparr>at_cmd := snd (test_begin 0 1 1 2 0 at_boot)\<rparr>"

lemma two_constellations_overrun_witness:
  "\<exists>u. parse_gsv whole_env GPS_SV (\<lambda>i. if i = 7 then ascii ''40'' else ascii ''1'') one_sample = Some u \<and>
     Success_Num (at_cmd u) = int 1 \<and>
     parse_gsv whole_env GALILEO_SV (\<lambda>i. if i = 7 then ascii ''35'' else ascii ''1'') u = None"
  by (rule two_constellations_overrun[of 0 1 _ _ _ _ 40 _ 35])
    (simp_all add: one_sample_def test_begin_def at_emit_def at_boot_def nmea_boot_def at_running_def lone_sv_def
      whole_env_def whole_fpu_def ascii_def str2int_def is_digit_def i32_id str2float_def cstr_def digits_value_def)

text \<open>Restarting a test under way overruns the new block too: \<open>AT%GPS=m\<close> allocates a block for \<open>m\<close>
  samples and drops the old one without freeing it, but keeps the number of samples taken so far,
  so when that is at least \<open>m\<close> the next sample is written behind the end of the new block.
\<close>

theorem at_restart_overruns:
  assumes "at_running t n L a" "1 \<le> m" "m \<le> 2000" "int m \<le> Success_Num a"
    "1 \<le> ep_count x" "length (ep_prn x) = 32" "length (ep_snr x) = 32" "ep_prn x ! 0 = 1" "ep_snr x ! 0 \<noteq> 0"
  shows "\<exists>b. at_cmd2mnl_hdlr now (gps_command m) a = Some b \<and> Dev_CNr b = Live (replicate m 0) \<and>
    Success_Num b = Success_Num a \<and> at_epoch x b = None"
proof -
  have on: "\<not> MNL_AT_CW_MODE a" "MNL_AT_TEST_FLAG a" "\<not> MNL_AT_SIGNAL_MODE a" using assms(1) by (simp_all add: at_running_def)
  let ?b = "at_command_send_ack ''GPS TEST START OK''
    (snd (test_begin now (int m) 1 2 0 (a\<lparr>test_mode_flag := False, Wait_Num := 0\<rparr>)))"
  have h: "at_cmd2mnl_hdlr now (gps_command m) a = Some ?b"
    using assms(2,3) on by (simp add: gps_command_parse at_gps_command_parser_def at_test_start_ack_def
        gpsinf_mtk_gps_test_start_def test_begin_def at_command_send_ack_def GPS_TEST_PRN_def Let_def)
  have b: "Dev_CNr ?b = Live (replicate m 0)" "Success_Num ?b = Success_Num a" "td_prn_num ?b = 1"
    "MNL_AT_TEST_FLAG ?b" "\<not> MNL_AT_SIGNAL_MODE ?b" "MNL_AT_TEST_STATE ?b = TEST_INPROGRESS"
    using assms(2) on by (simp_all add: test_begin_def at_command_send_ack_def at_emit_def Let_def)
  obtain k where k: "nat (ep_count x) = Suc k" using assms(5) by (cases "nat (ep_count x)") auto
  have "found_satellite (ep_snr x ! 0) (?b\<lparr>prn := ep_prn x, snr := ep_snr x\<rparr>) = None"
    using b assms(4,9) by (intro found_full[of _ "replicate m 0"]) simp_all
  then have "at_epoch x ?b = None" using b assms(6-8)
    by (simp add: at_epoch_def gps_at_command_test_proc_def gps_at_command_search_satellite_def k)
  then show ?thesis using h b(1,2) by blast
qed

definition ten_of_twelve :: at_ctx where
  "ten_of_twelve = (snd (test_begin 0 12 1 2 0 at_boot))\<lparr>Success_Num := 10, prev_success_num := 10, Err_Code := 0\<rparr>"

lemma at_restart_overruns_witness:
  "\<exists>b. at_cmd2mnl_hdlr 9 (gps_command 3) ten_of_twelve = Some b \<and> Dev_CNr b = Live (replicate 3 0) \<and>
     Success_Num b = Success_Num ten_of_twelve \<and>
     at_epoch \<lparr>ep_time = 10, ep_count = 1, ep_prn = 1 # replicate 31 0, ep_snr = 40 # replicate 31 0\<rparr> b = None"
  by (rule at_restart_overruns[of 0 12])
    (simp_all add: ten_of_twelve_def test_begin_def at_emit_def at_boot_def at_running_def list_all_iff)

end
