(* ===== verification/Bt_Hci.thy ===== *)
theory Bt_Hci
  imports Prelude Datagram
begin

text \<open>
  The transport of the Bluetooth HAL (\<open>bluetooth/service/1.0\<close>: \<open>hci_internals.h\<close>,
  \<open>hci_packetizer.cc\<close>, \<open>h4_protocol.cc\<close>, \<open>mct_protocol.cc\<close>, \<open>hci_protocol.cc\<close> and
  \<open>mediatek/hci_hal_debugger.cc\<close>). The controller's byte stream is cut into HCI packets, whatever
  pieces \<open>read\<close> returns; packets are written with \<open>writev\<close>, which may take part of the data only.
  The kernel's answers to the successive system calls are arguments. A call ends in a value
  (\<open>Inr\<close>) or in a fault: \<open>Fatal\<close> is \<open>LOG_ALWAYS_FATAL\<close>, \<open>Wild\<close> an access outside an object or
  through a null pointer, \<open>Blocked\<close> a loop that waits for more answers.
\<close>

datatype bt_fault = Fatal | Wild | Blocked

definition bt_bind :: "bt_fault + 'a \<Rightarrow> ('a \<Rightarrow> bt_fault + 'b) \<Rightarrow> bt_fault + 'b" where
  "bt_bind r f = (case r of Inl x \<Rightarrow> Inl x | Inr a \<Rightarrow> f a)"

lemma bt_bind_simps [simp]: "bt_bind (Inl x) f = Inl x" "bt_bind (Inr a) f = f a"
  by (simp_all add: bt_bind_def)

section \<open>Packet types\<close>

datatype HciPacketType = HCI_PACKET_TYPE_UNKNOWN | HCI_PACKET_TYPE_COMMAND | HCI_PACKET_TYPE_ACL_DATA
  | HCI_PACKET_TYPE_SCO_DATA | HCI_PACKET_TYPE_EVENT

fun hci_type_code :: "HciPacketType \<Rightarrow> u8" where
    "hci_type_code HCI_PACKET_TYPE_UNKNOWN = 0"
  | "hci_type_code HCI_PACKET_TYPE_COMMAND = 1"
  | "hci_type_code HCI_PACKET_TYPE_ACL_DATA = 2"
  | "hci_type_code HCI_PACKET_TYPE_SCO_DATA = 3"
  | "hci_type_code HCI_PACKET_TYPE_EVENT = 4"

fun preamble_size_for_type :: "HciPacketType \<Rightarrow> nat" where
    "preamble_size_for_type HCI_PACKET_TYPE_UNKNOWN = 0"
  | "preamble_size_for_type HCI_PACKET_TYPE_COMMAND = 3"
  | "preamble_size_for_type HCI_PACKET_TYPE_ACL_DATA = 4"
  | "preamble_size_for_type HCI_PACKET_TYPE_SCO_DATA = 3"
  | "preamble_size_for_type HCI_PACKET_TYPE_EVENT = 2"

fun packet_length_offset_for_type :: "HciPacketType \<Rightarrow> nat" where
    "packet_length_offset_for_type HCI_PACKET_TYPE_UNKNOWN = 0"
  | "packet_length_offset_for_type HCI_PACKET_TYPE_COMMAND = 2"
  | "packet_length_offset_for_type HCI_PACKET_TYPE_ACL_DATA = 2"
  | "packet_length_offset_for_type HCI_PACKET_TYPE_SCO_DATA = 2"
  | "packet_length_offset_for_type HCI_PACKET_TYPE_EVENT = 1"

definition HciGetPacketLengthForType :: "HciPacketType \<Rightarrow> bytes \<Rightarrow> nat" where
  "HciGetPacketLengthForType type preamble =
     (let offset = packet_length_offset_for_type type
      in if type \<noteq> HCI_PACKET_TYPE_ACL_DATA then unat (preamble ! offset)
         else unat (preamble ! (offset + 1)) * 256 + unat (preamble ! offset))"

section \<open>Reading\<close>

text \<open>
  \<open>read(fd, buf, n)\<close> in its retry loop: \<open>TEMP_FAILURE_RETRY\<close> repeats after \<open>EINTR\<close>, the loops of the
  HAL repeat after \<open>EAGAIN\<close>; a result of 0 and every other error are fatal. When the kernel answers
  \<open>Sys_ok k\<close>, it hands out at most \<open>k\<close>, at most \<open>n\<close> and at most the pending bytes: 0 is the end of the
  stream, or the answer to a read of no bytes. The count is the number of \<open>EAGAIN\<close> seen.
\<close>

fun read_retry :: "nat \<Rightarrow> sys_result list \<Rightarrow> bytes \<Rightarrow> bt_fault + bytes \<times> nat" where
    "read_retry n [] rx = Inl Blocked"
  | "read_retry n (Sys_ok k # rs) rx =
       (let c = take (min n k) rx in if c = [] then Inl Fatal else Inr (c, 0))"
  | "read_retry n (Sys_err EINTR # rs) rx = read_retry n rs rx"
  | "read_retry n (Sys_err EAGAIN # rs) rx = bt_bind (read_retry n rs rx) (\<lambda>(c, k). Inr (c, Suc k))"
  | "read_retry n (Sys_err EOTHER # rs) rx = Inl Fatal"

text \<open>\<open>memcpy\<close> into an array.\<close>

definition put_at :: "bytes \<Rightarrow> nat \<Rightarrow> bytes \<Rightarrow> bytes" where
  "put_at buf n c = take n buf @ c @ drop (n + length c) buf"

section \<open>The packetizer\<close>

datatype packetizer_state = HCI_PREAMBLE | HCI_PAYLOAD

record packetizer =
  pz_state :: packetizer_state
  pz_preamble :: bytes
  pz_packet :: bytes
  bytes_remaining :: nat
  bytes_read :: nat

definition packetizer_new :: packetizer where
  "packetizer_new = \<lparr>pz_state = HCI_PREAMBLE, pz_preamble = replicate 4 0, pz_packet = [],
                     bytes_remaining = 0, bytes_read = 0\<rparr>"

text \<open>
  \<open>OnDataReady\<close>: what it read, whether it called \<open>packet_ready_cb_\<close> (the packet is then \<open>pz_packet\<close>, which
  nothing changes before the next preamble is complete), and the packetizer afterwards.
\<close>

definition preamble_done :: "HciPacketType \<Rightarrow> packetizer \<Rightarrow> packetizer" where
  "preamble_done type z =
     (let n = preamble_size_for_type type; l = HciGetPacketLengthForType type (pz_preamble z)
      in z\<lparr>pz_packet := put_at (take (n + l) (pz_packet z) @ replicate (n + l - length (pz_packet z)) 0) 0
                          (take n (pz_preamble z)),
           bytes_remaining := l, pz_state := HCI_PAYLOAD, bytes_read := 0\<rparr>)"

definition packetizer_ready :: "HciPacketType \<Rightarrow> sys_result list \<Rightarrow> bytes \<Rightarrow> packetizer \<Rightarrow>
    bt_fault + nat \<times> bool \<times> packetizer" where
  "packetizer_ready type rs rx z = (case pz_state z of
     HCI_PREAMBLE \<Rightarrow>
       bt_bind (read_retry (preamble_size_for_type type - bytes_read z) rs rx) (\<lambda>(c, _).
         let z = z\<lparr>pz_preamble := put_at (pz_preamble z) (bytes_read z) c, bytes_read := bytes_read z + length c\<rparr>
         in Inr (length c, False,
              if bytes_read z = preamble_size_for_type type then preamble_done type z else z))
   | HCI_PAYLOAD \<Rightarrow>
       bt_bind (read_retry (bytes_remaining z) rs rx) (\<lambda>(c, _).
         let z = z\<lparr>pz_packet := put_at (pz_packet z) (preamble_size_for_type type + bytes_read z) c,
                   bytes_remaining := bytes_remaining z - length c, bytes_read := bytes_read z + length c\<rparr>
         in if bytes_remaining z = 0 then Inr (length c, True, z\<lparr>pz_state := HCI_PREAMBLE, bytes_read := 0\<rparr>)
            else Inr (length c, False, z)))"

section \<open>The packet archive of debug builds\<close>

text \<open>
  \<open>BtHciDebuggerImpl\<close>: a ring of the last 30 packets (their first 16 bytes), dumped when a vendor
  command is sent, and the firmware assertion, which is triggered at most once per session. \<open>None\<close>
  is an entry that was never written. The time stamps are left out.
\<close>

record archived =
  a_tx :: bool
  a_type :: u8
  a_data :: bytes
  a_length :: nat

datatype debug_effect = Fw_assert | Log_archive "archived option list"

record debugger =
  packets_info :: "archived option list"
  head_index :: nat
  arch_count :: nat
  is_coredump_set :: bool
  dbg_lib :: bool
  obs :: nat
  dbg_log :: "debug_effect list"

definition debugger_new :: debugger where
  "debugger_new = \<lparr>packets_info = replicate 30 None, head_index = 0, arch_count = 0, is_coredump_set = False,
                   dbg_lib = False, obs = 0, dbg_log = []\<rparr>"

definition Archive :: "bool \<Rightarrow> u8 \<Rightarrow> bytes \<Rightarrow> debugger \<Rightarrow> debugger" where
  "Archive tx type data d =
     (let head = arch_count d mod 30; data_length = length data mod 2 ^ 16;
          dump_len = (if data_length < 16 then data_length else 16);
          count = (if arch_count d + 1 = 2 ^ 31 - 1 then 0 else arch_count d)
      in d\<lparr>head_index := head,
           packets_info := (packets_info d)[head := Some \<lparr>a_tx = tx, a_type = type, a_data = take dump_len data,
                                                          a_length = data_length\<rparr>],
           arch_count := count + 1\<rparr>)"

definition dbg_OnNotify :: "debugger \<Rightarrow> debugger" where
  "dbg_OnNotify d = d\<lparr>dbg_log := dbg_log d @
     [Log_archive (drop (head_index d) (packets_info d) @ take (head_index d) (packets_info d))]\<rparr>"

definition RefreshVendorInterface :: "debugger \<Rightarrow> debugger" where
  "RefreshVendorInterface d = d\<lparr>dbg_lib := True, is_coredump_set := False\<rparr>"

definition dbg_AddObserver :: "debugger \<Rightarrow> debugger" where
  "dbg_AddObserver d = d\<lparr>obs := obs d + 1\<rparr>"

text \<open>\<open>ok\<close> is the answer of the vendor library to \<open>BT_VND_OP_SET_FW_ASSERT\<close>.\<close>

definition TriggerFirmwareAssert :: "bool \<Rightarrow> debugger \<Rightarrow> debugger" where
  "TriggerFirmwareAssert ok d =
     (if is_coredump_set d \<or> \<not> dbg_lib d then d
      else if ok then d\<lparr>dbg_log := dbg_log d @ [Fw_assert], is_coredump_set := True\<rparr>
      else d\<lparr>dbg_log := dbg_log d @ [Fw_assert]\<rparr>)"

text \<open>The check of a sent packet copies four bytes of it, however short it is.\<close>

definition HandleTxData :: "bytes \<Rightarrow> bt_fault + bool" where
  "HandleTxData data = (if length data < 4 then Inl Wild else Inr (data ! 0 = 0x5B \<and> data ! 1 = 0xFD))"

definition Check_tx :: "bytes \<Rightarrow> debugger \<Rightarrow> bt_fault + debugger" where
  "Check_tx data d = bt_bind (HandleTxData data) (\<lambda>hit. Inr (if hit then (dbg_OnNotify ^^ obs d) d else d))"

section \<open>H4: one channel for all types\<close>

text \<open>The build and the vendor library, as far as the transport depends on them.\<close>

record bt_env =
  H4_DEBUG :: bool
  fw_assert_ok :: bool

record h4 =
  hci_packet_type :: HciPacketType
  hci_packetizer :: packetizer
  h4_dbg :: debugger
  h4_delivered :: "(HciPacketType \<times> bytes) list"

definition h4_new :: "debugger \<Rightarrow> h4" where
  "h4_new d = \<lparr>hci_packet_type = HCI_PACKET_TYPE_UNKNOWN, hci_packetizer = packetizer_new, h4_dbg = d,
              h4_delivered = []\<rparr>"

definition received_types :: "HciPacketType list" where
  "received_types = [HCI_PACKET_TYPE_EVENT, HCI_PACKET_TYPE_ACL_DATA, HCI_PACKET_TYPE_SCO_DATA]"

definition h4_OnPacketReady :: "bt_env \<Rightarrow> h4 \<Rightarrow> bt_fault + h4" where
  "h4_OnPacketReady e h =
     (let type = hci_packet_type h; packet = pz_packet (hci_packetizer h)
      in if type \<in> set received_types
         then Inr (h\<lparr>h4_delivered := h4_delivered h @ [(type, packet)],
                     h4_dbg := (if H4_DEBUG e then Archive False (hci_type_code type) packet (h4_dbg h) else h4_dbg h),
                     hci_packet_type := HCI_PACKET_TYPE_UNKNOWN\<rparr>)
         else Inl Fatal)"

text \<open>\<open>static_cast<HciPacketType>(buffer[0])\<close>, for the types that are accepted.\<close>

definition type_of_byte :: "u8 \<Rightarrow> HciPacketType option" where
  "type_of_byte b = find (\<lambda>t. hci_type_code t = b) received_types"

text \<open>In debug builds every \<open>EAGAIN\<close> met while reading the type byte triggers the assertion.\<close>

definition h4_OnDataReady :: "bt_env \<Rightarrow> sys_result list \<Rightarrow> bytes \<Rightarrow> h4 \<Rightarrow> bt_fault + nat \<times> h4" where
  "h4_OnDataReady e rs rx h =
     (if hci_packet_type h = HCI_PACKET_TYPE_UNKNOWN
      then bt_bind (read_retry 1 rs rx) (\<lambda>(buffer, again).
             case type_of_byte (buffer ! 0) of
               None \<Rightarrow> Inl Fatal
             | Some type \<Rightarrow> Inr (1, h\<lparr>hci_packet_type := type,
                 h4_dbg := (if H4_DEBUG e then (TriggerFirmwareAssert (fw_assert_ok e) ^^ again) (h4_dbg h)
                            else h4_dbg h)\<rparr>))
      else bt_bind (packetizer_ready (hci_packet_type h) rs rx (hci_packetizer h)) (\<lambda>(n, ready, z).
             bt_bind (if ready then h4_OnPacketReady e (h\<lparr>hci_packetizer := z\<rparr>) else Inr (h\<lparr>hci_packetizer := z\<rparr>))
               (\<lambda>h. Inr (n, h))))"

section \<open>Writing\<close>

fun WriteSafely :: "sys_result list \<Rightarrow> bytes \<Rightarrow> bt_fault + bytes" where
    "WriteSafely rs [] = Inr []"
  | "WriteSafely [] (b # bs) = Inl Blocked"
  | "WriteSafely (Sys_err EINTR # rs) (b # bs) = WriteSafely rs (b # bs)"
  | "WriteSafely (Sys_err EAGAIN # rs) (b # bs) = WriteSafely rs (b # bs)"
  | "WriteSafely (Sys_err EOTHER # rs) (b # bs) = Inr []"
  | "WriteSafely (Sys_ok k # rs) (b # bs) =
       (if k = 0 then Inr []
        else bt_bind (WriteSafely rs (drop k (b # bs))) (\<lambda>w. Inr (take k (b # bs) @ w)))"

text \<open>
  The loop that takes the written bytes off the vectors. When it has used up the last vector, it
  reads the length of the vector behind the array; \<open>behind\<close> are the words the stack holds there.
\<close>

fun iov_consume :: "nat list \<Rightarrow> nat \<Rightarrow> bytes list \<Rightarrow> bt_fault + bytes list" where
    "iov_consume [] ret [] = Inl Wild"
  | "iov_consume (len # behind) ret [] = (if len \<le> ret then iov_consume behind (ret - len) [] else Inr [])"
  | "iov_consume behind ret (v # vs) =
       (if length v \<le> ret then iov_consume behind (ret - length v) vs else Inr (drop ret v # vs))"

fun WritevSafely :: "nat list \<Rightarrow> sys_result list \<Rightarrow> bytes list \<Rightarrow> bt_fault + bytes" where
    "WritevSafely behind rs [] = Inr []"
  | "WritevSafely behind [] (v # vs) = Inl Blocked"
  | "WritevSafely behind (Sys_err EINTR # rs) (v # vs) = WritevSafely behind rs (v # vs)"
  | "WritevSafely behind (Sys_err EAGAIN # rs) (v # vs) = WritevSafely behind rs (v # vs)"
  | "WritevSafely behind (Sys_err EOTHER # rs) (v # vs) = Inr []"
  | "WritevSafely behind (Sys_ok k # rs) (v # vs) =
       (let data = concat (v # vs); ret = min k (length data)
        in if ret = 0 then Inr []
           else bt_bind (iov_consume behind ret (v # vs)) (\<lambda>iov.
                bt_bind (WritevSafely behind rs iov) (\<lambda>w. Inr (take ret data @ w))))"

text \<open>\<open>H4Protocol::Send\<close> gives the bytes that went out; their number is its result.\<close>

definition h4_Send :: "bt_env \<Rightarrow> nat list \<Rightarrow> sys_result list \<Rightarrow> u8 \<Rightarrow> bytes \<Rightarrow> h4 \<Rightarrow> bt_fault + bytes \<times> h4" where
  "h4_Send e behind rs type data h =
     bt_bind (if H4_DEBUG e then Check_tx data (Archive True type data (h4_dbg h)) else Inr (h4_dbg h)) (\<lambda>d.
     bt_bind (WritevSafely behind rs [[type], data]) (\<lambda>w. Inr (w, h\<lparr>h4_dbg := d\<rparr>)))"

section \<open>MCT: one channel per type\<close>

record mct =
  event_packetizer :: packetizer
  acl_packetizer :: packetizer
  mct_events :: "bytes list"
  mct_acl :: "bytes list"

definition mct_new :: mct where
  "mct_new = \<lparr>event_packetizer = packetizer_new, acl_packetizer = packetizer_new, mct_events = [], mct_acl = []\<rparr>"

definition mct_OnEventDataReady :: "sys_result list \<Rightarrow> bytes \<Rightarrow> mct \<Rightarrow> bt_fault + nat \<times> mct" where
  "mct_OnEventDataReady rs rx m =
     bt_bind (packetizer_ready HCI_PACKET_TYPE_EVENT rs rx (event_packetizer m)) (\<lambda>(n, ready, z).
       Inr (n, m\<lparr>event_packetizer := z,
                 mct_events := (if ready then mct_events m @ [pz_packet z] else mct_events m)\<rparr>))"

definition mct_OnAclDataReady :: "sys_result list \<Rightarrow> bytes \<Rightarrow> mct \<Rightarrow> bt_fault + nat \<times> mct" where
  "mct_OnAclDataReady rs rx m =
     bt_bind (packetizer_ready HCI_PACKET_TYPE_ACL_DATA rs rx (acl_packetizer m)) (\<lambda>(n, ready, z).
       Inr (n, m\<lparr>acl_packetizer := z,
                 mct_acl := (if ready then mct_acl m @ [pz_packet z] else mct_acl m)\<rparr>))"

datatype mct_channel = CH_CMD | CH_ACL_OUT

definition mct_Send :: "sys_result list \<Rightarrow> u8 \<Rightarrow> bytes \<Rightarrow> bt_fault + mct_channel \<times> bytes" where
  "mct_Send rs type data =
     (if type = hci_type_code HCI_PACKET_TYPE_COMMAND then bt_bind (WriteSafely rs data) (\<lambda>w. Inr (CH_CMD, w))
      else if type = hci_type_code HCI_PACKET_TYPE_ACL_DATA then bt_bind (WriteSafely rs data) (\<lambda>w. Inr (CH_ACL_OUT, w))
      else Inl Fatal)"

section \<open>The watcher thread\<close>

text \<open>
  \<open>AsyncFdWatcher::ThreadRoutine\<close> for one watched descriptor: as long as bytes are pending, \<open>select\<close>
  reports it and the callback is invoked; each call gets its own answers of the kernel.
\<close>

fun watch :: "(sys_result list \<Rightarrow> bytes \<Rightarrow> 's \<Rightarrow> bt_fault + nat \<times> 's) \<Rightarrow> sys_result list list \<Rightarrow> bytes \<Rightarrow> 's \<Rightarrow>
    bt_fault + bytes \<times> 's" where
    "watch on_ready [] rx s = Inr (rx, s)"
  | "watch on_ready (rs # rss) rx s =
       (if rx = [] then Inr (rx, s)
        else bt_bind (on_ready rs rx s) (\<lambda>(n, s). watch on_ready rss (drop n rx) s))"

end
