(* ===== verification/Bt_Hal.thy ===== *)
theory Bt_Hal
  imports Bt_Hci
begin

text \<open>
  The Bluetooth HAL above its transport (\<open>bluetooth/service/1.0\<close>: \<open>bluetooth_hci.cc\<close>,
  \<open>vendor_interface.cc\<close>, \<open>mediatek/hci_hal_state_machine.cc\<close>, with the message queue of
  \<open>hci_hal_msg_handler.cc\<close>). The client's calls only queue a transition; a looper thread turns the
  controller on and off. What the HAL calls (vendor library, client, chip) is appended to \<open>bt_log\<close>.
  The vendor library is a parameter: its answers come with the stimuli.
\<close>

section \<open>State\<close>

datatype BtHalStateMessage = kIdleMsg | kOnMsg | kOffMsg

datatype lib_op = Lib_init | Power_on | Power_off | Userial_open | Userial_close | Fw_cfg
  | Get_lpm_idle_timeout | Lpm_set_mode bool | Lpm_wake_set_state bool | Lib_cleanup

datatype stack_msg = Initialization_complete bool | Hci_event_received bytes | Acl_data_received bytes
  | Sco_data_received bytes

datatype bt_call = Lib lib_op | Stack nat stack_msg | Chip bytes | Internal_cb nat bytes
  | State_changed BtHalStateMessage

datatype transport = H4 h4 | Mct mct

text \<open>\<open>v_timeout\<close> is the timeout of the descriptor watcher in milliseconds, 0 when there is none.\<close>

record vendor =
  v_handle :: bool
  v_lib :: bool
  v_transport :: "transport option"
  v_init_cb :: bool
  v_timer :: bool
  v_watched :: "int list"
  v_timeout :: nat

definition vendor_new :: vendor where
  "vendor_new = \<lparr>v_handle = False, v_lib = False, v_transport = None, v_init_cb = False, v_timer = False,
                 v_watched = [], v_timeout = 0\<rparr>"

record bt_hal =
  current_state :: BtHalStateMessage
  msg_queue :: "BtHalStateMessage list"
  hci_cb :: "nat option"
  g_vendor_interface :: "vendor option"
  internal_cb :: "nat option"
  internal_opcode :: u16
  lpm_wake_deasserted :: bool
  lpm_timeout_ms :: nat
  recent_activity_flag :: bool
  bt_debugger :: debugger
  bt_log :: "bt_call list"

definition bt_boot :: bt_hal where
  "bt_boot = \<lparr>current_state = kIdleMsg, msg_queue = [], hci_cb = None, g_vendor_interface = None,
     internal_cb = None, internal_opcode = 0, lpm_wake_deasserted = False, lpm_timeout_ms = 0,
     recent_activity_flag = False, bt_debugger = debugger_new, bt_log = []\<rparr>"

definition bt_emit :: "bt_call \<Rightarrow> bt_hal \<Rightarrow> bt_hal" where
  "bt_emit c s = s\<lparr>bt_log := bt_log s @ [c]\<rparr>"

text \<open>A call to the client through \<open>cb_\<close>.\<close>

definition to_stack :: "stack_msg \<Rightarrow> bt_hal \<Rightarrow> bt_fault + bt_hal" where
  "to_stack m s = (case hci_cb s of None \<Rightarrow> Inl Wild | Some c \<Rightarrow> Inr (bt_emit (Stack c m) s))"

section \<open>The vendor interface\<close>

text \<open>
  The answers of the platform and the vendor library while the interface is opened: \<open>dlopen\<close>, \<open>dlsym\<close>,
  \<open>init\<close>, and the result of \<open>BT_VND_OP_USERIAL_OPEN\<close> with the four entries of \<open>fd_list\<close>.
\<close>

record vnd_env =
  dlopen_ok :: bool
  dlsym_ok :: bool
  init_status :: int
  fd_count :: int
  fd_list :: "int list"

definition CH_MAX :: int where
  "CH_MAX = 4"

definition Open :: "bt_env \<Rightarrow> vnd_env \<Rightarrow> vendor \<Rightarrow> bt_hal \<Rightarrow> bool \<times> vendor \<times> bt_hal" where
  "Open e n v s =
     (let v = v\<lparr>v_init_cb := True\<rparr>
      in if \<not> dlopen_ok n then (False, v, s)
      else let v = v\<lparr>v_handle := True\<rparr>
      in if \<not> dlsym_ok n then (False, v, s)
      else let v = v\<lparr>v_lib := True\<rparr>; s = bt_emit (Lib Lib_init) s
      in if init_status n \<noteq> 0 then (False, v, s)
      else let s = bt_emit (Lib Userial_open) (bt_emit (Lib Power_on) s)
      in if fd_count n < 1 \<or> CH_MAX - 1 < fd_count n then (False, v, s)
      else if list_ex (\<lambda>fd. fd = - 1) (take (nat (fd_count n)) (fd_list n)) then (False, v, s)
      else let d = (if H4_DEBUG e then RefreshVendorInterface (dbg_AddObserver (bt_debugger s)) else bt_debugger s);
               v = (if fd_count n = 1
                    then v\<lparr>v_watched := [fd_list n ! 0], v_transport := Some (H4 (h4_new d))\<rparr>
                    else v\<lparr>v_watched := [fd_list n ! 1, fd_list n ! 3], v_transport := Some (Mct mct_new)\<rparr>)
      in (True, v\<lparr>v_timer := True\<rparr>, bt_emit (Lib Fw_cfg) (s\<lparr>lpm_wake_deasserted := True, bt_debugger := d\<rparr>)))"

definition Initialize :: "bt_env \<Rightarrow> vnd_env \<Rightarrow> bt_hal \<Rightarrow> bool \<times> bt_hal" where
  "Initialize e n s =
     (if g_vendor_interface s \<noteq> None then (False, s)
      else let (rc, v, s) = Open e n vendor_new s in (rc, s\<lparr>g_vendor_interface := Some v\<rparr>))"

definition vendor_Close :: "vendor \<Rightarrow> bt_hal \<Rightarrow> bt_hal" where
  "vendor_Close v s =
     (let s = (if v_lib v then bt_emit (Lib (Lpm_set_mode False)) s else s);
          s = (case v_transport v of Some (H4 h) \<Rightarrow> s\<lparr>bt_debugger := h4_dbg h\<rparr> | _ \<Rightarrow> s)
      in if v_lib v
         then bt_emit (Lib Lib_cleanup) (bt_emit (Lib Power_off) (bt_emit (Lib Userial_close) s)) else s)"

definition Shutdown :: "bt_hal \<Rightarrow> bt_fault + bt_hal" where
  "Shutdown s = (case g_vendor_interface s of
     None \<Rightarrow> Inl Fatal
   | Some v \<Rightarrow> Inr ((vendor_Close v s)\<lparr>g_vendor_interface := None\<rparr>))"

text \<open>\<open>Send\<close> wakes the chip first; what goes out depends on the kernel's answers.\<close>

definition vendor_wake :: "vendor \<Rightarrow> bt_hal \<Rightarrow> bt_fault + vendor \<times> bt_hal" where
  "vendor_wake v s =
     (if lpm_wake_deasserted s
      then if v_lib v
           then Inr (v\<lparr>v_timeout := lpm_timeout_ms s\<rparr>,
                     bt_emit (Lib (Lpm_wake_set_state True)) (s\<lparr>lpm_wake_deasserted := False\<rparr>))
           else Inl Wild
      else Inr (v, s))"

definition vendor_Send :: "bt_env \<Rightarrow> nat list \<Rightarrow> sys_result list \<Rightarrow> u8 \<Rightarrow> bytes \<Rightarrow> bt_hal \<Rightarrow> bt_fault + bt_hal" where
  "vendor_Send e behind rs type data s = (case g_vendor_interface s of
     None \<Rightarrow> Inl Wild
   | Some v \<Rightarrow>
       bt_bind (vendor_wake v (s\<lparr>recent_activity_flag := True\<rparr>)) (\<lambda>(v, s).
       case v_transport v of
         None \<Rightarrow> Inr (s\<lparr>g_vendor_interface := Some v\<rparr>)
       | Some (H4 h) \<Rightarrow> bt_bind (h4_Send e behind rs type data h) (\<lambda>(w, h).
           Inr (bt_emit (Chip w) (s\<lparr>g_vendor_interface := Some (v\<lparr>v_transport := Some (H4 h)\<rparr>)\<rparr>)))
       | Some (Mct m) \<Rightarrow> bt_bind (mct_Send rs type data) (\<lambda>(c, w).
           Inr (bt_emit (Chip w) (s\<lparr>g_vendor_interface := Some v\<rparr>)))))"

text \<open>The library reports the result of the firmware configuration; \<open>idle\<close> is the timeout it asks for.\<close>

definition OnFirmwareConfigured :: "nat \<Rightarrow> u8 \<Rightarrow> bt_hal \<Rightarrow> bt_fault + bt_hal" where
  "OnFirmwareConfigured idle result s = (case g_vendor_interface s of
     None \<Rightarrow> Inl Wild
   | Some v \<Rightarrow>
       bt_bind (if v_init_cb v
                then if result \<noteq> 0 then Inl Fatal else to_stack (Initialization_complete True) s
                else Inr s) (\<lambda>s.
       if v_lib v
       then Inr (bt_emit (Lib (Lpm_set_mode True)) (bt_emit (Lib Get_lpm_idle_timeout)
              (s\<lparr>lpm_timeout_ms := idle,
                 g_vendor_interface := Some (v\<lparr>v_timer := False, v_init_cb := False, v_timeout := idle\<rparr>)\<rparr>)))
       else Inl Wild))"

text \<open>The watcher calls \<open>OnTimeout\<close> when nothing was readable for the timeout, if there is one.\<close>

definition OnTimeout :: "bt_hal \<Rightarrow> bt_fault + bt_hal" where
  "OnTimeout s = (case g_vendor_interface s of
     None \<Rightarrow> Inr s
   | Some v \<Rightarrow>
       if v_timeout v = 0 then Inr s
       else if recent_activity_flag s then Inr (s\<lparr>recent_activity_flag := False\<rparr>)
       else if v_lib v
       then Inr (bt_emit (Lib (Lpm_wake_set_state False))
              (s\<lparr>lpm_wake_deasserted := True, recent_activity_flag := False,
                 g_vendor_interface := Some (v\<lparr>v_timeout := 0\<rparr>)\<rparr>))
       else Inl Wild)"

section \<open>Incoming packets\<close>

text \<open>A completed command is recognised by its opcode, in the fourth and fifth byte of the event.\<close>

definition internal_command_event_match :: "bytes \<Rightarrow> bt_hal \<Rightarrow> bt_fault + bool" where
  "internal_command_event_match packet s =
     (if packet = [] then Inl Wild
      else if packet ! 0 \<noteq> 0x0E then Inr False
      else if length packet < 5 then Inl Wild
      else Inr (of_le16 (drop 3 packet) = internal_opcode s))"

definition HandleIncomingEvent :: "bytes \<Rightarrow> bt_hal \<Rightarrow> bt_fault + bt_hal" where
  "HandleIncomingEvent packet s = (case internal_cb s of
     None \<Rightarrow> to_stack (Hci_event_received packet) s
   | Some c \<Rightarrow> bt_bind (internal_command_event_match packet s) (\<lambda>hit.
       if hit then Inr (bt_emit (Internal_cb c packet) (s\<lparr>internal_cb := None\<rparr>))
       else to_stack (Hci_event_received packet) s))"

fun dispatch_packet :: "HciPacketType \<times> bytes \<Rightarrow> bt_hal \<Rightarrow> bt_fault + bt_hal" where
    "dispatch_packet (HCI_PACKET_TYPE_EVENT, p) s = HandleIncomingEvent p s"
  | "dispatch_packet (HCI_PACKET_TYPE_ACL_DATA, p) s = to_stack (Acl_data_received p) s"
  | "dispatch_packet (HCI_PACKET_TYPE_SCO_DATA, p) s = to_stack (Sco_data_received p) s"
  | "dispatch_packet (t, p) s = Inl Fatal"

fun dispatch_packets :: "(HciPacketType \<times> bytes) list \<Rightarrow> bt_hal \<Rightarrow> bt_fault + bt_hal" where
    "dispatch_packets [] s = Inr s"
  | "dispatch_packets (p # ps) s = bt_bind (dispatch_packet p s) (dispatch_packets ps)"

text \<open>
  One report of a readable descriptor: the packet that it completes, if any, is handed up. The
  readers' own lists of delivered packets are emptied before.
\<close>

datatype rx_channel = Ch_uart | Ch_evt | Ch_acl

definition set_transport :: "vendor \<Rightarrow> transport \<Rightarrow> bt_hal \<Rightarrow> bt_hal" where
  "set_transport v t s = s\<lparr>g_vendor_interface := Some (v\<lparr>v_transport := Some t\<rparr>)\<rparr>"

definition vendor_readable :: "bt_env \<Rightarrow> rx_channel \<Rightarrow> sys_result list \<Rightarrow> bytes \<Rightarrow> bt_hal \<Rightarrow> bt_fault + nat \<times> bt_hal" where
  "vendor_readable e ch rs rx s = (case g_vendor_interface s of
     None \<Rightarrow> Inr (0, s)
   | Some v \<Rightarrow> (case (v_transport v, ch) of
       (Some (H4 h), Ch_uart) \<Rightarrow>
         bt_bind (h4_OnDataReady e rs rx (h\<lparr>h4_delivered := []\<rparr>)) (\<lambda>(n, h).
         bt_bind (dispatch_packets (h4_delivered h) (set_transport v (H4 h) s)) (\<lambda>s. Inr (n, s)))
     | (Some (Mct m), Ch_evt) \<Rightarrow>
         bt_bind (mct_OnEventDataReady rs rx (m\<lparr>mct_events := []\<rparr>)) (\<lambda>(n, m).
         bt_bind (dispatch_packets (map (Pair HCI_PACKET_TYPE_EVENT) (mct_events m)) (set_transport v (Mct m) s))
           (\<lambda>s. Inr (n, s)))
     | (Some (Mct m), Ch_acl) \<Rightarrow>
         bt_bind (mct_OnAclDataReady rs rx (m\<lparr>mct_acl := []\<rparr>)) (\<lambda>(n, m).
         bt_bind (dispatch_packets (map (Pair HCI_PACKET_TYPE_ACL_DATA) (mct_acl m)) (set_transport v (Mct m) s))
           (\<lambda>s. Inr (n, s)))
     | _ \<Rightarrow> Inr (0, s)))"

text \<open>The vendor library sends a command of its own and names the callback for its completion.\<close>

definition transmit_cb :: "bt_env \<Rightarrow> nat \<Rightarrow> u16 \<Rightarrow> bytes \<Rightarrow> nat list \<Rightarrow> sys_result list \<Rightarrow> bt_hal \<Rightarrow> bt_fault + bt_hal" where
  "transmit_cb e callback opcode buffer behind rs s =
     vendor_Send e behind rs (hci_type_code HCI_PACKET_TYPE_COMMAND) buffer
       (s\<lparr>internal_cb := Some callback, internal_opcode := opcode\<rparr>)"

section \<open>The state machine\<close>

definition TurnOn :: "bt_env \<Rightarrow> vnd_env \<Rightarrow> bt_hal \<Rightarrow> bt_fault + bt_hal" where
  "TurnOn e n s = (let (rc, s) = Initialize e n s
     in if rc then Inr s else to_stack (Initialization_complete False) s)"

definition TurnOff :: "bt_hal \<Rightarrow> bt_fault + bt_hal" where
  "TurnOff = Shutdown"

text \<open>\<open>Handle\<close> of the three states; \<open>None\<close> is a request that is ignored.\<close>

fun Handle :: "bt_env \<Rightarrow> vnd_env \<Rightarrow> BtHalStateMessage \<Rightarrow> BtHalStateMessage \<Rightarrow> bt_hal \<Rightarrow> (bt_fault + bt_hal) option" where
    "Handle e n kIdleMsg kOnMsg s = Some (TurnOn e n s)"
  | "Handle e n kOnMsg kOffMsg s = Some (TurnOff s)"
  | "Handle e n kOnMsg kOnMsg s = Some (bt_bind (TurnOff s) (TurnOn e n))"
  | "Handle e n kOffMsg kOnMsg s = Some (TurnOn e n s)"
  | "Handle e n st msg s = None"

definition handleMessage :: "bt_env \<Rightarrow> vnd_env \<Rightarrow> BtHalStateMessage \<Rightarrow> bt_hal \<Rightarrow> bt_fault + bt_hal" where
  "handleMessage e n msg s = (case Handle e n (current_state s) msg s of
     None \<Rightarrow> Inr s
   | Some r \<Rightarrow> bt_bind r (\<lambda>s. Inr (bt_emit (State_changed msg) (s\<lparr>current_state := msg\<rparr>))))"

definition Transit :: "BtHalStateMessage \<Rightarrow> bt_hal \<Rightarrow> bt_hal" where
  "Transit msg s = s\<lparr>msg_queue := msg_queue s @ [msg]\<rparr>"

definition looper_step :: "bt_env \<Rightarrow> vnd_env \<Rightarrow> bt_hal \<Rightarrow> bt_fault + bt_hal" where
  "looper_step e n s = (case msg_queue s of
     [] \<Rightarrow> Inr s
   | msg # q \<Rightarrow> handleMessage e n msg (s\<lparr>msg_queue := q\<rparr>))"

section \<open>The client's calls\<close>

definition bt_initialize :: "nat option \<Rightarrow> bt_hal \<Rightarrow> bt_hal" where
  "bt_initialize cb s = (if cb = None then s else Transit kOnMsg (s\<lparr>hci_cb := cb\<rparr>))"

text \<open>
  Both ends of a session call \<open>unlink_cb_\<close>, which \<open>initialize\<close> sets together with the callbacks; calling
  it before throws.
\<close>

definition bt_close :: "bt_hal \<Rightarrow> bt_fault + bt_hal" where
  "bt_close s = (if hci_cb s = None then Inl Fatal else Inr (Transit kOffMsg s))"

definition serviceDied :: "bt_hal \<Rightarrow> bt_fault + bt_hal" where
  "serviceDied s = (if hci_cb s = None then Inl Fatal else Inr (Transit kOffMsg s))"

definition sendDataToController :: "bt_env \<Rightarrow> nat list \<Rightarrow> sys_result list \<Rightarrow> HciPacketType \<Rightarrow> bytes \<Rightarrow> bt_hal \<Rightarrow> bt_fault + bt_hal" where
  "sendDataToController e behind rs type data s = vendor_Send e behind rs (hci_type_code type) data s"

section \<open>Everything that happens to the HAL\<close>

datatype bt_stimulus = Bt_initialize "nat option" | Bt_close | Bt_died
  | Bt_send HciPacketType bytes "nat list" "sys_result list"
  | Bt_looper vnd_env
  | Bt_readable rx_channel "sys_result list" bytes
  | Bt_timeout
  | Bt_firmware nat u8
  | Bt_transmit nat u16 bytes "nat list" "sys_result list"

fun bt_step :: "bt_env \<Rightarrow> bt_stimulus \<Rightarrow> bt_hal \<Rightarrow> bt_fault + bt_hal" where
    "bt_step e (Bt_initialize cb) s = Inr (bt_initialize cb s)"
  | "bt_step e Bt_close s = bt_close s"
  | "bt_step e Bt_died s = serviceDied s"
  | "bt_step e (Bt_send type data behind rs) s = sendDataToController e behind rs type data s"
  | "bt_step e (Bt_looper n) s = looper_step e n s"
  | "bt_step e (Bt_readable ch rs rx) s = bt_bind (vendor_readable e ch rs rx s) (\<lambda>(n, s). Inr s)"
  | "bt_step e Bt_timeout s = OnTimeout s"
  | "bt_step e (Bt_firmware idle result) s = OnFirmwareConfigured idle result s"
  | "bt_step e (Bt_transmit c op buf behind rs) s = transmit_cb e c op buf behind rs s"

fun bt_run :: "bt_env \<Rightarrow> bt_stimulus list \<Rightarrow> bt_hal \<Rightarrow> bt_fault + bt_hal" where
    "bt_run e [] s = Inr s"
  | "bt_run e (x # xs) s = bt_bind (bt_step e x s) (bt_run e xs)"

end
