(* ===== verification/Bt_Props.thy ===== *)
theory Bt_Props
  imports Bt_Hci
begin

text \<open>
  What the Bluetooth transport guarantees. The locale \<open>framing\<close> is the contract of a reader that
  cuts a stream into packets: each call takes part of the pending bytes, keeps what it has of the
  current packet, and delivers it when it is complete. A reader with this contract delivers all
  packets of a stream, however the kernel divides it; H4 and the two MCT channels have it.
\<close>

section \<open>The kernel's answers\<close>

text \<open>A read or write that the kernel lets through in the end, with at least one byte.\<close>

fun answered :: "sys_result list \<Rightarrow> bool" where
    "answered [] = False"
  | "answered (Sys_ok k # rs) = (0 < k)"
  | "answered (Sys_err EOTHER # rs) = False"
  | "answered (Sys_err e # rs) = answered rs"

lemma read_answered:
  assumes "answered rs" "0 < n" "rx \<noteq> []"
  obtains m again where "read_retry n rs rx = Inr (take m rx, again)" "0 < m" "m \<le> n" "m \<le> length rx"
proof -
  have "\<exists>m again. read_retry n rs rx = Inr (take m rx, again) \<and> 0 < m \<and> m \<le> n \<and> m \<le> length rx"
    using assms
  proof (induction n rs rx rule: read_retry.induct)
    case (2 n k rs rx)
    have m: "take (min n k) rx = take (min (min n k) (length rx)) rx" by (simp add: min_def)
    have "0 < min (min n k) (length rx)" using 2 by simp
    moreover have "min (min n k) (length rx) \<le> n" "min (min n k) (length rx) \<le> length rx" by linarith+
    moreover have "read_retry n (Sys_ok k # rs) rx = Inr (take (min (min n k) (length rx)) rx, 0)"
      using 2 by (simp only: read_retry.simps Let_def m) simp
    ultimately show ?case by blast
  qed auto
  then show thesis using that by blast
qed

lemma put_at_facts:
  assumes "n + length c \<le> length buf"
  shows "length (put_at buf n c) = length buf" "take (n + length c) (put_at buf n c) = take n buf @ c"
    "m \<le> n \<Longrightarrow> take m (put_at buf n c) = take m buf"
  using assms by (simp_all add: put_at_def)

section \<open>The packetizer\<close>

text \<open>A packet of a type: as long as its preamble says, with at least one byte of payload.\<close>

definition hci_packet :: "HciPacketType \<Rightarrow> bytes \<Rightarrow> bool" where
  "hci_packet type p \<longleftrightarrow> preamble_size_for_type type < length p \<and>
     length p = preamble_size_for_type type + HciGetPacketLengthForType type p"

definition pz_ok :: "HciPacketType \<Rightarrow> packetizer \<Rightarrow> bool" where
  "pz_ok type z \<longleftrightarrow> length (pz_preamble z) = 4 \<and> (case pz_state z of
     HCI_PREAMBLE \<Rightarrow> bytes_read z < preamble_size_for_type type
   | HCI_PAYLOAD \<Rightarrow> 0 < bytes_remaining z \<and>
       length (pz_packet z) = preamble_size_for_type type + bytes_read z + bytes_remaining z \<and>
       bytes_read z + bytes_remaining z = HciGetPacketLengthForType type (pz_packet z))"

definition pz_held :: "HciPacketType \<Rightarrow> packetizer \<Rightarrow> bytes" where
  "pz_held type z = (case pz_state z of
     HCI_PREAMBLE \<Rightarrow> take (bytes_read z) (pz_preamble z)
   | HCI_PAYLOAD \<Rightarrow> take (preamble_size_for_type type + bytes_read z) (pz_packet z))"

lemma preamble_sizes: "type \<noteq> HCI_PACKET_TYPE_UNKNOWN \<Longrightarrow> preamble_size_for_type type \<in> {2..4}"
  by (cases type) simp_all

text \<open>The length field lies within the preamble.\<close>

lemma packet_length_cong:
  assumes "take (preamble_size_for_type type) p = take (preamble_size_for_type type) q"
    "type \<noteq> HCI_PACKET_TYPE_UNKNOWN"
  shows "HciGetPacketLengthForType type p = HciGetPacketLengthForType type q"
proof -
  have "p ! i = q ! i" if "i < preamble_size_for_type type" for i
    using assms(1) that nth_take[of i _ p] nth_take[of i _ q] by metis
  then show ?thesis using assms(2) by (cases type) (simp_all add: HciGetPacketLengthForType_def)
qed

lemma preamble_complete:
  assumes "type \<noteq> HCI_PACKET_TYPE_UNKNOWN" "hci_packet type p" "length (pz_preamble z) = 4"
    "take (preamble_size_for_type type) (pz_preamble z) = take (preamble_size_for_type type) p"
  shows "pz_ok type (preamble_done type z)" "pz_held type (preamble_done type z) = take (preamble_size_for_type type) p"
proof -
  let ?n = "preamble_size_for_type type" and ?l = "HciGetPacketLengthForType type (pz_preamble z)"
  let ?b = "take (?n + ?l) (pz_packet z) @ replicate (?n + ?l - length (pz_packet z)) 0"
  have n: "?n \<le> 4" using preamble_sizes[OF assms(1)] by simp
  have l: "?l = HciGetPacketLengthForType type p" using packet_length_cong[OF assms(4,1)] .
  have b: "length ?b = ?n + ?l" by simp
  have t: "length (take ?n (pz_preamble z)) = ?n" using n assms(3) by simp
  note q = put_at_facts[of 0 "take ?n (pz_preamble z)" ?b, unfolded b t, simplified]
  have "take ?n (put_at ?b 0 (take ?n (pz_preamble z))) = take ?n p" using q(2) assms(4) by simp
  moreover have "HciGetPacketLengthForType type (put_at ?b 0 (take ?n (pz_preamble z))) = ?l"
    using calculation assms(4) by (intro packet_length_cong[OF _ assms(1)]) simp
  moreover have "0 < ?l" using assms(2) by (simp add: hci_packet_def l)
  ultimately show "pz_ok type (preamble_done type z)" "pz_held type (preamble_done type z) = take ?n p"
    using q(1) assms(3) by (simp_all add: pz_ok_def pz_held_def preamble_done_def Let_def)
qed

text \<open>One call makes progress within the packet, or completes it.\<close>

definition pz_advanced :: "HciPacketType \<Rightarrow> bytes \<Rightarrow> bytes \<Rightarrow> bytes \<Rightarrow> nat \<times> bool \<times> packetizer \<Rightarrow> bool" where
  "pz_advanced type p rest rx = (\<lambda>(n, ready, z). 0 < n \<and> n \<le> length rx \<and>
     (if ready then pz_packet z = p \<and> drop n rx = rest \<and> pz_state z = HCI_PREAMBLE \<and> bytes_read z = 0 \<and>
                    length (pz_preamble z) = 4
      else pz_ok type z \<and> pz_held type z @ drop n rx = p @ rest))"

lemma split_stream:
  assumes "a @ rx = p @ rest" "m \<le> length rx" "length a + m \<le> length p"
  shows "a @ take m rx = take (length a + m) p" "take (length a + m) p @ drop m rx = p @ rest"
proof -
  have "take (length a + m) (a @ rx) = take (length a + m) (p @ rest)" by (simp only: assms(1))
  then show t: "a @ take m rx = take (length a + m) p" using assms(3) by simp
  show "take (length a + m) p @ drop m rx = p @ rest" unfolding t[symmetric] using assms(1) by simp
qed

text \<open>Reading the preamble, of a packet with or without payload.\<close>

lemma preamble_read:
  assumes "type \<noteq> HCI_PACKET_TYPE_UNKNOWN" "preamble_size_for_type type \<le> length p" "pz_ok type z"
    "pz_state z = HCI_PREAMBLE" "pz_held type z @ rx = p @ rest" "rx \<noteq> []" "answered rs"
  obtains m z1 where "0 < m" "m \<le> length rx" "bytes_read z + m \<le> preamble_size_for_type type"
    "packetizer_ready type rs rx z = Inr (m, False, if bytes_read z + m = preamble_size_for_type type
       then preamble_done type z1 else z1)"
    "length (pz_preamble z1) = 4" "take (bytes_read z + m) (pz_preamble z1) = take (bytes_read z + m) p"
    "bytes_read z1 = bytes_read z + m" "pz_state z1 = HCI_PREAMBLE"
    "take (bytes_read z + m) p @ drop m rx = p @ rest"
proof -
  let ?n = "preamble_size_for_type type"
  have pre: "bytes_read z < ?n" "?n \<le> 4" "length (pz_preamble z) = 4"
    using assms(3,4) preamble_sizes[OF assms(1)] by (simp_all add: pz_ok_def)
  obtain m again where m: "read_retry (?n - bytes_read z) rs rx = Inr (take m rx, again)" "0 < m"
    "m \<le> ?n - bytes_read z" "m \<le> length rx"
    using read_answered[OF assms(7) _ assms(6), of "?n - bytes_read z"] pre(1) by auto
  define z1 where "z1 = z\<lparr>pz_preamble := put_at (pz_preamble z) (bytes_read z) (take m rx), bytes_read := bytes_read z + m\<rparr>"
  have len: "bytes_read z + m \<le> ?n" using m(3) pre(1) by simp
  have h: "take (bytes_read z) (pz_preamble z) @ rx = p @ rest" using assms(4,5) by (simp add: pz_held_def)
  have la: "length (take (bytes_read z) (pz_preamble z)) = bytes_read z" using pre by simp
  have "bytes_read z + m \<le> length p" using len assms(2) by linarith
  note c = split_stream[OF h m(4), unfolded la, OF this]
  have z1: "length (pz_preamble z1) = 4" "take (bytes_read z + m) (pz_preamble z1) = take (bytes_read z + m) p"
    "bytes_read z1 = bytes_read z + m" "pz_state z1 = HCI_PREAMBLE"
    using put_at_facts(1,2)[of "bytes_read z" "take m rx" "pz_preamble z"] len pre m(4) c(1) assms(4)
    by (simp_all add: z1_def)
  have run: "packetizer_ready type rs rx z = Inr (m, False, if bytes_read z + m = ?n then preamble_done type z1 else z1)"
    using m(1,4) assms(4) by (simp add: packetizer_ready_def z1_def Let_def)
  show thesis using that[OF m(2,4) len run z1 c(2)] .
qed

lemma preamble_step:
  assumes "type \<noteq> HCI_PACKET_TYPE_UNKNOWN" "hci_packet type p" "pz_ok type z" "pz_state z = HCI_PREAMBLE"
    "pz_held type z @ rx = p @ rest" "rx \<noteq> []" "answered rs"
  shows "\<exists>r. packetizer_ready type rs rx z = Inr r \<and> pz_advanced type p rest rx r"
proof -
  let ?n = "preamble_size_for_type type"
  have "?n \<le> length p" using assms(2) by (simp add: hci_packet_def)
  then obtain m z1 where m: "0 < m" "m \<le> length rx" "bytes_read z + m \<le> ?n"
    "packetizer_ready type rs rx z = Inr (m, False, if bytes_read z + m = ?n then preamble_done type z1 else z1)"
    and z1: "length (pz_preamble z1) = 4" "take (bytes_read z + m) (pz_preamble z1) = take (bytes_read z + m) p"
    "bytes_read z1 = bytes_read z + m" "pz_state z1 = HCI_PREAMBLE"
    and rest: "take (bytes_read z + m) p @ drop m rx = p @ rest"
    using preamble_read[OF assms(1) _ assms(3-7)] by blast
  have "pz_advanced type p rest rx (m, False, if bytes_read z + m = ?n then preamble_done type z1 else z1)"
  proof (cases "bytes_read z + m = ?n")
    case True
    have "take ?n (pz_preamble z1) = take ?n p" using z1(2) unfolding True .
    then show ?thesis using preamble_complete[OF assms(1,2) z1(1)] rest m(1,2) True by (simp add: pz_advanced_def)
  next
    case False
    then show ?thesis using z1 m(1-3) rest by (simp add: pz_advanced_def pz_ok_def pz_held_def)
  qed
  then show ?thesis using m(4) by blast
qed

lemma payload_step:
  assumes "type \<noteq> HCI_PACKET_TYPE_UNKNOWN" "hci_packet type p" "pz_ok type z" "pz_state z = HCI_PAYLOAD"
    "pz_held type z @ rx = p @ rest" "rx \<noteq> []" "answered rs"
  shows "\<exists>r. packetizer_ready type rs rx z = Inr r \<and> pz_advanced type p rest rx r"
proof -
  let ?n = "preamble_size_for_type type"
  have pay: "0 < bytes_remaining z" "length (pz_packet z) = ?n + bytes_read z + bytes_remaining z"
    "bytes_read z + bytes_remaining z = HciGetPacketLengthForType type (pz_packet z)" "length (pz_preamble z) = 4"
    using assms(3,4) by (simp_all add: pz_ok_def)
  obtain m again where m: "read_retry (bytes_remaining z) rs rx = Inr (take m rx, again)" "0 < m"
    "m \<le> bytes_remaining z" "m \<le> length rx"
    using read_answered[OF assms(7) pay(1) assms(6)] .
  have h: "take (?n + bytes_read z) (pz_packet z) @ rx = p @ rest" using assms(4,5) by (simp add: pz_held_def)
  have la: "length (take (?n + bytes_read z) (pz_packet z)) = ?n + bytes_read z" using pay(2) by simp
  have "?n < length p" using assms(2) by (simp add: hci_packet_def)
  then have "take ?n (pz_packet z) = take ?n p"
    using arg_cong[OF h, of "take ?n"] pay(2) by simp
  then have "HciGetPacketLengthForType type (pz_packet z) = HciGetPacketLengthForType type p"
    by (rule packet_length_cong[OF _ assms(1)])
  then have len: "length p = length (pz_packet z)" using assms(2) pay(2,3) by (simp add: hci_packet_def)
  note c = split_stream[OF h m(4), unfolded la]
  have l: "?n + bytes_read z + m \<le> length p" using len pay(2) m(3) by simp
  let ?p = "put_at (pz_packet z) (?n + bytes_read z) (take m rx)"
  have lm: "length (take m rx) = m" using m(4) by simp
  have "?n + bytes_read z + m \<le> length (pz_packet z)" using pay(2) m(3) by linarith
  note q = put_at_facts[of "?n + bytes_read z" "take m rx" "pz_packet z", unfolded lm, OF this]
  have p: "length ?p = length (pz_packet z)" "take (?n + bytes_read z + m) ?p = take (?n + bytes_read z + m) p"
    "take ?n ?p = take ?n (pz_packet z)"
    using q(1,2) q(3)[of ?n] unfolding c(1)[OF l] by simp_all
  have "HciGetPacketLengthForType type ?p = HciGetPacketLengthForType type (pz_packet z)"
    using p(3) by (rule packet_length_cong[OF _ assms(1)])
  then have fits: "length ?p = ?n + HciGetPacketLengthForType type ?p" using p(1) pay(2,3) by simp
  define z1 where "z1 = z\<lparr>pz_packet := ?p, bytes_remaining := bytes_remaining z - m, bytes_read := bytes_read z + m\<rparr>"
  have run: "packetizer_ready type rs rx z = (if bytes_remaining z - m = 0
      then Inr (m, True, z1\<lparr>pz_state := HCI_PREAMBLE, bytes_read := 0\<rparr>) else Inr (m, False, z1))"
    using m(1,4) assms(4) by (simp add: packetizer_ready_def z1_def Let_def)
  show ?thesis
  proof (cases "bytes_remaining z - m = 0")
    case True
    then have e: "?n + bytes_read z + m = length p" using m(3) len pay(2) by simp
    have "?p = p" using p(1,2) len unfolding e by (metis take_all order_refl)
    moreover have "drop m rx = rest" using c(2)[OF l] unfolding e by simp
    ultimately have "pz_packet z1 = p" "drop m rx = rest" by (simp_all add: z1_def)
    then show ?thesis using run True m(2,4) pay(4) by (simp add: pz_advanced_def z1_def)
  next
    case False
    have "pz_held type z1 = take (?n + bytes_read z + m) p" "pz_ok type z1"
      using p(1,2) fits pay(2,4) m(3) False assms(4) by (simp_all add: z1_def pz_held_def pz_ok_def add.assoc)
    then show ?thesis using run False m(2,4) c(2)[OF l] by (simp add: pz_advanced_def)
  qed
qed

lemma packetizer_step:
  assumes "type \<noteq> HCI_PACKET_TYPE_UNKNOWN" "hci_packet type p" "pz_ok type z"
    "pz_held type z @ rx = p @ rest" "rx \<noteq> []" "answered rs"
  shows "\<exists>r. packetizer_ready type rs rx z = Inr r \<and> pz_advanced type p rest rx r"
  using assms preamble_step payload_step by (cases "pz_state z") blast+

text \<open>What is held of a packet is never the whole packet.\<close>

lemma pz_held_partial:
  assumes "type \<noteq> HCI_PACKET_TYPE_UNKNOWN" "hci_packet type p" "pz_ok type z"
  shows "pz_held type z \<noteq> p @ r"
proof
  let ?n = "preamble_size_for_type type"
  assume h: "pz_held type z = p @ r"
  have n: "?n < length p" "?n \<le> 4" using assms(2) preamble_sizes[OF assms(1)] by (simp_all add: hci_packet_def)
  show False
  proof (cases "pz_state z")
    case HCI_PREAMBLE
    then have "length (pz_held type z) < ?n" using assms(3) n(2) by (simp add: pz_ok_def pz_held_def)
    then show False using h n(1) by simp
  next
    case HCI_PAYLOAD
    then have held: "take (?n + bytes_read z) (pz_packet z) = p @ r" using h by (simp add: pz_held_def)
    have "take ?n (pz_packet z) = take ?n p" using arg_cong[OF held, of "take ?n"] n(1) by simp
    then have "HciGetPacketLengthForType type (pz_packet z) = HciGetPacketLengthForType type p"
      by (rule packet_length_cong[OF _ assms(1)])
    then have "length p = length (pz_packet z)" using assms(2,3) HCI_PAYLOAD by (simp add: hci_packet_def pz_ok_def)
    moreover have "length (take (?n + bytes_read z) (pz_packet z)) < length (pz_packet z)"
      using assms(3) HCI_PAYLOAD by (simp add: pz_ok_def)
    ultimately show False by (simp add: held)
  qed
qed

section \<open>The contract of a reader\<close>

locale framing =
  fixes on_ready :: "sys_result list \<Rightarrow> bytes \<Rightarrow> 's \<Rightarrow> bt_fault + nat \<times> 's"
    and held :: "'s \<Rightarrow> bytes" and got :: "'s \<Rightarrow> 'p list" and ok :: "'s \<Rightarrow> bool"
    and wire :: "'p \<Rightarrow> bytes" and good :: "'p \<Rightarrow> bool"
  assumes progress: "ok s \<Longrightarrow> good p \<Longrightarrow> held s @ rx = wire p @ rest \<Longrightarrow> rx \<noteq> [] \<Longrightarrow> answered rs \<Longrightarrow>
      \<exists>n s'. on_ready rs rx s = Inr (n, s') \<and> 0 < n \<and> n \<le> length rx \<and> ok s' \<and>
        (held s' @ drop n rx = wire p @ rest \<and> got s' = got s \<or>
         held s' = [] \<and> drop n rx = rest \<and> got s' = got s @ [p])"
    and partial: "ok s \<Longrightarrow> good p \<Longrightarrow> held s \<noteq> wire p @ r"
    and wire_not_Nil: "good p \<Longrightarrow> wire p \<noteq> []"
begin

lemma packet_delivered:
  assumes "ok s" "good p" "held s @ rx = wire p @ rest" "list_all answered rss" "length rx \<le> length rss"
  shows "\<exists>rss' s'. watch on_ready rss rx s = watch on_ready rss' rest s' \<and> list_all answered rss' \<and>
    length rest \<le> length rss' \<and> ok s' \<and> held s' = [] \<and> got s' = got s @ [p]"
  using assms
proof (induction rss arbitrary: s rx)
  case Nil
  then show ?case using partial[of s p rest] by simp
next
  case (Cons rs rss)
  have rx: "rx \<noteq> []" using Cons.prems partial[of s p rest] by auto
  obtain n s' where n: "on_ready rs rx s = Inr (n, s')" "0 < n" "n \<le> length rx" "ok s'"
    "held s' @ drop n rx = wire p @ rest \<and> got s' = got s \<or> held s' = [] \<and> drop n rx = rest \<and> got s' = got s @ [p]"
    using progress[OF Cons.prems(1-3) rx, of rs] Cons.prems(4) by auto
  have w: "watch on_ready (rs # rss) rx s = watch on_ready rss (drop n rx) s'" using n(1) rx by simp
  have l: "list_all answered rss" "length (drop n rx) \<le> length rss" using Cons.prems(4,5) n(2) by auto
  from n(5) show ?case
  proof
    assume "held s' @ drop n rx = wire p @ rest \<and> got s' = got s"
    then show ?thesis using Cons.IH[OF n(4) Cons.prems(2) _ l] unfolding w by simp
  next
    assume d: "held s' = [] \<and> drop n rx = rest \<and> got s' = got s @ [p]"
    show ?thesis unfolding w using l n(4) d by (intro exI[of _ rss] exI[of _ s']) simp
  qed
qed

lemma packets_delivered:
  assumes "ok s" "list_all good ps" "held s = []" "list_all answered rss"
    "length (concat (map wire ps) @ rest) \<le> length rss"
  shows "\<exists>rss' s'. watch on_ready rss (concat (map wire ps) @ rest) s = watch on_ready rss' rest s' \<and>
    list_all answered rss' \<and> length rest \<le> length rss' \<and> ok s' \<and> held s' = [] \<and> got s' = got s @ ps"
  using assms
proof (induction ps arbitrary: s rss)
  case Nil
  then show ?case by (intro exI[of _ rss] exI[of _ s]) simp
next
  case (Cons p ps)
  let ?r = "concat (map wire ps) @ rest"
  obtain rss1 s1 where 1: "watch on_ready rss (wire p @ ?r) s = watch on_ready rss1 ?r s1" "list_all answered rss1"
    "length ?r \<le> length rss1" "ok s1" "held s1 = []" "got s1 = got s @ [p]"
    using packet_delivered[OF Cons.prems(1), of p "wire p @ ?r" ?r rss] Cons.prems(2-5) by auto
  obtain rss2 s2 where "watch on_ready rss1 ?r s1 = watch on_ready rss2 rest s2" "list_all answered rss2"
    "length rest \<le> length rss2" "ok s2" "held s2 = []" "got s2 = got s1 @ ps"
    using Cons.IH[OF 1(4) _ 1(5,2,3)] Cons.prems(2) by auto
  then show ?case using 1(1,6) by (intro exI[of _ rss2] exI[of _ s2]) simp
qed

lemma watch_Nil: "watch on_ready rss [] s = Inr ([], s)"
  by (cases rss) simp_all

lemma stream_delivered:
  assumes "ok s" "list_all good ps" "held s = []" "list_all answered rss" "length (concat (map wire ps)) \<le> length rss"
  shows "\<exists>s'. watch on_ready rss (concat (map wire ps)) s = Inr ([], s') \<and> got s' = got s @ ps"
  using packets_delivered[OF assms(1-4), of "[]"] assms(5) by (auto simp: watch_Nil)

end

section \<open>The readers of the HAL\<close>

definition h4_wire :: "HciPacketType \<times> bytes \<Rightarrow> bytes" where
  "h4_wire = (\<lambda>(type, p). hci_type_code type # p)"

definition h4_packet :: "HciPacketType \<times> bytes \<Rightarrow> bool" where
  "h4_packet = (\<lambda>(type, p). type \<in> set received_types \<and> hci_packet type p)"

definition pz_idle :: "packetizer \<Rightarrow> bool" where
  "pz_idle z \<longleftrightarrow> pz_state z = HCI_PREAMBLE \<and> bytes_read z = 0 \<and> length (pz_preamble z) = 4"

definition h4_ok :: "h4 \<Rightarrow> bool" where
  "h4_ok h \<longleftrightarrow> (if hci_packet_type h = HCI_PACKET_TYPE_UNKNOWN then pz_idle (hci_packetizer h)
     else hci_packet_type h \<in> set received_types \<and> pz_ok (hci_packet_type h) (hci_packetizer h))"

definition h4_held :: "h4 \<Rightarrow> bytes" where
  "h4_held h = (if hci_packet_type h = HCI_PACKET_TYPE_UNKNOWN then []
     else hci_type_code (hci_packet_type h) # pz_held (hci_packet_type h) (hci_packetizer h))"

lemma received_not_unknown: "t \<in> set received_types \<Longrightarrow> t \<noteq> HCI_PACKET_TYPE_UNKNOWN"
  by (auto simp: received_types_def)

lemma type_of_byte_code: "t \<in> set received_types \<Longrightarrow> type_of_byte (hci_type_code t) = Some t"
  by (auto simp: received_types_def type_of_byte_def)

lemma code_inj: "s \<in> set received_types \<Longrightarrow> t \<in> set received_types \<Longrightarrow> hci_type_code s = hci_type_code t \<longleftrightarrow> s = t"
  by (auto simp: received_types_def)

lemma pz_idle_ok: "pz_idle z \<Longrightarrow> t \<noteq> HCI_PACKET_TYPE_UNKNOWN \<Longrightarrow> pz_ok t z \<and> pz_held t z = []"
  using preamble_sizes[of t] by (simp add: pz_idle_def pz_ok_def pz_held_def)

lemma pz_idle_new: "pz_idle packetizer_new"
  by (simp add: pz_idle_def packetizer_new_def)

lemma read_one:
  assumes "answered rs"
  shows "\<exists>again. read_retry 1 rs (x # rx) = Inr ([x], again)"
proof -
  obtain m again where m: "read_retry 1 rs (x # rx) = Inr (take m (x # rx), again)" "0 < m" "m \<le> 1"
    using read_answered[OF assms, of 1 "x # rx"] by auto
  then have "m = 1" by simp
  then show ?thesis using m(1) by simp
qed

lemma h4_type_read:
  assumes "hci_packet_type h = HCI_PACKET_TYPE_UNKNOWN" "t \<in> set received_types" "answered rs"
  shows "\<exists>d. h4_OnDataReady e rs (hci_type_code t # rx) h = Inr (1, h\<lparr>hci_packet_type := t, h4_dbg := d\<rparr>)"
  using assms read_one[OF assms(3), of "hci_type_code t" rx] by (auto simp: h4_OnDataReady_def type_of_byte_code)

interpretation h4: framing "h4_OnDataReady e" h4_held h4_delivered h4_ok h4_wire h4_packet
proof unfold_locales
  fix h p rx rest rs
  assume h: "h4_ok h" and p: "h4_packet p" and eq: "h4_held h @ rx = h4_wire p @ rest" and rx: "rx \<noteq> []" and rs: "answered rs"
  obtain t b where tb: "p = (t, b)" "t \<in> set received_types" "hci_packet t b"
    using p by (cases p) (auto simp: h4_packet_def)
  have tu: "t \<noteq> HCI_PACKET_TYPE_UNKNOWN" using tb(2) by (rule received_not_unknown)
  show "\<exists>n h'. h4_OnDataReady e rs rx h = Inr (n, h') \<and> 0 < n \<and> n \<le> length rx \<and> h4_ok h' \<and>
      (h4_held h' @ drop n rx = h4_wire p @ rest \<and> h4_delivered h' = h4_delivered h \<or>
       h4_held h' = [] \<and> drop n rx = rest \<and> h4_delivered h' = h4_delivered h @ [p])"
  proof (cases "hci_packet_type h = HCI_PACKET_TYPE_UNKNOWN")
    case True
    then have r: "rx = hci_type_code t # b @ rest" and idle: "pz_idle (hci_packetizer h)"
      using eq h by (simp_all add: h4_held_def h4_wire_def tb(1) h4_ok_def)
    obtain d where "h4_OnDataReady e rs rx h = Inr (1, h\<lparr>hci_packet_type := t, h4_dbg := d\<rparr>)"
      using h4_type_read[OF True tb(2) rs] unfolding r by blast
    then show ?thesis using pz_idle_ok[OF idle tu] tb tu
      by (intro exI[of _ 1] exI[of _ "h\<lparr>hci_packet_type := t, h4_dbg := d\<rparr>"])
        (simp add: r h4_ok_def h4_held_def h4_wire_def)
  next
    case False
    then have t: "hci_packet_type h = t" and z: "pz_ok t (hci_packetizer h)" "pz_held t (hci_packetizer h) @ rx = b @ rest"
      using eq h tb(2) by (auto simp: h4_held_def h4_wire_def tb(1) h4_ok_def code_inj)
    obtain n ready z' where st: "packetizer_ready t rs rx (hci_packetizer h) = Inr (n, ready, z')"
      "pz_advanced t b rest rx (n, ready, z')"
      using packetizer_step[OF tu tb(3) z rx rs] by auto
    show ?thesis
    proof (cases ready)
      case True
      then show ?thesis using st t tu tb(1,2)
        by (simp add: h4_OnDataReady_def h4_OnPacketReady_def pz_advanced_def h4_ok_def h4_held_def pz_idle_def Let_def)
    next
      case False
      then show ?thesis using st t tu tb(1,2)
        by (simp add: h4_OnDataReady_def pz_advanced_def h4_ok_def h4_held_def h4_wire_def)
    qed
  qed
next
  fix h p r
  assume h: "h4_ok h" and p: "h4_packet p"
  obtain t b where tb: "p = (t, b)" "t \<in> set received_types" "hci_packet t b"
    using p by (cases p) (auto simp: h4_packet_def)
  show "h4_held h \<noteq> h4_wire p @ r"
    using pz_held_partial[OF received_not_unknown[OF tb(2)] tb(3), of "hci_packetizer h" r] h tb(2)
    by (auto simp: h4_held_def h4_wire_def tb(1) h4_ok_def code_inj)
next
  fix p
  show "h4_packet p \<Longrightarrow> h4_wire p \<noteq> []" by (simp add: h4_wire_def split: prod.split)
qed

text \<open>The two receiving channels of MCT; each leaves the other alone.\<close>

lemma mct_channel:
  assumes t: "t \<noteq> HCI_PACKET_TYPE_UNKNOWN"
    and feed: "\<And>rs rx (m :: mct). feed rs rx m = bt_bind (packetizer_ready t rs rx (pz m)) (\<lambda>(n, ready, z).
      Inr (n, upd z (if ready then got m @ [pz_packet z] else got m) m))"
    and upd: "\<And>z l m. pz (upd z l m) = z" "\<And>z l m. got (upd z l m) = l"
  shows "framing feed (\<lambda>m. pz_held t (pz m)) got (\<lambda>m. pz_ok t (pz m)) (\<lambda>p. p) (hci_packet t)"
proof unfold_locales
  fix m p rx rest rs
  assume m: "pz_ok t (pz m)" and p: "hci_packet t p" and eq: "pz_held t (pz m) @ rx = p @ rest"
    and rx: "rx \<noteq> []" and rs: "answered rs"
  obtain n ready z where st: "packetizer_ready t rs rx (pz m) = Inr (n, ready, z)" "pz_advanced t p rest rx (n, ready, z)"
    using packetizer_step[OF t p m eq rx rs] by auto
  have "pz_ok t z \<and> pz_held t z = []" if "ready"
    using st(2) that pz_idle_ok[OF _ t, of z] by (simp add: pz_advanced_def pz_idle_def)
  then show "\<exists>n m'. feed rs rx m = Inr (n, m') \<and> 0 < n \<and> n \<le> length rx \<and> pz_ok t (pz m') \<and>
      (pz_held t (pz m') @ drop n rx = p @ rest \<and> got m' = got m \<or>
       pz_held t (pz m') = [] \<and> drop n rx = rest \<and> got m' = got m @ [p])"
    using st by (cases ready) (simp_all add: feed upd pz_advanced_def)
next
  fix m p r
  show "pz_ok t (pz m) \<Longrightarrow> hci_packet t p \<Longrightarrow> pz_held t (pz m) \<noteq> p @ r" by (rule pz_held_partial[OF t])
next
  fix p
  show "hci_packet t p \<Longrightarrow> p \<noteq> []" by (auto simp: hci_packet_def)
qed

interpretation mct_event: framing mct_OnEventDataReady "\<lambda>m. pz_held HCI_PACKET_TYPE_EVENT (event_packetizer m)" mct_events
    "\<lambda>m. pz_ok HCI_PACKET_TYPE_EVENT (event_packetizer m)" "\<lambda>p. p" "hci_packet HCI_PACKET_TYPE_EVENT"
  by (rule mct_channel[where upd = "\<lambda>z l m. m\<lparr>event_packetizer := z, mct_events := l\<rparr>"])
    (simp_all add: mct_OnEventDataReady_def)

interpretation mct_acl: framing mct_OnAclDataReady "\<lambda>m. pz_held HCI_PACKET_TYPE_ACL_DATA (acl_packetizer m)" mct_acl
    "\<lambda>m. pz_ok HCI_PACKET_TYPE_ACL_DATA (acl_packetizer m)" "\<lambda>p. p" "hci_packet HCI_PACKET_TYPE_ACL_DATA"
  by (rule mct_channel[where upd = "\<lambda>z l m. m\<lparr>acl_packetizer := z, mct_acl := l\<rparr>"])
    (simp_all add: mct_OnAclDataReady_def)

section \<open>Streams\<close>

text \<open>Whatever pieces the kernel hands out, H4 delivers the packets of a stream: after as many
  readable reports as the stream has bytes, each answered with at least one byte after any number of
  interruptions and \<open>EAGAIN\<close>, exactly the packets of the stream have been delivered, in order and
  unchanged, as long as each has at least one byte of payload.\<close>

theorem h4_stream_delivered:
  assumes "list_all h4_packet ps" "list_all answered rss" "length (concat (map h4_wire ps)) \<le> length rss"
  shows "\<exists>h. watch (h4_OnDataReady e) rss (concat (map h4_wire ps)) (h4_new d) = Inr ([], h) \<and> h4_delivered h = ps"
proof -
  have "h4_ok (h4_new d)" "h4_held (h4_new d) = []" "h4_delivered (h4_new d) = []"
    by (simp_all add: h4_ok_def h4_held_def h4_new_def pz_idle_new)
  then show ?thesis using h4.stream_delivered[OF _ assms(1) _ assms(2,3), of "h4_new d" e] by simp
qed

definition sample_env :: bt_env where
  "sample_env = \<lparr>H4_DEBUG = True, fw_assert_ok = True\<rparr>"

lemma h4_stream_delivered_witness:
  "\<exists>h. watch (h4_OnDataReady sample_env) (replicate 12 [Sys_err EAGAIN, Sys_ok 2])
     (concat (map h4_wire [(HCI_PACKET_TYPE_EVENT, [14, 1, 7]), (HCI_PACKET_TYPE_ACL_DATA, [1, 0, 2, 0, 8, 9])]))
     (h4_new debugger_new) = Inr ([], h) \<and>
     h4_delivered h = [(HCI_PACKET_TYPE_EVENT, [14, 1, 7]), (HCI_PACKET_TYPE_ACL_DATA, [1, 0, 2, 0, 8, 9])]"
  by (rule h4_stream_delivered) (simp_all add: h4_packet_def received_types_def hci_packet_def
      HciGetPacketLengthForType_def h4_wire_def list_all_iff)

section \<open>Packets without payload\<close>

text \<open>A reader that has got the whole preamble of a packet whose payload is empty.\<close>

definition pz_stuck :: "packetizer \<Rightarrow> bool" where
  "pz_stuck z \<longleftrightarrow> pz_state z = HCI_PAYLOAD \<and> bytes_remaining z = 0"

lemma read_none: "answered rs \<Longrightarrow> read_retry 0 rs rx = Inl Fatal"
  by (induction "0 :: nat" rs rx rule: read_retry.induct) (auto simp: Let_def)

lemma stuck_fatal:
  assumes "hci_packet_type h \<noteq> HCI_PACKET_TYPE_UNKNOWN" "pz_stuck (hci_packetizer h)" "rx \<noteq> []"
    "list_all answered rss" "rss \<noteq> []"
  shows "watch (h4_OnDataReady e) rss rx h = Inl Fatal"
  using assms by (cases rss) (auto simp: h4_OnDataReady_def packetizer_ready_def pz_stuck_def read_none)

lemma empty_payload_read:
  assumes "t \<noteq> HCI_PACKET_TYPE_UNKNOWN" "length p = preamble_size_for_type t" "HciGetPacketLengthForType t p = 0"
    "rest \<noteq> []" "hci_packet_type h = t" "pz_ok t (hci_packetizer h)" "pz_state (hci_packetizer h) = HCI_PREAMBLE"
    "pz_held t (hci_packetizer h) @ rx = p @ rest" "list_all answered rss" "length rx \<le> length rss"
  shows "watch (h4_OnDataReady e) rss rx h = Inl Fatal"
  using assms(5-10)
proof (induction rss arbitrary: h rx)
  case Nil
  then have "rx = []" by simp
  then have "length (pz_held t (hci_packetizer h)) = length p + length rest"
    using Nil.prems(4) by (metis append_Nil2 length_append)
  moreover have "length (pz_held t (hci_packetizer h)) < length p"
    using Nil.prems(2,3) assms(2) by (auto simp: pz_held_def pz_ok_def)
  ultimately show ?case by simp
next
  case (Cons rs rss)
  let ?z = "hci_packetizer h" and ?n = "preamble_size_for_type t"
  have "length (pz_held t ?z) < length p" using Cons.prems(2,3) assms(2) by (auto simp: pz_held_def pz_ok_def)
  then have rx: "rx \<noteq> []" using Cons.prems(4) assms(4) by (metis append_Nil2 length_append not_add_less1)
  have a: "answered rs" "list_all answered rss" using Cons.prems(5) by simp_all
  obtain m z1 where m: "0 < m" "m \<le> length rx" "bytes_read ?z + m \<le> ?n"
    "packetizer_ready t rs rx ?z = Inr (m, False, if bytes_read ?z + m = ?n then preamble_done t z1 else z1)"
    and z1: "length (pz_preamble z1) = 4" "take (bytes_read ?z + m) (pz_preamble z1) = take (bytes_read ?z + m) p"
    "bytes_read z1 = bytes_read ?z + m" "pz_state z1 = HCI_PREAMBLE"
    and split: "take (bytes_read ?z + m) p @ drop m rx = p @ rest"
    using preamble_read[OF assms(1) _ Cons.prems(2-4) rx a(1)] assms(2) by auto
  let ?z' = "if bytes_read ?z + m = ?n then preamble_done t z1 else z1"
  have w: "watch (h4_OnDataReady e) (rs # rss) rx h = watch (h4_OnDataReady e) rss (drop m rx) (h\<lparr>hci_packetizer := ?z'\<rparr>)"
    using m(4) rx assms(1) Cons.prems(1) by (simp add: h4_OnDataReady_def)
  have l: "length (drop m rx) \<le> length rss" using Cons.prems(6) m(1) by simp
  show ?case
  proof (cases "bytes_read ?z + m = ?n")
    case True
    have "take ?n (pz_preamble z1) = take ?n p" using z1(2) unfolding True .
    then have "HciGetPacketLengthForType t (pz_preamble z1) = 0"
      using packet_length_cong[OF _ assms(1)] assms(3) by metis
    then have st: "pz_stuck ?z'" using True by (simp add: pz_stuck_def preamble_done_def Let_def)
    have d: "drop m rx = rest" using split True assms(2) by simp
    then have "rss \<noteq> []" using l assms(4) by auto
    then show ?thesis unfolding w d using st a(2) assms(1,4) Cons.prems(1)
      by (intro stuck_fatal) simp_all
  next
    case False
    then show ?thesis unfolding w using z1 m(3) split a(2) l Cons.prems(1)
      by (intro Cons.IH) (simp_all add: pz_ok_def pz_held_def)
  qed
qed

text \<open>A packet without payload stops the service: the packetizer then waits for a payload of no
  bytes, and the next byte that arrives makes it call \<open>read\<close> for none, whose answer 0 it takes for the
  end of the stream. So after any good packets, an event without parameters (or an empty ACL or SCO
  packet) followed by anything ends in \<open>LOG_ALWAYS_FATAL\<close>.\<close>

theorem h4_empty_payload_aborts:
  assumes "list_all h4_packet ps" "t \<in> set received_types" "length p = preamble_size_for_type t"
    "HciGetPacketLengthForType t p = 0" "rest \<noteq> []" "list_all answered rss"
    "length (concat (map h4_wire ps) @ h4_wire (t, p) @ rest) \<le> length rss"
  shows "watch (h4_OnDataReady e) rss (concat (map h4_wire ps) @ h4_wire (t, p) @ rest) (h4_new d) = Inl Fatal"
proof -
  have h: "h4_ok (h4_new d)" "h4_held (h4_new d) = []" by (simp_all add: h4_ok_def h4_held_def h4_new_def pz_idle_new)
  obtain rss1 h1 where 1: "watch (h4_OnDataReady e) rss (concat (map h4_wire ps) @ h4_wire (t, p) @ rest) (h4_new d) =
      watch (h4_OnDataReady e) rss1 (h4_wire (t, p) @ rest) h1" "list_all answered rss1"
    "length (h4_wire (t, p) @ rest) \<le> length rss1" "h4_ok h1" "h4_held h1 = []"
    using h4.packets_delivered[OF h(1) assms(1) h(2) assms(6,7), of e] by blast
  have u: "hci_packet_type h1 = HCI_PACKET_TYPE_UNKNOWN" using 1(5) by (auto simp: h4_held_def split: if_split_asm)
  then have i: "pz_idle (hci_packetizer h1)" using 1(4) by (simp add: h4_ok_def)
  have tu: "t \<noteq> HCI_PACKET_TYPE_UNKNOWN" using assms(2) by (rule received_not_unknown)
  obtain rs rss2 where rss: "rss1 = rs # rss2" using 1(3) by (cases rss1) (auto simp: h4_wire_def)
  obtain d' where "h4_OnDataReady e rs (hci_type_code t # p @ rest) h1 = Inr (1, h1\<lparr>hci_packet_type := t, h4_dbg := d'\<rparr>)"
    using h4_type_read[OF u assms(2), of rs e "p @ rest"] 1(2) rss by auto
  then have "watch (h4_OnDataReady e) rss1 (h4_wire (t, p) @ rest) h1 =
      watch (h4_OnDataReady e) rss2 (p @ rest) (h1\<lparr>hci_packet_type := t, h4_dbg := d'\<rparr>)"
    by (simp add: rss h4_wire_def)
  also have "\<dots> = Inl Fatal"
    by (rule empty_payload_read[OF tu assms(3,4,5)])
      (use 1(2,3) pz_idle_ok[OF i tu] i in \<open>simp_all add: rss h4_wire_def pz_idle_def\<close>)
  finally show ?thesis using 1(1) by simp
qed

lemma h4_empty_payload_aborts_witness:
  "watch (h4_OnDataReady sample_env) (replicate 8 [Sys_ok 9])
     (concat (map h4_wire [(HCI_PACKET_TYPE_EVENT, [14, 1, 7])]) @ h4_wire (HCI_PACKET_TYPE_EVENT, [3, 0]) @ [4])
     (h4_new debugger_new) = Inl Fatal"
  by (rule h4_empty_payload_aborts) (simp_all add: h4_packet_def received_types_def hci_packet_def
      HciGetPacketLengthForType_def h4_wire_def list_all_iff)

section \<open>Sending\<close>

text \<open>Answers of which none is an error and none is 0, and how many of them are counts.\<close>

fun accepting :: "sys_result \<Rightarrow> bool" where
    "accepting (Sys_ok k) = (0 < k)"
  | "accepting (Sys_err e) = (e \<noteq> EOTHER)"

definition counts :: "sys_result list \<Rightarrow> nat" where
  "counts rs = length (filter (\<lambda>r. case r of Sys_ok k \<Rightarrow> True | Sys_err e \<Rightarrow> False) rs)"

lemma counts_simps [simp]:
  "counts [] = 0" "counts (Sys_ok k # rs) = Suc (counts rs)" "counts (Sys_err x # rs) = counts rs"
  by (simp_all add: counts_def)

text \<open>The words behind the vectors stop the loop when one of them is not 0.\<close>

lemma iov_past_end: "iov_consume behind 0 [] = (if list_all (\<lambda>len. len = 0) behind then Inl Wild else Inr [])"
  by (induction behind) auto

lemma iov_consume_eq:
  assumes "ret \<le> length (concat vs)"
  shows "if ret < length (concat vs)
    then \<exists>ws. iov_consume behind ret vs = Inr ws \<and> concat ws = drop ret (concat vs)
    else iov_consume behind ret vs = (if list_all (\<lambda>len. len = 0) behind then Inl Wild else Inr [])"
  using assms
proof (induction vs arbitrary: ret)
  case (Cons v vs)
  show ?case
  proof (cases "length v \<le> ret")
    case True
    then show ?thesis using Cons.IH[of "ret - length v"] Cons.prems by (auto split: if_split_asm)
  qed simp
qed (simp add: iov_past_end)

text \<open>Everything goes out in order; the last step looks behind the vectors.\<close>

lemma writev_result:
  assumes "list_all accepting rs" "length (concat vs) \<le> counts rs" "concat vs \<noteq> []"
  shows "WritevSafely behind rs vs = (if list_all (\<lambda>len. len = 0) behind then Inl Wild else Inr (concat vs))"
  using assms
proof (induction behind rs vs rule: WritevSafely.induct)
  case (6 behind k rs v vs)
  let ?data = "concat (v # vs)"
  let ?ret = "min k (length ?data)"
  have k: "0 < k" "length ?data \<noteq> 0" using "6.prems"(1,3) by simp_all
  then have r: "?ret \<noteq> 0" by simp
  have step: "WritevSafely behind (Sys_ok k # rs) (v # vs) = bt_bind (iov_consume behind ?ret (v # vs)) (\<lambda>iov.
      bt_bind (WritevSafely behind rs iov) (\<lambda>w. Inr (take ?ret ?data @ w)))"
    using r by (simp only: WritevSafely.simps Let_def if_False)
  show ?case
  proof (cases "?ret < length ?data")
    case True
    then obtain ws where ws: "iov_consume behind ?ret (v # vs) = Inr ws" "concat ws = drop ?ret ?data"
      using iov_consume_eq[OF min.cobounded2, of k "v # vs" behind] by (simp only: if_True) blast
    have "length ?data - ?ret \<le> counts rs" using "6.prems"(2) r unfolding counts_simps by linarith
    then have "length (concat ws) \<le> counts rs" unfolding ws(2) length_drop .
    moreover have "concat ws \<noteq> []" using True unfolding ws(2) drop_eq_Nil by linarith
    ultimately have ih: "WritevSafely behind rs ws = (if list_all (\<lambda>len. len = 0) behind then Inl Wild else Inr (concat ws))"
      using "6.IH"[OF refl refl r] "6.prems"(1) by simp
    have "take ?ret ?data @ concat ws = ?data" unfolding ws(2) by (rule append_take_drop_id)
    then show ?thesis unfolding step ws(1) bt_bind_simps ih by simp
  next
    case False
    then have "iov_consume behind ?ret (v # vs) = (if list_all (\<lambda>len. len = 0) behind then Inl Wild else Inr [])"
      using iov_consume_eq[OF min.cobounded2, of k "v # vs" behind] by (simp only: if_False)
    moreover have "take ?ret ?data = ?data" using False by (intro take_all) linarith
    ultimately show ?thesis unfolding step by simp
  qed
qed auto

text \<open>A packet is sent completely and in order, however the kernel divides it, but not safely: the
  loop that takes the written bytes off the vectors reads the length of a third vector when the two
  are used up, and runs on over the stack as long as it finds 0 there; and debug builds look at four
  bytes of the packet even when it is a command of three. With those two exceptions the type byte
  and the data go out.\<close>

theorem h4_send_result:
  assumes "list_all accepting rs" "Suc (length data) \<le> counts rs"
  shows "(if H4_DEBUG e \<and> length data < 4 \<or> list_all (\<lambda>len. len = 0) behind
      then h4_Send e behind rs type data h = Inl Wild
      else \<exists>h'. h4_Send e behind rs type data h = Inr (type # data, h') \<and> h4_delivered h' = h4_delivered h)"
proof -
  have w: "WritevSafely behind rs [[type], data] = (if list_all (\<lambda>len. len = 0) behind then Inl Wild else Inr (type # data))"
    using writev_result[of rs "[[type], data]" behind] assms by simp
  show ?thesis unfolding h4_Send_def w by (auto simp: Check_tx_def HandleTxData_def)
qed

lemma h4_send_result_witness:
  "h4_Send sample_env [] (replicate 4 (Sys_ok 2)) 1 [3, 12, 0] (h4_new debugger_new) = Inl Wild \<and>
   (\<exists>h'. h4_Send sample_env [7] (replicate 5 (Sys_ok 2)) 1 [5, 4, 1, 9] (h4_new debugger_new) =
     Inr ([1, 5, 4, 1, 9], h') \<and> h4_delivered h' = [])"
  using h4_send_result[of "replicate 4 (Sys_ok 2)" "[3, 12, 0]" sample_env "[]" 1 "h4_new debugger_new"]
    h4_send_result[of "replicate 5 (Sys_ok 2)" "[5, 4, 1, 9]" sample_env "[7]" 1 "h4_new debugger_new"]
  by (simp add: sample_env_def h4_new_def numeral_eq_Suc)

end
