(* ===== verification/Bt_Hal_Props.thy ===== *)
theory Bt_Hal_Props
  imports Bt_Hal Bt_Props
begin

text \<open>
  What the Bluetooth HAL guarantees. \<open>bt_invariant\<close> is what a property of the HAL's state has to satisfy to
  hold in every run; the life cycle of the vendor interface and the sleep protocol of the chip are
  its interpretations. A third interpretation of \<open>framing\<close> takes the packets of the controller's
  stream up to the client.
\<close>

section \<open>Invariants of runs\<close>

fun holds_after :: "('a \<Rightarrow> bool) \<Rightarrow> bt_fault + 'a \<Rightarrow> bool" where
    "holds_after P (Inl x) = True"
  | "holds_after P (Inr a) = P a"

lemma holds_bind: "holds_after P r \<Longrightarrow> (\<And>a. P a \<Longrightarrow> holds_after Q (f a)) \<Longrightarrow> holds_after Q (bt_bind r f)"
  by (cases r) simp_all

lemma holds_bind_any: "(\<And>a. holds_after Q (f a)) \<Longrightarrow> holds_after Q (bt_bind r f)"
  by (cases r) simp_all

lemma holds_bind_case: "(\<And>a. r = Inr a \<Longrightarrow> holds_after Q (f a)) \<Longrightarrow> holds_after Q (bt_bind r f)"
  by (cases r) simp_all

locale bt_invariant =
  fixes I :: "bt_hal \<Rightarrow> bool"
  assumes boot: "I bt_boot"
    and emitted: "I s \<Longrightarrow> c \<notin> range Chip \<union> range Lib \<Longrightarrow> I (bt_emit c s)"
    and queued: "I s \<Longrightarrow> hci_cb s \<noteq> None \<Longrightarrow> I (s\<lparr>msg_queue := msg_queue s @ [m]\<rparr>)"
    and client: "I s \<Longrightarrow> cb \<noteq> None \<Longrightarrow> I (s\<lparr>hci_cb := cb\<rparr>)"
    and active: "I s \<Longrightarrow> I (s\<lparr>recent_activity_flag := b\<rparr>)"
    and internal: "I s \<Longrightarrow> I (s\<lparr>internal_cb := k, internal_opcode := op\<rparr>)"
    and received: "I s \<Longrightarrow> g_vendor_interface s = Some v \<Longrightarrow> v_transport v \<noteq> None \<Longrightarrow> I (set_transport v t s)"
    and sent: "I s \<Longrightarrow> holds_after I (vendor_Send e behind rs type data s)"
    and timed: "I s \<Longrightarrow> holds_after I (OnTimeout s)"
    and configured: "I s \<Longrightarrow> holds_after I (OnFirmwareConfigured idle result s)"
    and looped: "I s \<Longrightarrow> msg_queue s = m # q \<Longrightarrow> holds_after I (handleMessage e n m (s\<lparr>msg_queue := q\<rparr>))"
begin

lemma stack_keeps: "I s \<Longrightarrow> holds_after I (to_stack m s)"
  by (simp add: to_stack_def emitted image_iff split: option.split)

lemma event_keeps: "I s \<Longrightarrow> holds_after I (HandleIncomingEvent p s)"
proof -
  assume s: "I s"
  have "I (s\<lparr>internal_cb := None\<rparr>)" using internal[OF s, where k = None and op = "internal_opcode s"] by simp
  then show ?thesis using s unfolding HandleIncomingEvent_def
    by (auto simp: stack_keeps emitted image_iff intro!: holds_bind_any split: option.split)
qed

lemma packet_keeps: "I s \<Longrightarrow> holds_after I (dispatch_packet p s)"
  by (induction p s rule: dispatch_packet.induct) (simp_all add: event_keeps stack_keeps)

lemma packets_keep: "I s \<Longrightarrow> holds_after I (dispatch_packets ps s)"
proof (induction ps arbitrary: s)
  case (Cons p ps)
  show ?case unfolding dispatch_packets.simps by (rule holds_bind[OF packet_keeps[OF Cons.prems]]) (rule Cons.IH)
qed simp

lemma readable_keeps: "I s \<Longrightarrow> holds_after (\<lambda>(n, s). I s) (vendor_readable e ch rs rx s)"
proof -
  assume s: "I s"
  have up: "holds_after (\<lambda>(n, s). I s) (bt_bind r (\<lambda>(n, x). bt_bind (dispatch_packets (ps x) (set_transport v (t x) s)) (\<lambda>s. Inr (n, s))))"
    if "g_vendor_interface s = Some v" "v_transport v \<noteq> None" for r :: "bt_fault + nat \<times> 'x" and ps t v
  proof (rule holds_bind_any)
    fix a
    show "holds_after (\<lambda>(n, s). I s) (case a of (n, x) \<Rightarrow> bt_bind (dispatch_packets (ps x) (set_transport v (t x) s)) (\<lambda>s. Inr (n, s)))"
      by (cases a) (simp, rule holds_bind[OF packets_keep[OF received[OF s that]]], simp)
  qed
  show ?thesis using s unfolding vendor_readable_def
    by (auto split: option.split transport.split rx_channel.split intro!: up)
qed

lemma step_keeps: "I s \<Longrightarrow> holds_after I (bt_step e x s)"
proof (cases x)
  case (Bt_initialize cb)
  then show "I s \<Longrightarrow> ?thesis" using queued[OF client, of s cb] by (simp add: bt_initialize_def Transit_def)
next
  case Bt_close
  then show "I s \<Longrightarrow> ?thesis" by (simp add: bt_close_def Transit_def queued)
next
  case Bt_died
  then show "I s \<Longrightarrow> ?thesis" by (simp add: serviceDied_def Transit_def queued)
next
  case Bt_send
  then show "I s \<Longrightarrow> ?thesis" by (simp add: sendDataToController_def sent)
next
  case Bt_looper
  then show "I s \<Longrightarrow> ?thesis" by (simp add: looper_step_def looped split: list.split)
next
  case Bt_readable
  then show "I s \<Longrightarrow> ?thesis" by (simp, intro holds_bind[OF readable_keeps]) auto
next
  case Bt_timeout
  then show "I s \<Longrightarrow> ?thesis" by (simp add: timed)
next
  case Bt_firmware
  then show "I s \<Longrightarrow> ?thesis" by (simp add: configured)
next
  case Bt_transmit
  then show "I s \<Longrightarrow> ?thesis" by (simp add: transmit_cb_def sent internal)
qed

lemma run_keeps: "I s \<Longrightarrow> holds_after I (bt_run e xs s)"
proof (induction xs arbitrary: s)
  case (Cons x xs)
  show ?case unfolding bt_run.simps by (rule holds_bind[OF step_keeps[OF Cons.prems]]) (rule Cons.IH)
qed simp

lemma reachable: "bt_run e xs bt_boot = Inr s \<Longrightarrow> I s"
  using run_keeps[OF boot, of e xs] by simp

end

section \<open>The life cycle\<close>

definition vendor_on :: "bt_hal \<Rightarrow> bool" where
  "vendor_on s \<longleftrightarrow> (g_vendor_interface s \<noteq> None \<longleftrightarrow> current_state s = kOnMsg) \<and>
     (hci_cb s = None \<longrightarrow> msg_queue s = [] \<and> current_state s = kIdleMsg)"

lemma Open_frame:
  assumes "Open e n v s = (rc, v', s')"
  shows "current_state s' = current_state s \<and> hci_cb s' = hci_cb s \<and> msg_queue s' = msg_queue s \<and>
    g_vendor_interface s' = g_vendor_interface s \<and> internal_cb s' = internal_cb s"
  using assms by (auto simp: Open_def bt_emit_def Let_def split: if_split_asm)

lemma TurnOn_result:
  assumes "hci_cb s = Some c" "g_vendor_interface s = None"
  shows "\<exists>s'. TurnOn e n s = Inr s' \<and> g_vendor_interface s' \<noteq> None \<and> current_state s' = current_state s \<and>
    hci_cb s' = hci_cb s \<and> msg_queue s' = msg_queue s"
proof -
  obtain rc v s' where o: "Open e n vendor_new s = (rc, v, s')" by (metis prod_cases3)
  then show ?thesis using assms Open_frame[OF o]
    by (simp add: TurnOn_def Initialize_def to_stack_def bt_emit_def)
qed

lemma TurnOff_result:
  assumes "g_vendor_interface s \<noteq> None"
  shows "\<exists>s'. TurnOff s = Inr s' \<and> g_vendor_interface s' = None \<and> current_state s' = current_state s \<and>
    hci_cb s' = hci_cb s \<and> msg_queue s' = msg_queue s"
  using assms by (auto simp: TurnOff_def Shutdown_def vendor_Close_def bt_emit_def Let_def split: option.split transport.split)

lemma handle_on:
  assumes "vendor_on s" "hci_cb s \<noteq> None"
  shows "\<exists>s'. handleMessage e n m s = Inr s' \<and> vendor_on s'"
proof -
  obtain c where c: "hci_cb s = Some c" using assms(2) by blast
  show ?thesis
  proof (cases "Handle e n (current_state s) m s")
    case None
    then show ?thesis using assms(1) by (simp add: handleMessage_def)
  next
    case (Some r)
    have vend: "g_vendor_interface s \<noteq> None \<longleftrightarrow> current_state s = kOnMsg" using assms(1) by (simp add: vendor_on_def)
    have on: "\<exists>s'. TurnOn e n s1 = Inr s' \<and> g_vendor_interface s' \<noteq> None \<and> hci_cb s' = Some c"
      if "g_vendor_interface s1 = None" "hci_cb s1 = Some c" for s1
      using TurnOn_result[OF that(2,1)] that(2) by metis
    have off: "\<exists>s'. TurnOff s = Inr s' \<and> g_vendor_interface s' = None \<and> hci_cb s' = Some c"
      if "current_state s = kOnMsg"
      using TurnOff_result[of s] vend that c by metis
    have "\<exists>s'. r = Inr s' \<and> (g_vendor_interface s' \<noteq> None \<longleftrightarrow> m = kOnMsg) \<and> hci_cb s' = Some c"
    proof (cases "current_state s = kOnMsg")
      case True
      obtain s1 where s1: "TurnOff s = Inr s1" "g_vendor_interface s1 = None" "hci_cb s1 = Some c" using off[OF True] by blast
      then show ?thesis using on[OF s1(2,3)] Some True by (cases m) (auto simp: s1(1,2,3))
    next
      case False
      then have "m = kOnMsg \<and> r = TurnOn e n s" using Some by (cases "current_state s"; cases m) auto
      then show ?thesis using on[of s] vend False c by auto
    qed
    then obtain s' where "r = Inr s'" "g_vendor_interface s' \<noteq> None \<longleftrightarrow> m = kOnMsg" "hci_cb s' = Some c"
by blast
    then show ?thesis using Some by (simp add: handleMessage_def vendor_on_def bt_emit_def)
  qed
qed

definition frame_of :: "bt_hal \<Rightarrow> BtHalStateMessage \<times> BtHalStateMessage list \<times> nat option \<times> bool" where
  "frame_of s = (current_state s, msg_queue s, hci_cb s, g_vendor_interface s \<noteq> None)"

lemma vendor_on_frame: "frame_of s' = frame_of s \<Longrightarrow> vendor_on s' = vendor_on s"
  by (auto simp: frame_of_def vendor_on_def)

lemma Send_frame: "holds_after (\<lambda>s'. frame_of s' = frame_of s) (vendor_Send e behind rs type data s)"
  by (auto simp: vendor_Send_def vendor_wake_def bt_emit_def frame_of_def split: option.split transport.split
      intro!: holds_bind_any)

lemma OnTimeout_frame: "holds_after (\<lambda>s'. frame_of s' = frame_of s) (OnTimeout s)"
  by (simp add: OnTimeout_def bt_emit_def frame_of_def split: option.split)

lemma OnFirmwareConfigured_frame:
  "holds_after (\<lambda>s'. frame_of s' = frame_of s) (OnFirmwareConfigured idle result s)"
  by (auto simp: OnFirmwareConfigured_def to_stack_def bt_emit_def frame_of_def split: option.split intro!: holds_bind_case)

lemma holds_frame: "holds_after (\<lambda>s'. frame_of s' = frame_of s) r \<Longrightarrow> vendor_on s \<Longrightarrow> holds_after vendor_on r"
  by (cases r) (auto dest: vendor_on_frame)

interpretation life: bt_invariant vendor_on
proof unfold_locales
  show "vendor_on bt_boot" by (simp add: vendor_on_def bt_boot_def)
next
  fix s m q e n
  assume s: "vendor_on s" "msg_queue s = m # q"
  then have "vendor_on (s\<lparr>msg_queue := q\<rparr>)" "hci_cb s \<noteq> None" by (auto simp: vendor_on_def)
  then show "holds_after vendor_on (handleMessage e n m (s\<lparr>msg_queue := q\<rparr>))"
    using handle_on[of "s\<lparr>msg_queue := q\<rparr>" e n m] by auto
qed (auto simp: vendor_on_def bt_emit_def set_transport_def
    intro: holds_frame[OF Send_frame] holds_frame[OF OnTimeout_frame] holds_frame[OF OnFirmwareConfigured_frame])

text \<open>C21: In every run of the HAL that has not been aborted, the vendor interface exists exactly when the
  state machine is on, so turning the controller on or off never fails: \<open>Shutdown\<close> never finds the
  interface missing, \<open>Initialize\<close> never finds an old one, and every queued transition is carried
  out, whatever the vendor library answers.\<close>

theorem bt_life_cycle:
  assumes "bt_run e xs bt_boot = Inr s"
  shows "(g_vendor_interface s \<noteq> None \<longleftrightarrow> current_state s = kOnMsg) \<and> (\<exists>s'. looper_step e n s = Inr s')"
proof -
  have s: "vendor_on s" using life.reachable[OF assms] .
  show ?thesis
  proof (cases "msg_queue s")
    case Nil
    then show ?thesis using s by (simp add: vendor_on_def looper_step_def)
  next
    case (Cons m q)
    then have "vendor_on (s\<lparr>msg_queue := q\<rparr>)" "hci_cb s \<noteq> None" using s by (auto simp: vendor_on_def)
    then show ?thesis using handle_on[of "s\<lparr>msg_queue := q\<rparr>" e n m] s Cons by (auto simp: looper_step_def vendor_on_def)
  qed
qed

definition uart_env :: vnd_env where
  "uart_env = \<lparr>dlopen_ok = True, dlsym_ok = True, init_status = 0, fd_count = 1, fd_list = [7, 0, 0, 0]\<rparr>"

lemma bt_life_cycle_witness:
  "\<exists>s. bt_run sample_env [Bt_initialize (Some 1), Bt_looper uart_env, Bt_close] bt_boot = Inr s \<and>
     current_state s = kOnMsg \<and> g_vendor_interface s \<noteq> None \<and> (\<exists>s'. looper_step sample_env uart_env s = Inr s')"
proof -
  obtain s where s: "bt_run sample_env [Bt_initialize (Some 1), Bt_looper uart_env, Bt_close] bt_boot = Inr s"
    "current_state s = kOnMsg"
    by (simp add: bt_boot_def bt_initialize_def Transit_def looper_step_def handleMessage_def TurnOn_def Initialize_def
        Open_def uart_env_def CH_MAX_def bt_emit_def bt_close_def Let_def)
  then show ?thesis using bt_life_cycle[OF s(1), of uart_env] by auto
qed

section \<open>Calls before the controller is on\<close>

text \<open>The client's calls and the looper are not synchronised: in every run, a packet sent while the
  state machine is not on, for instance right after \<open>initialize\<close> and before the looper has handled
  its message, goes through the null pointer that \<open>VendorInterface::get\<close> then returns, and so does
  the library's report of the firmware configuration.\<close>

theorem bt_early_calls_undefined:
  assumes "bt_run e xs bt_boot = Inr s" "current_state s \<noteq> kOnMsg"
  shows "bt_step e (Bt_send type data behind rs) s = Inl Wild \<and> bt_step e (Bt_firmware idle result) s = Inl Wild"
proof -
  have "g_vendor_interface s = None" using life.reachable[OF assms(1)] assms(2) by (simp add: vendor_on_def)
  then show ?thesis by (simp add: sendDataToController_def vendor_Send_def OnFirmwareConfigured_def)
qed

lemma bt_early_calls_undefined_witness:
  "bt_step sample_env (Bt_send HCI_PACKET_TYPE_COMMAND [3, 12, 0, 0] [1] []) (bt_initialize (Some 1) bt_boot) = Inl Wild \<and>
   bt_step sample_env (Bt_firmware 5000 0) (bt_initialize (Some 1) bt_boot) = Inl Wild"
  by (rule bt_early_calls_undefined[of _ "[Bt_initialize (Some 1)]"])
    (simp_all add: bt_initialize_def bt_boot_def Transit_def)

section \<open>The chip's sleep\<close>

text \<open>Whether the chip has been told to be awake, from the calls made so far.\<close>

fun wake_after :: "bool \<Rightarrow> bt_call \<Rightarrow> bool" where
    "wake_after w (Lib Lib_init) = False"
  | "wake_after w (Lib (Lpm_wake_set_state b)) = b"
  | "wake_after w c = w"

fun sends_awake :: "bool \<Rightarrow> bt_call list \<Rightarrow> bool" where
    "sends_awake w [] = True"
  | "sends_awake w (Chip d # cs) = (w \<and> sends_awake w cs)"
  | "sends_awake w (c # cs) = sends_awake (wake_after w c) cs"

definition is_awake :: "bt_call list \<Rightarrow> bool" where
  "is_awake cs = foldl wake_after False cs"

lemma sends_awake_append:
  "sends_awake w (cs @ ds) \<longleftrightarrow> sends_awake w cs \<and> sends_awake (foldl wake_after w cs) ds"
  by (induction w cs rule: sends_awake.induct) auto

definition wake_ok :: "bt_hal \<Rightarrow> bool" where
  "wake_ok s \<longleftrightarrow> sends_awake False (bt_log s) \<and>
     (\<forall>v. g_vendor_interface s = Some v \<longrightarrow> v_transport v \<noteq> None \<longrightarrow> v_lib v \<and> is_awake (bt_log s) = (\<not> lpm_wake_deasserted s))"

lemma wake_okI:
  "sends_awake False (bt_log s) \<Longrightarrow> (\<And>v. g_vendor_interface s = Some v \<Longrightarrow> v_transport v \<noteq> None \<Longrightarrow>
     v_lib v \<and> is_awake (bt_log s) = (\<not> lpm_wake_deasserted s)) \<Longrightarrow> wake_ok s"
  by (simp add: wake_ok_def)

lemmas wake_log = sends_awake_append is_awake_def

lemma Open_wake:
  assumes "Open e n v s = (rc, v', s')" "sends_awake False (bt_log s)" "v_transport v = None"
  shows "sends_awake False (bt_log s') \<and>
    (v_transport v' \<noteq> None \<longrightarrow> v_lib v' \<and> is_awake (bt_log s') = (\<not> lpm_wake_deasserted s'))"
  using assms by (auto simp: Open_def bt_emit_def wake_log image_iff Let_def split: if_split_asm)

lemma TurnOn_wake: "wake_ok s \<Longrightarrow> holds_after wake_ok (TurnOn e n s)"
proof -
  assume s: "wake_ok s"
  obtain rc v s' where o: "Open e n vendor_new s = (rc, v, s')" by (metis prod_cases3)
  show ?thesis
  proof (cases "g_vendor_interface s")
    case None
    then show ?thesis using Open_wake[OF o] s o
      by (auto simp: TurnOn_def Initialize_def to_stack_def bt_emit_def wake_ok_def wake_log image_iff vendor_new_def
          split: option.split)
  next
    case (Some v)
    then show ?thesis using s
      by (auto simp: TurnOn_def Initialize_def to_stack_def bt_emit_def wake_ok_def wake_log image_iff split: option.split)
  qed
qed

lemma TurnOff_wake: "wake_ok s \<Longrightarrow> holds_after wake_ok (TurnOff s)"
  by (auto simp: TurnOff_def Shutdown_def vendor_Close_def bt_emit_def wake_ok_def wake_log image_iff Let_def
      split: option.split transport.split)

lemma Send_wake: "wake_ok s \<Longrightarrow> holds_after wake_ok (vendor_Send e behind rs type data s)"
  by (auto simp: vendor_Send_def vendor_wake_def bt_emit_def wake_ok_def wake_log image_iff
      split: option.split transport.split intro!: holds_bind_any)

lemma handle_wake: "wake_ok s \<Longrightarrow> holds_after wake_ok (handleMessage e n m s)"
proof -
  assume s: "wake_ok s"
  have "holds_after wake_ok r" if "Handle e n (current_state s) m s = Some r" for r
    using that s TurnOn_wake[OF s] TurnOff_wake[OF s]
    by (cases "current_state s"; cases m) (auto intro: holds_bind[OF TurnOff_wake TurnOn_wake])
  moreover have "wake_ok (bt_emit (State_changed m) (u\<lparr>current_state := m\<rparr>))" if "wake_ok u" for u
    using that by (auto simp: wake_ok_def bt_emit_def wake_log image_iff)
  ultimately show ?thesis using s unfolding handleMessage_def
    by (auto split: option.split intro: holds_bind)
qed

interpretation wake: bt_invariant wake_ok
proof unfold_locales
  show "wake_ok bt_boot" by (simp add: wake_ok_def bt_boot_def)
next
  fix s m q e n
  assume "wake_ok s"
  then have "wake_ok (s\<lparr>msg_queue := q\<rparr>)" by (simp add: wake_ok_def)
  then show "holds_after wake_ok (handleMessage e n m (s\<lparr>msg_queue := q\<rparr>))" by (rule handle_wake)
next
  fix s c
  assume "wake_ok s" "c \<notin> range Chip \<union> range Lib"
  then show "wake_ok (bt_emit c s)" by (cases c) (auto simp: wake_ok_def bt_emit_def wake_log)
next
  fix s
  show "wake_ok s \<Longrightarrow> holds_after wake_ok (OnTimeout s)"
    by (auto simp: OnTimeout_def bt_emit_def wake_ok_def wake_log image_iff split: option.split)
next
  fix s idle result
  show "wake_ok s \<Longrightarrow> holds_after wake_ok (OnFirmwareConfigured idle result s)"
    by (auto simp: OnFirmwareConfigured_def to_stack_def bt_emit_def wake_ok_def wake_log image_iff split: option.split
        intro!: holds_bind_case)
qed (auto simp: wake_ok_def set_transport_def Send_wake)

text \<open>C22: No packet is sent to a sleeping chip: in every run, each write to the chip comes after a wake
  request to the vendor library in the same session, with no request to sleep in between.\<close>

theorem bt_sends_awake:
  assumes "bt_run e xs bt_boot = Inr s"
  shows "sends_awake False (bt_log s)"
  using wake.reachable[OF assms] by (simp add: wake_ok_def)

definition kernel_env :: bt_env where
  "kernel_env = \<lparr>H4_DEBUG = False, fw_assert_ok = True\<rparr>"

lemma bt_sends_awake_witness:
  "\<exists>s. bt_run kernel_env [Bt_initialize (Some 1), Bt_looper uart_env,
      Bt_send HCI_PACKET_TYPE_COMMAND [3, 12, 0] [9] [Sys_ok 9]] bt_boot = Inr s \<and>
     Chip [1, 3, 12, 0] \<in> set (bt_log s) \<and> sends_awake False (bt_log s)"
proof -
  obtain s where s: "bt_run kernel_env [Bt_initialize (Some 1), Bt_looper uart_env,
      Bt_send HCI_PACKET_TYPE_COMMAND [3, 12, 0] [9] [Sys_ok 9]] bt_boot = Inr s" "Chip [1, 3, 12, 0] \<in> set (bt_log s)"
    by (simp add: bt_boot_def bt_initialize_def Transit_def looper_step_def handleMessage_def TurnOn_def Initialize_def
        Open_def uart_env_def CH_MAX_def bt_emit_def Let_def kernel_env_def vendor_new_def sendDataToController_def
        vendor_Send_def vendor_wake_def h4_Send_def)
  then show ?thesis using bt_sends_awake[OF s(1)] by blast
qed

section \<open>Events for the library\<close>

text \<open>Exactly which events the HAL cannot route: while a command of the vendor library is pending,
  an empty event, and a completion of fewer than five bytes, whose opcode is read behind its end.
  Otherwise, with a client to call, the event goes to one receiver: to the library's callback, which is then
  forgotten, when it completes the pending command, and to the client, unchanged, when it does not.\<close>

theorem bt_event_routing:
  assumes "hci_cb s = Some c"
  shows "HandleIncomingEvent p s = (case internal_cb s of
      None \<Rightarrow> Inr (bt_emit (Stack c (Hci_event_received p)) s)
    | Some k \<Rightarrow> if p = [] \<or> hd p = 0x0E \<and> length p < 5 then Inl Wild
        else if hd p = 0x0E \<and> of_le16 (drop 3 p) = internal_opcode s
        then Inr (bt_emit (Internal_cb k p) (s\<lparr>internal_cb := None\<rparr>))
        else Inr (bt_emit (Stack c (Hci_event_received p)) s))"
  using assms by (cases p) (auto simp: HandleIncomingEvent_def internal_command_event_match_def to_stack_def split: option.split)

lemma bt_event_routing_witness:
  "HandleIncomingEvent [0x0E, 1, 1] (bt_boot\<lparr>hci_cb := Some 1, internal_cb := Some 2\<rparr>) = Inl Wild"
  by (subst bt_event_routing) simp_all

section \<open>From the chip to the client\<close>

text \<open>The packet of each message to the client, and what the client has received so far.\<close>

fun packet_of :: "stack_msg \<Rightarrow> HciPacketType \<times> bytes" where
    "packet_of (Hci_event_received p) = (HCI_PACKET_TYPE_EVENT, p)"
  | "packet_of (Acl_data_received p) = (HCI_PACKET_TYPE_ACL_DATA, p)"
  | "packet_of (Sco_data_received p) = (HCI_PACKET_TYPE_SCO_DATA, p)"
  | "packet_of (Initialization_complete b) = (HCI_PACKET_TYPE_UNKNOWN, [])"

definition stack_msgs :: "bt_hal \<Rightarrow> stack_msg list" where
  "stack_msgs s = List.map_filter (\<lambda>c. case c of Stack c m \<Rightarrow> Some m | _ \<Rightarrow> None) (bt_log s)"

definition uart_of :: "bt_hal \<Rightarrow> h4 option" where
  "uart_of s = (case g_vendor_interface s of
     Some v \<Rightarrow> (case v_transport v of Some (H4 h) \<Rightarrow> Some h | _ \<Rightarrow> None) | None \<Rightarrow> None)"

definition hal_ok :: "bt_hal \<Rightarrow> bool" where
  "hal_ok s \<longleftrightarrow> hci_cb s \<noteq> None \<and> internal_cb s = None \<and> (case uart_of s of Some h \<Rightarrow> h4_ok h | None \<Rightarrow> False)"

definition hal_held :: "bt_hal \<Rightarrow> bytes" where
  "hal_held s = h4_held (the (uart_of s))"

lemma stack_msgs_emit: "stack_msgs (bt_emit (Stack c m) s) = stack_msgs s @ [m]"
  by (simp add: stack_msgs_def bt_emit_def List.map_filter_def)

lemma dispatch_delivers:
  assumes "hci_cb s = Some c" "internal_cb s = None" "fst (packet_of m) \<in> set received_types"
  shows "dispatch_packet (packet_of m) s = Inr (bt_emit (Stack c m) s)"
  using assms by (cases m) (auto simp: received_types_def HandleIncomingEvent_def to_stack_def)

lemma uart_emit: "uart_of (bt_emit c s) = uart_of s"
  by (simp add: uart_of_def bt_emit_def)

lemma uart_set: "uart_of (set_transport v (H4 h) s) = Some h"
  by (simp add: uart_of_def set_transport_def)

lemma readable_uart:
  assumes "uart_of s = Some h" "h4_OnDataReady e rs rx (h\<lparr>h4_delivered := []\<rparr>) = Inr (n, h')"
  obtains v where "g_vendor_interface s = Some v"
    "vendor_readable e Ch_uart rs rx s =
      bt_bind (dispatch_packets (h4_delivered h') (set_transport v (H4 h') s)) (\<lambda>s. Inr (n, s))"
  using assms by (auto simp: uart_of_def vendor_readable_def split: option.splits transport.splits)

lemma emptied: "h4_ok (h\<lparr>h4_delivered := l\<rparr>) = h4_ok h" "h4_held (h\<lparr>h4_delivered := l\<rparr>) = h4_held h"
  by (simp_all add: h4_ok_def h4_held_def)

interpretation hal: framing "vendor_readable e Ch_uart" hal_held stack_msgs hal_ok "\<lambda>m. h4_wire (packet_of m)"
    "\<lambda>m. h4_packet (packet_of m)"
proof unfold_locales
  fix s m rx rest rs
  assume s: "hal_ok s" and m: "h4_packet (packet_of m)" and eq: "hal_held s @ rx = h4_wire (packet_of m) @ rest"
    and rx: "rx \<noteq> []" and rs: "answered rs"
  obtain h c where h: "uart_of s = Some h" "h4_ok h" and c: "hci_cb s = Some c" "internal_cb s = None"
    using s by (auto simp: hal_ok_def split: option.splits)
  have held: "h4_held (h\<lparr>h4_delivered := []\<rparr>) @ rx = h4_wire (packet_of m) @ rest" "h4_ok (h\<lparr>h4_delivered := []\<rparr>)"
    using eq h by (simp_all add: hal_held_def emptied)
  obtain n h' where n: "h4_OnDataReady e rs rx (h\<lparr>h4_delivered := []\<rparr>) = Inr (n, h')" "0 < n" "n \<le> length rx" "h4_ok h'"
    "h4_held h' @ drop n rx = h4_wire (packet_of m) @ rest \<and> h4_delivered h' = [] \<or>
     h4_held h' = [] \<and> drop n rx = rest \<and> h4_delivered h' = [packet_of m]"
    using h4.progress[OF held(2) m held(1) rx rs, of e] by auto
  obtain v where v: "g_vendor_interface s = Some v" "vendor_readable e Ch_uart rs rx s =
      bt_bind (dispatch_packets (h4_delivered h') (set_transport v (H4 h') s)) (\<lambda>s. Inr (n, s))"
    using readable_uart[OF h(1) n(1)] .
  let ?s = "set_transport v (H4 h') s"
  have t: "fst (packet_of m) \<in> set received_types" using m by (auto simp: h4_packet_def)
  have d: "dispatch_packet (packet_of m) ?s = Inr (bt_emit (Stack c m) ?s)"
    using c t by (intro dispatch_delivers) (simp_all add: set_transport_def)
  have msgs: "stack_msgs ?s = stack_msgs s" by (simp add: stack_msgs_def set_transport_def)
  have ok: "hal_ok ?s" "hal_ok (bt_emit (Stack c m) ?s)"
    using c n(4) by (simp_all add: hal_ok_def uart_emit uart_set) (simp_all add: bt_emit_def set_transport_def)
  show "\<exists>n s'. vendor_readable e Ch_uart rs rx s = Inr (n, s') \<and> 0 < n \<and> n \<le> length rx \<and> hal_ok s' \<and>
      (hal_held s' @ drop n rx = h4_wire (packet_of m) @ rest \<and> stack_msgs s' = stack_msgs s \<or>
       hal_held s' = [] \<and> drop n rx = rest \<and> stack_msgs s' = stack_msgs s @ [m])"
    using n(5)
  proof
    assume "h4_held h' @ drop n rx = h4_wire (packet_of m) @ rest \<and> h4_delivered h' = []"
    then show ?thesis using v(2) n(2,3) ok(1) msgs
      by (intro exI[of _ n] exI[of _ ?s]) (simp add: hal_held_def uart_set)
  next
    assume "h4_held h' = [] \<and> drop n rx = rest \<and> h4_delivered h' = [packet_of m]"
    then show ?thesis using v(2) n(2,3) ok(2) msgs d
      by (intro exI[of _ n] exI[of _ "bt_emit (Stack c m) ?s"]) (simp add: hal_held_def uart_emit uart_set stack_msgs_emit)
  qed
next
  fix s m r
  assume "hal_ok s" "h4_packet (packet_of m)"
  then show "hal_held s \<noteq> h4_wire (packet_of m) @ r"
    using h4.partial[of "the (uart_of s)" "packet_of m" r] by (auto simp: hal_ok_def hal_held_def split: option.splits)
next
  fix m
  show "h4_packet (packet_of m) \<Longrightarrow> h4_wire (packet_of m) \<noteq> []" by (rule h4.wire_not_Nil)
qed

text \<open>What \<open>TurnOn\<close> leaves behind when the library offers one descriptor.\<close>

definition uart_opens :: "vnd_env \<Rightarrow> bool" where
  "uart_opens n \<longleftrightarrow> dlopen_ok n \<and> dlsym_ok n \<and> init_status n = 0 \<and> fd_count n = 1 \<and> fd_list n \<noteq> [] \<and> hd (fd_list n) \<noteq> - 1"

lemma turned_on:
  assumes "uart_opens n" "g_vendor_interface s = None" "hci_cb s = Some c" "internal_cb s = None"
  shows "\<exists>s'. TurnOn e n s = Inr s' \<and> hal_ok s' \<and> hal_held s' = [] \<and> stack_msgs s' = stack_msgs s"
proof -
  obtain fd fds where "fd_list n = fd # fds" using assms(1) by (cases "fd_list n") (auto simp: uart_opens_def)
  then show ?thesis using assms
    by (simp add: TurnOn_def Initialize_def Open_def Let_def uart_opens_def CH_MAX_def hal_ok_def uart_of_def bt_emit_def
        h4_ok_def h4_new_def pz_idle_new hal_held_def h4_held_def stack_msgs_def List.map_filter_def)
qed

text \<open>C20: From the chip to the client: in every run, once the looper has turned the controller on over one
  descriptor and no command of the library is pending, any stream of good packets that then arrives
  reaches the client packet by packet, in order and unchanged, as the messages of their types,
  however the kernel divides it.\<close>

theorem bt_packets_reach_client:
  assumes "bt_run e xs bt_boot = Inr s" "current_state s \<noteq> kOnMsg" "msg_queue s = kOnMsg # q" "internal_cb s = None"
    "uart_opens n" "list_all (\<lambda>m. h4_packet (packet_of m)) ms" "list_all answered rss"
    "length (concat (map (\<lambda>m. h4_wire (packet_of m)) ms)) \<le> length rss"
  shows "\<exists>s1 s2. looper_step e n s = Inr s1 \<and>
    watch (vendor_readable e Ch_uart) rss (concat (map (\<lambda>m. h4_wire (packet_of m)) ms)) s1 = Inr ([], s2) \<and>
    stack_msgs s2 = stack_msgs s @ ms"
proof -
  have s: "vendor_on s" using life.reachable[OF assms(1)] .
  then obtain c where c: "hci_cb s = Some c" "g_vendor_interface s = None"
    using assms(2,3) by (cases "hci_cb s") (auto simp: vendor_on_def)
  let ?s = "s\<lparr>msg_queue := q\<rparr>"
  obtain s1 where s1: "TurnOn e n ?s = Inr s1" "hal_ok s1" "hal_held s1 = []" "stack_msgs s1 = stack_msgs s"
    using turned_on[OF assms(5), of ?s c e] c assms(4) by (auto simp: stack_msgs_def)
  let ?s1 = "bt_emit (State_changed kOnMsg) (s1\<lparr>current_state := kOnMsg\<rparr>)"
  have h: "Handle e n (current_state s) kOnMsg ?s = Some (TurnOn e n ?s)"
    using assms(2) by (cases "current_state s") simp_all
  have l: "looper_step e n s = Inr ?s1" using assms(3) h s1(1) by (simp add: looper_step_def handleMessage_def)
  have "hal_ok ?s1" "hal_held ?s1 = []" "stack_msgs ?s1 = stack_msgs s"
    using s1(2-4) by (simp_all add: hal_ok_def hal_held_def uart_of_def bt_emit_def stack_msgs_def List.map_filter_def)
  then show ?thesis using hal.stream_delivered[OF _ assms(6) _ assms(7,8), of ?s1 e] l by auto
qed

lemma bt_packets_reach_client_witness:
  "\<exists>s1 s2. looper_step sample_env uart_env (bt_initialize (Some 1) bt_boot) = Inr s1 \<and>
    watch (vendor_readable sample_env Ch_uart) (replicate 12 [Sys_err EAGAIN, Sys_ok 2])
      (concat (map (\<lambda>m. h4_wire (packet_of m)) [Hci_event_received [14, 1, 7], Acl_data_received [1, 0, 2, 0, 8, 9]])) s1
      = Inr ([], s2) \<and>
    stack_msgs s2 = stack_msgs (bt_initialize (Some 1) bt_boot) @ [Hci_event_received [14, 1, 7], Acl_data_received [1, 0, 2, 0, 8, 9]]"
  by (rule bt_packets_reach_client[of _ "[Bt_initialize (Some 1)]" _ "[]"])
    (simp_all add: bt_initialize_def bt_boot_def Transit_def uart_opens_def uart_env_def h4_packet_def received_types_def
      hci_packet_def HciGetPacketLengthForType_def h4_wire_def list_all_iff)

section \<open>More than one descriptor\<close>

text \<open>A vendor library that offers one descriptor for each of the four MCT channels is refused, because
  the count is compared with \<open>CH_MAX - 1\<close>; one that offers two or three is accepted, and the HAL then
  watches \<open>fd_list[CH_ACL_IN]\<close>, which the library has not set: descriptor 0, the initial value.\<close>

theorem mct_descriptors:
  assumes "dlopen_ok n" "dlsym_ok n" "init_status n = 0" "length (fd_list n) = 4"
    "list_all (\<lambda>fd. fd \<noteq> - 1) (fd_list n)" "g_vendor_interface s = None"
  shows "(fd_count n = 4 \<longrightarrow> fst (Initialize e n s) = False) \<and>
    (fd_count n \<in> {2, 3} \<and> fd_list n ! 3 = 0 \<longrightarrow> (\<exists>v s'. Initialize e n s = (True, s') \<and> g_vendor_interface s' = Some v \<and>
       v_transport v = Some (Mct mct_new) \<and> v_watched v = [fd_list n ! 1, 0]))"
proof -
  have "\<not> list_ex (\<lambda>fd. fd = - 1) (take k (fd_list n))" for k
    using assms(5) by (auto simp: list_ex_iff list_all_iff dest: in_set_takeD)
  then show ?thesis using assms by (auto simp: Initialize_def Open_def CH_MAX_def Let_def bt_emit_def)
qed

lemma mct_descriptors_witness:
  "fst (Initialize sample_env \<lparr>dlopen_ok = True, dlsym_ok = True, init_status = 0, fd_count = 4, fd_list = [5, 6, 7, 8]\<rparr> bt_boot) = False"
  using mct_descriptors[of "\<lparr>dlopen_ok = True, dlsym_ok = True, init_status = 0, fd_count = 4, fd_list = [5, 6, 7, 8]\<rparr>" bt_boot sample_env]
  by (simp add: bt_boot_def)

end
