(* ===== verification/Eloop.thy ===== *)
theory Eloop
  imports Prelude "HOL-Library.Multiset"
begin

text \<open>
  The event loop of the connectivity core-dump daemon (\<open>combo_tool/src/stp_dump/eloop.c\<close> with the time
  macros of \<open>os_linux.h\<close>): descriptors with handlers, timeouts in a list kept in the order of their
  times, signals that are handled outside the signal context. Handlers are client code: what they
  call of the loop's interface is an argument, as are the clock and the answers of \<open>select\<close>.
  \<open>el_log\<close> records what was registered, cancelled and called.
\<close>

section \<open>Time\<close>

type_synonym os_time = "int \<times> int"

definition os_time_before :: "os_time \<Rightarrow> os_time \<Rightarrow> bool" where
  "os_time_before a b \<longleftrightarrow> fst a < fst b \<or> fst a = fst b \<and> snd a < snd b"

definition os_time_sub :: "os_time \<Rightarrow> os_time \<Rightarrow> os_time" where
  "os_time_sub a b = (let sec = fst a - fst b; usec = snd a - snd b
     in if usec < 0 then (sec - 1, usec + 1000000) else (sec, usec))"

text \<open>The loop that carries microseconds over into seconds.\<close>

function carry_usec :: "os_time \<Rightarrow> os_time" where
  "carry_usec (sec, usec) = (if 1000000 \<le> usec then carry_usec (sec + 1, usec - 1000000) else (sec, usec))"
  by pat_completeness auto
termination by (relation "measure (\<lambda>(sec, usec). nat usec)") auto

section \<open>State\<close>

record eloop_sock =
  es_sock :: int
  es_data :: nat
  es_user :: nat
  es_handler :: nat

record eloop_timeout =
  et_time :: os_time
  et_data :: nat
  et_user :: nat
  et_handler :: nat

record eloop_signal =
  sg_sig :: int
  sg_user :: nat
  sg_handler :: nat
  sg_signaled :: nat

record sock_table =
  st_table :: "eloop_sock list"
  st_changed :: bool

datatype eloop_event_type = EVENT_TYPE_READ | EVENT_TYPE_WRITE | EVENT_TYPE_EXCEPTION

datatype eloop_trace = Sock_registered eloop_event_type eloop_sock | Sock_unregistered eloop_event_type int
  | Sock_called eloop_event_type eloop_sock
  | Timeout_registered eloop_timeout | Timeout_cancelled eloop_timeout | Timeout_called os_time eloop_timeout
  | Signal_called int nat

record eloop =
  max_sock :: int
  tables :: "eloop_event_type \<Rightarrow> sock_table"
  timeouts :: "eloop_timeout list"
  signals :: "eloop_signal list"
  signaled :: nat
  pending_terminate :: bool
  terminate :: bool
  el_log :: "eloop_trace list"

definition eloop_init :: eloop where
  "eloop_init = \<lparr>max_sock = 0, tables = (\<lambda>t. \<lparr>st_table = [], st_changed = False\<rparr>), timeouts = [], signals = [],
                 signaled = 0, pending_terminate = False, terminate = False, el_log = []\<rparr>"

definition el_trace :: "eloop_trace \<Rightarrow> eloop \<Rightarrow> eloop" where
  "el_trace x s = s\<lparr>el_log := el_log s @ [x]\<rparr>"

section \<open>Descriptors\<close>

definition eloop_register_sock :: "bool \<Rightarrow> eloop_event_type \<Rightarrow> eloop_sock \<Rightarrow> eloop \<Rightarrow> int \<times> eloop" where
  "eloop_register_sock mem_ok type e s =
     (if \<not> mem_ok then (- 1, s)
      else (0, el_trace (Sock_registered type e)
        (s\<lparr>tables := (tables s)(type := \<lparr>st_table = st_table (tables s type) @ [e], st_changed = True\<rparr>),
           max_sock := max (max_sock s) (es_sock e)\<rparr>)))"

text \<open>Only the first entry of the descriptor is removed.\<close>

fun remove_sock :: "int \<Rightarrow> eloop_sock list \<Rightarrow> eloop_sock list option" where
    "remove_sock sock [] = None"
  | "remove_sock sock (e # es) = (if es_sock e = sock then Some es else map_option ((#) e) (remove_sock sock es))"

definition eloop_unregister_sock :: "int \<Rightarrow> eloop_event_type \<Rightarrow> eloop \<Rightarrow> eloop" where
  "eloop_unregister_sock sock type s = (case remove_sock sock (st_table (tables s type)) of
     None \<Rightarrow> s
   | Some es \<Rightarrow> el_trace (Sock_unregistered type sock)
       (s\<lparr>tables := (tables s)(type := \<lparr>st_table = es, st_changed = True\<rparr>)\<rparr>))"

section \<open>Timeouts\<close>

fun insert_timeout :: "eloop_timeout \<Rightarrow> eloop_timeout list \<Rightarrow> eloop_timeout list" where
    "insert_timeout t [] = [t]"
  | "insert_timeout t (x # xs) = (if os_time_before (et_time t) (et_time x) then t # x # xs else x # insert_timeout t xs)"

text \<open>\<open>now\<close> is the answer of \<open>os_get_time\<close>, \<open>None\<close> when it fails.\<close>

definition eloop_register_timeout :: "bool \<Rightarrow> os_time option \<Rightarrow> nat \<Rightarrow> nat \<Rightarrow> nat \<Rightarrow> nat \<Rightarrow> nat \<Rightarrow> eloop \<Rightarrow> int \<times> eloop" where
  "eloop_register_timeout mem_ok now secs usecs handler eloop_data user_data s =
     (if \<not> mem_ok then (- 1, s)
      else case now of
        None \<Rightarrow> (- 1, s)
      | Some (sec, usec) \<Rightarrow>
          let t = \<lparr>et_time = carry_usec (sec + int secs, usec + int usecs), et_data = eloop_data, et_user = user_data,
                   et_handler = handler\<rparr>
          in (0, el_trace (Timeout_registered t) (s\<lparr>timeouts := insert_timeout t (timeouts s)\<rparr>)))"

text \<open>\<open>None\<close> is \<open>ELOOP_ALL_CTX\<close>.\<close>

definition cancels :: "nat \<Rightarrow> nat option \<Rightarrow> nat option \<Rightarrow> eloop_timeout \<Rightarrow> bool" where
  "cancels handler eloop_data user_data t \<longleftrightarrow> et_handler t = handler \<and>
     (eloop_data = None \<or> eloop_data = Some (et_data t)) \<and> (user_data = None \<or> user_data = Some (et_user t))"

fun cancel_loop :: "(eloop_timeout \<Rightarrow> bool) \<Rightarrow> eloop_timeout list \<Rightarrow> nat \<times> eloop_timeout list \<times> eloop_timeout list" where
    "cancel_loop hit [] = (0, [], [])"
  | "cancel_loop hit (t # ts) = (let (n, kept, freed) = cancel_loop hit ts
       in if hit t then (Suc n, kept, t # freed) else (n, t # kept, freed))"

definition eloop_cancel_timeout :: "nat \<Rightarrow> nat option \<Rightarrow> nat option \<Rightarrow> eloop \<Rightarrow> nat \<times> eloop" where
  "eloop_cancel_timeout handler eloop_data user_data s =
     (let (removed, kept, freed) = cancel_loop (cancels handler eloop_data user_data) (timeouts s)
      in (removed, s\<lparr>timeouts := kept, el_log := el_log s @ map Timeout_cancelled freed\<rparr>))"

definition eloop_is_timeout_registered :: "nat \<Rightarrow> nat \<Rightarrow> nat \<Rightarrow> eloop \<Rightarrow> bool" where
  "eloop_is_timeout_registered handler eloop_data user_data s =
     list_ex (\<lambda>t. et_handler t = handler \<and> et_data t = eloop_data \<and> et_user t = user_data) (timeouts s)"

definition eloop_terminate :: "eloop \<Rightarrow> eloop" where
  "eloop_terminate s = s\<lparr>terminate := True\<rparr>"

section \<open>What handlers do\<close>

datatype eloop_op = Register_sock bool eloop_event_type eloop_sock | Unregister_sock int eloop_event_type
  | Register_timeout bool "os_time option" nat nat nat nat nat | Cancel_timeout nat "nat option" "nat option"
  | Terminate

fun eloop_api :: "eloop_op \<Rightarrow> eloop \<Rightarrow> eloop" where
    "eloop_api (Register_sock ok type e) s = snd (eloop_register_sock ok type e s)"
  | "eloop_api (Unregister_sock sock type) s = eloop_unregister_sock sock type s"
  | "eloop_api (Register_timeout ok now sec usec h d u) s = snd (eloop_register_timeout ok now sec usec h d u s)"
  | "eloop_api (Cancel_timeout h d u) s = snd (eloop_cancel_timeout h d u s)"
  | "eloop_api Terminate s = eloop_terminate s"

text \<open>The handler that a call in the trace stands for makes these calls.\<close>

type_synonym handlers = "eloop_trace \<Rightarrow> eloop_op list"

definition eloop_call :: "handlers \<Rightarrow> eloop_trace \<Rightarrow> eloop \<Rightarrow> eloop" where
  "eloop_call hs x s = fold eloop_api (hs x) (el_trace x s)"

section \<open>Signals\<close>

definition eloop_register_signal :: "bool \<Rightarrow> int \<Rightarrow> nat \<Rightarrow> nat \<Rightarrow> eloop \<Rightarrow> int \<times> eloop" where
  "eloop_register_signal mem_ok sig handler user_data s =
     (if \<not> mem_ok then (- 1, s)
      else (0, s\<lparr>signals := signals s @ [\<lparr>sg_sig = sig, sg_user = user_data, sg_handler = handler, sg_signaled = 0\<rparr>]\<rparr>))"

definition SIGINT :: int where "SIGINT = 2"
definition SIGTERM :: int where "SIGTERM = 15"
definition SIGSEGV :: int where "SIGSEGV = 11"

definition eloop_register_signal_terminate :: "(int \<Rightarrow> bool) \<Rightarrow> nat \<Rightarrow> nat \<Rightarrow> eloop \<Rightarrow> int \<times> eloop" where
  "eloop_register_signal_terminate mem_ok handler user_data s =
     (let (ret, s) = eloop_register_signal (mem_ok SIGINT) SIGINT handler user_data s;
          (ret, s) = (if ret = 0 then eloop_register_signal (mem_ok SIGTERM) SIGTERM handler user_data s else (ret, s))
      in if ret = 0 then eloop_register_signal (mem_ok SIGSEGV) SIGSEGV handler user_data s else (ret, s))"

text \<open>The signal handler proper: it only counts, for the first entry of the signal.\<close>

fun mark_signal :: "int \<Rightarrow> eloop_signal list \<Rightarrow> eloop_signal list" where
    "mark_signal sig [] = []"
  | "mark_signal sig (g # gs) = (if sg_sig g = sig then g\<lparr>sg_signaled := sg_signaled g + 1\<rparr> # gs else g # mark_signal sig gs)"

definition eloop_handle_signal :: "int \<Rightarrow> eloop \<Rightarrow> eloop" where
  "eloop_handle_signal sig s =
     s\<lparr>pending_terminate := pending_terminate s \<or> sig = SIGINT \<or> sig = SIGTERM,
       signaled := signaled s + 1, signals := mark_signal sig (signals s)\<rparr>"

text \<open>The loop over the signals by index; handlers do not register signals.\<close>

fun process_signals :: "handlers \<Rightarrow> nat \<Rightarrow> nat \<Rightarrow> eloop \<Rightarrow> eloop" where
    "process_signals hs i 0 s = s"
  | "process_signals hs i (Suc n) s =
       (let g = signals s ! i
        in if 0 < sg_signaled g
           then process_signals hs (Suc i) n (eloop_call hs (Signal_called (sg_sig g) (sg_handler g))
                  (s\<lparr>signals := (signals s)[i := g\<lparr>sg_signaled := 0\<rparr>]\<rparr>))
           else process_signals hs (Suc i) n s)"

definition eloop_process_pending_signals :: "handlers \<Rightarrow> eloop \<Rightarrow> eloop" where
  "eloop_process_pending_signals hs s =
     (if signaled s = 0 then s
      else process_signals hs 0 (length (signals s)) (s\<lparr>signaled := 0, pending_terminate := False\<rparr>))"

section \<open>The loop\<close>

text \<open>
  The table changes only together with its flag, so as long as the flag is clear the remaining
  entries are those of the list at hand.
\<close>

fun dispatch_socks :: "handlers \<Rightarrow> eloop_event_type \<Rightarrow> (int \<Rightarrow> bool) \<Rightarrow> eloop_sock list \<Rightarrow> eloop \<Rightarrow> eloop" where
    "dispatch_socks hs type fds [] s = s"
  | "dispatch_socks hs type fds (e # es) s =
       (if fds (es_sock e)
        then let s = eloop_call hs (Sock_called type e) s
             in if st_changed (tables s type) then s else dispatch_socks hs type fds es s
        else dispatch_socks hs type fds es s)"

definition eloop_sock_table_dispatch :: "handlers \<Rightarrow> eloop_event_type \<Rightarrow> (int \<Rightarrow> bool) \<Rightarrow> eloop \<Rightarrow> eloop" where
  "eloop_sock_table_dispatch hs type fds s =
     dispatch_socks hs type fds (st_table (tables s type))
       (s\<lparr>tables := (tables s)(type := (tables s type)\<lparr>st_changed := False\<rparr>)\<rparr>)"

text \<open>
  What one round of the loop meets: the signals that arrive, the answer of \<open>select\<close> (\<open>None\<close> for an
  error other than an interruption) with the descriptors it reports, and the time afterwards.
\<close>

record eloop_round =
  ro_signals :: "int list"
  ro_select :: "int option"
  ro_fds :: "eloop_event_type \<Rightarrow> int \<Rightarrow> bool"
  ro_now :: os_time
  ro_handlers :: handlers

definition run_timeout :: "handlers \<Rightarrow> os_time \<Rightarrow> eloop \<Rightarrow> eloop" where
  "run_timeout hs now s = (case timeouts s of
     [] \<Rightarrow> s
   | t # ts \<Rightarrow> if os_time_before now (et_time t) then s else eloop_call hs (Timeout_called now t) (s\<lparr>timeouts := ts\<rparr>))"

definition eloop_round :: "eloop_round \<Rightarrow> eloop \<Rightarrow> eloop option" where
  "eloop_round r s =
     (let s = fold eloop_handle_signal (ro_signals r) s; hs = ro_handlers r
      in case ro_select r of
           None \<Rightarrow> None
         | Some res \<Rightarrow>
             let s = run_timeout hs (ro_now r) (eloop_process_pending_signals hs s)
             in if res \<le> 0 then Some s
                else Some (eloop_sock_table_dispatch hs EVENT_TYPE_EXCEPTION (ro_fds r EVENT_TYPE_EXCEPTION)
                       (eloop_sock_table_dispatch hs EVENT_TYPE_WRITE (ro_fds r EVENT_TYPE_WRITE)
                         (eloop_sock_table_dispatch hs EVENT_TYPE_READ (ro_fds r EVENT_TYPE_READ) s))))"

definition eloop_busy :: "eloop \<Rightarrow> bool" where
  "eloop_busy s \<longleftrightarrow> \<not> terminate s \<and> (timeouts s \<noteq> [] \<or>
     list_ex (\<lambda>type. st_table (tables s type) \<noteq> []) [EVENT_TYPE_READ, EVENT_TYPE_WRITE, EVENT_TYPE_EXCEPTION])"

text \<open>How long \<open>select\<close> may wait: not at all when a timeout is due, for ever without one.\<close>

definition select_timeout :: "os_time \<Rightarrow> eloop \<Rightarrow> os_time option" where
  "select_timeout now s = (case timeouts s of
     [] \<Rightarrow> None
   | t # ts \<Rightarrow> Some (if os_time_before now (et_time t) then os_time_sub (et_time t) now else (0, 0)))"

text \<open>\<open>eloop_run\<close> over the rounds so far: the state, and whether the loop has ended.\<close>

fun eloop_run :: "eloop_round list \<Rightarrow> eloop \<Rightarrow> bool \<times> eloop" where
    "eloop_run [] s = (\<not> eloop_busy s, s)"
  | "eloop_run (r # rs) s =
       (if eloop_busy s
        then case eloop_round r s of None \<Rightarrow> (True, s) | Some s \<Rightarrow> eloop_run rs s
        else (True, s))"

end
