(* ===== verification/Eloop_Props.thy ===== *)
theory Eloop_Props
  imports Eloop "HOL-Library.Product_Lexorder"
begin

text \<open>
  The event loop against an abstract one, which keeps a multiset of pending timeouts and the entries of
  each table and says which events are allowed; the order in which timeouts are called; and that
  due timeouts are called. \<open>loop_invariant\<close> reduces an invariant of the loop to the calls of its interface.
\<close>

section \<open>The abstract loop\<close>

record loop_spec =
  sp_pending :: "eloop_timeout multiset"
  sp_entries :: "eloop_event_type \<Rightarrow> eloop_sock list"

fun spec_step :: "eloop_trace \<Rightarrow> loop_spec \<Rightarrow> loop_spec option" where
    "spec_step (Timeout_registered t) p = Some (p\<lparr>sp_pending := add_mset t (sp_pending p)\<rparr>)"
  | "spec_step (Timeout_cancelled t) p =
       (if t \<in># sp_pending p then Some (p\<lparr>sp_pending := sp_pending p - {#t#}\<rparr>) else None)"
  | "spec_step (Timeout_called now t) p =
       (if t \<in># sp_pending p \<and> \<not> os_time_before now (et_time t) \<and>
           (\<forall>u\<in>#sp_pending p. \<not> os_time_before (et_time u) (et_time t))
        then Some (p\<lparr>sp_pending := sp_pending p - {#t#}\<rparr>) else None)"
  | "spec_step (Sock_registered type e) p = Some (p\<lparr>sp_entries := (sp_entries p)(type := sp_entries p type @ [e])\<rparr>)"
  | "spec_step (Sock_unregistered type sock) p = (case remove_sock sock (sp_entries p type) of
       None \<Rightarrow> None | Some es \<Rightarrow> Some (p\<lparr>sp_entries := (sp_entries p)(type := es)\<rparr>))"
  | "spec_step (Sock_called type e) p = (if e \<in> set (sp_entries p type) then Some p else None)"
  | "spec_step (Signal_called sig h) p = Some p"

fun spec_run :: "eloop_trace list \<Rightarrow> loop_spec \<Rightarrow> loop_spec option" where
    "spec_run [] p = Some p"
  | "spec_run (x # xs) p = spec_step x p \<bind> spec_run xs"

lemma spec_run_append: "spec_run (xs @ ys) p = spec_run xs p \<bind> spec_run ys"
  by (induction xs p rule: spec_run.induct) (auto intro!: Option.bind_cong[OF refl] simp: Option.bind_assoc)

definition spec_init :: loop_spec where
  "spec_init = \<lparr>sp_pending = {#}, sp_entries = (\<lambda>t. [])\<rparr>"

definition abs_loop :: "eloop \<Rightarrow> loop_spec" where
  "abs_loop s = \<lparr>sp_pending = mset (timeouts s), sp_entries = (\<lambda>t. st_table (tables s t))\<rparr>"

section \<open>Invariants of the loop\<close>

locale loop_invariant =
  fixes I :: "eloop \<Rightarrow> bool"
  assumes init: "I eloop_init"
    and api: "I s \<Longrightarrow> I (eloop_api op s)"
    and signal: "I s \<Longrightarrow> I (s\<lparr>signals := gs\<rparr>)" "I s \<Longrightarrow> I (s\<lparr>signaled := n, pending_terminate := b\<rparr>)"
    and flag: "I s \<Longrightarrow> I (s\<lparr>tables := (tables s)(type := (tables s type)\<lparr>st_changed := False\<rparr>)\<rparr>)"
    and signal_call: "I s \<Longrightarrow> I (el_trace (Signal_called g h) s)"
    and sock_call: "I s \<Longrightarrow> e \<in> set (st_table (tables s type)) \<Longrightarrow> I (el_trace (Sock_called type e) s)"
    and timeout_call: "I s \<Longrightarrow> timeouts s = t # ts \<Longrightarrow> \<not> os_time_before now (et_time t) \<Longrightarrow>
      I (el_trace (Timeout_called now t) (s\<lparr>timeouts := ts\<rparr>))"
begin

lemma apis_keep: "I s \<Longrightarrow> I (fold eloop_api ops s)"
  by (induction ops arbitrary: s) (simp_all add: api)

lemma call_keeps: "I (el_trace x s) \<Longrightarrow> I (eloop_call hs x s)"
  by (simp add: eloop_call_def apis_keep)

lemma signals_keep: "I s \<Longrightarrow> I (process_signals hs i n s)"
proof (induction hs i n s rule: process_signals.induct)
  case (2 hs i n s)
  then show ?case by (simp add: Let_def call_keeps signal_call signal)
qed simp

end

text \<open>A table whose flag is clear after some calls is the table from before them.\<close>

lemma api_unchanged:
  "\<not> st_changed (tables (eloop_api op s) type) \<Longrightarrow>
   tables (eloop_api op s) type = tables s type"
  by (cases op) (auto simp: eloop_register_sock_def eloop_unregister_sock_def eloop_register_timeout_def
      eloop_cancel_timeout_def eloop_terminate_def el_trace_def Let_def split: option.split_asm if_split_asm prod.splits)

lemma apis_unchanged:
  "\<not> st_changed (tables (fold eloop_api ops s) type) \<Longrightarrow> tables (fold eloop_api ops s) type = tables s type"
proof (induction ops arbitrary: s)
  case (Cons op ops)
  have "tables (fold eloop_api ops (eloop_api op s)) type = tables (eloop_api op s) type"
    using Cons.IH Cons.prems by simp
  then show ?case using Cons.prems api_unchanged[of op s type] by simp
qed simp

context loop_invariant
begin

lemma dispatch_keeps:
  "I s \<Longrightarrow> set es \<subseteq> set (st_table (tables s type)) \<Longrightarrow> I (dispatch_socks hs type fds es s)"
proof (induction hs type fds es s rule: dispatch_socks.induct)
  case (2 hs type fds e es s)
  let ?s = "eloop_call hs (Sock_called type e) s"
  have "I ?s" using "2.prems" by (intro call_keeps sock_call) auto
  moreover have "st_table (tables ?s type) = st_table (tables s type)" if "\<not> st_changed (tables ?s type)"
    using apis_unchanged[of "hs (Sock_called type e)" "el_trace (Sock_called type e) s" type] that
    by (simp add: eloop_call_def el_trace_def)
  ultimately show ?case using 2 by (simp add: Let_def)
qed simp

lemma table_keeps: "I s \<Longrightarrow> I (eloop_sock_table_dispatch hs type fds s)"
  unfolding eloop_sock_table_dispatch_def by (intro dispatch_keeps flag) simp_all

lemma timeout_keeps: "I s \<Longrightarrow> I (run_timeout hs now s)"
  by (auto simp: run_timeout_def call_keeps timeout_call split: list.split)

lemma arriving_keep: "I s \<Longrightarrow> I (fold eloop_handle_signal gs s)"
proof (induction gs arbitrary: s)
  case (Cons g gs)
  have "eloop_handle_signal g s = (s\<lparr>signaled := signaled s + 1,
      pending_terminate := pending_terminate s \<or> g = SIGINT \<or> g = SIGTERM\<rparr>)\<lparr>signals := mark_signal g (signals s)\<rparr>"
    by (cases s) (simp add: eloop_handle_signal_def)
  then have "I (eloop_handle_signal g s)" using signal(1)[OF signal(2)[OF Cons.prems]] by metis
  then show ?case using Cons.IH by simp
qed simp

lemma round_keeps: "I s \<Longrightarrow> pred_option I (eloop_round r s)"
proof -
  assume "I s"
  then have "I (run_timeout hs now (eloop_process_pending_signals hs (fold eloop_handle_signal gs s)))" for hs now gs
    unfolding eloop_process_pending_signals_def by (intro timeout_keeps) (simp add: signals_keep signal arriving_keep)
  then show ?thesis by (auto simp: eloop_round_def Let_def table_keeps split: option.split)
qed

lemma run_keeps: "I s \<Longrightarrow> I (snd (eloop_run rs s))"
proof (induction rs arbitrary: s)
  case (Cons r rs)
  then show ?case using round_keeps[OF Cons.prems, of r] by (auto split: option.split)
qed simp

lemma reachable: "I (snd (eloop_run rs (fold eloop_api ops eloop_init)))"
  by (intro run_keeps apis_keep init)

end

section \<open>Order of the timeouts\<close>

lemma os_time_before_less: "os_time_before a b \<longleftrightarrow> a < b"
  by (cases a; cases b) (auto simp: os_time_before_def)

definition due_order :: "eloop_timeout list \<Rightarrow> bool" where
  "due_order ts = sorted (map et_time ts)"

lemma set_insert_timeout: "mset (insert_timeout t ts) = add_mset t (mset ts)"
  by (induction ts) auto

lemma due_order_insert: "due_order ts \<Longrightarrow> due_order (insert_timeout t ts)"
proof (induction ts)
  case (Cons x xs)
  have "set (insert_timeout t xs) = insert t (set xs)"
    using set_insert_timeout[of t xs] by (metis set_mset_add_mset_insert set_mset_mset)
  then show ?case using Cons by (auto simp: due_order_def os_time_before_less)
qed (simp add: due_order_def)

lemma cancel_loop_eq: "cancel_loop hit ts = (length (filter hit ts), filter (\<lambda>t. \<not> hit t) ts, filter hit ts)"
  by (induction ts) auto

lemma due_order_filter: "due_order ts \<Longrightarrow> due_order (filter p ts)"
  by (simp add: due_order_def sorted_filter)

lemma cancel_run:
  "sp_pending p = mset freed + k \<Longrightarrow> spec_run (map Timeout_cancelled freed) p = Some (p\<lparr>sp_pending := k\<rparr>)"
  by (induction freed arbitrary: p) auto

definition refines :: "eloop \<Rightarrow> bool" where
  "refines s \<longleftrightarrow> spec_run (el_log s) spec_init = Some (abs_loop s) \<and> due_order (timeouts s)"

lemma refines_trace:
  assumes "spec_run (el_log s) spec_init = Some p" "spec_step x p = Some (abs_loop s)" "due_order (timeouts s)"
  shows "refines (el_trace x s)"
  using assms by (simp add: refines_def el_trace_def spec_run_append abs_loop_def)

lemma refines_api: "refines s \<Longrightarrow> refines (eloop_api op s)"
proof (cases op)
  case (Register_sock ok type e)
  assume s: "refines s"
  have "refines (el_trace (Sock_registered type e) (s\<lparr>tables := (tables s)(type :=
      \<lparr>st_table = st_table (tables s type) @ [e], st_changed = True\<rparr>), max_sock := m\<rparr>))" for m
    by (rule refines_trace[of _ "abs_loop s"]) (use s in \<open>auto simp: refines_def abs_loop_def fun_eq_iff\<close>)
  then show ?thesis using s Register_sock by (simp add: eloop_register_sock_def)
next
  case (Unregister_sock sock type)
  assume s: "refines s"
  have "refines (el_trace (Sock_unregistered type sock)
      (s\<lparr>tables := (tables s)(type := \<lparr>st_table = es, st_changed = True\<rparr>)\<rparr>))"
    if "remove_sock sock (st_table (tables s type)) = Some es" for es
    by (rule refines_trace[of _ "abs_loop s"]) (use s that in \<open>auto simp: refines_def abs_loop_def fun_eq_iff\<close>)
  then show ?thesis using s Unregister_sock by (simp add: eloop_unregister_sock_def split: option.split)
next
  case (Register_timeout ok now secs usecs h d u)
  assume s: "refines s"
  have "refines (el_trace (Timeout_registered t) (s\<lparr>timeouts := insert_timeout t (timeouts s)\<rparr>))" for t
    by (rule refines_trace[of _ "abs_loop s"])
      (use s in \<open>simp_all add: refines_def abs_loop_def set_insert_timeout due_order_insert\<close>)
  then show ?thesis using s Register_timeout
    by (simp add: eloop_register_timeout_def Let_def split: option.split)
next
  case (Cancel_timeout h d u)
  assume s: "refines s"
  let ?hit = "cancels h d u"
  have "spec_run (map Timeout_cancelled (filter ?hit (timeouts s))) (abs_loop s) =
      Some ((abs_loop s)\<lparr>sp_pending := mset (filter (\<lambda>t. \<not> ?hit t) (timeouts s))\<rparr>)"
    by (rule cancel_run) (simp add: abs_loop_def)
  then show ?thesis using s Cancel_timeout
    by (simp add: eloop_cancel_timeout_def cancel_loop_eq refines_def spec_run_append due_order_filter) (simp add: abs_loop_def)
next
  case Terminate
  then show "refines s \<Longrightarrow> ?thesis" by (simp add: eloop_terminate_def refines_def abs_loop_def)
qed

interpretation loop: loop_invariant refines
proof unfold_locales
  show "refines eloop_init"
    by (simp add: refines_def eloop_init_def spec_init_def abs_loop_def due_order_def)
next
  fix s :: eloop and type
  have "st_table ((((tables s)(type := (tables s type)\<lparr>st_changed := False\<rparr>)) t)) = st_table (tables s t)" for t by simp
  then show "refines s \<Longrightarrow> refines (s\<lparr>tables := (tables s)(type := (tables s type)\<lparr>st_changed := False\<rparr>)\<rparr>)"
    by (simp add: refines_def abs_loop_def)
next
  fix s e type
  show "refines s \<Longrightarrow> e \<in> set (st_table (tables s type)) \<Longrightarrow> refines (el_trace (Sock_called type e) s)"
    by (rule refines_trace[of _ "abs_loop s"]) (simp_all add: refines_def abs_loop_def)
next
  fix s t ts now
  assume s: "refines s" "timeouts s = t # ts" "\<not> os_time_before now (et_time t)"
  have "\<forall>u\<in>#mset (timeouts s). \<not> os_time_before (et_time u) (et_time t)" "due_order ts"
    using s(1,2) by (auto simp: refines_def due_order_def os_time_before_less)
  then have "spec_step (Timeout_called now t) (abs_loop s) = Some (abs_loop (s\<lparr>timeouts := ts\<rparr>))"
    using s(2,3) by (simp add: abs_loop_def)
  then show "refines (el_trace (Timeout_called now t) (s\<lparr>timeouts := ts\<rparr>))"
    using s(1) \<open>due_order ts\<close> by (intro refines_trace[of _ "abs_loop s"]) (simp_all add: refines_def)
next
  fix s op
  show "refines s \<Longrightarrow> refines (eloop_api op s)" by (rule refines_api)
qed (simp_all add: refines_def abs_loop_def el_trace_def spec_run_append)


section \<open>Equal times\<close>

lemma filter_insert_timeout:
  "due_order ts \<Longrightarrow> filter (\<lambda>x. k = et_time x) (insert_timeout t ts) =
     (if k = et_time t then filter (\<lambda>x. k = et_time x) ts @ [t] else filter (\<lambda>x. k = et_time x) ts)"
proof (induction ts)
  case (Cons x xs)
  have later: "filter (\<lambda>y. et_time t = et_time y) (x # xs) = []" if "et_time t < et_time x"
    using Cons.prems that by (auto simp: due_order_def filter_empty_conv)
  have "due_order xs" using Cons.prems by (simp add: due_order_def)
  then show ?case using Cons.IH later by (auto simp: os_time_before_less)
qed simp

text \<open>The list of timeouts is the stable sort of the registrations: timeouts are kept in the order of
  their times, and those with the same time in the order of their registration.\<close>

theorem timeouts_stable_sorted: "fold insert_timeout ts [] = sort_key et_time ts"
proof -
  have "due_order (fold insert_timeout ts qs) \<and> mset (fold insert_timeout ts qs) = mset qs + mset ts \<and>
      filter (\<lambda>x. k = et_time x) (fold insert_timeout ts qs) = filter (\<lambda>x. k = et_time x) qs @ filter (\<lambda>x. k = et_time x) ts"
    if "due_order qs" for qs k
    using that by (induction ts arbitrary: qs) (simp_all add: due_order_insert set_insert_timeout filter_insert_timeout)
  from this[of "[]"] show ?thesis
    by (intro properties_for_sort_key[symmetric]) (simp_all add: due_order_def)
qed

section \<open>Due timeouts are called\<close>

fun called_timeout :: "eloop_trace \<Rightarrow> eloop_timeout option" where
    "called_timeout (Timeout_called now t) = Some t"
  | "called_timeout x = None"

definition called_timeouts :: "eloop \<Rightarrow> eloop_timeout list" where
  "called_timeouts s = List.map_filter called_timeout (el_log s)"

definition silent_round :: "eloop_timeout list \<Rightarrow> eloop_round \<Rightarrow> bool" where
  "silent_round ts r \<longleftrightarrow> ro_select r \<noteq> None \<and> (\<forall>x. ro_handlers r x = []) \<and>
     list_all (\<lambda>t. \<not> os_time_before (ro_now r) (et_time t)) ts"

definition core_of :: "eloop \<Rightarrow> bool \<times> eloop_timeout list \<times> eloop_timeout list" where
  "core_of s = (terminate s, timeouts s, called_timeouts s)"

lemma core_signals: "core_of (fold eloop_handle_signal gs s) = core_of s"
  by (induction gs arbitrary: s) (simp_all add: eloop_handle_signal_def core_of_def called_timeouts_def)

lemma core_silent_call:
  "hs x = [] \<Longrightarrow> called_timeout x = None \<Longrightarrow> core_of (eloop_call hs x s) = core_of s"
  by (simp add: eloop_call_def el_trace_def core_of_def called_timeouts_def List.map_filter_def)

lemma core_process: "(\<And>x. hs x = []) \<Longrightarrow> core_of (process_signals hs i n s) = core_of s"
  by (induction hs i n s rule: process_signals.induct)
    (simp_all add: Let_def core_silent_call, simp add: core_of_def called_timeouts_def)

lemma core_pending: "(\<And>x. hs x = []) \<Longrightarrow> core_of (eloop_process_pending_signals hs s) = core_of s"
  using core_process[of hs 0 "length (signals s)" "s\<lparr>signaled := 0, pending_terminate := False\<rparr>"]
  by (simp add: eloop_process_pending_signals_def) (simp add: core_of_def called_timeouts_def)

lemma core_dispatch: "(\<And>x. hs x = []) \<Longrightarrow> core_of (dispatch_socks hs type fds es s) = core_of s"
  by (induction hs type fds es s rule: dispatch_socks.induct) (simp_all add: Let_def core_silent_call)

lemma core_table: "(\<And>x. hs x = []) \<Longrightarrow> core_of (eloop_sock_table_dispatch hs type fds s) = core_of s"
  using core_dispatch[of hs type fds "st_table (tables s type)"
      "s\<lparr>tables := (tables s)(type := (tables s type)\<lparr>st_changed := False\<rparr>)\<rparr>"]
  by (simp add: eloop_sock_table_dispatch_def) (simp add: core_of_def called_timeouts_def)

lemma silent_step:
  assumes "silent_round ts r" "timeouts s = t # ts'" "t \<in> set ts"
  shows "\<exists>s'. eloop_round r s = Some s' \<and> terminate s' = terminate s \<and> timeouts s' = ts' \<and>
    called_timeouts s' = called_timeouts s @ [t]"
proof -
  have hs: "ro_handlers r x = []" for x using assms(1) by (simp add: silent_round_def)
  let ?s = "eloop_process_pending_signals (ro_handlers r) (fold eloop_handle_signal (ro_signals r) s)"
  let ?t = "run_timeout (ro_handlers r) (ro_now r) ?s"
  have c: "core_of ?s = core_of s" by (simp add: core_pending[OF hs] core_signals)
  have "\<not> os_time_before (ro_now r) (et_time t)" using assms(1,3) by (auto simp: silent_round_def list_all_iff)
  then have t: "core_of ?t = (terminate s, ts', called_timeouts s @ [t])"
    using c assms(2) hs by (auto simp: run_timeout_def eloop_call_def el_trace_def core_of_def called_timeouts_def List.map_filter_def)
  obtain res where "ro_select r = Some res" using assms(1) by (auto simp: silent_round_def)
  then have "\<exists>s'. eloop_round r s = Some s' \<and> core_of s' = core_of ?t"
    using core_table[OF hs] by (auto simp: eloop_round_def Let_def)
  then show ?thesis using t by (auto simp: core_of_def)
qed

text \<open>Due timeouts are called: from any state that is not terminated, when in each of as many rounds
  as there are timeouts all of them are due and the handlers do not touch the loop, every timeout has
  been called, once and in the order of the list, and none is left.\<close>

theorem due_timeouts_called:
  assumes "\<not> terminate s" "list_all (silent_round (timeouts s)) rs" "length rs = length (timeouts s)"
  shows "\<exists>s'. snd (eloop_run rs s) = s' \<and> timeouts s' = [] \<and> called_timeouts s' = called_timeouts s @ timeouts s"
proof -
  have "timeouts (snd (eloop_run rs s)) = [] \<and> called_timeouts (snd (eloop_run rs s)) = called_timeouts s @ timeouts s"
    if "\<not> terminate s" "list_all (silent_round ts) rs" "length rs = length (timeouts s)" "set (timeouts s) \<subseteq> set ts" for ts
    using that
  proof (induction rs arbitrary: s)
    case (Cons r rs)
    then obtain t ts' where t: "timeouts s = t # ts'" by (cases "timeouts s") auto
    then obtain s' where s': "eloop_round r s = Some s'" "terminate s' = terminate s" "timeouts s' = ts'"
      "called_timeouts s' = called_timeouts s @ [t]"
      using silent_step[of ts r s t ts'] Cons.prems by auto
    then show ?case using Cons.IH[of s'] Cons.prems t by (simp add: eloop_busy_def)
  qed simp
  then show ?thesis using assms by blast
qed

definition quiet_round :: eloop_round where
  "quiet_round = \<lparr>ro_signals = [], ro_select = Some 0, ro_fds = (\<lambda>t fd. False), ro_now = (20, 0), ro_handlers = (\<lambda>x. [])\<rparr>"

definition two_timeouts :: eloop where
  "two_timeouts = fold eloop_api [Register_timeout True (Some (5, 0)) 9 2000000 1 1 1, Register_timeout True (Some (5, 0)) 3 7 2 2 2] eloop_init"

lemma due_timeouts_called_witness:
  "\<exists>s'. snd (eloop_run [quiet_round, quiet_round] two_timeouts) = s' \<and> timeouts s' = [] \<and>
     map et_time (called_timeouts s') = [(8, 7), (16, 0)]"
proof -
  have t: "\<not> terminate two_timeouts" "map et_time (timeouts two_timeouts) = [(8, 7), (16, 0)]"
    "called_timeouts two_timeouts = []"
    by (simp_all add: two_timeouts_def eloop_register_timeout_def eloop_init_def el_trace_def os_time_before_def
        called_timeouts_def List.map_filter_def Let_def)
  have d: "list_all (silent_round (timeouts two_timeouts)) [quiet_round, quiet_round]"
    by (simp add: two_timeouts_def eloop_register_timeout_def eloop_init_def el_trace_def os_time_before_def
        silent_round_def quiet_round_def Let_def)
  have "length [quiet_round, quiet_round] = length (timeouts two_timeouts)"
    using arg_cong[OF t(2), of length] by simp
  from due_timeouts_called[OF t(1) d this] show ?thesis using t(2,3) by simp
qed

end
