(* ===== verification/Gfc_Hal.thy ===== *)
theory Gfc_Hal
  imports Peer_Hal
begin

text \<open>
  The geofence half of the GPS HAL: the table of fences, the factors injected for them and the
  commands it sends to the daemon (\<open>gps/gps_hal/src/gfchal_mnl_interface.c\<close>,
  \<open>gps/gps_hal/inc/geofencehal_worker.h\<close>), and the framework's interface with the two callback
  routines (\<open>gps/gps_hal/src/geofenceinf.c\<close>). \<open>None\<close> is an access outside an array, a \<open>NULL\<close>
  dereference or a conversion C leaves undefined. Answers of the kernel (allocation, \<open>sendto\<close>) are
  an argument of each call; \<open>GpsLocation\<close> is a struct of the platform's headers and travels as bytes.
\<close>

section \<open>The table\<close>

text \<open>
  \<open>MTK_GEOFENCE_PROPERTY_T\<close>. Floating-point members are bit patterns. The two members \<open>pad_\<close> are
  the padding of the struct, which \<open>memcpy\<close> carries along.
\<close>

record fence =
  geofence_id :: u32
  pad_id :: u32
  fence_latitude :: u64
  fence_longitude :: u64
  fence_radius :: u64
  coordinate_dn :: u32
  coordinate_de :: u32
  last_transition :: u32
  monitor_transition :: u32
  notification_period :: u32
  unknown_timer :: u32
  alive :: u32
  latest_state :: u32
  fence_config :: u32
  pad_end :: u32

definition MAX_GOEFENCE :: nat where
  "MAX_GOEFENCE = 30"

definition ENTERED :: u32 where "ENTERED = 1"
definition EXITED :: u32 where "EXITED = 2"
definition UNCERTAIN :: u32 where "UNCERTAIN = 4"

definition STATE_uncertain :: u32 where "STATE_uncertain = 2"

definition MTK_GFC_SUCCESS :: int where "MTK_GFC_SUCCESS = 0"
definition MTK_GFC_ERROR :: int where "MTK_GFC_ERROR = - 1"

lemmas transition_defs = ENTERED_def EXITED_def UNCERTAIN_def

definition zero_fence :: fence where
  "zero_fence = \<lparr>geofence_id = 0, pad_id = 0, fence_latitude = 0, fence_longitude = 0, fence_radius = 0,
     coordinate_dn = 0, coordinate_de = 0, last_transition = 0, monitor_transition = 0,
     notification_period = 0, unknown_timer = 0, alive = 0, latest_state = 0, fence_config = 0, pad_end = 0\<rparr>"

text \<open>A free slot: all zero but for the identifier -1.\<close>

definition free_fence :: fence where
  "free_fence = zero_fence\<lparr>geofence_id := - 1\<rparr>"

text \<open>What leaves the HAL: datagrams to the daemon and callbacks into the framework.\<close>

datatype gfc_event =
    Gfc_to_mnl bytes
  | Geofence_transition u32 bytes u32 u64
  | Geofence_added u32 u32
  | Geofence_removed u32 u32
  | Geofence_paused u32 u32
  | Geofence_resumed u32 u32

record gfc_hal =
  geofence_property :: "fence list"
  injectFenceInfo :: "(u32 \<times> u32 \<times> u32) list"
  gTotalFence :: int
  isgfc_exist :: bool
  gConfigHalGeofence :: u32
  geofence_cbs :: bool
  gfc_log :: "gfc_event list"

definition gfc_boot :: gfc_hal where
  "gfc_boot = \<lparr>geofence_property = replicate MAX_GOEFENCE zero_fence,
     injectFenceInfo = replicate MAX_GOEFENCE (0, 0, 0), gTotalFence = 0, isgfc_exist = False,
     gConfigHalGeofence = 0, geofence_cbs = False, gfc_log = []\<rparr>"

text \<open>The platform: whether \<open>MTK_64_PLATFORM\<close> is defined, and \<open>sizeof(GpsLocation)\<close>.\<close>

record gfc_platform =
  is_64 :: bool
  sizeof_GpsLocation :: nat

definition gfc_note :: "gfc_event \<Rightarrow> gfc_hal \<Rightarrow> gfc_hal" where
  "gfc_note x s = s\<lparr>gfc_log := gfc_log s @ [x]\<rparr>"

definition set_slot :: "nat \<Rightarrow> (fence \<Rightarrow> fence) \<Rightarrow> gfc_hal \<Rightarrow> gfc_hal" where
  "set_slot i f s = s\<lparr>geofence_property := (geofence_property s)[i := f (geofence_property s ! i)]\<rparr>"

section \<open>Operations on the table\<close>

definition set_buff_init_fence :: "gfc_hal \<Rightarrow> gfc_hal" where
  "set_buff_init_fence s = s\<lparr>geofence_property := replicate MAX_GOEFENCE free_fence, gTotalFence := 0\<rparr>"

definition set_buff_pause_fence :: "nat \<Rightarrow> gfc_hal \<Rightarrow> gfc_hal" where
  "set_buff_pause_fence item s =
     set_slot item (\<lambda>f. f\<lparr>alive := 0, last_transition := UNCERTAIN, latest_state := STATE_uncertain\<rparr>) s"

definition set_buff_resume_fence :: "nat \<Rightarrow> u32 \<Rightarrow> gfc_hal \<Rightarrow> gfc_hal" where
  "set_buff_resume_fence item transition s =
     set_slot item (\<lambda>f. f\<lparr>monitor_transition := transition, alive := 1\<rparr>) s"

definition set_buff_remove_fence :: "nat \<Rightarrow> gfc_hal \<Rightarrow> gfc_hal" where
  "set_buff_remove_fence item s =
     (let s = set_slot item (\<lambda>_. free_fence) s
      in if gTotalFence s > 0 then s\<lparr>gTotalFence := gTotalFence s - 1\<rparr> else s)"

text \<open>The index of the first slot a test holds for: the loops of two routines.\<close>

fun first_slot :: "(fence \<Rightarrow> bool) \<Rightarrow> fence list \<Rightarrow> nat option" where
    "first_slot P [] = None"
  | "first_slot P (f # fs) = (if P f then Some 0 else map_option Suc (first_slot P fs))"

definition check_buff_fence_exist :: "u32 \<Rightarrow> gfc_hal \<Rightarrow> nat option" where
  "check_buff_fence_exist fence_id s = first_slot (\<lambda>f. geofence_id f = fence_id) (geofence_property s)"

definition set_buff_transition_fence :: "u32 \<Rightarrow> u32 \<Rightarrow> gfc_hal \<Rightarrow> int \<times> gfc_hal" where
  "set_buff_transition_fence fence_id transition s =
     (if transition \<noteq> ENTERED \<and> transition \<noteq> EXITED \<and> transition \<noteq> UNCERTAIN then (MTK_GFC_ERROR, s)
      else case check_buff_fence_exist fence_id s of
          None \<Rightarrow> (MTK_GFC_ERROR, s)
        | Some item \<Rightarrow> (MTK_GFC_SUCCESS, set_slot item (\<lambda>f. f\<lparr>last_transition := transition,
             latest_state := word_of_int (sint transition div 2)\<rparr>) s))"

definition mtk_geo_inject_info_init :: "gfc_hal \<Rightarrow> gfc_hal" where
  "mtk_geo_inject_info_init s = s\<lparr>injectFenceInfo := replicate MAX_GOEFENCE (0, 0, 0)\<rparr>"

definition f32_one :: u32 where
  "f32_one = 0x3F800000"

text \<open>A \<open>float\<close> as a condition: any value but the two zeros.\<close>

definition f32_true :: "u32 \<Rightarrow> bool" where
  "f32_true x \<longleftrightarrow> x AND 0x7FFFFFFF \<noteq> 0"

definition write_info :: "u32 \<Rightarrow> u32 \<times> u32 \<times> u32 \<Rightarrow> gfc_hal \<Rightarrow> gfc_hal option" where
  "write_info fence_id v s =
     (if sint fence_id < int MAX_GOEFENCE then
        if 0 \<le> sint fence_id
        then Some (s\<lparr>injectFenceInfo := (injectFenceInfo s)[nat (sint fence_id) := v]\<rparr>) else None
      else Some s)"

definition mtk_geo_inject_info_set :: "u32 \<Rightarrow> u32 \<Rightarrow> u32 \<Rightarrow> gfc_hal \<Rightarrow> gfc_hal option" where
  "mtk_geo_inject_info_set fence_id dn de s = write_info fence_id (f32_one, dn, de) s"

definition mtk_geo_inject_info_reset :: "u32 \<Rightarrow> gfc_hal \<Rightarrow> gfc_hal option" where
  "mtk_geo_inject_info_reset fence_id s = write_info fence_id (0, 0, 0) s"

definition mtk_geo_inject_info_get :: "u32 \<Rightarrow> gfc_hal \<Rightarrow> (u32 \<times> u32) option" where
  "mtk_geo_inject_info_get fence_id s =
     (if sint fence_id < int MAX_GOEFENCE then
        if 0 \<le> sint fence_id then
          (let (valid, dn, de) = injectFenceInfo s ! nat (sint fence_id)
           in Some (if f32_true valid then (dn, de) else (0, 0)))
        else None
      else Some (0, 0))"

definition check_buff_full_of_fence :: "gfc_hal \<Rightarrow> int" where
  "check_buff_full_of_fence s = (if gTotalFence s \<ge> int MAX_GOEFENCE then MTK_GFC_ERROR else MTK_GFC_SUCCESS)"

definition check_valid_transition :: "u32 \<Rightarrow> int" where
  "check_valid_transition transition =
     (if transition = ENTERED \<or> transition = EXITED \<or> transition = ENTERED OR EXITED
         \<or> transition = ENTERED OR EXITED OR UNCERTAIN
      then MTK_GFC_SUCCESS else MTK_GFC_ERROR)"

definition get_buff_avalibale_item :: "gfc_hal \<Rightarrow> nat option" where
  "get_buff_avalibale_item s = first_slot (\<lambda>f. alive f \<noteq> 1) (geofence_property s)"

definition check_fence_vadility :: "fence \<Rightarrow> gfc_hal \<Rightarrow> int" where
  "check_fence_vadility f s =
     (if check_buff_full_of_fence s < 0 then - 1
      else if check_buff_fence_exist (geofence_id f) s \<noteq> None then - 2
      else if check_valid_transition (monitor_transition f) < 0 then - 3
      else 0)"

definition set_buff_add_fence :: "fence \<Rightarrow> gfc_hal \<Rightarrow> int \<times> gfc_hal" where
  "set_buff_add_fence f s =
     (case get_buff_avalibale_item s of
        None \<Rightarrow> (MTK_GFC_ERROR, s)
      | Some item \<Rightarrow>
          let s = set_slot item (\<lambda>_. f\<lparr>alive := 1\<rparr>) s
          in (MTK_GFC_SUCCESS, s\<lparr>gTotalFence := gTotalFence s + 1\<rparr>))"

section \<open>Commands to the daemon\<close>

definition HAL_GEOFENCE_CALLBACK_NTF :: u32 where "HAL_GEOFENCE_CALLBACK_NTF = 400"
definition OFL_GEOFENCE_CALLBACK_NTF :: u32 where "OFL_GEOFENCE_CALLBACK_NTF = 404"
definition OFL_GEOFENCE_CMD :: u32 where "OFL_GEOFENCE_CMD = 405"

definition ADD_GEOFENCE_AREA :: u32 where "ADD_GEOFENCE_AREA = 1"
definition PAUSE_GEOFENCE :: u32 where "PAUSE_GEOFENCE = 2"
definition RESUME_GEOFENCE :: u32 where "RESUME_GEOFENCE = 3"
definition REMOVE_GEOFENCE :: u32 where "REMOVE_GEOFENCE = 4"
definition RECOVER_GEOFENCE :: u32 where "RECOVER_GEOFENCE = 5"

lemmas gfc_types = peer_hal_types HAL_GEOFENCE_CALLBACK_NTF_def OFL_GEOFENCE_CALLBACK_NTF_def OFL_GEOFENCE_CMD_def

lemmas gfc_commands = ADD_GEOFENCE_AREA_def PAUSE_GEOFENCE_def RESUME_GEOFENCE_def
  REMOVE_GEOFENCE_def RECOVER_GEOFENCE_def

text \<open>The object representation of a fence, 72 bytes.\<close>

definition fence_bytes :: "fence \<Rightarrow> bytes" where
  "fence_bytes f = le32 (geofence_id f) @ le32 (pad_id f) @ le64 (fence_latitude f) @ le64 (fence_longitude f) @
     le64 (fence_radius f) @ le32 (coordinate_dn f) @ le32 (coordinate_de f) @ le32 (last_transition f) @
     le32 (monitor_transition f) @ le32 (notification_period f) @ le32 (unknown_timer f) @ le32 (alive f) @
     le32 (latest_state f) @ le32 (fence_config f) @ le32 (pad_end f)"

text \<open>
  A geofence command: the outer message, whose length counts its own header too, and in it the
  command with its payload.
\<close>

definition geo_header :: "u32 \<Rightarrow> bytes \<Rightarrow> bytes" where
  "geo_header cmd payload = le32 OFL_GEOFENCE_CMD @ le32 (of_nat (16 + length payload)) @
     le32 cmd @ le32 (of_nat (8 + length payload)) @ payload"

definition gfc_send2mnl :: "hal_os \<Rightarrow> nat \<Rightarrow> bytes \<Rightarrow> gfc_hal \<Rightarrow> int \<times> gfc_hal" where
  "gfc_send2mnl os k d s = (if send_ok os k then (0, gfc_note (Gfc_to_mnl d) s) else (- 1, s))"

text \<open>Allocate, build the command, send it: the second half of four operations.\<close>

definition send_command :: "hal_os \<Rightarrow> u32 \<Rightarrow> bytes \<Rightarrow> gfc_hal \<Rightarrow> gfc_hal option" where
  "send_command os cmd payload s =
     (if \<not> malloc_ok os 0 then Some s
      else do { d \<leftarrow> hal_datagram (geo_header cmd payload); Some (snd (gfc_send2mnl os 0 d s)) })"

definition hal2_geofence_add_geofences :: "hal_os \<Rightarrow> fence \<Rightarrow> gfc_hal \<Rightarrow> gfc_hal option" where
  "hal2_geofence_add_geofences os dbg_fence s =
     (if check_fence_vadility dbg_fence s = 0
      then send_command os ADD_GEOFENCE_AREA (le32 1 @ fence_bytes dbg_fence) (snd (set_buff_add_fence dbg_fence s))
      else Some s)"

definition hal2_geofence_pause_geofence :: "hal_os \<Rightarrow> u32 \<Rightarrow> gfc_hal \<Rightarrow> gfc_hal option" where
  "hal2_geofence_pause_geofence os fence_id s =
     (case check_buff_fence_exist fence_id s of
        None \<Rightarrow> Some s
      | Some item \<Rightarrow> send_command os PAUSE_GEOFENCE (le32 fence_id) (set_buff_pause_fence item s))"

definition hal2_geofence_resume_geofence :: "hal_os \<Rightarrow> u32 \<Rightarrow> u32 \<Rightarrow> gfc_hal \<Rightarrow> gfc_hal option" where
  "hal2_geofence_resume_geofence os fence_id monitor_transitions s =
     (case check_buff_fence_exist fence_id s of
        None \<Rightarrow> Some s
      | Some item \<Rightarrow> send_command os RESUME_GEOFENCE (le32 fence_id @ le32 monitor_transitions)
          (set_buff_resume_fence item monitor_transitions s))"

definition hal2_geofence_remove_geofences :: "hal_os \<Rightarrow> u32 \<Rightarrow> gfc_hal \<Rightarrow> gfc_hal option" where
  "hal2_geofence_remove_geofences os fence_id s =
     (case check_buff_fence_exist fence_id s of
        None \<Rightarrow> Some s
      | Some item \<Rightarrow> do {
          s \<leftarrow> mtk_geo_inject_info_reset fence_id s;
          send_command os REMOVE_GEOFENCE (le32 fence_id) (set_buff_remove_fence item s) })"

text \<open>
  The loop over the slots; \<open>k\<close> counts the messages. Here the result of \<open>malloc\<close> is not checked,
  and the first failing send ends the loop.
\<close>

fun recover_slots :: "hal_os \<Rightarrow> nat \<Rightarrow> fence list \<Rightarrow> gfc_hal \<Rightarrow> gfc_hal option" where
    "recover_slots os k [] s = Some s"
  | "recover_slots os k (f # fs) s =
       (if alive f = 1 then
          if \<not> malloc_ok os k then None
          else do {
            d \<leftarrow> hal_datagram (geo_header RECOVER_GEOFENCE (le32 1 @ fence_bytes f));
            let (ret, s) = gfc_send2mnl os k d s;
            if ret < 0 then Some s else recover_slots os (Suc k) fs s }
        else recover_slots os k fs s)"

definition hal2_geofence_recover_geofences :: "hal_os \<Rightarrow> gfc_hal \<Rightarrow> gfc_hal option" where
  "hal2_geofence_recover_geofences os s = recover_slots os 0 (geofence_property s) s"

section \<open>Messages from the daemon\<close>

definition sizeof_loc_in :: "gfc_platform \<Rightarrow> nat" where
  "sizeof_loc_in p = (if is_64 p then sizeof_GpsLocation p - 4 - 4 else sizeof_GpsLocation p)"

definition mtk_loc_rearrange :: "gfc_platform \<Rightarrow> bytes \<Rightarrow> bytes option" where
  "mtk_loc_rearrange p loc_in = rearrange_location (sizeof_GpsLocation p) loc_in"

definition read_location :: "gfc_platform \<Rightarrow> bytes \<Rightarrow> bytes option" where
  "read_location p prmsg = do {
     loc \<leftarrow> mem_read prmsg 12 (sizeof_loc_in p);
     if is_64 p then
       if sizeof_loc_in p \<le> 128 then mtk_loc_rearrange p (loc @ replicate (128 - length loc) 0) else None
     else Some loc }"

definition mtk_geofence_transition_callbacks_proc :: "gfc_platform \<Rightarrow> bytes \<Rightarrow> gfc_hal \<Rightarrow> gfc_hal option" where
  "mtk_geofence_transition_callbacks_proc p prmsg s = do {
     fence_id \<leftarrow> mem_read prmsg 8 4;
     location \<leftarrow> read_location p prmsg;
     transition \<leftarrow> mem_read prmsg (12 + sizeof_loc_in p) 4;
     timestamp \<leftarrow> mem_read prmsg (16 + sizeof_loc_in p) 8;
     if \<not> geofence_cbs s then Some s
     else
       let (ret, s) = set_buff_transition_fence (of_le32 fence_id) (of_le32 transition) s
       in Some (if ret = 0 then gfc_note (Geofence_transition (of_le32 fence_id) location (of_le32 transition)
                  (of_le64 timestamp)) s else s) }"

definition mtk_geofence_callbacks_proc :: "bytes \<Rightarrow> gfc_hal \<Rightarrow> gfc_hal option" where
  "mtk_geofence_callbacks_proc prmsg s = do {
     cbs \<leftarrow> mem_read prmsg 8 12;
     let (cb_id, fence_id, result) = (of_le32 cbs, of_le32 (drop 4 cbs), of_le32 (drop 8 cbs));
     Some (if \<not> geofence_cbs s then s
       else if cb_id = 0 then gfc_note (Geofence_added fence_id result) s
       else if cb_id = 1 then gfc_note (Geofence_removed fence_id result) s
       else if cb_id = 2 then gfc_note (Geofence_paused fence_id result) s
       else if cb_id = 3 then gfc_note (Geofence_resumed fence_id result) s
       else s) }"

text \<open>\<open>(int) x\<close> for a \<open>float\<close>: truncation, undefined when the result does not fit.\<close>

definition f32_to_int :: "u32 \<Rightarrow> u32 option" where
  "f32_to_int x =
     (let e = unat (drop_bit 23 x AND 0xFF);
          m = uint (x AND 0x7FFFFF);
          v = (if e = 0 then 0 else (2 ^ 23 + m) * 2 ^ e div 2 ^ 150);
          r = (if bit x 31 then - v else v)
      in if e = 255 \<or> r < - (2 ^ 31) \<or> 2 ^ 31 \<le> r then None else Some (word_of_int r))"

text \<open>\<open>mnl2gfchal_hdlr\<close>; \<open>buff\<close> is the thread's array of \<open>HAL_BUFF_SIZE\<close> bytes.\<close>

definition mnl2gfchal_hdlr :: "gfc_platform \<Rightarrow> hal_os \<Rightarrow> bytes \<Rightarrow> gfc_hal \<Rightarrow> (int \<times> gfc_hal) option" where
  "mnl2gfchal_hdlr p os buff s = do {
     (len, data, _) \<leftarrow> get_binary (int HAL_BUFF_SIZE) 1024 (replicate 1024 0) (buff, 0);
     if \<not> (0 < len \<and> len \<le> 1024) then Some (MTK_GFC_ERROR, s)
     else
       let cmd = of_le32 data; msg_len = of_le32 (drop 4 data)
       in if cmd = SYS_FLPD_RESET_NTF then
            map_option (Pair MTK_GFC_SUCCESS) (hal2_geofence_recover_geofences os s)
          else if cmd = OFL_GEOFENCE_CALLBACK_NTF then
            map_option (Pair MTK_GFC_SUCCESS) (mtk_geofence_transition_callbacks_proc p data s)
          else if cmd = HAL_GEOFENCE_CALLBACK_NTF then
            map_option (Pair MTK_GFC_SUCCESS) (mtk_geofence_callbacks_proc data s)
          else if cmd = GEOFENCE_INJECT_LOC_ENUM then
            if msg_len < 12 then Some (MTK_GFC_ERROR, s)
            else do {
              i \<leftarrow> f32_to_int (of_le32 (drop 8 data));
              s \<leftarrow> mtk_geo_inject_info_set i (of_le32 (drop 12 data)) (of_le32 (drop 16 data)) s;
              Some (MTK_GFC_SUCCESS, s) }
          else Some (MTK_GFC_SUCCESS, s) }"

section \<open>The receiving thread\<close>

text \<open>
  \<open>mnl2gfchal_jni_thread\<close>: the thread announces itself to the daemon and then handles one datagram
  after the other in the same array. A failed receive is logged, and the array is handled all the same.
\<close>

definition jni_thread_start :: "hal_os \<Rightarrow> gfc_hal \<Rightarrow> (bytes \<times> gfc_hal) option" where
  "jni_thread_start os s = do {
     (buff, offset) \<leftarrow> put_binary (le32 HAL_INIT_CMD @ le32 0) 8 (new_buff HAL_BUFF_SIZE);
     Some (buff, snd (gfc_send2mnl os 0 (sent (buff, offset)) s)) }"

definition jni_thread_recv :: "gfc_platform \<Rightarrow> hal_os \<Rightarrow> bytes option \<Rightarrow> bytes \<times> gfc_hal \<Rightarrow> (bytes \<times> gfc_hal) option" where
  "jni_thread_recv p os d = (\<lambda>(buff, s). do {
     let buff = received d buff;
     (_, s) \<leftarrow> mnl2gfchal_hdlr p os buff s;
     Some (buff, s) })"

section \<open>The framework's interface\<close>

definition strstr :: "bytes \<Rightarrow> bytes \<Rightarrow> bool" where
  "strstr hay needle = list_ex (\<lambda>i. take (length needle) (drop i hay) = needle) [0..<Suc (length hay)]"

text \<open>\<open>lowpower.geofence=no\<close>\<close>

definition geofence_off_text :: bytes where
  "geofence_off_text = map (\<lambda>c. of_nat (of_char c)) ''lowpower.geofence=no''"

text \<open>The property file is \<open>None\<close> when it cannot be opened, or the chunks \<open>fgets\<close> returns.\<close>

definition mtk_geo_set_project_config :: "bytes list option \<Rightarrow> gfc_hal \<Rightarrow> gfc_hal" where
  "mtk_geo_set_project_config prop s =
     s\<lparr>gConfigHalGeofence := (case prop of None \<Rightarrow> 0
        | Some ls \<Rightarrow> (if list_ex (\<lambda>l. strstr (cstr l) geofence_off_text) ls then 1 else 0))\<rparr>"

definition hal2_geofence_init :: "bytes list option \<Rightarrow> gfc_hal \<Rightarrow> gfc_hal" where
  "hal2_geofence_init prop s =
     (if isgfc_exist s then s
      else mtk_geo_set_project_config prop (mtk_geo_inject_info_init (set_buff_init_fence
             (s\<lparr>isgfc_exist := True\<rparr>))))"

definition mtk_hal_geofence_init :: "bytes list option \<Rightarrow> bool \<Rightarrow> gfc_hal \<Rightarrow> gfc_hal" where
  "mtk_hal_geofence_init prop callbacks s = (hal2_geofence_init prop s)\<lparr>geofence_cbs := callbacks\<rparr>"

text \<open>The arguments of the framework's call, with what the stack holds in the padding of the struct.\<close>

record fence_args =
  a_id :: u32
  a_latitude :: u64
  a_longitude :: u64
  a_radius :: u64
  a_last :: u32
  a_monitor :: u32
  a_notification :: u32
  a_unknown :: u32
  a_pads :: "u32 \<times> u32"

definition make_fence :: "fence_args \<Rightarrow> u32 \<Rightarrow> u32 \<times> u32 \<Rightarrow> fence" where
  "make_fence a cfg nedf = \<lparr>geofence_id = a_id a, pad_id = fst (a_pads a), fence_latitude = a_latitude a,
     fence_longitude = a_longitude a, fence_radius = a_radius a, coordinate_dn = fst nedf,
     coordinate_de = snd nedf, last_transition = a_last a, monitor_transition = a_monitor a,
     notification_period = a_notification a, unknown_timer = a_unknown a, alive = 1,
     latest_state = word_of_int (sint (a_last a) div 2), fence_config = cfg, pad_end = snd (a_pads a)\<rparr>"

definition mtk_hal_geofence_add_geofences :: "hal_os \<Rightarrow> fence_args \<Rightarrow> gfc_hal \<Rightarrow> gfc_hal option" where
  "mtk_hal_geofence_add_geofences os a s =
     (if \<not> isgfc_exist s then Some s
      else do {
        nedf \<leftarrow> mtk_geo_inject_info_get (a_id a) s;
        hal2_geofence_add_geofences os (make_fence a (gConfigHalGeofence s) nedf) s })"

definition mtk_hal_geofence_pause_geofence :: "hal_os \<Rightarrow> u32 \<Rightarrow> gfc_hal \<Rightarrow> gfc_hal option" where
  "mtk_hal_geofence_pause_geofence os fence_id s =
     (if \<not> isgfc_exist s then Some s else hal2_geofence_pause_geofence os fence_id s)"

definition mtk_hal_geofence_resume_geofence :: "hal_os \<Rightarrow> u32 \<Rightarrow> u32 \<Rightarrow> gfc_hal \<Rightarrow> gfc_hal option" where
  "mtk_hal_geofence_resume_geofence os fence_id monitor_transitions s =
     (if \<not> isgfc_exist s then Some s else hal2_geofence_resume_geofence os fence_id monitor_transitions s)"

definition mtk_hal_geofence_remove_geofences :: "hal_os \<Rightarrow> u32 \<Rightarrow> gfc_hal \<Rightarrow> gfc_hal option" where
  "mtk_hal_geofence_remove_geofences os fence_id s =
     (if \<not> isgfc_exist s then Some s else hal2_geofence_remove_geofences os fence_id s)"

section \<open>Runs\<close>

text \<open>What happens to the HAL: a call of the framework, or a datagram of the daemon in the thread's
  array, which is handled with the array's old contents behind it.\<close>

datatype gfc_call =
    Fence_init "bytes list option" bool
  | Fence_add fence_args
  | Fence_pause u32
  | Fence_resume u32 u32
  | Fence_remove u32
  | Fence_recv "bytes option"

type_synonym gfc_sys = "bytes \<times> gfc_hal"

fun gfc_step :: "gfc_platform \<Rightarrow> hal_os \<times> gfc_call \<Rightarrow> gfc_sys \<Rightarrow> gfc_sys option" where
    "gfc_step p (os, Fence_init prop cb) (b, s) = do {
       (b, s) \<leftarrow> (if isgfc_exist s then Some (b, s) else jni_thread_start os s);
       Some (b, mtk_hal_geofence_init prop cb s) }"
  | "gfc_step p (os, Fence_add a) (b, s) = map_option (Pair b) (mtk_hal_geofence_add_geofences os a s)"
  | "gfc_step p (os, Fence_pause i) (b, s) = map_option (Pair b) (mtk_hal_geofence_pause_geofence os i s)"
  | "gfc_step p (os, Fence_resume i m) (b, s) = map_option (Pair b) (mtk_hal_geofence_resume_geofence os i m s)"
  | "gfc_step p (os, Fence_remove i) (b, s) = map_option (Pair b) (mtk_hal_geofence_remove_geofences os i s)"
  | "gfc_step p (os, Fence_recv d) (b, s) = (if isgfc_exist s then jni_thread_recv p os d (b, s) else Some (b, s))"

fun gfc_run :: "gfc_platform \<Rightarrow> (hal_os \<times> gfc_call) list \<Rightarrow> gfc_sys \<Rightarrow> gfc_sys option" where
    "gfc_run p [] x = Some x"
  | "gfc_run p (c # cs) x = gfc_step p c x \<bind> gfc_run p cs"

end
