(* ===== verification/Gfc_Hal_Props.thy ===== *)
theory Gfc_Hal_Props
  imports Gfc_Hal
begin

text \<open>
  What the geofence half of the HAL guarantees. The locale \<open>fence_invariant\<close> reduces an invariant of
  the table to the five ways the HAL changes it; its interpretations are the shape of the table and
  the bounds of the counter. On top of them the table is a partial map from identifiers to fences,
  and every call is an update of that map, with one exception: an added fence may take the slot of a
  paused one.
\<close>

section \<open>Searching and counting slots\<close>

lemma first_slot_Some:
  "first_slot P fs = Some i \<longleftrightarrow> i < length fs \<and> P (fs ! i) \<and> (\<forall>j<i. \<not> P (fs ! j))"
proof (induction fs arbitrary: i)
  case (Cons f fs)
  show ?case
    by (cases i) (auto simp: Cons.IH less_Suc_eq_0_disj)
qed simp

lemma first_slot_None: "first_slot P fs = None \<longleftrightarrow> (\<forall>f\<in>set fs. \<not> P f)"
  by (induction fs) auto

lemma filter_update:
  assumes "i < length fs"
  shows "int (length (filter P (fs[i := x]))) =
    int (length (filter P fs)) - of_bool (P (fs ! i)) + of_bool (P x)"
  using assms
proof (induction fs arbitrary: i)
  case (Cons f fs)
  then show ?case by (cases i) auto
qed simp

section \<open>Commands are always sent\<close>

lemma length_fence_bytes [simp]: "length (fence_bytes f) = 72"
  by (simp add: fence_bytes_def)

lemma length_geo_header [simp]: "length (geo_header c pl) = 16 + length pl"
  by (simp add: geo_header_def)

text \<open>The datagram of a command.\<close>

definition command_datagram :: "u32 \<Rightarrow> bytes \<Rightarrow> bytes" where
  "command_datagram c pl = le32 (of_nat (16 + length pl)) @ geo_header c pl"

lemma send_command_some:
  "length pl \<le> 1004 \<Longrightarrow> send_command os c pl s =
     Some (if malloc_ok os 0 \<and> send_ok os 0 then gfc_note (Gfc_to_mnl (command_datagram c pl)) s else s)"
  by (simp add: send_command_def gfc_send2mnl_def command_datagram_def)

lemma gfc_note_simps [simp]:
  "geofence_property (gfc_note x s) = geofence_property s" "gTotalFence (gfc_note x s) = gTotalFence s"
  "injectFenceInfo (gfc_note x s) = injectFenceInfo s" "isgfc_exist (gfc_note x s) = isgfc_exist s"
  "geofence_cbs (gfc_note x s) = geofence_cbs s" "gConfigHalGeofence (gfc_note x s) = gConfigHalGeofence s"
  "gfc_log (gfc_note x s) = gfc_log s @ [x]"
  by (simp_all add: gfc_note_def)

lemma set_slot_simps [simp]:
  "geofence_property (set_slot i f s) = (geofence_property s)[i := f (geofence_property s ! i)]"
  "gTotalFence (set_slot i f s) = gTotalFence s" "injectFenceInfo (set_slot i f s) = injectFenceInfo s"
  "isgfc_exist (set_slot i f s) = isgfc_exist s" "gfc_log (set_slot i f s) = gfc_log s"
  "geofence_cbs (set_slot i f s) = geofence_cbs s" "gConfigHalGeofence (set_slot i f s) = gConfigHalGeofence s"
  by (simp_all add: set_slot_def)

lemma write_info_keeps:
  assumes "write_info i v s = Some s'"
  shows "geofence_property s' = geofence_property s" "gTotalFence s' = gTotalFence s"
    "isgfc_exist s' = isgfc_exist s" "gfc_log s' = gfc_log s" "geofence_cbs s' = geofence_cbs s"
    "gConfigHalGeofence s' = gConfigHalGeofence s"
  using assms by (auto simp: write_info_def split: if_splits)

text \<open>The part of the state the invariants speak of.\<close>

definition table_of :: "gfc_hal \<Rightarrow> fence list \<times> int \<times> bool" where
  "table_of s = (geofence_property s, gTotalFence s, isgfc_exist s)"

lemma send_command_table: "length pl \<le> 1004 \<Longrightarrow> send_command os c pl s = Some s' \<Longrightarrow> table_of s' = table_of s"
  by (auto simp: table_of_def send_command_some split: if_splits)

lemma write_info_table: "write_info i v s = Some s' \<Longrightarrow> table_of s' = table_of s"
  by (simp add: table_of_def write_info_keeps)

lemma make_fence_simps [simp]:
  "geofence_id (make_fence a cfg nedf) = a_id a" "alive (make_fence a cfg nedf) = 1"
  "monitor_transition (make_fence a cfg nedf) = a_monitor a"
  by (simp_all add: make_fence_def)

section \<open>Invariants of the table\<close>

text \<open>Identifiers the framework uses are not negative.\<close>

definition proper_id :: "u32 \<Rightarrow> bool" where
  "proper_id k \<longleftrightarrow> 0 \<le> sint k"

lemma proper_not_minus_one [simp]: "proper_id k \<Longrightarrow> k \<noteq> - 1" "proper_id k \<Longrightarrow> - 1 \<noteq> k"
  by (auto simp: proper_id_def)

fun proper_call :: "gfc_call \<Rightarrow> bool" where
    "proper_call (Fence_add a) = proper_id (a_id a)"
  | "proper_call (Fence_pause k) = proper_id k"
  | "proper_call (Fence_resume k m) = proper_id k"
  | "proper_call (Fence_remove k) = proper_id k"
  | "proper_call _ = True"

locale fence_invariant =
  fixes I :: "fence list \<Rightarrow> int \<Rightarrow> bool"
  assumes fresh: "I (replicate MAX_GOEFENCE free_fence) 0"
    and added: "\<lbrakk>I fs n; n < int MAX_GOEFENCE; first_slot (\<lambda>g. geofence_id g = geofence_id f) fs = None;
        first_slot (\<lambda>g. alive g \<noteq> 1) fs = Some i; proper_id (geofence_id f); alive f = 1\<rbrakk> \<Longrightarrow> I (fs[i := f]) (n + 1)"
    and changed: "\<lbrakk>I fs n; first_slot (\<lambda>g. geofence_id g = k) fs = Some i; geofence_id f = k;
        alive f = 1 \<longrightarrow> alive (fs ! i) = 1 \<or> proper_id k\<rbrakk> \<Longrightarrow> I (fs[i := f]) n"
    and removed: "\<lbrakk>I fs n; first_slot (\<lambda>g. geofence_id g = k) fs = Some i; proper_id k\<rbrakk> \<Longrightarrow>
        I (fs[i := free_fence]) (if n > 0 then n - 1 else n)"
begin

definition table_keeps :: "gfc_hal \<Rightarrow> bool" where
  "table_keeps s \<longleftrightarrow> (case table_of s of (fs, n, ex) \<Rightarrow> ex \<longrightarrow> I fs n)"

lemma table_keeps_cong: "table_of s' = table_of s \<Longrightarrow> table_keeps s' = table_keeps s"
  by (simp add: table_keeps_def)

lemma keeps_send: "send_command os c pl s = Some s' \<Longrightarrow> length pl \<le> 1004 \<Longrightarrow> table_keeps s' = table_keeps s"
  using table_keeps_cong send_command_table by blast

lemma exist_id: "check_buff_fence_exist k s = Some i \<Longrightarrow> geofence_id (geofence_property s ! i) = k"
  by (simp add: check_buff_fence_exist_def first_slot_Some)

lemma keeps_change:
  assumes "table_keeps s" "check_buff_fence_exist k s = Some i"
    "geofence_id (g (geofence_property s ! i)) = k"
    "alive (g (geofence_property s ! i)) = 1 \<longrightarrow> alive (geofence_property s ! i) = 1 \<or> proper_id k"
  shows "table_keeps (set_slot i g s)"
  using changed [OF _ assms(2) [unfolded check_buff_fence_exist_def] assms(3)] assms(1,4)
  by (simp add: table_keeps_def table_of_def)

lemma keeps_add:
  assumes "table_keeps s" "isgfc_exist s" "proper_id (geofence_id f)" "alive f = 1"
    "hal2_geofence_add_geofences os f s = Some s'"
  shows "table_keeps s'"
proof (cases "check_fence_vadility f s = 0")
  case True
  then have v: "gTotalFence s < int MAX_GOEFENCE"
      "first_slot (\<lambda>g. geofence_id g = geofence_id f) (geofence_property s) = None"
    by (auto simp: check_fence_vadility_def check_buff_full_of_fence_def check_buff_fence_exist_def MTK_GFC_ERROR_def
        split: if_splits)
  have f: "f\<lparr>alive := 1\<rparr> = f" using assms(4) by simp
  have "I (geofence_property s) (gTotalFence s)" using assms(1,2) by (simp add: table_keeps_def table_of_def)
  then have "table_keeps (snd (set_buff_add_fence f s))"
    using added [OF _ v _ assms(3,4)] assms(1)
    by (auto simp: table_keeps_def table_of_def set_buff_add_fence_def get_buff_avalibale_item_def Let_def f split: option.splits)
  moreover have "table_keeps s' = table_keeps (snd (set_buff_add_fence f s))"
    using True assms(5) keeps_send [of os ADD_GEOFENCE_AREA "le32 1 @ fence_bytes f"]
    by (simp add: hal2_geofence_add_geofences_def)
  ultimately show ?thesis by simp
qed (use assms in \<open>simp add: hal2_geofence_add_geofences_def\<close>)

lemma keeps_pause:
  assumes "table_keeps s" "hal2_geofence_pause_geofence os k s = Some s'"
  shows "table_keeps s'"
proof (cases "check_buff_fence_exist k s")
  case (Some i)
  then have "table_keeps (set_buff_pause_fence i s)"
    unfolding set_buff_pause_fence_def by (intro keeps_change [OF assms(1)]) (auto dest: exist_id)
  with Some assms(2) keeps_send [of os _ "le32 k"] show ?thesis
    by (simp add: hal2_geofence_pause_geofence_def)
qed (use assms in \<open>simp add: hal2_geofence_pause_geofence_def\<close>)

lemma keeps_resume:
  assumes "table_keeps s" "proper_id k" "hal2_geofence_resume_geofence os k m s = Some s'"
  shows "table_keeps s'"
proof (cases "check_buff_fence_exist k s")
  case (Some i)
  then have "table_keeps (set_buff_resume_fence i m s)"
    unfolding set_buff_resume_fence_def by (intro keeps_change [OF assms(1)]) (auto simp: exist_id assms(2))
  with Some assms(3) keeps_send [of os _ "le32 k @ le32 m"] show ?thesis
    by (simp add: hal2_geofence_resume_geofence_def)
qed (use assms in \<open>simp add: hal2_geofence_resume_geofence_def\<close>)

lemma keeps_remove:
  assumes "table_keeps s" "isgfc_exist s" "proper_id k" "hal2_geofence_remove_geofences os k s = Some s'"
  shows "table_keeps s'"
proof (cases "check_buff_fence_exist k s")
  case (Some i)
  with assms(4) obtain s1 where s1: "write_info k (0, 0, 0) s = Some s1"
    "send_command os REMOVE_GEOFENCE (le32 k) (set_buff_remove_fence i s1) = Some s'"
    by (auto simp: hal2_geofence_remove_geofences_def mtk_geo_inject_info_reset_def bind_eq_Some_conv)
  have "I (geofence_property s) (gTotalFence s)" using assms(1,2) by (simp add: table_keeps_def table_of_def)
  from removed [OF this Some [unfolded check_buff_fence_exist_def] assms(3)]
  have "table_keeps (set_buff_remove_fence i s1)"
    by (auto simp: table_keeps_def table_of_def set_buff_remove_fence_def Let_def write_info_keeps [OF s1(1)] split: if_splits)
  with keeps_send [OF s1(2)] show ?thesis by simp
qed (use assms in \<open>simp add: hal2_geofence_remove_geofences_def\<close>)

lemma recover_table: "recover_slots os k fs s = Some s' \<Longrightarrow> table_of s' = table_of s"
proof (induction os k fs s rule: recover_slots.induct)
  case (2 os k f fs s)
  then show ?case
    by (cases "send_ok os k") (auto simp: gfc_send2mnl_def table_of_def split: if_splits)
qed simp

lemma keeps_transition:
  assumes "table_keeps s" "mtk_geofence_transition_callbacks_proc p b s = Some s'"
  shows "table_keeps s'"
proof -
  have upd: "table_keeps (snd (set_buff_transition_fence k t s))" for k t
    by (auto simp: set_buff_transition_fence_def assms(1) split: option.splits
        intro!: keeps_change [OF assms(1)] dest: exist_id)
  have noted: "table_keeps (gfc_note x s) = table_keeps s" for x s by (simp add: table_keeps_def table_of_def)
  from assms upd show ?thesis
    by (auto simp: mtk_geofence_transition_callbacks_proc_def bind_eq_Some_conv noted Let_def
        split: prod.splits if_splits) (metis snd_conv)+
qed

lemma keeps_callbacks:
  "mtk_geofence_callbacks_proc b s = Some s' \<Longrightarrow> table_keeps s' = table_keeps s"
  by (rule table_keeps_cong) (auto simp: mtk_geofence_callbacks_proc_def bind_eq_Some_conv table_of_def split: if_splits)

lemma keeps_hdlr:
  assumes "table_keeps s" "mnl2gfchal_hdlr p os b s = Some (r, s')"
  shows "table_keeps s'"
  using assms keeps_transition [OF assms(1)] keeps_callbacks table_keeps_cong [OF recover_table]
    table_keeps_cong [OF write_info_table]
  by (auto simp: mnl2gfchal_hdlr_def hal2_geofence_recover_geofences_def bind_eq_Some_conv Let_def
      mtk_geo_inject_info_set_def split: prod.splits if_splits)

lemma step_kept:
  assumes "table_keeps s" "proper_call c" "gfc_step p (os, c) (b, s) = Some (b', s')"
  shows "table_keeps s'"
proof (cases c)
  case (Fence_init pr cb)
  have "isgfc_exist s \<Longrightarrow> ?thesis"
    using assms Fence_init by (auto simp: table_keeps_def table_of_def mtk_hal_geofence_init_def hal2_geofence_init_def)
  moreover have "\<not> isgfc_exist s \<Longrightarrow> ?thesis"
    using assms fresh Fence_init
    by (auto simp: table_keeps_def table_of_def mtk_hal_geofence_init_def hal2_geofence_init_def set_buff_init_fence_def
        mtk_geo_inject_info_init_def mtk_geo_set_project_config_def jni_thread_start_def gfc_send2mnl_def
        bind_eq_Some_conv split: if_splits prod.splits)
  ultimately show ?thesis by blast
next
  case (Fence_add a)
  show ?thesis
  proof (cases "isgfc_exist s")
    case True
    with assms Fence_add obtain x where
      x: "hal2_geofence_add_geofences os (make_fence a (gConfigHalGeofence s) x) s = Some s'"
      by (auto simp: mtk_hal_geofence_add_geofences_def bind_eq_Some_conv)
    show ?thesis by (rule keeps_add [OF assms(1) True _ _ x]) (use assms(2) Fence_add in simp_all)
  qed (use assms Fence_add in \<open>simp add: mtk_hal_geofence_add_geofences_def\<close>)
next
  case (Fence_pause k)
  with assms keeps_pause [OF assms(1)] show ?thesis
    by (auto simp: mtk_hal_geofence_pause_geofence_def split: if_splits)
next
  case (Fence_resume k m)
  with assms keeps_resume [OF assms(1)] show ?thesis
    by (auto simp: mtk_hal_geofence_resume_geofence_def split: if_splits)
next
  case (Fence_remove k)
  with assms keeps_remove [OF assms(1)] show ?thesis
    by (auto simp: mtk_hal_geofence_remove_geofences_def split: if_splits)
next
  case (Fence_recv d)
  with assms keeps_hdlr [OF assms(1)] show ?thesis
    by (auto simp: jni_thread_recv_def bind_eq_Some_conv Let_def split: if_splits)
qed

lemma run_kept:
  "table_keeps (snd x) \<Longrightarrow> list_all proper_call (map snd cs) \<Longrightarrow> gfc_run p cs x = Some y \<Longrightarrow> table_keeps (snd y)"
proof (induction cs arbitrary: x)
  case (Cons c cs)
  obtain os c' where c: "c = (os, c')" by fastforce
  obtain b s where x: "x = (b, s)" by fastforce
  from Cons.prems obtain b1 s1 where "gfc_step p (os, c') (b, s) = Some (b1, s1)" "gfc_run p cs (b1, s1) = Some y"
    by (auto simp: c x bind_eq_Some_conv)
  with Cons step_kept [of s c' p os b b1 s1] show ?case by (auto simp: c x)
qed simp

end

text \<open>The shape of the table: identifiers are unique, and an alive slot is in use.\<close>

definition table_ok :: "fence list \<Rightarrow> bool" where
  "table_ok fs \<longleftrightarrow> length fs = MAX_GOEFENCE \<and>
     (\<forall>i<length fs. \<forall>j<length fs. geofence_id (fs ! i) = geofence_id (fs ! j) \<and> geofence_id (fs ! i) \<noteq> - 1 \<longrightarrow> i = j) \<and>
     (\<forall>f\<in>set fs. geofence_id f = - 1 \<longrightarrow> alive f \<noteq> 1) \<and>
     (\<forall>f\<in>set fs. geofence_id f = - 1 \<or> proper_id (geofence_id f))"

definition in_use :: "fence list \<Rightarrow> nat" where
  "in_use fs = length (filter (\<lambda>f. geofence_id f \<noteq> - 1) fs)"

lemma table_ok_slot:
  "table_ok fs \<Longrightarrow> i < length fs \<Longrightarrow> (geofence_id (fs ! i) = - 1 \<longrightarrow> alive (fs ! i) \<noteq> 1) \<and>
     (geofence_id (fs ! i) = - 1 \<or> proper_id (geofence_id (fs ! i)))"
  unfolding table_ok_def by (meson nth_mem)

lemma table_ok_unique:
  "table_ok fs \<Longrightarrow> i < length fs \<Longrightarrow> j < length fs \<Longrightarrow> geofence_id (fs ! i) = geofence_id (fs ! j) \<Longrightarrow>
     geofence_id (fs ! i) \<noteq> - 1 \<Longrightarrow> i = j"
  unfolding table_ok_def by blast

lemma table_okI:
  assumes "length fs = MAX_GOEFENCE"
    "\<And>i j. i < length fs \<Longrightarrow> j < length fs \<Longrightarrow> geofence_id (fs ! i) = geofence_id (fs ! j) \<Longrightarrow>
       geofence_id (fs ! i) \<noteq> - 1 \<Longrightarrow> i = j"
    "\<And>i. i < length fs \<Longrightarrow> (geofence_id (fs ! i) = - 1 \<longrightarrow> alive (fs ! i) \<noteq> 1) \<and>
       (geofence_id (fs ! i) = - 1 \<or> proper_id (geofence_id (fs ! i)))"
  shows "table_ok fs"
  unfolding table_ok_def all_set_conv_all_nth using assms by blast

lemma table_ok_update:
  assumes "table_ok fs" "i < length fs"
    "\<And>j. j < length fs \<Longrightarrow> geofence_id (fs ! j) = geofence_id f \<Longrightarrow> geofence_id f \<noteq> - 1 \<Longrightarrow> j = i"
    "geofence_id f = - 1 \<longrightarrow> alive f \<noteq> 1" "geofence_id f = - 1 \<or> proper_id (geofence_id f)"
  shows "table_ok (fs[i := f])"
proof (rule table_okI)
  show "length (fs[i := f]) = MAX_GOEFENCE" using assms(1) by (simp add: table_ok_def)
next
  fix j k
  assume "j < length (fs[i := f])" "k < length (fs[i := f])"
    "geofence_id (fs[i := f] ! j) = geofence_id (fs[i := f] ! k)" "geofence_id (fs[i := f] ! j) \<noteq> - 1"
  then show "j = k"
    by (metis assms(2,3) length_list_update nth_list_update_eq nth_list_update_neq table_ok_unique [OF assms(1)])
next
  fix j
  assume "j < length (fs[i := f])"
  then show "(geofence_id (fs[i := f] ! j) = - 1 \<longrightarrow> alive (fs[i := f] ! j) \<noteq> 1) \<and>
      (geofence_id (fs[i := f] ! j) = - 1 \<or> proper_id (geofence_id (fs[i := f] ! j)))"
    by (metis assms(2,4,5) length_list_update nth_list_update_eq nth_list_update_neq table_ok_slot [OF assms(1)])
qed

interpretation shape: fence_invariant "\<lambda>fs n. table_ok fs"
proof unfold_locales
  show "table_ok (replicate MAX_GOEFENCE free_fence)"
    by (simp add: table_ok_def free_fence_def zero_fence_def)
next
  fix fs and n :: int and f :: fence and i
  assume "table_ok fs" "first_slot (\<lambda>g. geofence_id g = geofence_id f) fs = None"
    "first_slot (\<lambda>g. alive g \<noteq> 1) fs = Some i" "proper_id (geofence_id f)"
  then show "table_ok (fs[i := f])"
    by (intro table_ok_update) (auto simp: first_slot_Some first_slot_None)
next
  fix fs and n :: int and f :: fence and k i
  assume "table_ok fs" "first_slot (\<lambda>g. geofence_id g = k) fs = Some i" "geofence_id f = k"
    "alive f = 1 \<longrightarrow> alive (fs ! i) = 1 \<or> proper_id k"
  then have i: "table_ok fs" "i < length fs" "geofence_id (fs ! i) = geofence_id f"
      "alive f = 1 \<longrightarrow> alive (fs ! i) = 1 \<or> proper_id (geofence_id f)"
    by (simp_all add: first_slot_Some)
  show "table_ok (fs[i := f])"
  proof (rule table_ok_update [OF i(1,2)])
    show "j = i" if "j < length fs" "geofence_id (fs ! j) = geofence_id f" "geofence_id f \<noteq> - 1" for j
      using that table_ok_unique [OF i(1) that(1) i(2)] i(3) by simp
  qed (use table_ok_slot [OF i(1,2)] i(3,4) in auto)
next
  fix fs and n :: int and k i
  assume "table_ok fs" "first_slot (\<lambda>g. geofence_id g = k) fs = Some i"
  then show "table_ok (fs[i := free_fence])"
    by (intro table_ok_update) (auto simp: first_slot_Some free_fence_def zero_fence_def)
qed

interpretation count: fence_invariant "\<lambda>fs n. int (in_use fs) \<le> n \<and> n \<le> int MAX_GOEFENCE"
proof unfold_locales
  show "int (in_use (replicate MAX_GOEFENCE free_fence)) \<le> 0 \<and> (0 :: int) \<le> int MAX_GOEFENCE"
    by (simp add: in_use_def free_fence_def)
next
  fix fs and n :: int and f :: fence and i
  assume "int (in_use fs) \<le> n \<and> n \<le> int MAX_GOEFENCE" "n < int MAX_GOEFENCE"
    "first_slot (\<lambda>g. alive g \<noteq> 1) fs = Some i"
  then show "int (in_use (fs[i := f])) \<le> n + 1 \<and> n + 1 \<le> int MAX_GOEFENCE"
    by (auto simp: in_use_def filter_update first_slot_Some of_bool_def)
next
  fix fs and n :: int and f :: fence and k i
  assume "int (in_use fs) \<le> n \<and> n \<le> int MAX_GOEFENCE"
    "first_slot (\<lambda>g. geofence_id g = k) fs = Some i" "geofence_id f = k"
  then show "int (in_use (fs[i := f])) \<le> n \<and> n \<le> int MAX_GOEFENCE"
    by (auto simp: in_use_def filter_update first_slot_Some)
next
  fix fs and n :: int and k i
  assume a: "int (in_use fs) \<le> n \<and> n \<le> int MAX_GOEFENCE"
    "first_slot (\<lambda>g. geofence_id g = k) fs = Some i" "proper_id k"
  then have "i < length fs" "geofence_id (fs ! i) \<noteq> - 1" by (auto simp: first_slot_Some)
  with a(1) show "int (in_use (fs[i := free_fence])) \<le> (if n > 0 then n - 1 else n) \<and>
      (if n > 0 then n - 1 else n) \<le> int MAX_GOEFENCE"
    by (auto simp: in_use_def filter_update free_fence_def)
qed

section \<open>The table as a map\<close>

definition gfc_reachable :: "gfc_platform \<Rightarrow> gfc_hal \<Rightarrow> bool" where
  "gfc_reachable p s \<longleftrightarrow> isgfc_exist s \<and> (\<exists>cs b. list_all proper_call (map snd cs) \<and>
     gfc_run p cs (replicate HAL_BUFF_SIZE 0, gfc_boot) = Some (b, s))"

lemma reachable_table:
  assumes "gfc_reachable p s"
  shows "table_ok (geofence_property s)" "int (in_use (geofence_property s)) \<le> gTotalFence s"
    "gTotalFence s \<le> int MAX_GOEFENCE"
proof -
  obtain cs b where r: "list_all proper_call (map snd cs)" "isgfc_exist s"
    "gfc_run p cs (replicate HAL_BUFF_SIZE 0, gfc_boot) = Some (b, s)"
    using assms by (auto simp: gfc_reachable_def)
  have b: "shape.table_keeps (snd (replicate HAL_BUFF_SIZE 0, gfc_boot))"
    "count.table_keeps (snd (replicate HAL_BUFF_SIZE 0, gfc_boot))"
    by (simp_all add: shape.table_keeps_def count.table_keeps_def table_of_def gfc_boot_def)
  from shape.run_kept [OF b(1) r(1,3)] count.run_kept [OF b(2) r(1,3)] r(2)
  show "table_ok (geofence_property s)" "int (in_use (geofence_property s)) \<le> gTotalFence s"
    "gTotalFence s \<le> int MAX_GOEFENCE"
    by (simp_all add: shape.table_keeps_def count.table_keeps_def table_of_def)
qed

definition fence_map :: "fence list \<Rightarrow> u32 \<Rightarrow> fence option" where
  "fence_map fs k = (if k = - 1 then None else map_option ((!) fs) (first_slot (\<lambda>f. geofence_id f = k) fs))"

definition fences :: "gfc_hal \<Rightarrow> u32 \<Rightarrow> fence option" where
  "fences s = fence_map (geofence_property s)"

lemma fence_map_Some:
  assumes "table_ok fs"
  shows "fence_map fs k = Some f \<longleftrightarrow> k \<noteq> - 1 \<and> f \<in> set fs \<and> geofence_id f = k"
proof (cases "first_slot (\<lambda>f. geofence_id f = k) fs")
  case None
  then have "\<forall>f\<in>set fs. geofence_id f \<noteq> k" by (simp add: first_slot_None)
  with None show ?thesis by (auto simp: fence_map_def)
next
  case (Some i)
  then have i: "i < length fs" "geofence_id (fs ! i) = k" by (auto simp: first_slot_Some)
  have "f = fs ! i" if "k \<noteq> - 1" "f \<in> set fs" "geofence_id f = k"
    by (metis i that table_ok_unique [OF assms] in_set_conv_nth)
  moreover have "fs ! i \<in> set fs" using i(1) by simp
  ultimately show ?thesis using Some i(2) by (auto simp: fence_map_def)
qed

lemma fence_map_slot:
  "table_ok fs \<Longrightarrow> first_slot (\<lambda>f. geofence_id f = k) fs = Some i \<Longrightarrow> k \<noteq> - 1 \<Longrightarrow> fence_map fs k = Some (fs ! i)"
  by (simp add: fence_map_def)

lemma set_update_other: "i < length fs \<Longrightarrow> set (fs[i := f]) = insert f {fs ! j | j. j < length fs \<and> j \<noteq> i}"
  by (auto simp: set_conv_nth nth_list_update)

lemma fence_map_update:
  assumes "table_ok fs" "table_ok (fs[i := f])" "i < length fs"
  shows "fence_map (fs[i := f]) k =
    (if k = - 1 then None else if k = geofence_id f then Some f
     else if k = geofence_id (fs ! i) then None else fence_map fs k)"
proof -
  have "fence_map (fs[i := f]) k = Some g \<longleftrightarrow> k \<noteq> - 1 \<and> geofence_id g = k \<and>
      (if k = geofence_id f then g = f else k \<noteq> geofence_id (fs ! i) \<and> g \<in> set fs)" for g
  proof -
    have "g = f" if "g \<in> set (fs[i := f])" "geofence_id g = geofence_id f" "geofence_id f \<noteq> - 1"
      using that fence_map_Some [OF assms(2), of "geofence_id f"] set_update_memI [OF assms(3), of f]
      by (metis option.inject)
    moreover have "g \<in> set fs \<longleftrightarrow> g \<in> set (fs[i := f])"
      if "geofence_id g \<noteq> geofence_id (fs ! i)" "geofence_id g \<noteq> geofence_id f"
      using that assms(3) by (auto simp: set_update_other in_set_conv_nth)
    moreover have "g \<notin> set (fs[i := f])"
      if "geofence_id g = geofence_id (fs ! i)" "geofence_id g \<noteq> geofence_id f" "geofence_id g \<noteq> - 1"
      using that assms(3) table_ok_unique [OF assms(1) _ assms(3)] by (auto simp: set_update_other)
    moreover have "f \<in> set (fs[i := f])" using assms(3) by (rule set_update_memI)
    ultimately show ?thesis unfolding fence_map_Some [OF assms(2)]
      by (cases "geofence_id g = geofence_id (fs ! i)"; cases "geofence_id g = geofence_id f") auto
  qed
  then have "fence_map (fs[i := f]) k = Some g \<longleftrightarrow> (if k = - 1 then None else if k = geofence_id f then Some f
     else if k = geofence_id (fs ! i) then None else fence_map fs k) = Some g" for g
    using fence_map_Some [OF assms(1)] by auto
  then show ?thesis by (metis option.exhaust)
qed

section \<open>Calls as updates of the map\<close>

text \<open>What a call sends: one command, unless the kernel refuses the memory or the datagram.\<close>

definition sends :: "hal_os \<Rightarrow> u32 \<Rightarrow> bytes \<Rightarrow> gfc_event list" where
  "sends os c pl = (if malloc_ok os 0 \<and> send_ok os 0 then [Gfc_to_mnl (command_datagram c pl)] else [])"

lemma send_command_effect:
  assumes "length pl \<le> 1004"
  obtains s' where "send_command os c pl s = Some s'" "geofence_property s' = geofence_property s"
    "gTotalFence s' = gTotalFence s" "gfc_log s' = gfc_log s @ sends os c pl"
  using assms by (auto simp: send_command_some sends_def)

text \<open>The fence whose slot the next fence gets although it is still in the table.\<close>

definition overwritten :: "gfc_hal \<Rightarrow> u32 option" where
  "overwritten s = (case get_buff_avalibale_item s of None \<Rightarrow> None
     | Some i \<Rightarrow> if geofence_id (geofence_property s ! i) = - 1 then None
         else Some (geofence_id (geofence_property s ! i)))"

lemma first_slot_cong: "first_slot P fs = Some i \<Longrightarrow> i < length fs \<and> P (fs ! i)"
  by (simp add: first_slot_Some)

lemma full_table:
  assumes "table_ok fs" "\<forall>f\<in>set fs. geofence_id f \<noteq> - 1"
  shows "in_use fs = MAX_GOEFENCE"
  using assms by (simp add: in_use_def table_ok_def)

lemma room_for_another:
  assumes "table_ok (geofence_property s)" "int (in_use (geofence_property s)) \<le> gTotalFence s"
    "gTotalFence s < int MAX_GOEFENCE"
  obtains i where "get_buff_avalibale_item s = Some i" "i < length (geofence_property s)"
    "alive (geofence_property s ! i) \<noteq> 1"
proof (cases "get_buff_avalibale_item s")
  case None
  then have "\<forall>f\<in>set (geofence_property s). alive f = 1"
    by (simp add: get_buff_avalibale_item_def first_slot_None)
  then have "\<forall>f\<in>set (geofence_property s). geofence_id f \<noteq> - 1"
    using assms(1) by (auto simp: table_ok_def)
  from full_table [OF assms(1) this] assms(2,3) show ?thesis by simp
next
  case (Some i)
  with that show ?thesis by (auto simp: get_buff_avalibale_item_def dest: first_slot_cong)
qed

lemma exist_fences: "k \<noteq> - 1 \<Longrightarrow> check_buff_fence_exist k s = None \<longleftrightarrow> fences s k = None"
  by (simp add: check_buff_fence_exist_def fences_def fence_map_def)

lemma exist_fences_Some:
  "k \<noteq> - 1 \<Longrightarrow> check_buff_fence_exist k s = Some i \<Longrightarrow> fences s k = Some (geofence_property s ! i)"
  by (simp add: check_buff_fence_exist_def fences_def fence_map_def)

lemma vadility_fences:
  "geofence_id f \<noteq> - 1 \<Longrightarrow> check_fence_vadility f s = 0 \<longleftrightarrow> gTotalFence s < int MAX_GOEFENCE \<and>
     fences s (geofence_id f) = None \<and> check_valid_transition (monitor_transition f) = 0"
  by (auto simp: check_fence_vadility_def exist_fences [symmetric] check_buff_full_of_fence_def
      MTK_GFC_ERROR_def MTK_GFC_SUCCESS_def check_valid_transition_def)

lemma free_fence_id [simp]: "geofence_id free_fence = - 1"
  by (simp add: free_fence_def)

lemma fence_map_free [simp]: "fence_map fs (- 1) = None"
  by (simp add: fence_map_def)

lemma change_fences:
  assumes "table_ok (geofence_property s)" "proper_id k" "check_buff_fence_exist k s = Some i"
    "geofence_id g = k" "geofence_property s' = (geofence_property s)[i := g]"
  shows "fences s' = (fences s)(k \<mapsto> g)"
proof -
  have i: "i < length (geofence_property s)" "geofence_id (geofence_property s ! i) = k"
    using assms(3) by (auto simp: check_buff_fence_exist_def dest: first_slot_cong)
  have ok: "table_ok ((geofence_property s)[i := g])"
    by (rule shape.changed [OF assms(1) assms(3) [unfolded check_buff_fence_exist_def] assms(4)]) (simp add: assms(2))
  show ?thesis
    using assms(2,4) i(2) by (auto simp: fun_eq_iff fences_def assms(5) fence_map_update [OF assms(1) ok i(1)])
qed

lemma add_effect:
  assumes "table_ok (geofence_property s)" "int (in_use (geofence_property s)) \<le> gTotalFence s"
    "proper_id (geofence_id f)" "alive f = 1" "check_fence_vadility f s = 0"
  shows "\<exists>s'. hal2_geofence_add_geofences os f s = Some s' \<and>
    fences s' = (case overwritten s of None \<Rightarrow> fences s | Some v \<Rightarrow> (fences s)(v := None))(geofence_id f \<mapsto> f) \<and>
    gTotalFence s' = gTotalFence s + 1 \<and> gfc_log s' = gfc_log s @ sends os ADD_GEOFENCE_AREA (le32 1 @ fence_bytes f)"
proof -
  have v: "gTotalFence s < int MAX_GOEFENCE" "check_buff_fence_exist (geofence_id f) s = None"
    using assms(3,5) by (simp_all add: vadility_fences exist_fences)
  obtain i where i: "get_buff_avalibale_item s = Some i" "i < length (geofence_property s)"
    "alive (geofence_property s ! i) \<noteq> 1" by (rule room_for_another [OF assms(1,2) v(1)])
  have f: "f\<lparr>alive := 1\<rparr> = f" using assms(4) by simp
  define s1 where "s1 = snd (set_buff_add_fence f s)"
  have s1: "geofence_property s1 = (geofence_property s)[i := f]" "gTotalFence s1 = gTotalFence s + 1"
    "gfc_log s1 = gfc_log s"
    by (simp_all add: s1_def set_buff_add_fence_def i(1) Let_def f)
  obtain s' where s': "send_command os ADD_GEOFENCE_AREA (le32 1 @ fence_bytes f) s1 = Some s'"
    "geofence_property s' = geofence_property s1" "gTotalFence s' = gTotalFence s1"
    "gfc_log s' = gfc_log s1 @ sends os ADD_GEOFENCE_AREA (le32 1 @ fence_bytes f)"
    by (rule send_command_effect [of "le32 1 @ fence_bytes f"]) simp_all
  have ok: "table_ok ((geofence_property s)[i := f])"
    by (rule shape.added [OF assms(1) v(1) v(2) [unfolded check_buff_fence_exist_def]
          i(1) [unfolded get_buff_avalibale_item_def] assms(3,4)])
  have "fences s' = (case overwritten s of None \<Rightarrow> fences s | Some v \<Rightarrow> (fences s)(v := None))(geofence_id f \<mapsto> f)"
    using assms(3) by (auto simp: fun_eq_iff fences_def s' s1 fence_map_update [OF assms(1) ok i(2)] overwritten_def i(1))
  with s' s1 assms(5) show ?thesis by (simp add: hal2_geofence_add_geofences_def s1_def)
qed

lemma pause_effect:
  assumes "table_ok (geofence_property s)" "proper_id k"
  shows "\<exists>s'. hal2_geofence_pause_geofence os k s = Some s' \<and> gTotalFence s' = gTotalFence s \<and>
    fences s' = (case fences s k of None \<Rightarrow> fences s | Some g \<Rightarrow>
      (fences s)(k \<mapsto> g\<lparr>alive := 0, last_transition := UNCERTAIN, latest_state := STATE_uncertain\<rparr>)) \<and>
    gfc_log s' = gfc_log s @ (case fences s k of None \<Rightarrow> [] | Some _ \<Rightarrow> sends os PAUSE_GEOFENCE (le32 k))"
proof (cases "check_buff_fence_exist k s")
  case None
  with assms(2) exist_fences [of k s] show ?thesis by (simp add: hal2_geofence_pause_geofence_def)
next
  case (Some i)
  let ?g = "(geofence_property s ! i)\<lparr>alive := 0, last_transition := UNCERTAIN, latest_state := STATE_uncertain\<rparr>"
  obtain s' where s': "send_command os PAUSE_GEOFENCE (le32 k) (set_buff_pause_fence i s) = Some s'"
    "geofence_property s' = (geofence_property s)[i := ?g]" "gTotalFence s' = gTotalFence s"
    "gfc_log s' = gfc_log s @ sends os PAUSE_GEOFENCE (le32 k)"
    by (rule send_command_effect [of "le32 k" os PAUSE_GEOFENCE "set_buff_pause_fence i s"])
      (simp_all add: set_buff_pause_fence_def)
  have "fences s' = (fences s)(k \<mapsto> ?g)"
    by (rule change_fences [OF assms Some _ s'(2)]) (use Some in \<open>auto simp: check_buff_fence_exist_def dest: first_slot_cong\<close>)
  with s' Some exist_fences_Some [OF _ Some] assms(2) show ?thesis by (simp add: hal2_geofence_pause_geofence_def)
qed

lemma resume_effect:
  assumes "table_ok (geofence_property s)" "proper_id k"
  shows "\<exists>s'. hal2_geofence_resume_geofence os k m s = Some s' \<and> gTotalFence s' = gTotalFence s \<and>
    fences s' = (case fences s k of None \<Rightarrow> fences s | Some g \<Rightarrow>
      (fences s)(k \<mapsto> g\<lparr>monitor_transition := m, alive := 1\<rparr>)) \<and>
    gfc_log s' = gfc_log s @ (case fences s k of None \<Rightarrow> [] | Some _ \<Rightarrow> sends os RESUME_GEOFENCE (le32 k @ le32 m))"
proof (cases "check_buff_fence_exist k s")
  case None
  with assms(2) exist_fences [of k s] show ?thesis by (simp add: hal2_geofence_resume_geofence_def)
next
  case (Some i)
  let ?g = "(geofence_property s ! i)\<lparr>monitor_transition := m, alive := 1\<rparr>"
  obtain s' where s': "send_command os RESUME_GEOFENCE (le32 k @ le32 m) (set_buff_resume_fence i m s) = Some s'"
    "geofence_property s' = (geofence_property s)[i := ?g]" "gTotalFence s' = gTotalFence s"
    "gfc_log s' = gfc_log s @ sends os RESUME_GEOFENCE (le32 k @ le32 m)"
    by (rule send_command_effect [of "le32 k @ le32 m" os RESUME_GEOFENCE "set_buff_resume_fence i m s"])
      (simp_all add: set_buff_resume_fence_def)
  have "fences s' = (fences s)(k \<mapsto> ?g)"
    by (rule change_fences [OF assms Some _ s'(2)]) (use Some in \<open>auto simp: check_buff_fence_exist_def dest: first_slot_cong\<close>)
  with s' Some exist_fences_Some [OF _ Some] assms(2) show ?thesis by (simp add: hal2_geofence_resume_geofence_def)
qed

lemma remove_effect:
  assumes "table_ok (geofence_property s)" "proper_id k"
  shows "\<exists>s'. hal2_geofence_remove_geofences os k s = Some s' \<and> fences s' = (fences s)(k := None) \<and>
    gTotalFence s' = (if fences s k = None \<or> gTotalFence s \<le> 0 then gTotalFence s else gTotalFence s - 1) \<and>
    gfc_log s' = gfc_log s @ (case fences s k of None \<Rightarrow> [] | Some _ \<Rightarrow> sends os REMOVE_GEOFENCE (le32 k))"
proof (cases "check_buff_fence_exist k s")
  case None
  with assms(2) exist_fences [of k s] show ?thesis by (auto simp: hal2_geofence_remove_geofences_def)
next
  case (Some i)
  have i: "i < length (geofence_property s)" "geofence_id (geofence_property s ! i) = k"
    using Some by (auto simp: check_buff_fence_exist_def dest: first_slot_cong)
  obtain s1 where s1: "mtk_geo_inject_info_reset k s = Some s1"
    using assms(2) by (cases "sint k < int MAX_GOEFENCE")
      (auto simp: mtk_geo_inject_info_reset_def write_info_def proper_id_def)
  note w = write_info_keeps [OF s1 [unfolded mtk_geo_inject_info_reset_def]]
  obtain s' where s': "send_command os REMOVE_GEOFENCE (le32 k) (set_buff_remove_fence i s1) = Some s'"
    "geofence_property s' = (geofence_property s)[i := free_fence]"
    "gTotalFence s' = (if gTotalFence s \<le> 0 then gTotalFence s else gTotalFence s - 1)"
    "gfc_log s' = gfc_log s @ sends os REMOVE_GEOFENCE (le32 k)"
    by (rule send_command_effect [of "le32 k" os REMOVE_GEOFENCE "set_buff_remove_fence i s1"])
      (auto simp: set_buff_remove_fence_def Let_def w split: if_splits)
  have ok: "table_ok ((geofence_property s)[i := free_fence])"
    by (rule shape.removed [OF assms(1) Some [unfolded check_buff_fence_exist_def] assms(2)])
  have "fences s' = (fences s)(k := None)"
    using i(2) by (auto simp: fun_eq_iff fences_def s' fence_map_update [OF assms(1) ok i(1)])
  with s' s1 Some exist_fences_Some [OF _ Some] assms(2) show ?thesis by (simp add: hal2_geofence_remove_geofences_def)
qed

section \<open>Properties\<close>


text \<open>Arguments of an add call.\<close>

definition add_args :: "u32 \<Rightarrow> fence_args" where
  "add_args k = \<lparr>a_id = k, a_latitude = 1, a_longitude = 2, a_radius = 3, a_last = UNCERTAIN, a_monitor = ENTERED,
     a_notification = 1000, a_unknown = 5000, a_pads = (0, 0)\<rparr>"

definition platform_64 :: gfc_platform where
  "platform_64 = \<lparr>is_64 = True, sizeof_GpsLocation = 64\<rparr>"

text \<open>A short run: initialisation and calls.\<close>

definition after :: "gfc_call list \<Rightarrow> gfc_hal" where
  "after cs = snd (the (gfc_run platform_64 (map (Pair os_fine) (Fence_init None True # cs))
     (replicate HAL_BUFF_SIZE 0, gfc_boot)))"

lemma reachable_after:
  assumes "list_all proper_call cs"
    "case gfc_run platform_64 (map (Pair os_fine) (Fence_init None True # cs))
      (replicate HAL_BUFF_SIZE 0, gfc_boot) of None \<Rightarrow> False | Some (b, s) \<Rightarrow> isgfc_exist s"
  shows "gfc_reachable platform_64 (after cs)"
proof -
  obtain b s where r: "gfc_run platform_64 (map (Pair os_fine) (Fence_init None True # cs))
      (replicate HAL_BUFF_SIZE 0, gfc_boot) = Some (b, s)" "isgfc_exist s"
    using assms(2) by (auto split: option.splits)
  then have "after cs = s" by (simp add: after_def)
  moreover have "list_all proper_call (map snd (map (Pair os_fine) (Fence_init None True # cs)))"
    using assms(1) by (simp add: comp_def)
  ultimately show ?thesis using r unfolding gfc_reachable_def by blast
qed

lemma ids_proper [simp]: "proper_id 0" "proper_id 1" "proper_id 2" "proper_id 3" "proper_id 4" "proper_id 5"
  by (simp_all add: proper_id_def)

lemma add_args_simps [simp]: "a_id (add_args k) = k" "a_monitor (add_args k) = ENTERED"
  by (simp_all add: add_args_def)

text \<open>Fences 1 and 2 are added, then 1 is paused.\<close>

definition paused_first :: gfc_hal where
  "paused_first = after [Fence_add (add_args 1), Fence_add (add_args 2), Fence_pause 1]"

lemma paused_reachable: "gfc_reachable platform_64 paused_first"
  unfolding paused_first_def by (rule reachable_after) (simp_all, code_simp)




section \<open>Recovery\<close>

text \<open>The fence an object representation stands for.\<close>

definition fence_of_bytes :: "bytes \<Rightarrow> fence" where
  "fence_of_bytes b = \<lparr>geofence_id = of_le32 b, pad_id = of_le32 (drop 4 b), fence_latitude = of_le64 (drop 8 b),
     fence_longitude = of_le64 (drop 16 b), fence_radius = of_le64 (drop 24 b), coordinate_dn = of_le32 (drop 32 b),
     coordinate_de = of_le32 (drop 36 b), last_transition = of_le32 (drop 40 b), monitor_transition = of_le32 (drop 44 b),
     notification_period = of_le32 (drop 48 b), unknown_timer = of_le32 (drop 52 b), alive = of_le32 (drop 56 b),
     latest_state = of_le32 (drop 60 b), fence_config = of_le32 (drop 64 b), pad_end = of_le32 (drop 68 b)\<rparr>"

lemma fence_of_bytes_fence_bytes [simp]: "fence_of_bytes (fence_bytes f @ r) = f"
  by (cases f) (simp add: fence_of_bytes_def fence_bytes_def)

text \<open>The command a datagram carries: its number and its payload.\<close>

definition command_of :: "bytes \<Rightarrow> u32 \<times> bytes" where
  "command_of d = (of_le32 (drop 12 d), drop 20 d)"

lemma command_of_datagram [simp]: "command_of (command_datagram c pl) = (c, pl)"
  by (simp add: command_of_def command_datagram_def geo_header_def)

definition recovers :: "bytes \<Rightarrow> fence option" where
  "recovers d = (if fst (command_of d) = RECOVER_GEOFENCE then Some (fence_of_bytes (drop 4 (snd (command_of d)))) else None)"

lemma recovers_datagram [simp]:
  "recovers (command_datagram RECOVER_GEOFENCE (le32 n @ fence_bytes f)) = Some f"
  using fence_of_bytes_fence_bytes [of f "[]"] by (simp add: recovers_def)

lemma recover_slots_effect:
  assumes "\<forall>j. malloc_ok os j"
  shows "\<exists>s'. recover_slots os k fs s = Some s' \<and> table_of s' = table_of s \<and>
    gfc_log s' = gfc_log s @ map (\<lambda>f. Gfc_to_mnl (command_datagram RECOVER_GEOFENCE (le32 1 @ fence_bytes f)))
      (map snd (takeWhile (\<lambda>(j, f). send_ok os j) (zip [k..<k + length (filter (\<lambda>f. alive f = 1) fs)]
         (filter (\<lambda>f. alive f = 1) fs))))"
  using assms
proof (induction os k fs s rule: recover_slots.induct)
  case (2 os k f fs s)
  have m: "malloc_ok os k" "\<forall>j. malloc_ok os j" using "2.prems" by auto
  show ?case
  proof (cases "alive f = 1")
    case alive: True
    have u: "[k..<Suc (k + n)] = k # [Suc k..<Suc (k + n)]" for n by (simp add: upt_rec)
    show ?thesis
    proof (cases "send_ok os k")
      case True
      with alive m "2.IH"(1) [OF alive, of _ "(0, gfc_note (Gfc_to_mnl (command_datagram RECOVER_GEOFENCE (le32 1 @ fence_bytes f))) s)"]
      show ?thesis
        by (auto simp: gfc_send2mnl_def u table_of_def command_datagram_def simp del: upt_Suc)
    qed (use alive m in \<open>simp add: gfc_send2mnl_def u del: upt_Suc\<close>)
  qed (use m "2.IH"(2) in simp)
qed simp

text \<open>C25: when the daemon reports that it was reset, the HAL sends it the alive fences, in slot order, each in
  a datagram that carries the fence as it is now, and changes nothing itself; it stops at the first
  datagram the kernel refuses. (Here allocation must succeed, as the code does not check it.)\<close>

theorem fences_recovered:
  assumes "\<forall>j. malloc_ok os j"
  shows "\<exists>s' ds. hal2_geofence_recover_geofences os s = Some s' \<and> gfc_log s' = gfc_log s @ map Gfc_to_mnl ds \<and>
    geofence_property s' = geofence_property s \<and>
    (let fs = filter (\<lambda>f. alive f = 1) (geofence_property s);
         n = length (takeWhile (send_ok os) [0..<length fs])
     in map recovers ds = map Some (take n fs))"
proof -
  let ?fs = "filter (\<lambda>f. alive f = 1) (geofence_property s)"
  have tw: "map snd (takeWhile (\<lambda>(j, f). P j) (zip js xs)) = take (length (takeWhile P js)) xs"
    if "length js = length xs" for P :: "nat \<Rightarrow> bool" and js and xs :: "fence list"
    using that by (induction js xs rule: list_induct2) auto
  obtain s' where s': "hal2_geofence_recover_geofences os s = Some s'" "table_of s' = table_of s"
    "gfc_log s' = gfc_log s @ map (\<lambda>f. Gfc_to_mnl (command_datagram RECOVER_GEOFENCE (le32 1 @ fence_bytes f)))
       (take (length (takeWhile (send_ok os) [0..<length ?fs])) ?fs)"
    using recover_slots_effect [OF assms, of 0 "geofence_property s" s] tw [of "[0..<length ?fs]" ?fs "send_ok os"]
    by (auto simp: hal2_geofence_recover_geofences_def)
  then show ?thesis
    by (intro exI [of _ s'] exI [of _ "map (\<lambda>f. command_datagram RECOVER_GEOFENCE (le32 1 @ fence_bytes f))
         (take (length (takeWhile (send_ok os) [0..<length ?fs])) ?fs)"])
      (auto simp: Let_def table_of_def comp_def)
qed

theorem fences_recovered_witness:
  "\<exists>s' ds. hal2_geofence_recover_geofences os_fine paused_first = Some s' \<and>
     gfc_log s' = gfc_log paused_first @ map Gfc_to_mnl ds \<and> map (map_option geofence_id \<circ> recovers) ds = [Some 2]"
proof -
  have f: "map geofence_id (filter (\<lambda>f. alive f = 1) (geofence_property paused_first)) = [2]" by code_simp
  then obtain g where g: "filter (\<lambda>f. alive f = 1) (geofence_property paused_first) = [g]" "geofence_id g = 2" by auto
  have "\<forall>j. malloc_ok os_fine j" by simp
  from fences_recovered [OF this, of paused_first] g show ?thesis
    by (auto simp: Let_def map_eq_Cons_conv)
qed

section \<open>Undefined calls, repeated datagrams, paused fences\<close>

lemma inject_get_None: "mtk_geo_inject_info_get k s = None \<longleftrightarrow> sint k < 0"
  by (simp add: mtk_geo_inject_info_get_def MAX_GOEFENCE_def split_beta Let_def)

lemma inject_reset_None: "mtk_geo_inject_info_reset k s = None \<longleftrightarrow> sint k < 0"
  by (simp add: mtk_geo_inject_info_reset_def write_info_def MAX_GOEFENCE_def)

lemma add_some: "hal2_geofence_add_geofences os f s \<noteq> None"
  by (simp add: hal2_geofence_add_geofences_def send_command_some)

lemma remove_None:
  "hal2_geofence_remove_geofences os k s = None \<longleftrightarrow> check_buff_fence_exist k s \<noteq> None \<and> sint k < 0"
proof (cases "check_buff_fence_exist k s")
  case (Some i)
  then show ?thesis
    by (cases "mtk_geo_inject_info_reset k s")
      (use inject_reset_None [of k s] in \<open>simp_all add: hal2_geofence_remove_geofences_def send_command_some\<close>)
qed (simp add: hal2_geofence_remove_geofences_def)

text \<open>Which calls of the framework leave the arrays. Exactly: an add with a negative identifier reads in
  front of the table of injected factors, and a remove with identifier -1 writes there as soon as a slot
  is free, because -1 marks free slots and the search finds one.\<close>

theorem fence_calls_undefined_iff:
  assumes "gfc_reachable p s"
  shows "(mtk_hal_geofence_add_geofences os a s = None \<longleftrightarrow> sint (a_id a) < 0) \<and>
    mtk_hal_geofence_pause_geofence os k s \<noteq> None \<and> mtk_hal_geofence_resume_geofence os k m s \<noteq> None \<and>
    (mtk_hal_geofence_remove_geofences os k s = None \<longleftrightarrow>
       k = - 1 \<and> (\<exists>f\<in>set (geofence_property s). geofence_id f = - 1))"
proof (intro conjI)
  have e: "isgfc_exist s" using assms by (simp add: gfc_reachable_def)
  note ok = reachable_table(1) [OF assms]
  show "mtk_hal_geofence_add_geofences os a s = None \<longleftrightarrow> sint (a_id a) < 0"
    using e inject_get_None [of "a_id a" s] add_some
    by (cases "mtk_geo_inject_info_get (a_id a) s") (simp_all add: mtk_hal_geofence_add_geofences_def)
  show "mtk_hal_geofence_pause_geofence os k s \<noteq> None" "mtk_hal_geofence_resume_geofence os k m s \<noteq> None"
    using e by (simp_all add: mtk_hal_geofence_pause_geofence_def hal2_geofence_pause_geofence_def
        mtk_hal_geofence_resume_geofence_def hal2_geofence_resume_geofence_def send_command_some split: option.split)
  have "k = - 1 \<or> proper_id k" if "check_buff_fence_exist k s = Some i" for i
    using first_slot_cong [OF that [unfolded check_buff_fence_exist_def]] table_ok_slot [OF ok, of i] by auto
  then have "mtk_hal_geofence_remove_geofences os k s = None \<longleftrightarrow> k = - 1 \<and> check_buff_fence_exist k s \<noteq> None"
    using e by (auto simp: mtk_hal_geofence_remove_geofences_def remove_None proper_id_def)
  then show "mtk_hal_geofence_remove_geofences os k s = None \<longleftrightarrow>
       k = - 1 \<and> (\<exists>f\<in>set (geofence_property s). geofence_id f = - 1)"
    using first_slot_None [of "\<lambda>f. geofence_id f = - 1" "geofence_property s"]
    by (auto simp: check_buff_fence_exist_def)
qed

theorem fence_calls_undefined_iff_witness:
  "mtk_hal_geofence_add_geofences os_fine (add_args (- 7)) paused_first = None \<and>
   mtk_hal_geofence_remove_geofences os_fine (- 1) paused_first = None \<and>
   mtk_hal_geofence_remove_geofences os_fine 2 paused_first \<noteq> None"
proof -
  have "(\<exists>f\<in>set (geofence_property paused_first). geofence_id f = - 1)" by code_simp
  with fence_calls_undefined_iff [OF paused_reachable, of os_fine "add_args (- 7)" "- 1" 0]
    fence_calls_undefined_iff [OF paused_reachable, of os_fine "add_args (- 7)" 2 0]
  show ?thesis by simp
qed

text \<open>After a failed receive the thread handles the datagram it has handled last once more, so the
  framework gets the same report again.\<close>

theorem failed_receive_repeats:
  assumes "jni_thread_recv p os (Some d) (b, s) = Some (b', s')"
  shows "jni_thread_recv p os' None (b', s') = jni_thread_recv p os' (Some d) (b', s')"
proof -
  have "b' = received (Some d) b"
    using assms by (auto simp: jni_thread_recv_def bind_eq_Some_conv Let_def)
  then have "received None b' = received (Some d) b'"
    by (simp add: received_def min_def)
  then show ?thesis by (simp add: jni_thread_recv_def)
qed

text \<open>A fence is added and paused, again and again with new identifiers.\<close>

fun add_and_pause :: "hal_os \<Rightarrow> fence list \<Rightarrow> gfc_hal \<Rightarrow> gfc_hal option" where
    "add_and_pause os [] s = Some s"
  | "add_and_pause os (f # fs) s = do {
       s \<leftarrow> hal2_geofence_add_geofences os f s;
       s \<leftarrow> hal2_geofence_pause_geofence os (geofence_id f) s;
       add_and_pause os fs s }"

lemma free_fence_alive [simp]: "alive free_fence = 0"
  by (simp add: free_fence_def zero_fence_def)

lemma send_command_obtain:
  assumes "length pl \<le> 1004"
  obtains s' where "send_command os c pl s = Some s'" "geofence_property s' = geofence_property s"
    "gTotalFence s' = gTotalFence s"
  using send_command_effect [OF assms] by metis

lemma add_over_paused:
  assumes "geofence_property s = g # replicate 29 free_fence" "alive g = 0" "gTotalFence s < 30"
    "geofence_id g \<noteq> geofence_id f" "proper_id (geofence_id f)" "alive f = 1" "check_valid_transition (monitor_transition f) = 0"
  shows "\<exists>s1 s2. hal2_geofence_add_geofences os f s = Some s1 \<and> hal2_geofence_pause_geofence os (geofence_id f) s1 = Some s2 \<and>
    geofence_property s2 = f\<lparr>alive := 0, last_transition := UNCERTAIN, latest_state := STATE_uncertain\<rparr> # replicate 29 free_fence \<and>
    gTotalFence s2 = gTotalFence s + 1"
proof -
  have "first_slot (\<lambda>g. geofence_id g = geofence_id f) (geofence_property s) = None"
    using assms(4,5) by (auto simp: assms(1) first_slot_None)
  then have v: "check_fence_vadility f s = 0"
    using assms(3,7) by (simp add: check_fence_vadility_def check_buff_full_of_fence_def check_buff_fence_exist_def
        MAX_GOEFENCE_def MTK_GFC_SUCCESS_def)
  let ?t = "snd (set_buff_add_fence f s)"
  have t: "geofence_property ?t = f # replicate 29 free_fence" "gTotalFence ?t = gTotalFence s + 1"
    using assms(2,6) by (simp_all add: set_buff_add_fence_def get_buff_avalibale_item_def assms(1) Let_def)
  obtain s1 where s1: "send_command os ADD_GEOFENCE_AREA (le32 1 @ fence_bytes f) ?t = Some s1"
    "geofence_property s1 = geofence_property ?t" "gTotalFence s1 = gTotalFence ?t"
    by (rule send_command_obtain [of "le32 1 @ fence_bytes f" os ADD_GEOFENCE_AREA ?t]) simp_all
  have x: "check_buff_fence_exist (geofence_id f) s1 = Some 0" by (simp add: check_buff_fence_exist_def s1 t)
  obtain s2 where "send_command os PAUSE_GEOFENCE (le32 (geofence_id f)) (set_buff_pause_fence 0 s1) = Some s2"
    "geofence_property s2 = geofence_property (set_buff_pause_fence 0 s1)" "gTotalFence s2 = gTotalFence (set_buff_pause_fence 0 s1)"
    by (rule send_command_obtain [of "le32 (geofence_id f)" os PAUSE_GEOFENCE "set_buff_pause_fence 0 s1"]) simp_all
  with s1 t v x show ?thesis
    by (simp add: hal2_geofence_add_geofences_def hal2_geofence_pause_geofence_def set_buff_pause_fence_def)
qed

definition addable :: "fence \<Rightarrow> bool" where
  "addable f \<longleftrightarrow> proper_id (geofence_id f) \<and> alive f = 1 \<and> check_valid_transition (monitor_transition f) = 0"

lemma add_and_pause_over:
  assumes "geofence_property s = g # replicate 29 free_fence" "alive g = 0"
    "gTotalFence s + int (length fs) \<le> 30" "list_all addable fs" "distinct (geofence_id g # map geofence_id fs)"
  shows "\<exists>s' g'. add_and_pause os fs s = Some s' \<and> geofence_property s' = g' # replicate 29 free_fence \<and>
    gTotalFence s' = gTotalFence s + int (length fs) \<and> (if fs = [] then g' = g else geofence_id g' = geofence_id (last fs))"
  using assms
proof (induction fs arbitrary: s g)
  case (Cons f fs)
  have f: "gTotalFence s < 30" "geofence_id g \<noteq> geofence_id f" "proper_id (geofence_id f)" "alive f = 1"
    "check_valid_transition (monitor_transition f) = 0"
    using Cons.prems by (auto simp: addable_def)
  let ?g = "f\<lparr>alive := 0, last_transition := UNCERTAIN, latest_state := STATE_uncertain\<rparr>"
  obtain s1 s2 where s: "hal2_geofence_add_geofences os f s = Some s1"
    "hal2_geofence_pause_geofence os (geofence_id f) s1 = Some s2"
    "geofence_property s2 = ?g # replicate 29 free_fence" "gTotalFence s2 = gTotalFence s + 1"
    using add_over_paused [OF Cons.prems(1,2) f, of os] by blast
  have "\<exists>s' g'. add_and_pause os fs s2 = Some s' \<and> geofence_property s' = g' # replicate 29 free_fence \<and>
    gTotalFence s' = gTotalFence s2 + int (length fs) \<and> (if fs = [] then g' = ?g else geofence_id g' = geofence_id (last fs))"
    by (rule Cons.IH [OF s(3)]) (use Cons.prems s(4) in auto)
  with s show ?case by (auto split: if_splits)
qed simp

text \<open>The counter of fences drifts. Starting from the empty table, thirty different fences are added
  and each is paused before the next comes. The table then table_keeps one fence, all others have lost their
  slot, but the counter stands at 30 and every further add is refused.\<close>

theorem paused_adds_exhaust:
  assumes "geofence_property s = replicate 30 free_fence" "gTotalFence s = 0" "length fs = 30"
    "list_all addable fs" "distinct (map geofence_id fs)"
  shows "\<exists>s'. add_and_pause os fs s = Some s' \<and> in_use (geofence_property s') = 1 \<and>
    (\<forall>os f. hal2_geofence_add_geofences os f s' = Some s')"
proof -
  have p: "geofence_property s = free_fence # replicate 29 free_fence"
    using assms(1) by (simp flip: replicate_Suc)
  have "- 1 \<notin> geofence_id ` set fs" using assms(4) by (force simp: list_all_iff addable_def)
  then have "\<exists>s' g'. add_and_pause os fs s = Some s' \<and> geofence_property s' = g' # replicate 29 free_fence \<and>
    gTotalFence s' = gTotalFence s + int (length fs) \<and>
    (if fs = [] then g' = free_fence else geofence_id g' = geofence_id (last fs))"
    using assms by (intro add_and_pause_over [OF p]) auto
  then obtain s' g' where s': "add_and_pause os fs s = Some s'" "geofence_property s' = g' # replicate 29 free_fence"
    "gTotalFence s' = 30" "geofence_id g' = geofence_id (last fs)"
    using assms(2,3) by (auto split: if_splits)
  have "last fs \<in> set fs" using assms(3) by (intro last_in_set) auto
  then have "geofence_id g' \<noteq> - 1" using assms(4) s'(4) by (auto simp: list_all_iff addable_def)
  then have "in_use (geofence_property s') = 1" by (simp add: s'(2) in_use_def)
  moreover have "hal2_geofence_add_geofences os f s' = Some s'" for os f
    using s'(3) by (simp add: hal2_geofence_add_geofences_def check_fence_vadility_def check_buff_full_of_fence_def
        MAX_GOEFENCE_def MTK_GFC_ERROR_def)
  ultimately show ?thesis using s'(1) by blast
qed

theorem paused_adds_exhaust_witness:
  "\<exists>s'. add_and_pause os_fine (map (\<lambda>k. make_fence (add_args (of_nat k)) 0 (0, 0)) [0..<30]) (after []) = Some s' \<and>
    in_use (geofence_property s') = 1 \<and> hal2_geofence_add_geofences os_fine (make_fence (add_args 99) 0 (0, 0)) s' = Some s'"
proof -
  have s: "geofence_property (after []) = replicate 30 free_fence" "gTotalFence (after []) = 0" by code_simp+
  have f: "list_all addable (map (\<lambda>k. make_fence (add_args (of_nat k)) 0 (0, 0)) [0..<30])"
    "distinct (map geofence_id (map (\<lambda>k. make_fence (add_args (of_nat k)) 0 (0, 0)) [0..<30]))" by code_simp+
  show ?thesis using paused_adds_exhaust [OF s _ f, of os_fine] by auto
qed

theorem failed_receive_repeats_witness:
  "jni_thread_recv platform_64 os_fine None (received (Some [4, 0, 0, 0]) (replicate 1024 0), paused_first) =
   jni_thread_recv platform_64 os_fine (Some [4, 0, 0, 0]) (received (Some [4, 0, 0, 0]) (replicate 1024 0), paused_first)"
proof -
  have "jni_thread_recv platform_64 os_fine (Some [4, 0, 0, 0]) (replicate 1024 0, paused_first) =
      Some (received (Some [4, 0, 0, 0]) (replicate 1024 0), paused_first)"
    by code_simp
  from failed_receive_repeats [OF this] show ?thesis .
qed

section \<open>Transitions\<close>

text \<open>A location as the framework gets it.\<close>

definition framework_location :: "gfc_platform \<Rightarrow> bytes \<Rightarrow> bytes" where
  "framework_location p loc =
     (if is_64 p then le64 (of_nat (sizeof_GpsLocation p)) @ take 2 (drop 4 loc) @ replicate 6 0 @ drop 8 loc else loc)"

definition platform_ok :: "gfc_platform \<Rightarrow> bool" where
  "platform_ok p \<longleftrightarrow> 16 \<le> sizeof_GpsLocation p \<and> sizeof_GpsLocation p \<le> 128"

lemma read_location_some:
  assumes "platform_ok p" "length loc = sizeof_loc_in p" "length h = 12"
  shows "read_location p (h @ loc @ r) = Some (framework_location p loc)"
proof -
  have m: "mem_read (h @ loc @ r) 12 (sizeof_loc_in p) = Some loc"
    using assms(2,3) by (simp add: mem_read_def)
  show ?thesis
  proof (cases "is_64 p")
    case True
    have "8 \<le> length loc" "length loc \<le> 128"
      using True assms(1,2) by (auto simp: platform_ok_def sizeof_loc_in_def)
    then have "mtk_loc_rearrange p (loc @ replicate (128 - length loc) 0) = Some (framework_location p loc)"
      using True assms(2) by (simp add: mtk_loc_rearrange_def rearrange_location_def mem_read_def framework_location_def
          sizeof_loc_in_def)
    with \<open>length loc \<le> 128\<close> show ?thesis
      using assms(2) m True by (simp add: read_location_def)
  next
    case False
    then show ?thesis by (simp add: read_location_def m framework_location_def)
  qed
qed

definition transition_message :: "u32 \<Rightarrow> u32 \<Rightarrow> bytes \<Rightarrow> u32 \<Rightarrow> u64 \<Rightarrow> bytes" where
  "transition_message len k loc t ts = le32 OFL_GEOFENCE_CALLBACK_NTF @ le32 len @ le32 k @ loc @ le32 t @ le64 ts"

lemma hdlr_transition:
  assumes "get_binary (int HAL_BUFF_SIZE) 1024 (replicate 1024 0) (buff, 0) = Some (len, data, b)"
    "0 < len" "len \<le> 1024" "of_le32 data = OFL_GEOFENCE_CALLBACK_NTF"
  shows "mnl2gfchal_hdlr p os buff s = map_option (Pair 0) (mtk_geofence_transition_callbacks_proc p data s)"
  using assms by (simp add: mnl2gfchal_hdlr_def Let_def gfc_types MTK_GFC_SUCCESS_def)



end
