(* ===== verification/Flp_Hal.thy ===== *)
theory Flp_Hal
  imports Peer_Hal
begin

text \<open>
  The fused location HAL (\<open>gps/flp_hal\<close>): the ring of batched locations and the callbacks into the
  framework (\<open>flpinf.c\<close>), the options of up to ten batching instances and the commands to the daemon
  (\<open>hal2flp_interface.c\<close>), and the thread that receives the daemon's messages
  (\<open>flp2hal_interface.c\<close>). \<open>None\<close> is an access outside an array or a call through \<open>NULL\<close>.
  \<open>FlpLocation\<close> is a struct of the platform's headers and travels as bytes; \<open>FlpBatchOptions\<close> is one
  too, whose members the code uses by name.
\<close>

section \<open>State\<close>

definition MTK_FLP_BATCH_SIZE :: nat where
  "MTK_FLP_BATCH_SIZE = 30"

definition FLP_OPTION_MAX :: nat where
  "FLP_OPTION_MAX = 10"

definition BATCH_WAKE_ON_FIFO_FULL :: u32 where
  "BATCH_WAKE_ON_FIFO_FULL = 1"

record loc_ring =
  FlpLocBuffer :: "bytes list"
  FlpLocNum :: nat
  FlpLocBegin :: nat
  FlpLocEnd :: nat

text \<open>Which callbacks the framework's struct holds; the first two are checked before they are called.\<close>

record flp_callbacks =
  has_thread_event :: bool
  has_capabilities :: bool
  has_location :: bool
  has_status :: bool

datatype flp_event =
    Flp_to_mnl bytes
  | Location_cb "bytes list"
  | Status_cb u32
  | Capabilities_cb
  | Thread_event_cb
  | Timer_start int

text \<open>\<open>gFusedOptions\<close> exists twice, in \<open>hal2flp_interface.c\<close> and (\<open>inf_gFusedOptions\<close>) in \<open>flpinf.c\<close>.\<close>

record flp_hal =
  mtkFlpCallbacks :: "flp_callbacks option"
  gFlpOptions :: "batch_options list"
  gFusedOptions :: batch_options
  inf_gFusedOptions :: batch_options
  gFlpFirstBatch :: bool
  isflp_exist :: bool
  FlpLastStatus :: u32
  loc_buffer :: loc_ring
  fgtimerStarted :: bool
  fgtimerInit :: bool
  flp_log :: "flp_event list"

definition flp_boot :: flp_hal where
  "flp_boot = \<lparr>mtkFlpCallbacks = None, gFlpOptions = replicate FLP_OPTION_MAX no_options, gFusedOptions = no_options,
     inf_gFusedOptions = no_options, gFlpFirstBatch = True, isflp_exist = False, FlpLastStatus = 2,
     loc_buffer = \<lparr>FlpLocBuffer = replicate MTK_FLP_BATCH_SIZE [], FlpLocNum = 0, FlpLocBegin = 0, FlpLocEnd = 0\<rparr>,
     fgtimerStarted = False, fgtimerInit = False, flp_log = []\<rparr>"

text \<open>
  The platform: whether \<open>MTK_64_PLATFORM\<close> is defined, \<open>sizeof(FlpLocation)\<close>, and the test
  \<open>accuracy < 0.000001\<close> on a location.
\<close>

record flp_platform =
  flp_is_64 :: bool
  sizeof_FlpLocation :: nat
  no_accuracy :: "bytes \<Rightarrow> bool"

definition flp_note :: "flp_event \<Rightarrow> flp_hal \<Rightarrow> flp_hal" where
  "flp_note x s = s\<lparr>flp_log := flp_log s @ [x]\<rparr>"

section \<open>The ring of locations\<close>

definition next_index :: "nat \<Rightarrow> nat" where
  "next_index i = (if i + 1 = MTK_FLP_BATCH_SIZE then 0 else i + 1)"

definition FlpLocRingIsFull :: "loc_ring \<Rightarrow> bool" where
  "FlpLocRingIsFull r \<longleftrightarrow> FlpLocNum r = MTK_FLP_BATCH_SIZE"

definition FlpLocRingIsEmpty :: "loc_ring \<Rightarrow> bool" where
  "FlpLocRingIsEmpty r \<longleftrightarrow> FlpLocNum r = 0"

definition FlpLocRingAdd :: "bytes \<Rightarrow> loc_ring \<Rightarrow> loc_ring" where
  "FlpLocRingAdd p r =
     (let r = r\<lparr>FlpLocBuffer := (FlpLocBuffer r)[FlpLocBegin r := p], FlpLocBegin := next_index (FlpLocBegin r)\<rparr>
      in if FlpLocNum r < MTK_FLP_BATCH_SIZE then r\<lparr>FlpLocNum := FlpLocNum r + 1\<rparr>
         else r\<lparr>FlpLocEnd := next_index (FlpLocEnd r)\<rparr>)"

definition FlpLocRingRemove :: "loc_ring \<Rightarrow> (bytes \<times> loc_ring) option" where
  "FlpLocRingRemove r =
     (if FlpLocRingIsEmpty r then None
      else Some (FlpLocBuffer r ! FlpLocEnd r,
        r\<lparr>FlpLocNum := FlpLocNum r - 1, FlpLocEnd := next_index (FlpLocEnd r)\<rparr>))"

fun FlpLocRingRemoveN :: "nat \<Rightarrow> loc_ring \<Rightarrow> bytes list \<times> loc_ring" where
    "FlpLocRingRemoveN 0 r = ([], r)"
  | "FlpLocRingRemoveN (Suc n) r =
       (case FlpLocRingRemove r of
          None \<Rightarrow> ([], r)
        | Some (p, r) \<Rightarrow> let (ps, r) = FlpLocRingRemoveN n r in (p # ps, r))"

text \<open>The loop of \<open>FlpLocRingPeekLastN\<close>; the pointers it collects are read as the locations there.\<close>

fun peek_loop :: "nat \<Rightarrow> nat \<Rightarrow> nat \<Rightarrow> bytes list \<Rightarrow> bytes list" where
    "peek_loop (Suc n) (Suc num) b buf =
       (let b = (if b = 0 then MTK_FLP_BATCH_SIZE - 1 else b - 1)
        in buf ! b # peek_loop n num b buf)"
  | "peek_loop _ _ _ _ = []"

definition FlpLocRingPeekLastN :: "nat \<Rightarrow> loc_ring \<Rightarrow> bytes list" where
  "FlpLocRingPeekLastN n r = peek_loop n (FlpLocNum r) (FlpLocBegin r) (FlpLocBuffer r)"

definition reset_ring :: "loc_ring \<Rightarrow> loc_ring" where
  "reset_ring r = r\<lparr>FlpLocBegin := 0, FlpLocEnd := 0, FlpLocNum := 0\<rparr>"

section \<open>Options and commands\<close>

definition FLP_START_CMD :: u32 where "FLP_START_CMD = 201"
definition FLP_STOP_CMD :: u32 where "FLP_STOP_CMD = 202"
definition FLP_SET_OPTION_CMD :: u32 where "FLP_SET_OPTION_CMD = 204"
definition FLP_INJECT_LOC_CMD :: u32 where "FLP_INJECT_LOC_CMD = 205"
definition HSB_REPORT_LOC_NTF :: u32 where "HSB_REPORT_LOC_NTF = 300"
definition OFL_REPORT_LOC_NTF :: u32 where "OFL_REPORT_LOC_NTF = 301"
definition FLP_REQUEST_LOC_NTF :: u32 where "FLP_REQUEST_LOC_NTF = 401"
definition FLP_FLUSH_LOC_NTF :: u32 where "FLP_FLUSH_LOC_NTF = 402"
definition FLP_REPORT_STATUS_NTF :: u32 where "FLP_REPORT_STATUS_NTF = 403"

lemmas flp_types = peer_hal_types FLP_START_CMD_def FLP_STOP_CMD_def FLP_SET_OPTION_CMD_def FLP_INJECT_LOC_CMD_def
  HSB_REPORT_LOC_NTF_def OFL_REPORT_LOC_NTF_def FLP_REQUEST_LOC_NTF_def FLP_FLUSH_LOC_NTF_def FLP_REPORT_STATUS_NTF_def

definition flp_message :: "u32 \<Rightarrow> bytes \<Rightarrow> bytes" where
  "flp_message cmd payload = le32 cmd @ le32 (of_nat (length payload)) @ payload"

definition flp_send2mnl :: "hal_os \<Rightarrow> nat \<Rightarrow> bytes \<Rightarrow> flp_hal \<Rightarrow> int \<times> flp_hal" where
  "flp_send2mnl os k d s = (if send_ok os k then (0, flp_note (Flp_to_mnl d) s) else (- 1, s))"

text \<open>Allocate a message, fill it, send it: the tail of nine routines.\<close>

definition flp_command :: "hal_os \<Rightarrow> u32 \<Rightarrow> bytes \<Rightarrow> flp_hal \<Rightarrow> (int \<times> flp_hal) option" where
  "flp_command os cmd payload s =
     (if \<not> malloc_ok os 0 then Some (- 1, s)
      else do { d \<leftarrow> hal_datagram (flp_message cmd payload); Some (flp_send2mnl os 0 d s) })"

definition mtk_flp_set_options :: "int \<Rightarrow> batch_options \<Rightarrow> flp_hal \<Rightarrow> flp_hal option" where
  "mtk_flp_set_options inst options s =
     (if 0 \<le> inst \<and> inst < int FLP_OPTION_MAX then Some (s\<lparr>gFlpOptions := (gFlpOptions s)[nat inst := options]\<rparr>) else None)"

text \<open>One round of the loop of \<open>mtk_flp_update_options\<close>, and the loop.\<close>

definition fuse :: "batch_options \<Rightarrow> batch_options \<Rightarrow> batch_options" where
  "fuse x f =
     (if sources_to_use x = 0 then f
      else f\<lparr>sources_to_use := sources_to_use f OR sources_to_use x,
        batch_period_ns := (if sint (batch_period_ns f) > sint (batch_period_ns x) then batch_period_ns x else batch_period_ns f),
        batch_flags := (if batch_flags f < batch_flags x then batch_flags x else batch_flags f),
        max_power_allocation_mW := max_power_allocation_mW x\<rparr>)"

definition long_period :: u64 where
  "long_period = 1000000000000"

definition fused_options :: "batch_options list \<Rightarrow> batch_options" where
  "fused_options xs =
     (let f = fold fuse xs (no_options\<lparr>batch_period_ns := long_period\<rparr>)
      in if batch_period_ns f = long_period then f\<lparr>batch_period_ns := 0\<rparr> else f)"

definition mtk_flp_update_options :: "flp_hal \<Rightarrow> flp_hal" where
  "mtk_flp_update_options s = s\<lparr>gFusedOptions := fused_options (gFlpOptions s)\<rparr>"

definition flphal2mnl_flp_init :: "flp_hal \<Rightarrow> flp_hal" where
  "flphal2mnl_flp_init s = s\<lparr>gFlpOptions := replicate FLP_OPTION_MAX no_options\<rparr>"

definition flphal2mnl_flp_start :: "hal_os \<Rightarrow> int \<Rightarrow> batch_options \<Rightarrow> flp_hal \<Rightarrow> (int \<times> flp_hal) option" where
  "flphal2mnl_flp_start os inst options s =
     (if \<not> isflp_exist s then Some (- 1, s)
      else do {
        s \<leftarrow> mtk_flp_set_options inst options s;
        let s = mtk_flp_update_options s;
        if sources_to_use options = 0 then Some (0, s)
        else if gFlpFirstBatch s then do {
          (ret, s) \<leftarrow> flp_command os FLP_START_CMD (options_bytes (gFusedOptions s)) s;
          Some (if ret < 0 then (- 1, s) else (0, s\<lparr>gFlpFirstBatch := False\<rparr>)) }
        else flp_command os FLP_SET_OPTION_CMD (options_bytes (gFusedOptions s)) s })"

definition flphal2mnl_flp_reboot_done_ntf :: "hal_os \<Rightarrow> flp_hal \<Rightarrow> (int \<times> flp_hal) option" where
  "flphal2mnl_flp_reboot_done_ntf os s =
     (if \<not> gFlpFirstBatch s then flp_command os FLP_START_CMD (options_bytes (gFusedOptions s)) s else Some (0, s))"

definition flphal2mnl_update_batching_options :: "hal_os \<Rightarrow> int \<Rightarrow> batch_options option \<Rightarrow> flp_hal \<Rightarrow> (int \<times> flp_hal) option" where
  "flphal2mnl_update_batching_options os inst options s =
     (case options of
        None \<Rightarrow> Some (- 1, s)
      | Some options \<Rightarrow>
          if \<not> isflp_exist s then Some (- 1, s)
          else do {
            s \<leftarrow> mtk_flp_set_options inst options s;
            let s = mtk_flp_update_options s;
            flp_command os FLP_SET_OPTION_CMD (options_bytes (gFusedOptions s)) s })"

definition flphal2mnl_stop_batching :: "hal_os \<Rightarrow> int \<Rightarrow> flp_hal \<Rightarrow> (int \<times> flp_hal) option" where
  "flphal2mnl_stop_batching os inst s =
     (if inst \<ge> int FLP_OPTION_MAX \<or> inst < 0 \<or> \<not> isflp_exist s then Some (0, s)
      else
        let s = mtk_flp_update_options (s\<lparr>gFlpOptions := (gFlpOptions s)[nat inst := no_options]\<rparr>)
        in if sources_to_use (gFusedOptions s) = 0 then do {
             (ret, s) \<leftarrow> flp_command os FLP_STOP_CMD [] s;
             Some (if ret < 0 then (- 1, s) else (0, s\<lparr>gFlpFirstBatch := True\<rparr>)) }
           else flp_command os FLP_SET_OPTION_CMD (options_bytes (gFusedOptions s)) s)"

definition flphal2mnl_get_batched_location :: "hal_os \<Rightarrow> u32 \<Rightarrow> flp_hal \<Rightarrow> flp_hal option" where
  "flphal2mnl_get_batched_location os last_n_locations s =
     map_option snd (flp_command os FLP_REQUEST_LOC_NTF (le32 last_n_locations) s)"

definition flphal2mnl_inject_location :: "hal_os \<Rightarrow> bytes option \<Rightarrow> flp_hal \<Rightarrow> (int \<times> flp_hal) option" where
  "flphal2mnl_inject_location os location s =
     (case location of None \<Rightarrow> Some (- 1, s) | Some loc \<Rightarrow> flp_command os FLP_INJECT_LOC_CMD loc s)"

definition flphal2mnl_flush_batched_locations :: "hal_os \<Rightarrow> flp_hal \<Rightarrow> flp_hal option" where
  "flphal2mnl_flush_batched_locations os s = do {
     d \<leftarrow> hal_datagram (flp_message FLP_FLUSH_LOC_NTF []);
     Some (snd (flp_send2mnl os 0 d s)) }"

section \<open>Diagnostic data\<close>

text \<open>\<open>Unicode2Ascii\<close> into \<open>asciibuf[1024]\<close> with the terminating NUL; both arrays are checked.\<close>

definition Unicode2Ascii :: "bytes \<Rightarrow> nat \<Rightarrow> bytes option" where
  "Unicode2Ascii unicode len =
     (if len < 1024 \<and> (len = 0 \<or> 2 * (len - 1) < length unicode)
      then Some (map (\<lambda>i. unicode ! (2 * i)) [0..<len]) else None)"

definition text_bytes :: "string \<Rightarrow> bytes" where
  "text_bytes s = map (\<lambda>c. of_nat (of_char c)) s"

text \<open>\<open>strncmp (s, t, strlen (t)) == 0\<close>, and the tokens \<open>strtok\<close> cuts out at commas.\<close>

definition starts_with :: "string \<Rightarrow> bytes \<Rightarrow> bool" where
  "starts_with t s \<longleftrightarrow> take (length t) (cstr s) = text_bytes t"

fun strtok_from :: "bytes \<Rightarrow> bytes \<Rightarrow> bytes list" where
    "strtok_from tok [] = (if tok = [] then [] else [rev tok])"
  | "strtok_from tok (c # cs) =
       (if c = 44 then (if tok = [] then strtok_from [] cs else rev tok # strtok_from [] cs)
        else strtok_from (c # tok) cs)"

definition strtok_all :: "bytes \<Rightarrow> bytes list" where
  "strtok_all s = strtok_from [] (cstr s)"

text \<open>\<open>atof\<close> with the conversion to \<open>float\<close> is a parameter.\<close>

definition inject_geo_info :: "(bytes \<Rightarrow> u32) \<Rightarrow> bytes \<Rightarrow> u32 list" where
  "inject_geo_info atof s = (let vs = map atof (take 4 (tl (strtok_all s))) in vs @ replicate (4 - length vs) 0)"

definition flphal2mnl_diag_inject_data :: "(bytes \<Rightarrow> u32) \<Rightarrow> hal_os \<Rightarrow> bytes option \<Rightarrow> int \<Rightarrow> flp_hal \<Rightarrow> (int \<times> flp_hal) option" where
  "flphal2mnl_diag_inject_data atof os data len s =
     (case data of
        None \<Rightarrow> Some (- 1, s)
      | Some data \<Rightarrow>
          if len \<le> 0 then Some (- 1, s)
          else do {
            asciibuf \<leftarrow> Unicode2Ascii data (nat len);
            if starts_with ''RESET_FLP_DATA'' asciibuf then
              if gFlpFirstBatch s then Some (0, s)
              else do {
                let s = s\<lparr>gFlpOptions := replicate FLP_OPTION_MAX no_options, gFusedOptions := no_options\<rparr>;
                (ret, s) \<leftarrow> flp_command os FLP_STOP_CMD [] s;
                Some (if ret < 0 then (- 1, s) else (0, s\<lparr>gFlpFirstBatch := True\<rparr>)) }
            else if starts_with ''GEO_COR'' asciibuf then
              flp_command os GEOFENCE_INJECT_LOC_ENUM (concat (map le32 (take 3 (inject_geo_info atof asciibuf)))) s
            else Some (0, s) })"

section \<open>Messages from the daemon\<close>

definition location_cb :: "bytes list \<Rightarrow> flp_hal \<Rightarrow> flp_hal option" where
  "location_cb locs s =
     (case mtkFlpCallbacks s of
        None \<Rightarrow> Some s
      | Some c \<Rightarrow> if has_location c then Some (flp_note (Location_cb locs) s) else None)"

definition on_ring :: "(loc_ring \<Rightarrow> loc_ring) \<Rightarrow> flp_hal \<Rightarrow> flp_hal" where
  "on_ring f s = s\<lparr>loc_buffer := f (loc_buffer s)\<rparr>"

text \<open>Report the last 30 locations, newest first, and empty the ring: shared by two routines.\<close>

definition report_all :: "flp_hal \<Rightarrow> flp_hal option" where
  "report_all s = do {
     s \<leftarrow> location_cb (FlpLocRingPeekLastN MTK_FLP_BATCH_SIZE (loc_buffer s)) s;
     Some (on_ring (\<lambda>r. reset_ring (snd (FlpLocRingRemoveN MTK_FLP_BATCH_SIZE r))) s) }"

text \<open>The locations of a message; the length is divided as an unsigned number.\<close>

definition message_locations :: "flp_platform \<Rightarrow> bytes \<Rightarrow> bytes list option" where
  "message_locations p prmsg =
     those (map (\<lambda>i. mem_read prmsg (8 + i * sizeof_FlpLocation p) (sizeof_FlpLocation p))
       [0..<unat (of_le32 (drop 4 prmsg)) div sizeof_FlpLocation p])"

definition mtk_flp_report_loc :: "flp_platform \<Rightarrow> bytes \<Rightarrow> flp_hal \<Rightarrow> flp_hal option" where
  "mtk_flp_report_loc p prmsg s =
     (if of_le32 prmsg = OFL_REPORT_LOC_NTF then do {
        locs \<leftarrow> message_locations p prmsg;
        let s = on_ring (fold FlpLocRingAdd locs) s;
        Some (if \<not> fgtimerStarted s then (flp_note (Timer_start 200) s)\<lparr>fgtimerStarted := True\<rparr> else s) }
      else if of_le32 prmsg = HSB_REPORT_LOC_NTF then do {
        locs \<leftarrow> message_locations p prmsg;
        let s = on_ring (fold FlpLocRingAdd locs) s;
        if \<not> FlpLocRingIsFull (loc_buffer s) then Some s
        else if batch_flags (inf_gFusedOptions s) = BATCH_WAKE_ON_FIFO_FULL then report_all s
        else Some s }
      else Some s)"

text \<open>One callback per location.\<close>

fun report_each :: "bytes list \<Rightarrow> flp_hal \<Rightarrow> flp_hal option" where
    "report_each [] s = Some s"
  | "report_each (l # ls) s = location_cb [l] s \<bind> report_each ls"

definition mtk_flp_request_loc :: "u32 \<Rightarrow> flp_hal \<Rightarrow> flp_hal option" where
  "mtk_flp_request_loc req_num s =
     (if sint req_num < 0 then Some s
      else report_each (FlpLocRingPeekLastN (min (nat (sint req_num)) MTK_FLP_BATCH_SIZE) (loc_buffer s)) s)"

definition mtk_flp_flush_loc :: "flp_hal \<Rightarrow> flp_hal option" where
  "mtk_flp_flush_loc s =
     (if length (FlpLocRingPeekLastN MTK_FLP_BATCH_SIZE (loc_buffer s)) < 1 then Some s else report_all s)"

definition mtk_flp_report_status :: "u32 \<Rightarrow> flp_hal \<Rightarrow> flp_hal option" where
  "mtk_flp_report_status status s =
     (if FlpLastStatus s \<noteq> status then do {
        s \<leftarrow> (case mtkFlpCallbacks s of
               None \<Rightarrow> Some s
             | Some c \<Rightarrow> if has_status c then Some (flp_note (Status_cb status) s) else None);
        Some (s\<lparr>FlpLastStatus := status\<rparr>) }
      else Some s)"

definition mtk_mnl2flp_hal_response :: "flp_platform \<Rightarrow> hal_os \<Rightarrow> bytes \<Rightarrow> flp_hal \<Rightarrow> flp_hal option" where
  "mtk_mnl2flp_hal_response p os prmsg s =
     (let t = of_le32 prmsg in
      if t = SYS_FLPD_RESET_NTF then do {
        (_, s) \<leftarrow> flphal2mnl_flp_reboot_done_ntf os s;
        Some (on_ring reset_ring s) }
      else if t = FLP_REQUEST_LOC_NTF then
        if of_le32 (drop 4 prmsg) = 0 then Some s
        else mem_read prmsg 8 4 \<bind> (\<lambda>n. mtk_flp_request_loc (of_le32 n) s)
      else if t = FLP_FLUSH_LOC_NTF then mtk_flp_flush_loc s
      else if t = FLP_REPORT_STATUS_NTF then mem_read prmsg 8 4 \<bind> (\<lambda>n. mtk_flp_report_status (of_le32 n) s)
      else if t = HSB_REPORT_LOC_NTF \<or> t = OFL_REPORT_LOC_NTF then mtk_flp_report_loc p prmsg s
      else Some s)"

definition mnl2flphal_loc_rearrange :: "flp_platform \<Rightarrow> bytes \<Rightarrow> bytes option" where
  "mnl2flphal_loc_rearrange p loc_in = rearrange_location (sizeof_FlpLocation p) loc_in"

text \<open>A location report: on 32 bits the message is checked and passed on, on 64 bits its first location
  is rearranged into a message of its own.\<close>

definition report_case :: "flp_platform \<Rightarrow> hal_os \<Rightarrow> bytes \<Rightarrow> flp_hal \<Rightarrow> (int \<times> flp_hal) option" where
  "report_case p os data s =
     (if \<not> flp_is_64 p then
        if unat (of_le32 (drop 4 data)) mod sizeof_FlpLocation p \<noteq> 0 then Some (- 1, s)
        else do {
          loc_in \<leftarrow> mem_read data 8 (sizeof_FlpLocation p);
          if no_accuracy p loc_in then Some (- 1, s)
          else map_option (Pair 0) (mtk_mnl2flp_hal_response p os data s) }
      else do {
        loc_in \<leftarrow> mem_read data 8 128;
        loc_out \<leftarrow> mnl2flphal_loc_rearrange p loc_in;
        if no_accuracy p loc_out then Some (- 1, s)
        else if \<not> malloc_ok os 0 then Some (- 1, s)
        else map_option (Pair 0) (mtk_mnl2flp_hal_response p os
          (take 4 data @ le32 (of_nat (sizeof_FlpLocation p)) @ loc_out) s) })"

definition mnl2flphal_hdlr :: "flp_platform \<Rightarrow> hal_os \<Rightarrow> bytes \<Rightarrow> flp_hal \<Rightarrow> (int \<times> flp_hal) option" where
  "mnl2flphal_hdlr p os buff s = do {
     (len, data, _) \<leftarrow> get_binary (int HAL_BUFF_SIZE) 1024 (replicate 1024 0) (buff, 0);
     if \<not> (0 < len \<and> len \<le> 1024) then Some (- 1, s)
     else
       let cmd = of_le32 data
       in if cmd = SYS_FLPD_RESET_NTF \<or> cmd = FLP_REQUEST_LOC_NTF \<or> cmd = FLP_FLUSH_LOC_NTF \<or> cmd = FLP_REPORT_STATUS_NTF
          then map_option (Pair 0) (mtk_mnl2flp_hal_response p os data s)
          else if cmd = HSB_REPORT_LOC_NTF \<or> cmd = OFL_REPORT_LOC_NTF then report_case p os data s
          else Some (0, s) }"

text \<open>The receiving thread: its first message, and one round of its loop (a failed receive is skipped).\<close>

definition flp_thread_start :: "hal_os \<Rightarrow> flp_hal \<Rightarrow> (bytes \<times> flp_hal) option" where
  "flp_thread_start os s = do {
     (buff, offset) \<leftarrow> put_binary (le32 HAL_INIT_CMD @ le32 0) 8 (new_buff HAL_BUFF_SIZE);
     Some (buff, snd (flp_send2mnl os 0 (sent (buff, offset)) s)) }"

definition flp_thread_recv :: "flp_platform \<Rightarrow> hal_os \<Rightarrow> bytes option \<Rightarrow> bytes \<times> flp_hal \<Rightarrow> (bytes \<times> flp_hal) option" where
  "flp_thread_recv p os d = (\<lambda>(buff, s).
     case d of
       None \<Rightarrow> Some (buff, s)
     | Some [] \<Rightarrow> Some (buff, s)
     | _ \<Rightarrow> do {
         let buff = received d buff;
         (_, s) \<leftarrow> mnl2flphal_hdlr p os buff s;
         Some (buff, s) })"

section \<open>The framework's interface\<close>

definition mtk_flp_init :: "flp_callbacks option \<Rightarrow> flp_hal \<Rightarrow> int \<times> flp_hal" where
  "mtk_flp_init callbacks s =
     (case callbacks of
        None \<Rightarrow> (- 1, s)
      | Some c \<Rightarrow>
          let s = s\<lparr>mtkFlpCallbacks := Some c\<rparr>;
              s = (if has_thread_event c then flp_note Thread_event_cb s else s);
              s = (if has_capabilities c then flp_note Capabilities_cb s else s);
              s = flphal2mnl_flp_init (s\<lparr>fgtimerInit := True\<rparr>)
          in (0, s\<lparr>isflp_exist := True\<rparr>))"

definition mtk_flp_get_batch_size :: nat where
  "mtk_flp_get_batch_size = MTK_FLP_BATCH_SIZE"

definition mtk_flp_start_batching :: "hal_os \<Rightarrow> int \<Rightarrow> batch_options option \<Rightarrow> flp_hal \<Rightarrow> (int \<times> flp_hal) option" where
  "mtk_flp_start_batching os inst options s =
     (case options of
        None \<Rightarrow> None
      | Some x \<Rightarrow> flphal2mnl_flp_start os inst x (s\<lparr>inf_gFusedOptions := x\<rparr>))"

definition mtk_flp_cleanup :: "flp_hal \<Rightarrow> flp_hal" where
  "mtk_flp_cleanup s = s\<lparr>mtkFlpCallbacks := None\<rparr>"

definition flp_timeout_handler :: "flp_hal \<Rightarrow> flp_hal option" where
  "flp_timeout_handler s = do {
     s \<leftarrow> mtk_flp_flush_loc s;
     Some ((flp_note (Timer_start 0) s)\<lparr>fgtimerStarted := False\<rparr>) }"

section \<open>Runs\<close>

datatype flp_call =
    Flp_init "flp_callbacks option"
  | Flp_start int "batch_options option"
  | Flp_update int "batch_options option"
  | Flp_stop int
  | Flp_cleanup
  | Flp_get u32
  | Flp_inject "bytes option"
  | Flp_flush
  | Flp_diag "bytes option" int
  | Flp_timeout
  | Flp_recv "bytes option"

fun flp_step :: "flp_platform \<Rightarrow> (bytes \<Rightarrow> u32) \<Rightarrow> hal_os \<times> flp_call \<Rightarrow> bytes \<times> flp_hal \<Rightarrow> (bytes \<times> flp_hal) option" where
    "flp_step p atof (os, Flp_init c) (b, s) = do {
       (b, s) \<leftarrow> (if isflp_exist s \<or> c = None then Some (b, s) else flp_thread_start os s);
       Some (b, snd (mtk_flp_init c s)) }"
  | "flp_step p atof (os, Flp_start i x) (b, s) = map_option (Pair b \<circ> snd) (mtk_flp_start_batching os i x s)"
  | "flp_step p atof (os, Flp_update i x) (b, s) = map_option (Pair b \<circ> snd) (flphal2mnl_update_batching_options os i x s)"
  | "flp_step p atof (os, Flp_stop i) (b, s) = map_option (Pair b \<circ> snd) (flphal2mnl_stop_batching os i s)"
  | "flp_step p atof (os, Flp_cleanup) (b, s) = Some (b, mtk_flp_cleanup s)"
  | "flp_step p atof (os, Flp_get n) (b, s) = map_option (Pair b) (flphal2mnl_get_batched_location os n s)"
  | "flp_step p atof (os, Flp_inject l) (b, s) = map_option (Pair b \<circ> snd) (flphal2mnl_inject_location os l s)"
  | "flp_step p atof (os, Flp_flush) (b, s) = map_option (Pair b) (flphal2mnl_flush_batched_locations os s)"
  | "flp_step p atof (os, Flp_diag d n) (b, s) = map_option (Pair b \<circ> snd) (flphal2mnl_diag_inject_data atof os d n s)"
  | "flp_step p atof (os, Flp_timeout) (b, s) = map_option (Pair b) (flp_timeout_handler s)"
  | "flp_step p atof (os, Flp_recv d) (b, s) = (if isflp_exist s then flp_thread_recv p os d (b, s) else Some (b, s))"

fun flp_run :: "flp_platform \<Rightarrow> (bytes \<Rightarrow> u32) \<Rightarrow> (hal_os \<times> flp_call) list \<Rightarrow> bytes \<times> flp_hal \<Rightarrow> (bytes \<times> flp_hal) option" where
    "flp_run p atof [] x = Some x"
  | "flp_run p atof (c # cs) x = flp_step p atof c x \<bind> flp_run p atof cs"

end
