(* ===== verification/Flp_Hal_Props.thy ===== *)
theory Flp_Hal_Props
  imports Flp_Hal
begin

text \<open>
  What the fused location HAL guarantees. The locale \<open>bounded_queue\<close> is the contract of the ring of
  locations, a queue that keeps the last \<open>cap\<close> elements; the routines that report locations are
  proved against it. Then the fused options, and what the daemon knows of them.
\<close>

section \<open>A bounded queue\<close>

definition last_n :: "nat \<Rightarrow> 'a list \<Rightarrow> 'a list" where
  "last_n n xs = drop (length xs - n) xs"

lemma last_n_snoc: "length xs \<le> n \<Longrightarrow> 0 < n \<Longrightarrow>
    last_n n (xs @ [x]) = (if length xs < n then xs @ [x] else tl xs @ [x])"
  by (cases xs) (auto simp: last_n_def)

lemma last_n_again: "0 < n \<Longrightarrow> last_n n (last_n n xs @ ys) = last_n n (xs @ ys)"
  by (cases "length xs \<le> n") (auto simp: last_n_def add.commute)

lemma length_last_n [simp]: "length (last_n n xs) = min n (length xs)"
  by (auto simp: last_n_def)

lemma last_n_all: "length xs \<le> n \<Longrightarrow> last_n n xs = xs"
  by (simp add: last_n_def)

locale bounded_queue =
  fixes inv :: "'r \<Rightarrow> bool"
    and contents :: "'r \<Rightarrow> 'a list"
    and clear :: "'r \<Rightarrow> 'r"
    and add :: "'a \<Rightarrow> 'r \<Rightarrow> 'r"
    and remove :: "'r \<Rightarrow> ('a \<times> 'r) option"
    and peek :: "nat \<Rightarrow> 'r \<Rightarrow> 'a list"
    and cap :: nat
  assumes cap: "0 < cap"
    and bounded: "inv r \<Longrightarrow> length (contents r) \<le> cap"
    and clear: "inv r \<Longrightarrow> inv (clear r) \<and> contents (clear r) = []"
    and add: "inv r \<Longrightarrow> inv (add x r) \<and> contents (add x r) =
      (if length (contents r) < cap then contents r @ [x] else tl (contents r) @ [x])"
    and remove: "inv r \<Longrightarrow> (case contents r of [] \<Rightarrow> remove r = None
      | x # xs \<Rightarrow> \<exists>r'. remove r = Some (x, r') \<and> inv r' \<and> contents r' = xs)"
    and peek: "inv r \<Longrightarrow> peek n r = take n (rev (contents r))"
begin

lemma add_all:
  "inv r \<Longrightarrow> inv (fold add xs r) \<and> contents (fold add xs r) = last_n cap (contents r @ xs)"
proof (induction xs arbitrary: r)
  case Nil
  then show ?case using bounded [of r] by (simp add: last_n_all)
next
  case (Cons x xs)
  have a: "inv (add x r)" "contents (add x r) = last_n cap (contents r @ [x])"
    using add [OF Cons.prems, of x] last_n_snoc [OF bounded [OF Cons.prems] cap, of x] by auto
  from Cons.IH [OF a(1)] show ?case
    using last_n_again [OF cap, of "contents r @ [x]" xs] by (simp add: a(2))
qed

lemma peek_all: "inv r \<Longrightarrow> cap \<le> n \<Longrightarrow> peek n r = rev (contents r)"
  using peek [of r n] bounded [of r] by simp

lemma peek_newest: "inv r \<Longrightarrow> cap \<le> n \<Longrightarrow> peek n (fold add xs r) = rev (last_n cap (contents r @ xs))"
  using add_all [of r xs] peek_all by metis

end

section \<open>The ring is a bounded queue\<close>

definition ring_ok :: "loc_ring \<Rightarrow> bool" where
  "ring_ok r \<longleftrightarrow> length (FlpLocBuffer r) = 30 \<and> FlpLocNum r \<le> 30 \<and> FlpLocEnd r < 30 \<and>
     FlpLocBegin r = (FlpLocEnd r + FlpLocNum r) mod 30"

definition ring_contents :: "loc_ring \<Rightarrow> bytes list" where
  "ring_contents r = map (\<lambda>i. FlpLocBuffer r ! ((FlpLocEnd r + i) mod 30)) [0..<FlpLocNum r]"

lemma length_ring_contents [simp]: "length (ring_contents r) = FlpLocNum r"
  by (simp add: ring_contents_def)

lemma next_index_mod: "i < 30 \<Longrightarrow> next_index i = (i + 1) mod 30"
  by (simp add: next_index_def MTK_FLP_BATCH_SIZE_def)

lemma slots_differ: "i < n \<Longrightarrow> n < 30 \<Longrightarrow> (e + i) mod 30 \<noteq> (e + n) mod (30::nat)"
proof
  assume a: "i < n" "n < 30" "(e + i) mod 30 = (e + n) mod 30"
  then have "30 dvd (e + n) - (e + i)" by (metis add_le_cancel_left less_imp_le mod_eq_dvd_iff_nat)
  then have "30 dvd n - i" by simp
  with a(1,2) show False by (auto dest: dvd_imp_le)
qed

lemma upt_Suc_shift: "[0..<Suc n] = 0 # map Suc [0..<n]"
  by (simp add: map_Suc_upt upt_conv_Cons del: upt_Suc)

lemma ring_add_room:
  assumes "ring_ok r" "FlpLocNum r < 30"
  shows "ring_ok (FlpLocRingAdd x r)" "ring_contents (FlpLocRingAdd x r) = ring_contents r @ [x]"
proof -
  let ?e = "FlpLocEnd r" and ?n = "FlpLocNum r"
  have e: "FlpLocRingAdd x r = r\<lparr>FlpLocBuffer := (FlpLocBuffer r)[(?e + ?n) mod 30 := x],
      FlpLocBegin := (?e + (?n + 1)) mod 30, FlpLocNum := ?n + 1\<rparr>"
    using assms by (simp add: ring_ok_def FlpLocRingAdd_def Let_def MTK_FLP_BATCH_SIZE_def next_index_mod mod_Suc_eq)
  show "ring_ok (FlpLocRingAdd x r)" unfolding e using assms by (simp add: ring_ok_def)
  have "map (\<lambda>i. (FlpLocBuffer r)[(?e + ?n) mod 30 := x] ! ((?e + i) mod 30)) [0..<?n] =
      map (\<lambda>i. FlpLocBuffer r ! ((?e + i) mod 30)) [0..<?n]"
    using slots_differ [OF _ assms(2), of _ ?e]
    by (intro map_cong refl nth_list_update_neq) (metis atLeastLessThan_upt atLeastLessThan_iff)
  then show "ring_contents (FlpLocRingAdd x r) = ring_contents r @ [x]"
    unfolding e using assms(1) by (simp add: ring_contents_def ring_ok_def)
qed

lemma ring_add_full:
  assumes "ring_ok r" "\<not> FlpLocNum r < 30"
  shows "ring_ok (FlpLocRingAdd x r)" "ring_contents (FlpLocRingAdd x r) = tl (ring_contents r) @ [x]"
proof -
  let ?e = "FlpLocEnd r"
  have b: "FlpLocNum r = 30" "FlpLocBegin r = ?e" "length (FlpLocBuffer r) = 30" "?e < 30"
    using assms by (auto simp: ring_ok_def)
  have e: "FlpLocRingAdd x r = r\<lparr>FlpLocBuffer := (FlpLocBuffer r)[?e := x], FlpLocBegin := (?e + 1) mod 30,
      FlpLocEnd := (?e + 1) mod 30\<rparr>"
    using b by (simp add: FlpLocRingAdd_def Let_def MTK_FLP_BATCH_SIZE_def next_index_mod)
  show "ring_ok (FlpLocRingAdd x r)" unfolding e using b by (simp add: ring_ok_def)
  have u: "[0..<30] = [0..<29] @ [29]" "[0..<30] = 0 # map Suc [0..<29]"
    using upt_Suc_append [of 0 29] upt_Suc_shift [of 29] by (simp_all del: upt_rec_numeral)
  have m: "((?e + 1) mod 30 + i) mod 30 = (?e + Suc i) mod 30" for i
    using mod_add_left_eq [of "?e + 1" 30 i] by simp
  have "?e \<noteq> (?e + Suc i) mod 30" if "i < 29" for i
    using slots_differ [of 0 "Suc i" ?e] that b(4) by simp
  then have k: "map (\<lambda>i. (FlpLocBuffer r)[?e := x] ! ((?e + Suc i) mod 30)) [0..<29] =
      map (\<lambda>i. FlpLocBuffer r ! ((?e + Suc i) mod 30)) [0..<29]"
    by (intro map_cong refl nth_list_update_neq) (metis atLeastLessThan_upt atLeastLessThan_iff)
  have "ring_contents (FlpLocRingAdd x r) = map (\<lambda>i. (FlpLocBuffer r)[?e := x] ! ((?e + Suc i) mod 30)) ([0..<29] @ [29])"
  proof -
    have "ring_contents (FlpLocRingAdd x r) = map (\<lambda>i. (FlpLocBuffer r)[?e := x] ! (((?e + 1) mod 30 + i) mod 30)) [0..<30]"
      by (simp add: e ring_contents_def b(1) del: upt_rec_numeral)
    then show ?thesis unfolding m u(1) .
  qed
  also have "\<dots> = map (\<lambda>i. FlpLocBuffer r ! ((?e + Suc i) mod 30)) [0..<29] @ [x]"
    unfolding map_append k using b(3,4) by (simp del: upt_rec_numeral)
  also have "map (\<lambda>i. FlpLocBuffer r ! ((?e + Suc i) mod 30)) [0..<29] = tl (ring_contents r)"
    unfolding ring_contents_def b(1) u(2) list.map list.sel map_map comp_def ..
  finally show "ring_contents (FlpLocRingAdd x r) = tl (ring_contents r) @ [x]" .
qed

lemma ring_remove:
  assumes "ring_ok r"
  shows "case ring_contents r of [] \<Rightarrow> FlpLocRingRemove r = None
    | x # xs \<Rightarrow> \<exists>r'. FlpLocRingRemove r = Some (x, r') \<and> ring_ok r' \<and> ring_contents r' = xs"
proof (cases "FlpLocNum r")
  case 0
  then show ?thesis by (simp add: ring_contents_def FlpLocRingRemove_def FlpLocRingIsEmpty_def)
next
  case (Suc n)
  let ?e = "FlpLocEnd r"
  have b: "?e < 30" "length (FlpLocBuffer r) = 30" "FlpLocBegin r = (?e + Suc n) mod 30" "Suc n \<le> 30"
    using assms Suc by (auto simp: ring_ok_def)
  note u = upt_Suc_shift [of n]
  have c: "ring_contents r = FlpLocBuffer r ! ?e # map (\<lambda>i. FlpLocBuffer r ! ((?e + Suc i) mod 30)) [0..<n]"
    unfolding ring_contents_def Suc u list.map map_map comp_def using b(1) by simp
  let ?r = "r\<lparr>FlpLocNum := n, FlpLocEnd := (?e + 1) mod 30\<rparr>"
  have "FlpLocRingRemove r = Some (FlpLocBuffer r ! ?e, ?r)"
    using b(1) by (simp add: FlpLocRingRemove_def FlpLocRingIsEmpty_def Suc next_index_mod)
  moreover have "ring_ok ?r"
    using b mod_add_left_eq [of "?e + 1" 30 n] by (simp add: ring_ok_def)
  moreover have "((?e + 1) mod 30 + i) mod 30 = (?e + Suc i) mod 30" for i
    using mod_add_left_eq [of "?e + 1" 30 i] by simp
  then have "ring_contents ?r = map (\<lambda>i. FlpLocBuffer r ! ((?e + Suc i) mod 30)) [0..<n]"
    by (simp add: ring_contents_def)
  ultimately show ?thesis unfolding c list.case by blast
qed

lemma peek_loop_take:
  assumes "e < 30" "num \<le> 30" "b = (e + num) mod 30"
  shows "peek_loop n num b buf = take n (rev (map (\<lambda>i. buf ! ((e + i) mod 30)) [0..<num]))"
  using assms
proof (induction n arbitrary: num b)
  case (Suc n)
  show ?case
  proof (cases num)
    case (Suc k)
    have b: "(if b = 0 then 30 - 1 else b - 1) = (e + k) mod 30"
    proof (cases "e + num < 30")
      case True
      then show ?thesis using Suc Suc.prems by simp
    next
      case False
      then have "b = e + num - 30" using Suc.prems by (simp add: mod_if)
      then show ?thesis using Suc Suc.prems False by (auto simp: mod_if)
    qed
    have "peek_loop (Suc n) num b buf = buf ! ((e + k) mod 30) # peek_loop n k ((e + k) mod 30) buf"
      unfolding Suc peek_loop.simps Let_def MTK_FLP_BATCH_SIZE_def b ..
    then show ?thesis using Suc.IH [of k "(e + k) mod 30"] Suc.prems Suc by simp
  qed simp
qed simp

lemma ring_peek: "ring_ok r \<Longrightarrow> FlpLocRingPeekLastN n r = take n (rev (ring_contents r))"
  unfolding FlpLocRingPeekLastN_def ring_contents_def by (rule peek_loop_take) (auto simp: ring_ok_def)

lemma ring_reset: "ring_ok r \<Longrightarrow> ring_ok (reset_ring r) \<and> ring_contents (reset_ring r) = []"
  by (simp add: ring_ok_def reset_ring_def ring_contents_def)

interpretation ring: bounded_queue ring_ok ring_contents reset_ring FlpLocRingAdd FlpLocRingRemove FlpLocRingPeekLastN 30
proof unfold_locales
  show "length (ring_contents r) \<le> 30" if "ring_ok r" for r using that by (simp add: ring_ok_def)
  show "ring_ok (FlpLocRingAdd x r) \<and> ring_contents (FlpLocRingAdd x r) =
      (if length (ring_contents r) < 30 then ring_contents r @ [x] else tl (ring_contents r) @ [x])"
    if "ring_ok r" for x r
    using ring_add_room [OF that] ring_add_full [OF that] by (cases "FlpLocNum r < 30") simp_all
qed (simp_all add: ring_remove ring_peek ring_reset)

lemma reset_after_remove: "reset_ring (snd (FlpLocRingRemoveN n r)) = reset_ring r"
proof (induction n arbitrary: r)
  case (Suc n)
  show ?case
  proof (cases "FlpLocRingRemove r")
    case (Some x)
    then obtain a r' where x: "FlpLocRingRemove r = Some (a, r')" by (cases x) auto
    then have "reset_ring r' = reset_ring r"
      by (auto simp: FlpLocRingRemove_def reset_ring_def split: if_splits)
    with Suc x show ?thesis by (auto simp: Let_def split_beta)
  qed simp
qed simp

section \<open>The batch\<close>

definition batch :: "flp_hal \<Rightarrow> bytes list" where
  "batch s = ring_contents (loc_buffer s)"

lemma on_ring_simps [simp]:
  "loc_buffer (on_ring f s) = f (loc_buffer s)" "flp_log (on_ring f s) = flp_log s"
  "mtkFlpCallbacks (on_ring f s) = mtkFlpCallbacks s" "gFlpOptions (on_ring f s) = gFlpOptions s"
  "inf_gFusedOptions (on_ring f s) = inf_gFusedOptions s" "fgtimerStarted (on_ring f s) = fgtimerStarted s"
  "gFusedOptions (on_ring f s) = gFusedOptions s" "gFlpFirstBatch (on_ring f s) = gFlpFirstBatch s"
  "isflp_exist (on_ring f s) = isflp_exist s"
  by (simp_all add: on_ring_def)

lemma flp_note_simps [simp]:
  "loc_buffer (flp_note x s) = loc_buffer s" "flp_log (flp_note x s) = flp_log s @ [x]"
  "mtkFlpCallbacks (flp_note x s) = mtkFlpCallbacks s" "gFlpOptions (flp_note x s) = gFlpOptions s"
  "inf_gFusedOptions (flp_note x s) = inf_gFusedOptions s" "fgtimerStarted (flp_note x s) = fgtimerStarted s"
  "gFusedOptions (flp_note x s) = gFusedOptions s" "gFlpFirstBatch (flp_note x s) = gFlpFirstBatch s"
  "isflp_exist (flp_note x s) = isflp_exist s"
  by (simp_all add: flp_note_def)

lemma report_all_eq:
  "report_all s = map_option (on_ring reset_ring) (location_cb (FlpLocRingPeekLastN 30 (loc_buffer s)) s)"
  by (cases "location_cb (FlpLocRingPeekLastN 30 (loc_buffer s)) s")
    (simp_all add: report_all_def MTK_FLP_BATCH_SIZE_def on_ring_def reset_after_remove)

section \<open>Well-formed states\<close>

definition flp_wf :: "flp_hal \<Rightarrow> bool" where
  "flp_wf s \<longleftrightarrow> ring_ok (loc_buffer s) \<and> length (gFlpOptions s) = 10"

text \<open>\<open>same_data s s'\<close>: nothing but the log and the callbacks' bookkeeping differs.\<close>

definition same_data :: "flp_hal \<Rightarrow> flp_hal \<Rightarrow> bool" where
  "same_data s s' \<longleftrightarrow> loc_buffer s' = loc_buffer s \<and> gFlpOptions s' = gFlpOptions s \<and> gFusedOptions s' = gFusedOptions s \<and>
     inf_gFusedOptions s' = inf_gFusedOptions s \<and> gFlpFirstBatch s' = gFlpFirstBatch s \<and> isflp_exist s' = isflp_exist s \<and>
     mtkFlpCallbacks s' = mtkFlpCallbacks s"

lemma same_data_refl [simp]: "same_data s s"
  by (simp add: same_data_def)

lemma same_data_note [simp]: "same_data s (flp_note x s)"
  by (simp add: same_data_def)

lemma same_data_trans: "same_data s t \<Longrightarrow> same_data t u \<Longrightarrow> same_data s u"
  by (simp add: same_data_def)

lemma same_data_wf: "same_data s s' \<Longrightarrow> flp_wf s' = flp_wf s"
  by (simp add: same_data_def flp_wf_def)

lemma send_same: "same_data s (snd (flp_send2mnl os k d s))"
  by (simp add: flp_send2mnl_def)

lemma command_same: "flp_command os c pl s = Some (r, s') \<Longrightarrow> same_data s s'"
  using send_same by (auto simp: flp_command_def bind_eq_Some_conv split: if_splits) (metis snd_conv)

lemma location_cb_same: "location_cb ls s = Some s' \<Longrightarrow> same_data s s'"
  by (auto simp: location_cb_def split: option.splits if_splits)

lemma report_each_same: "report_each ls s = Some s' \<Longrightarrow> same_data s s'"
  by (induction ls arbitrary: s) (auto simp: bind_eq_Some_conv dest: location_cb_same same_data_trans)

lemma wf_reset [simp]: "flp_wf s \<Longrightarrow> flp_wf (on_ring reset_ring s)"
  by (simp add: flp_wf_def ring_reset)

lemma wf_adds [simp]: "flp_wf s \<Longrightarrow> flp_wf (on_ring (fold FlpLocRingAdd ls) s)"
  using ring.add_all by (simp add: flp_wf_def)

lemma wf_fields [simp]:
  "flp_wf (s\<lparr>fgtimerStarted := t\<rparr>) = flp_wf s" "flp_wf (s\<lparr>gFlpFirstBatch := f\<rparr>) = flp_wf s"
  "flp_wf (s\<lparr>FlpLastStatus := l\<rparr>) = flp_wf s" "flp_wf (s\<lparr>mtkFlpCallbacks := c\<rparr>) = flp_wf s"
  "flp_wf (s\<lparr>inf_gFusedOptions := x\<rparr>) = flp_wf s" "flp_wf (s\<lparr>gFusedOptions := x\<rparr>) = flp_wf s"
  "flp_wf (s\<lparr>fgtimerInit := f\<rparr>) = flp_wf s" "flp_wf (s\<lparr>isflp_exist := f\<rparr>) = flp_wf s"
  "flp_wf (flp_note v s) = flp_wf s" "flp_wf (mtk_flp_update_options s) = flp_wf s"
  "flp_wf (flphal2mnl_flp_init s) = ring_ok (loc_buffer s)"
  by (simp_all add: flp_wf_def mtk_flp_update_options_def flphal2mnl_flp_init_def FLP_OPTION_MAX_def)

lemma wf_command: "flp_command os c pl s = Some (r, s') \<Longrightarrow> flp_wf s' = flp_wf s"
  by (rule same_data_wf [OF command_same])

lemma wf_set_options: "mtk_flp_set_options i x s = Some s' \<Longrightarrow> flp_wf s' = flp_wf s"
  by (auto simp: mtk_flp_set_options_def flp_wf_def split: if_splits)

lemma wf_report_all: "report_all s = Some s' \<Longrightarrow> flp_wf s \<Longrightarrow> flp_wf s'"
  using same_data_wf [OF location_cb_same] by (auto simp: report_all_eq)

lemma wf_response:
  assumes "flp_wf s" "mtk_mnl2flp_hal_response p os b s = Some s'"
  shows "flp_wf s'"
proof -
  have r: "flp_wf t" if "flphal2mnl_flp_reboot_done_ntf os s = Some (r, t)" for r t
    using that assms(1) wf_command by (auto simp: flphal2mnl_flp_reboot_done_ntf_def split: if_splits)
  have l: "flp_wf t" if "mtk_flp_report_loc p b s = Some t" for t
    using that assms(1) by (auto simp: mtk_flp_report_loc_def bind_eq_Some_conv Let_def wf_report_all split: if_splits)
  have q: "flp_wf t" if "mtk_flp_request_loc n s = Some t" for n t
    using that assms(1) same_data_wf [OF report_each_same] by (auto simp: mtk_flp_request_loc_def split: if_splits)
  have f: "flp_wf t" if "mtk_flp_flush_loc s = Some t" for t
    using that assms(1) by (auto simp: mtk_flp_flush_loc_def wf_report_all split: if_splits)
  have u: "flp_wf t" if "mtk_flp_report_status n s = Some t" for n t
    using that assms(1) by (auto simp: mtk_flp_report_status_def bind_eq_Some_conv split: if_splits option.splits)
  show ?thesis
    using assms r l q f u by (auto simp: mtk_mnl2flp_hal_response_def bind_eq_Some_conv Let_def split: if_splits)
qed

lemma wf_hdlr:
  assumes "flp_wf s" "mnl2flphal_hdlr p os b s = Some (r, s')"
  shows "flp_wf s'"
  using assms wf_response [OF assms(1)]
  by (auto simp: mnl2flphal_hdlr_def report_case_def bind_eq_Some_conv Let_def split: prod.splits if_splits)

lemma wf_start: "flp_wf s \<Longrightarrow> flphal2mnl_flp_start os i x s = Some (r, s') \<Longrightarrow> flp_wf s'"
  by (auto simp: flphal2mnl_flp_start_def bind_eq_Some_conv Let_def split: if_splits
      dest!: wf_command wf_set_options)

lemma wf_update: "flp_wf s \<Longrightarrow> flphal2mnl_update_batching_options os i x s = Some (r, s') \<Longrightarrow> flp_wf s'"
  by (auto simp: flphal2mnl_update_batching_options_def bind_eq_Some_conv Let_def split: if_splits option.splits
      dest!: wf_command wf_set_options)

lemma wf_stop: "flp_wf s \<Longrightarrow> flphal2mnl_stop_batching os i s = Some (r, s') \<Longrightarrow> flp_wf s'"
proof -
  assume a: "flp_wf s" "flphal2mnl_stop_batching os i s = Some (r, s')"
  have "flp_wf (s\<lparr>gFlpOptions := (gFlpOptions s)[j := y]\<rparr>)" for j y using a(1) by (simp add: flp_wf_def)
  with a show "flp_wf s'"
    by (auto simp: flphal2mnl_stop_batching_def bind_eq_Some_conv Let_def split: if_splits dest!: wf_command)
qed

lemma wf_diag: "flp_wf s \<Longrightarrow> flphal2mnl_diag_inject_data atof os d n s = Some (r, s') \<Longrightarrow> flp_wf s'"
proof -
  assume a: "flp_wf s" "flphal2mnl_diag_inject_data atof os d n s = Some (r, s')"
  have "flp_wf (s\<lparr>gFlpOptions := replicate FLP_OPTION_MAX no_options, gFusedOptions := no_options\<rparr>)"
    using a(1) by (simp add: flp_wf_def FLP_OPTION_MAX_def)
  with a show "flp_wf s'"
    by (auto simp: flphal2mnl_diag_inject_data_def bind_eq_Some_conv Let_def split: if_splits option.splits
        dest!: wf_command)
qed

lemma wf_init: "flp_wf s \<Longrightarrow> flp_wf (snd (mtk_flp_init c s))"
  by (auto simp: mtk_flp_init_def Let_def flp_wf_def flphal2mnl_flp_init_def FLP_OPTION_MAX_def split: option.splits)

lemma wf_recv: "flp_wf s \<Longrightarrow> flp_thread_recv p os d (b, s) = Some (b', s') \<Longrightarrow> flp_wf s'"
  by (auto simp: flp_thread_recv_def bind_eq_Some_conv Let_def wf_hdlr split: option.splits list.splits)

lemma step_wf:
  assumes "flp_wf s" "flp_step p atof (os, c) (b, s) = Some (b', s')"
  shows "flp_wf s'"
proof (cases c)
  case (Flp_init cb)
  with assms wf_init [OF assms(1), of cb] same_data_wf [OF send_same] show ?thesis
    by (auto simp: bind_eq_Some_conv flp_thread_start_def wf_init split: if_splits prod.splits)
next
  case (Flp_start i x)
  with assms show ?thesis
    by (auto simp: mtk_flp_start_batching_def split: option.splits dest!: wf_start [rotated])
next
  case (Flp_inject l)
  with assms show ?thesis
    by (auto simp: flphal2mnl_inject_location_def split: option.splits dest!: wf_command)
next
  case (Flp_get n)
  with assms show ?thesis by (auto simp: flphal2mnl_get_batched_location_def dest!: wf_command)
next
  case Flp_flush
  with assms same_data_wf [OF send_same] show ?thesis
    by (auto simp: flphal2mnl_flush_batched_locations_def bind_eq_Some_conv)
next
  case Flp_timeout
  with assms show ?thesis
    by (auto simp: flp_timeout_handler_def bind_eq_Some_conv mtk_flp_flush_loc_def wf_report_all split: if_splits)
next
  case (Flp_recv d)
  with assms show ?thesis by (auto simp: wf_recv split: if_splits)
qed (use assms in \<open>auto simp: mtk_flp_cleanup_def dest!: wf_update [rotated] wf_stop [rotated] wf_diag [rotated]\<close>)

lemma run_wf:
  "flp_wf (snd x) \<Longrightarrow> flp_run p atof cs x = Some y \<Longrightarrow> flp_wf (snd y)"
proof (induction cs arbitrary: x)
  case (Cons c cs)
  obtain os c' where c: "c = (os, c')" by fastforce
  obtain b s where x: "x = (b, s)" by fastforce
  from Cons.prems obtain b1 s1 where "flp_step p atof (os, c') (b, s) = Some (b1, s1)" "flp_run p atof cs (b1, s1) = Some y"
    by (auto simp: c x bind_eq_Some_conv)
  with Cons step_wf [of s p atof os c' b b1 s1] show ?case by (auto simp: c x)
qed simp

definition flp_reachable :: "flp_platform \<Rightarrow> flp_hal \<Rightarrow> bool" where
  "flp_reachable p s \<longleftrightarrow> (\<exists>atof cs b. flp_run p atof cs (replicate HAL_BUFF_SIZE 0, flp_boot) = Some (b, s))"

lemma reachable_wf: "flp_reachable p s \<Longrightarrow> flp_wf s"
proof -
  assume "flp_reachable p s"
  then obtain atof cs b where r: "flp_run p atof cs (replicate HAL_BUFF_SIZE 0, flp_boot) = Some (b, s)"
    by (auto simp: flp_reachable_def)
  have "flp_wf flp_boot"
    by (simp add: flp_wf_def flp_boot_def ring_ok_def MTK_FLP_BATCH_SIZE_def FLP_OPTION_MAX_def)
  with run_wf [OF _ r] show "flp_wf s" by simp
qed

section \<open>Reports to the framework\<close>

definition framework_listens :: "flp_hal \<Rightarrow> bool" where
  "framework_listens s \<longleftrightarrow> (case mtkFlpCallbacks s of None \<Rightarrow> False | Some c \<Rightarrow> has_location c)"

lemma location_cb_listens [simp]: "framework_listens s \<Longrightarrow> location_cb ls s = Some (flp_note (Location_cb ls) s)"
  by (cases "mtkFlpCallbacks s") (simp_all add: framework_listens_def location_cb_def)

lemma listens_simps [simp]:
  "framework_listens (flp_note x s) = framework_listens s" "framework_listens (on_ring f s) = framework_listens s"
  by (simp_all add: framework_listens_def)

lemma report_each_eq:
  "framework_listens s \<Longrightarrow> \<exists>s'. report_each ls s = Some s' \<and> same_data s s' \<and>
     flp_log s' = flp_log s @ map (\<lambda>l. Location_cb [l]) ls"
proof (induction ls arbitrary: s)
  case (Cons l ls)
  from Cons.IH [of "flp_note (Location_cb [l]) s"] Cons.prems show ?case
    by (auto intro: same_data_trans [OF same_data_note])
qed simp

lemma batch_simps [simp]:
  "batch (flp_note x s) = batch s" "batch (s\<lparr>fgtimerStarted := t\<rparr>) = batch s"
  by (simp_all add: batch_def)

lemma batch_same: "same_data s s' \<Longrightarrow> batch s' = batch s"
  by (simp add: batch_def same_data_def)

lemma batch_adds: "flp_wf s \<Longrightarrow> batch (on_ring (fold FlpLocRingAdd ls) s) = last_n 30 (batch s @ ls)"
  using ring.add_all by (simp add: flp_wf_def batch_def)

lemma batch_reset: "flp_wf s \<Longrightarrow> batch (on_ring reset_ring s) = []"
  by (simp add: flp_wf_def batch_def ring_reset)

lemma peek_batch: "flp_wf s \<Longrightarrow> FlpLocRingPeekLastN n (loc_buffer s) = take n (rev (batch s))"
  by (simp add: flp_wf_def batch_def ring_peek)

lemma length_batch: "flp_wf s \<Longrightarrow> length (batch s) \<le> 30 \<and> FlpLocNum (loc_buffer s) = length (batch s)"
  by (simp add: flp_wf_def batch_def ring_ok_def)

lemma report_all_batch:
  assumes "flp_wf s" "framework_listens s"
  shows "\<exists>s'. report_all s = Some s' \<and> batch s' = [] \<and> flp_log s' = flp_log s @ [Location_cb (rev (batch s))]"
  using assms length_batch [OF assms(1)] by (simp add: report_all_eq peek_batch batch_reset)

lemma flush_batch:
  assumes "flp_wf s" "framework_listens s"
  shows "\<exists>s'. mtk_flp_flush_loc s = Some s' \<and> batch s' = [] \<and>
    flp_log s' = flp_log s @ (if batch s = [] then [] else [Location_cb (rev (batch s))])"
proof (cases "batch s = []")
  case True
  then show ?thesis using assms by (simp add: mtk_flp_flush_loc_def peek_batch)
next
  case False
  then have "\<not> length (FlpLocRingPeekLastN MTK_FLP_BATCH_SIZE (loc_buffer s)) < 1"
    using assms(1) by (cases "batch s") (auto simp: peek_batch MTK_FLP_BATCH_SIZE_def)
  then have "mtk_flp_flush_loc s = report_all s" unfolding mtk_flp_flush_loc_def by simp
  with False report_all_batch [OF assms] show ?thesis by simp
qed

lemma request_batch:
  assumes "flp_wf s" "framework_listens s"
  shows "\<exists>s'. mtk_flp_request_loc n s = Some s' \<and> batch s' = batch s \<and>
    flp_log s' = flp_log s @ map (\<lambda>l. Location_cb [l]) (take (nat (sint n)) (rev (batch s)))"
proof (cases "sint n < 0")
  case False
  have "take (min (nat (sint n)) 30) (rev (batch s)) = take (nat (sint n)) (rev (batch s))"
    using length_batch [OF assms(1)] by (simp add: min_def)
  with False report_each_eq [OF assms(2), of "take (nat (sint n)) (rev (batch s))"] batch_same show ?thesis
    by (auto simp: mtk_flp_request_loc_def peek_batch [OF assms(1)] MTK_FLP_BATCH_SIZE_def)
qed (simp add: mtk_flp_request_loc_def)

lemma report_batch:
  assumes wf: "flp_wf s" "framework_listens s" and m: "message_locations p m = Some locs" "of_le32 m = t"
  defines "q \<equiv> last_n 30 (batch s @ locs)"
  shows "t = OFL_REPORT_LOC_NTF \<Longrightarrow> \<exists>s'. mtk_flp_report_loc p m s = Some s' \<and> batch s' = q \<and> fgtimerStarted s' \<and>
      flp_log s' = flp_log s @ (if fgtimerStarted s then [] else [Timer_start 200])"
    and "t = HSB_REPORT_LOC_NTF \<Longrightarrow> \<exists>s'. mtk_flp_report_loc p m s = Some s' \<and>
      (if length q = 30 \<and> batch_flags (inf_gFusedOptions s) = BATCH_WAKE_ON_FIFO_FULL
       then batch s' = [] \<and> flp_log s' = flp_log s @ [Location_cb (rev q)]
       else batch s' = q \<and> flp_log s' = flp_log s)"
proof -
  let ?s = "on_ring (fold FlpLocRingAdd locs) s"
  have b: "batch ?s = q" "flp_wf ?s" "framework_listens ?s" "length (batch ?s) = FlpLocNum (loc_buffer ?s)"
    using batch_adds [OF wf(1)] wf length_batch [OF wf_adds [OF wf(1), of locs]] by (simp_all add: q_def)
  show "\<exists>s'. mtk_flp_report_loc p m s = Some s' \<and> batch s' = q \<and> fgtimerStarted s' \<and>
      flp_log s' = flp_log s @ (if fgtimerStarted s then [] else [Timer_start 200])" if "t = OFL_REPORT_LOC_NTF"
    using that m b(1) by (simp add: mtk_flp_report_loc_def)
  show "\<exists>s'. mtk_flp_report_loc p m s = Some s' \<and>
      (if length q = 30 \<and> batch_flags (inf_gFusedOptions s) = BATCH_WAKE_ON_FIFO_FULL
       then batch s' = [] \<and> flp_log s' = flp_log s @ [Location_cb (rev q)]
       else batch s' = q \<and> flp_log s' = flp_log s)" if "t = HSB_REPORT_LOC_NTF"
  proof -
    have "mtk_flp_report_loc p m s =
        (if length q = 30 \<and> batch_flags (inf_gFusedOptions s) = BATCH_WAKE_ON_FIFO_FULL then report_all ?s else Some ?s)"
      using that m b by (simp add: mtk_flp_report_loc_def flp_types FlpLocRingIsFull_def MTK_FLP_BATCH_SIZE_def Let_def)
    then show ?thesis using report_all_batch [OF b(2,3)] b(1) by simp
  qed
qed


text \<open>A platform, and a HAL with one instance that wants to be woken and 29 locations.\<close>

definition flp_platform_32 :: flp_platform where
  "flp_platform_32 = \<lparr>flp_is_64 = False, sizeof_FlpLocation = 4, no_accuracy = \<lambda>loc. loc = [0, 0, 0, 0]\<rparr>"

definition one_source :: batch_options where
  "one_source = \<lparr>max_power_allocation_mW = 0, sources_to_use = 1, batch_flags = 1, batch_period_ns = 1000000000\<rparr>"

definition flp_after :: "flp_call list \<Rightarrow> flp_hal" where
  "flp_after cs = snd (the (flp_run flp_platform_32 (\<lambda>_. 0) (map (Pair os_fine) cs) (replicate HAL_BUFF_SIZE 0, flp_boot)))"

definition listener :: flp_callbacks where
  "listener = \<lparr>has_thread_event = True, has_capabilities = True, has_location = True, has_status = True\<rparr>"

lemma reachable_flp_after:
  "flp_run flp_platform_32 (\<lambda>_. 0) (map (Pair os_fine) cs) (replicate HAL_BUFF_SIZE 0, flp_boot) \<noteq> None \<Longrightarrow>
     flp_reachable flp_platform_32 (flp_after cs)"
  unfolding flp_reachable_def flp_after_def by fastforce

definition report_message :: "u32 \<Rightarrow> bytes list \<Rightarrow> bytes" where
  "report_message t locs = flp_message t (concat locs)"

definition numbered :: "nat \<Rightarrow> bytes" where
  "numbered k = le32 (of_nat (k + 1))"

definition one_instance :: flp_hal where
  "one_instance = flp_after [Flp_init (Some listener), Flp_start 3 (Some one_source)]"

lemma one_instance_reachable: "flp_reachable flp_platform_32 one_instance"
  unfolding one_instance_def by (rule reachable_flp_after) code_simp

lemma one_instance_facts:
  "framework_listens one_instance" "batch one_instance = []"
  "batch_flags (inf_gFusedOptions one_instance) = BATCH_WAKE_ON_FIFO_FULL"
  "isflp_exist one_instance" "\<not> gFlpFirstBatch one_instance"
  by code_simp+

lemma nth_concat_same:
  "\<forall>l\<in>set ls. length l = n \<Longrightarrow> i < length ls \<Longrightarrow> take n (drop (i * n) (concat ls)) = ls ! i"
proof (induction ls arbitrary: i)
  case (Cons l ls)
  then show ?case by (cases i) (simp_all add: add.commute)
qed simp

lemma length_concat_same: "\<forall>l\<in>set ls. length l = n \<Longrightarrow> length (concat ls) = length ls * n"
  by (induction ls) auto

lemma those_map_Some: "\<forall>x\<in>set xs. f x = Some (g x) \<Longrightarrow> those (map f xs) = Some (map g xs)"
  by (induction xs) auto

text \<open>A report message of whole locations is read as those locations.\<close>

lemma message_locations_report:
  assumes "\<forall>l\<in>set ls. length l = sizeof_FlpLocation p" "0 < sizeof_FlpLocation p"
    "length ls * sizeof_FlpLocation p < 2 ^ 32"
  shows "message_locations p (report_message t ls) = Some ls"
proof -
  let ?n = "sizeof_FlpLocation p"
  note l = length_concat_same [OF assms(1)]
  have "unat (of_nat k :: u32) = k" if "k < 2 ^ 32" for k using that by (simp add: unat_of_nat)
  from this [OF assms(3)] have u: "unat (of_nat (length ls * ?n) :: u32) = length ls * ?n" .
  then have c: "unat (of_le32 (drop 4 (report_message t ls))) div ?n = length ls"
    using assms(2) u by (simp add: report_message_def flp_message_def l del: of_nat_mult)
  have "mem_read (report_message t ls) (8 + i * ?n) ?n = Some (ls ! i)" if "i < length ls" for i
  proof -
    have "i * ?n + ?n \<le> length ls * ?n" using that by (metis add.commute mult_Suc mult_le_mono1 Suc_leI)
    then show ?thesis
      using nth_concat_same [OF assms(1) that] by (simp add: mem_read_def report_message_def flp_message_def l)
  qed
  then show ?thesis
    unfolding message_locations_def c by (subst those_map_Some [where g = "(!) ls"]) (simp_all add: map_nth)
qed


section \<open>Fused options\<close>

definition active :: "batch_options list \<Rightarrow> batch_options list" where
  "active = filter (\<lambda>x. sources_to_use x \<noteq> 0)"

lemma fold_fuse_active: "fold fuse xs f = fold fuse (active xs) f"
  by (induction xs arbitrary: f) (auto simp: active_def fuse_def)

lemma fold_fuse:
  "\<forall>x\<in>set xs. sources_to_use x \<noteq> 0 \<Longrightarrow>
     (let r = fold fuse xs f in
      sources_to_use r = fold (\<lambda>x s. s OR sources_to_use x) xs (sources_to_use f) \<and>
      batch_flags r = Max (insert (batch_flags f) (batch_flags ` set xs)) \<and>
      sint (batch_period_ns r) = Min (insert (sint (batch_period_ns f)) ((\<lambda>x. sint (batch_period_ns x)) ` set xs)) \<and>
      max_power_allocation_mW r = (if xs = [] then max_power_allocation_mW f else max_power_allocation_mW (last xs)))"
proof (induction xs rule: rev_induct)
  case (snoc x xs)
  let ?r = "fold fuse xs f"
  have ih: "batch_flags ?r = Max (insert (batch_flags f) (batch_flags ` set xs))"
    "sint (batch_period_ns ?r) = Min (insert (sint (batch_period_ns f)) ((\<lambda>x. sint (batch_period_ns x)) ` set xs))"
    "sources_to_use ?r = fold (\<lambda>x s. s OR sources_to_use x) xs (sources_to_use f)"
    using snoc by (simp_all add: Let_def)
  have x: "sources_to_use x \<noteq> 0" using snoc.prems by simp
  have sp: "sources_to_use (fuse x ?r) = sources_to_use ?r OR sources_to_use x"
    "max_power_allocation_mW (fuse x ?r) = max_power_allocation_mW x"
    using x by (simp_all add: fuse_def)
  have "batch_flags (fuse x ?r) = max (batch_flags x) (batch_flags ?r)"
    "sint (batch_period_ns (fuse x ?r)) = min (sint (batch_period_ns x)) (sint (batch_period_ns ?r))"
    using x by (auto simp: fuse_def max_def min_def)
  then have "batch_flags (fuse x ?r) = Max (insert (batch_flags f) (batch_flags ` set (xs @ [x])))"
    "sint (batch_period_ns (fuse x ?r)) = Min (insert (sint (batch_period_ns f)) ((\<lambda>x. sint (batch_period_ns x)) ` set (xs @ [x])))"
    unfolding ih by (simp_all add: insert_commute flip: Max_insert Min_insert)
  then show ?case by (simp add: Let_def sp ih(3))
qed simp

lemma fold_or_eq_0: "fold (\<lambda>x s. s OR sources_to_use x) ys v = 0 \<longleftrightarrow> v = 0 \<and> (\<forall>y\<in>set ys. sources_to_use y = 0)"
  by (induction ys arbitrary: v) (auto simp: or_eq_0_iff)

lemma fused_sources: "sources_to_use (fused_options xs) = fold (\<lambda>x s. s OR sources_to_use x) (active xs) 0"
  using fold_fuse [of "active xs" "no_options\<lparr>batch_period_ns := long_period\<rparr>"]
  by (simp add: fused_options_def fold_fuse_active [of xs] Let_def active_def no_options_def)

lemma fused_no_source: "sources_to_use (fused_options xs) = 0 \<longleftrightarrow> active xs = []"
  unfolding fused_sources fold_or_eq_0 by (auto simp: active_def filter_empty_conv)

text \<open>C33: what the HAL tells the daemon of all its instances together: the union of their sources, the greatest
  flags, the least period (no period above \<open>10 ^ 12\<close> ns, which counts as none), the power limit of the
  last active one; instances without a source do not count, and there is a source exactly when some
  instance is active.\<close>

theorem options_fused:
  "sources_to_use (fused_options xs) = fold (\<lambda>x s. s OR sources_to_use x) (active xs) 0 \<and>
   (sources_to_use (fused_options xs) = 0 \<longleftrightarrow> active xs = []) \<and>
   batch_flags (fused_options xs) = Max (insert 0 (batch_flags ` set (active xs))) \<and>
   sint (batch_period_ns (fused_options xs)) =
     (let m = Min (insert 1000000000000 ((\<lambda>x. sint (batch_period_ns x)) ` set (active xs)))
      in if m = 1000000000000 then 0 else m) \<and>
   max_power_allocation_mW (fused_options xs) = (if active xs = [] then 0 else max_power_allocation_mW (last (active xs)))"
proof -
  let ?r = "fold fuse (active xs) (no_options\<lparr>batch_period_ns := long_period\<rparr>)"
  have a: "\<forall>x\<in>set (active xs). sources_to_use x \<noteq> 0" by (simp add: active_def)
  have s: "sint long_period = 1000000000000" by (simp add: long_period_def)
  moreover have "x = y \<longleftrightarrow> sint x = sint y" for x y :: u64
    by (auto intro: signed_word_eqI)
  ultimately have p: "batch_period_ns ?r = long_period \<longleftrightarrow> sint (batch_period_ns ?r) = 1000000000000" by simp
  note r = fold_fuse [OF a, of "no_options\<lparr>batch_period_ns := long_period\<rparr>", unfolded Let_def]
  have f: "sources_to_use (fused_options xs) = sources_to_use ?r" "batch_flags (fused_options xs) = batch_flags ?r"
    "max_power_allocation_mW (fused_options xs) = max_power_allocation_mW ?r"
    "sint (batch_period_ns (fused_options xs)) = (if batch_period_ns ?r = long_period then 0 else sint (batch_period_ns ?r))"
    by (simp_all add: fused_options_def fold_fuse_active [of xs] Let_def)
  have "fold (\<lambda>x s. s OR sources_to_use x) (active xs) 0 = 0 \<longleftrightarrow> active xs = []"
    using fused_no_source [of xs] by (simp add: fused_sources)
  moreover have "sources_to_use (no_options\<lparr>batch_period_ns := long_period\<rparr>) = 0"
    "batch_flags (no_options\<lparr>batch_period_ns := long_period\<rparr>) = 0"
    "max_power_allocation_mW (no_options\<lparr>batch_period_ns := long_period\<rparr>) = 0"
    "sint (batch_period_ns (no_options\<lparr>batch_period_ns := long_period\<rparr>)) = 1000000000000"
    by (simp_all add: no_options_def s)
  ultimately show ?thesis unfolding f p using r by (simp only: Let_def)
qed

end
