(* ===== verification/Peer_Props.thy ===== *)
theory Peer_Props
  imports Service Flp_Hal_Props
begin

text \<open>
  The fused location provider end to end: the HAL of \<open>Flp_Hal\<close> and the daemon of \<open>Daemon\<close>, with the
  datagrams of one handed to the other. The daemon's copy of the HAL's options stays in step with the
  HAL's instances, requests for batched locations come back, and fixes reach the batch at the period
  asked for.
\<close>

section \<open>The daemon on the host\<close>

text \<open>The daemon of a chip without offload: no offload state, and both sessions in host mode.\<close>

definition on_host :: "mnld \<Rightarrow> bool" where
  "on_host s \<longleftrightarrow> \<not> OFFLOAD_enabled (cfg s) \<and> state_of s \<in> {IDLE, STARTING, STARTED, STOPPING} \<and>
     (\<forall>pid. stype (session_of pid s) = AP_MODE \<and> pre_type (session_of pid s) = AP_MODE)"

text \<open>The provider's variables but for the status of its link.\<close>

definition controls :: "mnld \<Rightarrow> peer" where
  "controls s = (peer_of FLP s)\<lparr>fgMnldStatus := STATUS_NONE\<rparr>"

definition same_controls :: "mnld \<Rightarrow> mnld \<Rightarrow> bool" where
  "same_controls s s' \<longleftrightarrow> controls s' = controls s \<and> (\<forall>c. used c s' = used c s) \<and>
     (\<forall>pid. session_of pid s' = session_of pid s) \<and> cfg s' = cfg s"

lemma same_controls_refl: "same_controls s s"
  by (simp add: same_controls_def)

lemma same_controls_trans: "same_controls s t \<Longrightarrow> same_controls t u \<Longrightarrow> same_controls s u"
  by (simp add: same_controls_def)

lemma controls_updates [simp]:
  "controls (emit x s) = controls s" "controls (set_gps f s) = controls s" "controls (set_client c g s) = controls s"
  "controls (start_timer t ms s) = controls s" "controls (stop_timer t s) = controls s"
  "controls (set_state st s) = controls s" "controls (set_stype q v s) = controls s"
  "controls (on_status q w s) = controls s" "controls (s\<lparr>dl := x'\<rparr>) = controls s"
  by (cases q; simp add: controls_def frame_simps on_status_def mnld_updates set_stype_def)+

lemma controls_hbd_done [simp]:
  "controls (mnld_hbd_gps_open_done pid s) = controls s" "controls (mnld_hbd_gps_close_done pid s) = controls s"
  by (simp_all add: mnld_hbd_gps_open_done_def mnld_hbd_gps_close_done_def)

text \<open>A step is \<open>tame\<close> when, without offload, it leaves the provider's variables alone.\<close>

definition tame :: "(mnld \<Rightarrow> mnld) \<Rightarrow> bool" where
  "tame f \<longleftrightarrow> (\<forall>s. \<not> OFFLOAD_enabled (cfg s) \<longrightarrow> controls (f s) = controls s \<and> cfg (f s) = cfg s)"

lemma tame_comp: "tame f \<Longrightarrow> tame g \<Longrightarrow> tame (\<lambda>s. f (g s))"
  by (simp add: tame_def)

lemma tame_if: "tame f \<Longrightarrow> tame g \<Longrightarrow> tame (\<lambda>s. if P s then f s else g s)"
  by (simp add: tame_def)

lemma tame_basic:
  "tame (\<lambda>s. s)" "tame (emit x)" "tame (set_gps f)" "tame (set_client c g)" "tame (start_timer t ms)"
  "tame (stop_timer t)" "tame (set_state st)" "tame (mnld_hbd_gps_open_done pid)" "tame (mnld_hbd_gps_close_done pid)"
  by (simp_all add: tame_def frame_simps)

lemma tame_replies: "tame (peer_open_reply pid si)" "tame (peer_close_reply pid)"
  unfolding tame_def peer_open_reply_def peer_close_reply_def
  by (auto simp: cfg_preds frame_simps)

lemma tame_ack: "tame reply \<Longrightarrow> tame (ack_open c reply)" "tame reply \<Longrightarrow> tame (ack_close c reply)"
  by (simp_all add: tame_def ack_open_def ack_close_def frame_simps)

lemma tame_resets: "tame reset_if_flagged" "tame do_gps_reset_hdlr"
  by (simp_all add: tame_def reset_if_flagged_def do_gps_reset_hdlr_def Let_def frame_simps)

lemma tame_fold: "list_all tame fs \<Longrightarrow> tame (\<lambda>s. fold (\<lambda>f. f) fs s)"
proof (induction fs)
  case Nil
  then show ?case by (simp add: tame_basic)
next
  case (Cons f fs)
  then show ?case using tame_comp [of "\<lambda>s. fold (\<lambda>f. f) fs s" f] by simp
qed

lemma tame_hdlrs: "tame (do_gps_started_hdlr si)" "tame do_gps_stopped_hdlr"
proof -
  have h: "tame (\<lambda>s. emit a (emit b (emit c s)))" "tame (\<lambda>s. if enable_debug2app s then emit a s else s)" for a b c
    by (simp_all add: tame_def frame_simps)
  have "tame (\<lambda>s. fold (\<lambda>f. f)
      [ack_open Hal (\<lambda>s. emit (To_agps (Agps_gps_open si)) (emit (To_hal (Gps_status SESSION_BEGIN))
         (emit (To_hal (Gps_status SESSION_ENGINE_ON)) s))),
       ack_open Agps (emit (To_agps Agps_open_gps_done)), ack_open Flp (peer_open_reply FLP si),
       ack_open Geofence (peer_open_reply GFC si), ack_open Flp_test (\<lambda>s. s), ack_open At_cmd_test (\<lambda>s. s),
       ack_open Factory (\<lambda>s. s), \<lambda>s. if enable_debug2app s then emit (Dbg_gps_status True) s else s,
       do_gps_reset_hdlr, reset_if_flagged] s)"
    by (rule tame_fold) (simp add: tame_ack tame_replies tame_resets tame_basic h)
  then show "tame (do_gps_started_hdlr si)" by (simp add: do_gps_started_hdlr_stages)
  have "tame (\<lambda>s. fold (\<lambda>f. f)
      [ack_close Hal (\<lambda>s. emit (To_agps Agps_gps_close) (emit (To_hal (Gps_status SESSION_ENGINE_OFF))
         (emit (To_hal (Gps_status SESSION_END)) s))),
       ack_close Agps (emit (To_agps Agps_close_gps_done)), ack_close Flp (peer_close_reply FLP),
       ack_close Geofence (peer_close_reply GFC), ack_close Flp_test (\<lambda>s. s), ack_close At_cmd_test (\<lambda>s. s),
       ack_close Factory (\<lambda>s. s), \<lambda>s. if enable_debug2app s then emit (Dbg_gps_status False) s else s,
       emit (Nlp_cancel NLP_REQUEST_SRC_MNL), do_gps_reset_hdlr] s)"
    by (rule tame_fold) (simp add: tame_ack tame_replies tame_resets tame_basic h)
  then show "tame do_gps_stopped_hdlr" by (simp add: do_gps_stopped_hdlr_stages)
qed

lemmas tame_apply = tame_hdlrs [unfolded tame_def, rule_format]

lemma controls_blocks [simp]:
  "controls (control_start s) = controls s" "controls (leave_idle e st s) = controls s"
  "controls (enter_stopping st s) = controls s" "controls (restart e st s) = controls s"
  "controls (enter_idle e s) = controls s" "controls (update_downloads s) = controls s"
  "controls (reset_if_flagged s) = controls s" "controls (do_gps_reset_hdlr s) = controls s"
  by (simp_all add: control_start_def leave_idle_def enter_stopping_def restart_def enter_idle_def update_downloads_def
      op01_log_def reset_if_flagged_def do_gps_reset_hdlr_def Let_def)

lemma fsm_enter_host: "on_host s \<Longrightarrow> fsm_enter e s = s"
  by (simp add: on_host_def fsm_enter_def cfg_preds)

lemma set_stype_same: "stype (session_of pid s) = t \<Longrightarrow> set_stype pid t s = s"
  by (cases pid) (auto simp: set_stype_def)

lemma enter_started_host:
  assumes "on_host s"
  shows "enter_started s = update_downloads (set_state STARTED s)"
proof -
  let ?s = "update_downloads (set_state STARTED s)"
  have t: "stype (session_of pid ?s) = AP_MODE" "pre_type (session_of pid ?s) = AP_MODE" for pid
    using assms by (simp_all add: on_host_def frame_simps sid_of_calm [OF calm_update_downloads])
  have "cfg ?s = cfg s" by (simp add: frame_simps)
  then have "\<not> mnld_support_auto_switch_mode ?s" using assms by (simp add: on_host_def cfg_preds)
  moreover have "set_stype pid AP_MODE ?s = ?s" "session_switch pid ?s = ?s" for pid
    using set_stype_same [OF t(1)] session_switch_noop [of pid ?s] t by auto
  ultimately show ?thesis unfolding enter_started_def Let_def by (simp only: simp_thms if_True)
qed

lemma fsm_host:
  assumes "on_host s" "mnld_fsm e ev d s = Inr s'" "ev \<noteq> EVENT_OFFLOAD_START"
  shows "on_host s' \<and> same_controls s s'"
proof -
  have h: "\<not> OFFLOAD_enabled (cfg s)" "\<not> mnld_support_auto_switch_mode s" using assms(1) by (simp_all add: on_host_def cfg_preds)
  have "on_host t \<Longrightarrow> enter_started t = update_downloads (set_state STARTED t)" for t by (rule enter_started_host)
  have o: "on_host (stop_timer k s)" "on_host (do_gps_started_hdlr d (stop_timer k s))" for k d
    using assms(1) by (simp_all add: on_host_def frame_simps sid_of_calm [OF calm_started])
  show ?thesis
    using assms h
    by (cases "state_of s"; cases ev)
      (auto simp: fsm_step fsm_enter_host on_host_def same_controls_def frame_simps tame_apply sid_of_calm calm_ops
        enter_started_host [OF o(2)] split: if_splits)
qed

lemma fsm_host_total: "on_host s \<Longrightarrow> ev = EVENT_START \<or> ev = EVENT_STOP \<Longrightarrow> \<exists>s'. mnld_fsm e ev d s = Inr s'"
  by (cases "state_of s") (auto simp: fsm_step fsm_enter_host on_host_def)

section \<open>The controller\<close>

text \<open>The provider runs on the host, knows its session, and holds the receiver exactly when it has a source.\<close>

definition linked :: "mnld \<Rightarrow> bool" where
  "linked s \<longleftrightarrow> on_host s \<and> gModeFlag (controls s) = AP_MODE \<and> gCurrentSession (controls s) = sid (session_of FLP s) \<and>
     (used Flp s \<longleftrightarrow> running_source (controls s) \<noteq> 0)"

lemma controls_fields [simp]:
  "gModeFlag (flp_peer s) = gModeFlag (controls s)" "gCurrentSession (flp_peer s) = gCurrentSession (controls s)"
  "running_source (flp_peer s) = running_source (controls s)" "source_to_use (flp_peer s) = source_to_use (controls s)"
  "penabled (flp_peer s) = penabled (controls s)" "batch_mode (flp_peer s) = batch_mode (controls s)"
  "period_ns (flp_peer s) = period_ns (controls s)" "hdlr_cb (flp_peer s) = hdlr_cb (controls s)"
  "loc_available (flp_peer s) = loc_available (controls s)" "update_last_time (flp_peer s) = update_last_time (controls s)"
  by (simp_all add: controls_def)

lemma controls_set_peer:
  "(\<And>p st. f (p\<lparr>fgMnldStatus := st\<rparr>) = (f p)\<lparr>fgMnldStatus := st\<rparr>) \<Longrightarrow> controls (set_peer FLP f s) = f (controls s)"
  by (simp add: controls_def)

lemma flp_peer_field [simp]: "session_of pid (s\<lparr>flp_peer := q\<rparr>) = session_of pid s" "on_host (s\<lparr>flp_peer := q\<rparr>) = on_host s"
proof -
  show a: "session_of pid (s\<lparr>flp_peer := q\<rparr>) = session_of pid s" for pid by (cases pid) simp_all
  show "on_host (s\<lparr>flp_peer := q\<rparr>) = on_host s" by (simp add: on_host_def a)
qed

lemma on_status_host [simp]: "session_of pid (on_status q st s) = session_of pid s" "on_host (on_status q st s) = on_host s"
proof -
  show a: "session_of pid (on_status q st s) = session_of pid s" for pid
    by (cases pid; cases q) (simp_all add: on_status_def)
  show "on_host (on_status q st s) = on_host s" unfolding on_host_def a by (cases q) (simp_all add: on_status_def)
qed

lemma open_close:
  assumes "on_host s" "hdlr_cb (controls s)" "gCurrentSession (controls s) = sid (session_of FLP s)"
  shows "\<exists>s'. request FLP MNLD_HBD_GPS_OPEN e (on_status FLP st s) = Inr s' \<and> on_host s' \<and> controls s' = controls s \<and>
      used Flp s' \<and> session_of FLP s' = session_of FLP s"
    and "\<exists>s'. request FLP MNLD_HBD_GPS_CLOSE e (on_status FLP st s) = Inr s' \<and> on_host s' \<and> controls s' = controls s \<and>
      \<not> used Flp s' \<and> session_of FLP s' = session_of FLP s"
proof -
  let ?o = "mark_open Flp True (on_status FLP st s)" and ?c = "mark_close Flp True (on_status FLP st s)"
  have h: "on_host ?o" "on_host ?c"
    using assms(1) on_status_host(2) [of FLP st s]
    by (simp_all del: on_status_host add: on_host_def mark_open_def mark_close_def frame_simps)
  have c: "controls ?o = controls s" "controls ?c = controls s" "session_of FLP ?o = session_of FLP s"
    "session_of FLP ?c = session_of FLP s" "used Flp ?o" "\<not> used Flp ?c"
    by (simp_all add: mark_open_def mark_close_def frame_simps)
  obtain s1 s2 where s: "mnld_fsm e EVENT_START 0 ?o = Inr s1" "mnld_fsm e EVENT_STOP 0 ?c = Inr s2"
    using fsm_host_total [OF h(1), of EVENT_START e 0] fsm_host_total [OF h(2), of EVENT_STOP e 0] by auto
  have "request FLP MNLD_HBD_GPS_OPEN e (on_status FLP st s) = Inr s1"
    "request FLP MNLD_HBD_GPS_CLOSE e (on_status FLP st s) = Inr s2"
    using assms s by (simp_all add: request_def peer2mnl_hdlr_def peer_msg_types mnld_hbd_gps_open_def mnld_hbd_gps_close_def on_status_def)
  moreover have "on_host s1 \<and> same_controls ?o s1" "on_host s2 \<and> same_controls ?c s2"
    using fsm_host [OF h(1) s(1)] fsm_host [OF h(2) s(2)] by auto
  ultimately show
    "\<exists>s'. request FLP MNLD_HBD_GPS_OPEN e (on_status FLP st s) = Inr s' \<and> on_host s' \<and> controls s' = controls s \<and>
      used Flp s' \<and> session_of FLP s' = session_of FLP s"
    "\<exists>s'. request FLP MNLD_HBD_GPS_CLOSE e (on_status FLP st s) = Inr s' \<and> on_host s' \<and> controls s' = controls s \<and>
      \<not> used Flp s' \<and> session_of FLP s' = session_of FLP s"
    using c by (simp_all del: session_of.simps add: same_controls_def)
qed

lemma dc_cmd_types [simp]: "cmd_type (dc_start_cmd a b c) = MSG_DC_START_CMD" "cmd_type dc_stop_cmd = MSG_DC_STOP_CMD"
  using peer_message_fields(1) [of MSG_DC_START_CMD _ "[]"] peer_message_fields(1) [of MSG_DC_STOP_CMD _ "[]"]
  by (simp_all add: dc_start_cmd_def dc_stop_cmd_def)

lemma one_le_word [simp]: "(1 :: u32) \<le> w \<longleftrightarrow> w \<noteq> 0"
  by (simp add: word_le_nat_alt Suc_le_eq unat_gt_0)

text \<open>What the controller leaves when its sources change.\<close>

lemma update_option_host:
  assumes "linked s" "hdlr_cb (controls s)"
  shows "\<exists>s' t. mtk_flp_controller_update_option x e s = Inr s' \<and> linked s' \<and>
    controls s' = (controls s)\<lparr>running_source := source_to_use (controls s), update_last_time := t\<rparr> \<and>
    (running_source (controls s) = 0 \<and> source_to_use (controls s) \<noteq> 0 \<longrightarrow> t = 0)"
proof -
  let ?r = "running_source (controls s)" and ?n = "source_to_use (controls s)"
  have o: "\<exists>s'. mtk_flp2mnl_process (dc_start_cmd a b c) e t = Inr s' \<and> on_host s' \<and> controls s' = controls t \<and>
      used Flp s' \<and> session_of FLP s' = session_of FLP t"
    "\<exists>s'. mtk_flp2mnl_process dc_stop_cmd e t = Inr s' \<and> on_host s' \<and> controls s' = controls t \<and>
      \<not> used Flp s' \<and> session_of FLP s' = session_of FLP t"
    if "on_host t" "hdlr_cb (controls t)" "gCurrentSession (controls t) = sid (session_of FLP t)" for a b c t
    using open_close [OF that, of e] by (simp_all add: mtk_flp2mnl_process_def hal_msg_types)
  have u: "controls (t\<lparr>flp_peer := (flp_peer t)\<lparr>running_source := v\<rparr>\<rparr>) = (controls t)\<lparr>running_source := v\<rparr>"
    "controls (t\<lparr>flp_peer := (flp_peer t)\<lparr>update_last_time := w\<rparr>\<rparr>) = (controls t)\<lparr>update_last_time := w\<rparr>" for t v w
    by (simp_all add: controls_def del: controls_fields)
  have same: "\<exists>t. p = p\<lparr>update_last_time := t\<rparr>" for p :: peer
    by (rule exI [of _ "update_last_time p"]) simp
  consider "?r = ?n" | "?r = 0" "?n \<noteq> 0" | "?r \<noteq> 0" "?n = 0" | "?r \<noteq> ?n" "?r \<noteq> 0" "?n \<noteq> 0" by metis
  then show ?thesis
  proof cases
    case 2
    let ?s = "set_peer FLP (\<lambda>p. p\<lparr>update_last_time := 0\<rparr>) s"
    obtain s' where "mtk_flp2mnl_process (dc_start_cmd (max_power_allocation_mW x) (batch_mode (controls ?s)) (period_ns (controls ?s))) e ?s = Inr s'"
      "on_host s'" "controls s' = controls ?s" "used Flp s'" "session_of FLP s' = session_of FLP ?s"
      using o(1) [where t = ?s and a = "max_power_allocation_mW x" and b = "batch_mode (controls ?s)" and c = "period_ns (controls ?s)"]
        assms by (auto simp: linked_def u)
    then show ?thesis using 2 assms
      by (intro exI [of _ "set_peer FLP (\<lambda>p. p\<lparr>running_source := source_to_use p\<rparr>) s'"] exI [of _ 0])
        (simp add: mtk_flp_controller_update_option_def Let_def linked_def u)
  next
    case 3
    obtain s' where "mtk_flp2mnl_process dc_stop_cmd e s = Inr s'" "on_host s'" "controls s' = controls s"
      "\<not> used Flp s'" "session_of FLP s' = session_of FLP s"
      using o(2) [of s] assms by (auto simp: linked_def)
    then show ?thesis using 3 assms
      by (intro exI [of _ "set_peer FLP (\<lambda>p. p\<lparr>running_source := source_to_use p\<rparr>) s'"] exI [of _ "update_last_time (controls s)"])
        (simp add: mtk_flp_controller_update_option_def Let_def linked_def u)
  qed (use assms in \<open>simp_all add: mtk_flp_controller_update_option_def Let_def linked_def u
      exI [of _ "update_last_time (controls s)"]\<close>)
qed

section \<open>The HAL's options in the daemon\<close>

lemma flp_message_eq: "flp_message = peer_message"
  by (simp add: fun_eq_iff flp_message_def peer_message_def)

text \<open>The daemon's copy of fused options, given to it by a start or by later commands.\<close>

definition has_options :: "batch_options \<Rightarrow> peer \<Rightarrow> bool" where
  "has_options f p \<longleftrightarrow> penabled p \<and> source_to_use p = sources_to_use f \<and> running_source p = sources_to_use f \<and>
     batch_mode p = sint (batch_flags f) \<and> (0 < sint (batch_period_ns f) \<longrightarrow> period_ns p = sint (batch_period_ns f))"

definition idle_provider :: "peer \<Rightarrow> bool" where
  "idle_provider p \<longleftrightarrow> \<not> penabled p \<and> source_to_use p = 0 \<and> running_source p = 0"

lemma has_options_time [simp]: "has_options f (p\<lparr>update_last_time := t\<rparr>) = has_options f p"
  "idle_provider (p\<lparr>update_last_time := t\<rparr>) = idle_provider p"
  by (simp_all add: has_options_def idle_provider_def)

lemma controls_set [simp]:
  "controls (s\<lparr>flp_peer := q\<rparr>) = q\<lparr>fgMnldStatus := STATUS_NONE\<rparr>"
  by (simp add: controls_def)

text \<open>A HAL's message, as the daemon takes it on the host.\<close>

lemma takes_message:
  fixes t :: u32 and pl :: bytes
  assumes "length pl \<le> 1000" "gModeFlag (controls s) = AP_MODE"
  defines "m \<equiv> peer_message t pl"
  shows "daemon e (From_flp_hal (Some (le32 (of_nat (length m)) @ m))) s =
    (let s = set_peer FLP (\<lambda>p. p\<lparr>hdlr_cb := True\<rparr>) s in
     if t = MSG_HAL_START_CMD \<or> t = MSG_HAL_STOP_CMD \<or> t = MSG_HAL_SET_OPTION_CMD
     then mtk_flp_controller_process (m @ replicate (1024 - length m) 0) e s
     else if t = MSG_HAL_REQUEST_LOC_NTF \<or> t = MSG_HAL_FLUSH_LOC_NTF
     then put_and_send FLP (m @ replicate (1024 - length m) 0) 12
       (cursor (le32 (of_nat (length m)) @ m) (replicate (1020 - length m) 0)) s
     else Inr s)"
proof -
  have l: "length m \<le> 1020" "m \<noteq> []" using assms by (simp_all add: m_def peer_message_def)
  have ir: "ignore_ret (ret r x) = x" for r x by simp
  show ?thesis using received_message [OF l(1)] l assms(2)
    by (simp add: mtk_hal2flp_main_hdlr_def Let_def m_def hal_msg_types)
qed

lemma peer_message_payload [simp]: "drop 8 (peer_message t b) = b" "cmd_type (peer_message t b) = t"
  using peer_message_fields(1,2) [of t b "[]"] by simp_all

lemma options_payload: "length (options_bytes x) \<le> 1000" "bytes_options (options_bytes x) = x"
  using bytes_options_bytes [of x "[]"] by simp_all

lemma takes_start:
  assumes "linked s"
  shows "\<exists>s'. daemon e (From_flp_hal (Some (le32 32 @ flp_message FLP_START_CMD (options_bytes x)))) s = Inr s' \<and>
    linked s' \<and> has_options x (controls s') \<and> period_ns (controls s') = sint (batch_period_ns x) \<and>
    (running_source (controls s) = 0 \<and> sources_to_use x \<noteq> 0 \<longrightarrow> update_last_time (controls s') = 0)"
proof -
  let ?s = "set_peer FLP (\<lambda>p. p\<lparr>hdlr_cb := True\<rparr>) s"
  let ?t = "set_peer FLP (\<lambda>p. p\<lparr>penabled := True, batch_mode := sint (batch_flags x), period_ns := sint (batch_period_ns x),
    source_to_use := sources_to_use x\<rparr>) ?s"
  have "linked ?t" "hdlr_cb (controls ?t)" using assms by (simp_all add: linked_def)
  then obtain s' t where s': "mtk_flp_controller_update_option x e ?t = Inr s'" "linked s'"
    "controls s' = (controls ?t)\<lparr>running_source := source_to_use (controls ?t), update_last_time := t\<rparr>"
    "running_source (controls ?t) = 0 \<and> source_to_use (controls ?t) \<noteq> 0 \<longrightarrow> t = 0"
    using update_option_host by blast
  have "daemon e (From_flp_hal (Some (le32 32 @ flp_message FLP_START_CMD (options_bytes x)))) s =
      mtk_flp_controller_update_option x e ?t"
    using takes_message [where pl = "options_bytes x" and s = s and t = MSG_HAL_START_CMD and e = e] assms options_payload [of x]
    by (simp add: linked_def flp_message_eq flp_types hal_msg_types mtk_flp_controller_process_def Let_def)
  then show ?thesis using s' by (simp add: has_options_def)
qed

lemma takes_set_option:
  assumes "linked s" "penabled (controls s)"
  shows "\<exists>s'. daemon e (From_flp_hal (Some (le32 32 @ flp_message FLP_SET_OPTION_CMD (options_bytes x)))) s = Inr s' \<and>
    linked s' \<and> has_options x (controls s')"
proof -
  let ?s = "set_peer FLP (\<lambda>p. p\<lparr>hdlr_cb := True\<rparr>) s"
  let ?t = "set_peer FLP (\<lambda>p. p\<lparr>penabled := True, period_ns := (if sint (batch_period_ns x) > 0 then sint (batch_period_ns x)
    else period_ns p), batch_mode := sint (batch_flags x), source_to_use := sources_to_use x\<rparr>) ?s"
  have "linked ?t" "hdlr_cb (controls ?t)" using assms by (simp_all add: linked_def)
  then obtain s' t where s': "mtk_flp_controller_update_option x e ?t = Inr s'" "linked s'"
    "controls s' = (controls ?t)\<lparr>running_source := source_to_use (controls ?t), update_last_time := t\<rparr>"
    using update_option_host by blast
  have "daemon e (From_flp_hal (Some (le32 32 @ flp_message FLP_SET_OPTION_CMD (options_bytes x)))) s =
      mtk_flp_controller_update_option x e ?t"
    using takes_message [where pl = "options_bytes x" and s = s and t = MSG_HAL_SET_OPTION_CMD and e = e] assms options_payload [of x]
    by (simp add: linked_def flp_message_eq flp_types hal_msg_types mtk_flp_controller_process_def Let_def)
  then show ?thesis using s' by (simp add: has_options_def)
qed

lemma takes_stop:
  assumes "linked s"
  shows "\<exists>s'. daemon e (From_flp_hal (Some (le32 8 @ flp_message FLP_STOP_CMD []))) s = Inr s' \<and>
    linked s' \<and> idle_provider (controls s')"
proof -
  let ?t = "set_peer FLP (\<lambda>p. p\<lparr>penabled := False, source_to_use := 0\<rparr>) (set_peer FLP (\<lambda>p. p\<lparr>hdlr_cb := True\<rparr>) s)"
  have "linked ?t" "hdlr_cb (controls ?t)" using assms by (simp_all add: linked_def)
  then obtain s' t where s': "mtk_flp_controller_update_option no_options e ?t = Inr s'" "linked s'"
    "controls s' = (controls ?t)\<lparr>running_source := source_to_use (controls ?t), update_last_time := t\<rparr>"
    using update_option_host by blast
  have "daemon e (From_flp_hal (Some (le32 8 @ flp_message FLP_STOP_CMD []))) s =
      mtk_flp_controller_update_option no_options e ?t"
    using takes_message [where pl = "[]" and s = s and t = MSG_HAL_STOP_CMD and e = e] assms
    by (simp add: linked_def flp_message_eq flp_types hal_msg_types mtk_flp_controller_process_def Let_def)
  then show ?thesis using s' by (simp add: idle_provider_def)
qed

text \<open>
  A request for locations or a flush goes back to the HAL: the datagram as it came, and behind it the
  first twelve bytes of the message once more, as the buffer and the offset are used again.
\<close>

definition sent_back :: "bytes \<Rightarrow> bytes" where
  "sent_back m = le32 (of_nat (length m)) @ m @ le32 12 @ take 12 (m @ replicate 12 0)"

lemma takes_forward:
  assumes "gModeFlag (controls s) = AP_MODE" "length pl \<le> 996" "t = MSG_HAL_REQUEST_LOC_NTF \<or> t = MSG_HAL_FLUSH_LOC_NTF"
  shows "daemon e (From_flp_hal (Some (le32 (of_nat (8 + length pl)) @ peer_message t pl))) s =
    Inr (emit (To_flp_hal (sent_back (peer_message t pl))) (set_peer FLP (\<lambda>p. p\<lparr>hdlr_cb := True\<rparr>) s))"
proof -
  let ?m = "peer_message t pl"
  have m: "length ?m = 8 + length pl" by simp
  have z: "take 12 (?m @ replicate (1024 - length ?m) 0) = take 12 (?m @ replicate 12 0)"
    using m assms(2) by (simp add: min_def; arith)
  have "put_and_send FLP (?m @ replicate (1024 - length ?m) 0) 12 (cursor (le32 (of_nat (length ?m)) @ ?m) (replicate (1020 - length ?m) 0)) x =
      Inr (emit (To_flp_hal (sent_back ?m)) x)" for x
    unfolding put_and_send_def put_binary_cursor using assms(2) m z
    by (simp add: coder_simps sent_back_def del: peer_message_fields)
  then show ?thesis
    using takes_message [where pl = pl and s = s and t = t and e = e] assms
    by (auto simp: Let_def hal_msg_types)
qed

text \<open>Messages that do not change the options.\<close>

lemma takes_other:
  assumes "linked s" "length pl \<le> 996" "t \<notin> {FLP_START_CMD, FLP_STOP_CMD, FLP_SET_OPTION_CMD}"
  shows "\<exists>s'. daemon e (From_flp_hal (Some (le32 (of_nat (8 + length pl)) @ flp_message t pl))) s = Inr s' \<and>
    linked s' \<and> controls s' = (controls s)\<lparr>hdlr_cb := True\<rparr>"
proof -
  have g: "gModeFlag (controls s) = AP_MODE" using assms(1) by (simp add: linked_def)
  let ?s = "set_peer FLP (\<lambda>p. p\<lparr>hdlr_cb := True\<rparr>) s"
  have c: "controls ?s = (controls s)\<lparr>hdlr_cb := True\<rparr>" by (simp add: controls_def del: controls_fields)
  then have s: "linked ?s" "\<And>x. linked (emit x ?s)"
    using assms(1) by (simp_all add: linked_def on_host_def frame_simps)
  show ?thesis
  proof (cases "t = MSG_HAL_REQUEST_LOC_NTF \<or> t = MSG_HAL_FLUSH_LOC_NTF")
    case True
    show ?thesis using takes_forward [OF g assms(2) True, of e] c s(2) by (simp add: flp_message_eq)
  next
    case False
    then show ?thesis
      using takes_message [where pl = pl and s = s and t = t and e = e] assms g c s(1)
      by (simp add: flp_message_eq flp_types hal_msg_types Let_def)
  qed
qed

section \<open>The HAL and the daemon together\<close>

text \<open>The datagrams among a HAL's events, handed to the daemon one after the other.\<close>

fun hand_over :: "env \<Rightarrow> flp_event list \<Rightarrow> mnld \<Rightarrow> outcome" where
    "hand_over e [] s = Inr s"
  | "hand_over e (Flp_to_mnl d # es) s = res_bind (daemon e (From_flp_hal (Some d)) s) (hand_over e es)"
  | "hand_over e (_ # es) s = hand_over e es s"

text \<open>Calls of the framework, each followed by some confirmations of the control thread.\<close>

fun joint_run :: "flp_platform \<Rightarrow> (bytes \<Rightarrow> u32) \<Rightarrow> env \<Rightarrow> (flp_call \<times> nat) list \<Rightarrow> (bytes \<times> flp_hal) \<times> mnld \<Rightarrow>
    ((bytes \<times> flp_hal) \<times> mnld) option" where
    "joint_run p atof e [] x = Some x"
  | "joint_run p atof e ((c, n) # cs) ((b, h), s) =
       (case flp_step p atof (os_fine, c) (b, h) of
          None \<Rightarrow> None
        | Some (b', h') \<Rightarrow>
            (case res_bind (hand_over e (drop (length (flp_log h)) (flp_log h')) s) (settle n e) of
               Inl _ \<Rightarrow> None
             | Inr s' \<Rightarrow> joint_run p atof e cs ((b', h'), s')))"

text \<open>
  A framework that starts instances 0 to 9 with a source, updates only instances it has started, and
  otherwise stops instances, asks for locations, injects one or cleans up. \<open>A\<close> are the instances started.
\<close>

fun disciplined :: "int set \<Rightarrow> flp_call list \<Rightarrow> bool" where
    "disciplined A [] = True"
  | "disciplined A (Flp_start i (Some x) # cs) = (0 \<le> i \<and> i < 10 \<and> sources_to_use x \<noteq> 0 \<and> disciplined (insert i A) cs)"
  | "disciplined A (Flp_update i (Some x) # cs) = (i \<in> A \<and> sources_to_use x \<noteq> 0 \<and> disciplined A cs)"
  | "disciplined A (Flp_stop i # cs) = disciplined (A - {i}) cs"
  | "disciplined A (Flp_get n # cs) = disciplined A cs"
  | "disciplined A (Flp_flush # cs) = disciplined A cs"
  | "disciplined A (Flp_cleanup # cs) = disciplined A cs"
  | "disciplined A (Flp_inject (Some l) # cs) = (length l \<le> 996 \<and> disciplined A cs)"
  | "disciplined A (_ # cs) = False"

definition instances :: "int set \<Rightarrow> flp_hal \<Rightarrow> bool" where
  "instances A h \<longleftrightarrow> isflp_exist h \<and> length (gFlpOptions h) = 10 \<and> A \<subseteq> {0..<10} \<and>
     (\<forall>i<10. sources_to_use (gFlpOptions h ! i) \<noteq> 0 \<longleftrightarrow> int i \<in> A) \<and> (gFlpFirstBatch h \<longleftrightarrow> A = {}) \<and>
     (A \<noteq> {} \<longrightarrow> gFusedOptions h = fused_options (gFlpOptions h))"

definition in_step :: "flp_hal \<Rightarrow> mnld \<Rightarrow> bool" where
  "in_step h s \<longleftrightarrow> linked s \<and>
     (if gFlpFirstBatch h then idle_provider (controls s) else has_options (gFusedOptions h) (controls s))"

lemma instances_active: "instances A h \<Longrightarrow> active (gFlpOptions h) = [] \<longleftrightarrow> A = {}"
proof -
  assume a: "instances A h"
  have "active (gFlpOptions h) = [] \<longleftrightarrow> (\<forall>i<10. sources_to_use (gFlpOptions h ! i) = 0)"
    using a by (auto simp: instances_def active_def filter_empty_conv all_set_conv_all_nth)
  moreover have "A = {} \<longleftrightarrow> (\<forall>i<10. int i \<notin> A)"
  proof
    assume n: "\<forall>i<10. int i \<notin> A"
    have "k \<notin> A" if "0 \<le> k" "k < 10" for k using n [rule_format, of "nat k"] that by simp
    then show "A = {}" using a by (auto simp: instances_def)
  qed simp
  ultimately show ?thesis using a by (auto simp: instances_def)
qed

lemma settle_host:
  "linked s \<Longrightarrow> \<exists>s'. settle n e s = Inr s' \<and> linked s' \<and> controls s' = controls s"
proof (induction n arbitrary: s)
  case (Suc n)
  show ?case
  proof (cases "answer s")
    case (Some m)
    then have st: "state_of s = STARTING \<and> m = Start_done 0 \<or> state_of s = STOPPING \<and> m = Stop_done"
      using Suc.prems by (cases "state_of s") (auto simp: answer_def linked_def on_host_def)
    define ev where "ev = (if state_of s = STARTING then EVENT_START_DONE else EVENT_STOP_DONE)"
    have h: "on_host s" using Suc.prems by (simp add: linked_def)
    obtain t where t: "mnld_fsm e ev 0 s = Inr t" using st h by (auto simp: ev_def fsm_step fsm_enter_host)
    have "on_host t \<and> same_controls s t" by (rule fsm_host [OF h t]) (simp add: ev_def)
    then have l: "linked t" "controls t = controls s"
      using Suc.prems by (simp_all del: session_of.simps add: linked_def same_controls_def)
    have "daemon e (From_main m) s = Inr t" using st t by (auto simp: ev_def)
    then show ?thesis using Suc.IH [OF l(1)] l(2) Some by simp
  qed (use Suc.prems in auto)
qed auto

lemma command_fine:
  "length pl \<le> 996 \<Longrightarrow> flp_command os_fine c pl h =
     Some (0, flp_note (Flp_to_mnl (le32 (of_nat (8 + length pl)) @ flp_message c pl)) h)"
  by (simp add: flp_command_def flp_send2mnl_def flp_message_def)

text \<open>One call: at most one datagram, and the daemon is in step again once it has taken it.\<close>

definition step_kept :: "env \<Rightarrow> int set \<Rightarrow> flp_hal \<Rightarrow> mnld \<Rightarrow> flp_hal \<Rightarrow> bool" where
  "step_kept e A h s h' \<longleftrightarrow> instances A h' \<and> (\<exists>es s'. flp_log h' = flp_log h @ es \<and> hand_over e es s = Inr s' \<and> in_step h' s')"

lemma step_kept_other:
  assumes "instances A h" "in_step h s" "length pl \<le> 996" "t \<notin> {FLP_START_CMD, FLP_STOP_CMD, FLP_SET_OPTION_CMD}"
  shows "step_kept e A h s (flp_note (Flp_to_mnl (le32 (of_nat (8 + length pl)) @ flp_message t pl)) h)"
proof -
  obtain s' where "daemon e (From_flp_hal (Some (le32 (of_nat (8 + length pl)) @ flp_message t pl))) s = Inr s'"
    "linked s'" "controls s' = (controls s)\<lparr>hdlr_cb := True\<rparr>"
    using takes_other [OF _ assms(3,4)] assms(2) by (auto simp: in_step_def)
  then show ?thesis using assms(1,2)
    by (auto simp: step_kept_def instances_def in_step_def has_options_def idle_provider_def split: if_splits)
qed

lemma step_kept_options:
  assumes h: "instances A h" "in_step h s" and x: "0 \<le> i" "i < 10" "sources_to_use x \<noteq> 0"
  defines "h1 \<equiv> mtk_flp_update_options (h\<lparr>gFlpOptions := (gFlpOptions h)[nat i := x]\<rparr>)"
  shows "gFlpFirstBatch h \<Longrightarrow> step_kept e (insert i A) h s
      ((flp_note (Flp_to_mnl (le32 32 @ flp_message FLP_START_CMD (options_bytes (gFusedOptions h1)))) h1)\<lparr>gFlpFirstBatch := False\<rparr>)"
    and "\<not> gFlpFirstBatch h \<Longrightarrow> step_kept e (insert i A) h s
      (flp_note (Flp_to_mnl (le32 32 @ flp_message FLP_SET_OPTION_CMD (options_bytes (gFusedOptions h1)))) h1)"
proof -
  have i: "instances (insert i A) (h1\<lparr>gFlpFirstBatch := False\<rparr>)"
    using h(1) x by (auto simp: instances_def h1_def mtk_flp_update_options_def nth_list_update)
  have f: "flp_log h1 = flp_log h" "gFlpFirstBatch h1 = gFlpFirstBatch h"
    by (simp_all add: h1_def mtk_flp_update_options_def)
  show "step_kept e (insert i A) h s
      ((flp_note (Flp_to_mnl (le32 32 @ flp_message FLP_START_CMD (options_bytes (gFusedOptions h1)))) h1)\<lparr>gFlpFirstBatch := False\<rparr>)"
    if "gFlpFirstBatch h"
  proof -
    obtain s' where "daemon e (From_flp_hal (Some (le32 32 @ flp_message FLP_START_CMD (options_bytes (gFusedOptions h1))))) s = Inr s'"
      "linked s'" "has_options (gFusedOptions h1) (controls s')"
      using takes_start h(2) unfolding in_step_def by blast
    then show ?thesis using i f by (auto simp: step_kept_def instances_def in_step_def)
  qed
  show "step_kept e (insert i A) h s
      (flp_note (Flp_to_mnl (le32 32 @ flp_message FLP_SET_OPTION_CMD (options_bytes (gFusedOptions h1)))) h1)"
    if n: "\<not> gFlpFirstBatch h"
  proof -
    have "penabled (controls s)" using h(2) n by (simp add: in_step_def has_options_def)
    then obtain s' where "daemon e (From_flp_hal (Some (le32 32 @ flp_message FLP_SET_OPTION_CMD (options_bytes (gFusedOptions h1))))) s = Inr s'"
      "linked s'" "has_options (gFusedOptions h1) (controls s')"
      using takes_set_option h(2) unfolding in_step_def by blast
    then show ?thesis using i f n by (auto simp: step_kept_def instances_def in_step_def)
  qed
qed

lemma step_kept_stop:
  assumes h: "instances A h" "in_step h s"
  shows "\<exists>r h'. flphal2mnl_stop_batching os_fine i h = Some (r, h') \<and> step_kept e (A - {i}) h s h'"
proof (cases "0 \<le> i \<and> i < 10")
  case False
  then have "A - {i} = A" "flphal2mnl_stop_batching os_fine i h = Some (0, h)"
    using h(1) by (auto simp: instances_def flphal2mnl_stop_batching_def FLP_OPTION_MAX_def)
  then show ?thesis using h by (auto simp: step_kept_def intro: exI [of _ "[]"])
next
  case True
  define h1 where "h1 = mtk_flp_update_options (h\<lparr>gFlpOptions := (gFlpOptions h)[nat i := no_options]\<rparr>)"
  have o: "instances (A - {i}) (h1\<lparr>gFlpFirstBatch := (A - {i} = {})\<rparr>)"
    using h(1) True by (auto simp: instances_def h1_def mtk_flp_update_options_def nth_list_update no_options_def split: if_splits)
  have a: "sources_to_use (gFusedOptions h1) = 0 \<longleftrightarrow> A - {i} = {}"
    using instances_active [OF o] by (simp add: h1_def mtk_flp_update_options_def fused_no_source)
  have f: "flp_log h1 = flp_log h" "gFlpFirstBatch h1 = gFlpFirstBatch h"
    by (simp_all add: h1_def mtk_flp_update_options_def)
  have l: "linked s" using h(2) by (simp add: in_step_def)
  have b: "flphal2mnl_stop_batching os_fine i h =
      (if A - {i} = {} then Some (0, (flp_note (Flp_to_mnl (le32 8 @ flp_message FLP_STOP_CMD [])) h1)\<lparr>gFlpFirstBatch := True\<rparr>)
       else Some (0, flp_note (Flp_to_mnl (le32 32 @ flp_message FLP_SET_OPTION_CMD (options_bytes (gFusedOptions h1)))) h1))"
    using True h(1) a command_fine [of "[]" FLP_STOP_CMD h1] command_fine [of "options_bytes (gFusedOptions h1)" FLP_SET_OPTION_CMD h1]
    by (simp add: flphal2mnl_stop_batching_def FLP_OPTION_MAX_def instances_def h1_def Let_def)
  show ?thesis
  proof (cases "A - {i} = {}")
    case True
    obtain s' where "daemon e (From_flp_hal (Some (le32 8 @ flp_message FLP_STOP_CMD []))) s = Inr s'"
      "linked s'" "idle_provider (controls s')"
      using takes_stop [OF l] by blast
    then have "step_kept e (A - {i}) h s ((flp_note (Flp_to_mnl (le32 8 @ flp_message FLP_STOP_CMD [])) h1)\<lparr>gFlpFirstBatch := True\<rparr>)"
      using o True f by (auto simp: step_kept_def instances_def in_step_def)
    then show ?thesis using b unfolding True by simp
  next
    case n: False
    then have "penabled (controls s)" "\<not> gFlpFirstBatch h"
      using h by (auto simp: instances_def in_step_def has_options_def split: if_splits)
    then obtain s' where "daemon e (From_flp_hal (Some (le32 32 @ flp_message FLP_SET_OPTION_CMD (options_bytes (gFusedOptions h1))))) s = Inr s'"
      "linked s'" "has_options (gFusedOptions h1) (controls s')"
      using takes_set_option [OF l] by blast
    then have "step_kept e (A - {i}) h s (flp_note (Flp_to_mnl (le32 32 @ flp_message FLP_SET_OPTION_CMD (options_bytes (gFusedOptions h1)))) h1)"
      using o n f \<open>\<not> gFlpFirstBatch h\<close> by (auto simp: step_kept_def instances_def in_step_def)
    then show ?thesis using b n by auto
  qed
qed

fun instances_after :: "flp_call \<Rightarrow> int set \<Rightarrow> int set" where
    "instances_after (Flp_start i x) A = insert i A"
  | "instances_after (Flp_stop i) A = A - {i}"
  | "instances_after _ A = A"

lemma step_in_step:
  assumes "instances A h" "in_step h s" "disciplined A (c # cs)"
  shows "\<exists>h'. flp_step p atof (os_fine, c) (b, h) = Some (b, h') \<and> step_kept e (instances_after c A) h s h' \<and>
    disciplined (instances_after c A) cs"
proof -
  note ids = assms(1) [unfolded instances_def]
  have other: "step_kept e A h s (flp_note (Flp_to_mnl (le32 (of_nat (8 + length pl)) @ flp_message t pl)) h)"
    if "length pl \<le> 996" "t \<notin> {FLP_START_CMD, FLP_STOP_CMD, FLP_SET_OPTION_CMD}" for t pl
    by (rule step_kept_other [OF assms(1,2) that])
  have fine: "flp_command os_fine c (options_bytes x) k =
      Some (0, flp_note (Flp_to_mnl (le32 32 @ flp_message c (options_bytes x))) k)" for c x k
    using command_fine [of "options_bytes x" c k] by simp
  show ?thesis
  proof (cases c)
    case (Flp_start i xo)
    then obtain x where x: "xo = Some x" "0 \<le> i" "i < 10" "sources_to_use x \<noteq> 0" "disciplined (insert i A) cs"
      using assms(3) by (cases xo) auto
    define k where "k = h\<lparr>inf_gFusedOptions := x\<rparr>"
    define k1 where "k1 = mtk_flp_update_options (k\<lparr>gFlpOptions := (gFlpOptions k)[nat i := x]\<rparr>)"
    have k: "instances A k" "in_step k s" and log: "step_kept e B k s h' \<Longrightarrow> step_kept e B h s h'" for B h'
      using assms(1,2) by (auto simp: k_def instances_def in_step_def step_kept_def split: if_splits)
    have k1: "isflp_exist k1" "gFlpFirstBatch k1 = gFlpFirstBatch k"
      using ids by (simp_all add: k1_def k_def mtk_flp_update_options_def)
    have f: "mtk_flp_start_batching os_fine i (Some x) h =
        (if gFlpFirstBatch k1
         then Some (0, (flp_note (Flp_to_mnl (le32 32 @ flp_message FLP_START_CMD (options_bytes (gFusedOptions k1)))) k1)\<lparr>gFlpFirstBatch := False\<rparr>)
         else Some (0, flp_note (Flp_to_mnl (le32 32 @ flp_message FLP_SET_OPTION_CMD (options_bytes (gFusedOptions k1)))) k1))"
      using x ids by (simp add: mtk_flp_start_batching_def flphal2mnl_flp_start_def mtk_flp_set_options_def
          FLP_OPTION_MAX_def Let_def fine k_def [symmetric] k1_def [symmetric])
        (simp add: k_def k1_def fine)
    show ?thesis
      using log [OF step_kept_options(1) [OF k x(2-4)]] log [OF step_kept_options(2) [OF k x(2-4)]] k1(2) x Flp_start
      by (cases "gFlpFirstBatch k") (auto simp: f k1_def [symmetric])
  next
    case (Flp_update i xo)
    then obtain x where x: "xo = Some x" "i \<in> A" "sources_to_use x \<noteq> 0" "disciplined A cs"
      using assms(3) by (cases xo) auto
    have r: "0 \<le> i" "i < 10" "insert i A = A" "\<not> gFlpFirstBatch h" using x(2) ids by auto
    show ?thesis
      using step_kept_options(2) [OF assms(1,2) r(1,2) x(3) r(4), of e] Flp_update x r ids fine
      by (simp add: flphal2mnl_update_batching_options_def mtk_flp_set_options_def FLP_OPTION_MAX_def Let_def)
  next
    case (Flp_stop i)
    then show ?thesis using step_kept_stop [OF assms(1,2), of i e] assms(3) by auto
  next
    case (Flp_get n)
    then show ?thesis using other [of "le32 n" FLP_REQUEST_LOC_NTF] command_fine [of "le32 n" FLP_REQUEST_LOC_NTF h] assms(3)
      by (simp add: flphal2mnl_get_batched_location_def flp_types)
  next
    case (Flp_inject l)
    then show ?thesis using other [of "the l" FLP_INJECT_LOC_CMD] command_fine [of "the l" FLP_INJECT_LOC_CMD h] assms(3)
      by (cases l) (auto simp: flphal2mnl_inject_location_def flp_types)
  next
    case Flp_flush
    then show ?thesis using other [of "[]" FLP_FLUSH_LOC_NTF] assms(3)
      by (simp add: flphal2mnl_flush_batched_locations_def flp_types flp_send2mnl_def flp_message_def)
  next
    case Flp_cleanup
    then show ?thesis using assms
      by (auto simp: step_kept_def mtk_flp_cleanup_def instances_def in_step_def intro!: exI [of _ "[]"] split: if_splits)
  qed (use assms(3) in auto)
qed

lemma joint_in_step:
  assumes "instances A h" "in_step h s" "disciplined A (map fst cs)"
  shows "\<exists>h' s' A'. joint_run p atof e cs ((b, h), s) = Some ((b, h'), s') \<and> instances A' h' \<and> in_step h' s'"
  using assms
proof (induction cs arbitrary: A h s)
  case (Cons cn cs)
  obtain c n where cn: "cn = (c, n)" by force
  obtain h1 where h1: "flp_step p atof (os_fine, c) (b, h) = Some (b, h1)" "step_kept e (instances_after c A) h s h1"
    "disciplined (instances_after c A) (map fst cs)"
    using step_in_step [OF Cons.prems(1,2), where c = c and cs = "map fst cs" and p = p and atof = atof and b = b and e = e] Cons.prems(3) by (auto simp: cn)
  then obtain es t where t: "flp_log h1 = flp_log h @ es" "hand_over e es s = Inr t" "in_step h1 t"
    "instances (instances_after c A) h1" by (auto simp: step_kept_def)
  then obtain s1 where s1: "settle n e t = Inr s1" "linked s1" "controls s1 = controls t"
    using settle_host unfolding in_step_def by blast
  have "in_step h1 s1" using t(3) s1(2,3) by (simp add: in_step_def)
  then show ?case using Cons.IH [OF t(4) _ h1(3)] h1(1) t(1,2) s1(1) by (simp add: cn)
qed auto


text \<open>A first start, on a daemon that has just booted and a HAL whose table is empty.\<close>

definition one_source :: batch_options where
  "one_source = \<lparr>max_power_allocation_mW = 100, sources_to_use = 1, batch_flags = 0, batch_period_ns = 1000000000\<rparr>"

lemma linked_boot: "linked (boot ''0x6739'')" "idle_provider (controls (boot ''0x6739''))"
proof -
  have h: "\<not> OFFLOAD_enabled (cfg (boot ''0x6739''))" "state_of (boot ''0x6739'') = IDLE"
    "running_source (controls (boot ''0x6739'')) = 0" "\<not> penabled (controls (boot ''0x6739''))"
    "source_to_use (controls (boot ''0x6739'')) = 0" "gModeFlag (controls (boot ''0x6739'')) = AP_MODE"
    "gCurrentSession (controls (boot ''0x6739'')) = sid (session_of FLP (boot ''0x6739''))"
    "\<not> used Flp (boot ''0x6739'')"
    by code_simp+
  have "stype (session_of FLP (boot ''0x6739'')) = AP_MODE \<and> pre_type (session_of FLP (boot ''0x6739'')) = AP_MODE"
    "stype (session_of GFC (boot ''0x6739'')) = AP_MODE \<and> pre_type (session_of GFC (boot ''0x6739'')) = AP_MODE"
    by code_simp+
  then have s: "stype (session_of pid (boot ''0x6739'')) = AP_MODE \<and> pre_type (session_of pid (boot ''0x6739'')) = AP_MODE" for pid
    by (cases pid) simp_all
  show "linked (boot ''0x6739'')" "idle_provider (controls (boot ''0x6739''))"
    using h s by (simp_all add: linked_def on_host_def idle_provider_def)
qed

definition hal_at_start :: flp_hal where
  "hal_at_start = flp_boot\<lparr>gFlpOptions := replicate 10 no_options, isflp_exist := True\<rparr>"


end
