(* ===== verification/Peer_Flow.thy ===== *)
theory Peer_Flow
  imports Peer_Props
begin

text \<open>
  What passes through the fused location provider: a fix of the receiver, from the positioning library
  through the controller of \<open>Peer_Control\<close> and the datagram to the HAL's batch of \<open>Flp_Hal\<close>; how the
  controller thins the fixes out to the period that was asked for; and how the framework gets its batch
  back, which takes the daemon as a mirror.
\<close>

section \<open>Datagrams at the HAL\<close>

text \<open>The HALs of the two platforms: \<open>MTK_FLP_LOCATION_T\<close> has 64 bytes in the first, 72 in the second.\<close>

definition known_platform :: "flp_platform \<Rightarrow> bool" where
  "known_platform p \<longleftrightarrow> (if flp_is_64 p then sizeof_FlpLocation p = 72 else sizeof_FlpLocation p = 64)"

text \<open>A location of the daemon as the HAL keeps it.\<close>

definition hal_location :: "flp_platform \<Rightarrow> flp_location \<Rightarrow> bytes" where
  "hal_location p l =
     (if flp_is_64 p then le64 72 @ le16 (floc_flags l) @ replicate 6 0 @ drop 8 (location_bytes l) else location_bytes l)"

lemma length_hal_location: "known_platform p \<Longrightarrow> length (hal_location p l) = sizeof_FlpLocation p"
  by (simp add: hal_location_def known_platform_def)

lemma rearranged:
  "known_platform p \<Longrightarrow> flp_is_64 p \<Longrightarrow> mnl2flphal_loc_rearrange p (location_bytes l @ r) = Some (hal_location p l)"
  by (simp add: mnl2flphal_loc_rearrange_def rearrange_location_def known_platform_def mem_read_def hal_location_def location_bytes_def)

text \<open>What the HAL's handler sees of a message, wherever it stands in the array.\<close>

lemma hdlr_takes:
  assumes "length pl \<le> 1012" "d = peer_message t pl @ replicate (1016 - length pl) 0"
  shows "mnl2flphal_hdlr p os (le32 (of_nat (8 + length pl)) @ peer_message t pl @ r) h =
    (if t = SYS_FLPD_RESET_NTF \<or> t = FLP_REQUEST_LOC_NTF \<or> t = FLP_FLUSH_LOC_NTF \<or> t = FLP_REPORT_STATUS_NTF
     then map_option (Pair 0) (mtk_mnl2flp_hal_response p os d h)
     else if t = HSB_REPORT_LOC_NTF \<or> t = OFL_REPORT_LOC_NTF then report_case p os d h
     else Some (0, h))"
proof -
  let ?m = "peer_message t pl"
  have "1024 - length ?m = 1016 - length pl" by simp
  moreover obtain x where "get_binary (int HAL_BUFF_SIZE) 1024 (replicate 1024 0) (le32 (of_nat (length ?m)) @ ?m @ r, 0) =
      Some (int (length ?m), ?m @ replicate (1024 - length ?m) 0, x)"
    using hdlr_data [of ?m r] assms(1) by auto
  moreover have "of_le32 d = t" unfolding assms(2) by (simp add: peer_message_def)
  ultimately show ?thesis using assms by (simp add: mnl2flphal_hdlr_def Let_def)
qed

lemma bind_state: "x \<bind> (\<lambda>(_, s). Some (b, s)) = map_option (\<lambda>(_, s). (b, s)) x"
  by (cases x) auto

lemma thread_takes:
  assumes "isflp_exist h" "length b = HAL_BUFF_SIZE" "length pl + length r \<le> 1012"
    "d = peer_message t pl @ replicate (1016 - length pl) 0"
  shows "\<exists>b'. length b' = HAL_BUFF_SIZE \<and>
    flp_step p atof (os, Flp_recv (Some (le32 (of_nat (8 + length pl)) @ peer_message t pl @ r))) (b, h) =
     (if t = SYS_FLPD_RESET_NTF \<or> t = FLP_REQUEST_LOC_NTF \<or> t = FLP_FLUSH_LOC_NTF \<or> t = FLP_REPORT_STATUS_NTF
      then map_option (Pair b') (mtk_mnl2flp_hal_response p os d h)
      else if t = HSB_REPORT_LOC_NTF \<or> t = OFL_REPORT_LOC_NTF then map_option (Pair b' \<circ> snd) (report_case p os d h)
      else Some (b', h))"
proof -
  let ?d = "le32 (of_nat (8 + length pl)) @ peer_message t pl @ r"
  let ?b = "?d @ drop (length ?d) b"
  have l: "length ?d \<le> 1024" "length pl \<le> 1012" using assms(3) by simp_all
  have b: "received (Some ?d) b = ?b" "length ?b = HAL_BUFF_SIZE"
    using l(1) assms(2) by (simp_all add: received_def HAL_BUFF_SIZE_def)
  obtain x xs where x: "?d = x # xs" by (cases ?d) (auto simp: le32_def le16_def)
  have "flp_step p atof (os, Flp_recv (Some ?d)) (b, h) = map_option (\<lambda>(_, s). (?b, s)) (mnl2flphal_hdlr p os ?b h)"
    using assms(1) b(1) unfolding x by (simp add: flp_thread_recv_def Let_def bind_state)
  moreover have "mnl2flphal_hdlr p os ?b h = mnl2flphal_hdlr p os (le32 (of_nat (8 + length pl)) @ peer_message t pl @ (r @ drop (length ?d) b)) h"
    by simp
  ultimately show ?thesis
    unfolding hdlr_takes [OF l(2) assms(4)]
    by (intro exI [of _ ?b] conjI) (use b(2) in \<open>auto simp: option.map_comp o_def case_prod_unfold\<close>)
qed

text \<open>A message with one location, on both platforms.\<close>

lemma one_location:
  assumes "known_platform p" "length l = sizeof_FlpLocation p"
  shows "message_locations p (le32 t @ le32 (of_nat (sizeof_FlpLocation p)) @ l @ r) = Some [l]"
  using assms by (auto simp: message_locations_def known_platform_def mem_read_def split: if_splits)

lemma location_arrives:
  assumes "known_platform p" "\<not> no_accuracy p (hal_location p l)" "t = HSB_REPORT_LOC_NTF \<or> t = OFL_REPORT_LOC_NTF"
    "d = peer_message t (location_bytes l) @ replicate 952 0"
  shows "\<exists>m. report_case p os_fine d h = map_option (Pair 0) (mtk_flp_report_loc p m h) \<and> of_le32 m = t \<and>
    message_locations p m = Some [hal_location p l]"
proof (cases "flp_is_64 p")
  case False
  then have s: "sizeof_FlpLocation p = 64" "hal_location p l = location_bytes l"
    using assms(1) by (simp_all add: known_platform_def hal_location_def)
  have d: "d = le32 t @ le32 (of_nat (sizeof_FlpLocation p)) @ location_bytes l @ replicate 952 0"
    by (simp add: assms(4) peer_message_def s)
  have "report_case p os_fine d h = map_option (Pair 0) (mtk_flp_report_loc p d h)"
    using False assms(2,3) by (auto simp: report_case_def d s mem_read_def mtk_mnl2flp_hal_response_def flp_types)
  then show ?thesis using one_location [OF assms(1), of "location_bytes l" t "replicate 952 0"] s
    by (intro exI [of _ d]) (simp add: d)
next
  case True
  then have s: "sizeof_FlpLocation p = 72" using assms(1) by (simp add: known_platform_def)
  let ?m = "le32 t @ le32 (of_nat (sizeof_FlpLocation p)) @ hal_location p l @ []"
  have r: "mem_read d 8 128 = Some (location_bytes l @ replicate 64 0)"
    by (simp add: assms(4) mem_read_def peer_message_def)
  have "take 4 d @ le32 (of_nat (sizeof_FlpLocation p)) @ hal_location p l = ?m"
    by (simp add: assms(4) peer_message_def s)
  then have "report_case p os_fine d h = map_option (Pair 0) (mtk_flp_report_loc p ?m h)"
    using True assms(2,3) r rearranged [OF assms(1) True] by (auto simp: report_case_def mtk_mnl2flp_hal_response_def flp_types)
  then show ?thesis using one_location [OF assms(1) length_hal_location [OF assms(1), of l], of t "[]"] by (intro exI [of _ ?m]) simp
qed

section \<open>The framework gets its batch back\<close>

text \<open>The datagrams of the daemon for the HAL, and what a HAL has told the framework.\<close>

fun flp_datagrams :: "effect list \<Rightarrow> bytes list" where
    "flp_datagrams [] = []"
  | "flp_datagrams (To_flp_hal d # xs) = d # flp_datagrams xs"
  | "flp_datagrams (_ # xs) = flp_datagrams xs"

lemma flp_datagrams_append [simp]: "flp_datagrams (xs @ ys) = flp_datagrams xs @ flp_datagrams ys"
  by (induction xs rule: flp_datagrams.induct) simp_all

fun location_calls :: "flp_event list \<Rightarrow> bytes list list" where
    "location_calls [] = []"
  | "location_calls (Location_cb ls # xs) = ls # location_calls xs"
  | "location_calls (_ # xs) = location_calls xs"

lemma location_calls_append [simp]: "location_calls (xs @ ys) = location_calls xs @ location_calls ys"
  by (induction xs rule: location_calls.induct) simp_all

lemma location_calls_each [simp]: "location_calls (map (\<lambda>l. Location_cb [l]) ls) = map (\<lambda>l. [l]) ls"
  by (induction ls) simp_all

text \<open>A stimulus of the daemon, and the HAL takes what the daemon sends; a call of the framework, and the
  daemon takes what the HAL sends.\<close>

definition delivered :: "flp_platform \<Rightarrow> mnld \<Rightarrow> mnld \<Rightarrow> bytes \<times> flp_hal \<Rightarrow> (bytes \<times> flp_hal) option" where
  "delivered p s s' = flp_run p (\<lambda>_. 0) (map (\<lambda>d. (os_fine, Flp_recv (Some d))) (flp_datagrams (drop (length (out s)) (out s'))))"

definition daemon_to_hal :: "flp_platform \<Rightarrow> env \<Rightarrow> stimulus \<Rightarrow> (bytes \<times> flp_hal) \<times> mnld \<Rightarrow> ((bytes \<times> flp_hal) \<times> mnld) option" where
  "daemon_to_hal p e x = (\<lambda>(bh, s). case daemon e x s of
     Inl _ \<Rightarrow> None | Inr s' \<Rightarrow> map_option (\<lambda>bh'. (bh', s')) (delivered p s s' bh))"

definition exchange :: "flp_platform \<Rightarrow> env \<Rightarrow> flp_call \<Rightarrow> (bytes \<times> flp_hal) \<times> mnld \<Rightarrow> ((bytes \<times> flp_hal) \<times> mnld) option" where
  "exchange p e c = (\<lambda>(bh, s). case flp_step p (\<lambda>_. 0) (os_fine, c) bh of
     None \<Rightarrow> None
   | Some bh1 \<Rightarrow> (case hand_over e (drop (length (flp_log (snd bh))) (flp_log (snd bh1))) s of
       Inl _ \<Rightarrow> None | Inr s' \<Rightarrow> map_option (\<lambda>bh'. (bh', s')) (delivered p s s' bh1)))"

text \<open>A command of the HAL that comes back.\<close>

lemma mirrored:
  assumes "gModeFlag (flp_peer s) = AP_MODE" "length pl \<le> 900" "t = FLP_REQUEST_LOC_NTF \<or> t = FLP_FLUSH_LOC_NTF"
    "isflp_exist h" "length b = HAL_BUFF_SIZE"
    "flp_step p (\<lambda>_. 0) (os_fine, c) (b, h) = Some (b, flp_note (Flp_to_mnl (le32 (of_nat (8 + length pl)) @ flp_message t pl)) h)"
    "mtk_mnl2flp_hal_response p os_fine (peer_message t pl @ replicate (1016 - length pl) 0)
       (flp_note (Flp_to_mnl (le32 (of_nat (8 + length pl)) @ flp_message t pl)) h) = Some h'"
  shows "\<exists>b' s'. exchange p e c ((b, h), s) = Some ((b', h'), s') \<and> length b' = HAL_BUFF_SIZE"
proof -
  let ?h = "flp_note (Flp_to_mnl (le32 (of_nat (8 + length pl)) @ flp_message t pl)) h"
  define r where "r = le32 12 @ take 12 (peer_message t pl @ replicate 12 0)"
  have r: "length pl + length r \<le> 1012" using assms(2) by (simp add: r_def)
  let ?s = "emit (To_flp_hal (sent_back (peer_message t pl))) (set_peer FLP (\<lambda>p. p\<lparr>hdlr_cb := True\<rparr>) s)"
  have t: "t = MSG_HAL_REQUEST_LOC_NTF \<or> t = MSG_HAL_FLUSH_LOC_NTF" using assms(3) by (simp add: flp_types hal_msg_types)
  have o: "drop (length (flp_log h)) (flp_log ?h) = [Flp_to_mnl (le32 (of_nat (8 + length pl)) @ peer_message t pl)]"
    by (simp add: flp_note_def flp_message_eq)
  have d: "daemon e (From_flp_hal (Some (le32 (of_nat (8 + length pl)) @ peer_message t pl))) s = Inr ?s"
    using takes_forward [OF _ _ t, of s pl e] assms(1,2) by simp
  then have s: "hand_over e (drop (length (flp_log h)) (flp_log ?h)) s = Inr ?s" unfolding o by simp
  have g: "flp_datagrams (drop (length (out s)) (out ?s)) = [le32 (of_nat (8 + length pl)) @ peer_message t pl @ r]"
    by (simp add: emit_def sent_back_def r_def)
  have "isflp_exist ?h" using assms(4) by (simp add: flp_note_def)
  then obtain b' where "length b' = HAL_BUFF_SIZE"
    "flp_step p (\<lambda>_. 0) (os_fine, Flp_recv (Some (le32 (of_nat (8 + length pl)) @ peer_message t pl @ r))) (b, ?h) = Some (b', h')"
    using thread_takes [of ?h b pl r "peer_message t pl @ replicate (1016 - length pl) 0" t p "\<lambda>_. 0" os_fine] assms
      r by (auto simp del: flp_step.simps)
  then show ?thesis using assms(6) s g
    by (auto simp: exchange_def delivered_def simp del: flp_step.simps)
qed

lemma wf_listens_note [simp]: "flp_wf (flp_note x h) = flp_wf h"
  by (simp add: flp_wf_def flp_note_def)

lemma note_log [simp]: "flp_log (flp_note x h) = flp_log h @ [x]"
  by (simp add: flp_note_def)

text \<open>C31: The batch on request: the framework's calls for the newest \<open>n\<close> locations and for a flush become
  datagrams that the daemon, when it runs the provider on the host, sends back, and only then does the
  HAL answer them, from the batch as it is at that moment: the newest \<open>n\<close> locations, newest first, in
  one callback each, and the batch stays; or the whole batch, newest first, in one callback, unless it
  is empty, and the batch is gone.\<close>

theorem batch_returned:
  assumes "flp_reachable p h" "framework_listens h" "isflp_exist h" "length b = HAL_BUFF_SIZE"
    and "gModeFlag (flp_peer s) = AP_MODE"
  shows "(\<exists>b' h' s'. exchange p e (Flp_get n) ((b, h), s) = Some ((b', h'), s') \<and> batch h' = batch h \<and>
      location_calls (flp_log h') = location_calls (flp_log h) @ map (\<lambda>l. [l]) (take (nat (sint n)) (rev (batch h)))) \<and>
    (\<exists>b' h' s'. exchange p e Flp_flush ((b, h), s) = Some ((b', h'), s') \<and> batch h' = [] \<and>
      location_calls (flp_log h') = location_calls (flp_log h) @ (if batch h = [] then [] else [rev (batch h)]))"
proof
  note wf = reachable_wf [OF assms(1)]
  let ?g = "flp_note (Flp_to_mnl (le32 12 @ flp_message FLP_REQUEST_LOC_NTF (le32 n))) h"
  obtain h1 where h1: "mtk_flp_request_loc n ?g = Some h1" "batch h1 = batch h"
    "flp_log h1 = flp_log ?g @ map (\<lambda>l. Location_cb [l]) (take (nat (sint n)) (rev (batch h)))"
    using request_batch [of ?g n] wf assms(2) by auto
  have c: "flp_step p (\<lambda>_. 0) (os_fine, Flp_get n) (b, h) = Some (b, ?g)"
    using command_fine [of "le32 n" FLP_REQUEST_LOC_NTF h] by (simp add: flphal2mnl_get_batched_location_def)
  have "mtk_mnl2flp_hal_response p os_fine (peer_message FLP_REQUEST_LOC_NTF (le32 n) @ replicate 1012 0) ?g = Some h1"
    using h1(1) by (simp add: mtk_mnl2flp_hal_response_def mem_read_def peer_message_def flp_types)
  then show "\<exists>b' h' s'. exchange p e (Flp_get n) ((b, h), s) = Some ((b', h'), s') \<and> batch h' = batch h \<and>
      location_calls (flp_log h') = location_calls (flp_log h) @ map (\<lambda>l. [l]) (take (nat (sint n)) (rev (batch h)))"
    using mirrored [of s "le32 n" FLP_REQUEST_LOC_NTF h b p "Flp_get n" h1 e] assms(3-5) c h1(2,3)
    by (auto simp del: flp_step.simps)
  let ?f = "flp_note (Flp_to_mnl (le32 8 @ flp_message FLP_FLUSH_LOC_NTF [])) h"
  obtain h2 where h2: "mtk_flp_flush_loc ?f = Some h2" "batch h2 = []"
    "flp_log h2 = flp_log ?f @ (if batch h = [] then [] else [Location_cb (rev (batch h))])"
    using flush_batch [of ?f] wf assms(2) by auto
  have c: "flp_step p (\<lambda>_. 0) (os_fine, Flp_flush) (b, h) = Some (b, ?f)"
    by (simp add: flphal2mnl_flush_batched_locations_def flp_send2mnl_def flp_message_def)
  have "mtk_mnl2flp_hal_response p os_fine (peer_message FLP_FLUSH_LOC_NTF [] @ replicate 1016 0) ?f = Some h2"
    using h2(1) by (simp add: mtk_mnl2flp_hal_response_def peer_message_def flp_types)
  then show "\<exists>b' h' s'. exchange p e Flp_flush ((b, h), s) = Some ((b', h'), s') \<and> batch h' = [] \<and>
      location_calls (flp_log h') = location_calls (flp_log h) @ (if batch h = [] then [] else [rev (batch h)])"
    using mirrored [of s "[]" FLP_FLUSH_LOC_NTF h b p Flp_flush h2 e] assms(3-5) c h2(2,3)
    by (auto simp del: flp_step.simps)
qed

section \<open>Fixes on their way to the HAL\<close>

text \<open>The location the provider makes of a fix.\<close>

definition fix_location :: "env \<Rightarrow> bytes \<Rightarrow> flp_location" where
  "fix_location e fix = mtk_flp_gpsloc2flploc e (fix @ replicate (1012 - length fix) 0)"

text \<open>The period in seconds, when a fix is due, and the time kept after one.\<close>

definition period_secs :: "peer \<Rightarrow> int" where
  "period_secs p = period_ns p sdiv ONE_SEC_NS"

definition fix_due :: "peer \<Rightarrow> u32 \<Rightarrow> bool" where
  "fix_due p later \<longleftrightarrow> update_last_time p = 0 \<or>
     period_secs p \<le> uint later - (if update_last_time p > uint later then 0 else update_last_time p)"

definition time_kept :: "peer \<Rightarrow> u32 \<Rightarrow> int" where
  "time_kept p later = (if fix_due p later then uint later else if update_last_time p > uint later then 0 else update_last_time p)"

definition available_now :: "peer \<Rightarrow> u32 \<Rightarrow> int" where
  "available_now p now = (if batch_mode p = - 1 then loc_available p
     else if uint now - update_last_time p > period_secs p + 1 then 1 else 0)"

definition status_reports :: "peer \<Rightarrow> u32 \<Rightarrow> bytes list" where
  "status_reports p now = (if available_now p now = loc_available p then []
     else [le32 12 @ peer_message MSG_HAL_REPORT_STATUS_NTF (le32 (word_of_int (available_now p now)))])"

definition location_reports :: "env \<Rightarrow> bytes \<Rightarrow> peer \<Rightarrow> u32 \<Rightarrow> bytes list" where
  "location_reports e fix p later =
     (if \<not> acc_no_fix e (floc_accuracy (fix_location e fix)) \<and> fix_due p later \<and> batch_mode p > - 1
      then [le32 72 @ peer_message MSG_HSB_REPORT_LOC_NTF (location_bytes (fix_location e fix))] else [])"

definition provider_after :: "env \<Rightarrow> bytes \<Rightarrow> u32 \<Rightarrow> u32 \<Rightarrow> peer \<Rightarrow> peer" where
  "provider_after e fix now later p = p\<lparr>loc_available := available_now p now,
     update_last_time := (if acc_no_fix e (floc_accuracy (fix_location e fix)) then update_last_time p else time_kept p later)\<rparr>"

lemma check_status:
  "mtk_flp_controller_check_loc_available_expired now s =
     Inr (s\<lparr>flp_peer := (flp_peer s)\<lparr>loc_available := available_now (flp_peer s) now\<rparr>,
       out := out s @ map To_flp_hal (status_reports (flp_peer s) now)\<rparr>)"
  by (simp add: mtk_flp_controller_check_loc_available_expired_def Let_def send_message_eq emit_def
      available_now_def status_reports_def period_secs_def del: controls_fields controls_set)

lemma report_loc_eq:
  assumes "penabled (flp_peer s)" "l = fix_location e fix"
  shows "mtk_flp_controller_report_loc e l now later s =
     Inr (if \<not> acc_no_fix e (floc_accuracy l) \<and> fix_due (flp_peer s) later then 0 else - 1,
       s\<lparr>flp_peer := provider_after e fix now later (flp_peer s),
         out := out s @ map To_flp_hal (status_reports (flp_peer s) now)\<rparr>)"
proof -
  define p a where "p = flp_peer s" and "a = available_now p now"
  define t where "t = s\<lparr>flp_peer := p\<lparr>loc_available := a\<rparr>, out := out s @ map To_flp_hal (status_reports p now)\<rparr>"
  have c: "mtk_flp_controller_check_loc_available_expired now s = Inr t"
    by (simp add: check_status t_def p_def a_def del: controls_fields controls_set)
  have u: "flp_peer t = p\<lparr>loc_available := a\<rparr>" by (simp add: t_def del: controls_fields controls_set)
  have w: "s\<lparr>flp_peer := q, out := out s @ map To_flp_hal (status_reports p now)\<rparr> = t\<lparr>flp_peer := q\<rparr>" for q
    by (simp add: t_def del: controls_fields controls_set)
  have r: "t\<lparr>flp_peer := p\<lparr>loc_available := a\<rparr>\<rparr> = t" using u by (metis mnld.surjective mnld.update_convs(6))
  note defs = mtk_flp_controller_report_loc_def c Let_def provider_after_def fix_due_def time_kept_def period_secs_def u
    a_def [symmetric] w r
  have p: "p\<lparr>loc_available := a, update_last_time := update_last_time p\<rparr> = p\<lparr>loc_available := a\<rparr>" by simp
  consider "acc_no_fix e (floc_accuracy l)" | "\<not> acc_no_fix e (floc_accuracy l)" "update_last_time p = 0"
    | "\<not> acc_no_fix e (floc_accuracy l)" "update_last_time p \<noteq> 0" "update_last_time p > uint later"
    | "\<not> acc_no_fix e (floc_accuracy l)" "update_last_time p \<noteq> 0" "\<not> update_last_time p > uint later" by blast
  then show ?thesis
    unfolding p_def [symmetric]
    by cases (simp_all add: defs p assms del: controls_fields controls_set)
qed

lemma provider_after_fields [simp]:
  "batch_mode (provider_after e fix now later p) = batch_mode p" "penabled (provider_after e fix now later p) = penabled p"
  "period_ns (provider_after e fix now later p) = period_ns p"
  by (simp_all add: provider_after_def)

lemma on_fix:
  assumes "penabled (flp_peer s)"
  shows "on_hbd_gps_location_flp e (fix @ replicate (1012 - length fix) 0) now later s =
    Inr (s\<lparr>flp_peer := provider_after e fix now later (flp_peer s),
      out := out s @ map To_flp_hal (status_reports (flp_peer s) now @ location_reports e fix (flp_peer s) later)\<rparr>)"
proof -
  define p l where "p = flp_peer s" and "l = fix_location e fix"
  define t where "t = s\<lparr>flp_peer := provider_after e fix now later p, out := out s @ map To_flp_hal (status_reports p now)\<rparr>"
  have r: "mtk_flp_controller_report_loc e l now later s =
      Inr (if \<not> acc_no_fix e (floc_accuracy l) \<and> fix_due p later then 0 else - 1, t)"
    using report_loc_eq [OF assms, of l e "fix" now later] by (simp add: t_def p_def l_def)
  have b: "batch_mode (peer_of FLP t) = batch_mode p"
    by (simp add: t_def del: controls_fields controls_set)
  have s: "send_message FLP (peer_message MSG_HSB_REPORT_LOC_NTF (location_bytes l)) t =
      Inr (emit (To_flp_hal (le32 72 @ peer_message MSG_HSB_REPORT_LOC_NTF (location_bytes l))) t)"
    by (simp add: send_message_eq)
  have "on_hbd_gps_location_flp e (fix @ replicate (1012 - length fix) 0) now later s =
      (if \<not> acc_no_fix e (floc_accuracy l) \<and> fix_due p later \<and> batch_mode p > - 1
       then Inr (emit (To_flp_hal (le32 72 @ peer_message MSG_HSB_REPORT_LOC_NTF (location_bytes l))) t) else Inr t)"
    unfolding on_hbd_gps_location_flp_def fix_location_def [symmetric] l_def [symmetric] Let_def r
    by (simp add: b s del: peer_of.simps)
  then show ?thesis
    unfolding location_reports_def l_def [symmetric] p_def [symmetric] by (simp add: t_def emit_def)
qed

lemma flp_datagrams_map [simp]: "flp_datagrams (map To_flp_hal ds) = ds"
  by (induction ds) simp_all

lemma geofence_fix:
  "\<exists>xs. out (on_hbd_gps_location_gfc e b s) = out s @ xs \<and> flp_datagrams xs = []"
  "flp_peer (on_hbd_gps_location_gfc e b s) = flp_peer s" "cfg (on_hbd_gps_location_gfc e b s) = cfg s"
  "used c (on_hbd_gps_location_gfc e b s) = used c s"
proof -
  have e: "on_hbd_gps_location_gfc e b s =
      (if running_source (peer_of GFC s) = 0 \<or> \<not> penabled (peer_of GFC s) then s
       else if acc_no_fix e (floc_accuracy (mtk_loc_check e b)) then emit Gfc_expire s
       else emit (Gfc_set_location (mtk_loc_check e b)) (emit Gfc_expire s))"
    by (simp add: on_hbd_gps_location_gfc_def Let_def)
  show "\<exists>xs. out (on_hbd_gps_location_gfc e b s) = out s @ xs \<and> flp_datagrams xs = []"
    unfolding e emit_def by simp
  show "flp_peer (on_hbd_gps_location_gfc e b s) = flp_peer s" "cfg (on_hbd_gps_location_gfc e b s) = cfg s"
    "used c (on_hbd_gps_location_gfc e b s) = used c s"
    unfolding e emit_def by simp_all
qed

text \<open>A fix in the daemon: what the HAL gets of it, and the provider afterwards.\<close>

lemma fix_ready:
  assumes "\<not> OFFLOAD_enabled (cfg s)" "used Flp s" "penabled (flp_peer s)" "length fix \<le> 600" "length g \<le> 600"
  shows "\<exists>s' xs. daemon e (Fix_ready fix g now later) s = Inr s' \<and> flp_peer s' = provider_after e fix now later (flp_peer s) \<and>
    out s' = out s @ xs \<and> flp_datagrams xs = status_reports (flp_peer s) now @ location_reports e fix (flp_peer s) later \<and>
    cfg s' = cfg s \<and> (\<forall>c. used c s' = used c s)"
proof -
  let ?ds = "status_reports (flp_peer s) now @ location_reports e fix (flp_peer s) later"
  define t where "t = s\<lparr>flp_peer := provider_after e fix now later (flp_peer s), out := out s @ map To_flp_hal ?ds\<rparr>"
  have o: "mnld_offload_is_auto_mode s = False" "mnld_offload_is_always_on_mode s = False"
    using assms(1) by (simp_all add: cfg_preds)
  have f: "is_flp_user_exist s" using assms(2) by (simp add: is_flp_user_exist_def)
  have h: "on_hbd_gps_location_flp e (fix @ replicate (1012 - length fix) 0) now later s = Inr t"
    using on_fix [OF assms(3)] by (simp only: t_def)
  have t: "flp_peer t = provider_after e fix now later (flp_peer s)" "out t = out s @ map To_flp_hal ?ds" "cfg t = cfg s"
    "used c t = used c s" for c
    by (simp_all add: t_def del: controls_fields controls_set)
  have k: "mnld_offload_is_auto_mode t = False" "mnld_offload_is_always_on_mode t = False"
    using assms(1) t(3) by (simp_all add: cfg_preds)
  let ?g = "on_hbd_gps_location_gfc e (g @ replicate (1012 - length g) 0) t"
  have d: "daemon e (Fix_ready fix g now later) s = Inr (if is_geofence_user_exist t then ?g else t)"
    using o k f assms(4,5) h by (simp add: hand_out_fix_def)
  obtain xs where xs: "out ?g = out t @ xs" "flp_datagrams xs = []" using geofence_fix(1) by blast
  have "flp_datagrams (map To_flp_hal ?ds @ xs) = ?ds" using xs(2) by simp
  then show ?thesis
    using d t geofence_fix(2-4) [of e "g @ replicate (1012 - length g) 0" t] xs(1)
    by (cases "is_geofence_user_exist t")
      (auto simp del: controls_fields controls_set daemon.simps)
qed

section \<open>Fixes in the batch\<close>

text \<open>A status report leaves the batch alone.\<close>

lemma status_taken:
  assumes "flp_wf h" "mtkFlpCallbacks h = Some c" "has_status c" "isflp_exist h" "length b = HAL_BUFF_SIZE"
  shows "\<exists>b' h'. flp_step p atof (os, Flp_recv (Some (le32 12 @ peer_message MSG_HAL_REPORT_STATUS_NTF (le32 v)))) (b, h) = Some (b', h') \<and>
    length b' = HAL_BUFF_SIZE \<and> same_data h h' \<and> location_calls (flp_log h') = location_calls (flp_log h) \<and>
    isflp_exist h' \<and> mtkFlpCallbacks h' = Some c"
proof -
  define h' where "h' = (if FlpLastStatus h = v then h else (flp_note (Status_cb v) h)\<lparr>FlpLastStatus := v\<rparr>)"
  have h': "mtk_flp_report_status v h = Some h'" "same_data h h'"
    "location_calls (flp_log h') = location_calls (flp_log h)" "isflp_exist h'" "mtkFlpCallbacks h' = Some c"
    using assms(2-4) by (simp_all add: h'_def mtk_flp_report_status_def same_data_def flp_note_def)
  obtain b' where "length b' = HAL_BUFF_SIZE"
    "flp_step p atof (os, Flp_recv (Some (le32 12 @ peer_message MSG_HAL_REPORT_STATUS_NTF (le32 v)))) (b, h) = Some (b', h')"
    using thread_takes [OF assms(4,5), of "le32 v" "[]" _ MSG_HAL_REPORT_STATUS_NTF p atof os] h'(1)
    by (auto simp: flp_types hal_msg_types mtk_mnl2flp_hal_response_def mem_read_def peer_message_def simp del: flp_step.simps)
  then show ?thesis using h' by blast
qed

lemma location_taken:
  assumes "flp_wf h" "framework_listens h" "isflp_exist h" "length b = HAL_BUFF_SIZE"
    "known_platform p" "\<not> no_accuracy p (hal_location p l)"
    "t = HSB_REPORT_LOC_NTF \<or> t = OFL_REPORT_LOC_NTF"
  shows "\<exists>b' m. length b' = HAL_BUFF_SIZE \<and> of_le32 m = t \<and> message_locations p m = Some [hal_location p l] \<and>
    flp_step p atof (os_fine, Flp_recv (Some (le32 72 @ peer_message t (location_bytes l)))) (b, h) =
      map_option (Pair b') (mtk_flp_report_loc p m h)"
proof -
  obtain m where m: "report_case p os_fine (peer_message t (location_bytes l) @ replicate 952 0) h = map_option (Pair 0) (mtk_flp_report_loc p m h)"
    "of_le32 m = t" "message_locations p m = Some [hal_location p l]"
    using location_arrives [OF assms(5-7) refl] by blast
  obtain b' where "length b' = HAL_BUFF_SIZE"
    "flp_step p atof (os_fine, Flp_recv (Some (le32 72 @ peer_message t (location_bytes l)))) (b, h) =
      map_option (Pair b') (mtk_flp_report_loc p m h)"
    using thread_takes [OF assms(3,4), of "location_bytes l" "[]" _ t p atof os_fine] assms(7) m(1)
    by (auto simp: flp_types option.map_comp o_def simp del: flp_step.simps)
  then show ?thesis using m by blast
qed

lemma host_report_type: "MSG_HSB_REPORT_LOC_NTF = HSB_REPORT_LOC_NTF" and offload_report_type: "MSG_OFL_REPORT_LOC_NTF = OFL_REPORT_LOC_NTF"
  by (simp_all add: flp_types hal_msg_types)

text \<open>The status reports of one fix, taken by the HAL.\<close>

lemma statuses_taken:
  assumes "flp_wf h" "mtkFlpCallbacks h = Some c" "has_status c" "isflp_exist h" "length b = HAL_BUFF_SIZE"
  shows "\<exists>b' h'. flp_run p atof (map (\<lambda>d. (os, Flp_recv (Some d))) (status_reports q now)) (b, h) = Some (b', h') \<and>
    length b' = HAL_BUFF_SIZE \<and> same_data h h' \<and> location_calls (flp_log h') = location_calls (flp_log h) \<and>
    isflp_exist h' \<and> mtkFlpCallbacks h' = Some c"
  using status_taken [OF assms, of p atof os "word_of_int (available_now q now)"] assms
  by (auto simp: status_reports_def simp del: flp_step.simps)

lemma flp_run_append: "flp_run p atof (xs @ ys) x = flp_run p atof xs x \<bind> flp_run p atof ys"
  by (induction xs arbitrary: x) (auto split: bind_splits)

text \<open>C29: A fix in the batch: when the receiver has a fix for the provider, the daemon sends the HAL the fix as
  a location with the accuracy converted, provided that it is a fix and due by the period asked for; and
  the HAL, on either platform, puts it into its batch as the newest location, or, when thirty have come
  together and the instance started last wants to be woken, hands all of them to the framework, newest
  first. Otherwise batch and framework do not notice. The change of the availability that may go ahead
  of it does not disturb.\<close>

theorem fix_reaches_batch:
  assumes "flp_reachable p h" "mtkFlpCallbacks h = Some c" "has_location c" "has_status c" "isflp_exist h" "length b = HAL_BUFF_SIZE"
    and "known_platform p" "\<not> no_accuracy p (hal_location p (fix_location e fix))"
    and "\<not> OFFLOAD_enabled (cfg s)" "used Flp s" "penabled (flp_peer s)" "batch_mode (flp_peer s) > - 1"
    and "length fix \<le> 600" "length g \<le> 600"
  shows "\<exists>b' h' s'. daemon_to_hal p e (Fix_ready fix g now later) ((b, h), s) = Some ((b', h'), s') \<and>
    (if \<not> acc_no_fix e (floc_accuracy (fix_location e fix)) \<and> fix_due (flp_peer s) later then
       let q = last_n 30 (batch h @ [hal_location p (fix_location e fix)]) in
       if length q = 30 \<and> batch_flags (inf_gFusedOptions h) = BATCH_WAKE_ON_FIFO_FULL
       then batch h' = [] \<and> location_calls (flp_log h') = location_calls (flp_log h) @ [rev q]
       else batch h' = q \<and> location_calls (flp_log h') = location_calls (flp_log h)
     else batch h' = batch h \<and> location_calls (flp_log h') = location_calls (flp_log h))"
proof -
  let ?l = "fix_location e fix" and ?q = "flp_peer s"
  note wf = reachable_wf [OF assms(1)]
  obtain s' xs where s': "daemon e (Fix_ready fix g now later) s = Inr s'" "out s' = out s @ xs"
    "flp_datagrams xs = status_reports ?q now @ location_reports e fix ?q later"
    using fix_ready [OF assms(9-11,13,14)] by blast
  obtain b1 h1 where h1: "flp_run p (\<lambda>_. 0) (map (\<lambda>d. (os_fine, Flp_recv (Some d))) (status_reports ?q now)) (b, h) = Some (b1, h1)"
    "length b1 = HAL_BUFF_SIZE" "same_data h h1" "location_calls (flp_log h1) = location_calls (flp_log h)"
    "isflp_exist h1" "mtkFlpCallbacks h1 = Some c"
    using statuses_taken [OF wf assms(2,4-6)] by blast
  have b: "batch h1 = batch h" "inf_gFusedOptions h1 = inf_gFusedOptions h" "flp_wf h1" "framework_listens h1"
    using batch_same [OF h1(3)] same_data_wf [OF h1(3)] wf h1(3,6) assms(2,3) by (simp_all add: framework_listens_def same_data_def)
  have d: "daemon_to_hal p e (Fix_ready fix g now later) ((b, h), s) =
      map_option (\<lambda>x. (x, s')) (flp_run p (\<lambda>_. 0) (map (\<lambda>d. (os_fine, Flp_recv (Some d))) (location_reports e fix ?q later)) (b1, h1))"
    using s' h1(1) by (simp add: daemon_to_hal_def delivered_def flp_run_append del: daemon.simps)
  show ?thesis
  proof (cases "\<not> acc_no_fix e (floc_accuracy ?l) \<and> fix_due ?q later")
    case False
    then have "location_reports e fix ?q later = []" by (auto simp: location_reports_def)
    then have "daemon_to_hal p e (Fix_ready fix g now later) ((b, h), s) = Some ((b1, h1), s')" unfolding d by simp
    then show ?thesis unfolding if_not_P [OF False] using h1(4) b(1) by blast
  next
    case True
    obtain b' m where m: "of_le32 m = MSG_HSB_REPORT_LOC_NTF" "message_locations p m = Some [hal_location p ?l]"
      "flp_step p (\<lambda>_. 0) (os_fine, Flp_recv (Some (le32 72 @ peer_message MSG_HSB_REPORT_LOC_NTF (location_bytes ?l)))) (b1, h1) =
        map_option (Pair b') (mtk_flp_report_loc p m h1)"
      using location_taken [OF b(3,4) h1(5,2) assms(7,8) disjI1 [OF host_report_type]] by blast
    obtain h' where h': "mtk_flp_report_loc p m h1 = Some h'"
      "let q = last_n 30 (batch h @ [hal_location p ?l]) in
       if length q = 30 \<and> batch_flags (inf_gFusedOptions h) = BATCH_WAKE_ON_FIFO_FULL
       then batch h' = [] \<and> flp_log h' = flp_log h1 @ [Location_cb (rev q)] else batch h' = q \<and> flp_log h' = flp_log h1"
      using report_batch(2) [OF b(3,4) m(2,1) host_report_type] unfolding b Let_def by blast
    have "daemon_to_hal p e (Fix_ready fix g now later) ((b, h), s) = Some ((b', h'), s')"
    proof -
      have "location_reports e fix ?q later = [le32 72 @ peer_message MSG_HSB_REPORT_LOC_NTF (location_bytes ?l)]"
        using True assms(12) by (simp add: location_reports_def)
      then show ?thesis unfolding d using m(3) h'(1) by (simp del: flp_step.simps)
    qed
    moreover have "let q = last_n 30 (batch h @ [hal_location p ?l]) in
       if length q = 30 \<and> batch_flags (inf_gFusedOptions h) = BATCH_WAKE_ON_FIFO_FULL
       then batch h' = [] \<and> location_calls (flp_log h') = location_calls (flp_log h) @ [rev q]
       else batch h' = q \<and> location_calls (flp_log h') = location_calls (flp_log h)"
      using h'(2) h1(4) by (simp add: Let_def split: if_splits)
    ultimately show ?thesis unfolding if_P [OF True] by blast
  qed
qed

section \<open>How fixes are thinned out\<close>

text \<open>The times (the second reading of the clock) of the fixes of a run that the daemon sends to the HAL.\<close>

definition sends_location :: "effect list \<Rightarrow> bool" where
  "sends_location es \<longleftrightarrow> (\<exists>d\<in>set (flp_datagrams es). cmd_type (drop 4 d) = MSG_HSB_REPORT_LOC_NTF)"

record receiver_fix =
  for_provider :: bytes
  for_geofence :: bytes
  first_tick :: u32
  second_tick :: u32

fun reports_at :: "env \<Rightarrow> receiver_fix list \<Rightarrow> mnld \<Rightarrow> int list" where
    "reports_at e [] s = []"
  | "reports_at e (x # xs) s =
       (case daemon e (Fix_ready (for_provider x) (for_geofence x) (first_tick x) (second_tick x)) s of
          Inl _ \<Rightarrow> []
        | Inr s' \<Rightarrow> (if sends_location (drop (length (out s)) (out s')) then [uint (second_tick x)] else []) @ reports_at e xs s')"

text \<open>The same over times alone, and what it guarantees.\<close>

fun thinned :: "int \<Rightarrow> int \<Rightarrow> (bool \<times> int) list \<Rightarrow> int list" where
    "thinned per prev [] = []"
  | "thinned per prev ((ok, t) # xs) =
       (if ok \<and> (prev = 0 \<or> prev + per \<le> t) then t # thinned per t xs else thinned per prev xs)"

lemma thinned_spaced:
  "sorted (map snd xs) \<Longrightarrow> \<forall>x\<in>set xs. 0 < snd x \<Longrightarrow>
     successively (\<lambda>t u. t + per \<le> u) (thinned per prev xs) \<and>
     (prev \<noteq> 0 \<longrightarrow> thinned per prev xs \<noteq> [] \<longrightarrow> prev + per \<le> hd (thinned per prev xs))"
proof (induction xs arbitrary: prev)
  case (Cons x xs)
  obtain ok t where x: "x = (ok, t)" by force
  have "t \<noteq> 0" using Cons.prems(2) x by simp
  then show ?case using Cons.IH [of t] Cons.IH [of prev] Cons.prems by (auto simp: x successively_Cons)
qed simp

lemma thinned_close:
  "sorted (map snd xs) \<Longrightarrow> \<forall>x\<in>set xs. 0 < snd x \<and> prev \<le> snd x \<Longrightarrow> (True, u) \<in> set xs \<Longrightarrow>
     (\<exists>t\<in>set (thinned per prev xs). t \<le> u \<and> u < t + max 1 per) \<or> (prev \<noteq> 0 \<and> u < prev + per)"
proof (induction xs arbitrary: prev)
  case (Cons x xs)
  obtain ok t where x: "x = (ok, t)" by force
  consider "u = t" "ok" | "(True, u) \<in> set xs" using Cons.prems(3) x by auto
  then show ?case
  proof cases
    case 2
    show ?thesis
    proof (cases "ok \<and> (prev = 0 \<or> prev + per \<le> t)")
      case True
      have "t \<le> u" using 2 Cons.prems(1) x by auto
      then show ?thesis using Cons.IH [of t] 2 True Cons.prems x by auto
    qed (use Cons.IH [of prev] 2 Cons.prems x in auto)
  qed (auto simp: x)
qed simp

text \<open>The daemon's times are these.\<close>

definition fix_ok :: "env \<Rightarrow> receiver_fix \<Rightarrow> bool" where
  "fix_ok e x \<longleftrightarrow> \<not> acc_no_fix e (floc_accuracy (fix_location e (for_provider x)))"

definition tick_of :: "receiver_fix \<Rightarrow> int" where
  "tick_of x = uint (second_tick x)"

definition provider_runs :: "mnld \<Rightarrow> bool" where
  "provider_runs s \<longleftrightarrow> \<not> OFFLOAD_enabled (cfg s) \<and> used Flp s \<and> penabled (flp_peer s) \<and> batch_mode (flp_peer s) > - 1"

lemma sends_location_fix:
  assumes "flp_datagrams es = status_reports q now @ location_reports e fix q later"
  shows "sends_location es \<longleftrightarrow> location_reports e fix q later \<noteq> []"
  unfolding sends_location_def assms by (auto simp: status_reports_def location_reports_def hal_msg_types)

lemma reports_thinned:
  assumes "provider_runs s" "sorted (map tick_of xs)"
    "\<forall>x\<in>set xs. 0 < tick_of x \<and> update_last_time (flp_peer s) \<le> tick_of x \<and> length (for_provider x) \<le> 600 \<and> length (for_geofence x) \<le> 600"
  shows "reports_at e xs s =
    thinned (period_secs (flp_peer s)) (update_last_time (flp_peer s)) (map (\<lambda>x. (fix_ok e x, tick_of x)) xs)"
  using assms
proof (induction xs arbitrary: s)
  case (Cons x xs)
  let ?q = "flp_peer s"
  obtain s' es where s': "daemon e (Fix_ready (for_provider x) (for_geofence x) (first_tick x) (second_tick x)) s = Inr s'"
    "flp_peer s' = provider_after e (for_provider x) (first_tick x) (second_tick x) ?q" "out s' = out s @ es"
    "flp_datagrams es = status_reports ?q (first_tick x) @ location_reports e (for_provider x) ?q (second_tick x)"
    "cfg s' = cfg s" "used Flp s' = used Flp s"
    using fix_ready [of s "for_provider x" "for_geofence x" e "first_tick x" "second_tick x"] Cons.prems(1,3)
    unfolding provider_runs_def by auto
  have t: "\<not> update_last_time ?q > uint (second_tick x)" using Cons.prems(3) by (simp add: tick_of_def)
  have d: "sends_location es \<longleftrightarrow> fix_ok e x \<and> fix_due ?q (second_tick x)"
    unfolding sends_location_fix [OF s'(4)] using Cons.prems(1)
    by (auto simp: location_reports_def fix_ok_def provider_runs_def)
  have due: "fix_due ?q (second_tick x) \<longleftrightarrow> update_last_time ?q = 0 \<or> update_last_time ?q + period_secs ?q \<le> tick_of x"
    using t by (auto simp: fix_due_def tick_of_def)
  have p: "period_secs (flp_peer s') = period_secs ?q" by (simp add: s'(2) period_secs_def del: controls_fields)
  have u: "update_last_time (flp_peer s') = (if sends_location es then tick_of x else update_last_time ?q)"
    using t unfolding d s'(2) by (simp add: provider_after_def time_kept_def fix_ok_def tick_of_def del: controls_fields)
  have "provider_runs s'" using Cons.prems(1) by (simp add: provider_runs_def s'(2,5,6) del: controls_fields)
  then have "reports_at e xs s' = thinned (period_secs ?q) (update_last_time (flp_peer s')) (map (\<lambda>x. (fix_ok e x, tick_of x)) xs)"
    using Cons.IH [of s'] Cons.prems(2,3) unfolding p u by auto
  moreover have "reports_at e (x # xs) s = (if sends_location es then [tick_of x] else []) @ reports_at e xs s'"
    by (simp add: s'(1,3) tick_of_def del: daemon.simps)
  ultimately show ?case using d due u by (auto simp del: reports_at.simps controls_fields)
qed simp

text \<open>C30: Fixes thinned out to the period: once the provider has been started, and as long as it runs and the
  clock does not go back, any two fixes that the daemon sends to the HAL are at least the period (in whole
  seconds) apart, and no fix is suppressed for longer: each one that is a fix comes less than a period, or
  less than a second, after one that was sent, the first of them being sent at once.\<close>

theorem fixes_thinned:
  assumes "provider_runs s" "update_last_time (flp_peer s) = 0" "sorted (map tick_of xs)"
    "\<forall>x\<in>set xs. 0 < tick_of x \<and> length (for_provider x) \<le> 600 \<and> length (for_geofence x) \<le> 600"
  shows "successively (\<lambda>t u. t + period_ns (flp_peer s) sdiv 1000000000 \<le> u) (reports_at e xs s) \<and>
    (\<forall>x\<in>set xs. fix_ok e x \<longrightarrow>
      (\<exists>t\<in>set (reports_at e xs s). t \<le> tick_of x \<and> tick_of x < t + max 1 (period_ns (flp_peer s) sdiv 1000000000)))"
proof -
  let ?xs = "map (\<lambda>x. (fix_ok e x, tick_of x)) xs" and ?per = "period_secs (flp_peer s)"
  have p: "?per = period_ns (flp_peer s) sdiv 1000000000" by (simp add: period_secs_def ONE_SEC_NS_def del: controls_fields)
  have r: "reports_at e xs s = thinned ?per 0 ?xs"
    using reports_thinned [OF assms(1,3)] assms(2,4) by (auto simp: less_imp_le)
  have m: "map snd ?xs = map tick_of xs" by simp
  have "\<exists>t\<in>set (thinned ?per 0 ?xs). t \<le> tick_of x \<and> tick_of x < t + max 1 ?per" if "x \<in> set xs" "fix_ok e x" for x
    using thinned_close [of ?xs 0 "tick_of x" ?per] that assms(3,4) unfolding m by force
  moreover have "successively (\<lambda>t u. t + ?per \<le> u) (thinned ?per 0 ?xs)"
    using thinned_spaced [of ?xs ?per 0] assms(3,4) unfolding m by auto
  ultimately show ?thesis unfolding r p by blast
qed

text \<open>A daemon that runs the provider with a period of two seconds, in an environment with a simple
  arithmetic of accuracies, and a HAL that has been initialised.\<close>

definition plain_env :: env where
  "plain_env = env_default\<lparr>acc_95 := id, acc_no_fix := (\<lambda>a. a = 0)\<rparr>"

definition started_daemon :: mnld where
  "started_daemon = (case daemon plain_env (From_flp_hal (Some (le32 32 @ flp_message FLP_START_CMD
     (options_bytes (one_source\<lparr>batch_period_ns := 2000000000\<rparr>))))) (boot ''0x6739'') of Inr s \<Rightarrow> s)"

definition some_fix :: "u32 \<Rightarrow> receiver_fix" where
  "some_fix t = \<lparr>for_provider = replicate 40 1 @ le32 9 @ replicate 12 1, for_geofence = [], first_tick = t, second_tick = t\<rparr>"

lemma started_daemon_facts:
  "provider_runs started_daemon" "update_last_time (flp_peer started_daemon) = 0"
  "period_ns (flp_peer started_daemon) = 2000000000"
proof -
  let ?x = "one_source\<lparr>batch_period_ns := 2000000000\<rparr>"
  obtain s where "daemon plain_env (From_flp_hal (Some (le32 32 @ flp_message FLP_START_CMD (options_bytes ?x)))) (boot ''0x6739'') = Inr s"
    and s: "linked s" "has_options ?x (controls s)" "period_ns (controls s) = sint (batch_period_ns ?x)"
      "running_source (controls (boot ''0x6739'')) = 0 \<and> sources_to_use ?x \<noteq> 0 \<longrightarrow> update_last_time (controls s) = 0"
    using takes_start [OF linked_boot(1)] by blast
  then have d: "started_daemon = s" by (simp add: started_daemon_def)
  have r: "running_source (controls (boot ''0x6739'')) = 0" using linked_boot(2) by (simp add: idle_provider_def)
  show "provider_runs started_daemon" "update_last_time (flp_peer started_daemon) = 0"
    "period_ns (flp_peer started_daemon) = 2000000000"
    using s r unfolding d by (auto simp: provider_runs_def linked_def on_host_def has_options_def one_source_def)
qed

lemma fixes_thinned_witness:
  "successively (\<lambda>t u. t + 2 \<le> u) (reports_at plain_env (map some_fix [10, 11, 12, 15, 16]) started_daemon) \<and>
   reports_at plain_env (map some_fix [10, 11, 12, 15, 16]) started_daemon = [10, 12, 15]"
proof
  have "successively (\<lambda>t u. t + period_ns (flp_peer started_daemon) sdiv 1000000000 \<le> u)
      (reports_at plain_env (map some_fix [10, 11, 12, 15, 16]) started_daemon)"
    using fixes_thinned [OF started_daemon_facts(1,2), of "map some_fix [10, 11, 12, 15, 16]" plain_env]
    by (simp add: some_fix_def tick_of_def del: reports_at.simps)
  then show "successively (\<lambda>t u. t + 2 \<le> u) (reports_at plain_env (map some_fix [10, 11, 12, 15, 16]) started_daemon)"
    unfolding started_daemon_facts(3) by (simp add: signed_divide_int_def del: reports_at.simps)
  have "reports_at plain_env (map some_fix [10, 11, 12, 15, 16]) started_daemon =
      thinned (2000000000 sdiv ONE_SEC_NS) 0 (map (\<lambda>x. (fix_ok plain_env x, tick_of x)) (map some_fix [10, 11, 12, 15, 16]))"
    using reports_thinned [OF started_daemon_facts(1), of "map some_fix [10, 11, 12, 15, 16]" plain_env] started_daemon_facts(2,3)
    by (simp add: some_fix_def tick_of_def period_secs_def del: reports_at.simps)
  also have "\<dots> = [10, 12, 15]" by code_simp
  finally show "reports_at plain_env (map some_fix [10, 11, 12, 15, 16]) started_daemon = [10, 12, 15]" .
qed

text \<open>A HAL that has been initialised and has got one location.\<close>

lemma report_loc_keeps:
  "mtk_flp_report_loc p m s = Some s' \<Longrightarrow> mtkFlpCallbacks s' = mtkFlpCallbacks s \<and> isflp_exist s' = isflp_exist s \<and>
     inf_gFusedOptions s' = inf_gFusedOptions s"
  by (auto simp: mtk_flp_report_loc_def report_all_def location_cb_def flp_note_def on_ring_def Let_def bind_eq_Some_conv
      split: if_splits option.splits)

definition platform_of_daemon :: flp_platform where
  "platform_of_daemon = \<lparr>flp_is_64 = False, sizeof_FlpLocation = 64, no_accuracy = (\<lambda>l. take 4 (drop 40 l) = [0, 0, 0, 0])\<rparr>"

definition some_location :: flp_location where
  "some_location = fix_location plain_env (for_provider (some_fix 10))"

definition init_datagram :: bytes where
  "init_datagram = le32 72 @ peer_message MSG_HSB_REPORT_LOC_NTF (location_bytes some_location)"

definition hal_with_one :: "bytes \<times> flp_hal" where
  "hal_with_one = the (flp_run platform_of_daemon (\<lambda>_. 0)
     (map (Pair os_fine) [Flp_init (Some listener), Flp_recv (Some init_datagram)]) (replicate HAL_BUFF_SIZE 0, flp_boot))"

lemma some_location_facts:
  "known_platform platform_of_daemon" "\<not> no_accuracy platform_of_daemon (hal_location platform_of_daemon some_location)"
  "\<not> acc_no_fix plain_env (floc_accuracy some_location)"
  unfolding known_platform_def by code_simp+

lemma thread_starts:
  "\<exists>b. flp_thread_start os_fine h = Some (b, flp_note (Flp_to_mnl (le32 8 @ le32 HAL_INIT_CMD @ le32 0)) h) \<and> length b = HAL_BUFF_SIZE"
proof -
  let ?m = "le32 HAL_INIT_CMD @ le32 0"
  have "put_binary ?m 8 (cursor [] (replicate 1024 0)) = Some (cursor ([] @ le32 8 @ ?m) (replicate 1012 0))"
    unfolding put_binary_cursor by simp
  moreover have "sent (cursor ([] @ le32 8 @ ?m) (replicate 1012 0)) = le32 8 @ ?m"
    by (simp add: sent_def cursor_def)
  moreover have "new_buff HAL_BUFF_SIZE = cursor [] (replicate 1024 0)" by (simp add: new_buff_def cursor_def HAL_BUFF_SIZE_def)
  ultimately show ?thesis
    by (simp add: flp_thread_start_def flp_send2mnl_def cursor_def HAL_BUFF_SIZE_def)
qed

lemma hal_with_one_facts:
  "flp_reachable platform_of_daemon (snd hal_with_one)" "length (fst hal_with_one) = HAL_BUFF_SIZE"
  "batch (snd hal_with_one) = [location_bytes some_location]" "mtkFlpCallbacks (snd hal_with_one) = Some listener"
  "isflp_exist (snd hal_with_one)" "location_calls (flp_log (snd hal_with_one)) = []"
  "batch_flags (inf_gFusedOptions (snd hal_with_one)) = 0"
proof -
  let ?p = platform_of_daemon and ?run = "flp_run platform_of_daemon (\<lambda>_. 0)"
  define h0 where "h0 = snd (mtk_flp_init (Some listener) (flp_note (Flp_to_mnl (le32 8 @ le32 HAL_INIT_CMD @ le32 0)) flp_boot))"
  have e: "\<not> isflp_exist flp_boot" by (simp add: flp_boot_def)
  obtain b0 where i: "flp_step ?p (\<lambda>_. 0) (os_fine, Flp_init (Some listener)) (replicate HAL_BUFF_SIZE 0, flp_boot) = Some (b0, h0)"
    "length b0 = HAL_BUFF_SIZE"
    using thread_starts [of flp_boot] e by (auto simp: h0_def)
  have h0: "mtkFlpCallbacks h0 = Some listener" "isflp_exist h0" "location_calls (flp_log h0) = []" "batch h0 = []"
    "inf_gFusedOptions h0 = no_options"
    by (simp_all add: h0_def mtk_flp_init_def listener_def Let_def flp_boot_def flp_note_def flphal2mnl_flp_init_def batch_def ring_contents_def)
  have "flp_reachable ?p h0" using i(1) unfolding flp_reachable_def
    by (intro exI [of _ "\<lambda>_. 0"] exI [of _ "[(os_fine, Flp_init (Some listener))]"] exI [of _ b0]) (simp del: flp_step.simps)
  note w = reachable_wf [OF this]
  have l: "framework_listens h0" using h0(1) by (simp add: framework_listens_def listener_def)
  have p: "hal_location ?p some_location = location_bytes some_location" by (simp add: hal_location_def platform_of_daemon_def)
  obtain b1 m where r: "length b1 = HAL_BUFF_SIZE" "of_le32 m = MSG_HSB_REPORT_LOC_NTF" "message_locations ?p m = Some [location_bytes some_location]"
    "flp_step ?p (\<lambda>_. 0) (os_fine, Flp_recv (Some init_datagram)) (b0, h0) = map_option (Pair b1) (mtk_flp_report_loc ?p m h0)"
    using location_taken [OF w l h0(2) i(2) some_location_facts(1,2) disjI1 [OF host_report_type]]
    unfolding init_datagram_def p by blast
  obtain h1 where h1: "mtk_flp_report_loc ?p m h0 = Some h1" "batch h1 = [location_bytes some_location]" "flp_log h1 = flp_log h0"
    using report_batch(2) [OF w l r(3,2) host_report_type] by (auto simp: h0(4) last_n_def)
  have o: "inf_gFusedOptions h1 = no_options"
    using report_loc_keeps [OF h1(1)] h0(5) by simp
  have "?run (map (Pair os_fine) [Flp_init (Some listener), Flp_recv (Some init_datagram)]) (replicate HAL_BUFF_SIZE 0, flp_boot) = Some (b1, h1)"
    using i(1) r(4) h1(1) by (simp del: flp_step.simps)
  then have q: "hal_with_one = (b1, h1)" "flp_reachable ?p h1"
    unfolding hal_with_one_def flp_reachable_def by (simp del: flp_run.simps, blast)
  show "flp_reachable platform_of_daemon (snd hal_with_one)" "length (fst hal_with_one) = HAL_BUFF_SIZE"
  "batch (snd hal_with_one) = [location_bytes some_location]" "mtkFlpCallbacks (snd hal_with_one) = Some listener"
  "isflp_exist (snd hal_with_one)" "location_calls (flp_log (snd hal_with_one)) = []"
  "batch_flags (inf_gFusedOptions (snd hal_with_one)) = 0" 
    unfolding q(1) using q(2) h1(2,3) report_loc_keeps [OF h1(1)] h0 r(1) o by (simp_all add: no_options_def)
qed

lemma batch_returned_witness:
  "(\<exists>b' h' s'. exchange platform_of_daemon plain_env (Flp_get 5) (hal_with_one, boot ''0x6739'') = Some ((b', h'), s') \<and>
      location_calls (flp_log h') = [[location_bytes some_location]]) \<and>
   (\<exists>b' h' s'. exchange platform_of_daemon plain_env Flp_flush (hal_with_one, boot ''0x6739'') = Some ((b', h'), s') \<and>
      batch h' = [] \<and> location_calls (flp_log h') = [[location_bytes some_location]])"
proof -
  obtain b h where h: "hal_with_one = (b, h)" by force
  note f = hal_with_one_facts [unfolded h, simplified]
  have "framework_listens h" using f(4) by (simp add: framework_listens_def listener_def)
  moreover have "gModeFlag (flp_peer (boot ''0x6739'')) = AP_MODE" using linked_boot(1) by (simp add: linked_def)
  ultimately show ?thesis
    using batch_returned [OF f(1) _ f(5,2), of "boot ''0x6739''" plain_env 5] f(3,6) by (force simp: h)
qed

lemma fix_reaches_batch_witness:
  "\<exists>b' h' s'. daemon_to_hal platform_of_daemon plain_env (Fix_ready (for_provider (some_fix 10)) [] 10 10)
     (hal_with_one, started_daemon) = Some ((b', h'), s') \<and>
   batch h' = [location_bytes some_location, location_bytes some_location]"
proof -
  obtain b h where h: "hal_with_one = (b, h)" by force
  note f = hal_with_one_facts [unfolded h, simplified]
  have l: "has_location listener" "has_status listener" by (simp_all add: listener_def)
  have d: "fix_due (flp_peer started_daemon) 10" by (simp add: fix_due_def started_daemon_facts(2) del: controls_fields)
  have s: "\<not> OFFLOAD_enabled (cfg started_daemon)" "used Flp started_daemon" "penabled (flp_peer started_daemon)"
    "batch_mode (flp_peer started_daemon) > - 1"
    using started_daemon_facts(1) by (simp_all add: provider_runs_def del: controls_fields)
  have n: "length (for_provider (some_fix 10)) \<le> 600" by (simp add: some_fix_def)
  have p: "hal_location platform_of_daemon some_location = location_bytes some_location"
    by (simp add: hal_location_def platform_of_daemon_def)
  show ?thesis
    using fix_reaches_batch [OF f(1,4) l f(5,2) some_location_facts(1) some_location_facts(2) [unfolded some_location_def] s n,
        of "[]" 10 10] some_location_facts(3) d f(3) p
    unfolding some_location_def by (auto simp: h last_n_def Let_def)
qed

section \<open>Data of the offload engine\<close>

lemma zeros: "4 \<le> k \<Longrightarrow> replicate k (0 :: u8) = le32 0 @ replicate (k - 4) 0"
proof -
  assume "4 \<le> k"
  then have "replicate k (0 :: u8) = replicate 4 0 @ replicate (k - 4) 0" by (simp flip: replicate_add)
  moreover have "replicate 4 (0 :: u8) = le32 0" by code_simp
  ultimately show ?thesis by simp
qed

lemma offload_zeros:
  assumes "128 \<le> length buf" "length buf \<le> 1012"
  shows "daemon e (Offload_data buf) s = Inr (emit (To_flp_hal (le32 8 @ replicate 8 0)) s)"
proof -
  let ?n = "length buf"
  have c: "cmd_type (replicate ?n 0) = 0" "of_le32 (drop 4 (replicate ?n 0)) = 0"
    using assms zeros [of ?n] zeros [of "?n - 4"] by (simp_all add: cmd_type_def)
  have n: "new_buff 1024 = cursor [] (replicate 1024 0)" by (simp add: new_buff_def cursor_def)
  have p: "put_binary (replicate ?n 0) 8 (cursor [] (replicate 1024 0)) = Some (cursor ([] @ le32 8 @ replicate 8 0) (replicate 1012 0))"
    unfolding put_binary_cursor using assms by (simp add: min_def)
  have "put_and_send FLP (replicate ?n 0) 8 (new_buff 1024) s = Inr (emit (To_flp_hal (le32 8 @ replicate 8 0)) s)"
    unfolding put_and_send_def n p by (simp add: sent_def cursor_def)
  then have "on_ofl_link_recv_flp e (replicate ?n 0) s = Inr (emit (To_flp_hal (le32 8 @ replicate 8 0)) s)"
    using assms c by (simp add: on_ofl_link_recv_flp_def hal_msg_types)
  moreover have "on_ofl_link_recv_gfc e (replicate ?n 0) x = Inr x" for x
    using assms c by (simp add: on_ofl_link_recv_gfc_def hal_msg_types)
  moreover have "buf \<noteq> []" using assms(1) by auto
  ultimately show ?thesis using assms by (simp add: mtk_gps_ofl_sys_submit_flp_data_def Let_def min_def)
qed

lemma offload_outside:
  "1013 \<le> length buf \<Longrightarrow> length buf < 1023 \<Longrightarrow> daemon e (Offload_data buf) s = Inl Undefined"
  "0 < length buf \<Longrightarrow> length buf < 8 \<Longrightarrow> daemon e (Offload_data buf) s = Inl Undefined"
  "buf = [] \<or> 1023 \<le> length buf \<Longrightarrow> daemon e (Offload_data buf) s = Inr s"
proof -
  show "daemon e (Offload_data buf) s = Inl Undefined" if "1013 \<le> length buf" "length buf < 1023"
  proof -
    have "buf \<noteq> []" "\<not> length buf < 128" using that by auto
    then show ?thesis using that by (simp add: mtk_gps_ofl_sys_submit_flp_data_def)
  qed
  show "daemon e (Offload_data buf) s = Inl Undefined" if "0 < length buf" "length buf < 8"
    using that by (simp add: mtk_gps_ofl_sys_submit_flp_data_def on_ofl_link_recv_flp_def)
  show "daemon e (Offload_data buf) s = Inr s" if "buf = [] \<or> 1023 \<le> length buf"
  proof -
    have "\<not> (buf \<noteq> [] \<and> length buf < 1023)" using that by auto
    then show ?thesis unfolding daemon.simps mtk_gps_ofl_sys_submit_flp_data_def by (rule if_not_P)
  qed
qed

lemma offload_location:
  "daemon e (Offload_data (peer_message MSG_OFL_REPORT_LOC_NTF (location_bytes l))) s =
     Inr (emit (To_flp_hal (le32 72 @ peer_message MSG_OFL_REPORT_LOC_NTF (location_bytes l))) s)"
proof -
  let ?m = "peer_message MSG_OFL_REPORT_LOC_NTF (location_bytes l)"
  have r: "mtk_flp_dc_loc_rearrange l = l" by (cases l) (simp only: mtk_flp_dc_loc_rearrange_def flp_location.select_convs)
  have "cmd_length ?m = 64" using peer_message_fields(4) [of "location_bytes l" MSG_OFL_REPORT_LOC_NTF "[]"] by simp
  then have "on_ofl_link_recv_flp e ?m s = Inr (emit (To_flp_hal (le32 72 @ ?m)) s)"
    using bytes_location_bytes [of l "[]"]
    by (simp add: on_ofl_link_recv_flp_def sizeof_FLP_LOCATION_def hal_msg_types r send_message_eq)
  moreover have "on_ofl_link_recv_gfc e ?m x = Inr x" for x
    by (simp add: on_ofl_link_recv_gfc_def hal_msg_types)
  moreover have "?m \<noteq> []" "take 72 (?m @ replicate 940 0) = ?m" by (simp_all add: peer_message_def)
  ultimately show ?thesis by (simp add: mtk_gps_ofl_sys_submit_flp_data_def Let_def)
qed

text \<open>C32: Data of the offload engine: a location in it, whatever the daemon's state, comes out of the HAL:
  the HAL appends it to its batch, on either platform, and starts its timer, and the timer hands the whole
  batch to the framework, newest first. But of 128 to 1012 bytes nothing arrives: whatever they are, the HAL
  gets the same eight zero bytes, which it ignores; and fewer than eight or 1013 to 1022 bytes make the
  daemon read outside its message. Longer data are dropped.\<close>

theorem offload_data_delivered:
  assumes "flp_reachable p h" "framework_listens h" "isflp_exist h" "length b = HAL_BUFF_SIZE"
    and "known_platform p" "\<not> no_accuracy p (hal_location p l)"
  shows "(\<exists>b' h' h2. daemon_to_hal p e (Offload_data (peer_message MSG_OFL_REPORT_LOC_NTF (location_bytes l))) ((b, h), s) =
        Some ((b', h'), emit (To_flp_hal (le32 72 @ peer_message MSG_OFL_REPORT_LOC_NTF (location_bytes l))) s) \<and>
      batch h' = last_n 30 (batch h @ [hal_location p l]) \<and> fgtimerStarted h' \<and>
      flp_step p (\<lambda>_. 0) (os_fine, Flp_timeout) (b', h') = Some (b', h2) \<and>
      location_calls (flp_log h2) = location_calls (flp_log h) @ [rev (batch h')] \<and> batch h2 = []) \<and>
    (\<forall>buf. 128 \<le> length buf \<and> length buf \<le> 1012 \<longrightarrow>
      (\<exists>b' s'. daemon_to_hal p e (Offload_data buf) ((b, h), s) = Some ((b', h), s') \<and> out s' = out s @ [To_flp_hal (le32 8 @ replicate 8 0)])) \<and>
    (\<forall>buf. 0 < length buf \<and> length buf < 8 \<or> 1013 \<le> length buf \<and> length buf < 1023 \<longrightarrow>
      daemon e (Offload_data buf) s = Inl Undefined) \<and>
    (\<forall>buf. 1023 \<le> length buf \<longrightarrow> daemon e (Offload_data buf) s = Inr s)"
proof (intro conjI allI impI)
  note wf = reachable_wf [OF assms(1)]
  let ?d = "le32 72 @ peer_message MSG_OFL_REPORT_LOC_NTF (location_bytes l)"
  obtain b' m where m: "of_le32 m = MSG_OFL_REPORT_LOC_NTF" "message_locations p m = Some [hal_location p l]"
    "flp_step p (\<lambda>_. 0) (os_fine, Flp_recv (Some ?d)) (b, h) = map_option (Pair b') (mtk_flp_report_loc p m h)"
    using location_taken [OF wf assms(2-6) disjI2 [OF offload_report_type]] by blast
  obtain h' where h': "mtk_flp_report_loc p m h = Some h'" "batch h' = last_n 30 (batch h @ [hal_location p l])"
    "fgtimerStarted h'" "location_calls (flp_log h') = location_calls (flp_log h)"
    using report_batch(1) [OF wf assms(2) m(2,1) offload_report_type] by auto
  have d: "daemon_to_hal p e (Offload_data (peer_message MSG_OFL_REPORT_LOC_NTF (location_bytes l))) ((b, h), s) = Some ((b', h'), emit (To_flp_hal ?d) s)"
    using offload_location [of e l s] m(3) h'(1)
    by (simp add: daemon_to_hal_def delivered_def emit_def del: flp_step.simps daemon.simps)
  have q: "flp_step p (\<lambda>_. 0) (os_fine, Flp_recv (Some ?d)) (b, h) = Some (b', h')" using m(3) h'(1) by (simp del: flp_step.simps)
  have "flp_wf h'" "framework_listens h'" "batch h' \<noteq> []"
    using step_wf [OF wf q] report_loc_keeps [OF h'(1)] assms(2) h'(2) by (auto simp: framework_listens_def last_n_def)
  then obtain h1 where "mtk_flp_flush_loc h' = Some h1" "batch h1 = []" "flp_log h1 = flp_log h' @ [Location_cb (rev (batch h'))]"
    using flush_batch [of h'] by auto
  then have "\<exists>h2. flp_step p (\<lambda>_. 0) (os_fine, Flp_timeout) (b', h') = Some (b', h2) \<and>
      location_calls (flp_log h2) = location_calls (flp_log h) @ [rev (batch h')] \<and> batch h2 = []"
    using h'(4) by (auto simp: flp_timeout_handler_def)
  with d h' show "\<exists>b' h' h2. daemon_to_hal p e (Offload_data (peer_message MSG_OFL_REPORT_LOC_NTF (location_bytes l))) ((b, h), s) =
        Some ((b', h'), emit (To_flp_hal (le32 72 @ peer_message MSG_OFL_REPORT_LOC_NTF (location_bytes l))) s) \<and>
      batch h' = last_n 30 (batch h @ [hal_location p l]) \<and> fgtimerStarted h' \<and>
      flp_step p (\<lambda>_. 0) (os_fine, Flp_timeout) (b', h') = Some (b', h2) \<and>
      location_calls (flp_log h2) = location_calls (flp_log h) @ [rev (batch h')] \<and> batch h2 = []"
    by blast
next
  fix buf :: bytes
  assume "128 \<le> length buf \<and> length buf \<le> 1012"
  then have d: "daemon e (Offload_data buf) s = Inr (emit (To_flp_hal (le32 8 @ replicate 8 0)) s)" using offload_zeros by blast
  have z: "replicate 8 (0 :: u8) = peer_message 0 []"
    using zeros [of 8] zeros [of 4] by (simp add: peer_message_def)
  obtain b' where "flp_step p (\<lambda>_. 0) (os_fine, Flp_recv (Some (le32 8 @ replicate 8 0))) (b, h) = Some (b', h)"
    using thread_takes [OF assms(3,4), of "[]" "[]" _ 0 p "\<lambda>_. 0" os_fine] by (auto simp: z flp_types simp del: flp_step.simps)
  then show "\<exists>b' s'. daemon_to_hal p e (Offload_data buf) ((b, h), s) = Some ((b', h), s') \<and> out s' = out s @ [To_flp_hal (le32 8 @ replicate 8 0)]"
    using d by (simp add: daemon_to_hal_def delivered_def emit_def del: flp_step.simps daemon.simps)
next
  fix buf :: bytes
  assume "0 < length buf \<and> length buf < 8 \<or> 1013 \<le> length buf \<and> length buf < 1023"
  then show "daemon e (Offload_data buf) s = Inl Undefined" using offload_outside by blast
next
  fix buf :: bytes
  assume "1023 \<le> length buf"
  then show "daemon e (Offload_data buf) s = Inr s" using offload_outside(3) by blast
qed

lemma offload_data_delivered_witness:
  "\<exists>b' h' h2. daemon_to_hal platform_of_daemon plain_env (Offload_data (peer_message MSG_OFL_REPORT_LOC_NTF (location_bytes some_location)))
      (hal_with_one, boot ''0x6739'') =
      Some ((b', h'), emit (To_flp_hal (le32 72 @ peer_message MSG_OFL_REPORT_LOC_NTF (location_bytes some_location))) (boot ''0x6739'')) \<and>
    flp_step platform_of_daemon (\<lambda>_. 0) (os_fine, Flp_timeout) (b', h') = Some (b', h2) \<and>
    location_calls (flp_log h2) = [[location_bytes some_location, location_bytes some_location]]"
proof -
  obtain b h where h: "hal_with_one = (b, h)" by force
  note f = hal_with_one_facts [unfolded h, simplified]
  have "framework_listens h" using f(4) by (simp add: framework_listens_def listener_def)
  moreover have "hal_location platform_of_daemon some_location = location_bytes some_location"
    by (simp add: hal_location_def platform_of_daemon_def)
  ultimately show ?thesis
    using offload_data_delivered [OF f(1) _ f(5,2) some_location_facts(1,2), of plain_env "boot ''0x6739''"] f(3,6)
    by (auto simp: h last_n_def simp del: flp_step.simps)
qed

end
