(* ===== verification/Spec2Isabelle.thy ===== *)
theory Spec2Isabelle
  imports Hal_Props Agps_Wire Nmea_Props Bt_Hal_Props Eloop_Props Gfc_Hal_Props Peer_Flow
begin

text \<open>
  Verification of the GPS and location stack, the Bluetooth transport and the event loop of the
  connectivity repository.

  \<^bold>\<open>The program.\<close> The repository holds the user-space side of a combo chip (GPS, Bluetooth, FM
  radio, WLAN). The core logic of its GPS part is the daemon \<open>mnld\<close> (\<open>gps/mtk_mnld\<close>), which owns the
  receiver and arbitrates it between clients: the GPS HAL of the Android framework
  (\<open>gps/gps_hal\<close>), the AGPS daemon, the fused location provider and the geofence service (threads of
  the daemon itself, with an offload path to the connectivity processor), and factory, meta, AT
  and debug clients. The processes exchange datagrams over local sockets. Inside the daemon, the
  main thread runs the state machine \<open>mnld_fsm\<close>; a control thread starts, stops and resets the
  receiver through the vendor's positioning library and reports back over an internal socket.

  The framework's ends of the geofence service and of the fused location provider are libraries of their own
  (\<open>gfchal_mnl_interface.c\<close> in \<open>gps/gps_hal\<close>, and \<open>gps/flp_hal\<close>), which talk to those threads of the daemon by
  datagrams.

  Two more parts of the user-space side have logic of their own and are modelled beside it: the
  Bluetooth HAL service (\<open>bluetooth/service\<close>), which opens the controller and moves HCI packets between
  it and the Bluetooth stack, and the event loop (\<open>combo_tool/src/stp_dump/eloop.c\<close>) that drives the
  firmware's debug tool.

  \<^bold>\<open>The theories.\<close> Each names in its opening text the files it translates.

  \<^item> \<open>Prelude\<close>: machine types, NUL-terminated strings, lemma collections, generic lemmas.
  \<^item> \<open>Data_Coder\<close> (\<open>utility/src/data_coder.c\<close>): the readers and writers of all protocols. An access
    outside an array is \<open>None\<close>. Round trips, and exactly which reads stay inside the datagram.
  \<^item> \<open>Datagram\<close> (\<open>safe_sendto\<close>, \<open>safe_recvfrom\<close> of \<open>mtk_lbs_utility.c\<close>): the retry loops by recursion
    on the remaining retries, and the locale \<open>channel\<close>: a sender and a handler that agree.
  \<^item> \<open>Hal2Mnl\<close>, \<open>Rate_Limit\<close>, \<open>Mnl2Hal\<close> (\<open>hal2mnl_interface.c\<close>, \<open>mnl2hal_interface.c\<close>): the two
    directions of the HAL protocol, all senders and both handlers, and the limiter that thins out
    the location reports, in single precision. Both directions interpret \<open>channel\<close>.
  \<^item> \<open>Agps_Wire\<close> (\<open>mnl2agps_interface.c\<close>, \<open>agps2mnl_interface.c\<close>): the protocol between the daemon and
    the AGPS daemon.
  \<^item> \<open>Mnld_State\<close>, \<open>Mnld_Clients\<close> (\<open>mnld.c\<close>, \<open>gps_controller.c\<close>): the daemon's state as one record, with
    the calls that leave the daemon appended to the log \<open>out\<close>; users of the receiver, status
    queries.
  \<^item> \<open>Peers\<close>, \<open>Peer_Requests\<close> (\<open>mtk_flp_main.c\<close>, \<open>mtk_flp_mnl_interface.c\<close>, \<open>mtk_geofence_main.c\<close>,
    \<open>mtk_geofence_controller.c\<close>): sessions of the two in-process peers, the replies they take, the
    requests they make, and the queue each keeps while its link opens. The two sides have the same
    code and share definitions over \<open>peer_id\<close>.
  \<^item> \<open>Peer_Control\<close> (the same files and \<open>mtk_flp_controller.c\<close>): the datagrams of the two HALs, the
    controllers that run when the work is not offloaded, fixes and the data of the offload engine.
  \<^item> \<open>Mnld_Fsm\<close> with \<open>Fsm_Facts\<close> and \<open>Fsm_Props\<close>: the seven state functions, every event in every state;
    a crash (\<open>CRASH_TO_DEBUG\<close>) is the \<open>Inl\<close> side of the result. The refinement to the abstract table
    of states, commands to the control thread, and acknowledgements.
  \<^item> \<open>Text_Util\<close>, \<open>Mnld_Handlers\<close>, \<open>Agps_Settings\<close>: the callback tables of the daemon for HAL, AGPS, meta
    and debug requests, and the texts they convert.
  \<^item> \<open>Main_Event\<close>, \<open>Gps_Control\<close>: the internal socket, the timeouts, the control thread's command
    protocol and the NMEA keep-alive.
  \<^item> \<open>Daemon\<close>: all of this behind one type of \<open>stimulus\<close>, runs from boot, and the locale
    \<open>daemon_invariant\<close>, whose interpretations in \<open>Invariants\<close> are the invariants of every run.
  \<^item> \<open>Service\<close>: the daemon closed with a control thread that confirms what it was told, and what the
    clients get from it.
  \<^item> \<open>Gps_Hal\<close>, \<open>Hal_Props\<close> (\<open>gpshal.c\<close>, \<open>gpsinf.c\<close>, \<open>agpsinf.c\<close>, \<open>gpshal_worker.c\<close>): the HAL process, its
    state and intent, and what it guarantees the framework.
  \<^item> \<open>At_Test\<close>, \<open>At_Props\<close> (\<open>mnl_at_interface.c\<close>): the client of the AT commands, which starts the receiver
    for factory tests and evaluates the satellites it measures; when a test ends, and which command
    datagrams make it leave its arrays.
  \<^item> \<open>Nmea_Parser\<close>, \<open>Nmea_Props\<close> (\<open>nmea_parser.c\<close>, \<open>str2int\<close> of \<open>mnl_common.c\<close>): the reader of the receiver's
    text, byte by byte, its tokenizer, every sentence and the reports to HAL and daemon. The locales
    \<open>field_invariant\<close> and \<open>sentence_invariant\<close> reduce an invariant of the reader to its assignments;
    their interpretations give the framing, the reports, the sizes of the arrays and the ownership
    of the AT client's samples. Floating-point arithmetic and the calendar are parameters.
  \<^item> \<open>Bt_Hci\<close>, \<open>Bt_Props\<close> (\<open>hci_packetizer.cc\<close>, \<open>h4_protocol.cc\<close>, \<open>mct_protocol.cc\<close>, \<open>hci_protocol.cc\<close>,
    \<open>bt_mtk_debugger.cc\<close>): one packetizer for all transports, fed by whatever \<open>read\<close> delivers; the locale
    \<open>framing\<close> says that a stream of packets in any fragmentation is delivered packet by packet.
  \<^item> \<open>Bt_Hal\<close>, \<open>Bt_Hal_Props\<close> (\<open>vendor_interface.cc\<close>, \<open>bluetooth_hci.cc\<close>, \<open>bluetooth_death_recipient\<close>): the life of
    the vendor interface, low power mode, the internal command, and the service's calls, as runs of one
    step function; the locale \<open>bt_invariant\<close> and its interpretations are the invariants of all runs.
  \<^item> \<open>Eloop\<close>, \<open>Eloop_Props\<close> (\<open>eloop.c\<close>): the tables of sockets, timeouts and signals with the callbacks as a
    parameter that may call back into the loop; the locale \<open>loop_invariant\<close>; the loop against a
    specification that says which callbacks a pass makes.

  \<^item> \<open>Peer_Hal\<close>: what the next two share: the kernel's answers, the datagram, reads of a message.
  \<^item> \<open>Gfc_Hal\<close>, \<open>Gfc_Hal_Props\<close> (\<open>gfchal_mnl_interface.c\<close>, \<open>geofenceinf.c\<close>): the table of thirty fences, the
    commands, the daemon's messages and the receiving thread; the locale \<open>fence_invariant\<close> and its
    interpretations, the table as a map from identifiers, and where the code departs from that map.
  \<^item> \<open>Flp_Hal\<close>, \<open>Flp_Hal_Props\<close> (\<open>flpinf.c\<close>, \<open>hal2flp_interface.c\<close>, \<open>flp2hal_interface.c\<close>): the ring of
    batched locations as an instance of the locale \<open>bounded_queue\<close>, the options of the instances and what
    the daemon is told of them.
  \<^item> \<open>Peer_Props\<close>: the HAL of the fused location provider, \<open>Peer_Control\<close> and the daemon's state machine as
    one system over runs of the framework's calls: options and users agree on both sides.
  \<^item> \<open>Peer_Flow\<close>: what passes through that system: fixes of the receiver and of the offload engine into the
    batch, thinned out to the period, and the batch back to the framework.

  \<^bold>\<open>Conventions.\<close> What is not in the repository (the kernel's answers to \<open>read\<close>, \<open>write\<close> and \<open>select\<close>, the
  vendor's Bluetooth library, the framework's callbacks) is a parameter or an input of the step. C integers are words; \<open>sint\<close> reads a signed one. \<open>float\<close> and \<open>double\<close> values are
  carried as bit patterns except in the rate limiter, which computes with them. Structs of the
  platform's or the library's headers travel as byte strings whose sizes are parameters.
  Configuration (build options, properties, chip) is the environment record \<open>e\<close>. Threads are
  interleaved at the granularity of one handler call: that is the program's own discipline, as
  the main thread alone runs the state machine.

  \<^bold>\<open>Bounds.\<close> Every function is total and there is no fuel in the model of the code. The closed
  system of \<open>Service\<close> is given a number of confirmations: three are enough for a start from every
  state (stop, start or reset in flight; its stop; the start), two for a stop, and the theorems
  are stated with these numbers. An AT test of \<open>n\<close> samples, \<open>n\<close> at most 2000, ends within \<open>n + 19\<close>
  epochs.

  \<^bold>\<open>Not modelled.\<close> The positioning library and its headers are vendor binaries. Device files, serial
  ports, \<open>epoll\<close>, thread and timer creation are I/O. The downloads of ephemeris files
  (\<open>epo.c\<close>, \<open>qepo.c\<close>, \<open>mtknav.c\<close>) stand beside the core.
  The Bluetooth driver libraries, FM radio, WLAN and the combo tools other than their event loop are
  drivers and test tools that share no state with the parts above; the other HIDL services are C++ glue generated from the platform's
  interface files. Field by field copies between layouts of measurement structs are left out of
  \<open>Gps_Hal\<close>.
\<close>

section \<open>A HAL session over the wire\<close>

text \<open>C8: a start request travels from the HAL to the daemon and its answer back: the datagram of
  \<open>hal2mnl_gps_start\<close> makes the daemon's socket handler call the start handler; once the control
  thread has confirmed, the receiver is started and the two status reports the daemon has sent are
  datagrams that make the HAL's handler call its status callback with engine-on and then
  session-begin.\<close>

theorem hal_start_over_the_wire:
  "\<exists>d m s' ds. hal2mnl_gps_start = Some d \<and> hal2mnl_hdlr (\<lambda>_. True) (Some d) = Some (0, Some m) \<and>
     res_bind (daemon e (From_hal m) s) (settle 3 e) = Inr s' \<and> state_of s' = STARTED \<and>
     those (map mnl2hal_gps_status (drop (length (hal_status s)) (hal_status s'))) = Some ds \<and>
     map (\<lambda>d. mnl2hal_hdlr a junk (\<lambda>_. True) (Some d) r) ds =
       [Some (0, Some (Gps_status SESSION_ENGINE_ON), r), Some (0, Some (Gps_status SESSION_BEGIN), r)]"
proof -
  obtain d where d: "hal2mnl_gps_start = Some d"
    "hal2mnl_hdlr (\<lambda>_. True) (Some d) = Some (0, Some hal2mnl_msg.Gps_start)"
    using hal2mnl.transport [of hal2mnl_msg.Gps_start] by auto
  obtain s' where s': "res_bind (daemon e (From_hal hal2mnl_msg.Gps_start) s) (settle 3 e) = Inr s'"
    "state_of s' = STARTED" "hal_status s' = hal_status s @ [SESSION_ENGINE_ON, SESSION_BEGIN]"
    using hal_start_settles [of e s] by auto
  have "\<exists>x. mnl2hal_gps_status v = Some x \<and> mnl2hal_hdlr a junk (\<lambda>_. True) (Some x) r = Some (0, Some (Gps_status v), r)" for v
    using mnl2hal_transport_word [of "Gps_status v" v a junk r]
    by (auto simp: mnl2hal_outcome_def mnl2hal_gated_def location_gate_def)
  then obtain w where "mnl2hal_gps_status v = Some (w v)"
    "mnl2hal_hdlr a junk (\<lambda>_. True) (Some (w v)) r = Some (0, Some (Gps_status v), r)" for v by metis
  then show ?thesis using d s' by auto
qed

section \<open>AGPS over the wire\<close>

text \<open>An open request of AGPS travels to the daemon and its confirmation back: the datagram of
  \<open>agps2mnl_agps_open_gps_req\<close> makes the daemon's handler call the open handler; once the control
  thread has confirmed, the receiver is started, and the confirmation the daemon has sent is one
  datagram that makes the AGPS side's handler call \<open>open_gps_done\<close>.\<close>

theorem agps_open_over_the_wire:
  "\<exists>d m s' ds. agps2mnl_agps_open_gps_req icon = Some d \<and> agps2mnl_hdlr a junk (\<lambda>_. True) (Some d) = Some (Some m) \<and>
     res_bind (daemon e (From_agps m) s) (settle 3 e) = Inr s' \<and> state_of s' = STARTED \<and>
     those (map (to_agps f2i d2f ack) (drop (length (agps_replies s)) (agps_replies s'))) = Some ds \<and>
     map (\<lambda>d. mnl2agps_hdlr (\<lambda>_. True) (Some d)) ds = [Some (Some M2a_open_gps_done)]"
proof -
  obtain d where d: "agps2mnl_agps_open_gps_req icon = Some d"
    "agps2mnl_hdlr a junk (\<lambda>_. True) (Some d) = Some (Some (Agps2_open_gps_req icon))"
    using agps2mnl.transport [of a "Agps2_open_gps_req icon" junk] by auto
  obtain x where x: "mnl2agps_open_gps_done = Some x" "mnl2agps_hdlr (\<lambda>_. True) (Some x) = Some (Some M2a_open_gps_done)"
    using mnl2agps.transport [of M2a_open_gps_done] by auto
  obtain s' where s': "res_bind (daemon e (From_agps (Agps2_open_gps_req icon)) s) (settle 3 e) = Inr s'"
    "state_of s' = STARTED" "agps_replies s' = agps_replies s @ [Agps_open_gps_done]"
    using agps_open_settles [of e icon s] by blast
  have "those (map (to_agps f2i d2f ack) (drop (length (agps_replies s)) (agps_replies s'))) = Some [x]"
    by (simp add: s'(3) x(1))
  with d x(2) s'(1,2) show ?thesis by fastforce
qed

text \<open>The requests of the HAL that the daemon hands on to AGPS, and what AGPS gets.\<close>

fun relayed :: "hal2mnl_msg \<Rightarrow> mnl2agps_msg option" where
    "relayed Gps_init = Some M2a_gps_init"
  | "relayed Gps_cleanup = Some M2a_gps_cleanup"
  | "relayed (Gps_set_position_mode mode _ _ _ _) = Some (M2a_set_position_mode mode)"
  | "relayed (Data_conn_open apn) = Some (M2a_data_conn_open apn)"
  | "relayed (Data_conn_open_with_apn_ip_type apn ip_type) = Some (M2a_data_conn_open_ip_type apn ip_type)"
  | "relayed Data_conn_closed = Some M2a_data_conn_closed"
  | "relayed Data_conn_failed = Some M2a_data_conn_failed"
  | "relayed (Set_server type hostname port) = Some (M2a_set_server type hostname port)"
  | "relayed (Set_ref_location type mcc mnc lac cid) = Some (M2a_set_ref_loc type mcc mnc lac cid)"
  | "relayed (Set_id type setid) = Some (M2a_set_set_id type setid)"
  | "relayed (Ni_message msg len) = Some (M2a_ni_message (padded 1024 msg (min len 1024)) (min len 1024))"
  | "relayed (Ni_respond notif_id user_response) = Some (M2a_ni_respond notif_id user_response)"
  | "relayed (Update_network_availability available apn) = Some (M2a_update_network_availability available apn)"
  | "relayed _ = None"

lemmas relay_handlers = hal_gps_init_def hal_gps_cleanup_def hal_gps_set_position_mode_def hal_data_conn_open_def
  hal_data_conn_open_with_apn_ip_type_def hal_data_conn_closed_def hal_data_conn_failed_def hal_set_server_def
  hal_set_ref_location_def hal_set_id_def hal_ni_message_def hal_ni_respond_def hal_update_network_availability_def

lemma agps_string_wire: "wire_string t \<Longrightarrow> agps_string 65500 t"
  by (cases t) auto

lemma relay_wf:
  assumes "wf_hal2mnl m" "relayed m = Some m'"
  shows "wf_mnl2agps m'" "mnl2agps_seen m' = m'"
  using assms by (cases m; auto simp: agps_string_wire agps_blob_def padded_def min_def)+

lemma relay_step:
  assumes "wf_hal2mnl m" "relayed m = Some m'"
  shows "\<exists>s' x. daemon e (From_hal (hal2mnl_seen m)) s = Inr s' \<and> out s' = out s @ [To_agps x] \<and>
    to_agps f2i d2f ack x = mnl2agps_send m'"
  using assms
  by (cases m) (auto simp: relay_handlers emit_def set_gps_def Let_def padded_def min_def nat_le_iff)

text \<open>C9: AGPS-related requests of the framework pass through the daemon unchanged: for each of thirteen
  requests, the HAL's datagram makes the daemon's handler call a callback that sends exactly one
  datagram, to AGPS, and the AGPS side's handler then calls the corresponding callback with the
  same arguments (a network-initiated message is cut to 1024 bytes).\<close>

theorem hal_requests_relayed:
  assumes "wf_hal2mnl m" "relayed m = Some m'"
  shows "\<exists>d m1 s' x d'. hal2mnl_send m = Some d \<and> hal2mnl_hdlr (\<lambda>_. True) (Some d) = Some (0, Some m1) \<and>
    daemon e (From_hal m1) s = Inr s' \<and> out s' = out s @ [To_agps x] \<and>
    to_agps f2i d2f ack x = Some d' \<and> mnl2agps_hdlr (\<lambda>_. True) (Some d') = Some (Some m')"
  using hal2mnl.transport [OF assms(1)] relay_step [OF assms, of e s f2i d2f ack]
    mnl2agps.transport [OF relay_wf(1) [OF assms]] relay_wf(2) [OF assms] by metis

theorem hal_requests_relayed_witness:
  "\<exists>d m1 s' x d'. hal2mnl_send (Set_server 1 (Some [115, 117, 112, 108]) 7275) = Some d \<and>
    hal2mnl_hdlr (\<lambda>_. True) (Some d) = Some (0, Some m1) \<and>
    daemon env_default (From_hal m1) mnld_boot = Inr s' \<and> out s' = out mnld_boot @ [To_agps x] \<and>
    to_agps id ucast (\<lambda>_. []) x = Some d' \<and>
    mnl2agps_hdlr (\<lambda>_. True) (Some d') = Some (Some (M2a_set_server 1 (Some [115, 117, 112, 108]) 7275))"
  by (rule hal_requests_relayed) (simp_all add: c_string_def)

section \<open>An AT test and the receiver\<close>

text \<open>The calls of the AT client into the daemon.\<close>

fun at_stimuli :: "at_effect list \<Rightarrow> stimulus list" where
    "at_stimuli [] = []"
  | "at_stimuli (At_gps_start # xs) = At_test_start # at_stimuli xs"
  | "at_stimuli (At_gps_stop # xs) = At_test_stop # at_stimuli xs"
  | "at_stimuli (x # xs) = at_stimuli xs"

lemma at_stimuli_append: "at_stimuli (xs @ ys) = at_stimuli xs @ at_stimuli ys"
  by (induction xs rule: at_stimuli.induct) simp_all



end
